(* ===== verification/Py_Prelude.thy ===== *)
theory Py_Prelude
  imports Main "HOL-Library.Char_ord" "HOL-Library.List_Lexorder" "HOL-Library.Monad_Syntax"
    "HOL-Library.Sublist" "HOL-Library.Code_Target_Nat"
begin

text \<open>
  The part of Python's \<^verbatim>\<open>str\<close> that the deployment scripts use, and the small lemmas every
  component shares.

  A Python string is a list of characters (\<^typ>\<open>string\<close>), one per code point, for code
  points below 256. Character classes follow Python's Unicode tables on that range: white space
  (\<^verbatim>\<open>str.isspace\<close>), letters and digits (\<^verbatim>\<open>str.isalnum\<close>), lower case. A raised
  exception that no handler of the modelled function catches is the value \<^term>\<open>None\<close>.

  Lists of messages are built with \<open>msg_if\<close> and \<open>fmt\<close>: \<open>fmt\<close> is Python's \<^verbatim>\<open>%\<close>
  operator on a template and already converted arguments. It stays folded in proofs.
\<close>

named_theorems guard_simps \<open>equations that turn "no problem reported" into the condition checked\<close>
named_theorems py_str_simps \<open>evaluation rules of the string operations\<close>


section \<open>Characters\<close>

definition ccode :: "char \<Rightarrow> nat" where
  "ccode c = of_char c"

definition in_range :: "nat \<Rightarrow> nat \<Rightarrow> char \<Rightarrow> bool" where
  "in_range lo hi c \<longleftrightarrow> lo \<le> ccode c \<and> ccode c \<le> hi"

definition is_digit :: "char \<Rightarrow> bool" where
  "is_digit c \<longleftrightarrow> in_range 48 57 c"

definition is_lower_az :: "char \<Rightarrow> bool" where
  "is_lower_az c \<longleftrightarrow> in_range 97 122 c"

definition is_upper_az :: "char \<Rightarrow> bool" where
  "is_upper_az c \<longleftrightarrow> in_range 65 90 c"

definition is_alpha_ascii :: "char \<Rightarrow> bool" where
  "is_alpha_ascii c \<longleftrightarrow> is_lower_az c \<or> is_upper_az c"

definition is_alnum_ascii :: "char \<Rightarrow> bool" where
  "is_alnum_ascii c \<longleftrightarrow> is_alpha_ascii c \<or> is_digit c"

definition is_hex_lower :: "char \<Rightarrow> bool" where
  "is_hex_lower c \<longleftrightarrow> is_digit c \<or> in_range 97 102 c"

text \<open>\<^verbatim>\<open>str.isspace\<close> below 256: tab to carriage return, the four separators, space,
  next line and the no-break space.\<close>

definition is_space :: "char \<Rightarrow> bool" where
  "is_space c \<longleftrightarrow> in_range 9 13 c \<or> in_range 28 32 c \<or> ccode c = 133 \<or> ccode c = 160"

text \<open>\<^verbatim>\<open>\w\<close>: \<^verbatim>\<open>str.isalnum\<close> or an underscore; above 127 the letters, the
  superscript digits and the vulgar fractions of Latin-1.\<close>

definition is_word :: "char \<Rightarrow> bool" where
  "is_word c \<longleftrightarrow> is_alnum_ascii c \<or> ccode c = 95 \<or> ccode c \<in> {170, 178, 179, 181, 185, 186, 188, 189, 190}
     \<or> (in_range 192 255 c \<and> ccode c \<noteq> 215 \<and> ccode c \<noteq> 247)"

text \<open>Unicode general categories Cc and Cf below 256 (Cs, Co and Cn have no member there).\<close>

definition is_control :: "char \<Rightarrow> bool" where
  "is_control c \<longleftrightarrow> ccode c < 32 \<or> in_range 127 159 c \<or> ccode c = 173"

definition char_lower :: "char \<Rightarrow> char" where
  "char_lower c =
     (if is_upper_az c \<or> (in_range 192 222 c \<and> ccode c \<noteq> 215) then char_of (ccode c + 32) else c)"

text \<open>The upper-case forms of the micro sign and of y with diaeresis lie above 255 and are kept
  as they are; none of the modelled comparisons can tell the difference.\<close>

definition char_upper :: "char \<Rightarrow> string" where
  "char_upper c =
     (if is_lower_az c \<or> (in_range 224 254 c \<and> ccode c \<noteq> 247) then [char_of (ccode c - 32)]
      else if ccode c = 223 then ''SS'' else [c])"

definition lower :: "string \<Rightarrow> string" where
  "lower s = map char_lower s"

definition upper :: "string \<Rightarrow> string" where
  "upper s = concat (map char_upper s)"

lemma length_lower [simp]: "length (lower s) = length s"
  by (simp add: lower_def)

lemma lower_append [simp]: "lower (s @ t) = lower s @ lower t"
  by (simp add: lower_def)

lemma lower_Nil [simp]: "lower [] = []"
  by (simp add: lower_def)

lemma lower_Cons [simp]: "lower (c # s) = char_lower c # lower s"
  by (simp add: lower_def)


section \<open>Searching and cutting\<close>

abbreviation py_startswith :: "string \<Rightarrow> string \<Rightarrow> bool" where
  "py_startswith s p \<equiv> prefix p s"

abbreviation py_endswith :: "string \<Rightarrow> string \<Rightarrow> bool" where
  "py_endswith s p \<equiv> suffix p s"

abbreviation py_in :: "string \<Rightarrow> string \<Rightarrow> bool" where
  "py_in needle hay \<equiv> sublist needle hay"

text \<open>\<open>cut_at sep s\<close> is the text before and after the first occurrence of \<open>sep\<close>, or \<^term>\<open>None\<close>.\<close>

fun cut_at :: "string \<Rightarrow> string \<Rightarrow> (string \<times> string) option" where
  "cut_at sep [] = (if sep = [] then Some ([], []) else None)"
| "cut_at sep (c # cs) =
     (if prefix sep (c # cs) then Some ([], drop (length sep) (c # cs))
      else map_option (\<lambda>(a, b). (c # a, b)) (cut_at sep cs))"

definition rcut :: "string \<Rightarrow> string \<Rightarrow> (string \<times> string) option" where
  "rcut sep s = map_option (\<lambda>(a, b). (rev b, rev a)) (cut_at (rev sep) (rev s))"

text \<open>\<^verbatim>\<open>s.partition(sep)\<close>: the separator found flag replaces the middle component.\<close>

definition partition_at :: "string \<Rightarrow> string \<Rightarrow> string \<times> bool \<times> string" where
  "partition_at sep s = (case cut_at sep s of None \<Rightarrow> (s, False, []) | Some (a, b) \<Rightarrow> (a, True, b))"

text \<open>\<^verbatim>\<open>s.split(sep)[0]\<close> and \<^verbatim>\<open>s.rsplit(sep, 1)[-1]\<close>.\<close>

definition split_head :: "string \<Rightarrow> string \<Rightarrow> string" where
  "split_head sep s = (case cut_at sep s of None \<Rightarrow> s | Some (a, b) \<Rightarrow> a)"

definition rsplit_last :: "string \<Rightarrow> string \<Rightarrow> string" where
  "rsplit_last sep s = (case rcut sep s of None \<Rightarrow> s | Some (a, b) \<Rightarrow> b)"

lemma cut_at_SomeD: "sep \<noteq> [] \<Longrightarrow> cut_at sep s = Some (a, b) \<Longrightarrow> s = a @ sep @ b"
proof (induction s arbitrary: a)
  case Nil
  then show ?case by simp
next
  case (Cons c cs)
  show ?case
  proof (cases "prefix sep (c # cs)")
    case True
    with Cons.prems show ?thesis by (auto simp: prefix_def)
  next
    case False
    with Cons.prems obtain a' where "cut_at sep cs = Some (a', b)" and "a = c # a'"
      by auto
    with Cons show ?thesis by simp
  qed
qed

lemma cut_at_None: "sep \<noteq> [] \<Longrightarrow> cut_at sep s = None \<longleftrightarrow> \<not> sublist sep s"
proof (induction s)
  case Nil
  then show ?case by simp
next
  case (Cons c cs)
  then show ?case by (auto simp: sublist_Cons_right)
qed

lemma cut_at_char: "cut_at [d] (a @ d # b) = Some (a, b)" if "d \<notin> set a"
  using that by (induction a) auto

lemma cut_at_length: "sep \<noteq> [] \<Longrightarrow> cut_at sep s = Some (a, b) \<Longrightarrow> length b < length s"
  using cut_at_SomeD by fastforce

function split_on :: "string \<Rightarrow> string \<Rightarrow> string list" where
  "split_on sep s =
     (if sep = [] then [s] else case cut_at sep s of None \<Rightarrow> [s] | Some (a, b) \<Rightarrow> a # split_on sep b)"
  by pat_completeness auto
termination
  by (relation "measure (\<lambda>(sep, s). length s)") (auto dest: cut_at_length)

declare split_on.simps [simp del]

lemma split_on_no_sep: "sep \<noteq> [] \<Longrightarrow> \<not> sublist sep s \<Longrightarrow> split_on sep s = [s]"
  by (subst split_on.simps) (simp add: cut_at_None [THEN iffD2])

lemma split_on_char:
  "d \<notin> set a \<Longrightarrow> split_on [d] (a @ d # b) = a # split_on [d] b"
  by (subst split_on.simps) (simp add: cut_at_char)

lemma sublist_single: "sublist [c] s \<longleftrightarrow> c \<in> set s"
  by (auto simp: sublist_def in_set_conv_decomp)

lemma split_on_not_in: "c \<notin> set s \<Longrightarrow> split_on [c] s = [s]"
  by (simp add: split_on_no_sep sublist_single)

lemma split_on_nonempty [simp]: "split_on sep s \<noteq> []"
  by (subst split_on.simps) (auto split: option.split)

fun join :: "string \<Rightarrow> string list \<Rightarrow> string" where
  "join sep [] = []"
| "join sep [s] = s"
| "join sep (s # t # ss) = s @ sep @ join sep (t # ss)"

definition replace_all :: "string \<Rightarrow> string \<Rightarrow> string \<Rightarrow> string" where
  "replace_all old new s = join new (split_on old s)"

definition count_sub :: "string \<Rightarrow> string \<Rightarrow> nat" where
  "count_sub sub s = length (split_on sub s) - 1"

definition lstrip :: "string \<Rightarrow> string" where
  "lstrip s = dropWhile is_space s"

definition rstrip :: "string \<Rightarrow> string" where
  "rstrip s = rev (dropWhile is_space (rev s))"

definition strip :: "string \<Rightarrow> string" where
  "strip s = rstrip (lstrip s)"

definition strip_chars :: "string \<Rightarrow> string \<Rightarrow> string" where
  "strip_chars cs s = rev (dropWhile (\<lambda>c. c \<in> set cs) (rev (dropWhile (\<lambda>c. c \<in> set cs) s)))"

definition lstrip_chars :: "string \<Rightarrow> string \<Rightarrow> string" where
  "lstrip_chars cs s = dropWhile (\<lambda>c. c \<in> set cs) s"

lemma strip_id:
  assumes "s \<noteq> [] \<longrightarrow> \<not> is_space (hd s) \<and> \<not> is_space (last s)"
  shows "strip s = s"
proof (cases s)
  case Nil
  then show ?thesis by (simp add: strip_def lstrip_def rstrip_def)
next
  case (Cons c cs)
  with assms have l: "lstrip s = s" by (simp add: lstrip_def)
  from Cons have ne: "s \<noteq> []" by simp
  with assms have "rev s \<noteq> []" and "\<not> is_space (hd (rev s))"
    by (simp_all add: hd_rev del: rev_append)
  then have "dropWhile is_space (rev s) = rev s"
    by (cases "rev s") auto
  with l show ?thesis by (simp add: strip_def rstrip_def)
qed

lemma split_on_set: "set s \<subseteq> {d} \<union> \<Union>(set ` set (split_on [d] s))"
proof (induction s rule: measure_induct_rule [of length])
  case (less s)
  show ?case
  proof (cases "d \<in> set s")
    case True
    then obtain a b where ab: "s = a @ d # b" "d \<notin> set a" by (auto dest: split_list_first)
    with less.IH [of b] show ?thesis by (auto simp: split_on_char)
  qed (auto simp: split_on_not_in)
qed

lemma dropWhile_idem: "dropWhile P (dropWhile P s) = dropWhile P s"
  by (induction s) auto

lemma dropWhile_hd: "dropWhile P s = [] \<or> \<not> P (hd (dropWhile P s))"
  by (induction s) auto

lemma last_rstrip: "rstrip s = [] \<or> \<not> is_space (last (rstrip s))"
  using dropWhile_hd [of is_space "rev s"] by (auto simp: rstrip_def last_rev)

lemma hd_rstrip: "rstrip s \<noteq> [] \<Longrightarrow> hd (rstrip s) = hd s"
proof -
  assume ne: "rstrip s \<noteq> []"
  have "suffix (dropWhile is_space (rev s)) (rev s)" by (rule suffix_dropWhile)
  then have "prefix (rstrip s) s" by (simp add: rstrip_def suffix_to_prefix)
  with ne show ?thesis by (metis hd_append2 prefixE)
qed

lemma strip_strip [simp]: "strip (strip s) = strip s"
proof (rule strip_id)
  show "strip s \<noteq> [] \<longrightarrow> \<not> is_space (hd (strip s)) \<and> \<not> is_space (last (strip s))"
  proof
    assume ne: "strip s \<noteq> []"
    then have "hd (strip s) = hd (lstrip s)" by (simp add: strip_def hd_rstrip)
    moreover have "lstrip s \<noteq> []" using ne by (auto simp: strip_def rstrip_def)
    ultimately have "\<not> is_space (hd (strip s))" using dropWhile_hd [of is_space s] unfolding lstrip_def by metis
    moreover have "\<not> is_space (last (strip s))" using ne last_rstrip by (auto simp: strip_def)
    ultimately show "\<not> is_space (hd (strip s)) \<and> \<not> is_space (last (strip s))" by blast
  qed
qed

lemma strip_no_space: "list_all (\<lambda>c. \<not> is_space c) s \<Longrightarrow> strip s = s"
  by (intro strip_id) (auto simp: list_all_iff)

lemma rstrip_id_append: "rstrip b = b \<Longrightarrow> b \<noteq> [] \<Longrightarrow> rstrip (a @ b) = a @ b"
proof -
  assume b: "rstrip b = b" "b \<noteq> []"
  with last_rstrip [of b] have "\<not> is_space (last b)" by auto
  with b(2) show ?thesis by (cases b rule: rev_cases) (simp_all add: rstrip_def)
qed

lemma stripped_last: "strip v = v \<Longrightarrow> v \<noteq> [] \<Longrightarrow> \<not> is_space (last v)"
  using last_rstrip [of "lstrip v"] by (auto simp: strip_def)

text \<open>\<^verbatim>\<open>str.splitlines\<close>: line feed, carriage return (and the pair), vertical tab, form feed,
  the three upper separators and next line end a line; a final line break adds no empty line.\<close>

definition is_line_break :: "char \<Rightarrow> bool" where
  "is_line_break c \<longleftrightarrow> in_range 10 13 c \<or> in_range 28 30 c \<or> ccode c = 133"

text \<open>Evaluation of the character classes on the bits of a character.\<close>

lemmas class_bits = is_digit_def is_lower_az_def is_upper_az_def is_hex_lower_def is_space_def is_line_break_def char_lower_def in_range_def ccode_def

lemma is_digit_code [code]:
  "is_digit (Char b0 b1 b2 b3 b4 b5 b6 b7) \<longleftrightarrow> \<not> b7 \<and> \<not> b6 \<and> b5 \<and> b4 \<and> (\<not> b3 \<or> \<not> b2 \<and> \<not> b1)"
  by (cases b0; cases b1; cases b2; cases b3; cases b4; cases b5; cases b6; cases b7) (simp_all add: class_bits)

lemma is_lower_az_code [code]:
  "is_lower_az (Char b0 b1 b2 b3 b4 b5 b6 b7) \<longleftrightarrow>
     \<not> b7 \<and> b6 \<and> b5 \<and> (b4 \<or> b3 \<or> b2 \<or> b1 \<or> b0) \<and> \<not> (b4 \<and> b3 \<and> (b2 \<or> b1 \<and> b0))"
  by (cases b0; cases b1; cases b2; cases b3; cases b4; cases b5; cases b6; cases b7) (simp_all add: class_bits)

lemma is_upper_az_code [code]:
  "is_upper_az (Char b0 b1 b2 b3 b4 b5 b6 b7) \<longleftrightarrow>
     \<not> b7 \<and> b6 \<and> \<not> b5 \<and> (b4 \<or> b3 \<or> b2 \<or> b1 \<or> b0) \<and> \<not> (b4 \<and> b3 \<and> (b2 \<or> b1 \<and> b0))"
  by (cases b0; cases b1; cases b2; cases b3; cases b4; cases b5; cases b6; cases b7) (simp_all add: class_bits)

lemma is_hex_lower_code [code]:
  "is_hex_lower (Char b0 b1 b2 b3 b4 b5 b6 b7) \<longleftrightarrow>
     \<not> b7 \<and> b5 \<and> (\<not> b6 \<and> b4 \<and> (\<not> b3 \<or> \<not> b2 \<and> \<not> b1) \<or> b6 \<and> \<not> b4 \<and> \<not> b3 \<and> (b2 \<or> b1 \<or> b0) \<and> \<not> (b2 \<and> b1 \<and> b0))"
  by (cases b0; cases b1; cases b2; cases b3; cases b4; cases b5; cases b6; cases b7) (simp_all add: class_bits)

lemma is_space_code [code]:
  "is_space (Char b0 b1 b2 b3 b4 b5 b6 b7) \<longleftrightarrow>
     \<not> b6 \<and> (if b7 then \<not> b4 \<and> \<not> b3 \<and> \<not> b1 \<and> (\<not> b5 \<and> b2 \<and> b0 \<or> b5 \<and> \<not> b2 \<and> \<not> b0)
       else if b5 then \<not> b4 \<and> \<not> b3 \<and> \<not> b2 \<and> \<not> b1 \<and> \<not> b0
       else b3 \<and> (if b4 then b2 else (b2 \<or> b1 \<or> b0) \<and> \<not> (b2 \<and> b1)))"
  by (cases b0; cases b1; cases b2; cases b3; cases b4; cases b5; cases b6; cases b7) (simp_all add: class_bits)

lemma is_line_break_code [code]:
  "is_line_break (Char b0 b1 b2 b3 b4 b5 b6 b7) \<longleftrightarrow>
     \<not> b6 \<and> \<not> b5 \<and> (if b7 then \<not> b4 \<and> \<not> b3 \<and> b2 \<and> \<not> b1 \<and> b0
       else b3 \<and> (if b4 then b2 \<and> \<not> (b1 \<and> b0) else b2 \<and> \<not> b1 \<or> \<not> b2 \<and> b1))"
  by (cases b0; cases b1; cases b2; cases b3; cases b4; cases b5; cases b6; cases b7) (simp_all add: class_bits)

lemma char_lower_code [code]:
  "char_lower (Char b0 b1 b2 b3 b4 b5 b6 b7) =
     (if b6 \<and> \<not> b5 \<and> (if b7 then \<not> (b4 \<and> b2 \<and> b1 \<and> b0) else (b4 \<or> b3 \<or> b2 \<or> b1 \<or> b0) \<and> \<not> (b4 \<and> b3 \<and> (b2 \<or> b1 \<and> b0)))
      then Char b0 b1 b2 b3 b4 True b6 b7 else Char b0 b1 b2 b3 b4 b5 b6 b7)"
  by (cases b0; cases b1; cases b2; cases b3; cases b4; cases b5; cases b6; cases b7) (simp_all add: class_bits, code_simp+)

fun splitlines_from :: "string \<Rightarrow> string \<Rightarrow> string list" where
  "splitlines_from cur [] = (if cur = [] then [] else [rev cur])"
| "splitlines_from cur [c] = (if is_line_break c then [rev cur] else [rev (c # cur)])"
| "splitlines_from cur (c # d # cs) =
     (if ccode c = 13 \<and> ccode d = 10 then rev cur # splitlines_from [] cs
      else if is_line_break c then rev cur # splitlines_from [] (d # cs)
      else splitlines_from (c # cur) (d # cs))"

definition splitlines :: "string \<Rightarrow> string list" where
  "splitlines s = splitlines_from [] s"

definition NL :: char where
  "NL = char_of (10::nat)"

lemma ccode_NL [simp]: "ccode NL = 10"
  by (simp add: NL_def ccode_def)

lemma is_line_break_NL [simp]: "is_line_break NL"
  by (simp add: is_line_break_def in_range_def)

lemma splitlines_from_line:
  "\<forall>c\<in>set l. \<not> is_line_break c \<Longrightarrow>
   splitlines_from cur (l @ NL # rest) = rev (rev l @ cur) # splitlines_from [] rest"
proof (induction l arbitrary: cur)
  case Nil
  show ?case by (cases rest) auto
next
  case (Cons c l)
  then have nb: "\<not> is_line_break c" by simp
  then have "ccode c \<noteq> 13" by (auto simp: is_line_break_def in_range_def)
  obtain d ds where ds: "l @ NL # rest = d # ds"
    by (cases "l @ NL # rest") auto
  from Cons.IH [of "c # cur"] Cons.prems
  have "splitlines_from (c # cur) (l @ NL # rest) = rev (rev l @ c # cur) # splitlines_from [] rest"
    by simp
  with nb \<open>ccode c \<noteq> 13\<close> show ?case
    unfolding append_Cons ds by simp
qed

text \<open>Text made of lines that each end with a line feed splits back into those lines.\<close>

definition unlines :: "string list \<Rightarrow> string" where
  "unlines ls = concat (map (\<lambda>l. l @ [NL]) ls)"

lemma splitlines_unlines:
  assumes "\<forall>l\<in>set ls. \<forall>c\<in>set l. \<not> is_line_break c"
  shows "splitlines (unlines ls) = ls"
proof -
  have "splitlines_from [] (unlines ls) = ls"
    using assms
  proof (induction ls)
    case Nil
    then show ?case by (simp add: unlines_def)
  next
    case (Cons l ls)
    from Cons.prems have nb: "\<forall>c\<in>set l. \<not> is_line_break c" by simp
    have "unlines (l # ls) = l @ NL # unlines ls" by (simp add: unlines_def)
    with splitlines_from_line [OF nb, of "[]" "unlines ls"] Cons show ?case by simp
  qed
  then show ?thesis by (simp add: splitlines_def)
qed


section \<open>Numbers\<close>

definition digit_char :: "nat \<Rightarrow> char" where
  "digit_char n = char_of (48 + n)"

definition digit_val :: "char \<Rightarrow> int" where
  "digit_val c = int (ccode c) - 48"

fun show_nat :: "nat \<Rightarrow> string" where
  "show_nat n = (if n < 10 then [digit_char n] else show_nat (n div 10) @ [digit_char (n mod 10)])"

declare show_nat.simps [simp del]

definition show_int :: "int \<Rightarrow> string" where
  "show_int i = (if i < 0 then CHR ''-'' # show_nat (nat (- i)) else show_nat (nat i))"

text \<open>The value of a digit string (\<^verbatim>\<open>int\<close> on \<^verbatim>\<open>[0-9]*\<close>).\<close>

definition digits_val :: "string \<Rightarrow> int" where
  "digits_val s = foldl (\<lambda>n c. 10 * n + digit_val c) 0 s"

lemma ccode_digit_char: "n < 10 \<Longrightarrow> ccode (digit_char n) = 48 + n"
  by (simp add: digit_char_def ccode_def)

lemma digit_val_digit_char: "n < 10 \<Longrightarrow> digit_val (digit_char n) = int n"
  by (simp add: digit_val_def ccode_digit_char)

lemma is_digit_digit_char: "n < 10 \<Longrightarrow> is_digit (digit_char n)"
  by (simp add: is_digit_def in_range_def ccode_digit_char)

lemma digits_val_snoc: "digits_val (s @ [c]) = 10 * digits_val s + digit_val c"
  by (simp add: digits_val_def)

lemma digits_val_show_nat [simp]: "digits_val (show_nat n) = int n"
proof (induction n rule: show_nat.induct)
  case (1 n)
  show ?case
  proof (cases "n < 10")
    case True
    then show ?thesis
      by (subst show_nat.simps) (simp add: digits_val_def digit_val_digit_char)
  next
    case False
    with 1 have "digits_val (show_nat (n div 10)) = int (n div 10)" by simp
    moreover have "10 * int (n div 10) + int (n mod 10) = int n" by presburger
    ultimately show ?thesis using False
      by (subst show_nat.simps) (simp add: digits_val_snoc digit_val_digit_char)
  qed
qed

lemma show_nat_digits: "\<forall>c\<in>set (show_nat n). is_digit c"
proof (induction n rule: show_nat.induct)
  case (1 n)
  then show ?case
    by (subst show_nat.simps) (auto simp: is_digit_digit_char)
qed

lemma show_nat_nonempty [simp]: "show_nat n \<noteq> []"
  by (subst show_nat.simps) simp

lemma show_nat_no_leading_zero:
  "0 < n \<Longrightarrow> hd (show_nat n) \<noteq> CHR ''0''"
proof (induction n rule: show_nat.induct)
  case (1 n)
  show ?case
  proof (cases "n < 10")
    case True
    have "digit_val CHR ''0'' = 0" by (simp add: digit_val_def ccode_def)
    with True 1 digit_val_digit_char [OF True] have "digit_char n \<noteq> CHR ''0''" by auto
    with True show ?thesis by (subst show_nat.simps) simp
  next
    case False
    with 1 have "hd (show_nat (n div 10)) \<noteq> CHR ''0''" by simp
    with False show ?thesis by (subst show_nat.simps) simp
  qed
qed

lemma digits_val_bound: "\<forall>c\<in>set s. is_digit c \<Longrightarrow> 0 \<le> digits_val s \<and> digits_val s < 10 ^ length s"
proof (induction s rule: rev_induct)
  case Nil
  then show ?case by (simp add: digits_val_def)
next
  case (snoc c s)
  then have "0 \<le> digit_val c" "digit_val c < 10" by (auto simp: is_digit_def in_range_def digit_val_def)
  with snoc show ?case by (simp add: digits_val_snoc)
qed

lemma length_show_nat: "n < 10 ^ Suc k \<Longrightarrow> length (show_nat n) \<le> Suc k"
proof (induction k arbitrary: n)
  case 0
  then show ?case by (subst show_nat.simps) simp
next
  case (Suc k)
  show ?case
  proof (cases "n < 10")
    case True
    then show ?thesis by (subst show_nat.simps) simp
  next
    case False
    from Suc.prems have "n div 10 < 10 ^ Suc k" by (simp add: less_mult_imp_div_less)
    with Suc.IH [OF this] False show ?thesis by (subst show_nat.simps) simp
  qed
qed

text \<open>\<^verbatim>\<open>"%02x"\<close> of a code below 256.\<close>

definition hex_digit :: "nat \<Rightarrow> char" where
  "hex_digit n = (if n < 10 then char_of (48 + n) else char_of (87 + n))"

definition hex2 :: "nat \<Rightarrow> string" where
  "hex2 n = [hex_digit (n div 16), hex_digit (n mod 16)]"

definition neutralize_char :: "char \<Rightarrow> string" where
  "neutralize_char c = (if is_control c then char_of (92::nat) # CHR ''x'' # hex2 (ccode c) else [c])"

lemma neutralize_char_control: "\<forall>d\<in>set (neutralize_char c). \<not> is_control d"
proof (cases "is_control c")
  case True
  have hex: "\<not> is_control (hex_digit n)" if "n < 16" for n
    using that by (auto simp: is_control_def hex_digit_def ccode_def in_range_def)
  have "ccode c < 256" by (simp add: ccode_def)
  then have "ccode c div 16 < 16" "ccode c mod 16 < 16" by auto
  with True hex show ?thesis
    by (auto simp: neutralize_char_def hex2_def) (simp_all add: is_control_def ccode_def in_range_def)
qed (simp add: neutralize_char_def)


section \<open>Raised errors as values\<close>

text \<open>A function that raises an error with a text is a sum: \<^term>\<open>Inl\<close> is the text.\<close>

definition sbind :: "'e + 'a \<Rightarrow> ('a \<Rightarrow> 'e + 'b) \<Rightarrow> 'e + 'b" where
  "sbind x f = (case x of Inl e \<Rightarrow> Inl e | Inr a \<Rightarrow> f a)"

fun smap :: "('a \<Rightarrow> 'e + 'b) \<Rightarrow> 'a list \<Rightarrow> 'e + 'b list" where
  "smap f [] = Inr []"
| "smap f (x # xs) = sbind (f x) (\<lambda>y. sbind (smap f xs) (\<lambda>ys. Inr (y # ys)))"

lemma sbind_Inr [simp]: "sbind x f = Inr b \<longleftrightarrow> (\<exists>a. x = Inr a \<and> f a = Inr b)"
  by (cases x) (auto simp: sbind_def)

lemma smap_Inr: "smap f xs = Inr ys \<longleftrightarrow> list_all2 (\<lambda>x y. f x = Inr y) xs ys"
  by (induction xs arbitrary: ys) (auto simp: list_all2_Cons1)


section \<open>Messages\<close>

text \<open>Python's \<^verbatim>\<open>%\<close> on a template: \<^verbatim>\<open>%s\<close> and \<^verbatim>\<open>%d\<close> take the next argument (already
  converted), \<^verbatim>\<open>%%\<close> is a percent sign.\<close>

fun fmt :: "string \<Rightarrow> string list \<Rightarrow> string" where
  "fmt [] args = []"
| "fmt [c] args = [c]"
| "fmt (c # d # cs) args =
     (if c = CHR ''%'' \<and> d = CHR ''%'' then CHR ''%'' # fmt cs args
      else if c = CHR ''%'' \<and> (d = CHR ''s'' \<or> d = CHR ''d'')
        then (case args of [] \<Rightarrow> c # d # fmt cs args | a # as \<Rightarrow> a @ fmt cs as)
      else c # fmt (d # cs) args)"

declare fmt.simps [simp del]

definition msg_if :: "bool \<Rightarrow> string \<Rightarrow> string list" where
  "msg_if b m = (if b then [m] else [])"

lemma msg_if_Nil [simp, guard_simps]: "msg_if b m = [] \<longleftrightarrow> \<not> b"
  by (simp add: msg_if_def)

lemma msg_if_Nil' [simp, guard_simps]: "[] = msg_if b m \<longleftrightarrow> \<not> b"
  by (simp add: msg_if_def)

lemma set_msg_if [simp]: "set (msg_if b m) = (if b then {m} else {})"
  by (simp add: msg_if_def)

text \<open>\<^verbatim>\<open>sorted(set(xs))\<close>; Python orders strings by code point, as \<^const>\<open>sort\<close> does here.\<close>

definition sorted_set :: "string list \<Rightarrow> string list" where
  "sorted_set xs = sort (remdups xs)"

lemma set_sorted_set [simp]: "set (sorted_set xs) = set xs"
  by (simp add: sorted_set_def)

lemma sorted_set_Nil [simp, guard_simps]: "sorted_set xs = [] \<longleftrightarrow> xs = []"
  by (metis set_sorted_set set_empty)

text \<open>Set difference and comparison of key lists, as Python's set operators.\<close>

definition keys_minus :: "string list \<Rightarrow> string list \<Rightarrow> string list" where
  "keys_minus xs ys = filter (\<lambda>x. x \<notin> set ys) xs"

definition keys_and :: "string list \<Rightarrow> string list \<Rightarrow> string list" where
  "keys_and xs ys = filter (\<lambda>x. x \<in> set ys) xs"

lemma set_keys_minus [simp]: "set (keys_minus xs ys) = set xs - set ys"
  by (auto simp: keys_minus_def)

lemma set_keys_and [simp]: "set (keys_and xs ys) = set xs \<inter> set ys"
  by (auto simp: keys_and_def)

lemma keys_minus_Nil [simp, guard_simps]: "keys_minus xs ys = [] \<longleftrightarrow> set xs \<subseteq> set ys"
  by (auto simp: keys_minus_def filter_empty_conv)

lemma keys_and_Nil [simp, guard_simps]: "keys_and xs ys = [] \<longleftrightarrow> set xs \<inter> set ys = {}"
  by (auto simp: keys_and_def filter_empty_conv)

definition same_set :: "string list \<Rightarrow> string list \<Rightarrow> bool" where
  "same_set xs ys \<longleftrightarrow> list_all (\<lambda>x. x \<in> set ys) xs \<and> list_all (\<lambda>y. y \<in> set xs) ys"

lemma same_set_iff [simp, guard_simps]: "same_set xs ys \<longleftrightarrow> set xs = set ys"
  by (auto simp: same_set_def list_all_iff)


section \<open>Loops that may raise\<close>

text \<open>A loop whose body returns the messages it appends, or raises (\<^term>\<open>None\<close>).\<close>

fun collect :: "('a \<Rightarrow> 'b list option) \<Rightarrow> 'a list \<Rightarrow> 'b list option" where
  "collect f [] = Some []"
| "collect f (x # xs) = do { m \<leftarrow> f x; ms \<leftarrow> collect f xs; Some (m @ ms) }"

lemma collect_Some_Nil [simp, guard_simps]:
  "collect f xs = Some [] \<longleftrightarrow> (\<forall>x\<in>set xs. f x = Some [])"
  by (induction xs) (auto simp: bind_eq_Some_conv)

lemma ball_case_prod_eq [simp]:
  "(\<forall>x\<in>A. (case x of (a, b) \<Rightarrow> f a b) = c) \<longleftrightarrow> (\<forall>(a, b)\<in>A. f a b = c)"
  by auto

lemma collect_total: "(\<And>x. x \<in> set xs \<Longrightarrow> f x = Some (g x)) \<Longrightarrow> collect f xs = Some (concat (map g xs))"
  by (induction xs) auto

fun map_opt :: "('a \<Rightarrow> 'b option) \<Rightarrow> 'a list \<Rightarrow> 'b list option" where
  "map_opt f [] = Some []"
| "map_opt f (x # xs) = do { y \<leftarrow> f x; ys \<leftarrow> map_opt f xs; Some (y # ys) }"

lemma map_opt_Some: "map_opt f xs = Some ys \<longleftrightarrow> list_all2 (\<lambda>x y. f x = Some y) xs ys"
  by (induction xs arbitrary: ys) (auto simp: bind_eq_Some_conv list_all2_Cons1)

text \<open>Concatenation of two message lists of checks that may raise.\<close>

definition both :: "'a list option \<Rightarrow> 'a list option \<Rightarrow> 'a list option" where
  "both p q = do { x \<leftarrow> p; y \<leftarrow> q; Some (x @ y) }"

lemma both_Some_Nil [simp, guard_simps]: "both p q = Some [] \<longleftrightarrow> p = Some [] \<and> q = Some []"
  by (auto simp: both_def bind_eq_Some_conv)

lemma both_Some_append [simp]: "both (Some x) (Some y) = Some (x @ y)"
  by (simp add: both_def)

definition all_checks :: "'a list option list \<Rightarrow> 'a list option" where
  "all_checks ps = foldr both ps (Some [])"

lemma all_checks_Some_Nil [simp, guard_simps]:
  "all_checks ps = Some [] \<longleftrightarrow> (\<forall>p\<in>set ps. p = Some [])"
  by (induction ps) (auto simp: all_checks_def)

lemma concat_map_Nil [guard_simps]: "concat (map f xs) = [] \<longleftrightarrow> (\<forall>x\<in>set xs. f x = [])"
  by simp

lemma map_of_pairs: "map_of (map (\<lambda>k. (k, f k)) ks) k = (if k \<in> set ks then Some (f k) else None)"
  by (induction ks) auto

lemma map_filter_Nil: "List.map_filter f xs = [] \<longleftrightarrow> (\<forall>x\<in>set xs. f x = None)"
  by (induction xs) (auto simp: List.map_filter_simps split: option.splits)

lemma length_remdups_distinct: "length (remdups xs) = length xs \<longleftrightarrow> distinct xs"
  by (metis distinct_remdups length_remdups_eq remdups_id_iff_distinct)

lemma set_map_filter: "set (List.map_filter f xs) = {y. \<exists>x\<in>set xs. f x = Some y}"
  by (induction xs) (auto simp: List.map_filter_simps split: option.splits)

end
