(* ===== verification/Py_Regex.thy ===== *)
theory Py_Regex
  imports Py_Prelude
begin

text \<open>
  Python's \<^verbatim>\<open>re\<close> module on the patterns the scripts use. A pattern is a value of \<open>rx\<close>; a
  matcher takes the character before the current position (\<^term>\<open>None\<close> at the start of the
  text), the rest of the text and the groups captured so far, and lists every way to match, in the
  order in which Python's backtracking engine tries them. The first element is the match Python
  reports.

  The star is iterated with fuel equal to the length of the rest: every iteration that is kept
  consumes a character, so the fuel is never exhausted (\<open>run_sound_complete\<close> relates the result
  to the language of the pattern without any fuel).
\<close>

type_synonym caps = "(nat \<times> string) list"
type_synonym mres = "char option \<times> string \<times> caps"
type_synonym matcher = "char option \<Rightarrow> string \<Rightarrow> caps \<Rightarrow> mres list"

datatype rx =
    REps
  | RSet "char \<Rightarrow> bool"
  | RSeq rx rx
  | RAlt rx rx
  | RStar rx          \<comment> \<open>greedy \<^verbatim>\<open>*\<close>\<close>
  | RLazy rx          \<comment> \<open>lazy \<^verbatim>\<open>*?\<close>\<close>
  | RGroup nat rx
  | RBol              \<comment> \<open>\<^verbatim>\<open>^\<close>\<close>
  | REol              \<comment> \<open>\<^verbatim>\<open>$\<close>: the end, or before a final line feed\<close>
  | RBolM             \<comment> \<open>\<^verbatim>\<open>^\<close> with MULTILINE\<close>
  | REolM             \<comment> \<open>\<^verbatim>\<open>$\<close> with MULTILINE\<close>
  | RWordB            \<comment> \<open>\<^verbatim>\<open>\b\<close>\<close>
  | RNotAhead rx      \<comment> \<open>\<^verbatim>\<open>(?!...)\<close>\<close>

fun star_run :: "nat \<Rightarrow> matcher \<Rightarrow> matcher" where
  "star_run 0 f p s c = [(p, s, c)]"
| "star_run (Suc n) f p s c =
     concat (map (\<lambda>(p', s', c'). if length s' < length s then star_run n f p' s' c' else []) (f p s c))
     @ [(p, s, c)]"

fun lazy_run :: "nat \<Rightarrow> matcher \<Rightarrow> matcher" where
  "lazy_run 0 f p s c = [(p, s, c)]"
| "lazy_run (Suc n) f p s c =
     (p, s, c) #
     concat (map (\<lambda>(p', s', c'). if length s' < length s then lazy_run n f p' s' c' else []) (f p s c))"

definition at_word_boundary :: "char option \<Rightarrow> string \<Rightarrow> bool" where
  "at_word_boundary p s \<longleftrightarrow>
     (case p of None \<Rightarrow> False | Some c \<Rightarrow> is_word c) \<noteq> (case s of [] \<Rightarrow> False | c # cs \<Rightarrow> is_word c)"

primrec run :: "rx \<Rightarrow> matcher" where
  "run REps = (\<lambda>p s c. [(p, s, c)])"
| "run (RSet P) = (\<lambda>p s c. case s of [] \<Rightarrow> [] | x # xs \<Rightarrow> if P x then [(Some x, xs, c)] else [])"
| "run (RSeq r1 r2) = (\<lambda>p s c. concat (map (\<lambda>(p', s', c'). run r2 p' s' c') (run r1 p s c)))"
| "run (RAlt r1 r2) = (\<lambda>p s c. run r1 p s c @ run r2 p s c)"
| "run (RStar r) = (\<lambda>p s c. star_run (length s) (run r) p s c)"
| "run (RLazy r) = (\<lambda>p s c. lazy_run (length s) (run r) p s c)"
| "run (RGroup n r) =
     (\<lambda>p s c. map (\<lambda>(p', s', c'). (p', s', (n, take (length s - length s') s) # c')) (run r p s c))"
| "run RBol = (\<lambda>p s c. if p = None then [(p, s, c)] else [])"
| "run REol = (\<lambda>p s c. if s = [] \<or> s = [NL] then [(p, s, c)] else [])"
| "run RBolM = (\<lambda>p s c. if p = None \<or> p = Some NL then [(p, s, c)] else [])"
| "run REolM = (\<lambda>p s c. if s = [] \<or> hd s = NL then [(p, s, c)] else [])"
| "run RWordB = (\<lambda>p s c. if at_word_boundary p s then [(p, s, c)] else [])"
| "run (RNotAhead r) = (\<lambda>p s c. if run r p s c = [] then [(p, s, c)] else [])"


section \<open>The operations of the module\<close>

text \<open>\<^verbatim>\<open>re.match\<close>, \<^verbatim>\<open>re.fullmatch\<close>, \<^verbatim>\<open>re.search\<close>: the captured groups of the match
  found (group 0 is the whole match), or \<^term>\<open>None\<close>.\<close>

definition re_match :: "rx \<Rightarrow> string \<Rightarrow> caps option" where
  "re_match r s = (case run (RGroup 0 r) None s [] of [] \<Rightarrow> None | (p, t, c) # _ \<Rightarrow> Some c)"

definition re_fullmatch :: "rx \<Rightarrow> string \<Rightarrow> caps option" where
  "re_fullmatch r s =
     (case filter (\<lambda>(p, t, c). t = []) (run (RGroup 0 r) None s []) of
        [] \<Rightarrow> None | (p, t, c) # _ \<Rightarrow> Some c)"

fun search_from :: "rx \<Rightarrow> char option \<Rightarrow> string \<Rightarrow> (string \<times> mres) option" where
  "search_from r p [] =
     (case run (RGroup 0 r) p [] [] of [] \<Rightarrow> None | m # _ \<Rightarrow> Some ([], m))"
| "search_from r p (x # xs) =
     (case run (RGroup 0 r) p (x # xs) [] of
        m # _ \<Rightarrow> Some ([], m)
      | [] \<Rightarrow> map_option (\<lambda>(skipped, m). (x # skipped, m)) (search_from r (Some x) xs))"

definition re_search :: "rx \<Rightarrow> string \<Rightarrow> caps option" where
  "re_search r s = map_option (\<lambda>(skipped, p, t, c). c) (search_from r None s)"

text \<open>\<^verbatim>\<open>finditer\<close>: the text skipped before each match and its groups, then the text after the
  last match. None of the patterns it is used with matches the empty string; the model steps over
  one character after an empty match.\<close>

fun find_iter :: "nat \<Rightarrow> rx \<Rightarrow> char option \<Rightarrow> string \<Rightarrow> (string \<times> caps) list \<times> string" where
  "find_iter 0 r p s = ([], s)"
| "find_iter (Suc n) r p s =
     (case search_from r p s of
        None \<Rightarrow> ([], s)
      | Some (skipped, p', t, c) \<Rightarrow>
          if length t < length s - length skipped then
            (let (ms, rest) = find_iter n r p' t in ((skipped, c) # ms, rest))
          else
            (case t of
               [] \<Rightarrow> ([(skipped, c)], [])
             | x # xs \<Rightarrow>
                 (case find_iter n r (Some x) xs of
                    ([], rest) \<Rightarrow> ([(skipped, c)], x # rest)
                  | ((sk, c') # ms, rest) \<Rightarrow> ((skipped, c) # (x # sk, c') # ms, rest))))"

definition re_finditer :: "rx \<Rightarrow> string \<Rightarrow> caps list" where
  "re_finditer r s = map snd (fst (find_iter (Suc (length s)) r None s))"

definition group :: "caps \<Rightarrow> nat \<Rightarrow> string option" where
  "group c n = map_of c n"

text \<open>A group that took part in the match; the scripts only use it on such groups.\<close>

definition group_text :: "caps \<Rightarrow> nat \<Rightarrow> string" where
  "group_text c n = (case map_of c n of None \<Rightarrow> [] | Some t \<Rightarrow> t)"

definition re_findall1 :: "rx \<Rightarrow> string \<Rightarrow> string list" where
  "re_findall1 r s = map (\<lambda>c. group_text c 1) (re_finditer r s)"

text \<open>\<^verbatim>\<open>re.sub(pattern, "", text)\<close>.\<close>

definition re_sub_const :: "rx \<Rightarrow> string \<Rightarrow> string \<Rightarrow> string" where
  "re_sub_const r new s =
     (let (ms, rest) = find_iter (Suc (length s)) r None s
      in concat (map (\<lambda>(skipped, c). skipped @ new) ms) @ rest)"

abbreviation fullmatches :: "rx \<Rightarrow> string \<Rightarrow> bool" where
  "fullmatches r s \<equiv> re_fullmatch r s \<noteq> None"

abbreviation matches :: "rx \<Rightarrow> string \<Rightarrow> bool" where
  "matches r s \<equiv> re_match r s \<noteq> None"

abbreviation searches :: "rx \<Rightarrow> string \<Rightarrow> bool" where
  "searches r s \<equiv> re_search r s \<noteq> None"


section \<open>Building patterns\<close>

definition rchr :: "char \<Rightarrow> rx" where
  "rchr c = RSet (\<lambda>x. x = c)"

definition rci :: "char \<Rightarrow> rx" where
  "rci c = RSet (\<lambda>x. char_lower x = char_lower c)"

fun rlit :: "string \<Rightarrow> rx" where
  "rlit [] = REps"
| "rlit (c # cs) = RSeq (rchr c) (rlit cs)"

fun rlit_ci :: "string \<Rightarrow> rx" where
  "rlit_ci [] = REps"
| "rlit_ci (c # cs) = RSeq (rci c) (rlit_ci cs)"

fun rseq :: "rx list \<Rightarrow> rx" where
  "rseq [] = REps"
| "rseq (r # rs) = RSeq r (rseq rs)"

fun ralt :: "rx list \<Rightarrow> rx" where
  "ralt [] = RSet (\<lambda>x. False)"
| "ralt [r] = r"
| "ralt (r # rs) = RAlt r (ralt rs)"

definition rplus :: "rx \<Rightarrow> rx" where
  "rplus r = RSeq r (RStar r)"

definition ropt :: "rx \<Rightarrow> rx" where
  "ropt r = RAlt r REps"

fun rrep :: "nat \<Rightarrow> rx \<Rightarrow> rx" where
  "rrep 0 r = REps"
| "rrep (Suc n) r = RSeq r (rrep n r)"

fun rupto :: "nat \<Rightarrow> rx \<Rightarrow> rx" where
  "rupto 0 r = REps"
| "rupto (Suc n) r = RAlt (RSeq r (rupto n r)) REps"

definition rrange :: "nat \<Rightarrow> nat \<Rightarrow> rx \<Rightarrow> rx" where
  "rrange lo hi r = RSeq (rrep lo r) (rupto (hi - lo) r)"

definition ratleast :: "nat \<Rightarrow> rx \<Rightarrow> rx" where
  "ratleast lo r = RSeq (rrep lo r) (RStar r)"

definition rdot :: rx where
  "rdot = RSet (\<lambda>x. x \<noteq> NL)"

definition rdigit :: rx where
  "rdigit = RSet is_digit"

definition rspace :: rx where
  "rspace = RSet is_space"


section \<open>The language of a pattern\<close>

inductive_set lstar :: "string set \<Rightarrow> string set" for A where
  lstar_Nil: "[] \<in> lstar A"
| lstar_append: "u \<in> A \<Longrightarrow> v \<in> lstar A \<Longrightarrow> u @ v \<in> lstar A"

primrec rlang :: "rx \<Rightarrow> string set" where
  "rlang REps = {[]}"
| "rlang (RSet P) = {[x] | x. P x}"
| "rlang (RSeq r1 r2) = {u @ v | u v. u \<in> rlang r1 \<and> v \<in> rlang r2}"
| "rlang (RAlt r1 r2) = rlang r1 \<union> rlang r2"
| "rlang (RStar r) = lstar (rlang r)"
| "rlang (RLazy r) = lstar (rlang r)"
| "rlang (RGroup n r) = rlang r"
| "rlang RBol = {[]}"
| "rlang REol = {[]}"
| "rlang RBolM = {[]}"
| "rlang REolM = {[]}"
| "rlang RWordB = {[]}"
| "rlang (RNotAhead r) = {[]}"

text \<open>Patterns without anchors and look-ahead: whether they match does not depend on the context.\<close>

primrec plain :: "rx \<Rightarrow> bool" where
  "plain REps \<longleftrightarrow> True"
| "plain (RSet P) \<longleftrightarrow> True"
| "plain (RSeq r1 r2) \<longleftrightarrow> plain r1 \<and> plain r2"
| "plain (RAlt r1 r2) \<longleftrightarrow> plain r1 \<and> plain r2"
| "plain (RStar r) \<longleftrightarrow> plain r"
| "plain (RLazy r) \<longleftrightarrow> plain r"
| "plain (RGroup n r) \<longleftrightarrow> plain r"
| "plain RBol \<longleftrightarrow> False"
| "plain REol \<longleftrightarrow> False"
| "plain RBolM \<longleftrightarrow> False"
| "plain REolM \<longleftrightarrow> False"
| "plain RWordB \<longleftrightarrow> False"
| "plain (RNotAhead r) \<longleftrightarrow> False"

text \<open>The texts that can be left over after a match.\<close>

definition rests :: "mres list \<Rightarrow> string set" where
  "rests ms = (\<lambda>m. fst (snd m)) ` set ms"

lemma rests_Nil [simp]: "rests [] = {}"
  by (simp add: rests_def)

lemma rests_Cons [simp]: "rests ((p, t, c) # ms) = insert t (rests ms)"
  by (simp add: rests_def)

lemma rests_append [simp]: "rests (xs @ ys) = rests xs \<union> rests ys"
  by (simp add: rests_def image_Un)

lemma rests_empty_iff [simp]: "rests ms = {} \<longleftrightarrow> ms = []"
  by (simp add: rests_def)

lemma rests_group [simp]: "rests (map (\<lambda>(p', s', c'). (p', s', g s' c')) ms) = rests ms"
  by (simp add: rests_def image_image case_prod_unfold)

lemma rests_concat_map:
  "rests (concat (map f ms)) = (\<Union>x\<in>set ms. rests (f x))"
  by (simp add: rests_def image_UN)

text \<open>What is left after matching a word of \<open>A\<close> at the start of \<open>s\<close>.\<close>

definition after :: "string set \<Rightarrow> string \<Rightarrow> string set" where
  "after A s = {t. \<exists>u. s = u @ t \<and> u \<in> A}"

lemma lstar_nonempty:
  "w \<in> lstar A \<Longrightarrow> w = [] \<or> (\<exists>u v. w = u @ v \<and> u \<noteq> [] \<and> u \<in> A \<and> v \<in> lstar A)"
proof (induction rule: lstar.induct)
  case lstar_Nil
  then show ?case by simp
next
  case (lstar_append u v)
  show ?case
  proof (cases "u = []")
    case True
    with lstar_append show ?thesis by simp
  next
    case False
    with lstar_append show ?thesis by blast
  qed
qed

lemma after_lstar:
  assumes f: "rests ms = after A s"
    and g: "\<And>m. m \<in> set ms \<Longrightarrow> length (fst (snd m)) < length s \<Longrightarrow> rests (g m) = after (lstar A) (fst (snd m))"
  shows "insert s (\<Union>m\<in>set ms. if length (fst (snd m)) < length s then rests (g m) else {}) = after (lstar A) s"
    (is "?L = ?R")
proof
  have "t \<in> ?R" if m: "m \<in> set ms" "length (fst (snd m)) < length s" and t: "t \<in> rests (g m)" for m t
  proof -
    from m(1) f have "fst (snd m) \<in> after A s" by (auto simp: rests_def)
    then obtain u where u: "s = u @ fst (snd m)" "u \<in> A" by (auto simp: after_def)
    from t g [OF m] obtain v where v: "fst (snd m) = v @ t" "v \<in> lstar A" by (auto simp: after_def)
    from u v have "s = (u @ v) @ t" and "u @ v \<in> lstar A" by (auto intro: lstar.lstar_append)
    then show ?thesis unfolding after_def by blast
  qed
  moreover have "s \<in> ?R" by (simp add: after_def lstar.lstar_Nil)
  ultimately show "?L \<subseteq> ?R" by (auto split: if_splits)
next
  show "?R \<subseteq> ?L"
  proof
    fix t assume "t \<in> ?R"
    then obtain w where w: "s = w @ t" "w \<in> lstar A" by (auto simp: after_def)
    show "t \<in> ?L"
    proof (cases "w = []")
      case True
      with w show ?thesis by simp
    next
      case False
      with lstar_nonempty [OF w(2)] obtain u v
        where uv: "w = u @ v" "u \<noteq> []" "u \<in> A" "v \<in> lstar A" by blast
      with w have "v @ t \<in> after A s" by (auto simp: after_def)
      with f obtain m where m: "m \<in> set ms" "fst (snd m) = v @ t" 
        unfolding rests_def by (metis (no_types, lifting) imageE)
      from uv w m have len: "length (fst (snd m)) < length s" by simp
      from g [OF m(1) len] m uv have "t \<in> rests (g m)" by (auto simp: after_def)
      with m len show ?thesis by auto
    qed
  qed
qed

lemma star_run_rests:
  assumes f: "\<And>p s c. rests (f p s c) = after A s"
  shows "length s \<le> n \<Longrightarrow> rests (star_run n f p s c) = after (lstar A) s"
proof (induction n arbitrary: p s c)
  case 0
  then show ?case by (auto simp: after_def intro: lstar.lstar_Nil)
next
  case (Suc n)
  have "rests (star_run (Suc n) f p s c) =
     insert s (\<Union>m\<in>set (f p s c). if length (fst (snd m)) < length s
        then rests (star_run n f (fst m) (fst (snd m)) (snd (snd m))) else {})"
    by (auto simp: rests_concat_map case_prod_unfold split: if_splits)
  also have "\<dots> = after (lstar A) s"
    by (rule after_lstar) (use f Suc in auto)
  finally show ?case .
qed

lemma lazy_run_rests:
  assumes f: "\<And>p s c. rests (f p s c) = after A s"
  shows "length s \<le> n \<Longrightarrow> rests (lazy_run n f p s c) = after (lstar A) s"
proof (induction n arbitrary: p s c)
  case 0
  then show ?case by (auto simp: after_def intro: lstar.lstar_Nil)
next
  case (Suc n)
  have "rests (lazy_run (Suc n) f p s c) =
     insert s (\<Union>m\<in>set (f p s c). if length (fst (snd m)) < length s
        then rests (lazy_run n f (fst m) (fst (snd m)) (snd (snd m))) else {})"
    by (auto simp: rests_concat_map case_prod_unfold split: if_splits)
  also have "\<dots> = after (lstar A) s"
    by (rule after_lstar) (use f Suc in auto)
  finally show ?case .
qed

text \<open>A plain pattern leaves over exactly what its language says, in any context and with enough
  fuel for every star.\<close>

theorem run_sound_complete: "plain r \<Longrightarrow> rests (run r p s c) = after (rlang r) s"
proof (induction r arbitrary: p s c)
  case (RSet P)
  then show ?case by (cases s) (auto simp: after_def)
next
  case (RSeq r1 r2)
  have "rests (run (RSeq r1 r2) p s c) = (\<Union>m\<in>set (run r1 p s c). after (rlang r2) (fst (snd m)))"
    using RSeq by (simp add: rests_concat_map case_prod_unfold)
  also have "\<dots> = (\<Union>t\<in>rests (run r1 p s c). after (rlang r2) t)"
    by (simp add: rests_def)
  also have "\<dots> = after (rlang (RSeq r1 r2)) s"
    using RSeq by (auto simp: after_def) (metis append_assoc)+
  finally show ?case .
next
  case (RAlt r1 r2)
  then show ?case by (auto simp: after_def)
next
  case (RStar r)
  then show ?case using star_run_rests [of "run r" "rlang r" s "length s" p c] by simp
next
  case (RLazy r)
  then show ?case using lazy_run_rests [of "run r" "rlang r" s "length s" p c] by simp
qed (simp_all add: after_def)

lemma re_fullmatch_iff: "plain r \<Longrightarrow> fullmatches r s \<longleftrightarrow> s \<in> rlang r"
proof -
  assume r: "plain r"
  have "re_fullmatch r s = None \<longleftrightarrow> filter (\<lambda>(p, t, c). t = []) (run (RGroup 0 r) None s []) = []"
    by (auto simp: re_fullmatch_def split: list.split)
  also have "\<dots> \<longleftrightarrow> [] \<notin> rests (run (RGroup 0 r) None s [])"
    by (force simp: rests_def filter_empty_conv image_iff simp del: run.simps)
  finally have "fullmatches r s \<longleftrightarrow> [] \<in> rests (run (RGroup 0 r) None s [])"
    by simp
  also have "\<dots> \<longleftrightarrow> s \<in> rlang r"
    using run_sound_complete [of "RGroup 0 r" None s "[]"] r by (simp add: after_def)
  finally show ?thesis .
qed

lemma re_fullmatch_None [simp]: "plain r \<Longrightarrow> re_fullmatch r s = None \<longleftrightarrow> s \<notin> rlang r"
  using re_fullmatch_iff by blast

lemma run_REol_rests:
  "plain r \<Longrightarrow> run (RSeq r REol) p s c \<noteq> [] \<longleftrightarrow> s \<in> rlang r \<or> (\<exists>u. s = u @ [NL] \<and> u \<in> rlang r)"
proof -
  assume r: "plain r"
  have "run (RSeq r REol) p s c = [] \<longleftrightarrow> (\<forall>m\<in>set (run r p s c). \<not> (fst (snd m) = [] \<or> fst (snd m) = [NL]))"
    by (auto simp: case_prod_unfold)
  then have "run (RSeq r REol) p s c \<noteq> [] \<longleftrightarrow> (\<exists>t\<in>rests (run r p s c). t = [] \<or> t = [NL])"
    by (simp add: rests_def)
  with run_sound_complete [OF r, of p s c] show ?thesis by (auto simp: after_def)
qed

lemma run_Cons_iff: "(case run r p s c of [] \<Rightarrow> None | (p', t, c') # _ \<Rightarrow> Some c') \<noteq> None \<longleftrightarrow> run r p s c \<noteq> []"
  by (auto split: list.split)

lemma re_match_iff: "matches r s \<longleftrightarrow> run r None s [] \<noteq> []"
  unfolding re_match_def run_Cons_iff by simp

text \<open>\<^verbatim>\<open>re.match\<close> with \<^verbatim>\<open>^...$\<close>: the whole text, or the text before one final line feed.\<close>

lemma run_RSeq_REps [simp]: "run (RSeq r REps) = run r"
  by (intro ext) (simp add: case_prod_unfold)

lemma re_match_anchored:
  "plain r \<Longrightarrow> matches (rseq [RBol, r, REol]) s \<longleftrightarrow> s \<in> rlang r \<or> (\<exists>u. s = u @ [NL] \<and> u \<in> rlang r)"
proof -
  assume r: "plain r"
  have "run (rseq [RBol, r, REol]) None s [] = run (RSeq r (RSeq REol REps)) None s []"
    unfolding rseq.simps run.simps(3) [of RBol] by simp
  also have "\<dots> = run (RSeq r REol) None s []"
    by (simp only: run.simps(3) [of r] run_RSeq_REps)
  finally show ?thesis
    unfolding re_match_iff using run_REol_rests [OF r] by metis
qed

lemma search_from_iff:
  "plain r \<Longrightarrow> search_from r p s \<noteq> None \<longleftrightarrow> (\<exists>a b d. s = a @ b @ d \<and> b \<in> rlang r)"
proof (induction s arbitrary: p)
  case Nil
  have "rests (run (RGroup 0 r) p [] []) = after (rlang r) []"
    using run_sound_complete [of "RGroup 0 r" p "[]" "[]"] Nil by simp
  then have "run (RGroup 0 r) p [] [] \<noteq> [] \<longleftrightarrow> [] \<in> rlang r"
    using rests_empty_iff [of "run (RGroup 0 r) p [] []"] by (auto simp: after_def)
  then show ?case by (cases "run (RGroup 0 r) p [] []") (simp_all del: run.simps)
next
  case (Cons x xs)
  have "rests (run (RGroup 0 r) p (x # xs) []) = after (rlang r) (x # xs)"
    using run_sound_complete [of "RGroup 0 r" p "x # xs" "[]"] Cons.prems by simp
  then have hd: "run (RGroup 0 r) p (x # xs) [] \<noteq> [] \<longleftrightarrow> (\<exists>b d. x # xs = b @ d \<and> b \<in> rlang r)"
    using rests_empty_iff [of "run (RGroup 0 r) p (x # xs) []"] by (auto simp: after_def)
  have "search_from r p (x # xs) \<noteq> None \<longleftrightarrow>
      run (RGroup 0 r) p (x # xs) [] \<noteq> [] \<or> search_from r (Some x) xs \<noteq> None"
    by (cases "run (RGroup 0 r) p (x # xs) []") (simp_all del: run.simps)
  also have "\<dots> \<longleftrightarrow> (\<exists>b d. x # xs = b @ d \<and> b \<in> rlang r) \<or> (\<exists>a b d. xs = a @ b @ d \<and> b \<in> rlang r)"
    unfolding hd using Cons.IH [OF Cons.prems, of "Some x"] by simp
  also have "\<dots> \<longleftrightarrow> (\<exists>a b d. x # xs = a @ b @ d \<and> b \<in> rlang r)"
  proof
    assume "\<exists>a b d. x # xs = a @ b @ d \<and> b \<in> rlang r"
    then obtain a b d where "x # xs = a @ b @ d" "b \<in> rlang r" by blast
    then show "(\<exists>b d. x # xs = b @ d \<and> b \<in> rlang r) \<or> (\<exists>a b d. xs = a @ b @ d \<and> b \<in> rlang r)"
      by (cases a) auto
  next
    assume "(\<exists>b d. x # xs = b @ d \<and> b \<in> rlang r) \<or> (\<exists>a b d. xs = a @ b @ d \<and> b \<in> rlang r)"
    then show "\<exists>a b d. x # xs = a @ b @ d \<and> b \<in> rlang r"
    proof
      assume "\<exists>b d. x # xs = b @ d \<and> b \<in> rlang r"
      then obtain b d where "x # xs = [] @ b @ d" "b \<in> rlang r" by auto
      then show ?thesis by blast
    next
      assume "\<exists>a b d. xs = a @ b @ d \<and> b \<in> rlang r"
      then obtain a b d where "xs = a @ b @ d" "b \<in> rlang r" by blast
      then have "x # xs = (x # a) @ b @ d" by simp
      with \<open>b \<in> rlang r\<close> show ?thesis by blast
    qed
  qed
  finally show ?case .
qed

lemma re_search_iff:
  "plain r \<Longrightarrow> searches r s \<longleftrightarrow> (\<exists>a b d. s = a @ b @ d \<and> b \<in> rlang r)"
  using search_from_iff [of r None s] by (auto simp: re_search_def)


section \<open>The languages of the pattern builders\<close>

lemma plain_builders [simp]:
  "plain (rchr c)" "plain (rci c)" "plain rdot" "plain rdigit" "plain rspace"
  by (simp_all add: rchr_def rci_def rdot_def rdigit_def rspace_def)

lemma plain_rlit [simp]: "plain (rlit w)"
  by (induction w) simp_all

lemma plain_rlit_ci [simp]: "plain (rlit_ci w)"
  by (induction w) simp_all

lemma plain_rseq [simp]: "plain (rseq rs) \<longleftrightarrow> (\<forall>r\<in>set rs. plain r)"
  by (induction rs) auto

lemma plain_ralt [simp]: "plain (ralt rs) \<longleftrightarrow> (\<forall>r\<in>set rs. plain r)"
  by (induction rs rule: ralt.induct) auto

lemma plain_rplus [simp]: "plain (rplus r) \<longleftrightarrow> plain r"
  by (simp add: rplus_def)

lemma plain_ropt [simp]: "plain (ropt r) \<longleftrightarrow> plain r"
  by (simp add: ropt_def)

lemma plain_rrep [simp]: "plain r \<Longrightarrow> plain (rrep n r)"
  by (induction n) simp_all

lemma plain_rupto [simp]: "plain r \<Longrightarrow> plain (rupto n r)"
  by (induction n) simp_all

lemma plain_rrange [simp]: "plain r \<Longrightarrow> plain (rrange lo hi r)"
  by (simp add: rrange_def)

lemma plain_ratleast [simp]: "plain r \<Longrightarrow> plain (ratleast lo r)"
  by (simp add: ratleast_def)

lemma rlang_rchr [simp]: "rlang (rchr c) = {[c]}"
  by (auto simp: rchr_def)

lemma rlang_rlit [simp]: "rlang (rlit w) = {w}"
  by (induction w) auto

lemma rlang_ralt: "rlang (ralt rs) = (\<Union>r\<in>set rs. rlang r)"
  by (induction rs rule: ralt.induct) auto

lemma rlang_ropt [simp]: "rlang (ropt r) = insert [] (rlang r)"
  by (auto simp: ropt_def)

lemma rlang_rdigit [simp]: "rlang rdigit = {[x] | x. is_digit x}"
  by (simp add: rdigit_def)

text \<open>A class followed by a pattern, read off the first character.\<close>

lemma Cons_in_RSet_Seq [simp]: "x # xs \<in> rlang (RSeq (RSet P) r) \<longleftrightarrow> P x \<and> xs \<in> rlang r"
  by (auto simp: Cons_eq_append_conv intro: exI [of _ "[x]"])

lemma Nil_in_RSet_Seq [simp]: "[] \<notin> rlang (RSeq (RSet P) r)"
  by auto

lemma rlang_rlit_ci: "rlang (rlit_ci w) = {u. lower u = lower w}"
proof (induction w)
  case Nil
  then show ?case by (auto simp: lower_def)
next
  case (Cons c w)
  have "u \<in> rlang (rlit_ci (c # w)) \<longleftrightarrow> lower u = lower (c # w)" for u
    using Cons by (cases u) (simp_all add: rci_def del: rlang.simps(3))
  then show ?case by blast
qed

text \<open>Repetitions of a character class.\<close>

lemma lstar_RSet: "lstar (rlang (RSet P)) = {s. \<forall>c\<in>set s. P c}"
proof -
  have "s \<in> lstar (rlang (RSet P)) \<Longrightarrow> \<forall>c\<in>set s. P c" for s
    by (induction rule: lstar.induct) auto
  moreover have "\<forall>c\<in>set s. P c \<Longrightarrow> s \<in> lstar (rlang (RSet P))" for s
  proof (induction s)
    case Nil
    then show ?case by (simp add: lstar.lstar_Nil)
  next
    case (Cons c s)
    then have "[c] @ s \<in> lstar (rlang (RSet P))" by (intro lstar.lstar_append) auto
    then show ?case by simp
  qed
  ultimately show ?thesis by blast
qed

lemma rlang_star_RSet [simp]: "rlang (RStar (RSet P)) = {s. \<forall>c\<in>set s. P c}"
  using lstar_RSet by simp

lemma rlang_rplus_RSet [simp]: "rlang (rplus (RSet P)) = {s. s \<noteq> [] \<and> (\<forall>c\<in>set s. P c)}"
proof -
  have "s \<in> rlang (rplus (RSet P)) \<longleftrightarrow> s \<noteq> [] \<and> (\<forall>c\<in>set s. P c)" for s
    by (cases s) (simp_all add: rplus_def del: rlang.simps)
  then show ?thesis by blast
qed

lemma rlang_rrep_RSet [simp]: "rlang (rrep n (RSet P)) = {s. length s = n \<and> (\<forall>c\<in>set s. P c)}"
proof (induction n)
  case 0
  then show ?case by auto
next
  case (Suc n)
  have "s \<in> rlang (rrep (Suc n) (RSet P)) \<longleftrightarrow> length s = Suc n \<and> (\<forall>c\<in>set s. P c)" for s
    using Suc by (cases s) (auto simp del: rlang.simps)
  then show ?case by blast
qed

lemma rlang_rupto_RSet [simp]: "rlang (rupto n (RSet P)) = {s. length s \<le> n \<and> (\<forall>c\<in>set s. P c)}"
proof (induction n)
  case 0
  then show ?case by auto
next
  case (Suc n)
  have "s \<in> rlang (rupto (Suc n) (RSet P)) \<longleftrightarrow> length s \<le> Suc n \<and> (\<forall>c\<in>set s. P c)" for s
    using Suc by (cases s) (auto simp del: rlang.simps(3))
  then show ?case by blast
qed

lemma rlang_rrange_RSet [simp]:
  "lo \<le> hi \<Longrightarrow> rlang (rrange lo hi (RSet P)) = {s. lo \<le> length s \<and> length s \<le> hi \<and> (\<forall>c\<in>set s. P c)}"
proof -
  assume lh: "lo \<le> hi"
  have "s \<in> rlang (rrange lo hi (RSet P)) \<longleftrightarrow> lo \<le> length s \<and> length s \<le> hi \<and> (\<forall>c\<in>set s. P c)" for s
  proof
    assume "lo \<le> length s \<and> length s \<le> hi \<and> (\<forall>c\<in>set s. P c)"
    moreover have "s = take lo s @ drop lo s" by simp
    ultimately show "s \<in> rlang (rrange lo hi (RSet P))"
      unfolding rrange_def rlang.simps rlang_rrep_RSet rlang_rupto_RSet mem_Collect_eq
      by (intro exI [of _ "take lo s"] exI [of _ "drop lo s"])
         (auto dest: in_set_takeD in_set_dropD)
  next
    assume "s \<in> rlang (rrange lo hi (RSet P))"
    with lh show "lo \<le> length s \<and> length s \<le> hi \<and> (\<forall>c\<in>set s. P c)"
      by (auto simp: rrange_def)
  qed
  then show ?thesis by blast
qed

lemma rlang_ratleast_RSet [simp]:
  "rlang (ratleast lo (RSet P)) = {s. lo \<le> length s \<and> (\<forall>c\<in>set s. P c)}"
proof -
  have "s \<in> rlang (ratleast lo (RSet P)) \<longleftrightarrow> lo \<le> length s \<and> (\<forall>c\<in>set s. P c)" for s
  proof
    assume "lo \<le> length s \<and> (\<forall>c\<in>set s. P c)"
    moreover have "s = take lo s @ drop lo s" by simp
    ultimately show "s \<in> rlang (ratleast lo (RSet P))"
      unfolding ratleast_def rlang.simps(3) rlang_rrep_RSet rlang_star_RSet mem_Collect_eq
      by (intro exI [of _ "take lo s"] exI [of _ "drop lo s"])
         (auto dest: in_set_takeD in_set_dropD)
  next
    assume "s \<in> rlang (ratleast lo (RSet P))"
    then show "lo \<le> length s \<and> (\<forall>c\<in>set s. P c)"
      using lstar_RSet [of P] by (auto simp: ratleast_def)
  qed
  then show ?thesis by blast
qed

declare rlang.simps(5) [simp del]


section \<open>What the groups capture\<close>

text \<open>The words of a pattern with the groups that a match of the word captures, latest first.\<close>

inductive_set cstar :: "(string \<times> caps) set \<Rightarrow> (string \<times> caps) set" for A where
  cstar_Nil: "([], []) \<in> cstar A"
| cstar_append: "(u, d) \<in> A \<Longrightarrow> (v, e) \<in> cstar A \<Longrightarrow> (u @ v, e @ d) \<in> cstar A"

primrec rcaps :: "rx \<Rightarrow> (string \<times> caps) set" where
  "rcaps REps = {([], [])}"
| "rcaps (RSet P) = {([x], []) | x. P x}"
| "rcaps (RSeq r1 r2) = {(u @ v, e @ d) | u v d e. (u, d) \<in> rcaps r1 \<and> (v, e) \<in> rcaps r2}"
| "rcaps (RAlt r1 r2) = rcaps r1 \<union> rcaps r2"
| "rcaps (RStar r) = cstar (rcaps r)"
| "rcaps (RLazy r) = cstar (rcaps r)"
| "rcaps (RGroup n r) = {(u, (n, u) # d) | u d. (u, d) \<in> rcaps r}"
| "rcaps RBol = {([], [])}"
| "rcaps REol = {([], [])}"
| "rcaps RBolM = {([], [])}"
| "rcaps REolM = {([], [])}"
| "rcaps RWordB = {([], [])}"
| "rcaps (RNotAhead r) = {([], [])}"

definition took :: "(string \<times> caps) set \<Rightarrow> string \<Rightarrow> caps \<Rightarrow> mres \<Rightarrow> bool" where
  "took A s c m \<longleftrightarrow> (case m of (p', s', c') \<Rightarrow> \<exists>u d. s = u @ s' \<and> c' = d @ c \<and> (u, d) \<in> A)"

lemma took_I: "(u, d) \<in> A \<Longrightarrow> took A (u @ s') c (p', s', d @ c)"
  by (auto simp: took_def)

lemma star_run_took:
  assumes "\<And>p s c m. m \<in> set (f p s c) \<Longrightarrow> took A s c m"
  shows "m \<in> set (star_run n f p s c) \<Longrightarrow> took (cstar A) s c m"
proof (induction n arbitrary: p s c)
  case 0
  then show ?case using took_I [OF cstar.cstar_Nil, of A s c p] by simp
next
  case (Suc n)
  then consider "m = (p, s, c)" | p' s' c' where "(p', s', c') \<in> set (f p s c)" "m \<in> set (star_run n f p' s' c')"
    by (auto split: if_splits)
  then show ?case
  proof cases
    case 1
    then show ?thesis using took_I [OF cstar.cstar_Nil, of A s c p] by simp
  next
    case 2
    with Suc.IH assms have "took A s c (p', s', c')" "took (cstar A) s' c' m" by auto
    then show ?thesis by (force simp: took_def dest: cstar.cstar_append)
  qed
qed

lemma lazy_run_took:
  assumes "\<And>p s c m. m \<in> set (f p s c) \<Longrightarrow> took A s c m"
  shows "m \<in> set (lazy_run n f p s c) \<Longrightarrow> took (cstar A) s c m"
proof (induction n arbitrary: p s c)
  case 0
  then show ?case using took_I [OF cstar.cstar_Nil, of A s c p] by simp
next
  case (Suc n)
  then consider "m = (p, s, c)" | p' s' c' where "(p', s', c') \<in> set (f p s c)" "m \<in> set (lazy_run n f p' s' c')"
    by (auto split: if_splits)
  then show ?case
  proof cases
    case 1
    then show ?thesis using took_I [OF cstar.cstar_Nil, of A s c p] by simp
  next
    case 2
    with Suc.IH assms have "took A s c (p', s', c')" "took (cstar A) s' c' m" by auto
    then show ?thesis by (force simp: took_def dest: cstar.cstar_append)
  qed
qed

lemma took_seq:
  assumes "took A s c (p', s', c')" and "took B s' c' m"
  shows "took {(u @ v, e @ d) | u v d e. (u, d) \<in> A \<and> (v, e) \<in> B} s c m"
proof -
  obtain p2 s2 c2 where m: "m = (p2, s2, c2)" by (cases m)
  from assms m obtain u d v e where "s = u @ v @ s2" "c2 = e @ d @ c" "(u, d) \<in> A" "(v, e) \<in> B"
    by (auto simp: took_def)
  then show ?thesis unfolding m took_def prod.case
    by (intro exI [of _ "u @ v"] exI [of _ "e @ d"]) auto
qed

lemma run_took: "m \<in> set (run r p s c) \<Longrightarrow> took (rcaps r) s c m"
proof (induction r arbitrary: p s c m)
  case (RSet P)
  then show ?case by (cases s) (auto simp: took_def split: if_splits)
next
  case (RSeq r1 r2)
  then obtain p' s' c' where m: "(p', s', c') \<in> set (run r1 p s c)" "m \<in> set (run r2 p' s' c')" by auto
  from took_seq [OF RSeq.IH(1) [OF m(1)] RSeq.IH(2) [OF m(2)]] show ?case by simp
next
  case (RAlt r1 r2)
  then have "took (rcaps r1) s c m \<or> took (rcaps r2) s c m" by (metis Un_iff run.simps(4) set_append)
  then show ?case by (auto simp: took_def)
next
  case (RStar r)
  then show ?case using star_run_took [of "run r" "rcaps r"] by (metis run.simps(5) rcaps.simps(5))
next
  case (RLazy r)
  then show ?case using lazy_run_took [of "run r" "rcaps r"] by (metis run.simps(6) rcaps.simps(6))
next
  case (RGroup n r)
  then obtain p' s' c' where m: "(p', s', c') \<in> set (run r p s c)"
      "m = (p', s', (n, take (length s - length s') s) # c')" by auto
  with RGroup.IH [OF m(1)] show ?case by (force simp: took_def)
qed (auto simp: took_def split: if_splits)

text \<open>The groups of a full match.\<close>

lemma re_fullmatch_caps:
  assumes "re_fullmatch r s = Some c"
  obtains d where "c = (0, s) # d" "(s, d) \<in> rcaps r"
proof -
  obtain m ms where ms: "filter (\<lambda>(p, t, c). t = []) (run (RGroup 0 r) None s []) = m # ms"
    using assms unfolding re_fullmatch_def by (cases "filter (\<lambda>(p, t, c). t = []) (run (RGroup 0 r) None s [])") auto
  obtain p t' c' where m: "m = (p, t', c')" by (cases m)
  have "m \<in> set (filter (\<lambda>(p, t, c). t = []) (run (RGroup 0 r) None s []))" unfolding ms by simp
  with m have "(p, t', c') \<in> set (run (RGroup 0 r) None s [])" and "t' = []" by auto
  moreover from assms m ms have "c' = c" unfolding re_fullmatch_def by simp
  ultimately have "(p, [], c) \<in> set (run (RGroup 0 r) None s [])" by simp
  from run_took [OF this] that show ?thesis by (auto simp: took_def)
qed

lemma rcaps_rchr [simp]: "rcaps (rchr c) = {([c], [])}"
  by (auto simp: rchr_def)

lemma rcaps_rlit [simp]: "rcaps (rlit w) = {(w, [])}"
  by (induction w) auto

lemma rcaps_ralt: "rcaps (ralt rs) = (\<Union>r\<in>set rs. rcaps r)"
  by (induction rs rule: ralt.induct) auto

text \<open>A pattern without groups captures nothing.\<close>

primrec groupless :: "rx \<Rightarrow> bool" where
  "groupless REps \<longleftrightarrow> True"
| "groupless (RSet P) \<longleftrightarrow> True"
| "groupless (RSeq r1 r2) \<longleftrightarrow> groupless r1 \<and> groupless r2"
| "groupless (RAlt r1 r2) \<longleftrightarrow> groupless r1 \<and> groupless r2"
| "groupless (RStar r) \<longleftrightarrow> groupless r"
| "groupless (RLazy r) \<longleftrightarrow> groupless r"
| "groupless (RGroup n r) \<longleftrightarrow> False"
| "groupless RBol \<longleftrightarrow> True"
| "groupless REol \<longleftrightarrow> True"
| "groupless RBolM \<longleftrightarrow> True"
| "groupless REolM \<longleftrightarrow> True"
| "groupless RWordB \<longleftrightarrow> True"
| "groupless (RNotAhead r) \<longleftrightarrow> True"

lemma cstar_groupless: "cstar (A \<times> {[]}) = lstar A \<times> {[]}"
proof -
  have "(u, d) \<in> cstar (A \<times> {[]}) \<Longrightarrow> u \<in> lstar A \<and> d = []" for u d
    by (induction rule: cstar.induct) (auto intro: lstar.intros)
  moreover have "u \<in> lstar A \<Longrightarrow> (u, []) \<in> cstar (A \<times> {[]})" for u
  proof (induction rule: lstar.induct)
    case (lstar_append u v)
    then show ?case using cstar.cstar_append [of u "[]" "A \<times> {[]}" v "[]"] by simp
  qed (rule cstar.cstar_Nil)
  ultimately show ?thesis by auto
qed

lemma rcaps_groupless: "groupless r \<Longrightarrow> rcaps r = rlang r \<times> {[]}"
  by (induction r) (auto simp: cstar_groupless rlang.simps(5))

lemma groupless_builders [simp]:
  "groupless (rchr c)" "groupless (rci c)" "groupless rdot" "groupless rdigit" "groupless rspace" "groupless (rlit w)"
  "groupless (rlit_ci w)"
  by (simp_all add: rchr_def rci_def rdot_def rdigit_def rspace_def) (induction w; simp add: rchr_def rci_def)+

lemma groupless_rep [simp]:
  "groupless r \<Longrightarrow> groupless (rrep n r)" "groupless r \<Longrightarrow> groupless (rupto n r)"
  "groupless r \<Longrightarrow> groupless (rrange lo hi r)" "groupless r \<Longrightarrow> groupless (ratleast lo r)"
proof -
  assume r: "groupless r"
  show a: "groupless (rrep n r)" for n by (induction n) (simp_all add: r)
  show b: "groupless (rupto n r)" for n by (induction n) (simp_all add: r)
  show "groupless (rrange lo hi r)" "groupless (ratleast lo r)" by (simp_all add: rrange_def ratleast_def a b r)
qed

lemma groupless_more [simp]:
  "groupless (rplus r) = groupless r" "groupless (ropt r) = groupless r"
  by (simp_all add: rplus_def ropt_def)

lemma groupless_rseq [simp]: "groupless (rseq rs) = (\<forall>r\<in>set rs. groupless r)"
  by (induction rs) auto

lemma groupless_ralt [simp]: "groupless (ralt rs) = (\<forall>r\<in>set rs. groupless r)"
  by (induction rs rule: ralt.induct) auto

lemma rcaps_star_RSet [simp]: "rcaps (RStar (RSet P)) = {s. \<forall>c\<in>set s. P c} \<times> {[]}"
  using rcaps_groupless [of "RStar (RSet P)"] by simp

lemma rcaps_rplus_RSet [simp]: "rcaps (rplus (RSet P)) = {s. s \<noteq> [] \<and> (\<forall>c\<in>set s. P c)} \<times> {[]}"
  using rcaps_groupless [of "rplus (RSet P)"] by simp

declare rcaps.simps(5) [simp del]

lemma rlang_RSeqI: "u \<in> rlang r1 \<Longrightarrow> v \<in> rlang r2 \<Longrightarrow> u @ v \<in> rlang (RSeq r1 r2)"
  by auto

text \<open>Searching for one of several words, ignoring case.\<close>

lemma lower_sublist: "sublist (lower w) (lower s) \<longleftrightarrow> (\<exists>a b d. s = a @ b @ d \<and> lower b = lower w)"
proof
  assume "sublist (lower w) (lower s)"
  then obtain x y where "lower s = x @ lower w @ y" by (auto simp: sublist_def)
  then obtain a b d where "s = a @ b @ d" "lower b = lower w"
    unfolding lower_def by (metis map_eq_append_conv)
  then show "\<exists>a b d. s = a @ b @ d \<and> lower b = lower w" by blast
next
  assume "\<exists>a b d. s = a @ b @ d \<and> lower b = lower w"
  then show "sublist (lower w) (lower s)" by (force simp: sublist_def)
qed

lemma searches_words: "searches (ralt (map rlit_ci ws)) s \<longleftrightarrow> list_ex (\<lambda>w. py_in (lower w) (lower s)) ws"
proof -
  have "searches (ralt (map rlit_ci ws)) s \<longleftrightarrow> (\<exists>a b d. s = a @ b @ d \<and> b \<in> rlang (ralt (map rlit_ci ws)))"
    by (rule re_search_iff) simp
  also have "\<dots> \<longleftrightarrow> (\<exists>w\<in>set ws. \<exists>a b d. s = a @ b @ d \<and> lower b = lower w)"
    by (auto simp: rlang_ralt rlang_rlit_ci)
  finally show ?thesis by (simp only: lower_sublist list_ex_iff)
qed


section \<open>Searching with line anchors\<close>

lemma search_from_run:
  "search_from r p s \<noteq> None \<longleftrightarrow> (\<exists>a b. s = a @ b \<and> run r (if a = [] then p else Some (last a)) b [] \<noteq> [])"
proof (induction s arbitrary: p)
  case Nil
  then show ?case by (auto split: list.splits)
next
  case (Cons x xs)
  have "search_from r p (x # xs) \<noteq> None \<longleftrightarrow> run r p (x # xs) [] \<noteq> [] \<or> search_from r (Some x) xs \<noteq> None"
    by (auto split: list.splits)
  also have "\<dots> \<longleftrightarrow> (\<exists>a b. x # xs = a @ b \<and> run r (if a = [] then p else Some (last a)) b [] \<noteq> [])"
    unfolding Cons.IH
  proof
    assume "run r p (x # xs) [] \<noteq> [] \<or> (\<exists>a b. xs = a @ b \<and> run r (if a = [] then Some x else Some (last a)) b [] \<noteq> [])"
    then show "\<exists>a b. x # xs = a @ b \<and> run r (if a = [] then p else Some (last a)) b [] \<noteq> []"
    proof
      assume "run r p (x # xs) [] \<noteq> []" then show ?thesis by (intro exI [of _ "[]"] exI [of _ "x # xs"]) simp
    next
      assume "\<exists>a b. xs = a @ b \<and> run r (if a = [] then Some x else Some (last a)) b [] \<noteq> []"
      then obtain a b where "xs = a @ b" "run r (if a = [] then Some x else Some (last a)) b [] \<noteq> []" by blast
      then show ?thesis by (intro exI [of _ "x # a"] exI [of _ b]) (auto split: if_splits)
    qed
  next
    assume "\<exists>a b. x # xs = a @ b \<and> run r (if a = [] then p else Some (last a)) b [] \<noteq> []"
    then obtain a b where ab: "x # xs = a @ b" "run r (if a = [] then p else Some (last a)) b [] \<noteq> []" by blast
    show "run r p (x # xs) [] \<noteq> [] \<or> (\<exists>a b. xs = a @ b \<and> run r (if a = [] then Some x else Some (last a)) b [] \<noteq> [])"
    proof (cases a)
      case Nil with ab show ?thesis by simp
    next
      case (Cons y ys)
      with ab show ?thesis by (intro disjI2 exI [of _ ys] exI [of _ b]) (auto split: if_splits)
    qed
  qed
  finally show ?case .
qed

lemma run_rlit: "run (rlit w) p s c \<noteq> [] \<longleftrightarrow> prefix w s"
proof (induction w arbitrary: p s c)
  case (Cons x w)
  then show ?case by (cases s) (auto simp: rchr_def)
qed simp

text \<open>\<^verbatim>\<open>re.search\<close> with \<^verbatim>\<open>^...$\<close> and MULTILINE: some whole line.\<close>

lemma searches_line:
  assumes "plain r"
  shows "searches (rseq [RBolM, r, REolM]) s \<longleftrightarrow>
    (\<exists>a b d. s = a @ b @ d \<and> b \<in> rlang r \<and> (a = [] \<or> last a = NL) \<and> (d = [] \<or> hd d = NL))"
proof -
  have one: "run (rseq [RBolM, r, REolM]) p t [] \<noteq> [] \<longleftrightarrow>
      (p = None \<or> p = Some NL) \<and> (\<exists>b d. t = b @ d \<and> b \<in> rlang r \<and> (d = [] \<or> hd d = NL))" for p t
  proof -
    have "run (RSeq r (RSeq REolM REps)) p t [] \<noteq> [] \<longleftrightarrow> (\<exists>x\<in>rests (run r p t []). x = [] \<or> hd x = NL)"
      by (force simp: rests_def)
    also have "\<dots> \<longleftrightarrow> (\<exists>b d. t = b @ d \<and> b \<in> rlang r \<and> (d = [] \<or> hd d = NL))"
      using run_sound_complete [OF assms, of p t "[]"] by (auto simp: after_def)
    finally have "run (RSeq r (RSeq REolM REps)) p t [] \<noteq> [] \<longleftrightarrow> (\<exists>b d. t = b @ d \<and> b \<in> rlang r \<and> (d = [] \<or> hd d = NL))" .
    moreover have "run (rseq [RBolM, r, REolM]) p t [] = (if p = None \<or> p = Some NL then run (RSeq r (RSeq REolM REps)) p t [] else [])"
      unfolding rseq.simps run.simps(3) [of RBolM] by (cases p) (simp_all del: run.simps(3))
    ultimately show ?thesis by (simp del: run.simps rseq.simps)
  qed
  have "searches (rseq [RBolM, r, REolM]) s \<longleftrightarrow> search_from (rseq [RBolM, r, REolM]) None s \<noteq> None"
    by (auto simp: re_search_def simp del: rseq.simps)
  also have "\<dots> \<longleftrightarrow> (\<exists>a t. s = a @ t \<and> (a = [] \<or> last a = NL) \<and> (\<exists>b d. t = b @ d \<and> b \<in> rlang r \<and> (d = [] \<or> hd d = NL)))"
  proof -
    have "((if a = [] then None else Some (last a)) = None \<or> (if a = [] then None else Some (last a)) = Some NL) \<longleftrightarrow> a = [] \<or> last a = NL"
      for a :: string by simp
    then show ?thesis unfolding search_from_run one by simp
  qed
  also have "\<dots> \<longleftrightarrow> (\<exists>a b d. s = a @ b @ d \<and> b \<in> rlang r \<and> (a = [] \<or> last a = NL) \<and> (d = [] \<or> hd d = NL))"
    by (simp only: ex_simps simp_thms conj_ac) metis
  finally show ?thesis .
qed


section \<open>Backtracking\<close>

text \<open>
  The matcher above lists all matches; only the first one is used. \<open>mt\<close> looks for that one by backtracking, on a stack of
  what remains to be matched. It is equal to the head of the list (\<open>mt_first\<close>) and is what evaluation runs.
\<close>

datatype frame =
    FR rx
  | FC "char \<Rightarrow> bool"
  | FN nat rx
  | FS nat rx string
  | FL nat rx
  | FT nat rx string
  | FG nat string
  | FE

primrec rx_weight :: "nat \<Rightarrow> rx \<Rightarrow> nat" where
  "rx_weight l REps = 1"
| "rx_weight l (RSet P) = 1"
| "rx_weight l (RSeq a b) = rx_weight l a + rx_weight l b + 1"
| "rx_weight l (RAlt a b) = rx_weight l a + rx_weight l b + 1"
| "rx_weight l (RStar r) = l * (rx_weight l r + 3) + l + 3"
| "rx_weight l (RLazy r) = l * (rx_weight l r + 3) + l + 3"
| "rx_weight l (RGroup n r) = rx_weight l r + 2"
| "rx_weight l RBol = 1"
| "rx_weight l REol = 1"
| "rx_weight l RBolM = 1"
| "rx_weight l REolM = 1"
| "rx_weight l RWordB = 1"
| "rx_weight l (RNotAhead r) = rx_weight l r + 2"

primrec fweight :: "nat \<Rightarrow> frame \<Rightarrow> nat" where
  "fweight l (FR r) = rx_weight l r"
| "fweight l (FC P) = l + 1"
| "fweight l (FN n r) = n * (rx_weight l r + 3) + 1"
| "fweight l (FS n r s) = n * (rx_weight l r + 3) + 2"
| "fweight l (FL n r) = n * (rx_weight l r + 3) + 1"
| "fweight l (FT n r s) = n * (rx_weight l r + 3) + 2"
| "fweight l (FG n s) = 1"
| "fweight l FE = 1"

lemma weight_mono: "l \<le> m \<Longrightarrow> rx_weight l r \<le> rx_weight m r"
  by (induction r) (auto intro!: add_mono mult_le_mono)

lemma fweight_mono: "l \<le> m \<Longrightarrow> fweight l f \<le> fweight m f"
  by (cases f) (auto intro!: add_mono mult_le_mono weight_mono)

lemma frames_mono: "l \<le> m \<Longrightarrow> sum_list (map (fweight l) fs) \<le> sum_list (map (fweight m) fs)"
  by (induction fs) (auto intro!: add_mono fweight_mono)

lemma frames_Suc: "sum_list (map (fweight n) fs) \<le> sum_list (map (fweight (Suc n)) fs)"
  by (rule frames_mono) simp

fun set_of :: "rx \<Rightarrow> (char \<Rightarrow> bool) option" where
  "set_of (RSet P) = Some P"
| "set_of r = None"

function mt :: "frame list \<Rightarrow> char option \<Rightarrow> string \<Rightarrow> caps \<Rightarrow> mres option" where
  "mt [] p s c = Some (p, s, c)"
| "mt (FR REps # fs) p s c = mt fs p s c"
| "mt (FR (RSet P) # fs) p s c = (case s of [] \<Rightarrow> None | x # xs \<Rightarrow> if P x then mt fs (Some x) xs c else None)"
| "mt (FR (RSeq a b) # fs) p s c = mt (FR a # FR b # fs) p s c"
| "mt (FR (RAlt a b) # fs) p s c = (case mt (FR a # fs) p s c of None \<Rightarrow> mt (FR b # fs) p s c | Some m \<Rightarrow> Some m)"
| "mt (FR (RStar r) # fs) p s c = (case set_of r of Some P \<Rightarrow> mt (FC P # fs) p s c | None \<Rightarrow> mt (FN (length s) r # fs) p s c)"
| "mt (FR (RLazy r) # fs) p s c = mt (FL (length s) r # fs) p s c"
| "mt (FR (RGroup n r) # fs) p s c = mt (FR r # FG n s # fs) p s c"
| "mt (FR RBol # fs) p s c = (if p = None then mt fs p s c else None)"
| "mt (FR REol # fs) p s c = (if s = [] \<or> s = [NL] then mt fs p s c else None)"
| "mt (FR RBolM # fs) p s c = (if p = None \<or> p = Some NL then mt fs p s c else None)"
| "mt (FR REolM # fs) p s c = (if s = [] \<or> hd s = NL then mt fs p s c else None)"
| "mt (FR RWordB # fs) p s c = (if at_word_boundary p s then mt fs p s c else None)"
| "mt (FR (RNotAhead r) # fs) p s c = (case mt [FR r] p s c of None \<Rightarrow> mt fs p s c | Some m \<Rightarrow> None)"
| "mt (FC P # fs) p s c =
     (case s of [] \<Rightarrow> mt fs p s c
      | x # xs \<Rightarrow> if P x then (case mt (FC P # fs) (Some x) xs c of None \<Rightarrow> mt fs p s c | Some m \<Rightarrow> Some m) else mt fs p s c)"
| "mt (FN n r # fs) p s c =
     (case n of 0 \<Rightarrow> mt fs p s c
      | Suc k \<Rightarrow> (case mt (FR r # FS k r s # fs) p s c of None \<Rightarrow> mt fs p s c | Some m \<Rightarrow> Some m))"
| "mt (FS n r s0 # fs) p s c = (if length s < length s0 then mt (FN n r # fs) p s c else None)"
| "mt (FL n r # fs) p s c =
     (case n of 0 \<Rightarrow> mt fs p s c
      | Suc k \<Rightarrow> (case mt fs p s c of None \<Rightarrow> mt (FR r # FT k r s # fs) p s c | Some m \<Rightarrow> Some m))"
| "mt (FT n r s0 # fs) p s c = (if length s < length s0 then mt (FL n r # fs) p s c else None)"
| "mt (FG n s0 # fs) p s c = mt fs p s ((n, take (length s0 - length s) s0) # c)"
| "mt (FE # fs) p s c = (if s = [] then mt fs p s c else None)"
  by pat_completeness auto
termination
  by (relation "measure (\<lambda>(fs, p, s, c). sum_list (map (fweight (length s)) fs))")
     (auto simp: algebra_simps less_Suc_eq_le intro: frames_Suc add_mono le_trans [OF frames_Suc])

declare mt.simps [simp del]

text \<open>All matches of a stack of frames.\<close>

definition bindl :: "mres list \<Rightarrow> matcher \<Rightarrow> mres list" where
  "bindl xs f = concat (map (\<lambda>(p, s, c). f p s c) xs)"

lemma bindl_simps [simp]:
  "bindl [] f = []" "bindl ((p, s, c) # xs) f = f p s c @ bindl xs f" "bindl (xs @ ys) f = bindl xs f @ bindl ys f"
  by (simp_all add: bindl_def)

lemma bindl_assoc: "bindl (bindl xs g) f = bindl xs (\<lambda>p s c. bindl (g p s c) f)"
  by (induction xs) auto

lemma bindl_if: "bindl (if b then xs else ys) f = (if b then bindl xs f else bindl ys f)"
  by simp

lemma star_run_bindl:
  "star_run (Suc n) f p s c = bindl (f p s c) (\<lambda>p' s' c'. if length s' < length s then star_run n f p' s' c' else []) @ [(p, s, c)]"
  by (simp add: bindl_def)

lemma lazy_run_bindl:
  "lazy_run (Suc n) f p s c = (p, s, c) # bindl (f p s c) (\<lambda>p' s' c'. if length s' < length s then lazy_run n f p' s' c' else [])"
  by (simp add: bindl_def)

lemma map_bindl: "map (\<lambda>(p, s, c). (p, s, g s c)) xs = bindl xs (\<lambda>p s c. [(p, s, g s c)])"
  by (induction xs) auto

lemma run_bindl:
  "run (RSeq a b) p s c = bindl (run a p s c) (run b)"
  "run (RGroup n r) p s c = bindl (run r p s c) (\<lambda>p' s' c'. [(p', s', (n, take (length s - length s') s) # c')])"
  by (simp add: bindl_def) (simp add: map_bindl [of "\<lambda>s' c'. (n, take (length s - length s') s) # c'"])

primrec run_frame :: "frame \<Rightarrow> matcher" where
  "run_frame (FR r) = run r"
| "run_frame (FC P) = (\<lambda>p s c. star_run (length s) (run (RSet P)) p s c)"
| "run_frame (FN n r) = star_run n (run r)"
| "run_frame (FS n r s0) = (\<lambda>p s c. if length s < length s0 then star_run n (run r) p s c else [])"
| "run_frame (FL n r) = lazy_run n (run r)"
| "run_frame (FT n r s0) = (\<lambda>p s c. if length s < length s0 then lazy_run n (run r) p s c else [])"
| "run_frame (FG n s0) = (\<lambda>p s c. [(p, s, (n, take (length s0 - length s) s0) # c)])"
| "run_frame FE = (\<lambda>p s c. if s = [] then [(p, s, c)] else [])"

primrec run_frames :: "frame list \<Rightarrow> matcher" where
  "run_frames [] = (\<lambda>p s c. [(p, s, c)])"
| "run_frames (f # fs) = (\<lambda>p s c. bindl (run_frame f p s c) (run_frames fs))"

definition first_match :: "'a list \<Rightarrow> 'a option" where
  "first_match xs = (case xs of [] \<Rightarrow> None | x # _ \<Rightarrow> Some x)"

lemma first_simps [simp]: "first_match [] = None" "first_match (x # xs) = Some x"
  by (simp_all add: first_match_def)

lemma first_append [simp]: "first_match (xs @ ys) = (case first_match xs of None \<Rightarrow> first_match ys | Some m \<Rightarrow> Some m)"
  by (cases xs) simp_all

lemma first_None [simp]: "first_match xs = None \<longleftrightarrow> xs = []"
  by (cases xs) simp_all

lemma bindl_unit: "bindl xs (\<lambda>p s c. [(p, s, c)]) = xs"
  by (induction xs) auto

lemma runs_FC: "run_frames (FC P # fs) p s c =
  (case s of [] \<Rightarrow> run_frames fs p s c | x # xs \<Rightarrow> if P x then run_frames (FC P # fs) (Some x) xs c @ run_frames fs p s c else run_frames fs p s c)"
  by (cases s) simp_all

lemma runs_FN: "run_frames (FN n r # fs) p s c =
  (case n of 0 \<Rightarrow> run_frames fs p s c | Suc k \<Rightarrow> run_frames (FR r # FS k r s # fs) p s c @ run_frames fs p s c)"
  by (cases n) (simp_all add: star_run_bindl bindl_assoc del: star_run.simps(2))

lemma runs_FL: "run_frames (FL n r # fs) p s c =
  (case n of 0 \<Rightarrow> run_frames fs p s c | Suc k \<Rightarrow> run_frames fs p s c @ run_frames (FR r # FT k r s # fs) p s c)"
  by (cases n) (simp_all add: lazy_run_bindl bindl_assoc del: lazy_run.simps(2))

lemma runs_frames:
  "run_frames (FR REps # fs) p s c = run_frames fs p s c"
  "run_frames (FR (RSet P) # fs) p s c = (case s of [] \<Rightarrow> [] | x # xs \<Rightarrow> if P x then run_frames fs (Some x) xs c else [])"
  "run_frames (FR (RSeq a b) # fs) p s c = run_frames (FR a # FR b # fs) p s c"
  "run_frames (FR (RAlt a b) # fs) p s c = run_frames (FR a # fs) p s c @ run_frames (FR b # fs) p s c"
  "run_frames (FR (RStar r) # fs) p s c = run_frames (FN (length s) r # fs) p s c"
  "run_frames (FR (RLazy r) # fs) p s c = run_frames (FL (length s) r # fs) p s c"
  "run_frames (FR (RGroup n r) # fs) p s c = run_frames (FR r # FG n s # fs) p s c"
  "run_frames (FR (RNotAhead r) # fs) p s c = (if run_frames [FR r] p s c = [] then run_frames fs p s c else [])"
  "run_frames (FG n s0 # fs) p s c = run_frames fs p s ((n, take (length s0 - length s) s0) # c)"
  by (auto simp: run_bindl bindl_assoc bindl_unit simp del: run.simps(3,7) split: list.split)

lemma runs_FC_star: "run_frames (FC P # fs) p s c = run_frames (FN (length s) (RSet P) # fs) p s c"
  by simp

lemma runs_guards:
  "run_frames (FR RBol # fs) p s c = (if p = None then run_frames fs p s c else [])"
  "run_frames (FR REol # fs) p s c = (if s = [] \<or> s = [NL] then run_frames fs p s c else [])"
  "run_frames (FR RBolM # fs) p s c = (if p = None \<or> p = Some NL then run_frames fs p s c else [])"
  "run_frames (FR REolM # fs) p s c = (if s = [] \<or> hd s = NL then run_frames fs p s c else [])"
  "run_frames (FR RWordB # fs) p s c = (if at_word_boundary p s then run_frames fs p s c else [])"
  "run_frames (FS n r s0 # fs) p s c = (if length s < length s0 then run_frames (FN n r # fs) p s c else [])"
  "run_frames (FT n r s0 # fs) p s c = (if length s < length s0 then run_frames (FL n r # fs) p s c else [])"
  "run_frames (FE # fs) p s c = (if s = [] then run_frames fs p s c else [])"
  by simp_all

lemma mt_first: "mt fs p s c = first_match (run_frames fs p s c)"
proof (induction fs p s c rule: mt.induct)
  case (6 r fs p s c)
  then show ?case by (cases r) (simp_all add: mt.simps runs_frames(5) runs_FC_star del: run_frames.simps)
next
  case (15 P fs p s c)
  then show ?case by (subst mt.simps, subst runs_FC) (auto simp del: run_frames.simps split: list.split option.split)
next
  case (16 n r fs p s c)
  then show ?case by (subst mt.simps, subst runs_FN) (auto simp del: run_frames.simps split: nat.split option.split)
next
  case (18 n r fs p s c)
  then show ?case by (subst mt.simps, subst runs_FL) (auto simp del: run_frames.simps split: nat.split option.split)
qed (auto simp: mt.simps runs_frames runs_guards simp del: run_frames.simps(2) split: list.split option.split)

text \<open>The operations of the module, evaluated by backtracking.\<close>

lemma run_mt: "first_match (run r p s c) = mt [FR r] p s c"
  by (simp add: mt_first bindl_unit)

lemma run_mt_end: "first_match (filter (\<lambda>(p, t, c). t = []) (run r p s c)) = mt [FR r, FE] p s c"
proof -
  have "filter (\<lambda>(p, t, c). t = []) xs = bindl xs (\<lambda>p s c. if s = [] then [(p, s, c)] else [])" for xs :: "mres list"
    by (induction xs) auto
  then show ?thesis by (simp add: mt_first bindl_unit)
qed

lemma re_match_code [code]: "re_match r s = (case mt [FR (RGroup 0 r)] None s [] of None \<Rightarrow> None | Some (p, t, c) \<Rightarrow> Some c)"
  unfolding re_match_def run_mt [symmetric] first_match_def by (simp split: list.split)

lemma re_fullmatch_code [code]: "re_fullmatch r s = (case mt [FR (RGroup 0 r), FE] None s [] of None \<Rightarrow> None | Some (p, t, c) \<Rightarrow> Some c)"
  unfolding re_fullmatch_def run_mt_end [symmetric] first_match_def by (simp split: list.split)

lemma search_from_code [code]:
  "search_from r p s =
     (case mt [FR (RGroup 0 r)] p s [] of
        Some m \<Rightarrow> Some ([], m)
      | None \<Rightarrow> (case s of [] \<Rightarrow> None | x # xs \<Rightarrow> map_option (\<lambda>(skipped, m). (x # skipped, m)) (search_from r (Some x) xs)))"
  unfolding run_mt [symmetric] first_match_def by (cases s) (simp_all split: list.split)

end
