(* ===== verification/Py_Json.thy ===== *)
theory Py_Json
  imports Py_Regex
begin

text \<open>
  Values that come from \<^verbatim>\<open>json.loads\<close> and what the scripts do with them: truth value,
  \<^verbatim>\<open>dict.get\<close>, \<^verbatim>\<open>str\<close> and \<^verbatim>\<open>repr\<close>, \<^verbatim>\<open>int\<close> and \<^verbatim>\<open>float\<close>. An object is an
  association list in the order of the text; a parsed object has distinct keys (\<open>wf_json\<close>). A
  float is the decimal \<open>m * 10 ^ e\<close> that \<^verbatim>\<open>repr\<close> prints (the shortest one that reads back as
  the same double); the non-standard NaN and Infinity are not values.
\<close>

datatype json =
    JNull
  | JBool bool
  | JInt int
  | JFloat int int
  | JStr string
  | JList "json list"
  | JObj "(string \<times> json) list"

type_synonym dict = "(string \<times> json) list"

fun wf_json :: "json \<Rightarrow> bool" where
  "wf_json (JList xs) \<longleftrightarrow> (\<forall>x\<in>set xs. wf_json x)"
| "wf_json (JObj d) \<longleftrightarrow> distinct (map fst d) \<and> (\<forall>x\<in>snd ` set d. wf_json x)"
| "wf_json _ \<longleftrightarrow> True"

fun truthy :: "json \<Rightarrow> bool" where
  "truthy JNull = False"
| "truthy (JBool b) = b"
| "truthy (JInt i) = (i \<noteq> 0)"
| "truthy (JFloat m e) = (m \<noteq> 0)"
| "truthy (JStr s) = (s \<noteq> [])"
| "truthy (JList xs) = (xs \<noteq> [])"
| "truthy (JObj d) = (d \<noteq> [])"

text \<open>\<^verbatim>\<open>x or y\<close>.\<close>

definition py_or :: "json \<Rightarrow> json \<Rightarrow> json" where
  "py_or x y = (if truthy x then x else y)"


section \<open>Dictionaries\<close>

definition dkeys :: "('k \<times> 'v) list \<Rightarrow> 'k list" where
  "dkeys d = map fst d"

definition dvals :: "('k \<times> 'v) list \<Rightarrow> 'v list" where
  "dvals d = map snd d"

text \<open>\<^verbatim>\<open>d.get(k)\<close> on a dictionary: a missing key and a null are both Python's None.\<close>

definition dget :: "dict \<Rightarrow> string \<Rightarrow> json" where
  "dget d k = (case map_of d k of None \<Rightarrow> JNull | Some v \<Rightarrow> v)"

definition dhas :: "(string \<times> 'v) list \<Rightarrow> string \<Rightarrow> bool" where
  "dhas d k \<longleftrightarrow> map_of d k \<noteq> None"

text \<open>\<^verbatim>\<open>d[k] = v\<close>: in place when the key exists, at the end otherwise.\<close>

fun dset :: "('k \<times> 'v) list \<Rightarrow> 'k \<Rightarrow> 'v \<Rightarrow> ('k \<times> 'v) list" where
  "dset [] k v = [(k, v)]"
| "dset ((k', v') # d) k v = (if k' = k then (k, v) # d else (k', v') # dset d k v)"

definition dict_of :: "('k \<times> 'v) list \<Rightarrow> ('k \<times> 'v) list" where
  "dict_of kvs = foldl (\<lambda>d (k, v). dset d k v) [] kvs"

definition is_obj :: "json \<Rightarrow> bool" where
  "is_obj x \<longleftrightarrow> (case x of JObj d \<Rightarrow> True | _ \<Rightarrow> False)"

definition is_str :: "json \<Rightarrow> bool" where
  "is_str x \<longleftrightarrow> (case x of JStr s \<Rightarrow> True | _ \<Rightarrow> False)"

definition is_list :: "json \<Rightarrow> bool" where
  "is_list x \<longleftrightarrow> (case x of JList d \<Rightarrow> True | _ \<Rightarrow> False)"

text \<open>A value used as a dictionary: anything else raises AttributeError.\<close>

definition as_dict :: "json \<Rightarrow> dict option" where
  "as_dict x = (case x of JObj d \<Rightarrow> Some d | _ \<Rightarrow> None)"

text \<open>\<^verbatim>\<open>(x or {})\<close> used as a dictionary.\<close>

definition or_dict :: "json \<Rightarrow> dict option" where
  "or_dict x = (if truthy x then as_dict x else Some [])"

text \<open>\<^verbatim>\<open>_list\<close> of the scripts: nothing for None, the list itself, else a list of one.\<close>

definition py_list :: "json \<Rightarrow> json list" where
  "py_list x = (case x of JNull \<Rightarrow> [] | JList xs \<Rightarrow> xs | _ \<Rightarrow> [x])"

lemma dget_simps [simp]:
  "dget [] k = JNull"
  "dget ((k', v) # d) k = (if k = k' then v else dget d k)"
  by (simp_all add: dget_def)

lemma dhas_iff: "dhas d k \<longleftrightarrow> k \<in> set (dkeys d)"
  by (induction d) (auto simp: dhas_def dkeys_def)

lemma map_of_dset [simp]: "map_of (dset d k v) = (map_of d)(k \<mapsto> v)"
  by (induction d) (auto simp: fun_eq_iff)

lemma dkeys_dset: "dkeys (dset d k v) = (if k \<in> set (dkeys d) then dkeys d else dkeys d @ [k])"
  by (induction d) (force simp: dkeys_def)+

lemma distinct_dkeys_dset: "distinct (dkeys d) \<Longrightarrow> distinct (dkeys (dset d k v))"
  by (simp add: dkeys_dset)

lemma distinct_dkeys_foldl:
  "distinct (dkeys d) \<Longrightarrow> distinct (dkeys (foldl (\<lambda>d (k, v). dset d k v) d kvs))"
  by (induction kvs arbitrary: d) (auto simp: distinct_dkeys_dset)

lemma distinct_dict_of: "distinct (dkeys (dict_of kvs))"
  by (simp add: dict_of_def distinct_dkeys_foldl dkeys_def [of "[]"])

lemma dset_absent: "\<not> dhas d k \<Longrightarrow> dset d k v = d @ [(k, v)]"
  by (induction d) (auto simp: dhas_def split: if_splits)

lemma as_dict_Some [simp]: "as_dict x = Some d \<longleftrightarrow> x = JObj d"
  by (cases x) (auto simp: as_dict_def)

lemma py_list_JNull [simp]: "py_list JNull = []"
  by (simp add: py_list_def)

lemma py_list_JList [simp]: "py_list (JList xs) = xs"
  by (simp add: py_list_def)


section \<open>Text of a value\<close>

definition repr_char :: "char \<Rightarrow> char \<Rightarrow> string" where
  "repr_char q c =
     (if c = q \<or> ccode c = 92 then [char_of (92::nat), c]
      else if ccode c = 10 then [char_of (92::nat), CHR ''n'']
      else if ccode c = 13 then [char_of (92::nat), CHR ''r'']
      else if ccode c = 9 then [char_of (92::nat), CHR ''t'']
      else if ccode c < 32 \<or> in_range 127 160 c \<or> ccode c = 173 then char_of (92::nat) # CHR ''x'' # hex2 (ccode c)
      else [c])"

definition repr_str :: "string \<Rightarrow> string" where
  "repr_str s =
     (let q = (if char_of (39::nat) \<in> set s \<and> CHR 0x22 \<notin> set s then CHR 0x22 else char_of (39::nat))
      in q # concat (map (repr_char q) s) @ [q])"

definition zeros :: "nat \<Rightarrow> string" where
  "zeros n = replicate n (CHR ''0'')"

text \<open>\<^verbatim>\<open>repr\<close> of a float: positional for a decimal point between -3 and 16, else scientific.\<close>

definition repr_float :: "int \<Rightarrow> int \<Rightarrow> string" where
  "repr_float m e =
     (let ds = show_nat (nat \<bar>m\<bar>); n = int (length ds); pt = n + e;
          body = (if m = 0 then ''0.0''
                  else if pt \<le> - 4 \<or> 16 < pt then
                    take 1 ds @ (if n = 1 then [] else ''.'' @ drop 1 ds) @ ''e''
                    @ (if pt - 1 < 0 then ''-'' else ''+'')
                    @ (let x = show_nat (nat \<bar>pt - 1\<bar>) in if length x < 2 then ''0'' @ x else x)
                  else if pt \<le> 0 then ''0.'' @ zeros (nat (- pt)) @ ds
                  else if n \<le> pt then ds @ zeros (nat (pt - n)) @ ''.0''
                  else take (nat pt) ds @ ''.'' @ drop (nat pt) ds)
      in if m < 0 then ''-'' @ body else body)"

fun py_repr :: "json \<Rightarrow> string" where
  "py_repr JNull = ''None''"
| "py_repr (JBool b) = (if b then ''True'' else ''False'')"
| "py_repr (JInt i) = show_int i"
| "py_repr (JFloat m e) = repr_float m e"
| "py_repr (JStr s) = repr_str s"
| "py_repr (JList xs) = ''['' @ join '', '' (map py_repr xs) @ '']''"
| "py_repr (JObj d) = ''{'' @ join '', '' (map (\<lambda>(k, v). repr_str k @ '': '' @ py_repr v) d) @ ''}''"

definition py_str :: "json \<Rightarrow> string" where
  "py_str x = (case x of JStr s \<Rightarrow> s | _ \<Rightarrow> py_repr x)"

lemma py_str_JStr [simp]: "py_str (JStr s) = s"
  by (simp add: py_str_def)

text \<open>\<^verbatim>\<open>str\<close> of a list of strings.\<close>

definition repr_strs :: "string list \<Rightarrow> string" where
  "repr_strs xs = ''['' @ join '', '' (map repr_str xs) @ '']''"


section \<open>Every dictionary of a value\<close>

text \<open>\<^verbatim>\<open>_iter_dicts\<close>: a dictionary before the dictionaries of its values, in order.\<close>

fun iter_dicts :: "json \<Rightarrow> dict list" where
  "iter_dicts (JObj d) = d # concat (map (\<lambda>(k, v). iter_dicts v) d)"
| "iter_dicts (JList xs) = concat (map iter_dicts xs)"
| "iter_dicts _ = []"

text \<open>\<open>subterm v w\<close>: \<open>w\<close> occurs in \<open>v\<close>.\<close>

inductive subterm :: "json \<Rightarrow> json \<Rightarrow> bool" where
  sub_refl: "subterm v v"
| sub_list: "x \<in> set xs \<Longrightarrow> subterm x w \<Longrightarrow> subterm (JList xs) w"
| sub_obj: "(k, x) \<in> set d \<Longrightarrow> subterm x w \<Longrightarrow> subterm (JObj d) w"

inductive_cases subterm_JListE: "subterm (JList xs) w"
inductive_cases subterm_JObjE: "subterm (JObj d) w"

lemma iter_dicts_complete: "subterm v w \<Longrightarrow> w = JObj d \<Longrightarrow> d \<in> set (iter_dicts v)"
  by (induction rule: subterm.induct) force+

lemma iter_dicts_sound: "d \<in> set (iter_dicts v) \<Longrightarrow> subterm v (JObj d)"
  by (induction v rule: iter_dicts.induct) (auto intro: subterm.intros)

lemma iter_dicts_iff: "d \<in> set (iter_dicts v) \<longleftrightarrow> subterm v (JObj d)"
  using iter_dicts_complete iter_dicts_sound by blast


section \<open>Iterating over JSON values\<close>

text \<open>\<^verbatim>\<open>for x in (v or [])\<close>: a list, the keys of an object, the characters of a string; any other true
  value is not iterable.\<close>

definition py_iter :: "json \<Rightarrow> json list option" where
  "py_iter v =
     (if \<not> truthy v then Some []
      else case v of
        JList xs \<Rightarrow> Some xs
      | JObj d \<Rightarrow> Some (map JStr (dkeys d))
      | JStr s \<Rightarrow> Some (map (\<lambda>c. JStr [c]) s)
      | _ \<Rightarrow> None)"

text \<open>\<^verbatim>\<open>any(...)\<close> over elements whose test may raise: it stops at the first true one.\<close>

fun any_opt :: "('a \<Rightarrow> bool option) \<Rightarrow> 'a list \<Rightarrow> bool option" where
  "any_opt f [] = Some False"
| "any_opt f (x # xs) = do { b \<leftarrow> f x; if b then Some True else any_opt f xs }"

definition hashable :: "json \<Rightarrow> bool" where
  "hashable v \<longleftrightarrow> \<not> is_obj v \<and> \<not> is_list v"

definition frozen :: "json list \<Rightarrow> json list" where
  "frozen xs = sort_key py_repr (remdups xs)"

definition frozenset_of :: "json \<Rightarrow> json list option" where
  "frozenset_of v = do { xs \<leftarrow> py_iter v; if list_all hashable xs then Some (frozen xs) else None }"

definition frozen_strs :: "string list \<Rightarrow> json list" where
  "frozen_strs ss = frozen (map JStr ss)"

text \<open>\<^verbatim>\<open>(d.get(k) or {})\<close> along a path of keys.\<close>

fun or_path :: "json \<Rightarrow> string list \<Rightarrow> json option" where
  "or_path v [] = Some v"
| "or_path v (k # ks) = do { d \<leftarrow> or_dict v; or_path (dget d k) ks }"

definition as_str :: "json \<Rightarrow> string option" where
  "as_str v = (case v of JStr s \<Rightarrow> Some s | _ \<Rightarrow> None)"

fun fold_opt :: "('s \<Rightarrow> 'a \<Rightarrow> 's option) \<Rightarrow> 's \<Rightarrow> 'a list \<Rightarrow> 's option" where
  "fold_opt f s [] = Some s"
| "fold_opt f s (x # xs) = do { s' \<leftarrow> f s x; fold_opt f s' xs }"

text \<open>A loop that gathers failures: a step never forgets one, and a step that adds none shows that its element is
  good. Then a run that ends without a failure shows that every element is good. The scan loops of the CI scripts
  interpret this.\<close>

locale clean_loop =
  fixes step :: "'s \<Rightarrow> 'a \<Rightarrow> 's option"
    and clean :: "'s \<Rightarrow> bool"
    and good :: "'a \<Rightarrow> bool"
  assumes step_clean: "step s x = Some s' \<Longrightarrow> clean s' \<Longrightarrow> clean s \<and> good x"
begin

lemma loop_clean: "fold_opt step s xs = Some s' \<Longrightarrow> clean s' \<Longrightarrow> clean s \<and> (\<forall>x\<in>set xs. good x)"
proof (induction xs arbitrary: s)
  case (Cons x xs)
  then obtain s1 where s1: "step s x = Some s1" "fold_opt step s1 xs = Some s'" by (auto simp: bind_eq_Some_conv)
  from Cons.IH [OF s1(2) Cons.prems(2)] step_clean [OF s1(1)] show ?case by simp
qed simp

end


section \<open>Numbers read from values\<close>

text \<open>Digits with single underscores between them, as \<^verbatim>\<open>int\<close> and \<^verbatim>\<open>float\<close> accept.\<close>

definition rx_digits :: rx where
  "rx_digits = RSeq rdigit (RStar (RSeq (ropt (rchr CHR ''_'')) rdigit))"

definition rx_sign :: rx where
  "rx_sign = ropt (RSet (\<lambda>c. c = CHR ''+'' \<or> c = CHR ''-''))"

definition no_underscore :: "string \<Rightarrow> string" where
  "no_underscore s = filter (\<lambda>c. c \<noteq> CHR ''_'') s"

text \<open>\<^verbatim>\<open>int(text)\<close>; \<^term>\<open>None\<close> is ValueError. More than 4300 digits are refused.\<close>

definition int_of_text :: "string \<Rightarrow> int option" where
  "int_of_text t =
     (case re_fullmatch (RSeq (RGroup 1 rx_sign) (RGroup 2 rx_digits)) (strip t) of
        None \<Rightarrow> None
      | Some c \<Rightarrow>
          (let ds = no_underscore (group_text c 2); n = digits_val ds
           in if 4300 < length ds then None
              else Some (if group_text c 1 = ''-'' then - n else n)))"

datatype pyfloat = FDec int int | FInf bool | FNan

definition rx_float :: rx where
  "rx_float =
     rseq [RGroup 1 rx_sign,
           RAlt (RSeq (RGroup 2 rx_digits) (ropt (RSeq (rchr CHR ''.'') (ropt (RGroup 3 rx_digits)))))
                (RSeq (rchr CHR ''.'') (RGroup 3 rx_digits)),
           ropt (rseq [rci CHR ''e'', RGroup 4 rx_sign, RGroup 5 rx_digits])]"

definition rx_float_word :: rx where
  "rx_float_word = RSeq (RGroup 1 rx_sign) (RGroup 2 (ralt [rlit_ci ''infinity'', rlit_ci ''inf'', rlit_ci ''nan'']))"

text \<open>\<^verbatim>\<open>float(text)\<close>, before rounding to a double; \<^term>\<open>None\<close> is ValueError.\<close>

definition float_of_text :: "string \<Rightarrow> pyfloat option" where
  "float_of_text t =
     (case re_fullmatch rx_float (strip t) of
        Some c \<Rightarrow>
          (let whole = no_underscore (group_text c 2); frac = no_underscore (group_text c 3);
               m = (digits_val (whole @ frac));
               x = (digits_val (no_underscore (group_text c 5)));
               e = (if group_text c 4 = ''-'' then - x else x) - int (length frac)
           in Some (FDec (if group_text c 1 = ''-'' then - m else m) e))
      | None \<Rightarrow>
          (case re_fullmatch rx_float_word (strip t) of
             None \<Rightarrow> None
           | Some c \<Rightarrow>
               Some (if lower (group_text c 2) = ''nan'' then FNan else FInf (group_text c 1 = ''-''))))"

text \<open>\<^verbatim>\<open>float(x)\<close> for a value: \<^term>\<open>None\<close> is TypeError or ValueError.\<close>

definition py_float :: "json \<Rightarrow> pyfloat option" where
  "py_float x =
     (case x of
        JBool b \<Rightarrow> Some (FDec (if b then 1 else 0) 0)
      | JInt i \<Rightarrow> Some (FDec i 0)
      | JFloat m e \<Rightarrow> Some (FDec m e)
      | JStr s \<Rightarrow> float_of_text s
      | _ \<Rightarrow> None)"

text \<open>\<^verbatim>\<open>float(...) <= 0\<close>: a positive decimal of at most half the least positive double rounds to
  zero; NaN compares false.\<close>

definition float_le_zero :: "pyfloat \<Rightarrow> bool" where
  "float_le_zero f =
     (case f of
        FDec m e \<Rightarrow> m \<le> 0 \<or> (e < 0 \<and> m * 2 ^ 1075 \<le> 10 ^ nat (- e))
      | FInf neg \<Rightarrow> neg
      | FNan \<Rightarrow> False)"

subsection \<open>Rounding a decimal to a double\<close>

function ilog2 :: "int \<Rightarrow> int" where
  "ilog2 n = (if n < 2 then 0 else 1 + ilog2 (n div 2))"
  by pat_completeness auto
termination
  by (relation "measure nat") auto

declare ilog2.simps [simp del]

definition round_half_even :: "int \<Rightarrow> int \<Rightarrow> int" where
  "round_half_even n d =
     (let q = n div d; r = n mod d
      in if 2 * r < d \<or> (2 * r = d \<and> even q) then q else q + 1)"

text \<open>\<open>round_double n d = (q, k)\<close> for \<open>0 \<le> n\<close> and \<open>0 < d\<close>: the double nearest to \<open>n / d\<close> is
  \<open>q / 2 ^ k\<close> for \<open>k \<ge> 0\<close> and \<open>q * 2 ^ - k\<close> otherwise; \<open>k\<close> is chosen so that the quotient has
  53 bits, at most 1074.\<close>

definition double_shift :: "int \<Rightarrow> int \<Rightarrow> int" where
  "double_shift n d =
     (let k = 52 - (ilog2 n - ilog2 d)
      in min 1074 (if n * 2 ^ nat k div (d * 2 ^ nat (- k)) < 2 ^ 52 then k + 1 else k))"

definition round_double :: "int \<Rightarrow> int \<Rightarrow> int \<times> int" where
  "round_double n d =
     (if n = 0 then (0, 0)
      else let k = double_shift n d in (round_half_even (n * 2 ^ nat k) (d * 2 ^ nat (- k)), k))"

text \<open>\<^verbatim>\<open>int(float(text) * 2 ** j)\<close> for a decimal text \<open>n / 10 ^ f\<close>; \<^term>\<open>None\<close> is the
  OverflowError of an infinite value.\<close>

definition scaled_double :: "int \<Rightarrow> nat \<Rightarrow> nat \<Rightarrow> int option" where
  "scaled_double n f j =
     (let (q, k) = round_double n (10 ^ f);
          v = q * 2 ^ j * 2 ^ nat (- k)
      in if 2 ^ 1024 * 2 ^ nat k \<le> v then None else Some (v div 2 ^ nat k))"

text \<open>\<^verbatim>\<open>int(x)\<close> of a double given by its decimal.\<close>

definition int_of_dec :: "int \<Rightarrow> int \<Rightarrow> int option" where
  "int_of_dec m e = map_option (\<lambda>n. sgn m * n) (scaled_double (\<bar>m\<bar> * 10 ^ nat e) (nat (- e)) 0)"

text \<open>\<^verbatim>\<open>int(x)\<close> for a value: \<^term>\<open>None\<close> is TypeError, ValueError or OverflowError.\<close>

definition py_int :: "json \<Rightarrow> int option" where
  "py_int x =
     (case x of
        JBool b \<Rightarrow> Some (if b then 1 else 0)
      | JInt i \<Rightarrow> Some i
      | JFloat m e \<Rightarrow> int_of_dec m e
      | JStr s \<Rightarrow> int_of_text s
      | _ \<Rightarrow> None)"

end
