(* ===== verification/Stack_Tables.thy ===== *)
theory Stack_Tables
  imports Py_Json
begin

text \<open>
  The tables at the head of \<^verbatim>\<open>deploy/compose/stackguards.py\<close>: the specification of the stack that
  every guard compares a configuration with. A dictionary is an association list, a set or a tuple
  is a list; where only membership matters the order has no meaning.
\<close>

definition STACK_NAME :: string where
  "STACK_NAME = ''decisya''"

definition DP_CERT :: string where
  "DP_CERT = ''Bff__DataProtection__Certificate''"

definition DP_CERT_PASSWORD :: string where
  "DP_CERT_PASSWORD = ''Bff__DataProtection__CertificatePassword''"

definition DP_PREVIOUS :: string where
  "DP_PREVIOUS = ''Bff__DataProtection__PreviousCertificate''"

definition DP_PREVIOUS_PASSWORD :: string where
  "DP_PREVIOUS_PASSWORD = ''Bff__DataProtection__PreviousCertificatePassword''"

definition DP_SECRETS :: "string list" where
  "DP_SECRETS = [DP_CERT, DP_CERT_PASSWORD, DP_PREVIOUS, DP_PREVIOUS_PASSWORD]"

definition GENERATOR_FLAG :: string where
  "GENERATOR_FLAG = ''--generate-keyring-certificate''"

definition KEYRING_VOLUME :: string where
  "KEYRING_VOLUME = ''bff-keyring''"

definition KEYRING_VOLUME_NAME :: string where
  "KEYRING_VOLUME_NAME = STACK_NAME @ ''_'' @ KEYRING_VOLUME"

definition KEYRING_MOUNT_TARGET :: string where
  "KEYRING_MOUNT_TARGET = ''/keyring''"

definition KEYRING_UID :: int where
  "KEYRING_UID = 1654"

definition HTTPS_PORT :: int where
  "HTTPS_PORT = 8443"

definition ADMIN_PORT :: int where
  "ADMIN_PORT = 8444"

definition CADDY_BACKCHANNEL_ADDRESS :: string where
  "CADDY_BACKCHANNEL_ADDRESS = ''10.120.0.2''"

definition CADDY_IDP_ADDRESS :: string where
  "CADDY_IDP_ADDRESS = ''10.120.1.2''"

definition COMMITTED_SUBNETS :: "(string \<times> string) list" where
  "COMMITTED_SUBNETS = [(''backchannel'', ''10.120.0.0/24''), (''idp'', ''10.120.1.0/24'')]"

definition HOST_KEYS :: "string list" where
  "HOST_KEYS = [''DECISYA_APP_HOST'', ''DECISYA_ID_HOST'', ''DECISYA_API_HOST'']"

definition IMAGE_KEYS :: "(string \<times> string) list" where
  "IMAGE_KEYS = [(''DECISYA_API_IMAGE'', ''api''), (''DECISYA_BFF_IMAGE'', ''bff''),
     (''DECISYA_MIGRATOR_IMAGE'', ''migrator'')]"

definition ENV_KEYS :: "string list" where
  "ENV_KEYS = [''DECISYA_BIND_ADDRESS'', ''DECISYA_HTTPS_PORT'', ''DECISYA_ADMIN_PORT''] @ HOST_KEYS @ dkeys IMAGE_KEYS"

definition CADDY_ENV_KEYS :: "string list" where
  "CADDY_ENV_KEYS = HOST_KEYS"

definition EXPECTED_SERVICES :: "string list" where
  "EXPECTED_SERVICES = [''api'', ''bff'', ''caddy'', ''keycloak'', ''migrator'', ''otel-collector'',
     ''postgres'', ''redis'']"

definition RELEASE_SERVICES :: "(string \<times> string) list" where
  "RELEASE_SERVICES = [(''api'', ''DECISYA_API_IMAGE''), (''bff'', ''DECISYA_BFF_IMAGE''),
     (''migrator'', ''DECISYA_MIGRATOR_IMAGE'')]"

definition THIRD_PARTY_ALIAS :: "(string \<times> string) list" where
  "THIRD_PARTY_ALIAS = [(''postgres'', ''postgres''), (''redis'', ''redis''), (''keycloak'', ''keycloak''),
     (''caddy'', ''caddy''), (''otel-collector'', ''otelcollector'')]"

definition EXPECTED_NETWORKS :: "(string \<times> string list) list" where
  "EXPECTED_NETWORKS = [
     (''postgres'', [''pg-app'', ''pg-kc'']),
     (''redis'', [''cache'']),
     (''keycloak'', [''idp'', ''pg-kc'']),
     (''caddy'', [''edge'', ''backchannel'', ''idp'']),
     (''otel-collector'', [''telemetry'']),
     (''migrator'', [''pg-app'', ''telemetry'']),
     (''api'', [''backchannel'', ''pg-app'', ''telemetry'']),
     (''bff'', [''backchannel'', ''cache'', ''telemetry''])]"

definition TOP_LEVEL_NETWORKS :: "string list" where
  "TOP_LEVEL_NETWORKS = [''edge'', ''backchannel'', ''idp'', ''pg-app'', ''pg-kc'', ''cache'', ''telemetry'']"

definition INTERNAL_NETWORKS :: "string list" where
  "INTERNAL_NETWORKS = keys_minus TOP_LEVEL_NETWORKS [''edge'']"

definition IMPORT_DIR :: string where
  "IMPORT_DIR = ''/opt/keycloak/data/import''"

definition REALM_FILE_NAME :: string where
  "REALM_FILE_NAME = ''realm-decisya.json''"

definition REALM_SOURCE :: string where
  "REALM_SOURCE = ''./config/keycloak/'' @ REALM_FILE_NAME"

definition REALM_TARGET :: string where
  "REALM_TARGET = IMPORT_DIR @ ''/'' @ REALM_FILE_NAME"

definition PASSWORD_LIST_NAME :: string where
  "PASSWORD_LIST_NAME = ''common-passwords.txt''"

definition PASSWORD_LIST_SOURCE :: string where
  "PASSWORD_LIST_SOURCE = ''./config/keycloak/'' @ PASSWORD_LIST_NAME"

definition PASSWORD_LIST_TARGET :: string where
  "PASSWORD_LIST_TARGET = ''/opt/keycloak/data/password-blacklists/'' @ PASSWORD_LIST_NAME"

definition KEYCLOAK_ENV_KEYS :: "string list" where
  "KEYCLOAK_ENV_KEYS = [''DECISYA_APP_HOST'', ''DECISYA_HTTPS_PORT'']"

definition WRAPPER_DERIVED_NAMES :: "string list" where
  "WRAPPER_DERIVED_NAMES = [''DECISYA_BFF_CLIENT_SECRET'', ''DECISYA_REALM_APP_ORIGIN'']"

definition ADMIN_MFA_SETTING :: string where
  "ADMIN_MFA_SETTING = ''authentication__requireadminmfa''"

definition HOST_ENV_PREFIXES :: "string list" where
  "HOST_ENV_PREFIXES = [''aspnetcore_'', ''dotnet_'']"

definition KEYCLOAK_BANNED_ARGS :: "string list" where
  "KEYCLOAK_BANNED_ARGS = [''start'' @ ''-dev'', ''--'' @ ''import'' @ ''-realm'', ''import'', ''export'', ''build'']"

definition SECRET_CONSUMERS :: "(string \<times> string list) list" where
  "SECRET_CONSUMERS = [
     (''postgres'', [''postgres_superuser_password'', ''migrator_db_password'', ''keycloak_db_password'']),
     (''redis'', [''redis_acl'']),
     (''keycloak'', [''keycloak_db_password'', ''keycloak_bootstrap_admin_password'', ''Bff__Oidc__ClientSecret'']),
     (''caddy'', []),
     (''otel-collector'', []),
     (''migrator'', [''ConnectionStrings__decisya'', ''Migrator__TenancyRolePassword'',
        ''Migrator__EntitlementsRolePassword'', ''Decisya__Observability__UserIdHashKey'']),
     (''api'', [''ConnectionStrings__tenancy'', ''ConnectionStrings__entitlements'',
        ''Decisya__Observability__UserIdHashKey'']),
     (''bff'', [''ConnectionStrings__redis'', ''Bff__Oidc__ClientSecret'', ''Decisya__Observability__UserIdHashKey'']
        @ DP_SECRETS)]"

definition ALL_SECRETS :: "string list" where
  "ALL_SECRETS = remdups (concat (dvals SECRET_CONSUMERS))"

definition BIND_MOUNTS :: "(string \<times> (string \<times> string) list) list" where
  "BIND_MOUNTS = [
     (''postgres'', [(''./config/postgres/init'', ''/docker-entrypoint-initdb.d'')]),
     (''redis'', [(''./config/redis/redis.conf'', ''/usr/local/etc/redis/redis.conf'')]),
     (''keycloak'', [(''./config/keycloak/entrypoint-stack.sh'', ''/opt/decisya/entrypoint-stack.sh''),
        (REALM_SOURCE, REALM_TARGET), (PASSWORD_LIST_SOURCE, PASSWORD_LIST_TARGET)]),
     (''caddy'', [(''./config/caddy/Caddyfile'', ''/etc/caddy/Caddyfile'')]),
     (''otel-collector'', [(''./config/otel-collector/config.yaml'', ''/etc/otelcol/config.yaml'')])]"

definition NAMED_VOLUMES :: "(string \<times> (string \<times> string) list) list" where
  "NAMED_VOLUMES = [
     (''postgres'', [(''postgres-data'', ''/var/lib/postgresql'')]),
     (''caddy'', [(''caddy-data'', ''/data'')]),
     (''bff'', [(''bff-keyring'', ''/home/app/keyring'')])]"

definition ALL_NAMED_VOLUMES :: "string list" where
  "ALL_NAMED_VOLUMES = [''postgres-data'', ''caddy-data'', ''bff-keyring'']"

definition CONFIG_CONSUMERS :: "(string \<times> string list) list" where
  "CONFIG_CONSUMERS = [(''bff'', [''caddy-root'']), (''api'', [''caddy-root'']), (''keycloak'', [''caddy-root''])]"

definition CADDY_ROOT_TARGET :: string where
  "CADDY_ROOT_TARGET = ''/etc/decisya/trust/caddy-root.crt''"

definition ALLOWED_TOP_KEYS :: "string list" where
  "ALLOWED_TOP_KEYS = [''name'', ''services'', ''networks'', ''volumes'', ''secrets'', ''configs'']"

definition ALLOWED_SERVICE_KEYS :: "string list" where
  "ALLOWED_SERVICE_KEYS = [''image'', ''command'', ''entrypoint'', ''environment'', ''depends_on'',
     ''healthcheck'', ''networks'', ''user'', ''cap_drop'', ''security_opt'', ''read_only'', ''tmpfs'',
     ''mem_limit'', ''cpus'', ''pids_limit'', ''volumes'', ''configs'', ''secrets'', ''ports'', ''logging'',
     ''restart'']"

definition BANNED_KEYS :: "string list" where
  "BANNED_KEYS = [''env_file'', ''build'', ''include'', ''extends'', ''privileged'', ''cap_add'', ''devices'',
     ''device_cgroup_rules'', ''network_mode'', ''pid'', ''ipc'', ''uts'', ''userns_mode'', ''cgroup'',
     ''cgroup_parent'', ''volumes_from'']"

definition GENERATED_ALLOWED_SERVICE_KEYS :: "string list" where
  "GENERATED_ALLOWED_SERVICE_KEYS = [''image'', ''command'', ''entrypoint'', ''environment'', ''depends_on'',
     ''healthcheck'', ''networks'']"

text \<open>\<^verbatim>\<open>int(3.5 * 1024 ** 3)\<close>; the product is exact in binary floating point.\<close>

definition MEMORY_CEILING_BYTES :: int where
  "MEMORY_CEILING_BYTES = 7 * 1024 ^ 3 div 2"

definition NO_NEW_PRIVILEGES :: "string list" where
  "NO_NEW_PRIVILEGES = [''no-new-privileges:true'', ''no-new-privileges=true'', ''no-new-privileges'']"

definition SECRET_NAME_RE :: rx where
  "SECRET_NAME_RE = ralt (map rlit_ci [''PASSWORD'', ''SECRET'', ''KEY'', ''TOKEN'', ''CONNECTIONSTRING'',
     ''HEADERS'', ''CREDENTIAL'', ''ASPIRE_DASHBOARD''])"

definition NON_SECRET_NAMES :: "string list" where
  "NON_SECRET_NAMES = [''Bff__DataProtection__KeyRingPath'', ''KC_PROXY_HEADERS'']"

definition userinfo_char :: "char \<Rightarrow> bool" where
  "userinfo_char c \<longleftrightarrow> c \<noteq> CHR ''/'' \<and> c \<noteq> CHR ''@'' \<and> \<not> is_space c"

definition USERINFO_RE :: rx where
  "USERINFO_RE = rseq [rlit ''://'', rplus (RSet userinfo_char), rchr CHR '':'', rplus (RSet userinfo_char), rchr CHR ''@'']"

lemmas stack_tables =
  STACK_NAME_def EXPECTED_SERVICES_def RELEASE_SERVICES_def THIRD_PARTY_ALIAS_def EXPECTED_NETWORKS_def
  TOP_LEVEL_NETWORKS_def INTERNAL_NETWORKS_def SECRET_CONSUMERS_def ALL_SECRETS_def BIND_MOUNTS_def
  NAMED_VOLUMES_def ALL_NAMED_VOLUMES_def CONFIG_CONSUMERS_def COMMITTED_SUBNETS_def

lemma userinfo_excludes_at: "\<not> userinfo_char CHR ''@''"
  by (simp add: userinfo_char_def)

text \<open>Every service of the tables is an expected one, and the memory ceiling is 3.5 GiB.\<close>

lemma tables_closed:
  "set (dkeys EXPECTED_NETWORKS) = set EXPECTED_SERVICES"
  "set (dkeys SECRET_CONSUMERS) = set EXPECTED_SERVICES"
  "set (dkeys RELEASE_SERVICES) \<union> set (dkeys THIRD_PARTY_ALIAS) = set EXPECTED_SERVICES"
  by (auto simp: stack_tables dkeys_def)

lemma memory_ceiling_value: "MEMORY_CEILING_BYTES = 3758096384"
  by (simp add: MEMORY_CEILING_BYTES_def)

end
