(* ===== verification/Py_Net.thy ===== *)
theory Py_Net
  imports Py_Prelude
begin

text \<open>
  Python's \<^verbatim>\<open>ipaddress\<close> for IPv4: addresses as integers below \<open>2 ^ 32\<close>, networks as a network
  address and a prefix length. \<^term>\<open>None\<close> is the ValueError of a text that is not one.
\<close>

definition octet_of :: "string \<Rightarrow> int option" where
  "octet_of t =
     (if t = [] \<or> \<not> list_all is_digit t \<or> 3 < length t \<or> (t \<noteq> ''0'' \<and> hd t = CHR ''0'')
        \<or> 255 < digits_val t
      then None else Some (digits_val t))"

definition ipv4_of :: "string \<Rightarrow> int option" where
  "ipv4_of t =
     (case split_on ''.'' t of
        [a, b, c, d] \<Rightarrow>
          do { a \<leftarrow> octet_of a; b \<leftarrow> octet_of b; c \<leftarrow> octet_of c; d \<leftarrow> octet_of d;
               Some (((a * 256 + b) * 256 + c) * 256 + d) }
      | _ \<Rightarrow> None)"

text \<open>The members of the network \<open>net/prefix\<close>: \<^verbatim>\<open>ip & netmask == network_address\<close>.\<close>

definition in_net :: "int \<Rightarrow> int \<times> nat \<Rightarrow> bool" where
  "in_net ip n = (case n of (net, plen) \<Rightarrow> ip - ip mod 2 ^ (32 - plen) = net)"

definition is_unspecified :: "int \<Rightarrow> bool" where
  "is_unspecified ip \<longleftrightarrow> ip = 0"

definition is_multicast :: "int \<Rightarrow> bool" where
  "is_multicast ip \<longleftrightarrow> in_net ip (224 * 2 ^ 24, 4)"

definition is_reserved :: "int \<Rightarrow> bool" where
  "is_reserved ip \<longleftrightarrow> in_net ip (240 * 2 ^ 24, 4)"

definition is_link_local :: "int \<Rightarrow> bool" where
  "is_link_local ip \<longleftrightarrow> in_net ip (169 * 2 ^ 24 + 254 * 2 ^ 16, 16)"

text \<open>The prefix length of a network text: decimal digits up to 32, or a netmask or host mask.\<close>

definition mask_prefix :: "int \<Rightarrow> nat option" where
  "mask_prefix m =
     (case filter (\<lambda>p. m = 2 ^ 32 - 2 ^ (32 - p)) [0..<33] of [] \<Rightarrow> None | p # _ \<Rightarrow> Some p)"

definition prefix_of :: "string \<Rightarrow> nat option" where
  "prefix_of t =
     (if t \<noteq> [] \<and> list_all is_digit t \<and> digits_val t \<le> 32 then Some (nat (digits_val t))
      else do { m \<leftarrow> ipv4_of t;
                case mask_prefix m of None \<Rightarrow> mask_prefix (2 ^ 32 - 1 - m) | Some p \<Rightarrow> Some p })"

text \<open>\<^verbatim>\<open>IPv4Network(text, strict)\<close>.\<close>

definition ipv4_net_of :: "bool \<Rightarrow> string \<Rightarrow> (int \<times> nat) option" where
  "ipv4_net_of strict t =
     do { (a, p) \<leftarrow> (case split_on ''/'' t of
                        [a] \<Rightarrow> Some (a, Some 32)
                      | [a, p] \<Rightarrow> Some (a, prefix_of p)
                      | _ \<Rightarrow> None);
          ip \<leftarrow> ipv4_of a;
          n \<leftarrow> p;
          let net = ip - ip mod 2 ^ (32 - n);
          if strict \<and> net \<noteq> ip then None else Some (net, n) }"

definition show_ipv4 :: "int \<Rightarrow> string" where
  "show_ipv4 ip =
     show_int (ip div 2 ^ 24 mod 256) @ ''.'' @ show_int (ip div 2 ^ 16 mod 256) @ ''.''
     @ show_int (ip div 2 ^ 8 mod 256) @ ''.'' @ show_int (ip mod 256)"

definition show_ipv4_net :: "int \<times> nat \<Rightarrow> string" where
  "show_ipv4_net n = (case n of (net, plen) \<Rightarrow> show_ipv4 net @ ''/'' @ show_nat plen)"

lemma digits_val_nonneg: "list_all is_digit t \<Longrightarrow> 0 \<le> digits_val t"
proof -
  have "list_all is_digit t \<Longrightarrow> 0 \<le> n \<Longrightarrow> 0 \<le> foldl (\<lambda>n c. 10 * n + digit_val c) n t" for n
  proof (induction t arbitrary: n)
    case (Cons c t)
    then have "0 \<le> digit_val c" by (simp add: is_digit_def in_range_def digit_val_def)
    with Cons show ?case by simp
  qed simp
  then show "list_all is_digit t \<Longrightarrow> 0 \<le> digits_val t" by (simp add: digits_val_def)
qed

lemma octet_of_range: "octet_of t = Some n \<Longrightarrow> 0 \<le> n \<and> n < 256"
  by (auto simp: octet_of_def digits_val_nonneg split: if_splits)

lemma ipv4_of_range: "ipv4_of t = Some ip \<Longrightarrow> 0 \<le> ip \<and> ip < 2 ^ 32"
  by (force simp: ipv4_of_def bind_eq_Some_conv dest!: octet_of_range split: list.splits)

text \<open>Membership as an interval of addresses.\<close>

lemma in_net_interval:
  assumes "net mod 2 ^ (32 - p) = 0"
  shows "in_net ip (net, p) \<longleftrightarrow> net \<le> ip \<and> ip < net + 2 ^ (32 - p)"
proof -
  let ?h = "2 ^ (32 - p) :: int"
  have h: "0 < ?h" by simp
  have "ip - ip mod ?h = net" if "net \<le> ip" "ip < net + ?h"
  proof -
    obtain q where q: "net = ?h * q" using assms by (auto simp: mod_eq_0_iff_dvd)
    with that have "ip div ?h = q"
      by (intro int_div_pos_eq [of _ _ _ "ip - net"]) auto
    with q show ?thesis by (simp add: minus_mod_eq_mult_div)
  qed
  moreover have "net \<le> ip \<and> ip < net + ?h" if "ip - ip mod ?h = net"
    using that pos_mod_bound [OF h, of ip] pos_mod_sign [OF h, of ip] by linarith
  ultimately show ?thesis by (auto simp: in_net_def)
qed


section \<open>IPv6 and normalised network texts\<close>

definition hex_val :: "char \<Rightarrow> int option" where
  "hex_val c = (if is_digit c then Some (int (ccode c) - 48)
                else if in_range 97 102 c then Some (int (ccode c) - 87)
                else if in_range 65 70 c then Some (int (ccode c) - 55) else None)"

fun hex_digits_val :: "int \<Rightarrow> string \<Rightarrow> int option" where
  "hex_digits_val n [] = Some n"
| "hex_digits_val n (c # cs) = do { d \<leftarrow> hex_val c; hex_digits_val (16 * n + d) cs }"

definition hextet_of :: "string \<Rightarrow> int option" where
  "hextet_of t = (if t = [] \<or> 4 < length t then None else hex_digits_val 0 t)"

fun hextets :: "int \<Rightarrow> string list \<Rightarrow> int option" where
  "hextets n [] = Some n"
| "hextets n (p # ps) = do { h \<leftarrow> hextet_of p; hextets (65536 * n + h) ps }"

function show_hex :: "nat \<Rightarrow> string" where
  "show_hex n = (if n < 16 then [hex_digit n] else show_hex (n div 16) @ [hex_digit (n mod 16)])"
  by pat_completeness auto
termination
  by (relation "measure id") auto

declare show_hex.simps [simp del]

text \<open>A dotted quad at the end stands for two groups.\<close>

definition v6_parts :: "string \<Rightarrow> string list option" where
  "v6_parts t =
     (let parts = split_on '':'' t in
      if length parts < 3 then None
      else if CHR ''.'' \<in> set (last parts) then
        map_option (\<lambda>ip. butlast parts @ [show_hex (nat (ip div 65536)), show_hex (nat (ip mod 65536))]) (ipv4_of (last parts))
      else Some parts)"

definition inner_empty :: "string list \<Rightarrow> nat list" where
  "inner_empty parts = filter (\<lambda>i. parts ! i = []) [1..<length parts - 1]"

definition ipv6_of :: "string \<Rightarrow> int option" where
  "ipv6_of t =
     do { parts \<leftarrow> v6_parts t;
          (if 9 < length parts then None
           else case inner_empty parts of
             [] \<Rightarrow> if length parts \<noteq> 8 then None else hextets 0 parts
           | [k] \<Rightarrow>
               (let hi = (if hd parts = [] then [] else take k parts);
                    lo = (if last parts = [] then [] else drop (Suc k) parts)
                in if (hd parts = [] \<and> k \<noteq> 1) \<or> (last parts = [] \<and> length parts \<noteq> k + 2)
                      \<or> 8 < length hi + length lo + 1 then None
                   else hextets 0 (hi @ replicate (8 - length hi - length lo) ''0'' @ lo))
           | _ \<Rightarrow> None) }"

definition groups_of :: "int \<Rightarrow> nat list" where
  "groups_of ip = map (\<lambda>i. nat (ip div 2 ^ (16 * (7 - i)) mod 65536)) [0..<8]"

text \<open>The first longest run of at least two zero groups: its start and length.\<close>

definition run_length :: "nat list \<Rightarrow> nat \<Rightarrow> nat" where
  "run_length gs i = length (takeWhile (\<lambda>g. g = 0) (drop i gs))"

definition best_run :: "nat list \<Rightarrow> nat \<times> nat" where
  "best_run gs = foldl (\<lambda>(b, n) i. if n < run_length gs i then (i, run_length gs i) else (b, n)) (0, 1) [0..<length gs]"

definition show_ipv6 :: "int \<Rightarrow> string" where
  "show_ipv6 ip =
     (let gs = groups_of ip; (i, n) = best_run gs; texts = map show_hex gs
      in if n < 2 then join '':'' texts
         else join '':'' (take i texts) @ ''::'' @ join '':'' (drop (i + n) texts))"

text \<open>\<^verbatim>\<open>IPv6Network(text, strict=False)\<close>, printed. A scope id survives when no host bit is cleared.\<close>

definition v6_scope :: "string \<Rightarrow> (string \<times> string) option" where
  "v6_scope t = (case cut_at ''%'' t of
      None \<Rightarrow> Some (t, '''')
    | Some (a, s) \<Rightarrow> if s = [] \<or> CHR ''%'' \<in> set s then None else Some (a, ''%'' @ s))"

definition v6_prefix :: "string \<Rightarrow> nat option" where
  "v6_prefix t = (if t \<noteq> [] \<and> list_all is_digit t \<and> digits_val t \<le> 128 then Some (nat (digits_val t)) else None)"

definition show_v6_net_of :: "string \<Rightarrow> string option" where
  "show_v6_net_of t =
     do { (a, p) \<leftarrow> (case split_on ''/'' t of [a] \<Rightarrow> Some (a, Some 128) | [a, p] \<Rightarrow> Some (a, v6_prefix p) | _ \<Rightarrow> None);
          (addr, scope) \<leftarrow> v6_scope a;
          ip \<leftarrow> ipv6_of addr;
          n \<leftarrow> p;
          let net = ip - ip mod 2 ^ (128 - n);
          Some (show_ipv6 net @ (if net = ip then scope else []) @ ''/'' @ show_nat n) }"

text \<open>\<^verbatim>\<open>_norm_net\<close> of the guards: the printed network, or the text itself when it is none.\<close>

definition norm_net :: "string \<Rightarrow> string" where
  "norm_net t =
     (case ipv4_net_of False t of
        Some n \<Rightarrow> show_ipv4_net n
      | None \<Rightarrow> (case show_v6_net_of t of Some s \<Rightarrow> s | None \<Rightarrow> t))"

end
