(* ===== verification/Stack_Env.thy ===== *)
theory Stack_Env
  imports Stack_Tables Py_Net
begin

text \<open>
  The stack's environment file (\<^verbatim>\<open>deploy/compose/stackguards.py\<close>): which values each key may
  hold (\<^verbatim>\<open>value_problem\<close>), the parser of the file (\<^verbatim>\<open>parse_env_text\<close>) and the check of the
  parsed values (\<^verbatim>\<open>env_problems\<close>), with the small helpers that read a value.
\<close>


section \<open>Helpers\<close>

fun drop_host_prefix :: "string list \<Rightarrow> string \<Rightarrow> string" where
  "drop_host_prefix [] n = n"
| "drop_host_prefix (p # ps) n = (if py_startswith n p then drop (length p) n else drop_host_prefix ps n)"

definition is_admin_mfa_setting :: "string \<Rightarrow> bool" where
  "is_admin_mfa_setting key \<longleftrightarrow>
     replace_all '':'' ''__'' (drop_host_prefix HOST_ENV_PREFIXES (lower key)) = ADMIN_MFA_SETTING"

text \<open>The values of the environment file are strings; \<^verbatim>\<open>values.get(key, "")\<close> is \<open>val_of\<close>.\<close>

type_synonym env = "(string \<times> string) list"

definition val_of :: "env \<Rightarrow> string \<Rightarrow> string" where
  "val_of values key = (case map_of values key of None \<Rightarrow> [] | Some v \<Rightarrow> v)"

definition ref_of :: "string \<Rightarrow> bool \<Rightarrow> env \<Rightarrow> bool \<Rightarrow> string" where
  "ref_of key interpolated values required =
     (if interpolated then val_of values key
      else ''${'' @ key @ (if required then '':?'' else '''') @ ''}'')"

definition mem_units :: "(string \<times> nat) list" where
  "mem_units = [('''', 0), (''b'', 0), (''k'', 10), (''kb'', 10), (''m'', 20), (''mb'', 20), (''g'', 30), (''gb'', 30)]"

definition MEM_RE :: rx where
  "MEM_RE = rseq [RGroup 1 (rplus rdigit), ropt (RSeq (rchr CHR ''.'') (RGroup 3 (rplus rdigit))),
                  RStar rspace, RGroup 2 (RStar (RSet is_alpha_ascii))]"

text \<open>The outer \<^verbatim>\<open>option\<close> is the exception (OverflowError), the inner one
  the source's \<^verbatim>\<open>None\<close>. The units are powers of two, so the product only scales the double.\<close>

definition mem_bytes :: "json \<Rightarrow> int option option" where
  "mem_bytes value =
     (case value of
        JNull \<Rightarrow> Some None
      | JBool b \<Rightarrow> Some None
      | JInt i \<Rightarrow> Some (Some i)
      | JFloat m e \<Rightarrow> map_option Some (int_of_dec m e)
      | _ \<Rightarrow>
        (case re_fullmatch MEM_RE (strip (py_str value)) of
           None \<Rightarrow> Some None
         | Some c \<Rightarrow>
             (case map_of mem_units (lower (group_text c 2)) of
                None \<Rightarrow> Some None
              | Some j \<Rightarrow>
                  (let whole = group_text c 1; frac = group_text c 3
                   in map_option Some (scaled_double (digits_val (whole @ frac)) (length frac) j)))))"


section \<open>Values of the environment file\<close>

definition is_label_end :: "char \<Rightarrow> bool" where
  "is_label_end c \<longleftrightarrow> is_lower_az c \<or> is_digit c"

definition is_label_char :: "char \<Rightarrow> bool" where
  "is_label_char c \<longleftrightarrow> is_label_end c \<or> c = CHR ''-''"

definition LABEL_RE :: rx where
  "LABEL_RE = RSeq (RSet is_label_end)
                (ropt (RSeq (rrange 0 61 (RSet is_label_char)) (RSet is_label_end)))"

definition HOST_RE :: rx where
  "HOST_RE = RSeq LABEL_RE (rplus (RSeq (rchr CHR ''.'') LABEL_RE))"

definition IMAGE_PREFIX :: string where
  "IMAGE_PREFIX = ''ghcr.io/mpcs2013/decisya-''"

definition IMAGE_RE :: rx where
  "IMAGE_RE = rseq [rlit IMAGE_PREFIX, RGroup 1 (ralt [rlit ''api'', rlit ''bff'', rlit ''migrator'']),
                    rlit ''@sha256:'', rrep 64 (RSet is_hex_lower)]"

definition PORT_TEXT_RE :: rx where
  "PORT_TEXT_RE = rrange 1 5 rdigit"

definition HOST_REASON :: string where
  "HOST_REASON = ''must be a lowercase DNS name: letters, digits and hyphens, at least two labels''"

definition BIND_REASON :: string where
  "BIND_REASON = ''must be one IPv4 address''"

definition port_value_problem :: "int \<Rightarrow> string \<Rightarrow> string \<Rightarrow> string option" where
  "port_value_problem port reason value =
     (if \<not> fullmatches PORT_TEXT_RE value then Some ''must be an integer''
      else if digits_val value \<noteq> port then Some reason else None)"

definition is_ipv4_char :: "char \<Rightarrow> bool" where
  "is_ipv4_char c \<longleftrightarrow> is_digit c \<or> c = CHR ''.''"

definition value_problem :: "string \<Rightarrow> string \<Rightarrow> string option" where
  "value_problem key value =
     (if key \<in> set HOST_KEYS then
        (if 253 < length value \<or> \<not> fullmatches HOST_RE value then Some HOST_REASON else None)
      else if key = ''DECISYA_HTTPS_PORT'' then
        port_value_problem HTTPS_PORT ''must be 8443 (the back channel reaches Caddy on 8443)'' value
      else if key = ''DECISYA_ADMIN_PORT'' then
        port_value_problem ADMIN_PORT
          (''must be 8444 (Caddy'' @ [CHR 0x27] @ ''s admin listener and Keycloak'' @ [CHR 0x27] @ ''s admin URL use it)'') value
      else if key = ''DECISYA_BIND_ADDRESS'' then
        (if \<not> fullmatches (rplus (RSet is_ipv4_char)) value then Some BIND_REASON
         else (case ipv4_of value of
                 None \<Rightarrow> Some BIND_REASON
               | Some ip \<Rightarrow>
                   if is_unspecified ip \<or> is_multicast ip \<or> is_reserved ip \<or> is_link_local ip
                   then Some ''must be a single unicast address, never 0.0.0.0'' else None))
      else (case map_of IMAGE_KEYS key of
              Some service \<Rightarrow>
                (case re_fullmatch IMAGE_RE value of
                   Some c \<Rightarrow> if group_text c 1 \<noteq> service
                              then Some (fmt ''must be ghcr.io/mpcs2013/decisya-%s@sha256:<64 hex>'' [service]) else None
                 | None \<Rightarrow> Some (fmt ''must be ghcr.io/mpcs2013/decisya-%s@sha256:<64 hex>'' [service]))
            | None \<Rightarrow> Some (''is not a key of the stack'' @ [CHR 0x27] @ ''s environment file'')))"


section \<open>Parsing the file\<close>

definition is_key_start :: "char \<Rightarrow> bool" where
  "is_key_start c \<longleftrightarrow> is_alpha_ascii c \<or> c = CHR ''_''"

definition is_key_char :: "char \<Rightarrow> bool" where
  "is_key_char c \<longleftrightarrow> is_alnum_ascii c \<or> c = CHR ''_''"

definition KEY_RE :: rx where
  "KEY_RE = RSeq (RSet is_key_start) (RStar (RSet is_key_char))"

definition is_quoted :: "string \<Rightarrow> bool" where
  "is_quoted value \<longleftrightarrow> 2 \<le> length value \<and> hd value = last value \<and> hd value \<in> {CHR 0x22, CHR 0x27}"

text \<open>The body of the loop: the values so far and the line give the new values and messages.\<close>

definition env_line :: "nat \<Rightarrow> string \<Rightarrow> env \<Rightarrow> env \<times> string list" where
  "env_line number raw values =
     (let line = strip raw in
      if line = [] \<or> py_startswith line ''#'' then (values, [])
      else case cut_at ''='' line of
        None \<Rightarrow> (values, [fmt ''environment file line %d: not KEY=VALUE'' [show_nat number]])
      | Some (k, v) \<Rightarrow>
          (let key = strip k; value = strip v in
           if \<not> fullmatches KEY_RE key
             then (values, [fmt ''environment file line %d: not a valid key name'' [show_nat number]])
           else if dhas values key
             then (values, [fmt ''environment file line %d: duplicate key %s'' [show_nat number, key]])
           else if is_quoted value then (values, [fmt ''%s: quotes are not allowed'' [key]])
           else (dset values key value, [])))"

fun parse_env_lines :: "nat \<Rightarrow> string list \<Rightarrow> env \<Rightarrow> env \<times> string list" where
  "parse_env_lines number [] values = (values, [])"
| "parse_env_lines number (raw # lines) values =
     (let (values1, ms) = env_line number raw values;
          (values2, ms') = parse_env_lines (Suc number) lines values1
      in (values2, ms @ ms'))"

text \<open>The byte order mark that \<^verbatim>\<open>lstrip\<close> removes is a code point above 255.\<close>

definition parse_env_text :: "string \<Rightarrow> env \<times> string list" where
  "parse_env_text text = parse_env_lines 1 (splitlines text) []"


section \<open>Checking the values\<close>

definition key_problem :: "env \<Rightarrow> string \<Rightarrow> string option" where
  "key_problem values key =
     (case map_of values key of
        None \<Rightarrow> Some (fmt ''%s: missing'' [key])
      | Some v \<Rightarrow>
          if v = [] then Some (fmt ''%s: empty'' [key])
          else map_option (\<lambda>reason. fmt ''%s: %s'' [key, reason]) (value_problem key v))"

text \<open>\<^verbatim>\<open>valid\<close>: the entries of the keys that passed.\<close>

definition valid_values :: "env \<Rightarrow> env" where
  "valid_values values =
     map (\<lambda>key. (key, val_of values key)) (filter (\<lambda>key. key_problem values key = None) ENV_KEYS)"

definition not_allowed_msg :: "string \<Rightarrow> string" where
  "not_allowed_msg key =
     fmt (''%s: not allowed in the stack'' @ [CHR 0x27] @ ''s environment file (only the documented keys)'') [key]"

definition subnet_problems :: "string \<Rightarrow> string list" where
  "subnet_problems addr =
     concat (map (\<lambda>(name, cidr).
       msg_if (case (ipv4_of addr, ipv4_net_of True cidr) of
                 (Some ip, Some net) \<Rightarrow> in_net ip net | _ \<Rightarrow> False)
         (fmt ''DECISYA_BIND_ADDRESS lies inside the committed %s network'' [name])) COMMITTED_SUBNETS)"

definition env_problems :: "env \<Rightarrow> string list" where
  "env_problems values =
     (let valid = valid_values values;
          hosts = map (val_of valid) (filter (dhas valid) HOST_KEYS)
      in List.map_filter (key_problem values) ENV_KEYS
         @ map not_allowed_msg (filter (\<lambda>k. k \<notin> set ENV_KEYS) (sort (dkeys values)))
         @ msg_if (length hosts = length HOST_KEYS \<and> length (remdups hosts) \<noteq> length hosts)
             ''DECISYA_APP_HOST, DECISYA_ID_HOST and DECISYA_API_HOST must all be different''
         @ (case map_of valid ''DECISYA_BIND_ADDRESS'' of
              Some addr \<Rightarrow> if addr = [] then [] else subnet_problems addr
            | None \<Rightarrow> []))"


section \<open>References of a release\<close>

definition parse_images_txt :: "string \<Rightarrow> env" where
  "parse_images_txt text =
     foldl (\<lambda>refs line. case re_fullmatch IMAGE_RE (strip line) of
                           Some c \<Rightarrow> dset refs (group_text c 1) (strip line)
                         | None \<Rightarrow> refs) [] (splitlines text)"


section \<open>Which values are accepted\<close>

definition is_label :: "string \<Rightarrow> bool" where
  "is_label l \<longleftrightarrow> l \<noteq> [] \<and> length l \<le> 63 \<and> list_all is_label_char l \<and> is_label_end (hd l) \<and> is_label_end (last l)"

definition is_dns_name :: "string \<Rightarrow> bool" where
  "is_dns_name s \<longleftrightarrow> length s \<le> 253 \<and> 2 \<le> length (split_on ''.'' s) \<and> list_all is_label (split_on ''.'' s)"

lemma label_end_char: "is_label_end c \<Longrightarrow> is_label_char c"
  by (simp add: is_label_char_def)

lemma rlang_LABEL_RE: "rlang LABEL_RE = {l. is_label l}"
proof -
  have "l \<in> rlang LABEL_RE \<longleftrightarrow> is_label l" for l
  proof (cases l rule: rev_cases)
    case Nil
    then show ?thesis by (simp add: LABEL_RE_def is_label_def del: rlang.simps)
  next
    case (snoc m d)
    show ?thesis
    proof (cases m)
      case Nil
      with snoc show ?thesis by (auto simp: LABEL_RE_def is_label_def ropt_def label_end_char)
    next
      case (Cons c k)
      have "k @ [d] \<in> rlang (RSeq (rrange 0 61 (RSet is_label_char)) (RSet is_label_end)) \<longleftrightarrow>
          length k \<le> 61 \<and> (\<forall>c\<in>set k. is_label_char c) \<and> is_label_end d"
        by auto
      with snoc Cons show ?thesis
        by (auto simp: LABEL_RE_def is_label_def label_end_char list_all_iff simp del: rlang.simps(3))
    qed
  qed
  then show ?thesis by blast
qed

lemma label_no_dot: "is_label l \<Longrightarrow> CHR ''.'' \<notin> set l"
  by (auto simp: is_label_def list_all_iff is_label_char_def is_label_end_def is_lower_az_def
      is_digit_def in_range_def ccode_def)

lemma lstar_dot_labels:
  "s \<in> lstar (rlang (RSeq (rchr CHR ''.'') LABEL_RE)) \<longleftrightarrow>
   s = [] \<or> (\<exists>t. s = CHR ''.'' # t \<and> list_all is_label (split_on ''.'' t))"
proof
  assume "s \<in> lstar (rlang (RSeq (rchr CHR ''.'') LABEL_RE))"
  then show "s = [] \<or> (\<exists>t. s = CHR ''.'' # t \<and> list_all is_label (split_on ''.'' t))"
  proof (induction rule: lstar.induct)
    case (lstar_append u v)
    from lstar_append.hyps(1) obtain l where u: "u = CHR ''.'' # l" "is_label l"
      by (auto simp: rlang_LABEL_RE)
    with lstar_append.IH label_no_dot [OF u(2)] show ?case
      by (auto simp: split_on_not_in split_on_char)
  qed simp
next
  assume "s = [] \<or> (\<exists>t. s = CHR ''.'' # t \<and> list_all is_label (split_on ''.'' t))"
  moreover have "list_all is_label (split_on ''.'' t) \<Longrightarrow> CHR ''.'' # t \<in> lstar (rlang (RSeq (rchr CHR ''.'') LABEL_RE))" for t
  proof (induction t rule: measure_induct_rule [of length])
    case (less t)
    show ?case
    proof (cases "CHR ''.'' \<in> set t")
      case True
      then obtain a b where ab: "t = a @ CHR ''.'' # b" "CHR ''.'' \<notin> set a" by (auto dest: split_list_first)
      with less.prems have la: "is_label a" "list_all is_label (split_on ''.'' b)" by (auto simp: split_on_char)
      have "CHR ''.'' # a \<in> rlang (RSeq (rchr CHR ''.'') LABEL_RE)" using la by (simp add: rlang_LABEL_RE)
      from lstar.lstar_append [OF this less.IH [OF _ la(2)]] ab show ?thesis by simp
    next
      case False
      with less.prems have "CHR ''.'' # t \<in> rlang (RSeq (rchr CHR ''.'') LABEL_RE)"
        by (simp add: split_on_not_in rlang_LABEL_RE)
      from lstar.lstar_append [OF this lstar.lstar_Nil] show ?thesis by simp
    qed
  qed
  ultimately show "s \<in> lstar (rlang (RSeq (rchr CHR ''.'') LABEL_RE))" by (auto intro: lstar.lstar_Nil)
qed

lemma rplus_dot_labels:
  "s \<in> rlang (rplus (RSeq (rchr CHR ''.'') LABEL_RE)) \<longleftrightarrow>
   (\<exists>t. s = CHR ''.'' # t \<and> list_all is_label (split_on ''.'' t))"
proof
  assume "s \<in> rlang (rplus (RSeq (rchr CHR ''.'') LABEL_RE))"
  then obtain u v where uv: "s = u @ v" "u \<in> rlang (RSeq (rchr CHR ''.'') LABEL_RE)"
      "v \<in> lstar (rlang (RSeq (rchr CHR ''.'') LABEL_RE))"
    by (auto simp: rplus_def rlang.simps(5))
  then have "s \<in> lstar (rlang (RSeq (rchr CHR ''.'') LABEL_RE))" by (auto intro: lstar.lstar_append)
  moreover from uv(2) have "u \<noteq> []" by auto
  ultimately show "\<exists>t. s = CHR ''.'' # t \<and> list_all is_label (split_on ''.'' t)"
    using uv(1) unfolding lstar_dot_labels by simp
next
  assume "\<exists>t. s = CHR ''.'' # t \<and> list_all is_label (split_on ''.'' t)"
  then have "s \<in> lstar (rlang (RSeq (rchr CHR ''.'') LABEL_RE))" and "s \<noteq> []"
    unfolding lstar_dot_labels by auto
  then show "s \<in> rlang (rplus (RSeq (rchr CHR ''.'') LABEL_RE))"
    unfolding rplus_def by (cases rule: lstar.cases) (auto simp: rlang.simps(5))
qed

lemma rlang_HOST_RE: "rlang HOST_RE = {s. 2 \<le> length (split_on ''.'' s) \<and> list_all is_label (split_on ''.'' s)}"
proof -
  have "s \<in> rlang HOST_RE \<longleftrightarrow> 2 \<le> length (split_on ''.'' s) \<and> list_all is_label (split_on ''.'' s)" for s
  proof (cases "CHR ''.'' \<in> set s")
    case True
    then obtain a b where ab: "s = a @ CHR ''.'' # b" "CHR ''.'' \<notin> set a" by (auto dest: split_list_first)
    have len: "2 \<le> length (split_on ''.'' s)" using ab
      by (cases "split_on ''.'' b") (auto simp: split_on_char)
    have "s \<in> rlang HOST_RE \<longleftrightarrow> is_label a \<and> list_all is_label (split_on ''.'' b)"
    proof
      assume "s \<in> rlang HOST_RE"
      then obtain l t where lt: "s = l @ CHR ''.'' # t" "is_label l" "list_all is_label (split_on ''.'' t)"
        using rplus_dot_labels by (auto simp: HOST_RE_def rlang_LABEL_RE)
      with label_no_dot [OF lt(2)] ab have "l = a \<and> t = b"
        by (metis cut_at_char option.inject prod.inject)
      with lt show "is_label a \<and> list_all is_label (split_on ''.'' b)" by simp
    next
      assume "is_label a \<and> list_all is_label (split_on ''.'' b)"
      with ab show "s \<in> rlang HOST_RE" 
        unfolding HOST_RE_def rlang.simps(3) using rplus_dot_labels by (fastforce simp: rlang_LABEL_RE)
    qed
    with len ab show ?thesis by (simp add: split_on_char)
  next
    case False
    then have "s \<notin> rlang HOST_RE" using rplus_dot_labels by (auto simp: HOST_RE_def)
    with False show ?thesis by (simp add: split_on_not_in)
  qed
  then show ?thesis by blast
qed

lemma plain_LABEL_RE [simp]: "plain LABEL_RE"
  by (simp add: LABEL_RE_def)

lemma plain_HOST_RE [simp]: "plain HOST_RE"
  by (simp add: HOST_RE_def)

lemma host_value_iff:
  "key \<in> set HOST_KEYS \<Longrightarrow> value_problem key value = None \<longleftrightarrow> is_dns_name value"
  by (auto simp: value_problem_def is_dns_name_def rlang_HOST_RE)

lemma plain_IMAGE_RE [simp]: "plain IMAGE_RE"
  by (simp add: IMAGE_RE_def)

definition is_image_ref :: "string \<Rightarrow> string \<Rightarrow> bool" where
  "is_image_ref service value \<longleftrightarrow>
     (\<exists>hex. value = IMAGE_PREFIX @ service @ ''@sha256:'' @ hex \<and> length hex = 64 \<and> list_all is_hex_lower hex)"

lemma rlang_IMAGE_RE:
  "rlang IMAGE_RE = {s. \<exists>service\<in>{''api'', ''bff'', ''migrator''}. is_image_ref service s}"
  by (simp add: IMAGE_RE_def is_image_ref_def rlang_ralt list_all_iff del: append.simps rlit.simps) blast

lemma IMAGE_RE_caps:
  assumes "re_fullmatch IMAGE_RE s = Some c"
  shows "is_image_ref (group_text c 1) s \<and> group_text c 1 \<in> {''api'', ''bff'', ''migrator''}"
proof -
  obtain d where d: "c = (0, s) # d" "(s, d) \<in> rcaps IMAGE_RE"
    using assms by (rule re_fullmatch_caps)
  from d(2) obtain service where "d = [(1, service)]" "is_image_ref service s" "service \<in> {''api'', ''bff'', ''migrator''}"
    by (auto simp: IMAGE_RE_def rcaps_ralt rcaps_groupless is_image_ref_def list_all_iff
        simp del: append.simps rlit.simps)
  with d show ?thesis by (simp add: group_text_def)
qed

lemma is_image_ref_inj:
  assumes "is_image_ref a s" "is_image_ref b s" "CHR ''@'' \<notin> set a" "CHR ''@'' \<notin> set b"
  shows "a = b"
proof -
  from assms obtain h k where "a @ CHR ''@'' # h = b @ CHR ''@'' # k" unfolding is_image_ref_def by auto
  with assms show ?thesis by (metis cut_at_char option.inject prod.inject)
qed

lemma image_services: "map_of IMAGE_KEYS key = Some service \<Longrightarrow> service \<in> {''api'', ''bff'', ''migrator''}"
  by (auto simp: IMAGE_KEYS_def split: if_splits)

lemma image_key_not_other:
  "map_of IMAGE_KEYS key = Some service \<Longrightarrow>
   key \<notin> set HOST_KEYS \<and> key \<noteq> ''DECISYA_HTTPS_PORT'' \<and> key \<noteq> ''DECISYA_ADMIN_PORT'' \<and> key \<noteq> ''DECISYA_BIND_ADDRESS''"
  by (auto simp: IMAGE_KEYS_def HOST_KEYS_def split: if_splits)

lemma image_value_iff:
  assumes "map_of IMAGE_KEYS key = Some service"
  shows "value_problem key value = None \<longleftrightarrow> is_image_ref service value"
proof (cases "re_fullmatch IMAGE_RE value")
  case None
  then have "value \<notin> rlang IMAGE_RE" by simp
  with image_services [OF assms] have "\<not> is_image_ref service value" by (auto simp: rlang_IMAGE_RE)
  moreover have "value_problem key value \<noteq> None"
    using None assms image_key_not_other [OF assms] by (simp add: value_problem_def del: re_fullmatch_None)
  ultimately show ?thesis by blast
next
  case (Some c)
  note c = IMAGE_RE_caps [OF Some] and s = image_services [OF assms]
  have "is_image_ref service value \<longleftrightarrow> service = group_text c 1"
  proof
    assume "is_image_ref service value"
    with c s show "service = group_text c 1" by (intro is_image_ref_inj [of _ "value"]) auto
  qed (use c in simp)
  with Some assms image_key_not_other [OF assms] show ?thesis by (auto simp: value_problem_def)
qed

lemma plain_PORT [simp]: "plain PORT_TEXT_RE"
  by (simp add: PORT_TEXT_RE_def)

lemma rlang_PORT: "rlang PORT_TEXT_RE = {s. 1 \<le> length s \<and> length s \<le> 5 \<and> (\<forall>c\<in>set s. is_digit c)}"
  by (simp add: PORT_TEXT_RE_def rdigit_def)

definition is_port_text :: "int \<Rightarrow> string \<Rightarrow> bool" where
  "is_port_text port value \<longleftrightarrow> 1 \<le> length value \<and> length value \<le> 5 \<and> list_all is_digit value \<and> digits_val value = port"

lemma port_value_iff: "port_value_problem port reason value = None \<longleftrightarrow> is_port_text port value"
  by (auto simp: port_value_problem_def rlang_PORT is_port_text_def list_all_iff)

definition is_bind_address :: "string \<Rightarrow> bool" where
  "is_bind_address value \<longleftrightarrow>
     (\<exists>ip. ipv4_of value = Some ip \<and> ip \<noteq> 0 \<and> ip < 224 * 2 ^ 24 \<and> \<not> (0xA9FE0000 \<le> ip \<and> ip < 0xA9FF0000))"

lemma octet_digits: "octet_of t = Some n \<Longrightarrow> list_all is_digit t"
  by (auto simp: octet_of_def split: if_splits)

lemma ipv4_chars: "ipv4_of t = Some ip \<Longrightarrow> t \<noteq> [] \<and> (\<forall>c\<in>set t. is_ipv4_char c)"
proof -
  assume a: "ipv4_of t = Some ip"
  then obtain w x y z where s: "split_on ''.'' t = [w, x, y, z]" and
     d: "list_all is_digit w" "list_all is_digit x" "list_all is_digit y" "list_all is_digit z"
    by (auto simp: ipv4_of_def bind_eq_Some_conv dest: octet_digits split: list.splits)
  from split_on_set [of t "CHR ''.''"] s d have "\<forall>c\<in>set t. is_ipv4_char c"
    by (auto simp: is_ipv4_char_def list_all_iff)
  moreover have "t \<noteq> []" using s split_on_not_in [of "CHR ''.''" "[]"] by auto
  ultimately show ?thesis by simp
qed

lemma bind_value_iff: "value_problem ''DECISYA_BIND_ADDRESS'' value = None \<longleftrightarrow> is_bind_address value"
proof (cases "ipv4_of value")
  case None
  then show ?thesis by (simp add: value_problem_def HOST_KEYS_def is_bind_address_def)
next
  case (Some ip)
  from ipv4_of_range [OF Some] have ip: "0 \<le> ip" "ip < 4294967296" by auto
  have m: "is_multicast ip \<longleftrightarrow> 224 * 2 ^ 24 \<le> ip \<and> ip < 240 * 2 ^ 24" "is_reserved ip \<longleftrightarrow> 240 * 2 ^ 24 \<le> ip"
      "is_link_local ip \<longleftrightarrow> 0xA9FE0000 \<le> ip \<and> ip < 0xA9FF0000"
    unfolding is_multicast_def is_reserved_def is_link_local_def
    by (subst in_net_interval; use ip in \<open>simp; arith?\<close>)+
  show ?thesis using Some ipv4_chars [OF Some] ip
    by (auto simp: value_problem_def HOST_KEYS_def is_bind_address_def is_unspecified_def m)
qed

text \<open>The values the stack accepts, key by key.\<close>

definition value_ok :: "string \<Rightarrow> string \<Rightarrow> bool" where
  "value_ok key value \<longleftrightarrow>
     (if key \<in> set HOST_KEYS then is_dns_name value
      else if key = ''DECISYA_HTTPS_PORT'' then is_port_text 8443 value
      else if key = ''DECISYA_ADMIN_PORT'' then is_port_text 8444 value
      else if key = ''DECISYA_BIND_ADDRESS'' then is_bind_address value
      else (case map_of IMAGE_KEYS key of Some service \<Rightarrow> is_image_ref service value | None \<Rightarrow> False))"

lemma value_problem_iff: "value_problem key value = None \<longleftrightarrow> value_ok key value"
proof (cases "map_of IMAGE_KEYS key")
  case (Some service)
  with image_key_not_other [OF Some] image_value_iff [OF Some] show ?thesis by (simp add: value_ok_def)
next
  case None
  consider "key \<in> set HOST_KEYS" | "key = ''DECISYA_HTTPS_PORT''" | "key = ''DECISYA_ADMIN_PORT''"
    | "key = ''DECISYA_BIND_ADDRESS''"
    | "key \<notin> set HOST_KEYS" "key \<noteq> ''DECISYA_HTTPS_PORT''" "key \<noteq> ''DECISYA_ADMIN_PORT''" "key \<noteq> ''DECISYA_BIND_ADDRESS''"
    by blast
  then show ?thesis
  proof cases
    case 1
    then show ?thesis by (simp add: value_ok_def host_value_iff)
  next
    case 2
    then show ?thesis by (simp add: value_ok_def value_problem_def HOST_KEYS_def port_value_iff HTTPS_PORT_def)
  next
    case 3
    then show ?thesis by (simp add: value_ok_def value_problem_def HOST_KEYS_def port_value_iff ADMIN_PORT_def)
  next
    case 4
    then show ?thesis using bind_value_iff by (simp add: value_ok_def HOST_KEYS_def)
  next
    case 5
    with None show ?thesis by (simp add: value_ok_def value_problem_def)
  qed
qed

lemma value_ok_nonempty: "value_ok key value \<Longrightarrow> value \<noteq> []"
proof
  assume ok: "value_ok key value" and "value = []"
  have "split_on ''.'' [] = [[]]" by (simp add: split_on_not_in)
  with ok \<open>value = []\<close> show False
    by (auto simp: value_ok_def is_dns_name_def is_port_text_def is_bind_address_def is_image_ref_def ipv4_of_def
        split: if_splits option.splits)
qed

lemma key_problem_iff:
  "key_problem values key = None \<longleftrightarrow> (\<exists>v. map_of values key = Some v \<and> value_ok key v)"
  using value_ok_nonempty by (auto simp: key_problem_def value_problem_iff split: option.splits)

lemma valid_values_map_of:
  "map_of (valid_values values) key =
     (if key \<in> set ENV_KEYS \<and> key_problem values key = None then Some (val_of values key) else None)"
  by (simp add: valid_values_def map_of_pairs)

lemma subnet_problems_Nil:
  "is_bind_address addr \<Longrightarrow> subnet_problems addr = [] \<longleftrightarrow>
     (\<forall>ip. ipv4_of addr = Some ip \<longrightarrow> \<not> (0x0A780000 \<le> ip \<and> ip < 0x0A780200))"
proof -
  assume "is_bind_address addr"
  then obtain ip where ip: "ipv4_of addr = Some ip" by (auto simp: is_bind_address_def)
  have nets: "ipv4_net_of True ''10.120.0.0/24'' = Some (0x0A780000, 24)"
      "ipv4_net_of True ''10.120.1.0/24'' = Some (0x0A780100, 24)"
    by code_simp+
  have "in_net ip (0x0A780000, 24) \<longleftrightarrow> 0x0A780000 \<le> ip \<and> ip < 0x0A780100"
      "in_net ip (0x0A780100, 24) \<longleftrightarrow> 0x0A780100 \<le> ip \<and> ip < 0x0A780200"
    by (subst in_net_interval; simp)+
  with ip nets show ?thesis by (auto simp: subnet_problems_def COMMITTED_SUBNETS_def)
qed

definition env_ok :: "env \<Rightarrow> bool" where
  "env_ok values \<longleftrightarrow>
     set (dkeys values) = set ENV_KEYS
     \<and> (\<forall>key\<in>set ENV_KEYS. value_ok key (val_of values key))
     \<and> distinct (map (val_of values) HOST_KEYS)
     \<and> (\<forall>ip. ipv4_of (val_of values ''DECISYA_BIND_ADDRESS'') = Some ip \<longrightarrow> \<not> (0x0A780000 \<le> ip \<and> ip < 0x0A780200))"

lemma valid_hosts:
  assumes "\<forall>key\<in>set ENV_KEYS. key_problem values key = None"
  shows "map (val_of (valid_values values)) (filter (dhas (valid_values values)) HOST_KEYS) = map (val_of values) HOST_KEYS"
    and "map_of (valid_values values) ''DECISYA_BIND_ADDRESS'' = Some (val_of values ''DECISYA_BIND_ADDRESS'')"
  using assms
  by (simp_all add: valid_values_map_of dhas_def val_of_def [of "valid_values values"] ENV_KEYS_def HOST_KEYS_def)

lemma env_problems_iff_ok: "env_problems values = [] \<longleftrightarrow> env_ok values"
proof (cases "\<forall>key\<in>set ENV_KEYS. key_problem values key = None")
  case False
  then have "env_problems values \<noteq> []" by (simp add: env_problems_def Let_def map_filter_Nil)
  moreover have "\<not> env_ok values"
  proof
    assume ok: "env_ok values"
    have "key_problem values key = None" if "key \<in> set ENV_KEYS" for key
    proof -
      from that ok have "dhas values key" by (simp add: env_ok_def dhas_iff)
      then have "map_of values key \<noteq> None" by (simp add: dhas_def)
      with that ok show ?thesis by (auto simp: env_ok_def key_problem_iff val_of_def)
    qed
    with False show False by blast
  qed
  ultimately show ?thesis by simp
next
  case True
  then have ok: "\<forall>key\<in>set ENV_KEYS. dhas values key \<and> value_ok key (val_of values key)"
    by (force simp: key_problem_iff dhas_def val_of_def)
  then have b: "is_bind_address (val_of values ''DECISYA_BIND_ADDRESS'')"
    by (simp add: ENV_KEYS_def HOST_KEYS_def value_ok_def)
  have ne: "val_of values ''DECISYA_BIND_ADDRESS'' \<noteq> []"
    using ok value_ok_nonempty by (simp add: ENV_KEYS_def) blast
  have sub: "set ENV_KEYS \<subseteq> set (dkeys values)" using ok by (auto simp: dhas_iff)
  have foreign: "map not_allowed_msg (filter (\<lambda>k. k \<notin> set ENV_KEYS) (sort (dkeys values))) = []
      \<longleftrightarrow> set (dkeys values) \<subseteq> set ENV_KEYS"
    by (auto simp: filter_empty_conv)
  have keys: "List.map_filter (key_problem values) ENV_KEYS = []" using True by (simp add: map_filter_Nil)
  have "env_problems values = [] \<longleftrightarrow>
      set (dkeys values) \<subseteq> set ENV_KEYS \<and> distinct (map (val_of values) HOST_KEYS)
      \<and> subnet_problems (val_of values ''DECISYA_BIND_ADDRESS'') = []"
    unfolding env_problems_def Let_def append_is_Nil_conv foreign valid_hosts [OF True] keys msg_if_Nil
    using ne length_remdups_distinct [of "map (val_of values) HOST_KEYS"] by simp
  then show ?thesis unfolding env_ok_def subnet_problems_Nil [OF b] using ok sub by blast
qed

text \<open>
  C22: \<^verbatim>\<open>env_problems\<close> reports nothing exactly for the environments of \<open>env_ok\<close>: the keys are the nine
  documented ones and no other, the three host names are different lower-case DNS names of at least two
  labels, the ports are 8443 and 8444, the bind address is one unicast IPv4 address outside link-local
  and outside the two committed subnets, and every image is the digest-pinned reference of its own
  service.
\<close>

theorem env_problems_iff: "env_problems values = [] \<longleftrightarrow> env_ok values"
  by (rule env_problems_iff_ok)


section \<open>The parser\<close>

text \<open>What the parser guarantees of the values it returns.\<close>

definition env_entry_ok :: "string \<times> string \<Rightarrow> bool" where
  "env_entry_ok e \<longleftrightarrow> (case e of (key, value) \<Rightarrow>
     key \<noteq> [] \<and> is_key_start (hd key) \<and> list_all is_key_char key \<and> strip value = value \<and> \<not> is_quoted value)"

definition env_wf :: "env \<Rightarrow> bool" where
  "env_wf values \<longleftrightarrow> distinct (dkeys values) \<and> list_all env_entry_ok values"

lemma plain_KEY_RE [simp]: "plain KEY_RE"
  by (simp add: KEY_RE_def)

lemma key_start_char: "is_key_start c \<Longrightarrow> is_key_char c"
  by (auto simp: is_key_start_def is_key_char_def is_alnum_ascii_def)

lemma rlang_KEY_RE: "rlang KEY_RE = {k. k \<noteq> [] \<and> is_key_start (hd k) \<and> list_all is_key_char k}"
proof -
  have "k \<in> rlang KEY_RE \<longleftrightarrow> k \<noteq> [] \<and> is_key_start (hd k) \<and> list_all is_key_char k" for k
    by (cases k) (auto simp: KEY_RE_def list_all_iff key_start_char simp del: rlang.simps)
  then show ?thesis by blast
qed

lemma env_line_wf: "env_wf values \<Longrightarrow> env_wf (fst (env_line n raw values))"
  by (auto simp: env_line_def Let_def env_wf_def dset_absent rlang_KEY_RE env_entry_ok_def dkeys_def dhas_iff
      split: option.splits)

lemma parse_env_lines_wf: "env_wf values \<Longrightarrow> env_wf (fst (parse_env_lines n lines values))"
proof (induction lines arbitrary: n "values")
  case (Cons raw lines)
  have "env_wf (fst (env_line n raw values))" by (rule env_line_wf [OF Cons.prems])
  from Cons.IH [OF this] show ?case by (simp add: case_prod_unfold Let_def)
qed simp

text \<open>
  Whatever the text, the parser returns distinct keys that are identifiers, and stripped values
  that are not quoted.
\<close>

theorem parse_env_text_wf: "env_wf (fst (parse_env_text text))"
  unfolding parse_env_text_def by (rule parse_env_lines_wf) (simp add: env_wf_def dkeys_def)

text \<open>Printing values and parsing them back.\<close>

definition show_env :: "env \<Rightarrow> string" where
  "show_env values = unlines (map (\<lambda>(key, value). key @ ''='' @ value) values)"

lemma key_char_simps: "is_key_char c \<Longrightarrow> \<not> is_space c \<and> c \<noteq> CHR ''='' \<and> c \<noteq> CHR ''#'' \<and> \<not> is_line_break c"
  by (auto simp: is_key_char_def is_alnum_ascii_def is_alpha_ascii_def is_lower_az_def is_upper_az_def
      is_digit_def in_range_def is_space_def is_line_break_def ccode_def)

lemma env_line_show:
  assumes "env_entry_ok (key, value)" and "\<not> dhas values key"
  shows "env_line n (key @ ''='' @ value) values = (values @ [(key, value)], [])"
proof -
  from assms have k: "key \<noteq> []" "is_key_start (hd key)" "list_all is_key_char key" and v: "strip value = value" "\<not> is_quoted value"
    by (auto simp: env_entry_ok_def)
  then have "is_key_char (hd key)" by (simp add: key_start_char)
  then have hk: "\<not> is_space (hd key)" "hd key \<noteq> CHR ''#''" using key_char_simps by blast+
  have "\<forall>c\<in>set key. \<not> is_space c \<and> c \<noteq> CHR ''=''"
    using k(3) key_char_simps unfolding list_all_iff by blast
  then have ks: "strip key = key" "CHR ''='' \<notin> set key"
    using strip_no_space [of key] unfolding list_all_iff by blast+
  have "strip (key @ ''='' @ value) = key @ ''='' @ value"
  proof (rule strip_id)
    have "last (key @ ''='' @ value) = (if value = [] then CHR ''='' else last value)" by simp
    moreover have "\<not> is_space CHR ''=''" by (simp add: is_space_def in_range_def ccode_def)
    ultimately show "key @ ''='' @ value \<noteq> [] \<longrightarrow>
        \<not> is_space (hd (key @ ''='' @ value)) \<and> \<not> is_space (last (key @ ''='' @ value))"
      using hk k stripped_last [OF v(1)] by (simp split: if_splits)
  qed
  moreover have "\<not> py_startswith (key @ ''='' @ value) ''#''" using hk k by (cases key) auto
  moreover have "cut_at ''='' (key @ ''='' @ value) = Some (key, value)" using cut_at_char [OF ks(2)] by simp
  ultimately show ?thesis using k v ks assms(2)
    by (simp add: env_line_def Let_def dset_absent rlang_KEY_RE)
qed

lemma parse_env_lines_show:
  assumes "env_wf (acc @ values)"
  shows "parse_env_lines n (map (\<lambda>(key, value). key @ ''='' @ value) values) acc = (acc @ values, [])"
  using assms
proof (induction "values" arbitrary: n acc)
  case (Cons e vs)
  obtain key v where e: "e = (key, v)" by (cases e)
  from Cons.prems e have ok: "env_entry_ok (key, v)" "\<not> dhas acc key"
    by (auto simp: env_wf_def dhas_iff dkeys_def)
  from Cons.IH [of "acc @ [e]"] Cons.prems e show ?case
    by (simp add: env_line_show [OF ok, simplified])
qed simp

text \<open>
  C23: Values written one \<^verbatim>\<open>KEY=VALUE\<close> per line are read back unchanged and without a message.
\<close>

theorem parse_show_env:
  assumes "env_wf values" and "\<forall>(key, value)\<in>set values. \<forall>c\<in>set value. \<not> is_line_break c"
  shows "parse_env_text (show_env values) = (values, [])"
proof -
  let ?lines = "map (\<lambda>(key, value). key @ ''='' @ value) values"
  have "\<not> is_line_break c" if "l \<in> set ?lines" "c \<in> set l" for l c
  proof -
    from that(1) obtain key v where kv: "(key, v) \<in> set values" "l = key @ ''='' @ v" by auto
    with assms(1) have "list_all is_key_char key" by (auto simp: env_wf_def list_all_iff env_entry_ok_def)
    with kv assms(2) that(2) show ?thesis
      using key_char_simps by (auto simp: list_all_iff) (simp add: is_line_break_def in_range_def ccode_def)
  qed
  then have "splitlines (show_env values) = ?lines" unfolding show_env_def by (intro splitlines_unlines) blast
  with parse_env_lines_show [of "[]" "values" 1] assms(1) show ?thesis by (simp add: parse_env_text_def)
qed

theorem parse_show_env_witness:
  "parse_env_text (show_env [(''DECISYA_HTTPS_PORT'', ''8443''), (''DECISYA_APP_HOST'', ''app.example.org'')])
     = ([(''DECISYA_HTTPS_PORT'', ''8443''), (''DECISYA_APP_HOST'', ''app.example.org'')], [])"
proof (rule parse_show_env)
  show "env_wf [(''DECISYA_HTTPS_PORT'', ''8443''), (''DECISYA_APP_HOST'', ''app.example.org'')]" by code_simp
  show "\<forall>(key, value)\<in>set [(''DECISYA_HTTPS_PORT'', ''8443''), (''DECISYA_APP_HOST'', ''app.example.org'')].
      \<forall>c\<in>set value. \<not> is_line_break c"
    by code_simp
qed


section \<open>Messages carry keys and line numbers only\<close>

definition VALUE_REASONS :: "string list" where
  "VALUE_REASONS =
     [HOST_REASON, BIND_REASON, ''must be an integer'', ''must be 8443 (the back channel reaches Caddy on 8443)'',
      ''must be 8444 (Caddy'' @ [CHR 0x27] @ ''s admin listener and Keycloak'' @ [CHR 0x27] @ ''s admin URL use it)'',
      ''must be a single unicast address, never 0.0.0.0'',
      fmt ''must be ghcr.io/mpcs2013/decisya-%s@sha256:<64 hex>'' [''api''],
      fmt ''must be ghcr.io/mpcs2013/decisya-%s@sha256:<64 hex>'' [''bff''],
      fmt ''must be ghcr.io/mpcs2013/decisya-%s@sha256:<64 hex>'' [''migrator''],
      ''is not a key of the stack'' @ [CHR 0x27] @ ''s environment file'']"

lemma port_reasons:
  "port_value_problem p m v = Some r \<Longrightarrow> r = ''must be an integer'' \<or> r = m"
  by (auto simp: port_value_problem_def split: if_splits)

lemma value_problem_reasons: "value_problem key v = Some r \<Longrightarrow> r \<in> set VALUE_REASONS"
  unfolding value_problem_def VALUE_REASONS_def
  by (auto dest: port_reasons image_services split: if_splits option.splits simp del: re_fullmatch_None)

definition env_messages :: "string set \<Rightarrow> string set" where
  "env_messages keys =
     (\<lambda>k. fmt ''%s: missing'' [k]) ` set ENV_KEYS \<union> (\<lambda>k. fmt ''%s: empty'' [k]) ` set ENV_KEYS
     \<union> (\<lambda>(k, r). fmt ''%s: %s'' [k, r]) ` (set ENV_KEYS \<times> set VALUE_REASONS)
     \<union> not_allowed_msg ` keys
     \<union> {''DECISYA_APP_HOST, DECISYA_ID_HOST and DECISYA_API_HOST must all be different''}
     \<union> (\<lambda>n. fmt ''DECISYA_BIND_ADDRESS lies inside the committed %s network'' [n]) ` set (dkeys COMMITTED_SUBNETS)"

lemma key_problem_messages: "key \<in> set ENV_KEYS \<Longrightarrow> key_problem values key = Some m \<Longrightarrow> m \<in> env_messages K"
  by (force simp: key_problem_def env_messages_def dest: value_problem_reasons split: option.splits if_splits)

lemma subnet_messages: "m \<in> set (subnet_problems a) \<Longrightarrow> m \<in> env_messages K"
proof -
  assume "m \<in> set (subnet_problems a)"
  then obtain n where "n \<in> set (dkeys COMMITTED_SUBNETS)"
      "m = fmt ''DECISYA_BIND_ADDRESS lies inside the committed %s network'' [n]"
    unfolding subnet_problems_def COMMITTED_SUBNETS_def dkeys_def by (auto split: if_splits)
  then show ?thesis unfolding env_messages_def by blast
qed

text \<open>
  C19: A message of \<^verbatim>\<open>env_problems\<close> is one of a set that depends on the key names only: no value of
  the file (bind address, host name, image) can reach a log line.
\<close>

theorem env_problems_messages: "set (env_problems values) \<subseteq> env_messages (set (dkeys values))"
proof
  fix m assume "m \<in> set (env_problems values)"
  then consider "m \<in> set (List.map_filter (key_problem values) ENV_KEYS)"
    | "m \<in> not_allowed_msg ` set (dkeys values)"
    | "m = ''DECISYA_APP_HOST, DECISYA_ID_HOST and DECISYA_API_HOST must all be different''"
    | a where "m \<in> set (subnet_problems a)"
    unfolding env_problems_def Let_def by (auto split: option.splits if_splits)
  then show "m \<in> env_messages (set (dkeys values))"
  proof cases
    case 1
    then show ?thesis by (auto simp: set_map_filter key_problem_messages)
  qed (auto simp: subnet_messages, auto simp: env_messages_def)
qed

definition parse_messages :: "string list \<Rightarrow> string set" where
  "parse_messages lines =
     {fmt ''environment file line %d: not KEY=VALUE'' [show_nat n] | n. True}
     \<union> {fmt ''environment file line %d: not a valid key name'' [show_nat n] | n. True}
     \<union> {fmt ''environment file line %d: duplicate key %s'' [show_nat n, key] | n key. \<exists>raw\<in>set lines. \<exists>v. cut_at ''='' (strip raw) = Some v \<and> key = strip (fst v) \<and> key \<in> rlang KEY_RE}
     \<union> {fmt ''%s: quotes are not allowed'' [key] | key. \<exists>raw\<in>set lines. \<exists>v. cut_at ''='' (strip raw) = Some v \<and> key = strip (fst v) \<and> key \<in> rlang KEY_RE}"

lemma env_line_messages: "m \<in> set (snd (env_line n raw values)) \<Longrightarrow> m \<in> parse_messages [raw]"
  by (force simp: env_line_def Let_def parse_messages_def split: if_splits option.splits)

lemma parse_messages_mono: "set a \<subseteq> set b \<Longrightarrow> parse_messages a \<subseteq> parse_messages b"
  unfolding parse_messages_def by blast

lemma parse_env_lines_messages: "set (snd (parse_env_lines n lines values)) \<subseteq> parse_messages lines"
proof (induction lines arbitrary: n "values")
  case (Cons raw lines)
  have "set (snd (parse_env_lines n (raw # lines) values)) =
      set (snd (env_line n raw values)) \<union> set (snd (parse_env_lines (Suc n) lines (fst (env_line n raw values))))"
    by (simp add: case_prod_unfold Let_def)
  also have "\<dots> \<subseteq> parse_messages [raw] \<union> parse_messages lines"
    using env_line_messages Cons.IH by blast
  also have "\<dots> \<subseteq> parse_messages (raw # lines)"
    using parse_messages_mono [of "[raw]" "raw # lines"] parse_messages_mono [of lines "raw # lines"] by auto
  finally show ?case .
qed simp


section \<open>Memory sizes\<close>

lemma ilog2_less: "n < 2 ^ Suc m \<Longrightarrow> ilog2 n \<le> int m"
proof (induction m arbitrary: n)
  case 0
  then show ?case by (subst ilog2.simps) simp
next
  case (Suc m)
  show ?case
  proof (cases "n < 2")
    case True
    then show ?thesis by (subst ilog2.simps) simp
  next
    case False
    from Suc.prems have "n div 2 < 2 ^ Suc m" by simp
    with Suc.IH [of "n div 2"] False show ?thesis by (subst ilog2.simps) simp
  qed
qed

lemma scaled_double_exact:
  assumes "0 \<le> n" "n < 2 ^ 53" "j \<le> 64"
  shows "scaled_double n 0 j = Some (n * 2 ^ j)"
proof (cases "n = 0")
  case True
  then show ?thesis by (simp add: scaled_double_def round_double_def)
next
  case False
  define k where "k = double_shift n 1"
  have "ilog2 n \<le> 52" using ilog2_less [of n 52] assms by simp
  moreover have "ilog2 1 = 0" by (subst ilog2.simps) simp
  ultimately have k0: "0 \<le> k" unfolding k_def double_shift_def Let_def by (auto simp: min_def)
  have rd: "round_double n 1 = (n * 2 ^ nat k, k)"
    using False k0 by (simp add: round_double_def Let_def round_half_even_def flip: k_def)
  have "n * 2 ^ j < 2 ^ 53 * 2 ^ 64"
    using mult_mono [of n "2 ^ 53 - 1" "2 ^ j" "2 ^ 64"] power_increasing [of j 64 "2 :: int"] assms by simp
  then have "\<not> 2 ^ 1024 \<le> n * 2 ^ j" by simp
  then have "\<not> 2 ^ 1024 * 2 ^ nat k \<le> n * 2 ^ nat k * 2 ^ j"
    by (simp add: mult.assoc mult.commute [of "2 ^ nat k"] flip: mult.assoc)
  moreover have "n * 2 ^ nat k * 2 ^ j div 2 ^ nat k = n * 2 ^ j" by (simp add: mult.commute mult.assoc)
  ultimately show ?thesis using k0 by (simp add: scaled_double_def rd)
qed

lemma plain_MEM_RE [simp]: "plain MEM_RE"
  by (simp add: MEM_RE_def)

lemma rcaps_MEM_RE:
  assumes "(s, d) \<in> rcaps MEM_RE" and "CHR ''.'' \<notin> set s" and "\<forall>c\<in>set s. \<not> is_space c"
  shows "\<exists>ds al. s = ds @ al \<and> (\<forall>c\<in>set ds. is_digit c) \<and> (\<forall>c\<in>set al. is_alpha_ascii c) \<and> d = [(2, al), (1, ds)]"
proof -
  from assms(1,2) obtain ds sp al where 1: "s = ds @ sp @ al" "\<forall>c\<in>set ds. is_digit c" "\<forall>c\<in>set sp. is_space c"
      "\<forall>c\<in>set al. is_alpha_ascii c" "d = [(2, al), (1, ds)]"
    by (auto simp: MEM_RE_def ropt_def rdigit_def rspace_def)
  with assms(3) have "sp = []" by (cases sp) auto
  with 1 show ?thesis by auto
qed

lemma digit_not_alpha: "is_digit c \<Longrightarrow> \<not> is_alpha_ascii c"
  by (auto simp: is_digit_def is_alpha_ascii_def is_lower_az_def is_upper_az_def in_range_def)

lemma alnum_simps: "is_digit c \<or> is_alpha_ascii c \<Longrightarrow> c \<noteq> CHR ''.'' \<and> \<not> is_space c"
  by (auto simp: is_digit_def is_alpha_ascii_def is_lower_az_def is_upper_az_def in_range_def is_space_def ccode_def)

lemma takeWhile_digits:
  "\<forall>c\<in>set ds. is_digit c \<Longrightarrow> \<forall>c\<in>set al. is_alpha_ascii c \<Longrightarrow> takeWhile is_digit (ds @ al) = ds"
  using digit_not_alpha by (induction ds) (cases al; auto)+

lemma mem_units_props: "(u, j) \<in> set mem_units \<Longrightarrow>
    (\<forall>c\<in>set u. is_alpha_ascii c) \<and> map_of mem_units (lower u) = Some j \<and> j \<le> 64"
proof -
  have "list_all (\<lambda>(u, j). list_all is_alpha_ascii u \<and> map_of mem_units (lower u) = Some j \<and> j \<le> 64) mem_units"
    by code_simp
  then show "(u, j) \<in> set mem_units \<Longrightarrow> ?thesis" by (auto simp: list_all_iff)
qed

lemma mem_bytes_whole:
  assumes u: "(u, j) \<in> set mem_units" and n: "n < 2 ^ 53"
  shows "mem_bytes (JStr (show_nat n @ u)) = Some (Some (int n * 2 ^ j))"
proof -
  note up = mem_units_props [OF u]
  let ?s = "show_nat n @ u"
  have chars: "\<forall>c\<in>set ?s. c \<noteq> CHR ''.'' \<and> \<not> is_space c" using up show_nat_digits [of n] alnum_simps by auto
  then have st: "strip ?s = ?s" by (intro strip_no_space) (auto simp: list_all_iff)
  have "?s \<in> rlang MEM_RE"
  proof -
    have "show_nat n @ [] @ [] @ u @ [] \<in> rlang MEM_RE"
      unfolding MEM_RE_def rseq.simps using up show_nat_digits [of n]
      by (intro rlang_RSeqI) (auto simp: rdigit_def rspace_def)
    then show ?thesis by simp
  qed
  then obtain c where c: "re_fullmatch MEM_RE ?s = Some c" by (metis not_None_eq plain_MEM_RE re_fullmatch_None)
  obtain d where d: "c = (0, ?s) # d" "(?s, d) \<in> rcaps MEM_RE" using c by (rule re_fullmatch_caps)
  obtain ds al where da: "?s = ds @ al" "\<forall>c\<in>set ds. is_digit c" "\<forall>c\<in>set al. is_alpha_ascii c" "d = [(2, al), (1, ds)]"
    using rcaps_MEM_RE [OF d(2)] chars by blast
  have "ds = show_nat n" using takeWhile_digits [OF da(2,3)] takeWhile_digits [of "show_nat n" u] da(1) show_nat_digits up
    by simp
  with da have "al = u" by simp
  from n have "int n < 2 ^ 53" by (simp add: nat_less_numeral_power_cancel_iff)
  then show ?thesis using up \<open>ds = show_nat n\<close> \<open>al = u\<close> da d c st
    by (simp add: mem_bytes_def group_text_def scaled_double_exact)
qed

text \<open>
  C19: A whole number below \<open>2 ^ 53\<close> with a unit of the table is converted exactly, although the
  code goes through a double.
\<close>

theorem mem_bytes_exact:
  assumes "(u, j) \<in> set mem_units" and "n < 2 ^ 53"
  shows "mem_bytes (JStr (show_nat n @ u)) = Some (Some (int n * 2 ^ j))"
  using assms by (rule mem_bytes_whole)

theorem mem_bytes_exact_witness: "mem_bytes (JStr (show_nat 512 @ ''m'')) = Some (Some 536870912)"
  using mem_bytes_exact [of "''m''" 20 512] by (simp add: mem_units_def)

end
