(* ===== verification/Stack_Service.thy ===== *)
theory Stack_Service
  imports Stack_Env
begin

text \<open>
  The guards of \<^verbatim>\<open>deploy/compose/stackguards.py\<close> that look at one service of the merged Compose
  configuration at a time: key allow-list, isolation, limits, the generator flag and the rate-limit
  settings, and the top level of the file.

  \<^verbatim>\<open>config_problems\<close> receives the services as one JSON object of objects; here they are a list of
  named dictionaries (\<open>services\<close>), decoded once in \<open>Stack_Config\<close>. Every guard is a loop over the
  services whose body appends messages or raises; the locale \<open>service_guard\<close> holds what such loops
  have in common.
\<close>

type_synonym services = "(string \<times> dict) list"

text \<open>\<^verbatim>\<open>services.get(name, {})\<close>.\<close>

definition svc_of :: "services \<Rightarrow> string \<Rightarrow> dict" where
  "svc_of services name = (case map_of services name of None \<Rightarrow> [] | Some svc \<Rightarrow> svc)"

text \<open>\<^verbatim>\<open>str(d.get(k, default))\<close>: a null is printed, only a missing key takes the default.\<close>

definition str_get :: "dict \<Rightarrow> string \<Rightarrow> string \<Rightarrow> string" where
  "str_get d k dflt = (case map_of d k of None \<Rightarrow> dflt | Some v \<Rightarrow> py_str v)"

text \<open>A loop over the services: the body returns the messages it appends, or raises.\<close>

definition for_services :: "(string \<Rightarrow> dict \<Rightarrow> string list option) \<Rightarrow> services \<Rightarrow> string list option" where
  "for_services body services = collect (\<lambda>(name, svc). body name svc) services"


section \<open>Reading a service\<close>

definition service_networks :: "dict \<Rightarrow> (string \<times> json) list option" where
  "service_networks service =
     (case dget service ''networks'' of
        JList nets \<Rightarrow> Some (dict_of (map (\<lambda>n. (py_str n, JObj [])) nets))
      | nets \<Rightarrow> map_option (map (\<lambda>(k, v). (k, py_or v (JObj [])))) (or_dict nets))"

definition environment :: "dict \<Rightarrow> env option" where
  "environment service =
     (case dget service ''environment'' of
        JList items \<Rightarrow>
          Some (dict_of (map (\<lambda>item. case partition_at ''='' (py_str item) of (key, _, value) \<Rightarrow> (key, value)) items))
      | env \<Rightarrow> map_option (map (\<lambda>(k, v). (k, if v = JNull then [] else py_str v))) (or_dict env))"

definition secret_entry :: "json \<Rightarrow> (string \<times> string) option" where
  "secret_entry item =
     (case item of
        JStr s \<Rightarrow> Some (s, s)
      | JObj d \<Rightarrow> (let source = str_get d ''source'' ''''
                  in Some (source, py_str (py_or (dget d ''target'') (JStr source))))
      | _ \<Rightarrow> None)"

definition secret_entries :: "dict \<Rightarrow> (string \<times> string) list option" where
  "secret_entries service = map_opt secret_entry (py_list (dget service ''secrets''))"

text \<open>\<^verbatim>\<open>[str(i) for i in _list(svc.get(key))]\<close>.\<close>

definition str_items :: "dict \<Rightarrow> string \<Rightarrow> string list" where
  "str_items service key = map py_str (py_list (dget service key))"

text \<open>\<^verbatim>\<open>_list((svc.get("healthcheck") or {}).get("test"))\<close>.\<close>

definition healthcheck_test :: "dict \<Rightarrow> json list option" where
  "healthcheck_test service = map_option (\<lambda>h. py_list (dget h ''test'')) (or_dict (dget service ''healthcheck''))"


section \<open>The top level\<close>

definition extension_key :: "string \<Rightarrow> bool" where
  "extension_key k \<longleftrightarrow> py_startswith k ''x-''"

definition volume_problems :: "string \<Rightarrow> json \<Rightarrow> string list option" where
  "volume_problems name v =
     do { volume \<leftarrow> or_dict v;
          Some (msg_if (truthy (dget volume ''external'')) (fmt ''volume %s is external'' [name])
                @ concat (map (\<lambda>key. msg_if (dhas volume key)
                    (fmt ''volume %s: %s is not allowed (a named volume is never a host path)'' [name, key]))
                    [''driver'', ''driver_opts''])
                @ msg_if (dget volume ''name'' \<noteq> JNull
                          \<and> dget volume ''name'' \<notin> {JStr name, JStr (STACK_NAME @ ''_'' @ name)})
                    (fmt ''volume %s: a name override is not allowed'' [name])) }"

definition top_level_problems :: "dict \<Rightarrow> string list option" where
  "top_level_problems cfg =
     do { volumes \<leftarrow> or_dict (dget cfg ''volumes'');
          ms \<leftarrow> collect (\<lambda>(name, v). volume_problems name v) volumes;
          Some (map (\<lambda>key. fmt ''top-level key %s is not allowed'' [key])
                  (sorted_set (filter (\<lambda>k. \<not> extension_key k) (keys_minus (dkeys cfg) ALLOWED_TOP_KEYS)))
                @ map (\<lambda>key. fmt ''top-level key %s is banned'' [key]) (sorted_set (keys_and (dkeys cfg) BANNED_KEYS))
                @ msg_if (dget cfg ''name'' \<noteq> JStr STACK_NAME) (fmt ''project name must be %s'' [STACK_NAME])
                @ msg_if (\<not> same_set (dkeys volumes) ALL_NAMED_VOLUMES)
                    (fmt ''top-level volumes are %s, expected %s''
                       [repr_strs (sort (dkeys volumes)), repr_strs (sort ALL_NAMED_VOLUMES)])
                @ ms) }"


section \<open>Keys, generator flag, rate limits\<close>

definition service_key_problems :: "string \<Rightarrow> dict \<Rightarrow> string list option" where
  "service_key_problems name svc =
     Some (map (\<lambda>key. fmt ''service %s: key %s is not allowed'' [name, key])
             (sorted_set (filter (\<lambda>k. \<not> extension_key k) (keys_minus (dkeys svc) ALLOWED_SERVICE_KEYS)))
           @ map (\<lambda>key. fmt ''service %s: key %s is banned'' [name, key]) (sorted_set (keys_and (dkeys svc) BANNED_KEYS)))"

definition service_set_problems :: "services \<Rightarrow> string list option" where
  "service_set_problems services =
     both (Some (map (\<lambda>name. fmt ''unexpected service %s'' [name]) (sorted_set (keys_minus (dkeys services) EXPECTED_SERVICES))
                 @ map (\<lambda>name. fmt ''service %s is missing'' [name]) (sorted_set (keys_minus EXPECTED_SERVICES (dkeys services)))))
          (for_services service_key_problems services)"

definition generator_flag_body :: "string \<Rightarrow> dict \<Rightarrow> string list option" where
  "generator_flag_body name svc =
     do { test \<leftarrow> healthcheck_test svc;
          let items = str_items svc ''command'' @ str_items svc ''entrypoint'' @ map py_str test;
          Some (msg_if (list_ex (\<lambda>item. py_in (lower GENERATOR_FLAG) (lower item)) items)
            (fmt ''service %s: the key-ring certificate generator flag is not allowed in command, entrypoint or healthcheck''
               [name])) }"

definition generator_flag_problems :: "services \<Rightarrow> string list option" where
  "generator_flag_problems services = for_services generator_flag_body services"

definition RATELIMIT_CLASSES :: "string list" where
  "RATELIMIT_CLASSES = [''login'', ''backchannel_logout'', ''api'', ''admin'']"

definition RATELIMIT_RANGES :: "(string \<times> (int \<times> int)) list" where
  "RATELIMIT_RANGES = [(''permitlimit'', (1, 100000)), (''windowseconds'', (1, 3600))]"

definition RATELIMIT_VALUE_RE :: rx where
  "RATELIMIT_VALUE_RE = rrange 1 6 rdigit"

definition ratelimit_range :: "string \<Rightarrow> string \<Rightarrow> (int \<times> int) option" where
  "ratelimit_range cls setting =
     (if cls = ''api'' \<and> setting = ''anonymouspermitlimit'' then map_of RATELIMIT_RANGES ''permitlimit''
      else map_of RATELIMIT_RANGES setting)"

definition ratelimit_env_problem :: "string \<Rightarrow> string \<Rightarrow> string \<Rightarrow> string option" where
  "ratelimit_env_problem service key value =
     (let name = replace_all '':'' ''__'' key;
          unknown = fmt ''service bff: %s is not a rate-limit setting (Bff__RateLimits__<class>__PermitLimit or __WindowSeconds, and __AnonymousPermitLimit for api)'' [key]
      in if \<not> py_startswith (lower name) ''bff__ratelimits__'' then None
         else if service \<noteq> ''bff'' then Some (fmt ''service %s: %s is a BFF setting'' [service, key])
         else case split_on ''__'' name of
           [_, _, cls, setting] \<Rightarrow>
             if lower cls \<notin> set RATELIMIT_CLASSES then Some unknown
             else (case ratelimit_range (lower cls) (lower setting) of
                None \<Rightarrow> Some unknown
              | Some (low, high) \<Rightarrow>
                  if \<not> fullmatches RATELIMIT_VALUE_RE value \<or> \<not> (low \<le> digits_val value \<and> digits_val value \<le> high)
                  then Some (fmt ''service bff: %s must be an integer from %d to %d'' [key, show_int low, show_int high])
                  else None)
         | _ \<Rightarrow> Some unknown)"


section \<open>Isolation and limits\<close>

definition isolation_body :: "string \<Rightarrow> dict \<Rightarrow> string list option" where
  "isolation_body name svc =
     (let dropped = map upper (str_items svc ''cap_drop'');
          user = py_str (py_or (dget svc ''user'') (JStr ''''))
      in Some (
        msg_if (\<not> list_ex (\<lambda>opt. opt \<in> set NO_NEW_PRIVILEGES) (str_items svc ''security_opt''))
          (fmt ''service %s: security_opt must hold no-new-privileges:true'' [name])
        @ msg_if (''ALL'' \<notin> set dropped \<and> ''NET_RAW'' \<notin> set dropped)
            (fmt ''service %s: cap_drop must hold ALL (at least NET_RAW)'' [name])
        @ msg_if (name \<noteq> ''caddy'' \<and> split_head '':'' user \<in> {'''', ''0'', ''root''})
            (fmt ''service %s: must run as a non-root user'' [name])
        @ msg_if (name \<noteq> ''keycloak'' \<and> dget svc ''read_only'' \<noteq> JBool True)
            (fmt ''service %s: read_only must be true'' [name])
        @ msg_if (\<not> truthy (dget svc ''restart'')) (fmt ''service %s: restart policy is missing'' [name])))"

definition isolation_problems :: "services \<Rightarrow> string list option" where
  "isolation_problems services = for_services isolation_body services"

text \<open>\<^verbatim>\<open>float(int)\<close> raises OverflowError, which is not caught, when the rounded value is not finite.\<close>

definition float_overflows :: "json \<Rightarrow> bool" where
  "float_overflows v = (case v of JInt i \<Rightarrow> 2 ^ 1024 - 2 ^ 970 \<le> \<bar>i\<bar> | _ \<Rightarrow> False)"

definition cpus_missing :: "json \<Rightarrow> bool option" where
  "cpus_missing v =
     (if float_overflows v then None
      else Some (case py_float v of None \<Rightarrow> True | Some f \<Rightarrow> float_le_zero f))"

definition pids_missing :: "json \<Rightarrow> bool" where
  "pids_missing v = (case py_int v of None \<Rightarrow> True | Some n \<Rightarrow> n \<le> 0)"

definition logging_wrong :: "dict \<Rightarrow> bool option" where
  "logging_wrong svc =
     do { logging \<leftarrow> or_dict (dget svc ''logging'');
          if dget logging ''driver'' \<noteq> JStr ''json-file'' then
            Some True
          else do { options \<leftarrow> or_dict (dget logging ''options'');
                    Some (\<not> truthy (dget options ''max-size'') \<or> \<not> truthy (dget options ''max-file'')) } }"

text \<open>The memory limit of a service as it enters the sum; an invalid one counts nothing.\<close>

definition limit_memory :: "dict \<Rightarrow> int option" where
  "limit_memory svc =
     map_option (\<lambda>memory. case memory of Some n \<Rightarrow> (if 0 < n then n else 0) | None \<Rightarrow> 0)
       (mem_bytes (dget svc ''mem_limit''))"

definition limit_body :: "string \<Rightarrow> dict \<Rightarrow> string list option" where
  "limit_body name svc =
     do { memory \<leftarrow> limit_memory svc;
          cpus \<leftarrow> cpus_missing (dget svc ''cpus'');
          logging \<leftarrow> logging_wrong svc;
          Some (msg_if (memory = 0) (fmt ''service %s: mem_limit is missing'' [name])
                @ msg_if cpus (fmt ''service %s: cpus is missing'' [name])
                @ msg_if (pids_missing (dget svc ''pids_limit'')) (fmt ''service %s: pids_limit is missing'' [name])
                @ msg_if logging (fmt ''service %s: logging must be json-file with max-size and max-file'' [name])) }"

definition limit_problems :: "services \<Rightarrow> string list option" where
  "limit_problems services =
     do { ms \<leftarrow> for_services limit_body services;
          memories \<leftarrow> map_opt (\<lambda>(name, svc). limit_memory svc) services;
          let total = sum_list memories;
          Some (ms @ msg_if (MEMORY_CEILING_BYTES < total)
                  (fmt ''memory limits sum to %d MiB, more than the 3.5 GiB ceiling'' [show_int (total div 1024 ^ 2)])) }"


section \<open>The contract of a service guard\<close>

locale service_guard =
  fixes body :: "string \<Rightarrow> dict \<Rightarrow> string list option"
    and ok :: "string \<Rightarrow> dict \<Rightarrow> bool"
  assumes body_iff: "body name svc = Some [] \<longleftrightarrow> ok name svc"
begin

lemma loop_iff: "for_services body services = Some [] \<longleftrightarrow> (\<forall>(name, svc)\<in>set services. ok name svc)"
  by (auto simp: for_services_def body_iff)

lemma loop_service:
  "for_services body services = Some [] \<Longrightarrow> map_of services name = Some svc \<Longrightarrow> ok name svc"
  by (auto simp: loop_iff dest: map_of_SomeD)

lemma loop_append:
  "for_services body (xs @ ys) = Some [] \<longleftrightarrow> for_services body xs = Some [] \<and> for_services body ys = Some []"
  by (auto simp: loop_iff)

lemma loop_order: "set xs = set ys \<Longrightarrow> for_services body xs = Some [] \<longleftrightarrow> for_services body ys = Some []"
  by (simp add: loop_iff)

end

definition keys_ok :: "string \<Rightarrow> dict \<Rightarrow> bool" where
  "keys_ok name svc \<longleftrightarrow>
     (\<forall>k\<in>set (dkeys svc). (k \<in> set ALLOWED_SERVICE_KEYS \<or> extension_key k) \<and> k \<notin> set BANNED_KEYS)"

definition isolated :: "string \<Rightarrow> dict \<Rightarrow> bool" where
  "isolated name svc \<longleftrightarrow>
     (\<exists>opt\<in>set (str_items svc ''security_opt''). opt \<in> set NO_NEW_PRIVILEGES)
     \<and> (\<exists>c\<in>set (str_items svc ''cap_drop''). upper c \<in> {''ALL'', ''NET_RAW''})
     \<and> (name = ''caddy'' \<or> split_head '':'' (py_str (py_or (dget svc ''user'') (JStr ''''))) \<notin> {'''', ''0'', ''root''})
     \<and> (name = ''keycloak'' \<or> dget svc ''read_only'' = JBool True)
     \<and> truthy (dget svc ''restart'')"

definition limited :: "string \<Rightarrow> dict \<Rightarrow> bool" where
  "limited name svc \<longleftrightarrow>
     (\<exists>n. mem_bytes (dget svc ''mem_limit'') = Some (Some n) \<and> 0 < n)
     \<and> (\<exists>f. py_float (dget svc ''cpus'') = Some f \<and> \<not> float_le_zero f \<and> \<not> float_overflows (dget svc ''cpus''))
     \<and> (\<exists>n. py_int (dget svc ''pids_limit'') = Some n \<and> 0 < n)
     \<and> (\<exists>d options. dget svc ''logging'' = JObj d \<and> dget d ''driver'' = JStr ''json-file''
          \<and> dget d ''options'' = JObj options \<and> truthy (dget options ''max-size'') \<and> truthy (dget options ''max-file''))"

definition flag_free :: "string \<Rightarrow> dict \<Rightarrow> bool" where
  "flag_free name svc \<longleftrightarrow>
     (\<exists>test. healthcheck_test svc = Some test \<and>
        (\<forall>item\<in>set (str_items svc ''command'') \<union> set (str_items svc ''entrypoint'') \<union> py_str ` set test.
           \<not> py_in (lower GENERATOR_FLAG) (lower item)))"

lemma or_dict_truthy: "or_dict v = Some d \<Longrightarrow> truthy (dget d k) \<Longrightarrow> v = JObj d"
  by (auto simp: or_dict_def split: if_splits)

lemma logging_wrong_False:
  "logging_wrong svc = Some False \<longleftrightarrow>
     (\<exists>d options. dget svc ''logging'' = JObj d \<and> dget d ''driver'' = JStr ''json-file''
          \<and> dget d ''options'' = JObj options \<and> truthy (dget options ''max-size'') \<and> truthy (dget options ''max-file''))"
proof
  assume "logging_wrong svc = Some False"
  then obtain d options where d: "or_dict (dget svc ''logging'') = Some d" "dget d ''driver'' = JStr ''json-file''"
      "or_dict (dget d ''options'') = Some options" "truthy (dget options ''max-size'')" "truthy (dget options ''max-file'')"
    by (auto simp: logging_wrong_def bind_eq_Some_conv split: if_splits)
  moreover have "dget svc ''logging'' = JObj d" using or_dict_truthy [OF d(1), of "''driver''"] d(2) by simp
  moreover have "dget d ''options'' = JObj options" using or_dict_truthy [OF d(3,4)] .
  ultimately show "\<exists>d options. dget svc ''logging'' = JObj d \<and> dget d ''driver'' = JStr ''json-file''
          \<and> dget d ''options'' = JObj options \<and> truthy (dget options ''max-size'') \<and> truthy (dget options ''max-file'')"
    by blast
next
  assume "\<exists>d options. dget svc ''logging'' = JObj d \<and> dget d ''driver'' = JStr ''json-file''
          \<and> dget d ''options'' = JObj options \<and> truthy (dget options ''max-size'') \<and> truthy (dget options ''max-file'')"
  then obtain d options where d: "dget svc ''logging'' = JObj d" "dget d ''driver'' = JStr ''json-file''"
      "dget d ''options'' = JObj options" "truthy (dget options ''max-size'')" "truthy (dget options ''max-file'')" by blast
  then have "d \<noteq> []" "options \<noteq> []" by auto
  with d show "logging_wrong svc = Some False" by (simp add: logging_wrong_def or_dict_def as_dict_def)
qed

lemma limit_memory_pos:
  "limit_memory svc = Some n \<and> n \<noteq> 0 \<longleftrightarrow> mem_bytes (dget svc ''mem_limit'') = Some (Some n) \<and> 0 < n"
  by (auto simp: limit_memory_def split: option.splits if_splits)

lemma limit_body_iff: "limit_body name svc = Some [] \<longleftrightarrow> limited name svc"
proof -
  have "limit_body name svc = Some [] \<longleftrightarrow>
     (\<exists>n. limit_memory svc = Some n \<and> n \<noteq> 0) \<and> cpus_missing (dget svc ''cpus'') = Some False
     \<and> \<not> pids_missing (dget svc ''pids_limit'') \<and> logging_wrong svc = Some False"
    by (auto simp: limit_body_def bind_eq_Some_conv)
  then show ?thesis unfolding limit_memory_pos logging_wrong_False limited_def
    by (auto simp: cpus_missing_def pids_missing_def split: option.splits)
qed

lemma keys_body_iff: "service_key_problems name svc = Some [] \<longleftrightarrow> keys_ok name svc"
proof -
  have "service_key_problems name svc = Some [] \<longleftrightarrow>
      filter (\<lambda>k. \<not> extension_key k) (keys_minus (dkeys svc) ALLOWED_SERVICE_KEYS) = [] \<and> keys_and (dkeys svc) BANNED_KEYS = []"
    by (simp add: service_key_problems_def del: keys_and_Nil)
  also have "\<dots> \<longleftrightarrow> keys_ok name svc" by (auto simp: keys_ok_def filter_empty_conv keys_minus_def)
  finally show ?thesis .
qed

lemma isolation_body_iff: "isolation_body name svc = Some [] \<longleftrightarrow> isolated name svc"
proof -
  have "''ALL'' \<notin> set (map upper xs) \<and> ''NET_RAW'' \<notin> set (map upper xs) \<longleftrightarrow>
      \<not> (\<exists>c\<in>set xs. upper c \<in> {''ALL'', ''NET_RAW''})" for xs
    by (auto simp: image_iff eq_commute)
  then show ?thesis by (auto simp: isolation_body_def isolated_def Let_def list_ex_iff simp del: set_map)
qed

lemma generator_flag_body_iff: "generator_flag_body name svc = Some [] \<longleftrightarrow> flag_free name svc"
  by (auto simp: generator_flag_body_def flag_free_def Let_def list_ex_iff bind_eq_Some_conv)

interpretation keys: service_guard service_key_problems keys_ok
  by unfold_locales (rule keys_body_iff)

interpretation isolation: service_guard isolation_body isolated
  by unfold_locales (rule isolation_body_iff)

interpretation limits: service_guard limit_body limited
  by unfold_locales (rule limit_body_iff)

interpretation flag: service_guard generator_flag_body flag_free
  by unfold_locales (rule generator_flag_body_iff)

lemma map_opt_Some_iff: "map_opt f xs = Some ys \<longleftrightarrow> map f xs = map Some ys"
  by (induction xs arbitrary: ys) (auto simp: bind_eq_Some_conv Cons_eq_map_conv)

lemma limit_problems_iff:
  "limit_problems services = Some [] \<longleftrightarrow>
     (\<forall>(name, svc)\<in>set services. limited name svc)
     \<and> (\<exists>memories. map (\<lambda>(name, svc). mem_bytes (dget svc ''mem_limit'')) services = map (\<lambda>n. Some (Some n)) memories
          \<and> sum_list memories \<le> MEMORY_CEILING_BYTES)"
proof -
  have "map_opt (\<lambda>(name, svc). limit_memory svc) services = Some memories \<longleftrightarrow>
      map (\<lambda>(name, svc). mem_bytes (dget svc ''mem_limit'')) services = map (\<lambda>n. Some (Some n)) memories"
    if "\<forall>(name, svc)\<in>set services. limited name svc" for memories
    using that
  proof (induction services arbitrary: memories)
    case (Cons s services)
    obtain name svc where s: "s = (name, svc)" by (cases s)
    with Cons.prems obtain n where n: "mem_bytes (dget svc ''mem_limit'') = Some (Some n)" "0 < n"
      by (auto simp: limited_def)
    then have "limit_memory svc = Some n" by (simp add: limit_memory_def)
    with n s Cons show ?case by (auto simp: bind_eq_Some_conv Cons_eq_map_conv)
  qed auto
  moreover have "limit_problems services = Some [] \<longleftrightarrow> for_services limit_body services = Some [] \<and>
     (\<exists>memories. map_opt (\<lambda>(name, svc). limit_memory svc) services = Some memories \<and> sum_list memories \<le> MEMORY_CEILING_BYTES)"
    by (auto simp: limit_problems_def bind_eq_Some_conv Let_def not_less)
  ultimately show ?thesis by (auto simp: limits.loop_iff)
qed

end
