(* ===== verification/Stack_Access.thy ===== *)
theory Stack_Access
  imports Stack_Service "HOL-Library.Multiset"
begin

text \<open>
  The guards of \<^verbatim>\<open>deploy/compose/stackguards.py\<close> on what a service can reach: mounts and configs,
  networks, published ports and secrets.
\<close>


section \<open>Mounts\<close>

text \<open>A loop that carries state: the bind mounts and the volumes still expected. \<^verbatim>\<open>dict.pop\<close> is
  \<open>dpop\<close>.\<close>

definition dpop :: "('k \<times> 'v) list \<Rightarrow> 'k \<Rightarrow> ('k \<times> 'v) list" where
  "dpop d k = filter (\<lambda>(k', v). k' \<noteq> k) d"

type_synonym wanted = "(string \<times> string) list \<times> (string \<times> string) list"

definition volume_item :: "string \<Rightarrow> json \<Rightarrow> wanted \<Rightarrow> wanted \<times> string list" where
  "volume_item name item wanted =
     (case (wanted, item) of
        ((binds, volumes), JObj d) \<Rightarrow>
          (let kind = dget d ''type''; source = str_get d ''source'' ''''; target = str_get d ''target'' '''' in
           if py_in ''docker.sock'' source \<or> py_in ''docker.sock'' target
             then (wanted, [fmt ''service %s: the Docker socket is mounted'' [name]])
           else if kind = JStr ''bind'' then
             (if map_of binds source \<noteq> Some target
                then (wanted, [fmt ''service %s: bind mount of an unlisted path or target'' [name]])
              else ((dpop binds source, volumes),
                    msg_if (dget d ''read_only'' \<noteq> JBool True)
                      (fmt ''service %s: bind mount %s must be read-only'' [name, source])))
           else if kind = JStr ''volume'' then
             (if map_of volumes source \<noteq> Some target
                then (wanted, [fmt ''service %s: named volume %s is not allowed here'' [name, source]])
              else ((binds, dpop volumes source),
                    msg_if (dget d ''read_only'' = JBool True)
                      (fmt ''service %s: volume %s must be read-write'' [name, source])))
           else if kind = JStr ''tmpfs'' then (wanted, [])
           else (wanted, [fmt ''service %s: mount type %s is not allowed'' [name, py_str kind]]))
      | _ \<Rightarrow> (wanted, [fmt ''service %s: a volume uses the short syntax (use the long syntax)'' [name]]))"

fun volume_items :: "string \<Rightarrow> json list \<Rightarrow> wanted \<Rightarrow> wanted \<times> string list" where
  "volume_items name [] wanted = (wanted, [])"
| "volume_items name (item # items) wanted =
     (let (wanted1, ms) = volume_item name item wanted; (wanted2, ms') = volume_items name items wanted1
      in (wanted2, ms @ ms'))"

definition table_get :: "(string \<times> 'v list) list \<Rightarrow> string \<Rightarrow> 'v list" where
  "table_get table name = (case map_of table name of None \<Rightarrow> [] | Some vs \<Rightarrow> vs)"

text \<open>A configs entry: its source and target.\<close>

definition config_entry :: "json \<Rightarrow> (string \<times> string) option" where
  "config_entry item =
     (case item of
        JStr s \<Rightarrow> Some (s, CADDY_ROOT_TARGET)
      | JObj d \<Rightarrow> Some (str_get d ''source'' '''', str_get d ''target'' '''')
      | _ \<Rightarrow> None)"

definition mount_body :: "string \<Rightarrow> dict \<Rightarrow> string list option" where
  "mount_body name svc =
     do { let ((binds, volumes), ms) =
            volume_items name (py_list (dget svc ''volumes'')) (table_get BIND_MOUNTS name, table_get NAMED_VOLUMES name);
          entries \<leftarrow> map_opt config_entry (py_list (dget svc ''configs''));
          let got = map fst entries;
          let expected = table_get CONFIG_CONSUMERS name;
          Some (ms
            @ map (\<lambda>(source, target). fmt ''service %s: expected bind mount %s is missing'' [name, source]) binds
            @ map (\<lambda>(source, target). fmt ''service %s: expected volume %s is missing'' [name, source]) volumes
            @ concat (map (\<lambda>item. msg_if (py_in ''docker.sock'' item)
                (fmt ''service %s: tmpfs names the Docker socket'' [name])) (str_items svc ''tmpfs''))
            @ concat (map (\<lambda>(source, target). msg_if (target \<noteq> CADDY_ROOT_TARGET)
                (fmt ''service %s: config %s is mounted at an unexpected target'' [name, source])) entries)
            @ msg_if (\<not> same_set got expected)
                (fmt ''service %s: configs are %s, expected %s''
                   [name, repr_strs (sorted_set got), repr_strs (sorted_set expected)])) }"

definition top_config_problems :: "string \<Rightarrow> json \<Rightarrow> string list option" where
  "top_config_problems name v =
     do { entry \<leftarrow> or_dict v;
          Some (msg_if (dget entry ''file'' \<noteq> JStr ''./trust/caddy-root.crt''
                        \<or> keys_minus (dkeys entry) [''file'', ''name''] \<noteq> [])
                  (fmt ''config %s must be the file ./trust/caddy-root.crt'' [name])) }"

definition mount_problems :: "dict \<Rightarrow> services \<Rightarrow> string list option" where
  "mount_problems cfg services =
     both (for_services mount_body services)
       (do { top \<leftarrow> or_dict (dget cfg ''configs'');
             ms \<leftarrow> collect (\<lambda>(name, v). top_config_problems name v) top;
             Some (msg_if (\<not> same_set (dkeys top) [''caddy-root'']) ''top-level configs must be exactly caddy-root'' @ ms) })"


section \<open>Networks\<close>

definition subnets_of :: "dict \<Rightarrow> json list option" where
  "subnets_of net =
     do { ipam \<leftarrow> or_dict (dget net ''ipam'');
          (if \<not> truthy (dget ipam ''config'') then Some []
           else case dget ipam ''config'' of
                  JList cs \<Rightarrow> map_opt (\<lambda>c. map_option (\<lambda>d. dget d ''subnet'') (as_dict c)) cs
                | _ \<Rightarrow> None) }"

definition top_network_problems :: "string \<Rightarrow> json \<Rightarrow> string list option" where
  "top_network_problems name v =
     do { net \<leftarrow> or_dict v;
          subnets \<leftarrow> subnets_of net;
          let want_internal = name \<in> set INTERNAL_NETWORKS;
          Some (msg_if (truthy (dget net ''external'')) (fmt ''network %s is external'' [name])
                @ msg_if (py_or (dget net ''driver'') (JStr ''bridge'') \<noteq> JStr ''bridge'')
                    (fmt ''network %s: driver must be bridge'' [name])
                @ msg_if (truthy (dget net ''internal'') \<noteq> want_internal)
                    (fmt ''network %s: internal must be %s'' [name, if want_internal then ''true'' else ''false''])
                @ (case map_of COMMITTED_SUBNETS name of
                     Some committed \<Rightarrow>
                       msg_if (subnets \<noteq> [JStr committed])
                         (fmt ''network %s: the committed subnet is missing or changed'' [name])
                   | None \<Rightarrow>
                       msg_if (subnets \<noteq> [])
                         (fmt ''network %s must not pin a subnet (Docker assigns it)'' [name]))) }"

text \<open>The table \<^verbatim>\<open>fixed\<close>: the address and the sorted aliases of a service on a network.\<close>

definition fixed_address :: "bool \<Rightarrow> env \<Rightarrow> string \<Rightarrow> string \<Rightarrow> json \<times> string list" where
  "fixed_address interpolated values name net =
     (if name = ''caddy'' \<and> net = ''backchannel'' then
        (JStr CADDY_BACKCHANNEL_ADDRESS,
         sort [ref_of ''DECISYA_ID_HOST'' interpolated values True, ref_of ''DECISYA_API_HOST'' interpolated values True])
      else if name = ''caddy'' \<and> net = ''idp'' then
        (JStr CADDY_IDP_ADDRESS, [ref_of ''DECISYA_APP_HOST'' interpolated values True])
      else (JNull, []))"

definition attachment_problems :: "bool \<Rightarrow> env \<Rightarrow> string \<Rightarrow> string \<Rightarrow> json \<Rightarrow> string list option" where
  "attachment_problems interpolated values name net v =
     do { conf \<leftarrow> as_dict v;
          let aliases = sort (str_items conf ''aliases'');
          let (want_address, want_aliases) = fixed_address interpolated values name net;
          let extra = keys_minus (dkeys conf) [''aliases'', ''ipv4_address''];
          Some (msg_if (dget conf ''ipv4_address'' \<noteq> want_address \<or> truthy (dget conf ''ipv6_address''))
                  (fmt ''service %s on %s: fixed address differs from the D2 table'' [name, net])
                @ msg_if (aliases \<noteq> want_aliases)
                    (fmt ''service %s on %s: aliases differ from the D2 table'' [name, net])
                @ msg_if (extra \<noteq> [])
                    (fmt ''service %s on %s: unexpected network keys %s'' [name, net, repr_strs (sorted_set extra)])) }"

definition network_body :: "bool \<Rightarrow> env \<Rightarrow> string \<Rightarrow> dict \<Rightarrow> string list option" where
  "network_body interpolated values name svc =
     do { nets \<leftarrow> service_networks svc;
          ms \<leftarrow> collect (\<lambda>(net, v). attachment_problems interpolated values name net v) nets;
          Some ((case map_of EXPECTED_NETWORKS name of
                   Some want \<Rightarrow>
                     msg_if (\<not> same_set (dkeys nets) want)
                       (fmt ''service %s: networks are %s, expected %s''
                          [name, repr_strs (sort (dkeys nets)), repr_strs (sort want)])
                 | None \<Rightarrow> []) @ ms) }"

definition network_problems :: "dict \<Rightarrow> services \<Rightarrow> bool \<Rightarrow> env \<Rightarrow> string list option" where
  "network_problems cfg services interpolated values =
     both
       (do { top \<leftarrow> or_dict (dget cfg ''networks'');
             ms \<leftarrow> collect (\<lambda>(name, v). top_network_problems name v) top;
             Some (msg_if (\<not> same_set (dkeys top) TOP_LEVEL_NETWORKS)
                     (fmt ''top-level networks are %s, expected %s''
                        [repr_strs (sort (dkeys top)), repr_strs (sort TOP_LEVEL_NETWORKS)]) @ ms) })
       (for_services (network_body interpolated values) services)"


section \<open>Ports\<close>

definition port_text :: "json \<Rightarrow> string option" where
  "port_text entry =
     (case entry of
        JStr s \<Rightarrow> Some s
      | JObj d \<Rightarrow>
          (let text = str_get d ''host_ip'' '''' @ '':'' @ str_get d ''published'' '''' @ '':'' @ str_get d ''target'' '''';
               protocol = str_get d ''protocol'' ''tcp''
           in Some (if protocol = ''tcp'' then text else text @ '' ('' @ protocol @ '')''))
      | _ \<Rightarrow> None)"

definition published_text :: "bool \<Rightarrow> env \<Rightarrow> string \<Rightarrow> int \<Rightarrow> string" where
  "published_text interpolated values key port =
     ref_of ''DECISYA_BIND_ADDRESS'' interpolated values True @ '':''
     @ ref_of key interpolated values True @ '':'' @ show_int port"

definition port_body :: "bool \<Rightarrow> env \<Rightarrow> string \<Rightarrow> dict \<Rightarrow> string list option" where
  "port_body interpolated values name svc =
     (let ports = py_list (dget svc ''ports'') in
      if name \<noteq> ''caddy'' then
        Some (msg_if (ports \<noteq> []) (fmt ''service %s publishes a port; only caddy may'' [name]))
      else if length ports \<noteq> 2 then
        Some [''caddy must publish exactly two ports (the HTTPS port and the admin port)'']
      else
        do { texts \<leftarrow> map_opt port_text ports;
             Some (msg_if (sort texts \<noteq> sort [published_text interpolated values ''DECISYA_HTTPS_PORT'' HTTPS_PORT,
                                               published_text interpolated values ''DECISYA_ADMIN_PORT'' ADMIN_PORT])
                (''caddy'' @ [CHR 0x27] @ ''s published ports must be exactly BIND_ADDRESS:HTTPS_PORT:8443 and BIND_ADDRESS:ADMIN_PORT:8444'')) })"

definition port_problems :: "services \<Rightarrow> bool \<Rightarrow> env \<Rightarrow> string list option" where
  "port_problems services interpolated values = for_services (port_body interpolated values) services"


section \<open>Secrets\<close>

definition top_secret_problems :: "string \<Rightarrow> json \<Rightarrow> string list option" where
  "top_secret_problems name v =
     do { entry \<leftarrow> or_dict v;
          Some (msg_if (dget entry ''file'' \<noteq> JStr (''./secrets/'' @ name)
                        \<or> keys_minus (dkeys entry) [''file'', ''name''] \<noteq> [])
                  (fmt ''secret %s must be the file ./secrets/%s'' [name, name])) }"

definition secret_body :: "string list \<Rightarrow> string \<Rightarrow> dict \<Rightarrow> string list option" where
  "secret_body defined name svc =
     do { entries \<leftarrow> secret_entries svc;
          let sources = map fst entries;
          let want = table_get SECRET_CONSUMERS name;
          Some (msg_if (\<not> same_set sources want)
                  (fmt ''service %s: secrets differ from the D3 table (extra %s, missing %s)''
                     [name, repr_strs (sorted_set (keys_minus sources want)), repr_strs (sorted_set (keys_minus want sources))])
                @ concat (map (\<lambda>(source, target).
                    msg_if (source \<noteq> target) (fmt ''service %s: secret %s must mount under its own name'' [name, source])
                    @ msg_if (source \<notin> set defined) (fmt ''service %s: secret %s is not defined'' [name, source])) entries)) }"

definition secret_problems :: "dict \<Rightarrow> services \<Rightarrow> string list option" where
  "secret_problems cfg services =
     do { top \<leftarrow> or_dict (dget cfg ''secrets'');
          files \<leftarrow> collect (\<lambda>(name, v). top_secret_problems name v) top;
          ms \<leftarrow> for_services (secret_body (dkeys top)) services;
          entries \<leftarrow> map_opt (\<lambda>(name, svc). secret_entries svc) services;
          let used = concat (map (map fst) entries);
          Some (files
                @ msg_if (\<not> same_set (dkeys top) ALL_SECRETS) ''top-level secrets differ from the D3 table''
                @ ms
                @ map (\<lambda>name. fmt ''secret %s is defined but no service uses it'' [name])
                    (sorted_set (keys_minus (dkeys top) used))) }"


section \<open>Mounts: the loop and the table\<close>

definition is_mount :: "string \<Rightarrow> json \<Rightarrow> bool" where
  "is_mount kind item \<longleftrightarrow> (case item of JObj d \<Rightarrow> dget d ''type'' = JStr kind | _ \<Rightarrow> False)"

definition mount_pair :: "json \<Rightarrow> string \<times> string" where
  "mount_pair item = (case item of JObj d \<Rightarrow> (str_get d ''source'' '''', str_get d ''target'' '''') | _ \<Rightarrow> ([], []))"

definition item_get :: "json \<Rightarrow> string \<Rightarrow> json" where
  "item_get item k = (case item of JObj d \<Rightarrow> dget d k | _ \<Rightarrow> JNull)"

definition names_socket :: "json \<Rightarrow> bool" where
  "names_socket item \<longleftrightarrow> py_in ''docker.sock'' (fst (mount_pair item)) \<or> py_in ''docker.sock'' (snd (mount_pair item))"

definition mount_item_ok :: "json \<Rightarrow> bool" where
  "mount_item_ok item \<longleftrightarrow>
     \<not> names_socket item
     \<and> (is_mount ''bind'' item \<and> item_get item ''read_only'' = JBool True
        \<or> is_mount ''volume'' item \<and> item_get item ''read_only'' \<noteq> JBool True
        \<or> is_mount ''tmpfs'' item)"

definition pairs_of :: "string \<Rightarrow> json list \<Rightarrow> (string \<times> string) list" where
  "pairs_of kind items = map mount_pair (filter (is_mount kind) items)"

lemma mset_dpop:
  assumes "distinct (map fst d)" and "map_of d k = Some v"
  shows "mset d = add_mset (k, v) (mset (dpop d k))"
  using assms
proof (induction d)
  case (Cons e d)
  obtain k' v' where e: "e = (k', v')" by (cases e)
  show ?case
  proof (cases "k' = k")
    case True
    with Cons.prems e have "\<forall>x\<in>set d. fst x \<noteq> k" by (force simp: image_iff)
    then have "dpop d k = d" by (simp add: dpop_def filter_id_conv case_prod_unfold)
    with True Cons.prems e show ?thesis by (simp add: dpop_def)
  next
    case False
    with Cons e show ?thesis by (simp add: dpop_def)
  qed
qed simp

lemma distinct_dpop: "distinct (map fst d) \<Longrightarrow> distinct (map fst (dpop d k))"
  by (induction d) (auto simp: dpop_def)

lemma pairs_of_Cons:
  "pairs_of kind (item # items) = (if is_mount kind item then [mount_pair item] else []) @ pairs_of kind items"
  by (simp add: pairs_of_def)

lemma add_mset_lookup:
  assumes "distinct (map fst d)"
  shows "add_mset (k, v) M = mset d \<longleftrightarrow> map_of d k = Some v \<and> M = mset (dpop d k)"
proof
  assume eq: "add_mset (k, v) M = mset d"
  then have "(k, v) \<in> set d" by (metis union_single_eq_member set_mset_mset)
  with assms have l: "map_of d k = Some v" by simp
  with mset_dpop [OF assms l] eq show "map_of d k = Some v \<and> M = mset (dpop d k)" by simp
qed (use mset_dpop [OF assms] in auto)

lemma volume_items_iff:
  assumes "distinct (map fst b)" and "distinct (map fst v)"
  shows "volume_items name items (b, v) = (([], []), []) \<longleftrightarrow>
     (\<forall>item\<in>set items. mount_item_ok item)
     \<and> mset (pairs_of ''bind'' items) = mset b \<and> mset (pairs_of ''volume'' items) = mset v"
  using assms
proof (induction items arbitrary: b v)
  case Nil
  then show ?case by (auto simp: pairs_of_def)
next
  case (Cons item items)
  have step: "volume_items name (item # items) (b, v) = (([], []), []) \<longleftrightarrow>
      snd (volume_item name item (b, v)) = [] \<and> volume_items name items (fst (volume_item name item (b, v))) = (([], []), [])"
    by (auto simp: case_prod_unfold Let_def prod_eq_iff)
  show ?case
  proof (cases item)
    case (JObj d)
    define s t where st: "s = str_get d ''source'' ''''" "t = str_get d ''target'' ''''"
    have p: "mount_pair item = (s, t)" "names_socket item \<longleftrightarrow> py_in ''docker.sock'' s \<or> py_in ''docker.sock'' t"
      by (auto simp: JObj mount_pair_def st names_socket_def)
    consider (sock) "names_socket item" | (bind) "\<not> names_socket item" "dget d ''type'' = JStr ''bind''"
      | (vol) "\<not> names_socket item" "dget d ''type'' = JStr ''volume''"
      | (tmp) "\<not> names_socket item" "dget d ''type'' = JStr ''tmpfs''"
      | (other) "\<not> names_socket item" "dget d ''type'' \<notin> {JStr ''bind'', JStr ''volume'', JStr ''tmpfs''}"
      by blast
    then show ?thesis
    proof cases
      case sock
      then show ?thesis using step p by (auto simp: JObj volume_item_def Let_def mount_item_ok_def st)
    next
      case bind
      note v1 = step volume_item_def [of name "item" "(b, v)"]
      have "mset (pairs_of ''bind'' (item # items)) = mset b \<longleftrightarrow> map_of b s = Some t \<and> mset (pairs_of ''bind'' items) = mset (dpop b s)"
        using bind p Cons.prems by (simp add: pairs_of_Cons is_mount_def JObj add_mset_lookup)
      with bind p st v1 Cons.IH [OF distinct_dpop [OF Cons.prems(1), of s] Cons.prems(2)] show ?thesis
        by (auto simp: JObj Let_def mount_item_ok_def is_mount_def item_get_def pairs_of_Cons)
    next
      case vol
      note v1 = step volume_item_def [of name "item" "(b, v)"]
      have "mset (pairs_of ''volume'' (item # items)) = mset v \<longleftrightarrow> map_of v s = Some t \<and> mset (pairs_of ''volume'' items) = mset (dpop v s)"
        using vol p Cons.prems by (simp add: pairs_of_Cons is_mount_def JObj add_mset_lookup)
      with vol p st v1 Cons.IH [OF Cons.prems(1) distinct_dpop [OF Cons.prems(2), of s]] show ?thesis
        by (auto simp: JObj Let_def mount_item_ok_def is_mount_def item_get_def pairs_of_Cons)
    next
      case tmp
      with p st step Cons.IH [OF Cons.prems] show ?thesis
        by (auto simp: JObj volume_item_def Let_def mount_item_ok_def is_mount_def pairs_of_Cons)
    next
      case other
      with p st step show ?thesis by (auto simp: JObj volume_item_def Let_def mount_item_ok_def is_mount_def)
    qed
  qed (use step in \<open>auto simp: volume_item_def mount_item_ok_def is_mount_def\<close>)
qed

definition mounts_ok :: "string \<Rightarrow> dict \<Rightarrow> bool" where
  "mounts_ok name svc \<longleftrightarrow>
     (let items = py_list (dget svc ''volumes'') in
        (\<forall>item\<in>set items. mount_item_ok item)
        \<and> mset (pairs_of ''bind'' items) = mset (table_get BIND_MOUNTS name)
        \<and> mset (pairs_of ''volume'' items) = mset (table_get NAMED_VOLUMES name))
     \<and> (\<forall>item\<in>set (str_items svc ''tmpfs''). \<not> py_in ''docker.sock'' item)
     \<and> (\<exists>entries. map_opt config_entry (py_list (dget svc ''configs'')) = Some entries
          \<and> set entries = (\<lambda>c. (c, CADDY_ROOT_TARGET)) ` set (table_get CONFIG_CONSUMERS name))"

lemma table_get_distinct: "(\<forall>(k, vs)\<in>set table. distinct (map fst vs)) \<Longrightarrow> distinct (map fst (table_get table name))"
  by (force simp: table_get_def dest: map_of_SomeD split: option.split)

lemma mount_tables_distinct:
  "distinct (map fst (table_get BIND_MOUNTS name))" "distinct (map fst (table_get NAMED_VOLUMES name))"
proof -
  have "\<forall>(k, vs)\<in>set BIND_MOUNTS. distinct (map fst vs)" "\<forall>(k, vs)\<in>set NAMED_VOLUMES. distinct (map fst vs)"
    by code_simp+
  then show "distinct (map fst (table_get BIND_MOUNTS name))" "distinct (map fst (table_get NAMED_VOLUMES name))"
    by (simp_all only: table_get_distinct)
qed

lemma entries_set_iff:
  "set (map fst es) = S \<and> (\<forall>(source, target)\<in>set es. target = t) \<longleftrightarrow> set es = (\<lambda>c. (c, t)) ` S"
  by force

lemma mount_body_iff: "mount_body name svc = Some [] \<longleftrightarrow> mounts_ok name svc"
proof -
  let ?b = "table_get BIND_MOUNTS name" and ?v = "table_get NAMED_VOLUMES name"
  let ?items = "py_list (dget svc ''volumes'')"
  have "mount_body name svc = Some [] \<longleftrightarrow>
      volume_items name ?items (?b, ?v) = (([], []), [])
      \<and> (\<forall>item\<in>set (str_items svc ''tmpfs''). \<not> py_in ''docker.sock'' item)
      \<and> (\<exists>es. map_opt config_entry (py_list (dget svc ''configs'')) = Some es
           \<and> set (map fst es) = set (table_get CONFIG_CONSUMERS name) \<and> (\<forall>(source, target)\<in>set es. target = CADDY_ROOT_TARGET))"
    by (cases "volume_items name ?items (?b, ?v)")
       (auto simp: mount_body_def Let_def bind_eq_Some_conv case_prod_unfold)
  then show ?thesis
    unfolding mounts_ok_def Let_def volume_items_iff [OF mount_tables_distinct] entries_set_iff by blast
qed

interpretation mounts: service_guard mount_body mounts_ok
  by unfold_locales (rule mount_body_iff)

definition attached :: "bool \<Rightarrow> env \<Rightarrow> string \<Rightarrow> dict \<Rightarrow> bool" where
  "attached interpolated values name svc \<longleftrightarrow>
     (\<exists>nets. service_networks svc = Some nets
        \<and> (\<forall>want. map_of EXPECTED_NETWORKS name = Some want \<longrightarrow> set (dkeys nets) = set want)
        \<and> (\<forall>(net, v)\<in>set nets. \<exists>conf. v = JObj conf
             \<and> (dget conf ''ipv4_address'', sort (str_items conf ''aliases'')) = fixed_address interpolated values name net
             \<and> \<not> truthy (dget conf ''ipv6_address'') \<and> set (dkeys conf) \<subseteq> {''aliases'', ''ipv4_address''}))"

lemma attachment_iff:
  "attachment_problems interpolated values name net v = Some [] \<longleftrightarrow>
     (\<exists>conf. v = JObj conf
        \<and> (dget conf ''ipv4_address'', sort (str_items conf ''aliases'')) = fixed_address interpolated values name net
        \<and> \<not> truthy (dget conf ''ipv6_address'') \<and> set (dkeys conf) \<subseteq> {''aliases'', ''ipv4_address''})"
  by (cases "fixed_address interpolated values name net")
     (auto simp: attachment_problems_def bind_eq_Some_conv Let_def)

lemma network_body_iff: "network_body interpolated values name svc = Some [] \<longleftrightarrow> attached interpolated values name svc"
proof -
  have "network_body interpolated values name svc = Some [] \<longleftrightarrow>
     (\<exists>nets. service_networks svc = Some nets
        \<and> (\<forall>want. map_of EXPECTED_NETWORKS name = Some want \<longrightarrow> set (dkeys nets) = set want)
        \<and> (\<forall>(net, v)\<in>set nets. attachment_problems interpolated values name net v = Some []))"
    by (auto simp: network_body_def bind_eq_Some_conv case_prod_unfold split: option.splits)
  then show ?thesis by (simp only: attached_def attachment_iff)
qed

interpretation networks: service_guard "network_body interpolated values" "attached interpolated values"
    for interpolated "values"
  by unfold_locales (rule network_body_iff)

definition published_ok :: "bool \<Rightarrow> env \<Rightarrow> string \<Rightarrow> dict \<Rightarrow> bool" where
  "published_ok interpolated values name svc \<longleftrightarrow>
     (\<exists>texts. map_opt port_text (py_list (dget svc ''ports'')) = Some texts \<and>
        mset texts = (if name = ''caddy''
                      then {#published_text interpolated values ''DECISYA_HTTPS_PORT'' HTTPS_PORT,
                             published_text interpolated values ''DECISYA_ADMIN_PORT'' ADMIN_PORT#}
                      else {#}))"

lemma sort_eq_iff_mset: "sort xs = sort ys \<longleftrightarrow> mset xs = mset (ys :: string list)"
  by (metis mset_sort properties_for_sort sorted_sort)

lemma map_opt_length: "map_opt f xs = Some ys \<Longrightarrow> length ys = length xs"
  by (metis list_all2_lengthD map_opt_Some)

lemma port_body_iff: "port_body interpolated values name svc = Some [] \<longleftrightarrow> published_ok interpolated values name svc"
proof (cases "name = ''caddy''")
  case True
  let ?ports = "py_list (dget svc ''ports'')"
  let ?want = "[published_text interpolated values ''DECISYA_HTTPS_PORT'' HTTPS_PORT, published_text interpolated values ''DECISYA_ADMIN_PORT'' ADMIN_PORT]"
  have two: "length ?ports = 2" if "map_opt port_text ?ports = Some texts" "mset texts = mset ?want" for texts
    using map_opt_length [OF that(1)] mset_eq_length [OF that(2)] by simp
  have "port_body interpolated values name svc = Some [] \<longleftrightarrow>
      length ?ports = 2 \<and> (\<exists>texts. map_opt port_text ?ports = Some texts \<and> sort texts = sort ?want)"
    using True by (auto simp: port_body_def Let_def bind_eq_Some_conv)
  also have "\<dots> \<longleftrightarrow> (\<exists>texts. map_opt port_text ?ports = Some texts \<and> mset texts = mset ?want)"
    unfolding sort_eq_iff_mset using two by blast
  finally show ?thesis using True by (simp add: published_ok_def)
next
  case False
  have "map_opt port_text xs = Some [] \<longleftrightarrow> xs = []" for xs
    by (cases xs) (auto simp: bind_eq_Some_conv)
  with False show ?thesis by (simp add: port_body_def Let_def published_ok_def)
qed

interpretation ports: service_guard "port_body interpolated values" "published_ok interpolated values"
    for interpolated "values"
  by unfold_locales (rule port_body_iff)

definition secrets_ok :: "string list \<Rightarrow> string \<Rightarrow> dict \<Rightarrow> bool" where
  "secrets_ok defined name svc \<longleftrightarrow>
     (\<exists>entries. secret_entries svc = Some entries
        \<and> set entries = (\<lambda>s. (s, s)) ` set (table_get SECRET_CONSUMERS name)
        \<and> set (table_get SECRET_CONSUMERS name) \<subseteq> set defined)"

lemma secret_body_iff: "secret_body defined name svc = Some [] \<longleftrightarrow> secrets_ok defined name svc"
proof -
  have "set (map fst es) = W \<and> (\<forall>(s, t)\<in>set es. s = t \<and> s \<in> D) \<longleftrightarrow> set es = (\<lambda>s. (s, s)) ` W \<and> W \<subseteq> D"
    for es :: "(string \<times> string) list" and W D
  proof
    assume a: "set (map fst es) = W \<and> (\<forall>(s, t)\<in>set es. s = t \<and> s \<in> D)"
    then have diag: "(fst p, fst p) = p \<and> fst p \<in> D" if "p \<in> set es" for p using that by (cases p) auto
    then have "(\<lambda>s. (s, s)) ` fst ` set es = (\<lambda>p. p) ` set es"
      unfolding image_image by (intro image_cong) simp_all
    with a diag show "set es = (\<lambda>s. (s, s)) ` W \<and> W \<subseteq> D" by auto
  next
    assume "set es = (\<lambda>s. (s, s)) ` W \<and> W \<subseteq> D"
    then show "set (map fst es) = W \<and> (\<forall>(s, t)\<in>set es. s = t \<and> s \<in> D)" by (auto simp: image_image)
  qed
  moreover have "secret_body defined name svc = Some [] \<longleftrightarrow>
     (\<exists>entries. secret_entries svc = Some entries \<and> set (map fst entries) = set (table_get SECRET_CONSUMERS name)
        \<and> (\<forall>(s, t)\<in>set entries. s = t \<and> s \<in> set defined))"
    by (simp add: secret_body_def bind_eq_Some_conv Let_def case_prod_unfold)
  ultimately show ?thesis by (simp only: secrets_ok_def)
qed

interpretation secrets: service_guard "secret_body defined" "secrets_ok defined" for defined
  by unfold_locales (rule secret_body_iff)

end
