(* ===== verification/Stack_Runtime.thy ===== *)
theory Stack_Runtime
  imports Stack_Access
begin

text \<open>
  The guards of \<^verbatim>\<open>deploy/compose/stackguards.py\<close> on what a service runs: its environment and
  health check, the Keycloak wrapper and its import folder, TLS switched off in postgres and redis, and
  the image references.
\<close>


section \<open>Environment\<close>

definition looks_secret :: "string \<Rightarrow> bool" where
  "looks_secret key \<longleftrightarrow> searches SECRET_NAME_RE key"

definition file_form :: "string \<Rightarrow> string \<Rightarrow> bool" where
  "file_form key value \<longleftrightarrow> py_endswith key ''_FILE'' \<and> py_startswith value ''/run/secrets/''"

definition has_password_pair :: "string \<Rightarrow> bool" where
  "has_password_pair value \<longleftrightarrow> searches (rlit_ci ''password='') value"

definition has_userinfo :: "string \<Rightarrow> bool" where
  "has_userinfo value \<longleftrightarrow> searches USERINFO_RE value"

definition env_entry_problems :: "string \<Rightarrow> string list \<Rightarrow> string \<Rightarrow> string \<Rightarrow> string list" where
  "env_entry_problems name targets key value =
     msg_if (key = ''POSTGRES_HOST_AUTH_METHOD'') (fmt ''service %s: POSTGRES_HOST_AUTH_METHOD is banned'' [name])
     @ msg_if (is_admin_mfa_setting key)
         (fmt ''service %s: %s must not be set in the stack (the default is on; only Development turns it off)'' [name, key])
     @ (case ratelimit_env_problem name key value of Some m \<Rightarrow> [m] | None \<Rightarrow> [])
     @ msg_if (key \<in> set WRAPPER_DERIVED_NAMES)
         (fmt ''service %s: environment %s must not be set (the Keycloak wrapper derives it)'' [name, key])
     @ (if looks_secret key then
          msg_if (\<not> file_form key value \<and> key \<notin> set NON_SECRET_NAMES)
            (fmt ''service %s: environment name %s looks like a secret'' [name, key])
          @ msg_if (file_form key value \<and> drop (length ''/run/secrets/'') value \<notin> set targets)
              (fmt ''service %s: %s points at a secret the service does not mount'' [name, key])
        else [])
     @ msg_if (has_password_pair value) (fmt ''service %s: environment %s holds a password= pair'' [name, key])
     @ msg_if (has_userinfo value) (fmt ''service %s: environment %s holds URL user info'' [name, key])
     @ msg_if (py_in ''development'' (lower value)) (fmt ''service %s: environment %s names Development'' [name, key])"

definition CREDENTIAL_ARG_RE :: rx where
  "CREDENTIAL_ARG_RE = ralt (map rlit_ci [''password'', ''secret'', ''token''])"

fun passes_password :: "string list \<Rightarrow> bool list" where
  "passes_password [] = []"
| "passes_password [item] = [False]"
| "passes_password (item # arg # rest) = (item \<in> {''-a'', ''--pass''} \<and> arg \<noteq> []) # passes_password (arg # rest)"

definition environment_body :: "string \<Rightarrow> dict \<Rightarrow> string list option" where
  "environment_body name svc =
     do { env \<leftarrow> environment svc;
          entries \<leftarrow> secret_entries svc;
          test \<leftarrow> healthcheck_test svc;
          let texts = map py_str test;
          Some (concat (map (\<lambda>(key, value). env_entry_problems name (map snd entries) key value) env)
                @ concat (map (\<lambda>item. msg_if (searches CREDENTIAL_ARG_RE item)
                    (fmt ''service %s: healthcheck carries a credential-like argument'' [name])) texts)
                @ concat (map (\<lambda>b. msg_if b (fmt ''service %s: healthcheck passes a non-empty password'' [name]))
                    (passes_password texts))) }"

definition production_problems :: "services \<Rightarrow> string \<times> string \<Rightarrow> string list option" where
  "production_problems services nk =
     (case nk of (name, key) \<Rightarrow>
        do { env \<leftarrow> environment (svc_of services name);
             Some (msg_if (map_of env key \<noteq> Some ''Production'') (fmt ''service %s: %s must be Production'' [name, key])) })"

text \<open>\<^verbatim>\<open>key.split("_")[1].lower()\<close>.\<close>

definition host_word :: "string \<Rightarrow> string" where
  "host_word key = (case split_on ''_'' key of _ # w # _ \<Rightarrow> lower w | _ \<Rightarrow> [])"

definition allowed_hosts_problems :: "services \<Rightarrow> bool \<Rightarrow> env \<Rightarrow> string \<times> string \<Rightarrow> string list option" where
  "allowed_hosts_problems services interpolated values nk =
     (case nk of (name, key) \<Rightarrow>
        do { env \<leftarrow> environment (svc_of services name);
             let allowed = map_of env ''AllowedHosts'';
             Some (msg_if (allowed = None \<or> allowed = Some ''*'' \<or> allowed \<noteq> Some (ref_of key interpolated values False))
                     (fmt ''service %s: AllowedHosts must be exactly the %s host'' [name, host_word key])) })"

definition caddy_env_problems :: "services \<Rightarrow> bool \<Rightarrow> env \<Rightarrow> string list option" where
  "caddy_env_problems services interpolated values =
     do { env \<leftarrow> environment (svc_of services ''caddy'');
          Some (msg_if (\<not> same_set (dkeys env) CADDY_ENV_KEYS)
                  ''caddy: environment keys must be exactly the three DECISYA_* host names (G-C2)''
                @ concat (map (\<lambda>key. msg_if (map_of env key \<noteq> Some (ref_of key interpolated values True))
                    (fmt ''caddy: %s must be a required reference (an empty value stops the start)'' [key])) CADDY_ENV_KEYS)) }"

definition environment_problems :: "services \<Rightarrow> bool \<Rightarrow> env \<Rightarrow> string list option" where
  "environment_problems services interpolated values =
     all_checks
       [for_services environment_body services,
        collect (production_problems services)
          [(''api'', ''ASPNETCORE_ENVIRONMENT''), (''bff'', ''ASPNETCORE_ENVIRONMENT''), (''migrator'', ''DOTNET_ENVIRONMENT'')],
        collect (allowed_hosts_problems services interpolated values)
          [(''api'', ''DECISYA_API_HOST''), (''bff'', ''DECISYA_APP_HOST'')],
        caddy_env_problems services interpolated values]"


section \<open>Keycloak\<close>

text \<open>\<^verbatim>\<open>posixpath.normpath\<close>. The components kept so far are in reverse order.\<close>

definition norm_step :: "bool \<Rightarrow> string list \<Rightarrow> string \<Rightarrow> string list" where
  "norm_step absolute acc part =
     (if part = [] \<or> part = ''.'' then acc
      else if part \<noteq> ''..'' \<or> (\<not> absolute \<and> acc = []) \<or> (acc \<noteq> [] \<and> hd acc = ''..'') then part # acc
      else if acc \<noteq> [] then tl acc else acc)"

definition initial_slashes :: "string \<Rightarrow> nat" where
  "initial_slashes path =
     (if \<not> py_startswith path ''/'' then 0
      else if py_startswith path ''//'' \<and> \<not> py_startswith path ''///'' then 2 else 1)"

definition normpath :: "string \<Rightarrow> string" where
  "normpath path =
     (if path = [] then ''.''
      else let n = initial_slashes path;
               comps = rev (foldl (norm_step (0 < n)) [] (split_on ''/'' path));
               text = replicate n CHR ''/'' @ join ''/'' comps
           in if text = [] then ''.'' else text)"

definition under_import_dir :: "string \<Rightarrow> bool" where
  "under_import_dir path \<longleftrightarrow>
     (let normal = (if path = [] then [] else normpath path)
      in normal = IMPORT_DIR \<or> py_startswith normal (IMPORT_DIR @ ''/''))"

text \<open>The volumes whose target is the import folder or lies below it.\<close>

definition at_import :: "dict \<Rightarrow> dict list" where
  "at_import kc =
     List.map_filter (\<lambda>item. case item of
         JObj d \<Rightarrow> if under_import_dir (str_get d ''target'' '''') then Some d else None
       | _ \<Rightarrow> None) (py_list (dget kc ''volumes''))"

definition import_item_problems :: "dict \<Rightarrow> string list" where
  "import_item_problems d =
     (if normpath (str_get d ''target'' '''') = IMPORT_DIR
        then [''keycloak: the realm import folder itself may not be mounted; mount the one production realm file'']
      else if dget d ''type'' \<noteq> JStr ''bind''
        then [fmt ''keycloak: the realm file must be a bind mount, not a %s'' [py_str (dget d ''type'')]]
      else [])"

definition is_realm_mount :: "dict \<Rightarrow> bool" where
  "is_realm_mount d \<longleftrightarrow>
     dget d ''type'' = JStr ''bind'' \<and> str_get d ''target'' '''' = REALM_TARGET
     \<and> str_get d ''source'' '''' = REALM_SOURCE \<and> dget d ''read_only'' = JBool True"

definition keycloak_problems :: "services \<Rightarrow> bool \<Rightarrow> env \<Rightarrow> string list option" where
  "keycloak_problems services interpolated values =
     (let kc = svc_of services ''keycloak'' in
      if kc = [] then Some []
      else
        do { env \<leftarrow> environment kc;
             let argv = str_items kc ''entrypoint'' @ str_items kc ''command'';
             let mounts = at_import kc;
             let admin_url = ''https://'' @ ref_of ''DECISYA_ID_HOST'' interpolated values False @ '':''
                             @ ref_of ''DECISYA_ADMIN_PORT'' interpolated values False;
             Some (
               msg_if (str_items kc ''entrypoint'' \<noteq> [''/bin/sh'', ''/opt/decisya/entrypoint-stack.sh''])
                 ''keycloak: the entrypoint must be the stack wrapper''
               @ msg_if (py_list (dget kc ''command'') \<noteq> [])
                   ''keycloak: no command arguments (the wrapper always runs `kc.sh start` and adds the realm import itself)''
               @ concat (map (\<lambda>bad. msg_if (bad \<in> set argv) (fmt ''keycloak: argument %s is not allowed'' [bad]))
                   KEYCLOAK_BANNED_ARGS)
               @ concat (map (\<lambda>item. msg_if (under_import_dir (split_head '':'' item))
                   ''keycloak: a tmpfs may not target the realm import folder'') (str_items kc ''tmpfs''))
               @ concat (map import_item_problems mounts)
               @ msg_if (length mounts \<noteq> 1 \<or> length (filter is_realm_mount mounts) \<noteq> 1)
                   ''keycloak: exactly one mount may target the realm import folder, and it must be the production realm file, read-only''
               @ concat (map (\<lambda>key. msg_if (map_of env key \<noteq> Some (ref_of key interpolated values True))
                   (fmt ''keycloak: %s must be a required reference (an empty value stops the start)'' [key])) KEYCLOAK_ENV_KEYS)
               @ msg_if (map_of env ''KC_HOSTNAME_ADMIN'' \<noteq> Some admin_url)
                   ''keycloak: KC_HOSTNAME_ADMIN must be the id host on the admin port (8444), https://<id host>:<DECISYA_ADMIN_PORT>'') })"


section \<open>TLS stays off in postgres and redis\<close>

definition ssl_lead :: "char \<Rightarrow> bool" where
  "ssl_lead c \<longleftrightarrow> is_space c \<or> c \<in> {CHR ''-'', CHR '','', CHR '';'', CHR 0x27, CHR 0x22}"

definition is_quote_char :: "char \<Rightarrow> bool" where
  "is_quote_char c \<longleftrightarrow> c \<in> {CHR 0x27, CHR 0x22}"

definition POSTGRES_SSL_ON_RE :: rx where
  "POSTGRES_SSL_ON_RE =
     rseq [RAlt RBol (RSet ssl_lead), rlit_ci ''ssl'', RStar rspace, rchr CHR ''='', RStar rspace,
           ropt (RSet is_quote_char), ralt (map rlit_ci [''on'', ''true'', ''yes'', ''1'']), RWordB]"

definition tls_lead :: "char \<Rightarrow> bool" where
  "tls_lead c \<longleftrightarrow> is_space c \<or> c \<in> {CHR '';'', CHR 0x27, CHR 0x22}"

definition tls_char :: "char \<Rightarrow> bool" where
  "tls_char c \<longleftrightarrow> is_alpha_ascii c \<or> c = CHR ''-''"

definition REDIS_TLS_RE :: rx where
  "REDIS_TLS_RE = rseq [RAlt RBol (RSet tls_lead), ropt (rlit ''--''), rlit_ci ''tls-'', rplus (RSet tls_char)]"

definition REDIS_DIRECTIVE_RE :: rx where
  "REDIS_DIRECTIVE_RE = RSeq (rlit_ci ''tls-'') (rplus (RSet tls_char))"

definition launch_strings :: "dict \<Rightarrow> string list option" where
  "launch_strings service =
     map_option (\<lambda>env. str_items service ''command'' @ str_items service ''entrypoint'' @ dvals env) (environment service)"

definition tls_problems :: "services \<Rightarrow> string list option" where
  "tls_problems services =
     do { pg \<leftarrow> launch_strings (svc_of services ''postgres'');
          rd \<leftarrow> launch_strings (svc_of services ''redis'');
          Some (msg_if (list_ex (\<lambda>t. searches POSTGRES_SSL_ON_RE t) pg)
                  ''service postgres: ssl=on is not allowed (the OpenSSL exceptions assume TLS is off, S-120-12)''
                @ msg_if (list_ex (\<lambda>t. searches REDIS_TLS_RE t) rd)
                    ''service redis: a tls- option is not allowed (the OpenSSL exceptions assume TLS is off, S-120-12)'') }"

definition redis_conf_problems :: "string \<Rightarrow> string list" where
  "redis_conf_problems text =
     msg_if (list_ex (\<lambda>line. let code = strip line
                             in code \<noteq> [] \<and> \<not> py_startswith code ''#'' \<and> matches REDIS_DIRECTIVE_RE code) (splitlines text))
       ''redis.conf: a tls- directive is not allowed (the OpenSSL exceptions assume TLS is off, S-120-12)''"


section \<open>Images\<close>

definition DIGEST_TAIL_RE :: rx where
  "DIGEST_TAIL_RE = rseq [rlit ''@sha256:'', rrep 64 (RSet is_hex_lower), REol]"

definition expected_release :: "env option \<Rightarrow> env \<Rightarrow> string \<Rightarrow> string \<Rightarrow> string" where
  "expected_release release_refs values name key =
     (case release_refs of
        Some refs \<Rightarrow> (case map_of refs name of Some r \<Rightarrow> (if r = [] then val_of values key else r) | None \<Rightarrow> val_of values key)
      | None \<Rightarrow> val_of values key)"

definition image_body :: "bool \<Rightarrow> env \<Rightarrow> env option \<Rightarrow> env option \<Rightarrow> string \<Rightarrow> dict \<Rightarrow> string list option" where
  "image_body interpolated values scan_refs release_refs name svc =
     (let image = str_get svc ''image'' '''' in
      case map_of RELEASE_SERVICES name of
        Some key \<Rightarrow>
          Some (if interpolated then
                  msg_if (\<not> fullmatches IMAGE_RE image \<or> image \<noteq> expected_release release_refs values name key)
                    (fmt ''service %s: image must be the validated release reference'' [name])
                else msg_if (image \<noteq> ''${'' @ key @ ''}'')
                       (fmt ''service %s: image must be the ${%s} placeholder'' [name, key]))
      | None \<Rightarrow>
          (case map_of THIRD_PARTY_ALIAS name of
             Some alias \<Rightarrow>
               Some (case scan_refs of
                       None \<Rightarrow> msg_if (\<not> searches DIGEST_TAIL_RE image) (fmt ''service %s: image is not pinned by digest'' [name])
                     | Some refs \<Rightarrow>
                         msg_if (map_of refs alias \<noteq> Some image)
                           (fmt ''service %s: image differs from the ContainerImages.cs reference of scan alias %s'' [name, alias]))
           | None \<Rightarrow> Some []))"

definition image_problems :: "services \<Rightarrow> bool \<Rightarrow> env \<Rightarrow> env option \<Rightarrow> env option \<Rightarrow> string list option" where
  "image_problems services interpolated values scan_refs release_refs =
     for_services (image_body interpolated values scan_refs release_refs) services"


section \<open>What the guards accept\<close>

lemma looks_secret_words [code]:
  "looks_secret key \<longleftrightarrow> list_ex (\<lambda>w. py_in (lower w) (lower key))
     [''PASSWORD'', ''SECRET'', ''KEY'', ''TOKEN'', ''CONNECTIONSTRING'', ''HEADERS'', ''CREDENTIAL'', ''ASPIRE_DASHBOARD'']"
  unfolding looks_secret_def SECRET_NAME_RE_def by (rule searches_words)

lemma has_password_pair_word [code]: "has_password_pair value \<longleftrightarrow> py_in ''password='' (lower value)"
proof -
  have "lower ''password='' = ''password=''" by code_simp
  then show ?thesis using searches_words [of "[''password='']"] by (simp add: has_password_pair_def)
qed

definition env_entry_clean :: "string \<Rightarrow> string list \<Rightarrow> string \<Rightarrow> string \<Rightarrow> bool" where
  "env_entry_clean name targets key value \<longleftrightarrow>
     key \<noteq> ''POSTGRES_HOST_AUTH_METHOD'' \<and> \<not> is_admin_mfa_setting key \<and> key \<notin> set WRAPPER_DERIVED_NAMES
     \<and> ratelimit_env_problem name key value = None
     \<and> (looks_secret key \<longrightarrow> key \<in> set NON_SECRET_NAMES \<and> \<not> file_form key value
          \<or> (\<exists>t\<in>set targets. value = ''/run/secrets/'' @ t \<and> py_endswith key ''_FILE''))
     \<and> \<not> has_password_pair value \<and> \<not> has_userinfo value \<and> \<not> py_in ''development'' (lower value)"

lemma env_entry_iff: "env_entry_problems name targets key value = [] \<longleftrightarrow> env_entry_clean name targets key value"
proof -
  have "file_form key value \<and> drop (length ''/run/secrets/'') value \<in> set targets \<longleftrightarrow>
     (\<exists>t\<in>set targets. value = ''/run/secrets/'' @ t \<and> py_endswith key ''_FILE'')"
    by (force simp: file_form_def prefix_def)
  then show ?thesis
    unfolding env_entry_problems_def env_entry_clean_def append_is_Nil_conv msg_if_Nil
    by (auto split: option.split)
qed

definition env_clean :: "string \<Rightarrow> dict \<Rightarrow> bool" where
  "env_clean name svc \<longleftrightarrow>
     (\<exists>env entries test. environment svc = Some env \<and> secret_entries svc = Some entries \<and> healthcheck_test svc = Some test
        \<and> (\<forall>(key, value)\<in>set env. env_entry_clean name (map snd entries) key value)
        \<and> (\<forall>item\<in>set test. \<not> searches CREDENTIAL_ARG_RE (py_str item))
        \<and> True \<notin> set (passes_password (map py_str test)))"

lemma environment_body_iff: "environment_body name svc = Some [] \<longleftrightarrow> env_clean name svc"
proof -
  have bools: "(\<forall>b\<in>set bs. \<not> b) \<longleftrightarrow> True \<notin> set bs" for bs by auto
  have "environment_body name svc = Some [] \<longleftrightarrow>
    (\<exists>env entries test. environment svc = Some env \<and> secret_entries svc = Some entries \<and> healthcheck_test svc = Some test
        \<and> (\<forall>(key, value)\<in>set env. env_entry_problems name (map snd entries) key value = [])
        \<and> (\<forall>item\<in>set test. \<not> searches CREDENTIAL_ARG_RE (py_str item))
        \<and> (\<forall>b\<in>set (passes_password (map py_str test)). \<not> b))"
    unfolding environment_body_def bind_eq_Some_conv Let_def
    by (simp add: case_prod_unfold)
  then show ?thesis by (simp only: env_clean_def env_entry_iff bools)
qed

interpretation envs: service_guard environment_body env_clean
  by unfold_locales (rule environment_body_iff)


section \<open>Paths below the import folder\<close>

text \<open>The components of a normalised path.\<close>

definition norm_parts :: "string \<Rightarrow> string list" where
  "norm_parts path = rev (foldl (norm_step (0 < initial_slashes path)) [] (split_on ''/'' path))"

definition IMPORT_PARTS :: "string list" where
  "IMPORT_PARTS = [''opt'', ''keycloak'', ''data'', ''import'']"

definition slash_free :: "string \<Rightarrow> bool" where
  "slash_free s \<longleftrightarrow> CHR ''/'' \<notin> set s"

lemma split_on_slash_free: "list_all slash_free (split_on ''/'' s)"
proof (induction s rule: measure_induct_rule [of length])
  case (less s)
  show ?case
  proof (cases "CHR ''/'' \<in> set s")
    case True
    then obtain a b where ab: "s = a @ CHR ''/'' # b" "CHR ''/'' \<notin> set a" by (auto dest: split_list_first)
    with less.IH [of b] show ?thesis by (simp add: split_on_char slash_free_def)
  qed (simp add: split_on_not_in slash_free_def)
qed

lemma norm_step_parts:
  "list_all (\<lambda>s. s \<noteq> [] \<and> slash_free s) acc \<Longrightarrow> slash_free s \<Longrightarrow> list_all (\<lambda>s. s \<noteq> [] \<and> slash_free s) (norm_step a acc s)"
  by (cases acc) (auto simp: norm_step_def)

lemma norm_parts_ok: "list_all (\<lambda>s. s \<noteq> [] \<and> slash_free s) (norm_parts path)"
proof -
  have "list_all slash_free parts \<Longrightarrow> list_all (\<lambda>s. s \<noteq> [] \<and> slash_free s) acc \<Longrightarrow>
     list_all (\<lambda>s. s \<noteq> [] \<and> slash_free s) (foldl (norm_step a) acc parts)" for a parts acc
    by (induction parts arbitrary: acc) (auto simp: norm_step_parts)
  from this [OF split_on_slash_free] show ?thesis by (simp add: norm_parts_def list_all_rev)
qed

lemma slash_cut:
  "slash_free a \<Longrightarrow> slash_free c \<Longrightarrow> a @ CHR ''/'' # b = c @ CHR ''/'' # d \<longleftrightarrow> a = c \<and> b = d"
  unfolding slash_free_def by (metis cut_at_char option.inject prod.inject)

lemma join_Cons2: "ps \<noteq> [] \<Longrightarrow> join sep (p # ps) = p @ sep @ join sep ps"
  by (cases ps) auto

lemma no_slash_in_single: "slash_free p \<Longrightarrow> p \<noteq> c @ CHR ''/'' # d"
  by (auto simp: slash_free_def)

lemma join_prefix_iff:
  assumes "cs \<noteq> []" "ps \<noteq> []" "list_all slash_free cs" "list_all slash_free ps"
  shows "join ''/'' ps = join ''/'' cs \<or> prefix (join ''/'' cs @ ''/'') (join ''/'' ps) \<longleftrightarrow> prefix cs ps"
  using assms
proof (induction cs arbitrary: ps)
  case (Cons c cs)
  obtain p qs where ps: "ps = p # qs" using Cons.prems by (cases ps) auto
  from Cons.prems ps have sf: "slash_free c" "slash_free p" "list_all slash_free cs" "list_all slash_free qs" by auto
  show ?case
  proof (cases "cs = []")
    case True
    show ?thesis
    proof (cases "qs = []")
      case True
      with \<open>cs = []\<close> ps sf no_slash_in_single [of p] show ?thesis by (auto simp: prefix_def)
    next
      case False
      with \<open>cs = []\<close> ps sf no_slash_in_single [of c] slash_cut [of p c] show ?thesis
        by (auto simp: join_Cons2 prefix_def)
    qed
  next
    case False
    show ?thesis
    proof (cases "qs = []")
      case True
      with False ps sf no_slash_in_single [of p] show ?thesis by (auto simp: join_Cons2 prefix_def)
    next
      case qs: False
      have "join ''/'' ps = join ''/'' (c # cs) \<or> prefix (join ''/'' (c # cs) @ ''/'') (join ''/'' ps) \<longleftrightarrow>
          p = c \<and> (join ''/'' qs = join ''/'' cs \<or> prefix (join ''/'' cs @ ''/'') (join ''/'' qs))"
        using False qs ps slash_cut [OF sf(2,1)] by (auto simp: join_Cons2 prefix_def)
      with Cons.IH [OF False qs sf(3,4)] ps show ?thesis by auto
    qed
  qed
qed simp

lemma under_import_dir_iff:
  "under_import_dir path \<longleftrightarrow> initial_slashes path = 1 \<and> prefix IMPORT_PARTS (norm_parts path)"
proof (cases "path = []")
  case True
  then show ?thesis by (simp add: under_import_dir_def initial_slashes_def IMPORT_DIR_def)
next
  case False
  let ?n = "initial_slashes path" and ?ps = "norm_parts path"
  have n: "?n \<in> {0, 1, 2}" by (simp add: initial_slashes_def)
  have dir: "IMPORT_DIR = CHR ''/'' # join ''/'' IMPORT_PARTS" by (simp add: IMPORT_DIR_def IMPORT_PARTS_def)
  have sf: "list_all slash_free IMPORT_PARTS" "list_all slash_free ?ps"
    using norm_parts_ok [of path] by (simp_all add: IMPORT_PARTS_def slash_free_def list_all_iff)
  have norm: "normpath path = (let text = replicate ?n CHR ''/'' @ join ''/'' ?ps in if text = [] then ''.'' else text)"
    using False by (simp add: normpath_def norm_parts_def Let_def)
  have hd_ps: "?ps = [] \<or> (\<exists>x xs. join ''/'' ?ps = x # xs \<and> x \<noteq> CHR ''/'')"
    using norm_parts_ok [of path]
  proof (cases ?ps)
    case (Cons p ps)
    with norm_parts_ok [of path] obtain x xs where "p = x # xs" "x \<noteq> CHR ''/''"
      by (cases p) (auto simp: slash_free_def)
    with Cons show ?thesis by (cases ps) auto
  qed simp
  show ?thesis
  proof (cases "?ps = []")
    case True
    with norm n False show ?thesis
      by (auto simp: under_import_dir_def Let_def dir IMPORT_PARTS_def eval_nat_numeral)
  next
    case ps: False
    then obtain x xs where x: "join ''/'' ?ps = x # xs" "x \<noteq> CHR ''/''" using hd_ps by blast
    have "IMPORT_PARTS \<noteq> []" by (simp add: IMPORT_PARTS_def)
    from join_prefix_iff [OF this ps sf] norm n x False show ?thesis
      by (auto simp: under_import_dir_def Let_def dir eval_nat_numeral IMPORT_PARTS_def)
  qed
qed


section \<open>The wrapper, the images\<close>

definition keycloak_ok :: "bool \<Rightarrow> env \<Rightarrow> dict \<Rightarrow> bool" where
  "keycloak_ok interpolated values kc \<longleftrightarrow>
     (\<exists>env. environment kc = Some env
        \<and> str_items kc ''entrypoint'' = [''/bin/sh'', ''/opt/decisya/entrypoint-stack.sh'']
        \<and> py_list (dget kc ''command'') = []
        \<and> (\<forall>item\<in>set (str_items kc ''tmpfs''). \<not> under_import_dir (split_head '':'' item))
        \<and> (\<exists>d. at_import kc = [d] \<and> is_realm_mount d)
        \<and> (\<forall>key\<in>set KEYCLOAK_ENV_KEYS. map_of env key = Some (ref_of key interpolated values True))
        \<and> map_of env ''KC_HOSTNAME_ADMIN'' =
            Some (''https://'' @ ref_of ''DECISYA_ID_HOST'' interpolated values False @ '':''
                  @ ref_of ''DECISYA_ADMIN_PORT'' interpolated values False))"

lemma normpath_REALM_TARGET: "normpath REALM_TARGET = REALM_TARGET"
  by code_simp

lemma realm_mount_item: "is_realm_mount d \<Longrightarrow> import_item_problems d = []"
  by (simp add: is_realm_mount_def import_item_problems_def normpath_REALM_TARGET)
     (simp add: REALM_TARGET_def IMPORT_DIR_def)

lemma one_filtered: "length xs = 1 \<and> length (filter P xs) = 1 \<longleftrightarrow> (\<exists>x. xs = [x] \<and> P x)"
  by (cases xs) auto

lemma wrapper_args_allowed:
  "bad \<in> set KEYCLOAK_BANNED_ARGS \<Longrightarrow> bad \<notin> {''/bin/sh'', ''/opt/decisya/entrypoint-stack.sh''}"
  by (auto simp: KEYCLOAK_BANNED_ARGS_def)

lemma keycloak_problems_iff:
  "keycloak_problems services interpolated values = Some [] \<longleftrightarrow>
     svc_of services ''keycloak'' = [] \<or> keycloak_ok interpolated values (svc_of services ''keycloak'')"
proof (cases "svc_of services ''keycloak'' = []")
  case True
  then show ?thesis by (simp add: keycloak_problems_def)
next
  case False
  let ?kc = "svc_of services ''keycloak''"
  have args: "(\<forall>bad\<in>set KEYCLOAK_BANNED_ARGS. bad \<notin> set (str_items ?kc ''entrypoint'' @ str_items ?kc ''command''))"
    if "str_items ?kc ''entrypoint'' = [''/bin/sh'', ''/opt/decisya/entrypoint-stack.sh'']" "py_list (dget ?kc ''command'') = []"
    using that wrapper_args_allowed by (auto simp: str_items_def)
  have imp: "(\<forall>m\<in>set (at_import ?kc). import_item_problems m = []) \<and> length (at_import ?kc) = 1
       \<and> length (filter is_realm_mount (at_import ?kc)) = 1 \<longleftrightarrow> (\<exists>d. at_import ?kc = [d] \<and> is_realm_mount d)"
    using one_filtered [of "at_import ?kc" is_realm_mount] realm_mount_item by force
  have "keycloak_problems services interpolated values = Some [] \<longleftrightarrow>
     (\<exists>env. environment ?kc = Some env
        \<and> str_items ?kc ''entrypoint'' = [''/bin/sh'', ''/opt/decisya/entrypoint-stack.sh'']
        \<and> py_list (dget ?kc ''command'') = []
        \<and> (\<forall>bad\<in>set KEYCLOAK_BANNED_ARGS. bad \<notin> set (str_items ?kc ''entrypoint'' @ str_items ?kc ''command''))
        \<and> (\<forall>item\<in>set (str_items ?kc ''tmpfs''). \<not> under_import_dir (split_head '':'' item))
        \<and> ((\<forall>m\<in>set (at_import ?kc). import_item_problems m = []) \<and> length (at_import ?kc) = 1
           \<and> length (filter is_realm_mount (at_import ?kc)) = 1)
        \<and> (\<forall>key\<in>set KEYCLOAK_ENV_KEYS. map_of env key = Some (ref_of key interpolated values True))
        \<and> map_of env ''KC_HOSTNAME_ADMIN'' =
            Some (''https://'' @ ref_of ''DECISYA_ID_HOST'' interpolated values False @ '':''
                  @ ref_of ''DECISYA_ADMIN_PORT'' interpolated values False))"
    using False by (auto simp: keycloak_problems_def Let_def bind_eq_Some_conv)
  with False args show ?thesis unfolding imp keycloak_ok_def by blast
qed

definition image_ok :: "bool \<Rightarrow> env \<Rightarrow> env option \<Rightarrow> env option \<Rightarrow> string \<Rightarrow> dict \<Rightarrow> bool" where
  "image_ok interpolated values scan_refs release_refs name svc \<longleftrightarrow>
     (let image = str_get svc ''image'' '''' in
      case map_of RELEASE_SERVICES name of
        Some key \<Rightarrow>
          (if interpolated then image = expected_release release_refs values name key
             \<and> (\<exists>service\<in>{''api'', ''bff'', ''migrator''}. is_image_ref service image)
           else image = ''${'' @ key @ ''}'')
      | None \<Rightarrow>
          (case map_of THIRD_PARTY_ALIAS name of
             Some alias \<Rightarrow> (case scan_refs of None \<Rightarrow> searches DIGEST_TAIL_RE image | Some refs \<Rightarrow> map_of refs alias = Some image)
           | None \<Rightarrow> True))"

lemma image_body_iff:
  "image_body interpolated values scan_refs release_refs name svc = Some [] \<longleftrightarrow>
     image_ok interpolated values scan_refs release_refs name svc"
  by (auto simp: image_body_def image_ok_def Let_def rlang_IMAGE_RE split: option.split)

interpretation images: service_guard "image_body interpolated values scan_refs release_refs"
    "image_ok interpolated values scan_refs release_refs"
    for interpolated "values" scan_refs release_refs
  by unfold_locales (rule image_body_iff)

lemma parse_images_refs:
  assumes "map_of (parse_images_txt text) service = Some r"
  shows "is_image_ref service r"
proof -
  have "(\<forall>s r. map_of refs s = Some r \<longrightarrow> is_image_ref s r) \<Longrightarrow>
     (\<forall>s r. map_of (foldl (\<lambda>refs line. case re_fullmatch IMAGE_RE (strip line) of
                           Some c \<Rightarrow> dset refs (group_text c 1) (strip line)
                         | None \<Rightarrow> refs) refs ls) s = Some r \<longrightarrow> is_image_ref s r)" for refs ls
  proof (induction ls arbitrary: refs)
    case (Cons l ls)
    show ?case unfolding foldl_Cons
      by (rule Cons.IH) (use Cons.prems IMAGE_RE_caps in \<open>auto split: option.splits\<close>)
  qed simp
  from this [of "[]" "splitlines text"] assms show ?thesis by (simp add: parse_images_txt_def)
qed

end
