(* ===== verification/Stack_Config.thy ===== *)
theory Stack_Config
  imports Stack_Runtime
begin

text \<open>
  The merged Compose configuration (\<^verbatim>\<open>config_problems\<close> of \<^verbatim>\<open>deploy/compose/stackguards.py\<close>): the
  guards of the other theories put together, the guards of the generated file alone and of the text of a
  Compose file, and what an accepted configuration guarantees about the running stack.
\<close>

text \<open>The services object. A configuration whose services are not all objects makes the first guard
  that reads one raise.\<close>

definition decode_services :: "json \<Rightarrow> services option" where
  "decode_services v =
     do { d \<leftarrow> or_dict v;
          map_opt (\<lambda>(name, x). map_option (\<lambda>svc. (name, svc)) (as_dict x)) d }"

definition config_problems :: "dict \<Rightarrow> bool \<Rightarrow> env \<Rightarrow> env option \<Rightarrow> env option \<Rightarrow> string list option" where
  "config_problems cfg interpolated values scan_refs release_refs =
     do { services \<leftarrow> decode_services (dget cfg ''services'');
          all_checks
            [top_level_problems cfg,
             service_set_problems services,
             isolation_problems services,
             mount_problems cfg services,
             limit_problems services,
             network_problems cfg services interpolated values,
             port_problems services interpolated values,
             secret_problems cfg services,
             environment_problems services interpolated values,
             generator_flag_problems services,
             keycloak_problems services interpolated values,
             tls_problems services,
             image_problems services interpolated values scan_refs release_refs] }"


section \<open>The generated file and the text of a Compose file\<close>

text \<open>\<^verbatim>\<open>set(x or {})\<close>: the keys of an object, the elements of a list (lists and objects are not
  hashable), the characters of a string.\<close>

definition py_set :: "json \<Rightarrow> json list option" where
  "py_set x =
     (if \<not> truthy x then Some []
      else case x of
        JObj d \<Rightarrow> Some (map JStr (dkeys d))
      | JList xs \<Rightarrow> (if list_all (\<lambda>v. \<not> is_obj v \<and> \<not> is_list v) xs then Some xs else None)
      | JStr s \<Rightarrow> Some (map (\<lambda>c. JStr [c]) s)
      | _ \<Rightarrow> None)"

definition generated_body :: "string \<Rightarrow> dict \<Rightarrow> string list option" where
  "generated_body name svc =
     do { nets \<leftarrow> service_networks svc;
          env \<leftarrow> environment svc;
          Some (map (\<lambda>key. fmt ''generated file: service %s carries overlay key %s'' [name, key])
                  (sorted_set (keys_minus (dkeys svc) GENERATED_ALLOWED_SERVICE_KEYS))
                @ msg_if (keys_minus (dkeys nets) [''aspire''] \<noteq> [])
                    (fmt ''generated file: service %s names a network other than aspire'' [name])
                @ concat (map (\<lambda>(key, value).
                    msg_if (looks_secret key \<and> \<not> file_form key value \<and> key \<notin> set NON_SECRET_NAMES)
                      (fmt ''generated file: service %s environment name %s looks like a secret'' [name, key])
                    @ msg_if (has_password_pair value \<or> has_userinfo value)
                        (fmt ''generated file: service %s environment %s holds a credential'' [name, key])) env)) }"

definition generated_problems :: "dict \<Rightarrow> string list option" where
  "generated_problems cfg =
     do { nets \<leftarrow> py_set (dget cfg ''networks'');
          services \<leftarrow> decode_services (dget cfg ''services'');
          ms \<leftarrow> for_services generated_body services;
          Some (map (\<lambda>key. fmt ''generated file: top-level key %s belongs to the overlay'' [key])
                  (sorted_set (filter (\<lambda>k. \<not> extension_key k) (keys_minus (dkeys cfg) [''name'', ''services'', ''networks''])))
                @ msg_if (list_ex (\<lambda>n. n \<noteq> JStr ''aspire'') nets)
                    ''generated file: only the default aspire network is allowed''
                @ ms) }"

definition BANNED_KEY_RE :: rx where
  "BANNED_KEY_RE = rseq [ralt (map rlit (sort BANNED_KEYS)), RStar rspace, rchr CHR '':'']"

definition yaml_line_problems :: "string \<Rightarrow> nat \<Rightarrow> string \<Rightarrow> string list" where
  "yaml_line_problems name number line =
     (let stripped = strip line in
      if py_startswith stripped ''#'' then []
      else msg_if (matches BANNED_KEY_RE stripped) (fmt ''%s line %d: banned key'' [name, show_nat number])
           @ msg_if (py_in ''docker.sock'' line) (fmt ''%s line %d: names the Docker socket'' [name, show_nat number]))"

definition yaml_text_problems :: "string \<Rightarrow> string \<Rightarrow> string list" where
  "yaml_text_problems name text =
     concat (map (\<lambda>(number, line). yaml_line_problems name number line) (enumerate 1 (splitlines text)))"


section \<open>What an accepted configuration guarantees\<close>

text \<open>\<open>accepted\<close>: the guards ran to the end and reported nothing.\<close>

definition accepted :: "dict \<Rightarrow> bool \<Rightarrow> env \<Rightarrow> env option \<Rightarrow> env option \<Rightarrow> services \<Rightarrow> bool" where
  "accepted cfg interpolated values scan_refs release_refs services \<longleftrightarrow>
     decode_services (dget cfg ''services'') = Some services
     \<and> config_problems cfg interpolated values scan_refs release_refs = Some []"

lemma accepted_parts:
  assumes "accepted cfg interpolated values scan_refs release_refs services"
  shows "top_level_problems cfg = Some []" "service_set_problems services = Some []"
    "isolation_problems services = Some []" "mount_problems cfg services = Some []" "limit_problems services = Some []"
    "network_problems cfg services interpolated values = Some []" "port_problems services interpolated values = Some []"
    "secret_problems cfg services = Some []" "environment_problems services interpolated values = Some []"
    "generator_flag_problems services = Some []" "keycloak_problems services interpolated values = Some []"
    "tls_problems services = Some []" "image_problems services interpolated values scan_refs release_refs = Some []"
  using assms by (auto simp: accepted_def config_problems_def)

lemma service_set_iff:
  "service_set_problems services = Some [] \<longleftrightarrow>
     set (dkeys services) = set EXPECTED_SERVICES \<and> (\<forall>(name, svc)\<in>set services. keys_ok name svc)"
  by (auto simp: service_set_problems_def keys.loop_iff)

lemma accepted_names: 
  "accepted cfg interpolated values scan_refs release_refs services \<Longrightarrow> set (dkeys services) = set EXPECTED_SERVICES"
  using accepted_parts(2) by (simp add: service_set_iff)

lemma accepted_lookup:
  assumes "accepted cfg interpolated values scan_refs release_refs services" and "name \<in> set EXPECTED_SERVICES"
  obtains svc where "map_of services name = Some svc"
proof -
  from accepted_names [OF assms(1)] assms(2) have "dhas services name" by (simp add: dhas_iff)
  with that show ?thesis by (auto simp: dhas_def)
qed

text \<open>Isolation of every service.\<close>

theorem accepted_isolation:
  assumes "accepted cfg interpolated values scan_refs release_refs services"
  shows "set (dkeys services) = set EXPECTED_SERVICES"
    and "(name, svc) \<in> set services \<Longrightarrow> keys_ok name svc \<and> isolated name svc \<and> flag_free name svc"
  using accepted_parts(2,3,10) [OF assms]
  by (auto simp: service_set_iff isolation_problems_def isolation.loop_iff generator_flag_problems_def flag.loop_iff)

text \<open>Networks.\<close>

definition joins :: "services \<Rightarrow> string \<Rightarrow> string \<Rightarrow> bool" where
  "joins services name net \<longleftrightarrow>
     (\<exists>svc nets. map_of services name = Some svc \<and> service_networks svc = Some nets \<and> net \<in> set (dkeys nets))"

lemma expected_networks_lookup: "name \<in> set EXPECTED_SERVICES \<Longrightarrow> map_of EXPECTED_NETWORKS name = Some (table_get EXPECTED_NETWORKS name)"
  by (auto simp: stack_tables table_get_def)

lemma accepted_joins:
  assumes "accepted cfg interpolated values scan_refs release_refs services"
  shows "joins services name net \<longleftrightarrow> net \<in> set (table_get EXPECTED_NETWORKS name)"
proof (cases "name \<in> set EXPECTED_SERVICES")
  case True
  obtain svc where svc: "map_of services name = Some svc" by (rule accepted_lookup [OF assms True])
  from accepted_parts(6) [OF assms] have "for_services (network_body interpolated values) services = Some []"
    by (simp add: network_problems_def)
  from networks.loop_service [OF this svc] obtain nets where "service_networks svc = Some nets"
      "set (dkeys nets) = set (table_get EXPECTED_NETWORKS name)"
    using expected_networks_lookup [OF True] by (auto simp: attached_def)
  with svc show ?thesis by (simp add: joins_def)
next
  case False
  then have "name \<notin> set (dkeys services)" using accepted_names [OF assms] by simp
  then have "map_of services name = None" by (simp add: dkeys_def map_of_eq_None_iff)
  moreover have "table_get EXPECTED_NETWORKS name = []"
    using False by (auto simp: table_get_def stack_tables)
  ultimately show ?thesis by (simp add: joins_def)
qed

definition share_network :: "services \<Rightarrow> string \<Rightarrow> string \<Rightarrow> bool" where
  "share_network services a b \<longleftrightarrow> (\<exists>net. joins services a net \<and> joins services b net)"

lemma table_share:
  "(\<exists>net. net \<in> set (table_get EXPECTED_NETWORKS ''postgres'') \<and> net \<in> set (table_get EXPECTED_NETWORKS b)) \<Longrightarrow>
     b \<in> {''postgres'', ''keycloak'', ''migrator'', ''api''}"
  "(\<exists>net. net \<in> set (table_get EXPECTED_NETWORKS ''redis'') \<and> net \<in> set (table_get EXPECTED_NETWORKS b)) \<Longrightarrow> b \<in> {''redis'', ''bff''}"
  "(\<exists>net. net \<in> set (table_get EXPECTED_NETWORKS ''keycloak'') \<and> net \<in> set (table_get EXPECTED_NETWORKS b)) \<Longrightarrow>
     b \<in> {''keycloak'', ''postgres'', ''caddy''}"
  "''edge'' \<in> set (table_get EXPECTED_NETWORKS b) \<Longrightarrow> b = ''caddy''"
  by (auto simp: table_get_def EXPECTED_NETWORKS_def split: if_splits)

lemma top_networks_internal:
  assumes "accepted cfg interpolated values scan_refs release_refs services"
  obtains top where "dget cfg ''networks'' = JObj top" "set (dkeys top) = set TOP_LEVEL_NETWORKS"
    "\<forall>(name, v)\<in>set top. \<exists>net. or_dict v = Some net \<and> \<not> truthy (dget net ''external'')
       \<and> (truthy (dget net ''internal'') \<longleftrightarrow> name \<noteq> ''edge'')"
proof -
  from accepted_parts(6) [OF assms] obtain top where top: "or_dict (dget cfg ''networks'') = Some top"
      "set (dkeys top) = set TOP_LEVEL_NETWORKS" "\<forall>(name, v)\<in>set top. top_network_problems name v = Some []"
    by (auto simp: network_problems_def bind_eq_Some_conv)
  have "top \<noteq> []"
  proof
    assume "top = []"
    with top(2) have "set TOP_LEVEL_NETWORKS = {}" by (simp add: dkeys_def)
    then show False by (simp add: TOP_LEVEL_NETWORKS_def)
  qed
  with top(1) have "dget cfg ''networks'' = JObj top" by (auto simp: or_dict_def split: if_splits)
  moreover have "\<exists>net. or_dict v = Some net \<and> \<not> truthy (dget net ''external'') \<and> (truthy (dget net ''internal'') \<longleftrightarrow> name \<noteq> ''edge'')"
    if "(name, v) \<in> set top" for name v
  proof -
    from that top(2) have "name \<in> set TOP_LEVEL_NETWORKS" by (force simp: dkeys_def)
    then have "name \<in> set INTERNAL_NETWORKS \<longleftrightarrow> name \<noteq> ''edge''" by (simp add: INTERNAL_NETWORKS_def)
    with top(3) that show ?thesis by (auto simp: top_network_problems_def bind_eq_Some_conv Let_def)
  qed
  ultimately show ?thesis using top(2) by (intro that) auto
qed

text \<open>Secrets.\<close>

definition receives :: "services \<Rightarrow> string \<Rightarrow> string \<Rightarrow> bool" where
  "receives services name secret \<longleftrightarrow>
     (\<exists>svc entries target. map_of services name = Some svc \<and> secret_entries svc = Some entries \<and> (secret, target) \<in> set entries)"

lemma accepted_secrets:
  assumes "accepted cfg interpolated values scan_refs release_refs services"
  obtains top where "or_dict (dget cfg ''secrets'') = Some top" "set (dkeys top) = set ALL_SECRETS"
    "\<forall>(name, v)\<in>set top. \<exists>d. or_dict v = Some d \<and> dget d ''file'' = JStr (''./secrets/'' @ name)"
    "\<forall>(name, svc)\<in>set services. secrets_ok (dkeys top) name svc"
proof -
  from accepted_parts(8) [OF assms] obtain top where top: "or_dict (dget cfg ''secrets'') = Some top"
     "set (dkeys top) = set ALL_SECRETS" "\<forall>(name, v)\<in>set top. top_secret_problems name v = Some []"
     "for_services (secret_body (dkeys top)) services = Some []"
    by (auto simp: secret_problems_def bind_eq_Some_conv Let_def)
  show ?thesis
  proof (rule that [OF top(1,2)], safe)
    show "\<exists>d. or_dict v = Some d \<and> dget d ''file'' = JStr (''./secrets/'' @ name)" if "(name, v) \<in> set top" for name v
      using top(3) that by (auto simp: top_secret_problems_def bind_eq_Some_conv)
    show "secrets_ok (dkeys top) name svc" if "(name, svc) \<in> set services" for name svc
      using top(4) that by (auto simp: secrets.loop_iff)
  qed
qed

lemma accepted_receives:
  assumes "accepted cfg interpolated values scan_refs release_refs services"
  shows "receives services name secret \<longleftrightarrow> secret \<in> set (table_get SECRET_CONSUMERS name)"
proof (cases "name \<in> set EXPECTED_SERVICES")
  case True
  obtain svc where svc: "map_of services name = Some svc" by (rule accepted_lookup [OF assms True])
  obtain top :: dict where "\<forall>(name, svc)\<in>set services. secrets_ok (dkeys top) name svc"
    by (rule accepted_secrets [OF assms]) blast
  with map_of_SomeD [OF svc] have "secrets_ok (dkeys top) name svc" by blast
  with svc show ?thesis by (auto simp: receives_def secrets_ok_def)
next
  case False
  then have "name \<notin> set (dkeys services)" using accepted_names [OF assms] by simp
  then have "map_of services name = None" by (simp add: dkeys_def map_of_eq_None_iff)
  moreover have "table_get SECRET_CONSUMERS name = []"
    using False by (auto simp: table_get_def SECRET_CONSUMERS_def EXPECTED_SERVICES_def)
  ultimately show ?thesis by (simp add: receives_def)
qed

lemma dp_secret_consumer:
  "secret \<in> set DP_SECRETS \<Longrightarrow> secret \<in> set (table_get SECRET_CONSUMERS name) \<longleftrightarrow> name = ''bff''"
  by (auto simp: table_get_def SECRET_CONSUMERS_def DP_SECRETS_def DP_CERT_def DP_CERT_PASSWORD_def DP_PREVIOUS_def
      DP_PREVIOUS_PASSWORD_def split: if_splits)

lemma release_key:
  "name \<in> set (dkeys RELEASE_SERVICES) \<Longrightarrow>
   \<exists>key. map_of RELEASE_SERVICES name = Some key \<and> key \<in> set ENV_KEYS \<and> map_of IMAGE_KEYS key = Some name"
  by (auto simp: RELEASE_SERVICES_def ENV_KEYS_def IMAGE_KEYS_def dkeys_def)

lemma at_import_filter:
  "filter (\<lambda>item. initial_slashes (snd (mount_pair item)) = 1 \<and> prefix IMPORT_PARTS (norm_parts (snd (mount_pair item))))
     (py_list (dget kc ''volumes'')) = map JObj (at_import kc)"
proof -
  have "filter (\<lambda>item. initial_slashes (snd (mount_pair item)) = 1 \<and> prefix IMPORT_PARTS (norm_parts (snd (mount_pair item)))) items
     = map JObj (List.map_filter (\<lambda>item. case item of
         JObj d \<Rightarrow> if under_import_dir (str_get d ''target'' '''') then Some d else None | _ \<Rightarrow> None) items)" for items
    by (induction items)
       (auto simp: List.map_filter_simps under_import_dir_iff mount_pair_def initial_slashes_def split: json.splits)
  then show ?thesis by (simp add: at_import_def)
qed

end
