(* ===== verification/Stack_Guarantees.thy ===== *)
theory Stack_Guarantees
  imports Stack_Config
begin

text \<open>
  What an accepted Compose configuration guarantees about the stack that runs from it, as one theorem per
  concern, and a complete sample configuration (documentation-range addresses) that the guards accept.
\<close>


section \<open>A configuration that is accepted\<close>

definition sample_hex :: string where
  "sample_hex = replicate 64 CHR ''a''"

definition sample_image :: "string \<Rightarrow> string" where
  "sample_image service = IMAGE_PREFIX @ service @ ''@sha256:'' @ sample_hex"

definition sample_pin :: "string \<Rightarrow> string" where
  "sample_pin name = ''docker.io/library/'' @ name @ ''@sha256:'' @ sample_hex"

definition sample_env :: env where
  "sample_env =
     [(''DECISYA_BIND_ADDRESS'', ''192.0.2.10''), (''DECISYA_HTTPS_PORT'', ''8443''), (''DECISYA_ADMIN_PORT'', ''8444''),
      (''DECISYA_APP_HOST'', ''app.example.org''), (''DECISYA_ID_HOST'', ''id.example.org''),
      (''DECISYA_API_HOST'', ''api.example.org''), (''DECISYA_API_IMAGE'', sample_image ''api''),
      (''DECISYA_BFF_IMAGE'', sample_image ''bff''), (''DECISYA_MIGRATOR_IMAGE'', sample_image ''migrator'')]"

definition sample_api :: dict where
  "sample_api =
     [(''image'', JStr (sample_image ''api'')), (''environment'', JObj [(''ASPNETCORE_ENVIRONMENT'', JStr
     ''Production''), (''AllowedHosts'', JStr ''api.example.org'')]), (''networks'', JObj [(''backchannel'',
     JNull), (''pg-app'', JNull), (''telemetry'', JNull)]), (''user'', JStr ''1000:1000''), (''cap_drop'',
     JList [JStr ''ALL'']), (''security_opt'', JList [JStr ''no-new-privileges:true'']), (''read_only'', JBool
     True), (''mem_limit'', JStr ''536870912''), (''cpus'', JInt 1), (''pids_limit'', JInt 200), (''logging'',
     JObj [(''driver'', JStr ''json-file''), (''options'', JObj [(''max-size'', JStr ''10m''), (''max-file'',
     JStr ''3'')])]), (''restart'', JStr ''unless-stopped''), (''configs'', JList [JObj [(''source'', JStr
     ''caddy-root''), (''target'', JStr ''/etc/decisya/trust/caddy-root.crt'')]]), (''secrets'', JList [JObj
     [(''source'', JStr ''ConnectionStrings__tenancy''), (''target'', JStr ''ConnectionStrings__tenancy'')],
     JObj [(''source'', JStr ''ConnectionStrings__entitlements''), (''target'', JStr
     ''ConnectionStrings__entitlements'')], JObj [(''source'', JStr
     ''Decisya__Observability__UserIdHashKey''), (''target'', JStr
     ''Decisya__Observability__UserIdHashKey'')]])]"

definition sample_bff :: dict where
  "sample_bff =
     [(''image'', JStr (sample_image ''bff'')), (''environment'', JObj [(''ASPNETCORE_ENVIRONMENT'', JStr
     ''Production''), (''AllowedHosts'', JStr ''app.example.org''), (''Bff__RateLimits__api__PermitLimit'',
     JStr ''200''), (''Bff__DataProtection__KeyRingPath'', JStr ''/home/app/keyring'')]), (''networks'', JObj
     [(''backchannel'', JNull), (''cache'', JNull), (''telemetry'', JNull)]), (''user'', JStr ''1000:1000''),
     (''cap_drop'', JList [JStr ''ALL'']), (''security_opt'', JList [JStr ''no-new-privileges:true'']),
     (''read_only'', JBool True), (''mem_limit'', JStr ''256m''), (''cpus'', JInt 1), (''pids_limit'', JInt
     200), (''logging'', JObj [(''driver'', JStr ''json-file''), (''options'', JObj [(''max-size'', JStr
     ''10m''), (''max-file'', JStr ''3'')])]), (''restart'', JStr ''unless-stopped''), (''volumes'', JList
     [JObj [(''type'', JStr ''volume''), (''source'', JStr ''bff-keyring''), (''target'', JStr
     ''/home/app/keyring'')]]), (''configs'', JList [JObj [(''source'', JStr ''caddy-root''), (''target'',
     JStr ''/etc/decisya/trust/caddy-root.crt'')]]), (''secrets'', JList [JObj [(''source'', JStr
     ''ConnectionStrings__redis''), (''target'', JStr ''ConnectionStrings__redis'')], JObj [(''source'', JStr
     ''Bff__Oidc__ClientSecret''), (''target'', JStr ''Bff__Oidc__ClientSecret'')], JObj [(''source'', JStr
     ''Decisya__Observability__UserIdHashKey''), (''target'', JStr
     ''Decisya__Observability__UserIdHashKey'')], JObj [(''source'', JStr
     ''Bff__DataProtection__Certificate''), (''target'', JStr ''Bff__DataProtection__Certificate'')], JObj
     [(''source'', JStr ''Bff__DataProtection__CertificatePassword''), (''target'', JStr
     ''Bff__DataProtection__CertificatePassword'')], JObj [(''source'', JStr
     ''Bff__DataProtection__PreviousCertificate''), (''target'', JStr
     ''Bff__DataProtection__PreviousCertificate'')], JObj [(''source'', JStr
     ''Bff__DataProtection__PreviousCertificatePassword''), (''target'', JStr
     ''Bff__DataProtection__PreviousCertificatePassword'')]])]"

definition sample_caddy :: dict where
  "sample_caddy =
     [(''image'', JStr (sample_pin ''caddy'')), (''environment'', JObj [(''DECISYA_APP_HOST'', JStr
     ''app.example.org''), (''DECISYA_ID_HOST'', JStr ''id.example.org''), (''DECISYA_API_HOST'', JStr
     ''api.example.org'')]), (''networks'', JObj [(''edge'', JNull), (''backchannel'', JObj
     [(''ipv4_address'', JStr ''10.120.0.2''), (''aliases'', JList [JStr ''id.example.org'', JStr
     ''api.example.org''])]), (''idp'', JObj [(''ipv4_address'', JStr ''10.120.1.2''), (''aliases'', JList
     [JStr ''app.example.org''])])]), (''ports'', JList [JObj [(''host_ip'', JStr ''192.0.2.10''),
     (''published'', JStr ''8443''), (''target'', JInt 8443), (''protocol'', JStr ''tcp'')], JObj
     [(''host_ip'', JStr ''192.0.2.10''), (''published'', JStr ''8444''), (''target'', JInt 8444)]]),
     (''cap_drop'', JList [JStr ''ALL'']), (''security_opt'', JList [JStr ''no-new-privileges:true'']),
     (''read_only'', JBool True), (''mem_limit'', JStr ''256m''), (''cpus'', JInt 1), (''pids_limit'', JInt
     200), (''logging'', JObj [(''driver'', JStr ''json-file''), (''options'', JObj [(''max-size'', JStr
     ''10m''), (''max-file'', JStr ''3'')])]), (''restart'', JStr ''unless-stopped''), (''volumes'', JList
     [JObj [(''type'', JStr ''volume''), (''source'', JStr ''caddy-data''), (''target'', JStr ''/data'')],
     JObj [(''type'', JStr ''bind''), (''source'', JStr ''./config/caddy/Caddyfile''), (''target'', JStr
     ''/etc/caddy/Caddyfile''), (''read_only'', JBool True)]])]"

definition sample_keycloak :: dict where
  "sample_keycloak =
     [(''image'', JStr (sample_pin ''keycloak'')), (''environment'', JObj [(''DECISYA_APP_HOST'', JStr
     ''app.example.org''), (''DECISYA_HTTPS_PORT'', JStr ''8443''), (''KC_HOSTNAME_ADMIN'', JStr
     ''https://id.example.org:8444'')]), (''entrypoint'', JList [JStr ''/bin/sh'', JStr
     ''/opt/decisya/entrypoint-stack.sh'']), (''networks'', JObj [(''idp'', JNull), (''pg-kc'', JNull)]),
     (''user'', JStr ''1000:1000''), (''cap_drop'', JList [JStr ''ALL'']), (''security_opt'', JList [JStr
     ''no-new-privileges:true'']), (''mem_limit'', JStr ''256m''), (''cpus'', JInt 1), (''pids_limit'', JInt
     200), (''logging'', JObj [(''driver'', JStr ''json-file''), (''options'', JObj [(''max-size'', JStr
     ''10m''), (''max-file'', JStr ''3'')])]), (''restart'', JStr ''unless-stopped''), (''volumes'', JList
     [JObj [(''type'', JStr ''bind''), (''source'', JStr ''./config/keycloak/entrypoint-stack.sh''),
     (''target'', JStr ''/opt/decisya/entrypoint-stack.sh''), (''read_only'', JBool True)], JObj [(''type'',
     JStr ''bind''), (''source'', JStr ''./config/keycloak/realm-decisya.json''), (''target'', JStr
     ''/opt/keycloak/data/import/realm-decisya.json''), (''read_only'', JBool True)], JObj [(''type'', JStr
     ''bind''), (''source'', JStr ''./config/keycloak/common-passwords.txt''), (''target'', JStr
     ''/opt/keycloak/data/password-blacklists/common-passwords.txt''), (''read_only'', JBool True)]]),
     (''configs'', JList [JObj [(''source'', JStr ''caddy-root''), (''target'', JStr
     ''/etc/decisya/trust/caddy-root.crt'')]]), (''secrets'', JList [JObj [(''source'', JStr
     ''keycloak_db_password''), (''target'', JStr ''keycloak_db_password'')], JObj [(''source'', JStr
     ''keycloak_bootstrap_admin_password''), (''target'', JStr ''keycloak_bootstrap_admin_password'')], JObj
     [(''source'', JStr ''Bff__Oidc__ClientSecret''), (''target'', JStr ''Bff__Oidc__ClientSecret'')]])]"

definition sample_migrator :: dict where
  "sample_migrator =
     [(''image'', JStr (sample_image ''migrator'')), (''environment'', JObj [(''DOTNET_ENVIRONMENT'', JStr
     ''Production'')]), (''networks'', JObj [(''pg-app'', JNull), (''telemetry'', JNull)]), (''user'', JStr
     ''1000:1000''), (''cap_drop'', JList [JStr ''ALL'']), (''security_opt'', JList [JStr
     ''no-new-privileges:true'']), (''read_only'', JBool True), (''mem_limit'', JStr ''256m''), (''cpus'',
     JInt 1), (''pids_limit'', JInt 200), (''logging'', JObj [(''driver'', JStr ''json-file''), (''options'',
     JObj [(''max-size'', JStr ''10m''), (''max-file'', JStr ''3'')])]), (''restart'', JStr
     ''unless-stopped''), (''secrets'', JList [JObj [(''source'', JStr ''ConnectionStrings__decisya''),
     (''target'', JStr ''ConnectionStrings__decisya'')], JObj [(''source'', JStr
     ''Migrator__TenancyRolePassword''), (''target'', JStr ''Migrator__TenancyRolePassword'')], JObj
     [(''source'', JStr ''Migrator__EntitlementsRolePassword''), (''target'', JStr
     ''Migrator__EntitlementsRolePassword'')], JObj [(''source'', JStr
     ''Decisya__Observability__UserIdHashKey''), (''target'', JStr
     ''Decisya__Observability__UserIdHashKey'')]])]"

definition sample_otel_collector :: dict where
  "sample_otel_collector =
     [(''image'', JStr (sample_pin ''otel-collector'')), (''networks'', JObj [(''telemetry'', JNull)]),
     (''user'', JStr ''1000:1000''), (''cap_drop'', JList [JStr ''ALL'']), (''security_opt'', JList [JStr
     ''no-new-privileges:true'']), (''read_only'', JBool True), (''mem_limit'', JStr ''256m''), (''cpus'',
     JInt 1), (''pids_limit'', JInt 200), (''logging'', JObj [(''driver'', JStr ''json-file''), (''options'',
     JObj [(''max-size'', JStr ''10m''), (''max-file'', JStr ''3'')])]), (''restart'', JStr
     ''unless-stopped''), (''volumes'', JList [JObj [(''type'', JStr ''bind''), (''source'', JStr
     ''./config/otel-collector/config.yaml''), (''target'', JStr ''/etc/otelcol/config.yaml''),
     (''read_only'', JBool True)]])]"

definition sample_postgres :: dict where
  "sample_postgres =
     [(''image'', JStr (sample_pin ''postgres'')), (''environment'', JObj [(''POSTGRES_PASSWORD_FILE'', JStr
     ''/run/secrets/postgres_superuser_password'')]), (''networks'', JObj [(''pg-app'', JNull), (''pg-kc'',
     JNull)]), (''user'', JStr ''1000:1000''), (''cap_drop'', JList [JStr ''ALL'']), (''security_opt'', JList
     [JStr ''no-new-privileges:true'']), (''read_only'', JBool True), (''mem_limit'', JStr ''256m''),
     (''cpus'', JInt 1), (''pids_limit'', JInt 200), (''logging'', JObj [(''driver'', JStr ''json-file''),
     (''options'', JObj [(''max-size'', JStr ''10m''), (''max-file'', JStr ''3'')])]), (''restart'', JStr
     ''unless-stopped''), (''volumes'', JList [JObj [(''type'', JStr ''bind''), (''source'', JStr
     ''./config/postgres/init''), (''target'', JStr ''/docker-entrypoint-initdb.d''), (''read_only'', JBool
     True)], JObj [(''type'', JStr ''volume''), (''source'', JStr ''postgres-data''), (''target'', JStr
     ''/var/lib/postgresql'')]]), (''secrets'', JList [JObj [(''source'', JStr
     ''postgres_superuser_password''), (''target'', JStr ''postgres_superuser_password'')], JObj [(''source'',
     JStr ''migrator_db_password''), (''target'', JStr ''migrator_db_password'')], JObj [(''source'', JStr
     ''keycloak_db_password''), (''target'', JStr ''keycloak_db_password'')]])]"

definition sample_redis :: dict where
  "sample_redis =
     [(''image'', JStr (sample_pin ''redis'')), (''networks'', JObj [(''cache'', JNull)]), (''user'', JStr
     ''1000:1000''), (''cap_drop'', JList [JStr ''ALL'']), (''security_opt'', JList [JStr
     ''no-new-privileges:true'']), (''read_only'', JBool True), (''mem_limit'', JStr ''256m''), (''cpus'',
     JInt 1), (''pids_limit'', JInt 200), (''logging'', JObj [(''driver'', JStr ''json-file''), (''options'',
     JObj [(''max-size'', JStr ''10m''), (''max-file'', JStr ''3'')])]), (''restart'', JStr
     ''unless-stopped''), (''volumes'', JList [JObj [(''type'', JStr ''bind''), (''source'', JStr
     ''./config/redis/redis.conf''), (''target'', JStr ''/usr/local/etc/redis/redis.conf''), (''read_only'',
     JBool True)]]), (''secrets'', JList [JObj [(''source'', JStr ''redis_acl''), (''target'', JStr
     ''redis_acl'')]]), (''tmpfs'', JList [JStr ''/tmp''])]"

definition sample_services :: services where
  "sample_services =
     [(''api'', sample_api),
      (''bff'', sample_bff),
      (''caddy'', sample_caddy),
      (''keycloak'', sample_keycloak),
      (''migrator'', sample_migrator),
      (''otel-collector'', sample_otel_collector),
      (''postgres'', sample_postgres),
      (''redis'', sample_redis)]"

definition sample_config :: dict where
  "sample_config =
     (''services'', JObj (map (\<lambda>(name, svc). (name, JObj svc)) sample_services)) #
     [(''name'', JStr ''decisya''), (''networks'', JObj [(''edge'', JObj []), (''backchannel'', JObj
     [(''internal'', JBool True), (''ipam'', JObj [(''config'', JList [JObj [(''subnet'', JStr
     ''10.120.0.0/24'')]])])]), (''idp'', JObj [(''internal'', JBool True), (''ipam'', JObj [(''config'',
     JList [JObj [(''subnet'', JStr ''10.120.1.0/24'')]])])]), (''pg-app'', JObj [(''internal'', JBool
     True)]), (''pg-kc'', JObj [(''internal'', JBool True)]), (''cache'', JObj [(''internal'', JBool True)]),
     (''telemetry'', JObj [(''internal'', JBool True)])]), (''volumes'', JObj [(''postgres-data'', JNull),
     (''caddy-data'', JObj []), (''bff-keyring'', JObj [(''name'', JStr ''decisya_bff-keyring'')])]),
     (''secrets'', JObj [(''postgres_superuser_password'', JObj [(''file'', JStr
     ''./secrets/postgres_superuser_password'')]), (''migrator_db_password'', JObj [(''file'', JStr
     ''./secrets/migrator_db_password'')]), (''keycloak_db_password'', JObj [(''file'', JStr
     ''./secrets/keycloak_db_password'')]), (''redis_acl'', JObj [(''file'', JStr ''./secrets/redis_acl'')]),
     (''keycloak_bootstrap_admin_password'', JObj [(''file'', JStr
     ''./secrets/keycloak_bootstrap_admin_password'')]), (''Bff__Oidc__ClientSecret'', JObj [(''file'', JStr
     ''./secrets/Bff__Oidc__ClientSecret'')]), (''ConnectionStrings__decisya'', JObj [(''file'', JStr
     ''./secrets/ConnectionStrings__decisya'')]), (''Migrator__TenancyRolePassword'', JObj [(''file'', JStr
     ''./secrets/Migrator__TenancyRolePassword'')]), (''Migrator__EntitlementsRolePassword'', JObj [(''file'',
     JStr ''./secrets/Migrator__EntitlementsRolePassword'')]), (''Decisya__Observability__UserIdHashKey'',
     JObj [(''file'', JStr ''./secrets/Decisya__Observability__UserIdHashKey'')]),
     (''ConnectionStrings__tenancy'', JObj [(''file'', JStr ''./secrets/ConnectionStrings__tenancy'')]),
     (''ConnectionStrings__entitlements'', JObj [(''file'', JStr
     ''./secrets/ConnectionStrings__entitlements'')]), (''ConnectionStrings__redis'', JObj [(''file'', JStr
     ''./secrets/ConnectionStrings__redis'')]), (''Bff__DataProtection__Certificate'', JObj [(''file'', JStr
     ''./secrets/Bff__DataProtection__Certificate'')]), (''Bff__DataProtection__CertificatePassword'', JObj
     [(''file'', JStr ''./secrets/Bff__DataProtection__CertificatePassword'')]),
     (''Bff__DataProtection__PreviousCertificate'', JObj [(''file'', JStr
     ''./secrets/Bff__DataProtection__PreviousCertificate'')]),
     (''Bff__DataProtection__PreviousCertificatePassword'', JObj [(''file'', JStr
     ''./secrets/Bff__DataProtection__PreviousCertificatePassword'')])]), (''configs'', JObj [(''caddy-root'',
     JObj [(''file'', JStr ''./trust/caddy-root.crt'')])])]"


lemma sample_hex_ok: "length sample_hex = 64" "list_all is_hex_lower sample_hex"
  by (simp_all add: sample_hex_def list_all_iff is_hex_lower_def in_range_def ccode_def)

lemma sample_image_ref: "is_image_ref service (sample_image service)"
  using sample_hex_ok by (auto simp: is_image_ref_def sample_image_def)

lemma sample_env_ok: "env_ok sample_env"
proof -
  have "is_dns_name ''app.example.org''" "is_dns_name ''id.example.org''" "is_dns_name ''api.example.org''"
    "is_port_text 8443 ''8443''" "is_port_text 8444 ''8444''"
    by code_simp+
  moreover have ip: "ipv4_of ''192.0.2.10'' = Some 3221225994" by code_simp
  ultimately show ?thesis
    by (simp add: env_ok_def ENV_KEYS_def HOST_KEYS_def IMAGE_KEYS_def dkeys_def val_of_def value_ok_def sample_env_def
        sample_image_ref is_bind_address_def)
qed

definition sample_pins :: env where
  "sample_pins = map (\<lambda>(name, alias). (alias, sample_pin name)) THIRD_PARTY_ALIAS"

lemma sample_images: "image_problems sample_services True sample_env (Some sample_pins) None = Some []"
proof -
  have "str_get sample_api ''image'' '''' = sample_image ''api''" "str_get sample_bff ''image'' '''' = sample_image ''bff''"
    "str_get sample_migrator ''image'' '''' = sample_image ''migrator''" "str_get sample_caddy ''image'' '''' = sample_pin ''caddy''"
    "str_get sample_keycloak ''image'' '''' = sample_pin ''keycloak''" "str_get sample_postgres ''image'' '''' = sample_pin ''postgres''"
    "str_get sample_redis ''image'' '''' = sample_pin ''redis''" "str_get sample_otel_collector ''image'' '''' = sample_pin ''otel-collector''"
    by (simp_all add: str_get_def sample_api_def sample_bff_def sample_migrator_def sample_caddy_def sample_keycloak_def
        sample_postgres_def sample_redis_def sample_otel_collector_def)
  moreover have "expected_release None sample_env ''api'' ''DECISYA_API_IMAGE'' = sample_image ''api''"
    "expected_release None sample_env ''bff'' ''DECISYA_BFF_IMAGE'' = sample_image ''bff''"
    "expected_release None sample_env ''migrator'' ''DECISYA_MIGRATOR_IMAGE'' = sample_image ''migrator''"
    by (simp_all add: expected_release_def val_of_def sample_env_def)
  ultimately show ?thesis using sample_image_ref
    by (simp add: image_problems_def images.loop_iff sample_services_def image_ok_def RELEASE_SERVICES_def
        THIRD_PARTY_ALIAS_def Let_def sample_pins_def)
qed

lemma sample_limits: "limit_problems sample_services = Some []"
proof -
  have m: "mem_bytes (JStr ''256m'') = Some (Some 268435456)" "mem_bytes (JStr ''536870912'') = Some (Some 536870912)"
  proof -
    have "show_nat 256 = ''256''" "show_nat 536870912 = ''536870912''" by code_simp+
    then show "mem_bytes (JStr ''256m'') = Some (Some 268435456)" "mem_bytes (JStr ''536870912'') = Some (Some 536870912)"
      using mem_bytes_whole [of "''m''" 20 256] mem_bytes_whole [of "''''" 0 536870912] by (simp_all add: mem_units_def)
  qed
  have l: "limited name svc" if "dget svc ''mem_limit'' \<in> {JStr ''256m'', JStr ''536870912''}" "dget svc ''cpus'' = JInt 1"
      "dget svc ''pids_limit'' = JInt 200"
      "dget svc ''logging'' = JObj [(''driver'', JStr ''json-file''), (''options'', JObj [(''max-size'', JStr ''10m''), (''max-file'', JStr ''3'')])]"
    for name svc
    using that m by (auto simp: limited_def py_float_def float_le_zero_def float_overflows_def py_int_def)
  have "\<forall>(name, svc)\<in>set sample_services. limited name svc"
    unfolding sample_services_def
    by (simp, intro conjI; rule l; simp add: sample_api_def sample_bff_def sample_migrator_def sample_caddy_def sample_keycloak_def
        sample_postgres_def sample_redis_def sample_otel_collector_def)
  moreover have "map (\<lambda>(name, svc). mem_bytes (dget svc ''mem_limit'')) sample_services =
      map (\<lambda>n. Some (Some n)) (536870912 # replicate 7 268435456)"
    using m by (simp add: sample_services_def sample_api_def sample_bff_def sample_migrator_def sample_caddy_def sample_keycloak_def
        sample_postgres_def sample_redis_def sample_otel_collector_def eval_nat_numeral)
  moreover have "sum_list (536870912 # replicate 7 268435456) \<le> MEMORY_CEILING_BYTES" by (simp add: MEMORY_CEILING_BYTES_def sum_list_replicate)
  ultimately show ?thesis unfolding limit_problems_iff by blast
qed

lemma sample_guard_1: "top_level_problems sample_config = Some []"
  by code_simp

lemma sample_guard_2: "service_set_problems sample_services = Some []"
  by code_simp

lemma sample_guard_3: "isolation_problems sample_services = Some []"
  by code_simp

lemma sample_guard_4: "mount_problems sample_config sample_services = Some []"
  by code_simp

lemma sample_guard_5: "network_problems sample_config sample_services True sample_env = Some []"
  by code_simp

lemma sample_guard_6: "port_problems sample_services True sample_env = Some []"
  by code_simp

lemma sample_guard_7: "secret_problems sample_config sample_services = Some []"
  by code_simp

lemma sample_guard_8: "environment_problems sample_services True sample_env = Some []"
  by code_simp

lemma sample_guard_9: "generator_flag_problems sample_services = Some []"
  by code_simp

lemma sample_guard_10: "keycloak_problems sample_services True sample_env = Some []"
  by code_simp

lemma sample_guard_11: "tls_problems sample_services = Some []"
  by code_simp

lemmas sample_guards = sample_guard_1 sample_guard_2 sample_guard_3 sample_guard_4 sample_guard_5 sample_guard_6 sample_guard_7 sample_guard_8 sample_guard_9 sample_guard_10 sample_guard_11

lemma sample_decodes: "decode_services (dget sample_config ''services'') = Some sample_services"
  by code_simp

lemma sample_accepted: "accepted sample_config True sample_env (Some sample_pins) None sample_services"
  by (simp add: accepted_def config_problems_def sample_decodes sample_images sample_limits sample_guards)

section \<open>Guarantees\<close>

lemma sample_members:
  "(''bff'', sample_bff) \<in> set sample_services" "(''caddy'', sample_caddy) \<in> set sample_services"
  by (simp_all add: sample_services_def)

text \<open>
  C19: An accepted configuration runs exactly the eight expected services. None of them carries a
  banned key or a key outside the allow-list, each has no-new-privileges, drops at least NET_RAW, has a
  restart policy, runs as a non-root user (caddy apart) on a read-only root file system (keycloak apart),
  and none names the key-ring certificate generator.
\<close>

theorem config_isolates:
  assumes "accepted cfg interpolated values scan_refs release_refs services"
  shows "set (dkeys services) = set EXPECTED_SERVICES
    \<and> (\<forall>(name, svc)\<in>set services. keys_ok name svc \<and> isolated name svc \<and> flag_free name svc)"
  using accepted_isolation [OF assms] by blast

theorem config_isolates_witness:
  "set (dkeys sample_services) = set EXPECTED_SERVICES \<and> keys_ok ''bff'' sample_bff \<and> isolated ''bff'' sample_bff \<and> flag_free ''bff'' sample_bff"
  using config_isolates [OF sample_accepted] sample_members(1) by blast

text \<open>
  C14: In an accepted configuration the bind mounts and the named volumes of every service are, as
  multisets, those of its row of the mount tables, so no host path is mounted twice, into another
  service or at another target; bind mounts are read-only, no mount and no tmpfs names the Docker socket,
  and the only config is the public root certificate, in its three consumers.
\<close>

theorem config_mounts:
  assumes "accepted cfg interpolated values scan_refs release_refs services"
  shows "\<forall>(name, svc)\<in>set services. mounts_ok name svc"
  using accepted_parts(4) [OF assms] by (simp add: mount_problems_def mounts.loop_iff)

theorem config_mounts_witness: "mounts_ok ''caddy'' sample_caddy"
  using config_mounts [OF sample_accepted] sample_members(2) by blast

text \<open>
  C13: In an accepted configuration a service joins exactly the networks of the network table. So
  postgres is reachable from keycloak, migrator and api only, redis from the bff only, keycloak from
  postgres and caddy only; caddy alone joins the edge network, and every other network is internal.
\<close>

theorem config_network_isolation:
  assumes "accepted cfg interpolated values scan_refs release_refs services"
  shows "(\<forall>name net. joins services name net \<longleftrightarrow> net \<in> set (table_get EXPECTED_NETWORKS name))
    \<and> (\<forall>b. share_network services ''postgres'' b \<longrightarrow> b \<in> {''postgres'', ''keycloak'', ''migrator'', ''api''})
    \<and> (\<forall>b. share_network services ''redis'' b \<longrightarrow> b \<in> {''redis'', ''bff''})
    \<and> (\<forall>b. share_network services ''keycloak'' b \<longrightarrow> b \<in> {''keycloak'', ''postgres'', ''caddy''})
    \<and> (\<forall>b. joins services b ''edge'' \<longrightarrow> b = ''caddy'')
    \<and> (\<exists>top. dget cfg ''networks'' = JObj top \<and> set (dkeys top) = set TOP_LEVEL_NETWORKS
         \<and> (\<forall>(name, v)\<in>set top. \<exists>net. or_dict v = Some net \<and> \<not> truthy (dget net ''external'')
              \<and> (truthy (dget net ''internal'') \<longleftrightarrow> name \<noteq> ''edge'')))"
proof (intro conjI allI impI)
  note j = accepted_joins [OF assms]
  show "joins services name net \<longleftrightarrow> net \<in> set (table_get EXPECTED_NETWORKS name)" for name net by (rule j)
  show "b \<in> {''postgres'', ''keycloak'', ''migrator'', ''api''}" if "share_network services ''postgres'' b" for b
    using that table_share(1) unfolding share_network_def j by blast
  show "b \<in> {''redis'', ''bff''}" if "share_network services ''redis'' b" for b
    using that table_share(2) unfolding share_network_def j by blast
  show "b \<in> {''keycloak'', ''postgres'', ''caddy''}" if "share_network services ''keycloak'' b" for b
    using that table_share(3) unfolding share_network_def j by blast
  show "b = ''caddy''" if "joins services b ''edge''" for b
    using that table_share(4) unfolding j by blast
  show "\<exists>top. dget cfg ''networks'' = JObj top \<and> set (dkeys top) = set TOP_LEVEL_NETWORKS
         \<and> (\<forall>(name, v)\<in>set top. \<exists>net. or_dict v = Some net \<and> \<not> truthy (dget net ''external'')
              \<and> (truthy (dget net ''internal'') \<longleftrightarrow> name \<noteq> ''edge''))"
    by (rule top_networks_internal [OF assms]) blast
qed

theorem config_network_isolation_witness:
  "\<not> share_network sample_services ''postgres'' ''caddy'' \<and> \<not> share_network sample_services ''redis'' ''api''
    \<and> joins sample_services ''caddy'' ''edge'' \<and> \<not> joins sample_services ''bff'' ''edge''"
proof -
  note i = config_network_isolation [OF sample_accepted]
  have "''edge'' \<in> set (table_get EXPECTED_NETWORKS ''caddy'')" "''edge'' \<notin> set (table_get EXPECTED_NETWORKS ''bff'')"
    by code_simp+
  then have "joins sample_services ''caddy'' ''edge''" "\<not> joins sample_services ''bff'' ''edge''" using i by blast+
  moreover have "\<not> share_network sample_services ''postgres'' ''caddy''"
  proof
    assume "share_network sample_services ''postgres'' ''caddy''"
    from i [THEN conjunct2, THEN conjunct1, rule_format, OF this] show False by simp
  qed
  moreover have "\<not> share_network sample_services ''redis'' ''api''"
  proof
    assume "share_network sample_services ''redis'' ''api''"
    from i [THEN conjunct2, THEN conjunct2, THEN conjunct1, rule_format, OF this] show False by simp
  qed
  ultimately show ?thesis by blast
qed

text \<open>
  C18: An accepted configuration publishes exactly two ports, both on caddy and both on the bind
  address: the HTTPS port to 8443 and the admin port to 8444.
\<close>

theorem config_ports:
  assumes "accepted cfg interpolated values scan_refs release_refs services"
  shows "\<forall>(name, svc)\<in>set services. \<exists>texts. map_opt port_text (py_list (dget svc ''ports'')) = Some texts \<and>
     mset texts = (if name = ''caddy''
        then {#published_text interpolated values ''DECISYA_HTTPS_PORT'' 8443,
               published_text interpolated values ''DECISYA_ADMIN_PORT'' 8444#}
        else {#})"
  using accepted_parts(7) [OF assms]
  unfolding port_problems_def ports.loop_iff published_ok_def HTTPS_PORT_def ADMIN_PORT_def .

theorem config_ports_witness:
  "\<exists>texts. map_opt port_text (py_list (dget sample_caddy ''ports'')) = Some texts \<and>
     mset texts = {#''192.0.2.10:8443:8443'', ''192.0.2.10:8444:8444''#}"
proof -
  have texts: "published_text True sample_env ''DECISYA_HTTPS_PORT'' 8443 = ''192.0.2.10:8443:8443''"
    "published_text True sample_env ''DECISYA_ADMIN_PORT'' 8444 = ''192.0.2.10:8444:8444''" by code_simp+
  show ?thesis using bspec [OF config_ports [OF sample_accepted] sample_members(2)] unfolding texts by simp
qed

text \<open>
  C15: In an accepted configuration a service receives exactly the secret files of its row of the
  secret table, each under its own name, and every top-level secret is the file of that name. The four
  key-ring secrets reach the bff and no other service.
\<close>

theorem config_secrets:
  assumes "accepted cfg interpolated values scan_refs release_refs services"
  shows "(\<forall>name secret. receives services name secret \<longleftrightarrow> secret \<in> set (table_get SECRET_CONSUMERS name))
    \<and> (\<forall>name. \<forall>secret\<in>set DP_SECRETS. receives services name secret \<longleftrightarrow> name = ''bff'')
    \<and> (\<exists>top. or_dict (dget cfg ''secrets'') = Some top \<and> set (dkeys top) = set ALL_SECRETS
         \<and> (\<forall>(name, v)\<in>set top. \<exists>d. or_dict v = Some d \<and> dget d ''file'' = JStr (''./secrets/'' @ name)))"
proof (intro conjI allI ballI)
  note r = accepted_receives [OF assms]
  show "receives services name secret \<longleftrightarrow> secret \<in> set (table_get SECRET_CONSUMERS name)" for name secret by (rule r)
  show "receives services name secret \<longleftrightarrow> name = ''bff''" if "secret \<in> set DP_SECRETS" for name secret
    unfolding r using dp_secret_consumer [OF that] .
  show "\<exists>top. or_dict (dget cfg ''secrets'') = Some top \<and> set (dkeys top) = set ALL_SECRETS
         \<and> (\<forall>(name, v)\<in>set top. \<exists>d. or_dict v = Some d \<and> dget d ''file'' = JStr (''./secrets/'' @ name))"
    by (rule accepted_secrets [OF assms]) blast
qed

theorem config_secrets_witness:
  "receives sample_services ''bff'' DP_CERT \<and> \<not> receives sample_services ''api'' DP_CERT"
proof -
  have "DP_CERT \<in> set DP_SECRETS" and "''api'' \<noteq> ''bff''" by (simp_all add: DP_SECRETS_def)
  then show ?thesis using config_secrets [OF sample_accepted] by metis
qed

text \<open>
  C20: In an accepted configuration every service has a positive memory limit, and the limits sum to
  at most 3.5 GiB; each has positive cpu and process limits and bounded json-file logs.
\<close>

theorem config_memory:
  assumes "accepted cfg interpolated values scan_refs release_refs services"
  shows "\<exists>memories. map (\<lambda>(name, svc). mem_bytes (dget svc ''mem_limit'')) services = map (\<lambda>n. Some (Some n)) memories
    \<and> sum_list memories \<le> 3758096384 \<and> (\<forall>n\<in>set memories. 0 < n) \<and> (\<forall>(name, svc)\<in>set services. limited name svc)"
proof -
  from accepted_parts(5) [OF assms] obtain memories where m: "\<forall>(name, svc)\<in>set services. limited name svc"
      "map (\<lambda>(name, svc). mem_bytes (dget svc ''mem_limit'')) services = map (\<lambda>n. Some (Some n)) memories"
      "sum_list memories \<le> MEMORY_CEILING_BYTES"
    unfolding limit_problems_iff by blast
  have "0 < n" if "n \<in> set memories" for n
  proof -
    from that have "Some (Some n) \<in> set (map (\<lambda>n. Some (Some n)) memories)" by simp
    then obtain name svc where "(name, svc) \<in> set services" "mem_bytes (dget svc ''mem_limit'') = Some (Some n)"
      unfolding m(2) [symmetric] by force
    with m(1) show ?thesis by (force simp: limited_def)
  qed
  with m show ?thesis by (intro exI [of _ memories]) (simp add: memory_ceiling_value)
qed

theorem config_memory_witness:
  "\<exists>memories. map (\<lambda>(name, svc). mem_bytes (dget svc ''mem_limit'')) sample_services = map (\<lambda>n. Some (Some n)) memories
    \<and> sum_list memories \<le> 3758096384 \<and> (\<forall>n\<in>set memories. 0 < n) \<and> (\<forall>(name, svc)\<in>set sample_services. limited name svc)"
  by (rule config_memory [OF sample_accepted])





text \<open>
  C17: When the values passed the environment check and the release references, if given, come from a
  release's \<^verbatim>\<open>images.txt\<close>, every release service of an accepted interpolated configuration runs a
  digest-pinned image of its own repository, and every third-party service the scanned reference.
\<close>

theorem config_images:
  assumes "accepted cfg True values (Some scan_refs) release_refs services" and "env_problems values = []"
    and "release_refs = None \<or> release_refs = Some (parse_images_txt text)"
    and "(name, svc) \<in> set services"
  shows "(name \<in> set (dkeys RELEASE_SERVICES) \<longrightarrow> is_image_ref name (str_get svc ''image'' ''''))
    \<and> (\<forall>alias. map_of THIRD_PARTY_ALIAS name = Some alias \<longrightarrow> map_of scan_refs alias = Some (str_get svc ''image'' ''''))"
proof -
  have ok: "image_ok True values (Some scan_refs) release_refs name svc"
    using accepted_parts(13) [OF assms(1)] assms(4) by (auto simp: image_problems_def images.loop_iff)
  have "is_image_ref name (str_get svc ''image'' '''')" if rel: "name \<in> set (dkeys RELEASE_SERVICES)"
  proof -
    obtain key where key: "map_of RELEASE_SERVICES name = Some key" "key \<in> set ENV_KEYS" "map_of IMAGE_KEYS key = Some name"
      using release_key [OF rel] by blast
    have "is_image_ref name (val_of values key)"
      using assms(2) key image_key_not_other [OF key(3)] by (auto simp: env_problems_iff_ok env_ok_def value_ok_def)
    then have "is_image_ref name (expected_release release_refs values name key)"
      using assms(3) parse_images_refs [of "text" name] by (auto simp: expected_release_def split: option.split)
    with ok key show ?thesis by (simp add: image_ok_def Let_def)
  qed
  moreover have "map_of RELEASE_SERVICES name = None" if "map_of THIRD_PARTY_ALIAS name = Some a" for a
    using that by (auto simp: THIRD_PARTY_ALIAS_def RELEASE_SERVICES_def split: if_splits)
  ultimately show ?thesis using ok by (auto simp: image_ok_def Let_def)
qed

theorem config_images_witness:
  "is_image_ref ''bff'' (str_get sample_bff ''image'' '''')"
proof -
  have "(''bff'', sample_bff) \<in> set sample_services" by (simp add: sample_services_def)
  from config_images [OF sample_accepted _ _ this] sample_env_ok show ?thesis
    by (simp add: env_problems_iff_ok dkeys_def RELEASE_SERVICES_def)
qed

text \<open>
  Which spellings the import-folder guard recognises: a path counts as the import folder or as
  lying below it exactly when it starts with one slash (or three and more) and its normalised components
  start with those of the folder. A path with exactly two leading slashes, which Linux resolves to the
  same folder, never counts.
\<close>

theorem under_import_dir_exact:
  "under_import_dir path \<longleftrightarrow> initial_slashes path = 1 \<and> prefix IMPORT_PARTS (norm_parts path)"
  by (rule under_import_dir_iff)

text \<open>
  The Keycloak guard reports nothing about a service whose tmpfs lies over the import folder under
  the spelling with two leading slashes, which Linux resolves to the folder itself.
\<close>

theorem tmpfs_two_slashes_accepted:
  "keycloak_problems [(''keycloak'', (''tmpfs'', JList [JStr ''//opt/keycloak/data/import'']) # sample_keycloak)] True sample_env = Some []"
  by code_simp

end
