(* ===== verification/Verify_Reports.thy ===== *)
theory Verify_Reports
  imports Stack_Tables
begin

text \<open>
  The reports that \<^verbatim>\<open>stackctl.py verify\<close> decides on (\<^verbatim>\<open>deploy/compose/stackguards.py\<close>): the identity
  check that psql prints, the key-ring counts that the one-shot container prints, the static rules for
  the SQL file of the identity check and for a key file, and the scope of the production realm's name.

  Both report parsers return \<^term>\<open>Inl\<close> with a reason or \<^term>\<open>Inr\<close> with the facts (the source returns
  \<^verbatim>\<open>(None, reason)\<close> and \<^verbatim>\<open>(facts, None)\<close>).
\<close>


section \<open>The identity check\<close>

datatype fact = FBool bool | FInt int

type_synonym facts = "(string \<times> fact) list"

definition IDENTITY_KEYS :: "(string \<times> string) list" where
  "IDENTITY_KEYS = [
     (''realm_present'', ''bool''),
     (''ssl_required_all'', ''bool''),
     (''events_enabled'', ''bool''),
     (''admin_events_enabled'', ''bool''),
     (''admin_events_details_off'', ''bool''),
     (''events_expiration_ok'', ''bool''),
     (''admin_events_expiration_ok'', ''bool''),
     (''jboss_logging_listener'', ''bool''),
     (''browser_flow_ok'', ''bool''),
     (''level_2_admin_conditional'', ''bool''),
     (''level_2_tenant_conditional'', ''bool''),
     (''password_policy_ok'', ''bool''),
     (''breached_list_in_policy'', ''bool''),
     (''users_total'', ''int''),
     (''users_without_synthetic'', ''int''),
     (''master_users_without_otp'', ''int''),
     (''bff_secret_unresolved'', ''bool''),
     (''bff_secret_short'', ''bool''),
     (''bff_redirect_unresolved'', ''bool''),
     (''bff_logout_uris_unresolved'', ''bool''),
     (''master_brute_force_ok'', ''bool'')]"

definition is_ident_char :: "char \<Rightarrow> bool" where
  "is_ident_char c \<longleftrightarrow> is_lower_az c \<or> is_digit c \<or> c = CHR ''_''"

definition is_nonzero_digit :: "char \<Rightarrow> bool" where
  "is_nonzero_digit c \<longleftrightarrow> in_range 49 57 c"

text \<open>\<^verbatim>\<open>0|[1-9][0-9]{0,8}\<close>.\<close>

definition COUNT_RE :: rx where
  "COUNT_RE = RAlt (rchr CHR ''0'') (RSeq (RSet is_nonzero_digit) (rrange 0 8 rdigit))"

definition IDENTITY_LINE_RE :: rx where
  "IDENTITY_LINE_RE =
     rseq [RGroup 1 (rplus (RSet is_ident_char)), rchr CHR ''='',
           RGroup 2 (RAlt COUNT_RE (RAlt (rlit ''true'') (rlit ''false'')))]"

definition PSQL_TAGS :: "string list" where
  "PSQL_TAGS = [''BEGIN'', ''ROLLBACK'']"

definition identity_line :: "string \<Rightarrow> facts \<Rightarrow> string + facts" where
  "identity_line raw facts =
     (let line = strip raw in
      if line = [] \<or> line \<in> set PSQL_TAGS then Inr facts
      else case re_fullmatch IDENTITY_LINE_RE line of
        None \<Rightarrow> Inl ''the identity check printed a line that is not key=value''
      | Some c \<Rightarrow>
          (let key = group_text c 1; value = group_text c 2 in
           case map_of IDENTITY_KEYS key of
             None \<Rightarrow> Inl ''the identity check printed an unknown key''
           | Some kind \<Rightarrow>
               if dhas facts key then Inl ''the identity check printed a key twice''
               else if kind = ''bool'' then
                 (if value \<notin> {''true'', ''false''} then Inl ''the identity check printed a number where a flag belongs''
                  else Inr (dset facts key (FBool (value = ''true''))))
               else
                 (if value \<in> {''true'', ''false''} then Inl ''the identity check printed a flag where a count belongs''
                  else Inr (dset facts key (FInt (digits_val value))))))"

text \<open>The loop over the lines of a report: the first refused line ends it.\<close>

fun report_lines :: "(string \<Rightarrow> 'f \<Rightarrow> string + 'f) \<Rightarrow> string list \<Rightarrow> 'f \<Rightarrow> string + 'f" where
  "report_lines step [] facts = Inr facts"
| "report_lines step (raw # lines) facts =
     (case step raw facts of Inl reason \<Rightarrow> Inl reason | Inr facts' \<Rightarrow> report_lines step lines facts')"

definition parse_identity_output :: "string \<Rightarrow> string + facts" where
  "parse_identity_output text =
     (case report_lines identity_line (splitlines text) [] of
        Inl reason \<Rightarrow> Inl reason
      | Inr facts \<Rightarrow>
          if \<not> same_set (dkeys facts) (dkeys IDENTITY_KEYS)
          then Inl (fmt ''the identity check did not print all %d keys'' [show_nat (length IDENTITY_KEYS)])
          else Inr facts)"

text \<open>\<^verbatim>\<open>facts[key]\<close> raises KeyError for a missing key.\<close>

definition fact_true :: "fact \<Rightarrow> bool" where
  "fact_true f = (case f of FBool b \<Rightarrow> b | FInt n \<Rightarrow> n \<noteq> 0)"

definition fact_int :: "fact \<Rightarrow> int" where
  "fact_int f = (case f of FBool b \<Rightarrow> (if b then 1 else 0) | FInt n \<Rightarrow> n)"

definition EXPECTATIONS :: "(string \<times> bool \<times> string) list" where
  "EXPECTATIONS = [
     (''ssl_required_all'', True, ''the realm does not require TLS for every request''),
     (''events_enabled'', True, ''login events are off''),
     (''admin_events_enabled'', True, ''admin events are off''),
     (''admin_events_details_off'', True, ''admin event details are on (they would carry credentials)''),
     (''events_expiration_ok'', True, ''login event retention is not 90 days''),
     (''admin_events_expiration_ok'', True, ''admin event retention is not 90 days''),
     (''jboss_logging_listener'', False, ''the jboss-logging event listener is on (names and addresses would reach the container log)''),
     (''browser_flow_ok'', True, ''the browser flow is not decisya-browser''),
     (''level_2_admin_conditional'', True, ''the administrator second-factor step is not conditional (admin MFA is off)''),
     (''password_policy_ok'', True, ''the password policy lacks a required part''),
     (''bff_secret_unresolved'', False, ''the decisya-bff client secret holds an unresolved placeholder''),
     (''bff_secret_short'', False, ''the decisya-bff client secret is missing or shorter than 32 characters''),
     (''bff_redirect_unresolved'', False, ''a decisya-bff redirect URI holds a placeholder or a wildcard''),
     (''bff_logout_uris_unresolved'', False, ''a decisya-bff logout URI holds a placeholder or a wildcard'')]"

definition on_off :: "bool \<Rightarrow> string" where
  "on_off b = (if b then ''on'' else ''off'')"

definition expectation_problems :: "facts \<Rightarrow> string list option" where
  "expectation_problems facts =
     collect (\<lambda>(key, want, msg). map_option (\<lambda>f. msg_if (f \<noteq> FBool want) (fmt ''identity check: %s'' [msg])) (map_of facts key))
       EXPECTATIONS"

definition tripwire_problems :: "facts \<Rightarrow> string list option" where
  "tripwire_problems facts =
     do { count \<leftarrow> map_of facts ''users_without_synthetic'';
          tenant_mfa \<leftarrow> map_of facts ''level_2_tenant_conditional'';
          breached \<leftarrow> map_of facts ''breached_list_in_policy'';
          Some (msg_if (0 < fact_int count \<and> \<not> (fact_true tenant_mfa \<and> fact_true breached))
            (fmt ''identity check: %d user(s) without synthetic=true while a C-02 switch is off (tenant MFA %s, breached-password list %s); see the go-live gate''
               [show_int (fact_int count), on_off (fact_true tenant_mfa), on_off (fact_true breached)])) }"

definition master_problems :: "facts \<Rightarrow> bool \<Rightarrow> string list option" where
  "master_problems facts bootstrap_retired =
     (if \<not> bootstrap_retired then Some []
      else do { otp \<leftarrow> map_of facts ''master_users_without_otp'';
                brute \<leftarrow> map_of facts ''master_brute_force_ok'';
                Some (msg_if (0 < fact_int otp)
                  (fmt ''identity check: %d master-realm user(s) or service account(s) without an OTP credential after the bootstrap secret was retired''
                     [show_int (fact_int otp)])
                  @ msg_if (\<not> fact_true brute) ''identity check: master realm brute-force detection is off'') })"

definition identity_problems :: "facts \<Rightarrow> bool \<Rightarrow> string list option" where
  "identity_problems facts bootstrap_retired =
     do { present \<leftarrow> map_of facts ''realm_present'';
          both
            (if \<not> fact_true present
             then Some [''identity check: realm decisya is missing (Keycloak has not imported it yet, or its database was recreated)'']
             else both (expectation_problems facts) (tripwire_problems facts))
            (master_problems facts bootstrap_retired) }"


section \<open>The SQL file of the identity check\<close>

definition rword :: rx where
  "rword = RSet is_word"

text \<open>\<^verbatim>\<open>stem\w*\<close>, ignoring case.\<close>

definition rstem :: "string \<Rightarrow> rx" where
  "rstem w = RSeq (rlit_ci w) (RStar rword)"

definition SQL_FORBIDDEN_RE :: rx where
  "SQL_FORBIDDEN_RE =
     rseq [RWordB,
       RGroup 1 (ralt (
         [rlit_ci ''copy'', rlit_ci ''program'', rlit_ci ''set_config'', rstem ''lo_'', rstem ''pg_read'', rstem ''pg_write'',
          rstem ''pg_terminate'', rstem ''pg_reload'', rstem ''pg_ls'', rlit_ci ''pg_stat_file'', rstem ''pg_cancel'',
          rstem ''pg_sleep'', rstem ''dblink'']
         @ map rlit_ci [''insert'', ''update'', ''delete'', ''drop'', ''alter'', ''create'', ''grant'', ''revoke'', ''truncate'',
            ''vacuum'', ''call'', ''do'', ''execute'', ''listen'', ''notify'', ''lock'', ''load'', ''set'', ''reset'', ''username'',
            ''email'', ''first_name'', ''last_name''])),
       RWordB]"

definition SQL_KEY_RE :: rx where
  "SQL_KEY_RE =
     rseq [rchr CHR ''('', RStar rspace, rplus rdigit, RStar rspace, rchr CHR '','', RStar rspace, rchr CHR 0x27,
           RGroup 1 (rplus (RSet is_ident_char)), rchr CHR ''='', rchr CHR 0x27]"

definition SQL_COMMENT_RE :: rx where
  "SQL_COMMENT_RE = rseq [rlit ''--'', RStar rdot, REol]"

definition SQL_STRING_RE :: rx where
  "SQL_STRING_RE =
     rseq [rchr CHR 0x27, RStar (RAlt (RSet (\<lambda>c. c \<noteq> CHR 0x27)) (RSeq (rchr CHR 0x27) (rchr CHR 0x27))), rchr CHR 0x27]"

definition SPACES_RE :: rx where
  "SPACES_RE = rplus rspace"

definition SQL_SELECT_RE :: rx where
  "SQL_SELECT_RE = rseq [rlit_ci ''SELECT t.line FROM ('', ropt (rchr CHR '' ''), rlit_ci ''VALUES'', RWordB]"

definition sql_statements :: "string \<Rightarrow> string list" where
  "sql_statements code =
     map (\<lambda>s. strip (re_sub_const SPACES_RE '' '' s)) (filter (\<lambda>s. strip s \<noteq> []) (split_on '';'' code))"

definition sql_shape_ok :: "string list \<Rightarrow> bool" where
  "sql_shape_ok statements =
     (case statements of
        [a, b, c] \<Rightarrow> upper a = ''BEGIN TRANSACTION READ ONLY'' \<and> upper c = ''ROLLBACK'' \<and> matches SQL_SELECT_RE b
      | _ \<Rightarrow> False)"

definition identity_sql_problems :: "string \<Rightarrow> string list" where
  "identity_sql_problems text =
     (let no_comments = join [NL] (map (re_sub_const SQL_COMMENT_RE '''') (splitlines text));
          code = re_sub_const SQL_STRING_RE [CHR 0x27, CHR 0x27] no_comments
      in msg_if (py_in ''/*'' no_comments) ''identity-check.sql: block comments are not allowed''
         @ msg_if (re_findall1 SQL_KEY_RE no_comments \<noteq> dkeys IDENTITY_KEYS)
             (''identity-check.sql: the printed keys differ from the parser'' @ [CHR 0x27] @ ''s list'')
         @ msg_if (char_of (92::nat) \<in> set code) ''identity-check.sql: a backslash (a psql meta-command) is not allowed''
         @ msg_if (\<not> sql_shape_ok (sql_statements code))
             ''identity-check.sql: must be BEGIN TRANSACTION READ ONLY, one SELECT of t.line over VALUES, then ROLLBACK''
         @ map (\<lambda>w. fmt ''identity-check.sql: the word %s is not allowed'' [w])
             (sorted_set (map lower (re_findall1 SQL_FORBIDDEN_RE code))))"


section \<open>The key ring\<close>

definition is_xml_name :: "char \<Rightarrow> bool" where
  "is_xml_name c \<longleftrightarrow> is_alnum_ascii c \<or> c = CHR ''_'' \<or> c = CHR ''.'' \<or> c = CHR ''-''"

definition xml_prefix :: rx where
  "xml_prefix = ropt (RGroup 1 (RSeq (rplus (RSet is_xml_name)) (rchr CHR '':'')))"

definition KEYRING_PLAINTEXT_PATTERN :: rx where
  "KEYRING_PLAINTEXT_PATTERN = ralt (map rlit_ci [''masterKey'', ''unencryptedKey''])"

definition KEYRING_SECRET_PATTERN :: rx where
  "KEYRING_SECRET_PATTERN = rseq [rchr CHR ''<'', xml_prefix, rlit_ci ''encryptedSecret'']"

definition KEYRING_REVOCATION_PATTERN :: rx where
  "KEYRING_REVOCATION_PATTERN = rseq [rlit ''<revocation'', RSet (\<lambda>c. c \<in> {CHR '' '', CHR ''>'', CHR ''/''})]"

definition KEYRING_DECRYPTOR_PATTERN :: rx where
  "KEYRING_DECRYPTOR_PATTERN =
     rseq [rlit (''decryptorType='' @ [CHR 0x22] @ ''Microsoft.AspNetCore.DataProtection.XmlEncryption.EncryptedXmlDecryptor''),
           RSet (\<lambda>c. c \<in> {CHR '','', CHR 0x22})]"

definition KEYRING_ENCRYPTED_DATA_PATTERN :: rx where
  "KEYRING_ENCRYPTED_DATA_PATTERN = rseq [rchr CHR ''<'', xml_prefix, rlit ''EncryptedData'']"

definition keyring_file_problem :: "string \<Rightarrow> string option" where
  "keyring_file_problem text =
     (let opened = length (re_finditer KEYRING_SECRET_PATTERN text) in
      if searches KEYRING_PLAINTEXT_PATTERN text then Some ''holds plaintext key material''
      else if opened = 0 then
        (if searches KEYRING_REVOCATION_PATTERN text then None else Some ''holds no encrypted secret'')
      else if opened \<noteq> 1 then Some ''holds more than one encrypted secret''
      else if \<not> searches KEYRING_DECRYPTOR_PATTERN text then Some ''is not wrapped by the certificate decryptor''
      else if \<not> searches KEYRING_ENCRYPTED_DATA_PATTERN text then Some ''holds no EncryptedData''
      else None)"

definition KEYRING_REPORT_KEYS :: "string list" where
  "KEYRING_REPORT_KEYS = [''refused_entries'', ''xml_files'', ''xml_ok'', ''xml_failing'', ''other_files'', ''wrong_owner'', ''wrong_mode'']"

definition is_report_char :: "char \<Rightarrow> bool" where
  "is_report_char c \<longleftrightarrow> is_lower_az c \<or> c = CHR ''_''"

definition KEYRING_LINE_RE :: rx where
  "KEYRING_LINE_RE = rseq [RGroup 1 (rplus (RSet is_report_char)), rchr CHR ''='', RGroup 2 COUNT_RE]"

type_synonym counts = "(string \<times> int) list"

definition keyring_line :: "string \<Rightarrow> counts \<Rightarrow> string + counts" where
  "keyring_line raw facts =
     (let line = strip raw in
      if line = [] then Inr facts
      else case re_fullmatch KEYRING_LINE_RE line of
        None \<Rightarrow> Inl ''the key-ring check printed a line that is not key=value''
      | Some c \<Rightarrow>
          (let key = group_text c 1; value = group_text c 2 in
           if key \<notin> set KEYRING_REPORT_KEYS then Inl ''the key-ring check printed an unknown key''
           else if dhas facts key then Inl ''the key-ring check printed a key twice''
           else Inr (dset facts key (digits_val value))))"

definition parse_keyring_report :: "string \<Rightarrow> string + counts" where
  "parse_keyring_report text =
     (case report_lines keyring_line (splitlines text) [] of
        Inl reason \<Rightarrow> Inl reason
      | Inr facts \<Rightarrow>
          if \<not> same_set (dkeys facts) KEYRING_REPORT_KEYS
          then Inl (fmt ''the key-ring check did not print all %d keys'' [show_nat (length KEYRING_REPORT_KEYS)])
          else Inr facts)"

definition keyring_problems :: "counts \<Rightarrow> string list option" where
  "keyring_problems facts =
     do { refused \<leftarrow> map_of facts ''refused_entries'';
          failing \<leftarrow> map_of facts ''xml_failing'';
          wrong_owner \<leftarrow> map_of facts ''wrong_owner'';
          wrong_mode \<leftarrow> map_of facts ''wrong_mode'';
          Some (msg_if (0 < refused)
                  (fmt ''key ring: %d entr(y/ies) are neither a file nor a folder (a link, pipe, socket or device); inspect the volume by hand''
                     [show_int refused])
                @ msg_if (0 < failing)
                    (fmt ''key ring: %d key file(s) are plaintext or not wrapped by the certificate; run `keyring reset --confirm` (everyone signs in again)''
                       [show_int failing])
                @ msg_if (0 < wrong_owner \<or> 0 < wrong_mode)
                    (fmt ''key ring: %d entr(y/ies) have the wrong owner and %d the wrong mode; run `keyring prepare`''
                       [show_int wrong_owner, show_int wrong_mode])) }"


section \<open>The scope of the production realm's name\<close>

definition REALM_SCOPE_EXACT :: "string list" where
  "REALM_SCOPE_EXACT = [''deploy/compose/stackctl.py'', ''deploy/compose/stackguards.py'', ''deploy/compose/docker-compose.stack.yaml'']"

definition REALM_SCOPE_PREFIXES :: "string list" where
  "REALM_SCOPE_PREFIXES = [''deploy/tests/'', ''tests/'', ''docs/'']"

definition APPHOST_PREFIX :: string where
  "APPHOST_PREFIX = ''src/decisya.apphost/''"

definition realm_scope_problems :: "string \<Rightarrow> string \<Rightarrow> string list" where
  "realm_scope_problems relative_path text =
     (let path = map (\<lambda>c. if ccode c = 92 then CHR ''/'' else c) relative_path in
      if \<not> py_in REALM_FILE_NAME (lower text) then []
      else if py_startswith (lower path) APPHOST_PREFIX
        then [fmt ''%s: the production realm file name must never appear under src/Decisya.AppHost/**'' [path]]
      else if path \<in> set REALM_SCOPE_EXACT \<or> list_ex (py_startswith path) REALM_SCOPE_PREFIXES \<or> py_endswith (lower path) ''.md''
        then []
      else [fmt ''%s: names the production realm file outside the places the architecture note allows (D1 h)'' [path]])"


section \<open>The contract of a report parser\<close>

locale report_parser =
  fixes step :: "string \<Rightarrow> (string \<times> 'v) list \<Rightarrow> string + (string \<times> 'v) list"
    and keys :: "string list"
    and ok :: "string \<Rightarrow> 'v \<Rightarrow> bool"
    and line_of :: "string \<Rightarrow> 'v \<Rightarrow> string"
  assumes step_sound: "step raw facts = Inr facts' \<Longrightarrow>
      facts' = facts \<or> (\<exists>k v. k \<in> set keys \<and> ok k v \<and> \<not> dhas facts k \<and> facts' = facts @ [(k, v)])"
    and step_line: "k \<in> set keys \<Longrightarrow> ok k v \<Longrightarrow> \<not> dhas facts k \<Longrightarrow> step (line_of k v) facts = Inr (facts @ [(k, v)])"
    and line_clean: "k \<in> set keys \<Longrightarrow> ok k v \<Longrightarrow> \<forall>c\<in>set (line_of k v). \<not> is_line_break c"
begin

lemma lines_sound:
  assumes "report_lines step lines facts = Inr facts'" and "distinct (dkeys facts)"
    and "\<forall>(k, v)\<in>set facts. k \<in> set keys \<and> ok k v"
  shows "distinct (dkeys facts') \<and> (\<forall>(k, v)\<in>set facts'. k \<in> set keys \<and> ok k v)"
  using assms
proof (induction lines arbitrary: facts)
  case (Cons raw lines)
  then obtain facts1 where s: "step raw facts = Inr facts1" "report_lines step lines facts1 = Inr facts'"
    by (auto split: sum.splits)
  have "distinct (dkeys facts1)" "\<forall>(k, v)\<in>set facts1. k \<in> set keys \<and> ok k v"
    using step_sound [OF s(1)] Cons.prems(2,3) by (auto simp: dkeys_def dhas_iff)
  with Cons.IH [OF s(2)] show ?case by blast
qed auto

lemma lines_complete:
  assumes "distinct (dkeys (facts @ new))" and "\<forall>(k, v)\<in>set new. k \<in> set keys \<and> ok k v"
  shows "report_lines step (map (\<lambda>(k, v). line_of k v) new) facts = Inr (facts @ new)"
  using assms
proof (induction new arbitrary: facts)
  case (Cons e new)
  obtain k v where e: "e = (k, v)" by (cases e)
  with Cons.prems have "step (line_of k v) facts = Inr (facts @ [(k, v)])"
    by (intro step_line) (auto simp: dhas_iff dkeys_def)
  with Cons.IH [of "facts @ [e]"] Cons.prems e show ?case by simp
qed simp

lemma text_complete:
  assumes "distinct (dkeys facts)" and "\<forall>(k, v)\<in>set facts. k \<in> set keys \<and> ok k v"
  shows "report_lines step (splitlines (unlines (map (\<lambda>(k, v). line_of k v) facts))) [] = Inr facts"
proof -
  have "splitlines (unlines (map (\<lambda>(k, v). line_of k v) facts)) = map (\<lambda>(k, v). line_of k v) facts"
    using assms(2) line_clean by (intro splitlines_unlines) fastforce
  with lines_complete [of "[]" facts] assms show ?thesis by simp
qed

lemma complete_lookup:
  assumes "report_lines step lines [] = Inr facts" and "set (dkeys facts) = set keys" and "k \<in> set keys"
  obtains v where "map_of facts k = Some v" "ok k v"
proof -
  from assms have "dhas facts k" by (simp add: dhas_iff)
  then obtain v where v: "map_of facts k = Some v" by (auto simp: dhas_def)
  moreover have "ok k v" using lines_sound [OF assms(1)] map_of_SomeD [OF v] by (auto simp: dkeys_def)
  ultimately show ?thesis by (rule that)
qed

end


section \<open>Counts\<close>

lemma nonzero_digit: "is_digit c \<and> c \<noteq> CHR ''0'' \<longleftrightarrow> is_nonzero_digit c"
proof -
  have "c \<noteq> CHR ''0'' \<longleftrightarrow> ccode c \<noteq> 48"
  proof -
    have "ccode CHR ''0'' = 48" by (simp add: ccode_def)
    moreover have "ccode c = ccode d \<Longrightarrow> c = d" for d by (simp add: ccode_def)
    ultimately show ?thesis by metis
  qed
  then show ?thesis by (auto simp: is_digit_def is_nonzero_digit_def in_range_def)
qed

lemma plain_COUNT [simp]: "plain COUNT_RE" "groupless COUNT_RE"
  by (simp_all add: COUNT_RE_def)

lemma COUNT_digits: "v \<in> rlang COUNT_RE \<Longrightarrow> v \<noteq> [] \<and> length v \<le> 9 \<and> (\<forall>c\<in>set v. is_digit c)"
proof -
  assume "v \<in> rlang COUNT_RE"
  then consider "v = ''0''" | c s where "v = c # s" "is_nonzero_digit c" "length s \<le> 8" "\<forall>x\<in>set s. is_digit x"
    by (auto simp: COUNT_RE_def rdigit_def)
  then show ?thesis
  proof cases
    case 1
    then show ?thesis by (simp add: is_digit_def in_range_def ccode_def)
  next
    case 2
    then show ?thesis using nonzero_digit by auto
  qed
qed

lemma COUNT_value: "v \<in> rlang COUNT_RE \<Longrightarrow> 0 \<le> digits_val v \<and> digits_val v < 10 ^ 9"
  using COUNT_digits [of v] digits_val_bound [of v] power_increasing [of "length v" 9 "10 :: int"] by linarith

lemma COUNT_show: "n < 10 ^ 9 \<Longrightarrow> show_nat n \<in> rlang COUNT_RE"
proof (cases "n = 0")
  case True
  moreover have "show_nat 0 = ''0''" by code_simp
  ultimately have "show_nat n = ''0''" by simp
  then show ?thesis by (simp add: COUNT_RE_def)
next
  case False
  assume n: "n < 10 ^ 9"
  obtain c s where cs: "show_nat n = c # s" using show_nat_nonempty [of n] by (cases "show_nat n") auto
  have "is_nonzero_digit c" using show_nat_digits [of n] show_nat_no_leading_zero [of n] False cs nonzero_digit by auto
  moreover have "length s \<le> 8" using length_show_nat [of n 8] n cs by simp
  moreover have "\<forall>x\<in>set s. is_digit x" using show_nat_digits [of n] cs by simp
  ultimately show ?thesis using cs by (simp add: COUNT_RE_def rdigit_def del: rlang.simps(3))
qed


section \<open>The two parsers\<close>

definition fact_ok :: "string \<Rightarrow> fact \<Rightarrow> bool" where
  "fact_ok key f \<longleftrightarrow>
     (case f of FBool b \<Rightarrow> map_of IDENTITY_KEYS key = Some ''bool''
      | FInt n \<Rightarrow> map_of IDENTITY_KEYS key = Some ''int'' \<and> 0 \<le> n \<and> n < 10 ^ 9)"

definition show_fact :: "fact \<Rightarrow> string" where
  "show_fact f = (case f of FBool b \<Rightarrow> (if b then ''true'' else ''false'') | FInt n \<Rightarrow> show_int n)"

definition fact_line :: "string \<Rightarrow> fact \<Rightarrow> string" where
  "fact_line key f = key @ ''='' @ show_fact f"

definition count_ok :: "string \<Rightarrow> int \<Rightarrow> bool" where
  "count_ok key n \<longleftrightarrow> 0 \<le> n \<and> n < 10 ^ 9"

definition count_line :: "string \<Rightarrow> int \<Rightarrow> string" where
  "count_line key n = key @ ''='' @ show_int n"

definition FLAG_RE :: rx where
  "FLAG_RE = RAlt COUNT_RE (RAlt (rlit ''true'') (rlit ''false''))"

text \<open>A pattern \<^verbatim>\<open>(key)=(value)\<close> whose key class does not hold the equals sign.\<close>

definition KV_RE :: "(char \<Rightarrow> bool) \<Rightarrow> rx \<Rightarrow> rx" where
  "KV_RE P r = rseq [RGroup 1 (rplus (RSet P)), rchr CHR ''='', RGroup 2 r]"

lemma KV_RE_Some:
  assumes "re_fullmatch (KV_RE P r) line = Some c" and "groupless r"
  shows "line = group_text c 1 @ CHR ''='' # group_text c 2 \<and> group_text c 1 \<noteq> []
     \<and> (\<forall>x\<in>set (group_text c 1). P x) \<and> group_text c 2 \<in> rlang r"
proof -
  obtain d where d: "c = (0, line) # d" "(line, d) \<in> rcaps (KV_RE P r)" using assms(1) by (rule re_fullmatch_caps)
  with assms(2) show ?thesis by (auto simp: KV_RE_def rcaps_groupless group_text_def)
qed

lemma KV_RE_match:
  assumes "k \<noteq> []" "\<forall>x\<in>set k. P x" "v \<in> rlang r" "plain r" "groupless r" "\<not> P CHR ''=''" 
  obtains c where "re_fullmatch (KV_RE P r) (k @ ''='' @ v) = Some c" "group_text c 1 = k" "group_text c 2 = v"
proof -
  have "plain (KV_RE P r)" using assms by (simp add: KV_RE_def)
  moreover have "k @ ''='' @ v @ [] \<in> rlang (KV_RE P r)"
    unfolding KV_RE_def rseq.simps using assms by (intro rlang_RSeqI) auto
  ultimately obtain c where c: "re_fullmatch (KV_RE P r) (k @ ''='' @ v) = Some c"
    by (metis append_Nil2 not_None_eq re_fullmatch_None)
  from KV_RE_Some [OF c assms(5)] have k2: "k @ CHR ''='' # v = group_text c 1 @ CHR ''='' # group_text c 2"
      "\<forall>x\<in>set (group_text c 1). P x" by auto
  with assms(2,6) have "CHR ''='' \<notin> set k" "CHR ''='' \<notin> set (group_text c 1)" by auto
  with k2 have "group_text c 1 = k \<and> group_text c 2 = v" by (metis cut_at_char option.inject prod.inject)
  with c that show ?thesis by blast
qed

lemma IDENTITY_LINE_KV: "IDENTITY_LINE_RE = KV_RE is_ident_char FLAG_RE"
  by (simp add: IDENTITY_LINE_RE_def KV_RE_def FLAG_RE_def)

lemma KEYRING_LINE_KV: "KEYRING_LINE_RE = KV_RE is_report_char COUNT_RE"
  by (simp add: KEYRING_LINE_RE_def KV_RE_def)

lemma plain_FLAG [simp]: "plain FLAG_RE" "groupless FLAG_RE"
  by (simp_all add: FLAG_RE_def)

lemma flag_cases: "v \<in> rlang FLAG_RE \<longleftrightarrow> v \<in> rlang COUNT_RE \<or> v = ''true'' \<or> v = ''false''"
  by (auto simp: FLAG_RE_def)

lemma not_eq_sign: "\<not> is_ident_char CHR ''=''" "\<not> is_report_char CHR ''=''"
  by (simp_all add: is_ident_char_def is_report_char_def is_lower_az_def is_digit_def in_range_def ccode_def)

lemma word_char_clean: "is_ident_char c \<or> is_report_char c \<or> is_digit c \<Longrightarrow> \<not> is_line_break c \<and> \<not> is_space c"
  by (auto simp: is_ident_char_def is_report_char_def is_lower_az_def is_digit_def in_range_def ccode_def
      is_line_break_def is_space_def)

lemma flag_clean: "v \<in> rlang FLAG_RE \<Longrightarrow> \<forall>c\<in>set v. \<not> is_line_break c \<and> \<not> is_space c"
proof -
  assume "v \<in> rlang FLAG_RE"
  then consider "v \<in> rlang COUNT_RE" | "v = ''true'' \<or> v = ''false''" by (auto simp: flag_cases)
  then show ?thesis
  proof cases
    case 1
    then show ?thesis using COUNT_digits word_char_clean by blast
  next
    case 2
    have "list_all (\<lambda>c. \<not> is_line_break c \<and> \<not> is_space c) ''true''" "list_all (\<lambda>c. \<not> is_line_break c \<and> \<not> is_space c) ''false''"
      by code_simp+
    with 2 show ?thesis unfolding list_all_iff by blast
  qed
qed

lemma kv_line_clean:
  assumes "k \<noteq> []" "\<forall>x\<in>set k. is_ident_char x \<or> is_report_char x" "v \<in> rlang FLAG_RE"
  shows "\<forall>c\<in>set (k @ ''='' @ v). \<not> is_line_break c" "strip (k @ ''='' @ v) = k @ ''='' @ v"
proof -
  have "\<forall>c\<in>set (k @ ''='' @ v). \<not> is_line_break c \<and> \<not> is_space c"
  proof
    fix c assume "c \<in> set (k @ ''='' @ v)"
    then consider "c \<in> set k" | "c = CHR ''=''" | "c \<in> set v" by auto
    then show "\<not> is_line_break c \<and> \<not> is_space c"
    proof cases
      case 2
      then show ?thesis by (simp add: is_line_break_def is_space_def in_range_def ccode_def)
    qed (use assms word_char_clean flag_clean in blast)+
  qed
  then show "\<forall>c\<in>set (k @ ''='' @ v). \<not> is_line_break c" "strip (k @ ''='' @ v) = k @ ''='' @ v"
    by (auto intro!: strip_no_space simp: list_all_iff)
qed

lemma identity_keys_ok: "k \<in> set (dkeys IDENTITY_KEYS) \<Longrightarrow> k \<noteq> [] \<and> (\<forall>x\<in>set k. is_ident_char x)"
proof -
  have "list_all (\<lambda>k. k \<noteq> [] \<and> list_all is_ident_char k) (dkeys IDENTITY_KEYS)" by code_simp
  then show "k \<in> set (dkeys IDENTITY_KEYS) \<Longrightarrow> k \<noteq> [] \<and> (\<forall>x\<in>set k. is_ident_char x)" by (simp add: list_all_iff)
qed

lemma report_keys_ok: "k \<in> set KEYRING_REPORT_KEYS \<Longrightarrow> k \<noteq> [] \<and> (\<forall>x\<in>set k. is_report_char x)"
proof -
  have "list_all (\<lambda>k. k \<noteq> [] \<and> list_all is_report_char k) KEYRING_REPORT_KEYS" by code_simp
  then show "k \<in> set KEYRING_REPORT_KEYS \<Longrightarrow> k \<noteq> [] \<and> (\<forall>x\<in>set k. is_report_char x)" by (simp add: list_all_iff)
qed

lemma show_int_count: "0 \<le> n \<Longrightarrow> n < 10 ^ 9 \<Longrightarrow> show_int n \<in> rlang COUNT_RE \<and> digits_val (show_int n) = n"
  using COUNT_show [of "nat n"] by (simp add: show_int_def nat_less_iff)

lemma count_not_flag: "v \<in> rlang COUNT_RE \<Longrightarrow> v \<noteq> ''true'' \<and> v \<noteq> ''false''"
  using COUNT_digits [of v] by (auto simp: is_digit_def in_range_def ccode_def)

lemma identity_kinds: "map_of IDENTITY_KEYS k = Some kind \<Longrightarrow> kind \<in> {''bool'', ''int''} \<and> k \<in> set (dkeys IDENTITY_KEYS)"
proof -
  assume a: "map_of IDENTITY_KEYS k = Some kind"
  have "list_all (\<lambda>(k, kind). kind \<in> {''bool'', ''int''}) IDENTITY_KEYS" by code_simp
  with map_of_SomeD [OF a] show ?thesis by (force simp: list_all_iff dkeys_def)
qed

lemma identity_step_sound:
  assumes "identity_line raw facts = Inr facts'"
  shows "facts' = facts \<or> (\<exists>k v. k \<in> set (dkeys IDENTITY_KEYS) \<and> fact_ok k v \<and> \<not> dhas facts k \<and> facts' = facts @ [(k, v)])"
proof (cases "strip raw = [] \<or> strip raw \<in> set PSQL_TAGS")
  case True
  with assms show ?thesis by (auto simp: identity_line_def Let_def)
next
  case False
  with assms obtain c kind where c: "re_fullmatch IDENTITY_LINE_RE (strip raw) = Some c"
      "map_of IDENTITY_KEYS (group_text c 1) = Some kind" "\<not> dhas facts (group_text c 1)"
    by (auto simp: identity_line_def Let_def split: option.splits if_splits)
  let ?k = "group_text c 1" and ?v = "group_text c 2"
  from KV_RE_Some [OF c(1) [unfolded IDENTITY_LINE_KV]] have v: "?v \<in> rlang FLAG_RE" by simp
  from identity_kinds [OF c(2)] have k: "kind = ''bool'' \<or> kind = ''int''" "?k \<in> set (dkeys IDENTITY_KEYS)" by auto
  have "\<exists>f. fact_ok ?k f \<and> facts' = dset facts ?k f"
  proof (cases "kind = ''bool''")
    case True
    with assms False c have "facts' = dset facts ?k (FBool (?v = ''true''))"
      by (auto simp: identity_line_def Let_def split: if_splits)
    moreover have "fact_ok ?k (FBool (?v = ''true''))" using c True by (simp add: fact_ok_def)
    ultimately show ?thesis by blast
  next
    case kind: False
    with assms False c have "facts' = dset facts ?k (FInt (digits_val ?v)) \<and> ?v \<notin> {''true'', ''false''}"
      by (auto simp: identity_line_def Let_def split: if_splits)
    moreover from this v COUNT_value [of ?v] kind k c have "fact_ok ?k (FInt (digits_val ?v))"
      by (auto simp: fact_ok_def flag_cases)
    ultimately show ?thesis by blast
  qed
  with k c show ?thesis by (auto simp: dset_absent)
qed

lemma show_fact_flag: "fact_ok k f \<Longrightarrow> show_fact f \<in> rlang FLAG_RE"
  using show_int_count by (auto simp: fact_ok_def show_fact_def flag_cases split: fact.splits)

lemma identity_step_line:
  assumes "k \<in> set (dkeys IDENTITY_KEYS)" "fact_ok k f" "\<not> dhas facts k"
  shows "identity_line (fact_line k f) facts = Inr (facts @ [(k, f)])"
proof -
  note ko = identity_keys_ok [OF assms(1)] and v = show_fact_flag [OF assms(2)]
  obtain c where c: "re_fullmatch IDENTITY_LINE_RE (k @ ''='' @ show_fact f) = Some c" "group_text c 1 = k" "group_text c 2 = show_fact f"
    unfolding IDENTITY_LINE_KV by (rule KV_RE_match [of k is_ident_char "show_fact f" FLAG_RE]) (use ko v not_eq_sign in auto)
  have st: "strip (fact_line k f) = k @ ''='' @ show_fact f" unfolding fact_line_def using kv_line_clean(2) ko v by blast
  have tags: "k @ ''='' @ show_fact f \<notin> set PSQL_TAGS" by (auto simp: PSQL_TAGS_def append_eq_Cons_conv Cons_eq_append_conv)
  have "f = FBool (show_fact f = ''true'') \<and> show_fact f \<in> {''true'', ''false''}" if "map_of IDENTITY_KEYS k = Some ''bool''"
    using assms(2) that by (auto simp: fact_ok_def show_fact_def split: fact.splits)
  moreover have "f = FInt (digits_val (show_fact f)) \<and> show_fact f \<notin> {''true'', ''false''}" if "map_of IDENTITY_KEYS k = Some ''int''"
    using assms(2) that show_int_count count_not_flag by (auto simp: fact_ok_def show_fact_def split: fact.splits)
  moreover obtain kind where kind: "map_of IDENTITY_KEYS k = Some kind" "kind = ''bool'' \<or> kind = ''int''"
    using assms(2) by (auto simp: fact_ok_def split: fact.splits)
  ultimately show ?thesis using ko c tags assms(3)
    by (auto simp: identity_line_def Let_def st dset_absent)
qed

interpretation identity: report_parser identity_line "dkeys IDENTITY_KEYS" fact_ok fact_line
proof unfold_locales
  show "\<forall>c\<in>set (fact_line k v). \<not> is_line_break c" if "k \<in> set (dkeys IDENTITY_KEYS)" "fact_ok k v" for k v
    unfolding fact_line_def using kv_line_clean(1) identity_keys_ok [OF that(1)] show_fact_flag [OF that(2)] by blast
qed (use identity_step_sound identity_step_line in auto)

lemma keyring_step_sound:
  assumes "keyring_line raw facts = Inr facts'"
  shows "facts' = facts \<or> (\<exists>k v. k \<in> set KEYRING_REPORT_KEYS \<and> count_ok k v \<and> \<not> dhas facts k \<and> facts' = facts @ [(k, v)])"
proof (cases "strip raw = []")
  case False
  with assms obtain c where c: "re_fullmatch KEYRING_LINE_RE (strip raw) = Some c" "group_text c 1 \<in> set KEYRING_REPORT_KEYS"
      "\<not> dhas facts (group_text c 1)" "facts' = dset facts (group_text c 1) (digits_val (group_text c 2))"
    by (auto simp: keyring_line_def Let_def split: option.splits if_splits)
  from KV_RE_Some [OF c(1) [unfolded KEYRING_LINE_KV]] have "group_text c 2 \<in> rlang COUNT_RE" by simp
  from COUNT_value [OF this] c show ?thesis by (auto simp: dset_absent count_ok_def)
qed (use assms in \<open>auto simp: keyring_line_def\<close>)

lemma keyring_step_line:
  assumes "k \<in> set KEYRING_REPORT_KEYS" "count_ok k n" "\<not> dhas facts k"
  shows "keyring_line (count_line k n) facts = Inr (facts @ [(k, n)])"
proof -
  have v: "show_int n \<in> rlang COUNT_RE" "digits_val (show_int n) = n" using show_int_count assms(2) by (auto simp: count_ok_def)
  note ko = report_keys_ok [OF assms(1)]
  obtain c where c: "re_fullmatch KEYRING_LINE_RE (k @ ''='' @ show_int n) = Some c" "group_text c 1 = k" "group_text c 2 = show_int n"
    unfolding KEYRING_LINE_KV by (rule KV_RE_match [of k is_report_char "show_int n" COUNT_RE]) (use ko v not_eq_sign in auto)
  have st: "strip (count_line k n) = k @ ''='' @ show_int n" unfolding count_line_def using kv_line_clean(2) ko v by (auto simp: flag_cases)
  show ?thesis using ko c assms v by (auto simp: keyring_line_def Let_def st dset_absent)
qed

interpretation keyring: report_parser keyring_line KEYRING_REPORT_KEYS count_ok count_line
proof unfold_locales
  show "\<forall>c\<in>set (count_line k n). \<not> is_line_break c" if "k \<in> set KEYRING_REPORT_KEYS" "count_ok k n" for k n
    unfolding count_line_def using kv_line_clean(1) report_keys_ok [OF that(1)] show_int_count that(2)
    by (metis count_ok_def flag_cases)
qed (use keyring_step_sound keyring_step_line in auto)


section \<open>What the reports guarantee\<close>

lemma parse_identity_Inr:
  "parse_identity_output text = Inr facts \<longleftrightarrow>
     report_lines identity_line (splitlines text) [] = Inr facts \<and> set (dkeys facts) = set (dkeys IDENTITY_KEYS)"
  by (auto simp: parse_identity_output_def split: sum.splits)

lemma parse_keyring_Inr:
  "parse_keyring_report text = Inr facts \<longleftrightarrow>
     report_lines keyring_line (splitlines text) [] = Inr facts \<and> set (dkeys facts) = set KEYRING_REPORT_KEYS"
  by (auto simp: parse_keyring_report_def split: sum.splits)

definition is_flag :: "facts \<Rightarrow> string \<Rightarrow> bool \<Rightarrow> bool" where
  "is_flag facts key b \<longleftrightarrow> map_of facts key = Some (FBool b)"

definition is_count :: "facts \<Rightarrow> string \<Rightarrow> int \<Rightarrow> bool" where
  "is_count facts key n \<longleftrightarrow> map_of facts key = Some (FInt n)"

definition identity_healthy :: "facts \<Rightarrow> bool \<Rightarrow> bool" where
  "identity_healthy facts bootstrap_retired \<longleftrightarrow>
     is_flag facts ''realm_present'' True
     \<and> (\<forall>(key, want, msg)\<in>set EXPECTATIONS. is_flag facts key want)
     \<and> (is_count facts ''users_without_synthetic'' 0
        \<or> is_flag facts ''level_2_tenant_conditional'' True \<and> is_flag facts ''breached_list_in_policy'' True)
     \<and> (bootstrap_retired \<longrightarrow> is_count facts ''master_users_without_otp'' 0 \<and> is_flag facts ''master_brute_force_ok'' True)"

lemma identity_fact:
  assumes "parse_identity_output text = Inr facts" and "map_of IDENTITY_KEYS key = Some kind"
  shows "kind = ''bool'' \<Longrightarrow> \<exists>b. map_of facts key = Some (FBool b)"
    and "kind = ''int'' \<Longrightarrow> \<exists>n\<ge>0. map_of facts key = Some (FInt n)"
proof -
  from identity_kinds [OF assms(2)] have "key \<in> set (dkeys IDENTITY_KEYS)" by simp
  then obtain f where "map_of facts key = Some f" "fact_ok key f"
    by (rule identity.complete_lookup [OF conjunct1 conjunct2, OF assms(1) [unfolded parse_identity_Inr] assms(1) [unfolded parse_identity_Inr]])
  with assms(2) show "kind = ''bool'' \<Longrightarrow> \<exists>b. map_of facts key = Some (FBool b)" "kind = ''int'' \<Longrightarrow> \<exists>n\<ge>0. map_of facts key = Some (FInt n)"
    by (auto simp: fact_ok_def split: fact.splits)
qed

lemma expectation_keys: "(key, want, msg) \<in> set EXPECTATIONS \<Longrightarrow> map_of IDENTITY_KEYS key = Some ''bool''"
proof -
  have "list_all (\<lambda>(key, want, msg). map_of IDENTITY_KEYS key = Some ''bool'') EXPECTATIONS" by code_simp
  then show "(key, want, msg) \<in> set EXPECTATIONS \<Longrightarrow> map_of IDENTITY_KEYS key = Some ''bool''" by (auto simp: list_all_iff)
qed

lemma identity_verdict:
  assumes "parse_identity_output text = Inr facts"
  shows "\<exists>ms. identity_problems facts retired = Some ms \<and> (ms = [] \<longleftrightarrow> identity_healthy facts retired)"
proof -
  note flag = identity_fact(1) [OF assms] and count = identity_fact(2) [OF assms]
  obtain p where p: "map_of facts ''realm_present'' = Some (FBool p)" using flag [of "''realm_present''"] by (auto simp: IDENTITY_KEYS_def)
  obtain u where u: "map_of facts ''users_without_synthetic'' = Some (FInt u)" "0 \<le> u"
    using count [of "''users_without_synthetic''"] by (auto simp: IDENTITY_KEYS_def)
  obtain t where t: "map_of facts ''level_2_tenant_conditional'' = Some (FBool t)"
    using flag [of "''level_2_tenant_conditional''"] by (auto simp: IDENTITY_KEYS_def)
  obtain b where b: "map_of facts ''breached_list_in_policy'' = Some (FBool b)"
    using flag [of "''breached_list_in_policy''"] by (auto simp: IDENTITY_KEYS_def)
  obtain w where w: "map_of facts ''master_users_without_otp'' = Some (FInt w)" "0 \<le> w"
    using count [of "''master_users_without_otp''"] by (auto simp: IDENTITY_KEYS_def)
  obtain f where f: "map_of facts ''master_brute_force_ok'' = Some (FBool f)"
    using flag [of "''master_brute_force_ok''"] by (auto simp: IDENTITY_KEYS_def)
  define g where "g = (\<lambda>(key, want, msg). msg_if (map_of facts key \<noteq> Some (FBool want)) (fmt ''identity check: %s'' [msg]))"
  have e: "expectation_problems facts = Some (concat (map g EXPECTATIONS))"
    unfolding expectation_problems_def
  proof (rule collect_total)
    fix x assume "x \<in> set EXPECTATIONS"
    moreover obtain key want msg where x: "x = (key, want, msg)" by (cases x) auto
    ultimately obtain h where "map_of facts key = Some (FBool h)" using expectation_keys flag by blast
    then show "(case x of (key, want, msg) \<Rightarrow> map_option (\<lambda>f. msg_if (f \<noteq> FBool want) (fmt ''identity check: %s'' [msg])) (map_of facts key)) = Some (g x)"
      by (simp add: x g_def)
  qed
  have eNil: "concat (map g EXPECTATIONS) = [] \<longleftrightarrow> (\<forall>(key, want, msg)\<in>set EXPECTATIONS. is_flag facts key want)"
    by (auto simp: g_def is_flag_def)
  have tr: "\<exists>ms. tripwire_problems facts = Some ms \<and> (ms = [] \<longleftrightarrow> u = 0 \<or> t \<and> b)"
    using u t b by (auto simp: tripwire_problems_def fact_int_def fact_true_def)
  then obtain ts where ts: "tripwire_problems facts = Some ts" "ts = [] \<longleftrightarrow> u = 0 \<or> t \<and> b" by blast
  have "\<exists>ms. master_problems facts retired = Some ms \<and> (ms = [] \<longleftrightarrow> (retired \<longrightarrow> w = 0 \<and> f))"
    using w f by (auto simp: master_problems_def fact_int_def fact_true_def)
  then obtain ms where ms: "master_problems facts retired = Some ms" "ms = [] \<longleftrightarrow> (retired \<longrightarrow> w = 0 \<and> f)" by blast
  show ?thesis using p u(1) t b w(1) f e eNil ts ms
    by (auto simp: identity_problems_def identity_healthy_def fact_true_def is_flag_def is_count_def both_def)
qed

text \<open>
  C24: The verdict of the identity check is total and exact: on every output the parser accepts,
  \<^verbatim>\<open>identity_problems\<close> raises no KeyError and reports nothing exactly when the realm is present, all
  fourteen expectations hold, no real user exists while one of the two go-live switches is off, and, once the
  bootstrap secret is retired, every master-realm user has a second factor and brute-force detection is on.
\<close>

theorem identity_verdict_exact:
  assumes "parse_identity_output text = Inr facts"
  shows "\<exists>ms. identity_problems facts bootstrap_retired = Some ms \<and> (ms = [] \<longleftrightarrow> identity_healthy facts bootstrap_retired)"
  using assms by (rule identity_verdict)

definition sample_facts :: facts where
  "sample_facts =
     map (\<lambda>(key, kind). (key, if kind = ''int'' then FInt 0
        else FBool (key \<notin> {''jboss_logging_listener'', ''bff_secret_unresolved'', ''bff_secret_short'',
                           ''bff_redirect_unresolved'', ''bff_logout_uris_unresolved''}))) IDENTITY_KEYS"

definition report_text :: "facts \<Rightarrow> string" where
  "report_text facts = unlines (map (\<lambda>(key, f). fact_line key f) facts)"

lemma identity_roundtrip_lemma:
  assumes "distinct (dkeys facts)" and "set (dkeys facts) = set (dkeys IDENTITY_KEYS)" and "\<forall>(key, f)\<in>set facts. fact_ok key f"
  shows "parse_identity_output (report_text facts) = Inr facts"
proof -
  have "\<forall>(k, f)\<in>set facts. k \<in> set (dkeys IDENTITY_KEYS) \<and> fact_ok k f"
    using assms(2,3) by (force simp: dkeys_def)
  from identity.text_complete [OF assms(1) this] assms(2) show ?thesis by (simp add: parse_identity_Inr report_text_def)
qed

lemma sample_facts_ok:
  "distinct (dkeys sample_facts)" "set (dkeys sample_facts) = set (dkeys IDENTITY_KEYS)" "\<forall>(key, f)\<in>set sample_facts. fact_ok key f"
  by code_simp+

theorem identity_verdict_exact_witness:
  "\<exists>ms. identity_problems sample_facts True = Some ms \<and> (ms = [] \<longleftrightarrow> identity_healthy sample_facts True)"
  using identity_verdict_exact [OF identity_roundtrip_lemma [OF sample_facts_ok]] .

text \<open>
  A complete report, its lines in any order, is read back as the facts it was printed from.
\<close>

theorem identity_report_roundtrip:
  assumes "distinct (dkeys facts)" and "set (dkeys facts) = set (dkeys IDENTITY_KEYS)" and "\<forall>(key, f)\<in>set facts. fact_ok key f"
  shows "parse_identity_output (report_text facts) = Inr facts"
  using assms by (rule identity_roundtrip_lemma)

theorem identity_report_roundtrip_witness: "parse_identity_output (report_text sample_facts) = Inr sample_facts"
  by (rule identity_report_roundtrip [OF sample_facts_ok])

definition REFUSALS :: "string list" where
  "REFUSALS =
     [''the identity check printed a line that is not key=value'', ''the identity check printed an unknown key'',
      ''the identity check printed a key twice'', ''the identity check printed a number where a flag belongs'',
      ''the identity check printed a flag where a count belongs'', ''the identity check did not print all 21 keys'',
      ''the key-ring check printed a line that is not key=value'', ''the key-ring check printed an unknown key'',
      ''the key-ring check printed a key twice'', ''the key-ring check did not print all 7 keys'']"

lemma report_lines_reason:
  assumes "\<And>raw facts r. step raw facts = Inl r \<Longrightarrow> r \<in> R"
  shows "report_lines step lines facts = Inl r \<Longrightarrow> r \<in> R"
  using assms by (induction lines arbitrary: facts) (auto split: sum.splits)

lemma all_keys_texts:
  "fmt ''the identity check did not print all %d keys'' [show_nat (length IDENTITY_KEYS)] = ''the identity check did not print all 21 keys''"
  "fmt ''the key-ring check did not print all %d keys'' [show_nat (length KEYRING_REPORT_KEYS)] = ''the key-ring check did not print all 7 keys''"
  by code_simp+

text \<open>
  A refusal of either parser is one of ten fixed sentences, whatever was printed: no line of
  the output, which could be a name or a secret, is repeated.
\<close>

theorem report_refusals_closed:
  "(case parse_identity_output text of Inl r \<Rightarrow> r \<in> set REFUSALS | Inr _ \<Rightarrow> True)
   \<and> (case parse_keyring_report text of Inl r \<Rightarrow> r \<in> set REFUSALS | Inr _ \<Rightarrow> True)"
proof -
  have i: "identity_line raw facts = Inl r \<Longrightarrow> r \<in> set REFUSALS" for raw facts r
    by (auto simp: identity_line_def REFUSALS_def Let_def split: option.splits if_splits)
  have k: "keyring_line raw facts = Inl r \<Longrightarrow> r \<in> set REFUSALS" for raw facts r
    by (auto simp: keyring_line_def REFUSALS_def Let_def split: option.splits if_splits)
  have last: "''the identity check did not print all 21 keys'' \<in> set REFUSALS" "''the key-ring check did not print all 7 keys'' \<in> set REFUSALS"
    by (simp_all add: REFUSALS_def)
  show ?thesis
    unfolding parse_identity_output_def parse_keyring_report_def all_keys_texts
    using report_lines_reason [of identity_line "set REFUSALS", OF i] report_lines_reason [of keyring_line "set REFUSALS", OF k] last
    by (auto split: sum.split)
qed

text \<open>
  The key-ring verdict is total and exact on every report the parser accepts: nothing is
  reported exactly when no entry is refused, no key file fails and no owner or mode is wrong.
\<close>

theorem keyring_verdict_exact:
  assumes "parse_keyring_report text = Inr facts"
  shows "\<exists>ms. keyring_problems facts = Some ms \<and>
    (ms = [] \<longleftrightarrow> (\<forall>key\<in>{''refused_entries'', ''xml_failing'', ''wrong_owner'', ''wrong_mode''}. map_of facts key = Some 0))"
proof -
  have l: "\<exists>n\<ge>0. map_of facts key = Some n" if "key \<in> set KEYRING_REPORT_KEYS" for key
    using that assms [unfolded parse_keyring_Inr] keyring.complete_lookup by (metis count_ok_def)
  obtain r where r: "map_of facts ''refused_entries'' = Some r" "0 \<le> r" using l [of "''refused_entries''"] by (auto simp: KEYRING_REPORT_KEYS_def)
  obtain x where x: "map_of facts ''xml_failing'' = Some x" "0 \<le> x" using l [of "''xml_failing''"] by (auto simp: KEYRING_REPORT_KEYS_def)
  obtain u where u: "map_of facts ''wrong_owner'' = Some u" "0 \<le> u" using l [of "''wrong_owner''"] by (auto simp: KEYRING_REPORT_KEYS_def)
  obtain m where m: "map_of facts ''wrong_mode'' = Some m" "0 \<le> m" using l [of "''wrong_mode''"] by (auto simp: KEYRING_REPORT_KEYS_def)
  from r x u m show ?thesis by (auto simp: keyring_problems_def)
qed

definition sample_counts :: counts where
  "sample_counts = map (\<lambda>key. (key, if key \<in> {''xml_files'', ''xml_ok''} then 2 else 0)) KEYRING_REPORT_KEYS"

lemma sample_report: "parse_keyring_report (unlines (map (\<lambda>(key, n). count_line key n) sample_counts)) = Inr sample_counts"
proof -
  have "distinct (dkeys sample_counts)" "\<forall>(k, n)\<in>set sample_counts. k \<in> set KEYRING_REPORT_KEYS \<and> count_ok k n"
    "set (dkeys sample_counts) = set KEYRING_REPORT_KEYS"
    by code_simp+
  then show ?thesis unfolding parse_keyring_Inr using keyring.text_complete [of sample_counts] by blast
qed

theorem keyring_verdict_exact_witness:
  "\<exists>ms. keyring_problems sample_counts = Some ms \<and>
    (ms = [] \<longleftrightarrow> (\<forall>key\<in>{''refused_entries'', ''xml_failing'', ''wrong_owner'', ''wrong_mode''}. map_of sample_counts key = Some 0))"
  by (rule keyring_verdict_exact [OF sample_report])

end
