(* ===== verification/Py_Time.thy ===== *)
theory Py_Time
  imports Py_Json
begin

text \<open>
  Dates and times of Python's \<^verbatim>\<open>datetime\<close> module. A date is its proleptic Gregorian ordinal
  (\<^verbatim>\<open>date.toordinal\<close>: day 1 is 1 January of year 1), an aware time the number of microseconds since
  the start of ordinal 0 in UTC.
\<close>


section \<open>The calendar\<close>

definition is_leap :: "int \<Rightarrow> bool" where
  "is_leap y \<longleftrightarrow> y mod 4 = 0 \<and> (y mod 100 \<noteq> 0 \<or> y mod 400 = 0)"

definition days_in_month :: "int \<Rightarrow> int \<Rightarrow> int" where
  "days_in_month y m =
     (if m = 2 then (if is_leap y then 29 else 28) else if m \<in> {4, 6, 9, 11} then 30 else 31)"

definition days_before_year :: "int \<Rightarrow> int" where
  "days_before_year y = (y - 1) * 365 + (y - 1) div 4 - (y - 1) div 100 + (y - 1) div 400"

definition days_before_month :: "int \<Rightarrow> int \<Rightarrow> int" where
  "days_before_month y m = sum_list (map (\<lambda>k. days_in_month y k) [1..m - 1])"

definition valid_ymd :: "int \<Rightarrow> int \<Rightarrow> int \<Rightarrow> bool" where
  "valid_ymd y m d \<longleftrightarrow> 1 \<le> y \<and> y \<le> 9999 \<and> 1 \<le> m \<and> m \<le> 12 \<and> 1 \<le> d \<and> d \<le> days_in_month y m"

definition ymd_ord :: "int \<Rightarrow> int \<Rightarrow> int \<Rightarrow> int" where
  "ymd_ord y m d = days_before_year y + days_before_month y m + d"

definition ymd_date :: "int \<Rightarrow> int \<Rightarrow> int \<Rightarrow> int option" where
  "ymd_date y m d = (if valid_ymd y m d then Some (ymd_ord y m d) else None)"

definition MAX_ORD :: int where
  "MAX_ORD = 3652059"


section \<open>Reading dates\<close>

definition digits_text :: "nat \<Rightarrow> string \<Rightarrow> int option" where
  "digits_text n s = (if length s = n \<and> list_all is_digit s then Some (digits_val s) else None)"

text \<open>\<^verbatim>\<open>_isoweek_to_gregorian\<close>: the ordinal of an ISO year, week and weekday.\<close>

definition week1_monday :: "int \<Rightarrow> int" where
  "week1_monday y =
     (let first = ymd_ord y 1 1; weekday = (first + 6) mod 7; monday = first - weekday
      in if 3 < weekday then monday + 7 else monday)"

definition isoweek_date :: "int \<Rightarrow> int \<Rightarrow> int \<Rightarrow> int option" where
  "isoweek_date y w d =
     (let first = (ymd_ord y 1 1 + 6) mod 7;
          long = (first = 3 \<or> (first = 2 \<and> is_leap y));
          ord = week1_monday y + (w - 1) * 7 + d - 1
      in if 1 \<le> y \<and> y \<le> 9999 \<and> (1 \<le> w \<and> w \<le> 52 \<or> w = 53 \<and> long) \<and> 1 \<le> d \<and> d \<le> 7 \<and> 1 \<le> ord \<and> ord \<le> MAX_ORD
         then Some ord else None)"

text \<open>\<^verbatim>\<open>date.fromisoformat\<close>: calendar dates and week dates, with or without dashes;
  \<^term>\<open>None\<close> is ValueError.\<close>

definition date_fromisoformat :: "string \<Rightarrow> int option" where
  "date_fromisoformat s =
     (if length s \<notin> {7, 8, 10} then None
      else let dash = (s ! 4 = CHR ''-''); rest = drop (if dash then 5 else 4) s in
        if take 1 rest = ''W'' then
          do { y \<leftarrow> digits_text 4 (take 4 s);
               w \<leftarrow> digits_text 2 (take 2 (drop 1 rest));
               let tail = drop 3 rest;
               if tail = [] then isoweek_date y w 1
               else if (hd tail = CHR ''-'') \<noteq> dash then None
               else do { d \<leftarrow> digits_text 1 (if dash then drop 1 tail else tail); isoweek_date y w d } }
        else
          do { y \<leftarrow> digits_text 4 (take 4 s);
               m \<leftarrow> digits_text 2 (take 2 rest);
               let tail = drop 2 rest;
               if (take 1 tail = ''-'') \<noteq> dash then None
               else do { d \<leftarrow> digits_text 2 (if dash then drop 1 tail else tail); ymd_date y m d } })"


section \<open>Reading times\<close>

definition DAY :: int where
  "DAY = 86400 * 1000000"

definition HOUR :: int where
  "HOUR = 3600 * 1000000"

definition hms :: "int \<Rightarrow> int \<Rightarrow> int \<Rightarrow> int option" where
  "hms h m s = (if h \<le> 23 \<and> m \<le> 59 \<and> s \<le> 59 then Some (((h * 60 + m) * 60 + s) * 1000000) else None)"

definition rx_ymd :: rx where
  "rx_ymd = rseq [RGroup 1 (rrep 4 rdigit), rchr CHR ''-'', RGroup 2 (rrep 2 rdigit), rchr CHR ''-'', RGroup 3 (rrep 2 rdigit)]"

definition rx_hms :: rx where
  "rx_hms = rseq [RGroup 4 (rrep 2 rdigit), rchr CHR '':'', RGroup 5 (rrep 2 rdigit), rchr CHR '':'', RGroup 6 (rrep 2 rdigit)]"

definition rx_zone :: rx where
  "rx_zone = RAlt (rchr CHR ''Z'')
     (rseq [RGroup 8 (RSet (\<lambda>c. c = CHR ''+'' \<or> c = CHR ''-'')), RGroup 9 (rrep 2 rdigit), rchr CHR '':'', RGroup 10 (rrep 2 rdigit)])"

text \<open>The zone offset in minutes; \<^verbatim>\<open>timezone\<close> refuses a day or more.\<close>

definition zone_minutes :: "caps \<Rightarrow> int option" where
  "zone_minutes c =
     (if group c 8 = None then Some 0
      else let n = digits_val (group_text c 9) * 60 + digits_val (group_text c 10)
           in if 24 * 60 \<le> n then None else Some (if group_text c 8 = ''-'' then - n else n))"


section \<open>Ordinals follow the calendar\<close>

lemma days_before_month_step: "1 \<le> m \<Longrightarrow> days_before_month y (m + 1) = days_before_month y m + days_in_month y m"
  by (simp add: days_before_month_def upto_rec2)

lemma days_in_month_pos: "28 \<le> days_in_month y m"
  by (simp add: days_in_month_def)

lemma days_before_month_mono: "1 \<le> m \<Longrightarrow> m \<le> n \<Longrightarrow> days_before_month y m \<le> days_before_month y n"
proof -
  assume "1 \<le> m"
  then have "days_before_month y m \<le> days_before_month y (m + int k)" for k
  proof (induction k)
    case (Suc k)
    then have "1 \<le> m + int k" by simp
    from days_before_month_step [OF this, of y] Suc days_in_month_pos [of y "m + int k"] show ?case
      by (simp add: algebra_simps)
  qed simp
  then show "m \<le> n \<Longrightarrow> days_before_month y m \<le> days_before_month y n"
    using zle_iff_zadd by auto
qed

lemma days_in_year: "days_before_month y 13 = (if is_leap y then 366 else 365)"
proof -
  have "[1..12] = [1, 2, 3, 4, 5, 6, 7, 8, 9, 10, 11, 12 :: int]" by code_simp
  then show ?thesis by (simp add: days_before_month_def days_in_month_def)
qed

lemma div_step: "y div k = (y - 1) div k + (if y mod k = 0 then 1 else 0)" if k: "0 < k" for y k :: int
proof (cases "y mod k = 0")
  case True
  then obtain q where q: "y = k * q" by (auto simp: mod_eq_0_iff_dvd)
  have "(y - 1) div k = q - 1" using k q by (intro int_div_pos_eq [of _ _ _ "k - 1"]) (auto simp: algebra_simps)
  with q k True show ?thesis by simp
next
  case False
  with k have "0 < y mod k" "y mod k < k" using pos_mod_sign [OF k, of y] pos_mod_bound [OF k] by (auto simp: less_le)
  moreover have "y - 1 = k * (y div k) + (y mod k - 1)" using mult_div_mod_eq [of k y] by linarith
  ultimately have "(y - 1) div k = y div k" by (intro int_div_pos_eq [of _ _ _ "y mod k - 1"]) linarith+
  with False show ?thesis by simp
qed

lemma days_before_year_step: "days_before_year (y + 1) = days_before_year y + days_before_month y 13"
proof -
  have m: "y mod 100 = 0 \<Longrightarrow> y mod 4 = 0" "y mod 400 = 0 \<Longrightarrow> y mod 100 = 0"
    using dvd_trans [of 4 100 y] dvd_trans [of 100 400 y] by (simp_all add: mod_eq_0_iff_dvd)
  have "days_before_year (y + 1) = y * 365 + y div 4 - y div 100 + y div 400" by (simp add: days_before_year_def)
  also have "\<dots> = days_before_year y + 365 + (if y mod 4 = 0 then 1 else 0) - (if y mod 100 = 0 then 1 else 0) + (if y mod 400 = 0 then 1 else 0)"
    unfolding days_before_year_def
    by (subst div_step [of 4 y], simp, subst div_step [of 100 y], simp, subst div_step [of 400 y], simp) (simp only: algebra_simps)
  also have "\<dots> = days_before_year y + days_before_month y 13"
    unfolding days_in_year is_leap_def using m by (cases "y mod 4 = 0"; cases "y mod 100 = 0"; cases "y mod 400 = 0") simp_all
  finally show ?thesis .
qed

lemma days_before_year_mono: "y \<le> z \<Longrightarrow> days_before_year y \<le> days_before_year z"
proof -
  have "days_before_year y \<le> days_before_year (y + int k)" for k
  proof (induction k)
    case (Suc k)
    with days_before_year_step [of "y + int k"] days_in_year [of "y + int k"] show ?case by (simp add: algebra_simps split: if_splits)
  qed simp
  then show "y \<le> z \<Longrightarrow> days_before_year y \<le> days_before_year z" using zle_iff_zadd by auto
qed

lemma ord_in_month: "valid_ymd y m d \<Longrightarrow> days_before_month y m + d \<le> days_before_month y (m + 1)"
  using days_before_month_step [of m y] by (simp add: valid_ymd_def)

lemma ymd_ord_less:
  assumes v: "valid_ymd y m d" "valid_ymd y' m' d'"
    and less: "y < y' \<or> y = y' \<and> (m < m' \<or> m = m' \<and> d < d')"
  shows "ymd_ord y m d < ymd_ord y' m' d'"
proof -
  have d': "1 \<le> d'" "0 \<le> days_before_month y' m'"
    using v(2) days_before_month_mono [of 1 m' y'] by (auto simp: valid_ymd_def days_before_month_def [of _ 1])
  consider "y < y'" | "y = y'" "m < m'" | "y = y'" "m = m'" "d < d'" using less by blast
  then show ?thesis
  proof cases
    case 1
    have "days_before_month y (m + 1) \<le> days_before_month y 13"
      using v(1) by (intro days_before_month_mono) (auto simp: valid_ymd_def)
    with ord_in_month [OF v(1)] days_before_year_step [of y] days_before_year_mono [of "y + 1" y'] 1 d'
    show ?thesis by (simp add: ymd_ord_def)
  next
    case 2
    have "days_before_month y (m + 1) \<le> days_before_month y m'"
      using v(1) 2 by (intro days_before_month_mono) (auto simp: valid_ymd_def)
    with ord_in_month [OF v(1)] 2 d' show ?thesis by (simp add: ymd_ord_def)
  next
    case 3
    then show ?thesis by (simp add: ymd_ord_def)
  qed
qed

end
