(* ===== verification/Freshness.thy ===== *)
theory Freshness
  imports Stack_Env Py_Time
begin

text \<open>
  The deploy freshness gate of \<^verbatim>\<open>deploy/compose/stackguards.py\<close>: which references a stack runs
  (\<^verbatim>\<open>deploy_ref_set\<close>) and whether the result of \<^verbatim>\<open>stackctl scan\<close> allows a start
  (\<^verbatim>\<open>scan_result_problems\<close>).
\<close>

definition SCAN_RESULT_SCHEMA :: int where
  "SCAN_RESULT_SCHEMA = 1"

definition MAX_SCAN_AGE :: int where
  "MAX_SCAN_AGE = 24 * HOUR"

definition SCAN_RESULT_KEYS :: "string list" where
  "SCAN_RESULT_KEYS = [''schema'', ''scanned_at'', ''scanner'', ''db_built'', ''exceptions_sha256'', ''image_scan_sha256'',
     ''refs'', ''untrusted'', ''findings'', ''excepted'', ''verdict'']"

definition SCAN_REF_NAMES :: "string list" where
  "SCAN_REF_NAMES = dvals THIRD_PARTY_ALIAS @ dkeys RELEASE_SERVICES"

definition SCANNED_AT_RE :: rx where
  "SCANNED_AT_RE =
     rseq [rrep 4 rdigit, rchr CHR ''-'', rrep 2 rdigit, rchr CHR ''-'', rrep 2 rdigit, rchr CHR ''T'',
           rrep 2 rdigit, rchr CHR '':'', rrep 2 rdigit, rchr CHR '':'', rrep 2 rdigit, rchr CHR ''Z'']"

definition ISO_RE :: rx where
  "ISO_RE = rseq [rx_ymd, RSet (\<lambda>c. c = CHR ''T'' \<or> c = CHR '' ''), rx_hms,
                  ropt (RSeq (rchr CHR ''.'') (RGroup 7 (rplus rdigit))), rx_zone]"

definition SHA256_RE :: rx where
  "SHA256_RE = rrep 64 (RSet is_hex_lower)"

definition LISTED_FINDINGS :: nat where
  "LISTED_FINDINGS = 20"

definition neutralize :: "json \<Rightarrow> string" where
  "neutralize v = concat (map neutralize_char (py_str v))"

text \<open>\<^verbatim>\<open>parse_utc\<close>: the outer \<^term>\<open>None\<close> is the OverflowError of \<^verbatim>\<open>astimezone\<close> at the ends of the
  calendar, the inner one the source's None.\<close>

definition micro_of :: "string option \<Rightarrow> int" where
  "micro_of fraction = digits_val (take 6 ((case fraction of None \<Rightarrow> ''0'' | Some f \<Rightarrow> f) @ ''000000''))"

definition parse_utc :: "json \<Rightarrow> int option option" where
  "parse_utc v =
     (case v of
        JStr t \<Rightarrow>
          (case re_fullmatch ISO_RE t of
             None \<Rightarrow> Some None
           | Some c \<Rightarrow>
               (case (ymd_date (digits_val (group_text c 1)) (digits_val (group_text c 2)) (digits_val (group_text c 3)),
                      hms (digits_val (group_text c 4)) (digits_val (group_text c 5)) (digits_val (group_text c 6)),
                      zone_minutes c) of
                  (Some ord, Some clock, Some zone) \<Rightarrow>
                    (let stamp = ord * DAY + clock + micro_of (group c 7) - zone * 60 * 1000000
                     in if DAY \<le> stamp \<and> stamp < (MAX_ORD + 1) * DAY then Some (Some stamp) else None)
                | _ \<Rightarrow> Some None))
      | _ \<Rightarrow> Some None)"

definition ref_step_alias :: "env option \<Rightarrow> string \<Rightarrow> env \<times> string list" where
  "ref_step_alias scan_refs alias =
     (case (case scan_refs of None \<Rightarrow> None | Some refs \<Rightarrow> map_of refs alias) of
        Some ref \<Rightarrow> if ref \<noteq> [] then ([(alias, ref)], []) else ([], [fmt ''the clone pins no image for %s'' [alias]])
      | None \<Rightarrow> ([], [fmt ''the clone pins no image for %s'' [alias]]))"

definition ref_step_image :: "env option \<Rightarrow> env option \<Rightarrow> string \<times> string \<Rightarrow> env \<times> string list" where
  "ref_step_image env_values release_refs ks =
     (case ks of (key, service) \<Rightarrow>
        (let value = (case env_values of None \<Rightarrow> '''' | Some values \<Rightarrow> val_of values key) in
         if value = [] then ([], [fmt (''%s is missing in the stack'' @ [CHR 0x27] @ ''s environment file'') [key]])
         else case value_problem key value of
           Some reason \<Rightarrow> ([], [fmt ''%s %s'' [key, reason]])
         | None \<Rightarrow>
             if (case release_refs of None \<Rightarrow> None | Some refs \<Rightarrow> map_of refs service) \<noteq> Some value
             then ([], [fmt (''%s differs from, or is missing in, the release'' @ [CHR 0x27] @ ''s images.txt'') [key]])
             else ([(service, value)], [])))"

definition deploy_ref_set :: "env option \<Rightarrow> env option \<Rightarrow> env option \<Rightarrow> env \<times> string list" where
  "deploy_ref_set scan_refs env_values release_refs =
     (let steps = map (ref_step_alias scan_refs) (dvals THIRD_PARTY_ALIAS)
                  @ map (ref_step_image env_values release_refs) IMAGE_KEYS
      in (concat (map fst steps), concat (map snd steps)))"

definition listed :: "json list \<Rightarrow> (json \<Rightarrow> string) \<Rightarrow> string list" where
  "listed items describe =
     map (\<lambda>item. neutralize (JStr (describe item))) (take LISTED_FINDINGS items)
     @ msg_if (LISTED_FINDINGS < length items) (fmt ''and %d more'' [show_nat (length items - LISTED_FINDINGS)])"

definition field :: "json \<Rightarrow> string \<Rightarrow> string" where
  "field item name =
     (case item of
        JObj d \<Rightarrow> neutralize (case map_of d name of None \<Rightarrow> JStr ''?'' | Some v \<Rightarrow> v)
      | _ \<Rightarrow> ''?'')"

definition same_refs :: "dict \<Rightarrow> env \<Rightarrow> bool" where
  "same_refs recorded refs \<longleftrightarrow>
     same_set (dkeys recorded) (dkeys refs)
     \<and> list_all (\<lambda>name. map_of recorded name = map_option JStr (map_of refs name)) (dkeys refs)"

definition ref_problem :: "dict \<Rightarrow> env \<Rightarrow> string \<Rightarrow> string list" where
  "ref_problem recorded refs name =
     (if \<not> dhas recorded name then [fmt ''the scan did not cover %s'' [neutralize (JStr name)]]
      else if \<not> dhas refs name then [fmt ''the scan covered an image the stack does not run: %s'' [neutralize (JStr name)]]
      else msg_if (map_of recorded name \<noteq> map_option JStr (map_of refs name))
             (fmt ''the scanned reference of %s differs from the one the stack would start'' [neutralize (JStr name)]))"

definition refs_problems :: "json \<Rightarrow> env \<Rightarrow> string list" where
  "refs_problems v refs =
     (case v of
        JObj recorded \<Rightarrow>
          if same_refs recorded refs then []
          else concat (map (ref_problem recorded refs) (sorted_set (dkeys refs @ dkeys recorded)))
      | _ \<Rightarrow> [''the scan result lists no image set''])"

definition time_problems :: "int option \<Rightarrow> int option \<Rightarrow> int \<Rightarrow> string list" where
  "time_problems scanned_at built now =
     msg_if (scanned_at = None) ''scanned_at is not YYYY-MM-DDTHH:MM:SSZ''
     @ msg_if (built = None) ''db_built is not a timestamp''
     @ (case scanned_at of
          None \<Rightarrow> []
        | Some s \<Rightarrow>
            if now < s then [''the scan time is in the future; check the host clock'']
            else msg_if (MAX_SCAN_AGE < now - s)
                   (fmt ''the scan is older than %d hours; scan again'' [show_int (MAX_SCAN_AGE div HOUR)]))
     @ (case built of
          None \<Rightarrow> []
        | Some b \<Rightarrow>
            msg_if (case scanned_at of None \<Rightarrow> False | Some s \<Rightarrow> s < b)
              ''the scan time is before the database build time; scan again''
            @ msg_if (now < b) ''the host clock is before the database build time; check the host clock'')"

definition through_of :: "json \<Rightarrow> int option" where
  "through_of item =
     (case item of
        JObj d \<Rightarrow> (case map_of d ''valid_through'' of Some (JStr t) \<Rightarrow> date_fromisoformat t | _ \<Rightarrow> None)
      | _ \<Rightarrow> None)"

definition excepted_problems :: "json \<Rightarrow> int \<Rightarrow> string list" where
  "excepted_problems v now =
     (case v of
        JList items \<Rightarrow>
          concat (map (\<lambda>item. case through_of item of
              None \<Rightarrow> [''an exception the scan relied on has no valid_through date; scan again'']
            | Some through \<Rightarrow>
                msg_if (through < now div DAY)
                  (fmt ''an exception the scan relied on has expired since (%s %s %s); scan again''
                     [field item ''image'', field item ''package'', field item ''id''])) items)
      | _ \<Rightarrow> [''excepted is not a list''])"

definition untrusted_problems :: "json \<Rightarrow> string list" where
  "untrusted_problems v =
     (case v of
        JList items \<Rightarrow>
          msg_if (items \<noteq> []) (fmt ''%d scan(s) cannot be trusted: %s''
            [show_nat (length items), join ''; '' (listed items py_str)])
      | _ \<Rightarrow> [''untrusted is not a list''])"

definition finding_text :: "json \<Rightarrow> string" where
  "finding_text f = field f ''image'' @ '' '' @ field f ''package'' @ '' '' @ field f ''id'' @ '' '' @ field f ''severity''"

definition findings_problems :: "json \<Rightarrow> string list" where
  "findings_problems v =
     (case v of
        JList items \<Rightarrow>
          msg_if (items \<noteq> []) (fmt ''%d High or Critical finding(s) without an exception: %s''
            [show_nat (length items), join ''; '' (listed items finding_text)])
      | _ \<Rightarrow> [''findings is not a list''])"

definition or_none :: "string \<Rightarrow> string" where
  "or_none s = (if s = [] then ''none'' else s)"

definition scanned_at_of :: "json \<Rightarrow> int option option" where
  "scanned_at_of v = (case v of JStr s \<Rightarrow> (if fullmatches SCANNED_AT_RE s then parse_utc v else Some None) | _ \<Rightarrow> Some None)"

definition is_sha256 :: "json \<Rightarrow> bool" where
  "is_sha256 v = (case v of JStr s \<Rightarrow> fullmatches SHA256_RE s | _ \<Rightarrow> False)"

definition scan_result_problems ::
  "json \<Rightarrow> env \<Rightarrow> string \<Rightarrow> string \<Rightarrow> string \<Rightarrow> int \<Rightarrow> string list option" where
  "scan_result_problems v refs scanner exceptions_sha256 image_scan_sha256 now =
     (case v of
        JObj record \<Rightarrow>
          (let missing = sorted_set (keys_minus SCAN_RESULT_KEYS (dkeys record));
               unknown = sorted_set (keys_minus (dkeys record) SCAN_RESULT_KEYS) in
           if missing \<noteq> [] \<or> unknown \<noteq> [] then
             Some [fmt ''the scan result has the wrong keys (missing: %s; unknown: %s)''
                     [or_none (join '', '' missing), or_none (join '', '' (map (\<lambda>u. neutralize (JStr u)) unknown))]]
           else if dget record ''schema'' \<noteq> JInt SCAN_RESULT_SCHEMA then
             Some [''the scan result has an unknown schema; run `stackctl scan` again'']
           else
             do { scanned_at \<leftarrow> scanned_at_of (dget record ''scanned_at'');
                  built \<leftarrow> parse_utc (dget record ''db_built'');
                  Some (
                    msg_if (dget record ''scanner'' \<noteq> JStr scanner) ''the scan used another scanner than the clone pins; scan again''
                    @ msg_if (dget record ''exceptions_sha256'' \<noteq> JStr exceptions_sha256)
                        ''exceptions.json changed since the scan; scan again''
                    @ msg_if (dget record ''image_scan_sha256'' \<noteq> JStr image_scan_sha256)
                        ''image_scan.py changed since the scan; scan again''
                    @ refs_problems (dget record ''refs'') refs
                    @ time_problems scanned_at built now
                    @ untrusted_problems (dget record ''untrusted'')
                    @ findings_problems (dget record ''findings'')
                    @ excepted_problems (dget record ''excepted'') now
                    @ msg_if (dget record ''verdict'' \<noteq> JStr ''green'') ''the scan verdict is not green''
                    @ concat (map (\<lambda>key. msg_if (\<not> is_sha256 (dget record key)) (fmt ''%s is not a sha256'' [key]))
                        [''exceptions_sha256'', ''image_scan_sha256''])) })
      | _ \<Rightarrow> Some [''the scan result is not a JSON object''])"


section \<open>What the gate allows\<close>

text \<open>The bindings of a result to the clone and the stack.\<close>

definition bound_to :: "dict \<Rightarrow> env \<Rightarrow> string \<Rightarrow> string \<Rightarrow> string \<Rightarrow> bool" where
  "bound_to record refs scanner exceptions_sha256 image_scan_sha256 \<longleftrightarrow>
     set (dkeys record) = set SCAN_RESULT_KEYS
     \<and> dget record ''schema'' = JInt 1
     \<and> dget record ''scanner'' = JStr scanner
     \<and> dget record ''exceptions_sha256'' = JStr exceptions_sha256
     \<and> dget record ''image_scan_sha256'' = JStr image_scan_sha256
     \<and> (\<exists>recorded. dget record ''refs'' = JObj recorded \<and> map_of recorded = map_option JStr \<circ> map_of refs)
     \<and> (\<forall>sha\<in>{exceptions_sha256, image_scan_sha256}. length sha = 64 \<and> list_all is_hex_lower sha)"

definition clean_result :: "dict \<Rightarrow> int \<Rightarrow> bool" where
  "clean_result record now \<longleftrightarrow>
     dget record ''untrusted'' = JList [] \<and> dget record ''findings'' = JList [] \<and> dget record ''verdict'' = JStr ''green''
     \<and> (\<exists>items. dget record ''excepted'' = JList items
          \<and> (\<forall>item\<in>set items. \<exists>through. through_of item = Some through \<and> now div DAY \<le> through))"

definition in_window :: "dict \<Rightarrow> int \<Rightarrow> bool" where
  "in_window record now \<longleftrightarrow>
     (\<exists>scanned built. scanned_at_of (dget record ''scanned_at'') = Some (Some scanned)
        \<and> parse_utc (dget record ''db_built'') = Some (Some built)
        \<and> built \<le> scanned \<and> scanned \<le> now \<and> now \<le> scanned + 24 * 3600 * 1000000)"

lemma same_refs_iff: "same_refs recorded refs \<longleftrightarrow> map_of recorded = map_option JStr \<circ> map_of refs"
proof
  assume s: "same_refs recorded refs"
  show "map_of recorded = map_option JStr \<circ> map_of refs"
  proof
    fix name
    show "map_of recorded name = (map_option JStr \<circ> map_of refs) name"
    proof (cases "name \<in> set (dkeys refs)")
      case True
      with s show ?thesis by (simp add: same_refs_def list_all_iff)
    next
      case False
      with s have "name \<notin> set (dkeys recorded)" by (simp add: same_refs_def)
      with False show ?thesis by (simp add: dkeys_def map_of_eq_None_iff [THEN iffD2])
    qed
  qed
next
  assume m: "map_of recorded = map_option JStr \<circ> map_of refs"
  then have "dom (map_of recorded) = dom (map_of refs)" by (auto simp: dom_def)
  then have "set (dkeys recorded) = set (dkeys refs)" by (simp add: dkeys_def dom_map_of_conv_image_fst)
  with m show "same_refs recorded refs" by (simp add: same_refs_def list_all_iff)
qed

lemma refs_problems_Nil: "refs_problems v refs = [] \<longleftrightarrow> (\<exists>recorded. v = JObj recorded \<and> map_of recorded = map_option JStr \<circ> map_of refs)"
proof (cases v)
  case (JObj recorded)
  show ?thesis
  proof (cases "same_refs recorded refs")
    case True
    then show ?thesis by (simp add: JObj refs_problems_def same_refs_iff)
  next
    case False
    have "\<exists>name\<in>set (dkeys refs @ dkeys recorded). ref_problem recorded refs name \<noteq> []"
    proof (rule ccontr)
      assume "\<not> (\<exists>name\<in>set (dkeys refs @ dkeys recorded). ref_problem recorded refs name \<noteq> [])"
      then have all: "ref_problem recorded refs name = []" if "name \<in> set (dkeys refs) \<union> set (dkeys recorded)" for name
        using that by auto
      have "dhas recorded name \<and> dhas refs name \<and> map_of recorded name = map_option JStr (map_of refs name)"
        if "name \<in> set (dkeys refs) \<union> set (dkeys recorded)" for name
        using all [OF that] by (simp add: ref_problem_def split: if_splits)
      then have "same_refs recorded refs" unfolding same_refs_def same_set_iff list_all_iff dhas_iff by blast
      with False show False by simp
    qed
    with False show ?thesis by (auto simp: JObj refs_problems_def same_refs_iff)
  qed
qed (simp_all add: refs_problems_def)

lemma time_problems_Nil:
  "time_problems s b now = [] \<longleftrightarrow> (\<exists>scanned built. s = Some scanned \<and> b = Some built \<and> built \<le> scanned \<and> scanned \<le> now
     \<and> now \<le> scanned + 24 * 3600 * 1000000)"
  by (cases s; cases b) (auto simp: time_problems_def MAX_SCAN_AGE_def HOUR_def not_less)

lemma excepted_problems_Nil:
  "excepted_problems v now = [] \<longleftrightarrow> (\<exists>items. v = JList items
     \<and> (\<forall>item\<in>set items. \<exists>through. through_of item = Some through \<and> now div DAY \<le> through))"
proof (cases v)
  case (JList items)
  have eq: "(case through_of item of None \<Rightarrow> [x] | Some through \<Rightarrow> msg_if (through < now div DAY) m) = []
     \<longleftrightarrow> (\<exists>through. through_of item = Some through \<and> now div DAY \<le> through)" for item x m
    by (auto simp: not_less split: option.splits)
  show ?thesis by (simp add: JList excepted_problems_def eq)
qed (simp_all add: excepted_problems_def)

lemma list_empty_checks:
  "untrusted_problems v = [] \<longleftrightarrow> v = JList []" "findings_problems v = [] \<longleftrightarrow> v = JList []"
  by (cases v; simp add: untrusted_problems_def findings_problems_def)+

lemma is_sha256_JStr: "is_sha256 (JStr s) \<longleftrightarrow> length s = 64 \<and> list_all is_hex_lower s"
  by (simp add: is_sha256_def SHA256_RE_def list_all_iff)

lemma gate_exact_lemma:
  "scan_result_problems v refs scanner exceptions_sha256 image_scan_sha256 now = Some [] \<longleftrightarrow>
     (\<exists>record. v = JObj record \<and> bound_to record refs scanner exceptions_sha256 image_scan_sha256
        \<and> in_window record now \<and> clean_result record now)"
proof (cases v)
  case (JObj r)
  let ?keys = "set (dkeys r) = set SCAN_RESULT_KEYS \<and> dget r ''schema'' = JInt 1"
  show ?thesis
  proof (cases ?keys)
    case False
    then have "scan_result_problems v refs scanner exceptions_sha256 image_scan_sha256 now \<noteq> Some []"
      by (auto simp: scan_result_problems_def JObj Let_def SCAN_RESULT_SCHEMA_def)
    with False show ?thesis by (auto simp: JObj bound_to_def)
  next
    case True
    have "scan_result_problems v refs scanner exceptions_sha256 image_scan_sha256 now = Some [] \<longleftrightarrow>
       (\<exists>scanned_at built. scanned_at_of (dget r ''scanned_at'') = Some scanned_at \<and> parse_utc (dget r ''db_built'') = Some built
        \<and> dget r ''scanner'' = JStr scanner \<and> dget r ''exceptions_sha256'' = JStr exceptions_sha256
        \<and> dget r ''image_scan_sha256'' = JStr image_scan_sha256 \<and> refs_problems (dget r ''refs'') refs = []
        \<and> time_problems scanned_at built now = [] \<and> untrusted_problems (dget r ''untrusted'') = []
        \<and> findings_problems (dget r ''findings'') = [] \<and> excepted_problems (dget r ''excepted'') now = []
        \<and> dget r ''verdict'' = JStr ''green'' \<and> is_sha256 (dget r ''exceptions_sha256'') \<and> is_sha256 (dget r ''image_scan_sha256''))"
      using True by (simp add: scan_result_problems_def JObj Let_def SCAN_RESULT_SCHEMA_def bind_eq_Some_conv)
    also have "\<dots> \<longleftrightarrow> bound_to r refs scanner exceptions_sha256 image_scan_sha256 \<and> in_window r now \<and> clean_result r now"
      using True unfolding refs_problems_Nil time_problems_Nil excepted_problems_Nil list_empty_checks bound_to_def in_window_def clean_result_def
      by (auto simp: is_sha256_JStr)
    finally show ?thesis by (simp add: JObj)
  qed
qed (simp_all add: scan_result_problems_def)


section \<open>Guarantees of the gate\<close>

text \<open>
  C24: A scan result allows a start exactly when it is bound to the scanner, the exceptions file, the
  scan script and the image set of this clone and stack, lies between the database build and now and is at
  most 24 hours old, and is clean: nothing untrusted, no finding without an exception, no relied-on exception
  that has run out, verdict green.
\<close>

theorem gate_exact:
  "scan_result_problems v refs scanner exceptions_sha256 image_scan_sha256 now = Some [] \<longleftrightarrow>
     (\<exists>record. v = JObj record \<and> bound_to record refs scanner exceptions_sha256 image_scan_sha256
        \<and> in_window record now \<and> clean_result record now)"
  by (rule gate_exact_lemma)

text \<open>
  One scan result never allows two starts more than 24 hours apart, whatever the host clock said.
\<close>

theorem gate_window:
  assumes "scan_result_problems v refs scanner e i now = Some []"
    and "scan_result_problems v refs' scanner' e' i' now' = Some []"
  shows "\<bar>now' - now\<bar> \<le> 24 * 3600 * 1000000"
  using assms unfolding gate_exact_lemma by (auto simp: in_window_def)

definition sample_sha :: string where
  "sample_sha = replicate 64 CHR ''a''"

definition sample_result :: json where
  "sample_result = JObj [(''schema'', JInt 1), (''scanned_at'', JStr ''2026-01-02T03:04:05Z''), (''scanner'', JStr ''trivy''),
     (''db_built'', JStr ''2026-01-01T06:00:00.5+02:00''), (''exceptions_sha256'', JStr sample_sha),
     (''image_scan_sha256'', JStr sample_sha), (''refs'', JObj [(''redis'', JStr ''r'')]), (''untrusted'', JList []),
     (''findings'', JList []), (''excepted'', JList [JObj [(''valid_through'', JStr ''2026-01-02'')]]), (''verdict'', JStr ''green'')]"

definition sample_now :: int where
  "sample_now = 739618 * DAY + 12 * HOUR"

lemma sample_times:
  "scanned_at_of (JStr ''2026-01-02T03:04:05Z'') = Some (Some (739618 * DAY + 11045 * 1000000))"
  "parse_utc (JStr ''2026-01-01T06:00:00.5+02:00'') = Some (Some (739617 * DAY + 4 * HOUR + 500000))"
  "through_of (JObj [(''valid_through'', JStr ''2026-01-02'')]) = Some 739618"
  by code_simp+

lemma sample_result_allowed: "scan_result_problems sample_result [(''redis'', ''r'')] ''trivy'' sample_sha sample_sha sample_now = Some []"
proof -
  have "length sample_sha = 64 \<and> list_all is_hex_lower sample_sha"
    by (simp add: sample_sha_def list_all_iff is_hex_lower_def in_range_def ccode_def)
  then show ?thesis unfolding gate_exact_lemma sample_result_def sample_now_def
    by (auto simp: bound_to_def in_window_def clean_result_def sample_times DAY_def HOUR_def dkeys_def SCAN_RESULT_KEYS_def)
qed

theorem gate_window_witness: "\<bar>sample_now - sample_now\<bar> \<le> 24 * 3600 * 1000000"
  by (rule gate_window [OF sample_result_allowed sample_result_allowed])

text \<open>
  C23: When \<^verbatim>\<open>deploy_ref_set\<close> reports nothing, it names exactly the eight images of the stack, in the
  order of the tables: each third-party one is the clone's pin, and each release image is a digest-pinned
  reference of its own repository that the environment file and the release's \<^verbatim>\<open>images.txt\<close> agree on.
\<close>

theorem deploy_refs_complete:
  assumes "deploy_ref_set (Some scan_refs) (Some values) (Some release_refs) = (refs, [])"
  shows "dkeys refs = SCAN_REF_NAMES
    \<and> (\<forall>alias\<in>set (dvals THIRD_PARTY_ALIAS). map_of refs alias = map_of scan_refs alias \<and> map_of refs alias \<noteq> None)
    \<and> (\<forall>(key, service)\<in>set IMAGE_KEYS. map_of refs service = Some (val_of values key)
         \<and> map_of release_refs service = Some (val_of values key) \<and> is_image_ref service (val_of values key))"
proof -
  have third: "\<exists>r. map_of scan_refs a = Some r \<and> ref_step_alias (Some scan_refs) a = ([(a, r)], [])"
    if "snd (ref_step_alias (Some scan_refs) a) = []" for a
    using that by (auto simp: ref_step_alias_def split: option.splits if_splits)
  have img: "ref_step_image (Some values) (Some release_refs) (key, service) = ([(service, val_of values key)], [])
       \<and> map_of release_refs service = Some (val_of values key) \<and> value_problem key (val_of values key) = None"
    if "snd (ref_step_image (Some values) (Some release_refs) (key, service)) = []" for key service
    using that by (auto simp: ref_step_image_def Let_def split: option.splits if_splits)
  from assms have steps: "\<forall>a\<in>set (dvals THIRD_PARTY_ALIAS). snd (ref_step_alias (Some scan_refs) a) = []"
      "\<forall>ks\<in>set IMAGE_KEYS. snd (ref_step_image (Some values) (Some release_refs) ks) = []"
    by (auto simp: deploy_ref_set_def Let_def)
  have t: "\<forall>a\<in>set (dvals THIRD_PARTY_ALIAS). \<exists>r. map_of scan_refs a = Some r \<and> ref_step_alias (Some scan_refs) a = ([(a, r)], [])"
    using steps(1) third by blast
  have k: "\<forall>(key, service)\<in>set IMAGE_KEYS. ref_step_image (Some values) (Some release_refs) (key, service) = ([(service, val_of values key)], [])
       \<and> map_of release_refs service = Some (val_of values key) \<and> is_image_ref service (val_of values key)"
  proof (safe)
    fix key service assume ks: "(key, service) \<in> set IMAGE_KEYS"
    from img steps(2) ks show "ref_step_image (Some values) (Some release_refs) (key, service) = ([(service, val_of values key)], [])"
      "map_of release_refs service = Some (val_of values key)" by blast+
    have "map_of IMAGE_KEYS key = Some service" using ks by (auto simp: IMAGE_KEYS_def)
    then show "is_image_ref service (val_of values key)" using img steps(2) ks image_value_iff by blast
  qed
  obtain p r kc c ot where tr: "ref_step_alias (Some scan_refs) ''postgres'' = ([(''postgres'', p)], [])"
      "ref_step_alias (Some scan_refs) ''redis'' = ([(''redis'', r)], [])" "ref_step_alias (Some scan_refs) ''keycloak'' = ([(''keycloak'', kc)], [])"
      "ref_step_alias (Some scan_refs) ''caddy'' = ([(''caddy'', c)], [])" "ref_step_alias (Some scan_refs) ''otelcollector'' = ([(''otelcollector'', ot)], [])"
      "map_of scan_refs ''postgres'' = Some p" "map_of scan_refs ''redis'' = Some r" "map_of scan_refs ''keycloak'' = Some kc"
      "map_of scan_refs ''caddy'' = Some c" "map_of scan_refs ''otelcollector'' = Some ot"
    using t by (auto simp: THIRD_PARTY_ALIAS_def dvals_def)
  have "refs = [(''postgres'', p), (''redis'', r), (''keycloak'', kc), (''caddy'', c), (''otelcollector'', ot),
      (''api'', val_of values ''DECISYA_API_IMAGE''), (''bff'', val_of values ''DECISYA_BFF_IMAGE''), (''migrator'', val_of values ''DECISYA_MIGRATOR_IMAGE'')]"
    using assms k by (auto simp: deploy_ref_set_def Let_def THIRD_PARTY_ALIAS_def IMAGE_KEYS_def dvals_def tr)
  with k tr show ?thesis
    by (simp add: SCAN_REF_NAMES_def THIRD_PARTY_ALIAS_def RELEASE_SERVICES_def IMAGE_KEYS_def dkeys_def dvals_def)
qed

definition sample_ref :: "string \<Rightarrow> string" where
  "sample_ref service = IMAGE_PREFIX @ service @ ''@sha256:'' @ sample_sha"

definition sample_stack_env :: env where
  "sample_stack_env = map (\<lambda>(key, service). (key, sample_ref service)) IMAGE_KEYS"

definition sample_release :: env where
  "sample_release = map (\<lambda>(key, service). (service, sample_ref service)) IMAGE_KEYS"

definition sample_clone :: env where
  "sample_clone = map (\<lambda>a. (a, a @ ''@sha256:'' @ sample_sha)) (dvals THIRD_PARTY_ALIAS)"

lemma sample_deploy:
  "deploy_ref_set (Some sample_clone) (Some sample_stack_env) (Some sample_release) = (sample_clone @ sample_release, [])"
proof -
  have "is_image_ref service (sample_ref service)" for service
    by (auto simp: is_image_ref_def sample_ref_def sample_sha_def list_all_iff is_hex_lower_def in_range_def ccode_def)
  then have v: "value_problem ''DECISYA_API_IMAGE'' (sample_ref ''api'') = None" "value_problem ''DECISYA_BFF_IMAGE'' (sample_ref ''bff'') = None"
    "value_problem ''DECISYA_MIGRATOR_IMAGE'' (sample_ref ''migrator'') = None"
    by (simp_all add: image_value_iff IMAGE_KEYS_def)
  have ne: "sample_ref service \<noteq> []" for service by (simp add: sample_ref_def IMAGE_PREFIX_def)
  show ?thesis
    by (simp add: deploy_ref_set_def Let_def sample_clone_def sample_stack_env_def sample_release_def THIRD_PARTY_ALIAS_def IMAGE_KEYS_def
        dvals_def ref_step_alias_def ref_step_image_def val_of_def v ne)
qed

theorem deploy_refs_complete_witness: "dkeys (sample_clone @ sample_release) = SCAN_REF_NAMES"
  using deploy_refs_complete [OF sample_deploy] by blast

text \<open>
  Text that came from the scanner or from a record is printed without control or format
  characters, so it cannot start a new line or move the cursor.
\<close>

theorem neutralize_printable: "list_all (\<lambda>c. \<not> is_control c) (neutralize v)"
  using neutralize_char_control by (auto simp: neutralize_def list_all_iff)

end
