(* ===== verification/Caddy_Guard.thy ===== *)
theory Caddy_Guard
  imports Stack_Env
begin

text \<open>
  The edge guards of \<^verbatim>\<open>deploy/compose/stackguards.py\<close>: rules over the text of the Caddyfile, and over
  the JSON that \<^verbatim>\<open>caddy adapt\<close> prints, which is summarised route by route and compared with the edge
  table.

  A Python frozenset of JSON values is a sorted list without repetitions (\<open>frozen\<close>), a frozenset of
  strings one built by \<^const>\<open>sorted_set\<close>, so that equality of sets is equality of lists.
\<close>


section \<open>The text of the Caddyfile\<close>

definition CADDY_COMMENT_RE :: rx where
  "CADDY_COMMENT_RE = rseq [RAlt RBol rspace, rchr CHR ''#'', RStar rdot, REol]"

definition strip_caddy_comments :: "string \<Rightarrow> string" where
  "strip_caddy_comments text = join [NL] (map (re_sub_const CADDY_COMMENT_RE '''') (splitlines text))"

definition word_re :: "string \<Rightarrow> rx" where
  "word_re w = rseq [RWordB, rlit w, RWordB]"

definition TRACING_LINE_RE :: rx where
  "TRACING_LINE_RE = rseq [RBolM, RStar rspace, rlit ''tracing'', RWordB]"

definition TRACING_INLINE_RE :: rx where
  "TRACING_INLINE_RE = rseq [RSet (\<lambda>c. c = CHR ''{'' \<or> c = CHR '';''), RStar rspace, rlit ''tracing'', RWordB]"

definition CADDY_VAR_RE :: rx where
  "CADDY_VAR_RE = rseq [rlit ''{$'', RGroup 1 (rplus (RSet is_key_char)), rchr CHR ''}'']"

definition INTERNAL_PORT_RE :: rx where
  "INTERNAL_PORT_RE = rseq [rchr CHR '':'', ralt [rlit ''9000'', rlit ''8081''], RWordB]"

definition is_forward_char :: "char \<Rightarrow> bool" where
  "is_forward_char c \<longleftrightarrow> is_alnum_ascii c \<or> c = CHR ''-''"

definition FORWARDING_RE :: rx where
  "FORWARDING_RE = RAlt (RSeq (rlit_ci ''x-forwarded-'') (rplus (RSet is_forward_char))) (rlit_ci ''forwarded'')"

definition is_quote :: "char \<Rightarrow> bool" where
  "is_quote c \<longleftrightarrow> c = CHR 0x22 \<or> c = CHR 0x27"

definition is_op_sign :: "char \<Rightarrow> bool" where
  "is_op_sign c \<longleftrightarrow> c = CHR ''+'' \<or> c = CHR ''-'' \<or> c = CHR ''?''"

definition CADDY_FORWARD_TEXT_RE :: rx where
  "CADDY_FORWARD_TEXT_RE =
     rseq [RWordB, ralt [rlit_ci ''header_up'', rlit_ci ''request_header''], rplus rspace, ropt (RSet is_quote),
           RStar (RSet is_op_sign), RStar rspace, ropt (RSet is_quote), FORWARDING_RE, RWordB]"

definition FORWARDING_NAME_RE :: rx where
  "FORWARDING_NAME_RE = rseq [RBol, FORWARDING_RE, REol]"

definition PASS_THROUGH_RE :: rx where
  "PASS_THROUGH_RE = rseq [RWordB, ralt [rlit_ci ''handle_response'', rlit_ci ''intercept''], RWordB]"

definition caddy_text_problems :: "string \<Rightarrow> string list" where
  "caddy_text_problems text =
     (let code = strip_caddy_comments text; used = re_findall1 CADDY_VAR_RE code in
        concat (map (\<lambda>w. msg_if (searches (word_re w) code) (fmt ''Caddyfile: %s is not allowed'' [w]))
          [''trusted_proxies'', ''log_credentials''])
        @ msg_if (searches TRACING_LINE_RE code \<or> searches TRACING_INLINE_RE code)
            ''Caddyfile: the tracing directive is not allowed (S-120-12)''
        @ map (\<lambda>v. fmt ''Caddyfile: variable %s has no validator (add one before using it)'' [v])
            (sorted_set (keys_minus used CADDY_ENV_KEYS))
        @ map (\<lambda>v. fmt ''Caddyfile: variable %s is not used'' [v]) (sorted_set (keys_minus CADDY_ENV_KEYS used))
        @ msg_if (searches INTERNAL_PORT_RE code) ''Caddyfile: names port 9000 or 8081''
        @ msg_if (searches CADDY_FORWARD_TEXT_RE code)
            (''Caddyfile: header_up and request_header must not touch X-Forwarded-* or Forwarded (the BFF'' @ [CHR 0x27]
             @ ''s client address, #122)'')
        @ msg_if (searches PASS_THROUGH_RE code)
            ''Caddyfile: handle_response and intercept are not allowed (a 429 must pass through, #122)''
        @ msg_if (searches (rlit_ci ''retry-after'') code)
            ''Caddyfile: Retry-After must not be set, copied or removed at the edge (#122)'')"


section \<open>Header operations\<close>

definition op_names :: "dict \<Rightarrow> string \<Rightarrow> (string \<times> string) list" where
  "op_names section operation =
     (case dget section operation of JObj names \<Rightarrow> map (\<lambda>n. (operation, n)) (dkeys names) | _ \<Rightarrow> [])"

definition header_ops :: "json \<Rightarrow> (string \<times> string) list" where
  "header_ops v =
     (case v of
        JObj section \<Rightarrow>
          concat (map (op_names section) [''set'', ''add'', ''replace'', ''require''])
          @ (case dget section ''delete'' of JList names \<Rightarrow> map (\<lambda>n. (''delete'', py_str n)) names | _ \<Rightarrow> [])
      | _ \<Rightarrow> [])"

definition is_handler :: "dict \<Rightarrow> string \<Rightarrow> bool" where
  "is_handler node h \<longleftrightarrow> dget node ''handler'' = JStr h"

text \<open>The header section of a node that operates on the requests or the responses.\<close>

definition header_sections :: "dict \<Rightarrow> string \<Rightarrow> (string \<times> json) list option" where
  "header_sections node side =
     (if is_handler node ''reverse_proxy'' then
        map_option (\<lambda>h. [(''reverse_proxy'', dget h side)]) (or_dict (dget node ''headers''))
      else if is_handler node ''headers'' then Some [(''headers'', dget node side)]
      else Some [])"

definition forwarding_name :: "string \<Rightarrow> bool" where
  "forwarding_name name \<longleftrightarrow> matches FORWARDING_NAME_RE (lstrip_chars ''+-?'' name)"

definition forwarding_node :: "dict \<Rightarrow> string list option" where
  "forwarding_node node =
     map_option (\<lambda>sections.
       concat (map (\<lambda>(h, s). concat (map (\<lambda>(operation, name).
         msg_if (forwarding_name name)
           (fmt ''a %s handler changes the request header %s (%s): the client address must come from Caddy alone'' [h, name, operation]))
         (header_ops s))) sections)) (header_sections node ''request'')"

definition caddy_forwarding_problems :: "json \<Rightarrow> string list option" where
  "caddy_forwarding_problems adapted = collect forwarding_node (iter_dicts adapted)"

definition passthrough_node :: "dict \<Rightarrow> string list option" where
  "passthrough_node node =
     map_option (\<lambda>sections.
       msg_if (is_handler node ''intercept'') ''the app host has an intercept handler (a 429 and its Retry-After must pass through)''
       @ msg_if (is_handler node ''reverse_proxy'' \<and> dhas node ''handle_response'')
           ''the app host has handle_response (a 429 and its Retry-After must pass through)''
       @ concat (map (\<lambda>(h, s). concat (map (\<lambda>(operation, name).
           msg_if (lower name = ''retry-after'') (fmt ''the app host changes Retry-After (%s)'' [operation]))
           (header_ops s))) sections)) (header_sections node ''response'')"

definition caddy_passthrough_problems :: "json \<Rightarrow> string list option" where
  "caddy_passthrough_problems route = collect passthrough_node (iter_dicts route)"


section \<open>Summaries of routes\<close>

definition match_ranges :: "json \<Rightarrow> string list option" where
  "match_ranges raw =
     map_option (\<lambda>xs. sorted_set (map (\<lambda>r. norm_net (py_str r)) xs))
       (py_iter (case raw of JObj d \<Rightarrow> dget d ''ranges'' | _ \<Rightarrow> raw))"

definition NOT_MARKER :: string where
  "NOT_MARKER = ''(a `not` over something other than remote_ip)''"

fun negated_items :: "string list \<Rightarrow> json list \<Rightarrow> string list option" where
  "negated_items found [] = Some (sorted_set found)"
| "negated_items found (item # items) =
     (case item of
        JObj d \<Rightarrow>
          if \<not> same_set (dkeys d) [''remote_ip''] then Some [NOT_MARKER]
          else do { rs \<leftarrow> match_ranges (dget d ''remote_ip''); negated_items (found @ rs) items }
      | _ \<Rightarrow> Some [NOT_MARKER])"

definition negated_ranges :: "dict \<Rightarrow> string list option option" where
  "negated_ranges match =
     (if \<not> dhas match ''not'' then Some None
      else map_option Some
        (negated_items [] (case dget match ''not'' of JList xs \<Rightarrow> xs | raw \<Rightarrow> [raw])))"

datatype outcome =
    Proxy "json list"       \<comment> \<open>the upstreams of a proxy route\<close>
  | Respond string          \<comment> \<open>the status of a static response\<close>

record route =
  ranges :: "string list option"
  negated :: "string list option"
  paths :: "json list option"
  methods :: "json list option"
  regexp :: json
  outcome :: outcome
  extra :: "string list"

datatype summary =
    MultiMatch
  | Other "json list"
  | Route route

definition match_field :: "dict \<Rightarrow> string \<Rightarrow> json list option option" where
  "match_field match k = (if truthy (dget match k) then map_option Some (frozenset_of (dget match k)) else Some None)"

definition single_match :: "json \<Rightarrow> dict option option" where
  "single_match v =
     (if \<not> truthy v then Some (Some [])
      else case v of
        JList [m] \<Rightarrow> map_option Some (as_dict m)
      | JList xs \<Rightarrow> Some None
      | JObj d \<Rightarrow> (if length d = 1 then None else Some None)
      | JStr s \<Rightarrow> (if length s = 1 then None else Some None)
      | _ \<Rightarrow> None)"

definition handlers_of :: "dict \<Rightarrow> dict list option" where
  "handlers_of r = map_option (List.map_filter as_dict) (py_iter (dget r ''handle''))"

definition outcome_of :: "dict list \<Rightarrow> (json list + outcome) option" where
  "outcome_of handlers =
     (case find (\<lambda>h. is_handler h ''reverse_proxy'') handlers of
        Some h \<Rightarrow>
          do { ups \<leftarrow> py_iter (dget h ''upstreams'');
               dials \<leftarrow> map_opt (\<lambda>u. map_option (\<lambda>d. dget d ''dial'') (as_dict u)) ups;
               Some (Inr (Proxy dials)) }
      | None \<Rightarrow>
          (case find (\<lambda>h. is_handler h ''static_response'') handlers of
             Some h \<Rightarrow> Some (Inr (Respond (py_str (dget h ''status_code''))))
           | None \<Rightarrow> Some (Inl (map (\<lambda>h. dget h ''handler'') handlers))))"

definition route_summary :: "dict \<Rightarrow> summary option" where
  "route_summary r =
     do { handlers \<leftarrow> handlers_of r;
          single \<leftarrow> single_match (dget r ''match'');
          (case single of
             None \<Rightarrow> Some MultiMatch
           | Some match \<Rightarrow>
               do { rs \<leftarrow> (if dget match ''remote_ip'' \<noteq> JNull then map_option Some (match_ranges (dget match ''remote_ip'')) else Some None);
                    neg \<leftarrow> negated_ranges match;
                    ps \<leftarrow> match_field match ''path'';
                    ms \<leftarrow> match_field match ''method'';
                    what \<leftarrow> outcome_of handlers;
                    Some (case what of
                        Inl kinds \<Rightarrow> Other kinds
                      | Inr res \<Rightarrow> Route \<lparr> ranges = rs, negated = neg, paths = ps, methods = ms,
                          regexp = (case dget match ''path_regexp'' of JObj d \<Rightarrow> dget d ''pattern'' | _ \<Rightarrow> JNull),
                          outcome = res,
                          extra = sorted_set (keys_minus (dkeys match) [''remote_ip'', ''not'', ''path'', ''method'', ''path_regexp'']) \<rparr>) }) }"


section \<open>The edge table\<close>

definition ADMIN_PATHS :: "string list" where
  "ADMIN_PATHS = [''/admin'', ''/admin/*'', ''/realms/master'', ''/realms/master/*'']"

definition REALM_PATHS :: "string list" where
  "REALM_PATHS = [''/realms/decisya'', ''/realms/decisya/*'']"

definition PUBLISHED_ID_PATHS :: "string list" where
  "PUBLISHED_ID_PATHS = REALM_PATHS @ [''/resources/*'']"

definition ADMIN_LISTENER_PATHS :: "string list" where
  "ADMIN_LISTENER_PATHS = ADMIN_PATHS @ [''/resources/*'']"

definition ENCODED_PATH_PATTERN :: string where
  "ENCODED_PATH_PATTERN = ''(?i)%(2e|2f|5c)''"

definition DOTDOT_PATTERN :: string where
  "DOTDOT_PATTERN = [char_of (92::nat), CHR ''.'', char_of (92::nat), CHR ''.'']"

definition FW_8443 :: string where
  "FW_8443 = ''NAS-FW-8443''"

definition FW_ADMIN :: string where
  "FW_ADMIN = ''NAS-FW-ADMIN''"

definition PUBLISHED_ROUTES :: "(int \<times> string \<times> json list option \<times> string \<times> string) list" where
  "PUBLISHED_ROUTES = [
     (HTTPS_PORT, ''app'', None, ''bff:8080'', FW_8443),
     (HTTPS_PORT, ''id'', Some (frozen_strs PUBLISHED_ID_PATHS), ''keycloak:8080'', FW_8443),
     (ADMIN_PORT, ''id'', Some (frozen_strs ADMIN_LISTENER_PATHS), ''keycloak:8080'', FW_ADMIN)]"

definition FIREWALL_RULE_BY_PORT :: "(int \<times> string) list" where
  "FIREWALL_RULE_BY_PORT = [(HTTPS_PORT, FW_8443), (ADMIN_PORT, FW_ADMIN)]"

definition ADMIN_PROBES :: "string list" where
  "ADMIN_PROBES = [
     ''/admin'', ''/admin/'', ''/admin/master/console/'', ''/Admin/master/console/'', ''/ADMIN/'', ''/Admin'',
     ''/realms/master'', ''/realms/master/'', ''/realms/master/protocol/openid-connect/token'',
     ''/REALMS/MASTER/account'', ''/Realms/Master/'', ''/realms/Master'']"

definition ADMIN_LISTENER_REFUSED :: "string list" where
  "ADMIN_LISTENER_REFUSED = [''/realms/decisya/protocol/openid-connect/auth'', ''/bff/login'', ''/api/capabilities'']"

definition inner :: "string \<Rightarrow> string" where
  "inner s = butlast (tl s)"

definition glob_re :: "string \<Rightarrow> rx" where
  "glob_re p = rseq (map (\<lambda>c. if c = CHR ''*'' then RStar (RSet (\<lambda>x. x \<noteq> CHR ''/'')) else rchr c) p)"

definition caddy_path_matches :: "string \<Rightarrow> string \<Rightarrow> bool" where
  "caddy_path_matches pattern0 path0 =
     (let p = lower pattern0; path = lower path0 in
      if p = ''*'' then True
      else if CHR ''*'' \<notin> set p then path = p
      else if CHR ''*'' \<in> set (inner p) then fullmatches (glob_re p) path
      else let starts = py_startswith p ''*''; ends = py_endswith p ''*''; core = strip_chars ''*'' p in
        if starts \<and> ends then py_in core path
        else if starts then py_endswith path core else py_startswith path core)"

definition respond :: "string list option \<Rightarrow> json \<Rightarrow> summary" where
  "respond ps re = Route \<lparr> ranges = None, negated = None, paths = map_option frozen_strs ps, methods = None, regexp = re,
     outcome = Respond ''403'', extra = [] \<rparr>"

definition proxy :: "string list option \<Rightarrow> string list option \<Rightarrow> string list option \<Rightarrow> string \<Rightarrow> string list option \<Rightarrow> summary" where
  "proxy rs ps ms upstream neg = Route \<lparr> ranges = map_option sorted_set rs, negated = map_option sorted_set neg,
     paths = map_option frozen_strs ps, methods = map_option frozen_strs ms, regexp = JNull,
     outcome = Proxy [JStr upstream], extra = [] \<rparr>"

definition subnet_of :: "string \<Rightarrow> string" where
  "subnet_of name = (case map_of COMMITTED_SUBNETS name of Some s \<Rightarrow> s | None \<Rightarrow> [])"

definition expected_routes :: "int \<Rightarrow> string \<Rightarrow> summary list" where
  "expected_routes port label =
     (let committed = dvals COMMITTED_SUBNETS; backchannel = subnet_of ''backchannel''; idp = subnet_of ''idp'';
          dotdot = respond None (JStr DOTDOT_PATTERN); encoded = respond None (JStr ENCODED_PATH_PATTERN);
          deny = respond None JNull
      in if port = HTTPS_PORT \<and> label = ''app'' then
           [dotdot,
            proxy (Some [idp]) (Some [''/bff/backchannel-logout'']) (Some [''POST'']) ''bff:8080'' None,
            respond (Some [''/bff/backchannel-logout*'']) JNull,
            proxy None None None ''bff:8080'' (Some committed),
            deny]
         else if port = HTTPS_PORT \<and> label = ''id'' then
           [dotdot,
            respond (Some ADMIN_PATHS) JNull,
            encoded,
            proxy None (Some PUBLISHED_ID_PATHS) None ''keycloak:8080'' (Some committed),
            proxy (Some [backchannel]) (Some REALM_PATHS) None ''keycloak:8080'' None,
            deny]
         else if port = HTTPS_PORT \<and> label = ''api'' then
           [dotdot,
            proxy (Some [backchannel]) (Some [''/api/*'']) None ''api:8080'' None,
            deny]
         else if port = ADMIN_PORT \<and> label = ''id'' then
           [dotdot,
            encoded,
            proxy None (Some ADMIN_LISTENER_PATHS) None ''keycloak:8080'' (Some committed),
            deny]
         else [])"


section \<open>Reading the adapted configuration\<close>

definition has_proxy :: "json \<Rightarrow> bool option" where
  "has_proxy r =
     (case r of
        JObj d \<Rightarrow> map_option (list_ex (\<lambda>h. case h of JObj hx \<Rightarrow> is_handler hx ''reverse_proxy'' | _ \<Rightarrow> False)) (py_iter (dget d ''handle''))
      | _ \<Rightarrow> Some False)"

fun first_routes :: "dict list \<Rightarrow> json list option" where
  "first_routes [] = Some []"
| "first_routes (node # nodes) =
     (case dget node ''routes'' of
        JList routes \<Rightarrow> do { b \<leftarrow> any_opt has_proxy routes; if b then Some routes else first_routes nodes }
      | _ \<Rightarrow> first_routes nodes)"

definition site_nodes :: "dict \<Rightarrow> dict list" where
  "site_nodes site_route = iter_dicts (py_or (dget site_route ''handle'') (JList []))"

definition proxy_route_list :: "dict \<Rightarrow> json list option" where
  "proxy_route_list site_route = first_routes (site_nodes site_route)"

definition site_summaries :: "dict \<Rightarrow> summary list option" where
  "site_summaries site_route =
     do { routes \<leftarrow> proxy_route_list site_route;
          map_opt (\<lambda>r. do { d \<leftarrow> as_dict r; route_summary d }) routes }"

text \<open>\<^verbatim>\<open>str.isdigit\<close> also holds for the three superscript digits of Latin-1, on which \<^verbatim>\<open>int\<close> raises.\<close>

definition server_port :: "dict \<Rightarrow> int option option" where
  "server_port server =
     do { listens \<leftarrow> py_iter (dget server ''listen'');
          (case listens of
             [l] \<Rightarrow>
               (let tail = rsplit_last '':'' (py_str l) in
                if tail \<noteq> [] \<and> list_all (\<lambda>c. is_digit c \<or> ccode c \<in> {178, 179, 185}) tail
                then (if list_all is_digit tail then Some (Some (digits_val tail)) else None)
                else Some None)
           | _ \<Rightarrow> Some None) }"

type_synonym sites = "(int \<times> (json \<times> dict) list) list"

definition sites_on :: "sites \<Rightarrow> int \<Rightarrow> (json \<times> dict) list" where
  "sites_on sites port = (case map_of sites port of None \<Rightarrow> [] | Some hosts \<Rightarrow> hosts)"

definition add_host :: "int \<Rightarrow> dict \<Rightarrow> sites \<Rightarrow> json \<Rightarrow> sites option" where
  "add_host port route sites host =
     (if hashable host then Some (dset sites port (dset (sites_on sites port) host route)) else None)"

definition add_server_routes :: "int \<Rightarrow> dict \<Rightarrow> sites \<Rightarrow> sites option" where
  "add_server_routes port server sites =
     do { routes \<leftarrow> py_iter (dget server ''routes'');
          fold_opt (\<lambda>s r.
            do { route \<leftarrow> as_dict r;
                 matches \<leftarrow> py_iter (dget route ''match'');
                 fold_opt (\<lambda>s m.
                   do { match \<leftarrow> as_dict m;
                        hosts \<leftarrow> py_iter (dget match ''host'');
                        fold_opt (add_host port route) s hosts }) s matches }) sites routes }"

definition server_step :: "sites \<times> string list \<Rightarrow> json \<Rightarrow> (sites \<times> string list) option" where
  "server_step st v =
     (case st of (sites, ms) \<Rightarrow>
        do { server \<leftarrow> as_dict v;
             port \<leftarrow> server_port server;
             (case port of
                Some p \<Rightarrow>
                  if p \<in> {HTTPS_PORT, ADMIN_PORT} then
                    do { sites' \<leftarrow> add_server_routes p server sites;
                         Some (sites', ms @ msg_if (map_of sites p \<noteq> None) (fmt ''two servers listen on port %d (G-E1)'' [show_int p])) }
                  else Some (sites, ms @ [''a server listens on an address other than a single :8443 or :8444 (G-E1)''])
              | None \<Rightarrow> Some (sites, ms @ [''a server listens on an address other than a single :8443 or :8444 (G-E1)''])) })"

definition layout_of :: "env \<Rightarrow> (int \<times> (string \<times> string) list) list" where
  "layout_of values =
     [(HTTPS_PORT, dict_of [(val_of values ''DECISYA_APP_HOST'', ''app''), (val_of values ''DECISYA_ID_HOST'', ''id''),
                            (val_of values ''DECISYA_API_HOST'', ''api'')]),
      (ADMIN_PORT, [(val_of values ''DECISYA_ID_HOST'', ''id'')])]"

text \<open>The sites of the layout that exist: port, label, host and route.\<close>

definition laid_out :: "env \<Rightarrow> sites \<Rightarrow> (int \<times> string \<times> dict) list" where
  "laid_out values sites =
     concat (map (\<lambda>(port, hosts).
       List.map_filter (\<lambda>(host, label). map_option (\<lambda>route. (port, label, route)) (map_of (sites_on sites port) (JStr host))) hosts)
       (layout_of values))"


section \<open>The edge rules\<close>

definition id_pattern_problems :: "string \<Rightarrow> json list option \<Rightarrow> string list option" where
  "id_pattern_problems where ps =
     do { patterns \<leftarrow> map_opt as_str (case ps of None \<Rightarrow> [] | Some xs \<Rightarrow> xs);
          Some (concat (map (\<lambda>p.
            msg_if (CHR ''%'' \<in> set p) (fmt ''%s: a path pattern holds %% (it switches Caddy to the escaped path, G4-178-01)'' [where])
            @ msg_if (py_in ''//'' p) (fmt ''%s: a path pattern holds // (it switches off slash merging, G4-178-01)'' [where])
            @ msg_if (CHR ''*'' \<in> set (inner p)) (fmt ''%s: a path pattern holds an inner * (G4-178-01)'' [where])) (sort patterns))) }"

definition admits :: "json list \<Rightarrow> string \<Rightarrow> bool option" where
  "admits ps probe = do { patterns \<leftarrow> map_opt as_str ps; Some (list_ex (\<lambda>p. caddy_path_matches p probe) patterns) }"

definition committed_nets :: "string list" where
  "committed_nets = sorted_set (map norm_net (dvals COMMITTED_SUBNETS))"

type_synonym published = "int \<times> string \<times> json list option \<times> json"

text \<open>One proxy route: the messages and the published route it adds to \<^verbatim>\<open>found\<close>.\<close>

definition proxy_rule_problems :: "string \<Rightarrow> int \<Rightarrow> string \<Rightarrow> route \<Rightarrow> json list \<Rightarrow> (string list \<times> published list) option" where
  "proxy_rule_problems where port label r ups =
     (let source = (case ranges r of
            Some (x # xs) \<Rightarrow>
              (msg_if (\<not> set (x # xs) \<subseteq> set committed_nets)
                 (fmt ''%s: source allow-list on a published route (ADR-0016 R9.8 amended: the NAS firewall is the control)'' [where]), [])
          | _ \<Rightarrow>
              if negated r \<noteq> Some committed_nets
              then ([fmt ''%s: a published route must carry `not remote_ip` over exactly the two committed subnets and no positive remote_ip (G-E2)'' [where]], [])
              else ([], [(port, label, paths r, case ups of [] \<Rightarrow> JNull | u # _ \<Rightarrow> u)]))
      in do { e4 \<leftarrow> (if port = HTTPS_PORT \<and> ups = [JStr ''keycloak:8080''] then
                       (case paths r of
                          Some ps \<Rightarrow>
                            if regexp r \<noteq> JNull \<or> methods r \<noteq> None \<or> extra r \<noteq> []
                            then Some [fmt ''%s: a Keycloak route on 8443 must match on path only (G-E4)'' [where]]
                            else collect (\<lambda>probe. map_option (\<lambda>b. msg_if b
                                   (fmt ''%s: a Keycloak route on 8443 admits the admin path %s (G-E4)'' [where, probe])) (admits ps probe)) ADMIN_PROBES
                        | None \<Rightarrow> Some [fmt ''%s: a Keycloak route on 8443 must match on path only (G-E4)'' [where]])
                     else Some []);
              e5 \<leftarrow> (if port = ADMIN_PORT then
                       (if ups \<noteq> [JStr ''keycloak:8080''] \<or> paths r \<noteq> Some (frozen_strs ADMIN_LISTENER_PATHS)
                        then Some [fmt ''%s: the admin listener must admit exactly the admin paths to keycloak:8080 (G-E5)'' [where]]
                        else do { bs \<leftarrow> map_opt (admits (frozen_strs ADMIN_LISTENER_PATHS)) ADMIN_LISTENER_REFUSED;
                                  Some (msg_if (list_ex id bs)
                                    (fmt ''%s: the admin listener admits a path of the decisya realm, the BFF or the Api (G-E5)'' [where])) })
                     else Some []);
              Some (fst source
                    @ msg_if (label = ''id'' \<and> (regexp r \<noteq> JNull \<or> extra r \<noteq> []))
                        (fmt ''%s: an admitting route on the id host uses path_regexp, expression, header or vars (G4-178-01)'' [where])
                    @ e4 @ e5, snd source) })"

definition summary_problems :: "int \<Rightarrow> string \<Rightarrow> nat \<times> summary \<Rightarrow> (string list \<times> published list) option" where
  "summary_problems port label ns =
     (case ns of (index, s) \<Rightarrow>
        (let where = fmt ''%s site on %d, route %d'' [label, show_int port, show_nat index] in
         case s of
           Route r \<Rightarrow>
             do { pat \<leftarrow> (if label = ''id'' then id_pattern_problems where (paths r) else Some []);
                  (case outcome r of
                     Respond status \<Rightarrow> Some (pat, [])
                   | Proxy ups \<Rightarrow> map_option (\<lambda>(ms, found). (pat @ ms, found)) (proxy_rule_problems where port label r ups)) }
         | _ \<Rightarrow> Some ([fmt ''%s: the route has more than one match set or a handler this guard does not know'' [where]], [])))"

text \<open>The explicit refusal of the admin paths on 8443.\<close>

definition refuses_admin :: "summary \<Rightarrow> bool option" where
  "refuses_admin s =
     (case s of
        Route r \<Rightarrow>
          (case (outcome r, paths r) of
             (Respond status, Some ps) \<Rightarrow>
               if status \<noteq> ''403'' then Some False
               else map_option (list_all id) (map_opt (admits ps) ADMIN_PROBES)
           | _ \<Rightarrow> Some False)
      | _ \<Rightarrow> Some False)"

definition site_rule_problems :: "int \<times> string \<times> dict \<Rightarrow> (string list \<times> published list) option" where
  "site_rule_problems site =
     (case site of (port, label, route) \<Rightarrow>
        do { summaries \<leftarrow> site_summaries route;
             rs \<leftarrow> map_opt (summary_problems port label) (enumerate 1 summaries);
             second \<leftarrow> (if port = HTTPS_PORT \<and> label = ''id'' then
                          (if 1 < length summaries then map_option Not (refuses_admin (summaries ! 1)) else Some True)
                        else Some False);
             Some (concat (map fst rs)
                   @ msg_if second ''the id site on 8443: its second route must be an explicit 403 for every admin path (G-E4)''
                   @ msg_if (port = ADMIN_PORT \<and> (summaries = [] \<or> last summaries \<noteq> respond None JNull))
                       ''the id site on 8444: the route list must end with the catch-all 403 (G-E5)'',
                   concat (map snd rs)) })"

definition published_table :: "published list" where
  "published_table = map (\<lambda>(port, label, ps, upstream, rule). (port, label, ps, JStr upstream)) PUBLISHED_ROUTES"

definition edge_rule_problems :: "(int \<times> string \<times> dict) list \<Rightarrow> string list option" where
  "edge_rule_problems sites =
     do { rs \<leftarrow> map_opt site_rule_problems sites;
          let found = remdups (concat (map snd rs));
          Some (concat (map (\<lambda>(port, rule). concat (map (\<lambda>(p, label, ps, upstream, r).
                  msg_if (p = port \<and> r \<noteq> rule)
                    (fmt ''PUBLISHED_ROUTES: the %s site on %d must name the rule %s (G-E3)'' [label, show_int port, rule])) PUBLISHED_ROUTES))
                  FIREWALL_RULE_BY_PORT)
                @ concat (map fst rs)
                @ map (\<lambda>(port, label, ps, upstream).
                    fmt ''a published route (the %s site on %d, upstream %s) is not in PUBLISHED_ROUTES (G-E3)''
                      [label, show_int port, py_str upstream]) (filter (\<lambda>f. f \<notin> set published_table) found)
                @ map (\<lambda>(port, label, ps, upstream).
                    fmt ''PUBLISHED_ROUTES lists the %s site on %d, but no such published route exists (G-E3)'' [label, show_int port])
                    (filter (\<lambda>t. t \<notin> set found) published_table)) }"


section \<open>The whole guard\<close>

fun diff_messages :: "int \<Rightarrow> string \<Rightarrow> nat \<Rightarrow> summary list \<Rightarrow> summary list \<Rightarrow> string list" where
  "diff_messages port label n (g # gs) (w # ws) =
     msg_if (g \<noteq> w) (fmt ''%s site on %d: route %d differs from the edge table'' [label, show_int port, show_nat n])
     @ diff_messages port label (Suc n) gs ws"
| "diff_messages port label n _ _ = []"

definition site_problems :: "int \<times> string \<times> dict \<Rightarrow> string list option" where
  "site_problems site =
     (case site of (port, label, route) \<Rightarrow>
        do { got \<leftarrow> site_summaries route;
             let want = expected_routes port label;
             pass \<leftarrow> (if label = ''app'' then caddy_passthrough_problems (JObj route) else Some []);
             Some ((if length got \<noteq> length want
                    then [fmt ''%s site on %d: %d routes, expected %d (the edge table)''
                            [label, show_int port, show_nat (length got), show_nat (length want)]]
                    else diff_messages port label 1 got want)
                   @ msg_if (\<not> list_ex (\<lambda>d. is_handler d ''request_body'' \<and> truthy (dget d ''max_size'')) (site_nodes route))
                       (fmt ''%s site on %d: request_body max_size is missing'' [label, show_int port])
                   @ pass) })"

text \<open>\<^verbatim>\<open>host in (p.get("subjects") or [])\<close>.\<close>

definition py_contains :: "string \<Rightarrow> json \<Rightarrow> bool option" where
  "py_contains s v =
     (if \<not> truthy v then Some False
      else case v of
        JList xs \<Rightarrow> Some (JStr s \<in> set xs)
      | JObj d \<Rightarrow> Some (dhas d s)
      | JStr t \<Rightarrow> Some (py_in s t)
      | _ \<Rightarrow> None)"

definition policy_problems :: "json \<Rightarrow> string list option" where
  "policy_problems p =
     do { policy \<leftarrow> as_dict p;
          issuers \<leftarrow> py_iter (dget policy ''issuers'');
          other \<leftarrow> any_opt (\<lambda>i. map_option (\<lambda>d. dget d ''module'' \<noteq> JStr ''internal'') (as_dict i)) issuers;
          Some (msg_if (issuers = [] \<or> other) ''a TLS policy uses an issuer other than internal'') }"

definition host_policy_problems :: "json list \<Rightarrow> string \<times> string \<Rightarrow> string list option" where
  "host_policy_problems policies hl =
     (case hl of (host, label) \<Rightarrow>
        do { b \<leftarrow> any_opt (\<lambda>p. do { policy \<leftarrow> as_dict p; c \<leftarrow> py_contains host (dget policy ''subjects'');
                                    Some (c \<and> truthy (dget policy ''issuers'')) }) policies;
             Some (msg_if (\<not> b) (fmt ''%s site: tls internal policy is missing'' [label])) })"

definition wide_key :: "string \<Rightarrow> bool" where
  "wide_key k \<longleftrightarrow> py_in ''trusted_proxies'' (lower k) \<or> py_in ''credentials'' (lower k)"

definition INTERNAL_DIAL_RE :: rx where
  "INTERNAL_DIAL_RE = rseq [rchr CHR '':'', ralt [rlit ''9000'', rlit ''8081''], REol]"

definition global_problems :: "dict \<Rightarrow> env \<Rightarrow> string list option" where
  "global_problems adapted values =
     do { fwd \<leftarrow> caddy_forwarding_problems (JObj adapted);
          pol \<leftarrow> or_path (JObj adapted) [''apps'', ''tls'', ''automation'', ''policies''];
          policies \<leftarrow> py_iter pol;
          ps \<leftarrow> collect policy_problems policies;
          hs \<leftarrow> collect (host_policy_problems policies)
                 (case map_of (layout_of values) HTTPS_PORT of Some hosts \<Rightarrow> hosts | None \<Rightarrow> []);
          admin \<leftarrow> or_dict (dget adapted ''admin'');
          pki \<leftarrow> or_path (JObj adapted) [''apps'', ''pki'', ''certificate_authorities'', ''local''];
          local \<leftarrow> or_dict pki;
          Some (fwd @ ps @ hs
            @ msg_if (dget admin ''disabled'' \<noteq> JBool True) ''the admin API must be off''
            @ msg_if (dget local ''install_trust'' \<noteq> JBool False) ''skip_install_trust is missing''
            @ concat (map (\<lambda>node. concat (map (\<lambda>k. msg_if (wide_key k) (fmt ''the adapted config holds %s'' [k])) (dkeys node)))
                (iter_dicts (JObj adapted)))
            @ concat (map (\<lambda>node. msg_if (case dget node ''dial'' of JStr s \<Rightarrow> searches INTERNAL_DIAL_RE s | _ \<Rightarrow> False)
                ''an upstream is on port 9000 or 8081'') (iter_dicts (JObj adapted)))) }"

definition caddy_problems :: "dict \<Rightarrow> env \<Rightarrow> string list option" where
  "caddy_problems adapted values =
     (case find (\<lambda>key. val_of values key = []) CADDY_ENV_KEYS of
        Some key \<Rightarrow> Some [fmt ''Caddy guard: %s is not set'' [key]]
      | None \<Rightarrow>
          do { sv \<leftarrow> or_path (JObj adapted) [''apps'', ''http'', ''servers''];
               servers \<leftarrow> or_dict sv;
               (sites, ms) \<leftarrow> fold_opt server_step
                  ([], msg_if (length servers \<noteq> 2) ''there must be exactly two HTTP servers, one on :8443 and one on :8444 (G-E1)'')
                  (dvals servers);
               let same_hosts = (\<lambda>port. frozen (dkeys (sites_on sites port)) =
                   frozen_strs (case map_of (layout_of values) port of Some hosts \<Rightarrow> dkeys hosts | None \<Rightarrow> []));
               per_site \<leftarrow> collect site_problems (laid_out values sites);
               rules \<leftarrow> edge_rule_problems (laid_out values sites);
               global \<leftarrow> global_problems adapted values;
               Some (ms
                     @ msg_if (\<not> same_hosts HTTPS_PORT) ''the 8443 listener must hold exactly the app, id and api site blocks (G-E1)''
                     @ msg_if (\<not> same_hosts ADMIN_PORT) ''the 8444 listener must hold exactly the id site block (G-E1)''
                     @ per_site @ rules @ global) })"

definition port_word_re :: "int \<Rightarrow> rx" where
  "port_word_re port = rseq [RWordB, rlit (show_int port), RWordB]"

definition rule_named :: "string \<Rightarrow> int \<Rightarrow> string list \<Rightarrow> bool" where
  "rule_named rule port lines =
     list_ex (\<lambda>line. py_in rule line \<and> searches (port_word_re port) (replace_all rule '' '' line)) lines"

text \<open>\<^verbatim>\<open>sorted({(entry[4], entry[0]) ...})\<close> is in the order of the rule names.\<close>

definition runbook_firewall_problems :: "string \<Rightarrow> string list" where
  "runbook_firewall_problems text =
     (let lines = splitlines text in
        concat (map (\<lambda>(rule, port). msg_if (\<not> rule_named rule port lines)
            (fmt ''runbook: the firewall rule %s is not named with port %d on one line'' [rule, show_int port]))
          (sort_key fst (remdups (map (\<lambda>(port, label, ps, upstream, rule). (rule, port)) PUBLISHED_ROUTES))))
        @ msg_if (\<not> list_ex (\<lambda>line. py_in (show_int ADMIN_PORT) line \<and> searches (rlit_ci ''no connection'') line) lines)
            (fmt (''runbook: the refusal row for port %d ('' @ [CHR 0x22] @ ''no connection'' @ [CHR 0x22] @ '') is missing'') [show_int ADMIN_PORT])
        @ msg_if (\<not> searches (word_re ''STOP'') text) ''runbook: the STOP rule for a failed refusal check is missing'')"


section \<open>An accepted edge has the routes of the table\<close>

lemma diff_messages_Nil: "length gs = length ws \<Longrightarrow> diff_messages port label n gs ws = [] \<longleftrightarrow> gs = ws"
  by (induction port label n gs ws rule: diff_messages.induct) auto

lemma site_problems_Nil:
  "site_problems (port, label, route) = Some [] \<Longrightarrow> site_summaries route = Some (expected_routes port label)"
  by (auto simp: site_problems_def bind_eq_Some_conv Let_def diff_messages_Nil split: if_splits)

definition EDGE_SITES :: "(int \<times> string \<times> string) list" where
  "EDGE_SITES = [(8443, ''app'', ''DECISYA_APP_HOST''), (8443, ''id'', ''DECISYA_ID_HOST''), (8443, ''api'', ''DECISYA_API_HOST''),
     (8444, ''id'', ''DECISYA_ID_HOST'')]"

text \<open>The sites the guard collects, and the summaries of the site of a host on a port.\<close>

definition edge_sites :: "dict \<Rightarrow> (sites \<times> string list) option" where
  "edge_sites adapted =
     do { sv \<leftarrow> or_path (JObj adapted) [''apps'', ''http'', ''servers''];
          servers \<leftarrow> or_dict sv;
          fold_opt server_step
            ([], msg_if (length servers \<noteq> 2) ''there must be exactly two HTTP servers, one on :8443 and one on :8444 (G-E1)'')
            (dvals servers) }"

definition routes_of :: "dict \<Rightarrow> int \<Rightarrow> string \<Rightarrow> summary list option" where
  "routes_of adapted port host =
     do { (sites, ms) \<leftarrow> edge_sites adapted;
          route \<leftarrow> map_of (sites_on sites port) (JStr host);
          site_summaries route }"

lemma set_frozen: "set (frozen xs) = set xs"
  by (simp add: frozen_def)

lemma collect_member: "collect f xs = Some [] \<Longrightarrow> x \<in> set xs \<Longrightarrow> f x = Some []"
  by simp

lemma edge_accepted_parts:
  assumes c: "caddy_problems adapted values = Some []"
  obtains sites ms where "edge_sites adapted = Some (sites, ms)"
    and "collect site_problems (laid_out values sites) = Some []"
    and "edge_rule_problems (laid_out values sites) = Some []"
    and "global_problems adapted values = Some []"
    and "\<And>port hosts. (port, hosts) \<in> set (layout_of values) \<Longrightarrow> set (dkeys (sites_on sites port)) = JStr ` set (dkeys hosts)"
proof -
  from c have "find (\<lambda>key. val_of values key = []) CADDY_ENV_KEYS = None"
    by (auto simp: caddy_problems_def split: option.splits)
  with c obtain sites ms where s: "edge_sites adapted = Some (sites, ms)"
    by (auto simp: caddy_problems_def edge_sites_def bind_eq_Some_conv)
  define same where "same = (\<lambda>port. frozen (dkeys (sites_on sites port)) =
      frozen_strs (case map_of (layout_of values) port of Some hosts \<Rightarrow> dkeys hosts | None \<Rightarrow> []))"
  from c s \<open>find (\<lambda>key. val_of values key = []) CADDY_ENV_KEYS = None\<close>
  have all: "collect site_problems (laid_out values sites) = Some []" "edge_rule_problems (laid_out values sites) = Some []"
      "global_problems adapted values = Some []" "same HTTPS_PORT" "same ADMIN_PORT"
    by (auto simp: caddy_problems_def edge_sites_def bind_eq_Some_conv Let_def same_def)
  have "set (dkeys (sites_on sites port)) = JStr ` set (dkeys hosts)" if "(port, hosts) \<in> set (layout_of values)" for port hosts
  proof -
    have "map_of (layout_of values) port = Some hosts" "port = HTTPS_PORT \<or> port = ADMIN_PORT"
      using that by (auto simp: layout_of_def HTTPS_PORT_def ADMIN_PORT_def)
    with all(4,5) have "frozen (dkeys (sites_on sites port)) = frozen_strs (dkeys hosts)" by (auto simp: same_def)
    then have "set (frozen (dkeys (sites_on sites port))) = set (frozen (map JStr (dkeys hosts)))" by (simp add: frozen_strs_def)
    then show ?thesis by (simp add: set_frozen)
  qed
  with that s all(1-3) show ?thesis by blast
qed

lemma dict_of_three: "distinct [a, b, c] \<Longrightarrow> dict_of [(a, x), (b, y), (c, z)] = [(a, x), (b, y), (c, z)]"
  by (auto simp: dict_of_def)

lemma layout_of_distinct:
  assumes "distinct (map (val_of values) HOST_KEYS)"
  shows "layout_of values =
     [(HTTPS_PORT, [(val_of values ''DECISYA_APP_HOST'', ''app''), (val_of values ''DECISYA_ID_HOST'', ''id''),
                    (val_of values ''DECISYA_API_HOST'', ''api'')]),
      (ADMIN_PORT, [(val_of values ''DECISYA_ID_HOST'', ''id'')])]"
proof -
  have "distinct [val_of values ''DECISYA_APP_HOST'', val_of values ''DECISYA_ID_HOST'', val_of values ''DECISYA_API_HOST'']"
    using assms by (auto simp: HOST_KEYS_def)
  then show ?thesis unfolding layout_of_def by (subst dict_of_three) simp_all
qed

lemma layout_hosts:
  assumes "distinct (map (val_of values) HOST_KEYS)" and site: "(port, label, key) \<in> set EDGE_SITES"
  shows "\<exists>hosts. (port, hosts) \<in> set (layout_of values) \<and> (val_of values key, label) \<in> set hosts"
proof -
  have ps: "HTTPS_PORT = 8443" "ADMIN_PORT = 8444" by (simp_all add: HTTPS_PORT_def ADMIN_PORT_def)
  from site consider "port = 8443" "label = ''app''" "key = ''DECISYA_APP_HOST''" | "port = 8443" "label = ''id''" "key = ''DECISYA_ID_HOST''"
    | "port = 8443" "label = ''api''" "key = ''DECISYA_API_HOST''" | "port = 8444" "label = ''id''" "key = ''DECISYA_ID_HOST''"
    unfolding EDGE_SITES_def by (simp only: list.set insert_iff empty_iff prod.inject) blast
  then show ?thesis unfolding layout_of_distinct [OF assms(1)] ps
    by cases simp_all
qed

lemma accepted_routes:
  assumes acc: "caddy_problems adapted values = Some []" and hosts: "distinct (map (val_of values) HOST_KEYS)"
    and site: "(port, label, key) \<in> set EDGE_SITES"
  shows "routes_of adapted port (val_of values key) = Some (expected_routes port label)"
proof -
  obtain hs where hs: "(port, hs) \<in> set (layout_of values)" "(val_of values key, label) \<in> set hs"
    using layout_hosts [OF hosts site] by blast
  from acc obtain sites ms where s: "edge_sites adapted = Some (sites, ms)" "collect site_problems (laid_out values sites) = Some []"
    "set (dkeys (sites_on sites port)) = JStr ` set (dkeys hs)"
    by (rule edge_accepted_parts) (use hs(1) in blast)
  from hs(2) have "val_of values key \<in> set (dkeys hs)" unfolding dkeys_def set_map by (rule image_eqI [rotated]) simp
  with s(3) have "JStr (val_of values key) \<in> set (dkeys (sites_on sites port))" by simp
  then obtain route where r: "map_of (sites_on sites port) (JStr (val_of values key)) = Some route"
    by (metis dkeys_def map_of_eq_None_iff not_None_eq set_map)
  have "(port, label, route) \<in> set (laid_out values sites)"
  proof -
    let ?f = "\<lambda>(host, label). map_option (\<lambda>route. (port, label, route)) (map_of (sites_on sites port) (JStr host))"
    have "?f (val_of values key, label) = Some (port, label, route)" using r by simp
    with hs(2) have "(port, label, route) \<in> set (List.map_filter ?f hs)" unfolding set_map_filter by blast
    with hs(1) show ?thesis unfolding laid_out_def set_concat set_map image_image
      by (intro UN_I [of "(port, hs)"]) simp_all
  qed
  with s(2) have "site_problems (port, label, route) = Some []" by (rule collect_member)
  with r s(1) show ?thesis by (simp add: routes_of_def site_problems_Nil)
qed


section \<open>What the routes admit\<close>

text \<open>
  The meaning of a list of routes, as Caddy documents it: the first route whose matchers all hold answers.
  Addresses are IPv4; \<open>rx_match\<close> stands for Caddy's regular expressions. A route the summary does not
  describe in full has no answer here.
\<close>

record request =
  req_path :: string
  req_method :: string
  req_source :: int

definition in_range_text :: "int \<Rightarrow> string \<Rightarrow> bool" where
  "in_range_text ip r = (case ipv4_net_of False r of Some n \<Rightarrow> in_net ip n | None \<Rightarrow> False)"

definition path_in :: "json list \<Rightarrow> string \<Rightarrow> bool" where
  "path_in ps path \<longleftrightarrow> list_ex (\<lambda>p. case p of JStr s \<Rightarrow> caddy_path_matches s path | _ \<Rightarrow> False) ps"

definition route_matches :: "(string \<Rightarrow> string \<Rightarrow> bool) \<Rightarrow> route \<Rightarrow> request \<Rightarrow> bool" where
  "route_matches rx_match r q \<longleftrightarrow>
     (case ranges r of None \<Rightarrow> True | Some rs \<Rightarrow> list_ex (in_range_text (req_source q)) rs)
     \<and> (case negated r of None \<Rightarrow> True | Some rs \<Rightarrow> \<not> list_ex (in_range_text (req_source q)) rs)
     \<and> (case paths r of None \<Rightarrow> True | Some ps \<Rightarrow> path_in ps (req_path q))
     \<and> (case methods r of None \<Rightarrow> True | Some ms \<Rightarrow> JStr (req_method q) \<in> set ms)
     \<and> (case regexp r of JNull \<Rightarrow> True | JStr p \<Rightarrow> rx_match p (req_path q) | _ \<Rightarrow> False)"

fun answer :: "(string \<Rightarrow> string \<Rightarrow> bool) \<Rightarrow> summary list \<Rightarrow> request \<Rightarrow> outcome option" where
  "answer rx_match [] q = None"
| "answer rx_match (Route r # rs) q =
     (if extra r \<noteq> [] then None else if route_matches rx_match r q then Some (outcome r) else answer rx_match rs q)"
| "answer rx_match (_ # rs) q = None"

definition is_admin_path :: "string \<Rightarrow> bool" where
  "is_admin_path path \<longleftrightarrow>
     lower path = ''/admin'' \<or> prefix ''/admin/'' (lower path)
     \<or> lower path = ''/realms/master'' \<or> prefix ''/realms/master/'' (lower path)"

definition is_realm_path :: "string \<Rightarrow> bool" where
  "is_realm_path path \<longleftrightarrow> lower path = ''/realms/decisya'' \<or> prefix ''/realms/decisya/'' (lower path)"

definition is_resource_path :: "string \<Rightarrow> bool" where
  "is_resource_path path \<longleftrightarrow> prefix ''/resources/'' (lower path)"

lemma path_in_frozen: "path_in (frozen_strs ps) path \<longleftrightarrow> (\<exists>p\<in>set ps. caddy_path_matches p path)"
  by (auto simp: path_in_def list_ex_iff frozen_strs_def set_frozen)

lemma match_exact:
  assumes "lower p = p" "CHR ''*'' \<notin> set p"
  shows "caddy_path_matches p path \<longleftrightarrow> lower path = p"
  using assms by (auto simp: caddy_path_matches_def)

lemma match_prefix:
  assumes "lower (p @ ''*'') = p @ ''*''" "CHR ''*'' \<notin> set p" "p \<noteq> []"
  shows "caddy_path_matches (p @ ''*'') path \<longleftrightarrow> prefix p (lower path)"
proof -
  have core: "strip_chars ''*'' (p @ ''*'') = p"
  proof -
    from assms(2,3) obtain c cs where p: "p = c # cs" "c \<noteq> CHR ''*''" by (cases p) auto
    have "dropWhile (\<lambda>c. c \<in> set ''*'') (p @ ''*'') = p @ ''*''" using p by simp
    moreover have "dropWhile (\<lambda>c. c \<in> set ''*'') (rev (p @ ''*'')) = rev p"
    proof (cases "rev p")
      case Nil
      then show ?thesis using p(1) by simp
    next
      case (Cons d ds)
      then have "d \<in> set p" by (metis list.set_intros(1) set_rev)
      with assms(2) Cons show ?thesis by (cases "d = CHR ''*''") simp_all
    qed
    ultimately show ?thesis by (simp add: strip_chars_def)
  qed
  have inner: "inner (p @ ''*'') = tl p" using assms(3) by (cases p) (auto simp: inner_def)
  have "CHR ''*'' \<notin> set (tl p)" using assms(2,3) by (cases p) auto
  moreover have "\<not> prefix ''*'' (p @ ''*'')" using assms(2,3) by (cases p) auto
  moreover have "p @ ''*'' \<noteq> ''*''" using assms(3) by simp
  ultimately show ?thesis using assms(1) by (simp add: caddy_path_matches_def Let_def inner core)
qed

lemma path_table:
  "caddy_path_matches ''/admin'' path \<longleftrightarrow> lower path = ''/admin''"
  "caddy_path_matches ''/admin/*'' path \<longleftrightarrow> prefix ''/admin/'' (lower path)"
  "caddy_path_matches ''/realms/master'' path \<longleftrightarrow> lower path = ''/realms/master''"
  "caddy_path_matches ''/realms/master/*'' path \<longleftrightarrow> prefix ''/realms/master/'' (lower path)"
  "caddy_path_matches ''/realms/decisya'' path \<longleftrightarrow> lower path = ''/realms/decisya''"
  "caddy_path_matches ''/realms/decisya/*'' path \<longleftrightarrow> prefix ''/realms/decisya/'' (lower path)"
  "caddy_path_matches ''/resources/*'' path \<longleftrightarrow> prefix ''/resources/'' (lower path)"
  "caddy_path_matches ''/api/*'' path \<longleftrightarrow> prefix ''/api/'' (lower path)"
  "caddy_path_matches ''/bff/backchannel-logout'' path \<longleftrightarrow> lower path = ''/bff/backchannel-logout''"
  "caddy_path_matches ''/bff/backchannel-logout*'' path \<longleftrightarrow> prefix ''/bff/backchannel-logout'' (lower path)"
proof -
  have l: "lower ''/admin'' = ''/admin''" "lower ''/admin/*'' = ''/admin/*''" "lower ''/realms/master'' = ''/realms/master''"
    "lower ''/realms/master/*'' = ''/realms/master/*''" "lower ''/realms/decisya'' = ''/realms/decisya''"
    "lower ''/realms/decisya/*'' = ''/realms/decisya/*''" "lower ''/resources/*'' = ''/resources/*''" "lower ''/api/*'' = ''/api/*''"
    "lower ''/bff/backchannel-logout'' = ''/bff/backchannel-logout''" "lower ''/bff/backchannel-logout*'' = ''/bff/backchannel-logout*''"
    by code_simp+
  show "caddy_path_matches ''/admin'' path \<longleftrightarrow> lower path = ''/admin''" "caddy_path_matches ''/realms/master'' path \<longleftrightarrow> lower path = ''/realms/master''"
    "caddy_path_matches ''/realms/decisya'' path \<longleftrightarrow> lower path = ''/realms/decisya''"
    "caddy_path_matches ''/bff/backchannel-logout'' path \<longleftrightarrow> lower path = ''/bff/backchannel-logout''"
    by (rule match_exact; simp add: l del: lower_Cons)+
  show "caddy_path_matches ''/admin/*'' path \<longleftrightarrow> prefix ''/admin/'' (lower path)"
    using match_prefix [of "''/admin/''" path] l by (simp del: lower_Cons)
  show "caddy_path_matches ''/realms/master/*'' path \<longleftrightarrow> prefix ''/realms/master/'' (lower path)"
    using match_prefix [of "''/realms/master/''" path] l by (simp del: lower_Cons)
  show "caddy_path_matches ''/realms/decisya/*'' path \<longleftrightarrow> prefix ''/realms/decisya/'' (lower path)"
    using match_prefix [of "''/realms/decisya/''" path] l by (simp del: lower_Cons)
  show "caddy_path_matches ''/resources/*'' path \<longleftrightarrow> prefix ''/resources/'' (lower path)"
    using match_prefix [of "''/resources/''" path] l by (simp del: lower_Cons)
  show "caddy_path_matches ''/api/*'' path \<longleftrightarrow> prefix ''/api/'' (lower path)"
    using match_prefix [of "''/api/''" path] l by (simp del: lower_Cons)
  show "caddy_path_matches ''/bff/backchannel-logout*'' path \<longleftrightarrow> prefix ''/bff/backchannel-logout'' (lower path)"
    using match_prefix [of "''/bff/backchannel-logout''" path] l by (simp del: lower_Cons)
qed


lemma answer_respond [simp]:
  "answer rx_match (respond ps re # rs) q =
     (if (case ps of None \<Rightarrow> True | Some xs \<Rightarrow> \<exists>p\<in>set xs. caddy_path_matches p (req_path q))
         \<and> (case re of JNull \<Rightarrow> True | JStr p \<Rightarrow> rx_match p (req_path q) | _ \<Rightarrow> False)
      then Some (Respond ''403'') else answer rx_match rs q)"
  by (simp add: respond_def route_matches_def path_in_frozen split: option.splits)

lemma answer_proxy [simp]:
  "answer rx_match (proxy rngs ps ms upstream neg # rs) q =
     (if (case rngs of None \<Rightarrow> True | Some xs \<Rightarrow> \<exists>r\<in>set xs. in_range_text (req_source q) r)
         \<and> (case neg of None \<Rightarrow> True | Some xs \<Rightarrow> \<not> (\<exists>r\<in>set xs. in_range_text (req_source q) r))
         \<and> (case ps of None \<Rightarrow> True | Some xs \<Rightarrow> \<exists>p\<in>set xs. caddy_path_matches p (req_path q))
         \<and> (case ms of None \<Rightarrow> True | Some xs \<Rightarrow> req_method q \<in> set xs)
      then Some (Proxy [JStr upstream]) else answer rx_match rs q)"
proof -
  have m: "JStr (req_method q) \<in> set (frozen_strs xs) \<longleftrightarrow> req_method q \<in> set xs" for xs
    by (auto simp: frozen_strs_def set_frozen)
  show ?thesis
    unfolding proxy_def answer.simps route_matches_def
    by (cases rngs; cases neg; cases ps; cases ms) (simp_all add: path_in_frozen list_ex_iff m)
qed

definition from_committed :: "request \<Rightarrow> bool" where
  "from_committed q \<longleftrightarrow> list_ex (in_range_text (req_source q)) (dvals COMMITTED_SUBNETS)"

lemma from_committed_iff: "from_committed q \<longleftrightarrow> (\<exists>r\<in>set (dvals COMMITTED_SUBNETS). in_range_text (req_source q) r)"
  by (simp add: from_committed_def list_ex_iff)

lemma table_patterns:
  "(\<exists>p\<in>set ADMIN_PATHS. caddy_path_matches p path) \<longleftrightarrow> is_admin_path path"
  "(\<exists>p\<in>set REALM_PATHS. caddy_path_matches p path) \<longleftrightarrow> is_realm_path path"
  "(\<exists>p\<in>set PUBLISHED_ID_PATHS. caddy_path_matches p path) \<longleftrightarrow> is_realm_path path \<or> is_resource_path path"
  "(\<exists>p\<in>set ADMIN_LISTENER_PATHS. caddy_path_matches p path) \<longleftrightarrow> is_admin_path path \<or> is_resource_path path"
  unfolding ADMIN_PATHS_def REALM_PATHS_def PUBLISHED_ID_PATHS_def ADMIN_LISTENER_PATHS_def
    is_admin_path_def is_realm_path_def is_resource_path_def
  by (simp_all only: append.simps list.set bex_simps path_table) blast+

lemma answers:
  "answer rx_match (expected_routes 8443 ''app'') q =
     Some (if rx_match DOTDOT_PATTERN (req_path q) then Respond ''403''
       else if in_range_text (req_source q) (subnet_of ''idp'') \<and> lower (req_path q) = ''/bff/backchannel-logout'' \<and> req_method q = ''POST''
         then Proxy [JStr ''bff:8080'']
       else if prefix ''/bff/backchannel-logout'' (lower (req_path q)) \<or> from_committed q then Respond ''403''
       else Proxy [JStr ''bff:8080''])"
  "answer rx_match (expected_routes 8443 ''id'') q =
     Some (if rx_match DOTDOT_PATTERN (req_path q) \<or> is_admin_path (req_path q) \<or> rx_match ENCODED_PATH_PATTERN (req_path q) then Respond ''403''
       else if is_realm_path (req_path q) \<and> (\<not> from_committed q \<or> in_range_text (req_source q) (subnet_of ''backchannel''))
         \<or> is_resource_path (req_path q) \<and> \<not> from_committed q then Proxy [JStr ''keycloak:8080'']
       else Respond ''403'')"
  "answer rx_match (expected_routes 8443 ''api'') q =
     Some (if \<not> rx_match DOTDOT_PATTERN (req_path q) \<and> in_range_text (req_source q) (subnet_of ''backchannel'')
         \<and> prefix ''/api/'' (lower (req_path q)) then Proxy [JStr ''api:8080''] else Respond ''403'')"
  "answer rx_match (expected_routes 8444 ''id'') q =
     Some (if rx_match DOTDOT_PATTERN (req_path q) \<or> rx_match ENCODED_PATH_PATTERN (req_path q) then Respond ''403''
       else if (is_admin_path (req_path q) \<or> is_resource_path (req_path q)) \<and> \<not> from_committed q then Proxy [JStr ''keycloak:8080'']
       else Respond ''403'')"
  by (simp_all add: expected_routes_def HTTPS_PORT_def ADMIN_PORT_def Let_def table_patterns path_table from_committed_iff [symmetric])


section \<open>A sample edge\<close>

definition rendered_net :: "string list \<Rightarrow> json" where
  "rendered_net rs = JObj [(''ranges'', JList (map JStr rs))]"

definition rendered_match :: "route \<Rightarrow> dict" where
  "rendered_match r =
     (case ranges r of None \<Rightarrow> [] | Some rs \<Rightarrow> [(''remote_ip'', rendered_net rs)])
     @ (case negated r of None \<Rightarrow> [] | Some rs \<Rightarrow> [(''not'', JList [JObj [(''remote_ip'', rendered_net rs)]])])
     @ (case paths r of None \<Rightarrow> [] | Some ps \<Rightarrow> [(''path'', JList ps)])
     @ (case methods r of None \<Rightarrow> [] | Some ms \<Rightarrow> [(''method'', JList ms)])
     @ (case regexp r of JNull \<Rightarrow> [] | p \<Rightarrow> [(''path_regexp'', JObj [(''pattern'', p)])])"

definition rendered_handler :: "outcome \<Rightarrow> json" where
  "rendered_handler w =
     (case w of
        Proxy ups \<Rightarrow> JObj [(''handler'', JStr ''reverse_proxy''), (''upstreams'', JList (map (\<lambda>u. JObj [(''dial'', u)]) ups))]
      | Respond status \<Rightarrow> JObj [(''handler'', JStr ''static_response''), (''status_code'', JStr status)])"

definition rendered_route :: "summary \<Rightarrow> json" where
  "rendered_route s =
     (case s of
        Route r \<Rightarrow>
          JObj ((if rendered_match r = [] then [] else [(''match'', JList [JObj (rendered_match r)])])
                @ [(''handle'', JList [rendered_handler (outcome r)])])
      | _ \<Rightarrow> JObj [])"

definition rendered_site :: "int \<Rightarrow> string \<Rightarrow> string \<Rightarrow> json" where
  "rendered_site port label host =
     JObj [(''match'', JList [JObj [(''host'', JList [JStr host])]]),
           (''handle'', JList [JObj [(''handler'', JStr ''subroute''),
              (''routes'', JList [
                 JObj [(''handle'', JList [JObj [(''handler'', JStr ''request_body''), (''max_size'', JInt 1048576)]])],
                 JObj [(''handle'', JList [JObj [(''handler'', JStr ''subroute''),
                    (''routes'', JList (map rendered_route (expected_routes port label)))]])]])]])]"

definition sample_edge_env :: env where
  "sample_edge_env = map (\<lambda>k. (k, k @ ''.example'')) CADDY_ENV_KEYS"

definition rendered_edge :: "env \<Rightarrow> dict" where
  "rendered_edge values =
     (let site = (\<lambda>(port, label, key). rendered_site port label (val_of values key)) in
      [(''admin'', JObj [(''disabled'', JBool True)]),
       (''apps'', JObj [
          (''http'', JObj [(''servers'', JObj [
             (''srv0'', JObj [(''listen'', JList [JStr '':8443'']), (''routes'', JList (map site (take 3 EDGE_SITES)))]),
             (''srv1'', JObj [(''listen'', JList [JStr '':8444'']), (''routes'', JList (map site (drop 3 EDGE_SITES)))])])]),
          (''tls'', JObj [(''automation'', JObj [(''policies'', JList [
             JObj [(''subjects'', JList (map (\<lambda>k. JStr (val_of values k)) HOST_KEYS)),
                   (''issuers'', JList [JObj [(''module'', JStr ''internal'')]])]])])]),
          (''pki'', JObj [(''certificate_authorities'', JObj [(''local'', JObj [(''install_trust'', JBool False)])])])])])"

lemma sample_edge_ok: "caddy_problems (rendered_edge sample_edge_env) sample_edge_env = Some []"
  by code_simp

lemma sample_edge_hosts: "distinct (map (val_of sample_edge_env) HOST_KEYS)"
  by code_simp


section \<open>What an accepted edge lets through\<close>

lemma edge_site_members:
  "(8443, ''app'', ''DECISYA_APP_HOST'') \<in> set EDGE_SITES" "(8443, ''id'', ''DECISYA_ID_HOST'') \<in> set EDGE_SITES"
  "(8443, ''api'', ''DECISYA_API_HOST'') \<in> set EDGE_SITES" "(8444, ''id'', ''DECISYA_ID_HOST'') \<in> set EDGE_SITES"
  by (simp_all add: EDGE_SITES_def)

lemmas edge_routes = edge_site_members [THEN accepted_routes [rotated 2]]



text \<open>The requests a listener of the id host passes to Keycloak, the path patterns aside.\<close>

definition keycloak_admits :: "int \<Rightarrow> request \<Rightarrow> bool" where
  "keycloak_admits port q \<longleftrightarrow>
     (if port = 8443
      then \<not> is_admin_path (req_path q)
           \<and> (is_realm_path (req_path q) \<and> (\<not> from_committed q \<or> in_range_text (req_source q) (subnet_of ''backchannel''))
              \<or> is_resource_path (req_path q) \<and> \<not> from_committed q)
      else (is_admin_path (req_path q) \<or> is_resource_path (req_path q)) \<and> \<not> from_committed q)"



text \<open>
  On an accepted edge the app site sends a request under the back-channel logout path to the BFF
  only when it is a POST of exactly that path from the idp subnet; any other request from a committed
  subnet is refused, and every other request reaches the BFF unless the dot-dot pattern matches its path.
\<close>

theorem edge_app_reached:
  assumes "caddy_problems adapted values = Some []" and "distinct (map (val_of values) HOST_KEYS)"
  shows "\<exists>rs. routes_of adapted 8443 (val_of values ''DECISYA_APP_HOST'') = Some rs
     \<and> answer rx_match rs q =
         Some (if \<not> rx_match DOTDOT_PATTERN (req_path q)
                  \<and> (if prefix ''/bff/backchannel-logout'' (lower (req_path q))
                     then lower (req_path q) = ''/bff/backchannel-logout'' \<and> req_method q = ''POST''
                          \<and> in_range_text (req_source q) (subnet_of ''idp'')
                     else \<not> from_committed q)
               then Proxy [JStr ''bff:8080''] else Respond ''403'')"
  using edge_routes(1) [OF assms] by (simp add: answers)

theorem edge_app_reached_witness:
  "\<exists>rs. routes_of (rendered_edge sample_edge_env) 8443 (val_of sample_edge_env ''DECISYA_APP_HOST'') = Some rs
     \<and> answer (\<lambda>_ _. False) rs \<lparr> req_path = ''/bff/backchannel-logout'', req_method = ''GET'', req_source = 0 \<rparr> = Some (Respond ''403'')"
proof -
  have "lower ''/bff/backchannel-logout'' = ''/bff/backchannel-logout''" by code_simp
  then show ?thesis
    using edge_app_reached [OF sample_edge_ok sample_edge_hosts, of "\<lambda>_ _. False" "\<lparr> req_path = ''/bff/backchannel-logout'', req_method = ''GET'', req_source = 0 \<rparr>"]
    by (simp del: lower_Cons)
qed

text \<open>
  On an accepted edge only requests of the backchannel subnet under /api/ reach the API, and its site
  answers every other request with 403.
\<close>

theorem edge_api_reached:
  assumes "caddy_problems adapted values = Some []" and "distinct (map (val_of values) HOST_KEYS)"
  shows "\<exists>rs. routes_of adapted 8443 (val_of values ''DECISYA_API_HOST'') = Some rs
     \<and> answer rx_match rs q =
         Some (if in_range_text (req_source q) (subnet_of ''backchannel'') \<and> prefix ''/api/'' (lower (req_path q))
                  \<and> \<not> rx_match DOTDOT_PATTERN (req_path q)
               then Proxy [JStr ''api:8080''] else Respond ''403'')"
  using edge_routes(3) [OF assms] by (auto simp: answers)

theorem edge_api_reached_witness:
  "\<exists>rs. routes_of (rendered_edge sample_edge_env) 8443 (val_of sample_edge_env ''DECISYA_API_HOST'') = Some rs
     \<and> answer (\<lambda>_ _. False) rs \<lparr> req_path = ''/api/x'', req_method = ''GET'', req_source = 0 \<rparr> = Some (Respond ''403'')"
proof -
  have "\<not> in_range_text 0 (subnet_of ''backchannel'')" by code_simp
  with edge_api_reached [OF sample_edge_ok sample_edge_hosts, of "\<lambda>_ _. False" "\<lparr> req_path = ''/api/x'', req_method = ''GET'', req_source = 0 \<rparr>"]
  show ?thesis by simp
qed

end
