(* ===== verification/Exception_File.thy ===== *)
theory Exception_File
  imports Py_Json
begin

text \<open>
  The two exceptions files of the CI, \<^verbatim>\<open>.github/image-scan/exceptions.json\<close> and \<^verbatim>\<open>.github/zap/exceptions.json\<close>, are
  validated by loops of the same shape: the errors so far, the identities seen so far and the entries accepted so far
  are carried over the list, and an entry is kept only when it adds no error. The locale states what one
  step of such a loop promises; inside it the whole loop is shown to accept exactly the lists whose entries
  are all right and have distinct identities. Each validator interprets it.
\<close>

definition accepts :: "(dict \<Rightarrow> 'e \<Rightarrow> bool) \<Rightarrow> (dict \<Rightarrow> 'i) \<Rightarrow> 'i list \<Rightarrow> json list \<Rightarrow> 'e list \<Rightarrow> bool" where
  "accepts ok ident seen es xs \<longleftrightarrow>
     (\<exists>ds. es = map JObj ds \<and> list_all2 ok ds xs \<and> distinct (map ident ds) \<and> (\<forall>d\<in>set ds. ident d \<notin> set seen))"

lemma accepts_Nil: "accepts ok ident seen [] xs \<longleftrightarrow> xs = []"
  by (auto simp: accepts_def)

lemma accepts_Cons:
  "accepts ok ident seen (e # es) xs \<longleftrightarrow>
     (\<exists>d x ys. e = JObj d \<and> xs = x # ys \<and> ok d x \<and> ident d \<notin> set seen \<and> accepts ok ident (seen @ [ident d]) es ys)"
proof
  assume "accepts ok ident seen (e # es) xs"
  then obtain ds where ds: "e # es = map JObj ds" "list_all2 ok ds xs" "distinct (map ident ds)" "\<forall>d\<in>set ds. ident d \<notin> set seen"
    unfolding accepts_def by (elim exE conjE)
  then obtain d ds' where d: "ds = d # ds'" by (cases ds) auto
  with ds(2) obtain x ys where x: "xs = x # ys" "ok d x" "list_all2 ok ds' ys" by (auto simp: list_all2_Cons1)
  have "accepts ok ident (seen @ [ident d]) es ys"
    unfolding accepts_def using ds d x(3) by (intro exI [of _ ds']) (auto simp: image_iff)
  with ds d x show "\<exists>d x ys. e = JObj d \<and> xs = x # ys \<and> ok d x \<and> ident d \<notin> set seen \<and> accepts ok ident (seen @ [ident d]) es ys"
    by auto
next
  assume "\<exists>d x ys. e = JObj d \<and> xs = x # ys \<and> ok d x \<and> ident d \<notin> set seen \<and> accepts ok ident (seen @ [ident d]) es ys"
  then obtain d x ys ds where d: "e = JObj d" "xs = x # ys" "ok d x" "ident d \<notin> set seen" "es = map JObj ds"
    "list_all2 ok ds ys" "distinct (map ident ds)" "\<forall>d'\<in>set ds. ident d' \<notin> set (seen @ [ident d])"
    by (auto simp: accepts_def)
  then have "ident d \<notin> ident ` set ds" by (auto simp: image_iff)
  with d show "accepts ok ident seen (e # es) xs" unfolding accepts_def by (intro exI [of _ "d # ds"]) auto
qed

locale exception_checker =
  fixes step :: "string list \<times> 'i list \<times> 'e list \<Rightarrow> nat \<times> json \<Rightarrow> string list \<times> 'i list \<times> 'e list"
    and ok :: "dict \<Rightarrow> 'e \<Rightarrow> bool"
    and ident :: "dict \<Rightarrow> 'i"
  assumes keeps: "ok d x \<Longrightarrow> ident d \<notin> set seen \<Longrightarrow>
      step (errors, seen, entries) (i, JObj d) = (errors, seen @ [ident d], entries @ [x])"
    and refuses: "\<nexists>d x. e = JObj d \<and> ok d x \<and> ident d \<notin> set seen \<Longrightarrow>
      \<exists>new seen'. new \<noteq> [] \<and> step (errors, seen, entries) (i, e) = (errors @ new, seen', entries)"
begin

lemma entry_unique: "ok d x \<Longrightarrow> ok d y \<Longrightarrow> x = y"
  using keeps [of d x "[]" "[]" "[]" 0] keeps [of d y "[]" "[]" "[]" 0] by simp

lemma errors_stay: "foldl step (errors, seen, entries) ies = (errors', seen', entries') \<Longrightarrow> errors \<noteq> [] \<Longrightarrow> errors' \<noteq> []"
proof (induction ies arbitrary: errors seen entries)
  case (Cons ie ies)
  obtain i e where ie: "ie = (i, e)" by (cases ie)
  have "\<exists>new seen1 entries1. step (errors, seen, entries) ie = (errors @ new, seen1, entries1)"
    using keeps [of _ _ seen errors entries i] refuses [of e seen errors entries i] unfolding ie by (metis append_Nil2)
  then obtain new seen1 entries1 where "step (errors, seen, entries) ie = (errors @ new, seen1, entries1)" by blast
  with Cons.prems show ?case by (intro Cons.IH [of "errors @ new" seen1 entries1]) auto
qed simp

lemma loop_entries:
  "foldl step (errors, seen, entries) (enumerate n es) = (errors', seen', entries') \<Longrightarrow> \<forall>x\<in>set entries. \<exists>d. ok d x \<Longrightarrow>
     \<forall>x\<in>set entries'. \<exists>d. ok d x"
proof (induction es arbitrary: errors seen entries n)
  case (Cons e es)
  show ?case
  proof (cases "\<exists>d x. e = JObj d \<and> ok d x \<and> ident d \<notin> set seen")
    case True
    then obtain d x where "e = JObj d" "ok d x" "ident d \<notin> set seen" by blast
    then show ?thesis using Cons.prems keeps by (intro Cons.IH [of errors "seen @ [ident d]" "entries @ [x]" "Suc n"]) auto
  next
    case False
    from refuses [OF this] obtain new seen1 where "step (errors, seen, entries) (n, e) = (errors @ new, seen1, entries)" by blast
    then show ?thesis using Cons.prems by (intro Cons.IH [of "errors @ new" seen1 entries "Suc n"]) auto
  qed
qed simp

lemma loop_appends:
  "foldl step (errors, seen, entries) (enumerate n es) = (errors', seen', entries') \<Longrightarrow>
     \<exists>xs. entries' = entries @ xs \<and> (errors' = [] \<longleftrightarrow> errors = [] \<and> accepts ok ident seen es xs)
       \<and> (\<forall>ys. accepts ok ident seen es ys \<longrightarrow> ys = xs)"
proof (induction es arbitrary: errors seen entries n)
  case Nil
  then show ?case by (auto simp: accepts_Nil)
next
  case (Cons e es)
  show ?case
  proof (cases "\<exists>d x. e = JObj d \<and> ok d x \<and> ident d \<notin> set seen")
    case True
    then obtain d x where d: "e = JObj d" "ok d x" "ident d \<notin> set seen" by blast
    then have "foldl step (errors, seen @ [ident d], entries @ [x]) (enumerate (Suc n) es) = (errors', seen', entries')"
      using Cons.prems keeps by simp
    from Cons.IH [OF this] obtain xs where xs: "entries' = (entries @ [x]) @ xs"
      "errors' = [] \<longleftrightarrow> errors = [] \<and> accepts ok ident (seen @ [ident d]) es xs"
      "\<forall>ys. accepts ok ident (seen @ [ident d]) es ys \<longrightarrow> ys = xs" by blast
    have acc: "accepts ok ident seen (e # es) ys \<longleftrightarrow> (\<exists>zs. ys = x # zs \<and> accepts ok ident (seen @ [ident d]) es zs)" for ys
      unfolding accepts_Cons d(1) using d(2,3) entry_unique [OF d(2)] by blast
    have "entries' = entries @ x # xs" using xs(1) by simp
    moreover have "errors' = [] \<longleftrightarrow> errors = [] \<and> accepts ok ident seen (e # es) (x # xs)" unfolding acc xs(2) by blast
    moreover have "\<forall>ys. accepts ok ident seen (e # es) ys \<longrightarrow> ys = x # xs" unfolding acc using xs(3) by blast
    ultimately show ?thesis by blast
  next
    case False
    from refuses [OF this] obtain new seen1 where
      r: "new \<noteq> []" "step (errors, seen, entries) (n, e) = (errors @ new, seen1, entries)" by blast
    with Cons.prems have f: "foldl step (errors @ new, seen1, entries) (enumerate (Suc n) es) = (errors', seen', entries')" by simp
    from errors_stay [OF f] r(1) have "errors' \<noteq> []" by simp
    moreover from Cons.IH [OF f] obtain xs where "entries' = entries @ xs" by blast
    moreover have "\<not> accepts ok ident seen (e # es) ys" for ys using False by (auto simp: accepts_Cons)
    ultimately show ?thesis by auto
  qed
qed

lemma loop_exact:
  assumes "foldl step (head, [], []) (enumerate 0 es) = (errors, seen, entries)"
  shows "errors = [] \<and> entries = xs \<longleftrightarrow> head = [] \<and> accepts ok ident [] es xs"
  using loop_appends [OF assms] by auto

end

end
