(* ===== verification/Scan_Inputs.thy ===== *)
theory Scan_Inputs
  imports Py_Time Exception_File
begin

text \<open>
  The inputs of the CI image scan, \<^verbatim>\<open>.github/scripts/image_scan.py\<close>: text hygiene, the image pins of
  \<^verbatim>\<open>ContainerImages.cs\<close>, the scanner pin, digest-pinned references, and the schema of
  \<^verbatim>\<open>exceptions.json\<close>. A raised \<^verbatim>\<open>ValueError\<close> is \<^term>\<open>Inl\<close> with its text. Dates are ordinals, and the current
  day is an argument.
\<close>


section \<open>Constants\<close>

definition ALIASES :: "string list" where
  "ALIASES = [''postgres'', ''keycloak'', ''redis'', ''caddy'', ''otelcollector'']"

definition EXCEPTION_IMAGES :: "string list" where
  "EXCEPTION_IMAGES = ALIASES @ [''api'', ''bff'', ''migrator'']"

definition BINARY_ONLY_ALIASES :: "(string \<times> string) list" where
  "BINARY_ONLY_ALIASES = [(''otelcollector'', ''docker.io/otel/opentelemetry-collector'')]"

definition OS_PACKAGE_TYPES :: "string list" where
  "OS_PACKAGE_TYPES = [''apk'', ''deb'', ''rpm'']"

definition MAX_FIXED_EXCEPTION_DAYS :: int where
  "MAX_FIXED_EXCEPTION_DAYS = 30"

definition OWN_BUILD_ALIASES :: "(string \<times> string) list" where
  "OWN_BUILD_ALIASES = [(''caddy'', ''ghcr.io/mpcs2013/decisya-caddy'')]"

definition MAX_EXCEPTION_DAYS :: int where
  "MAX_EXCEPTION_DAYS = 90"

definition is_registry_char :: "char \<Rightarrow> bool" where
  "is_registry_char c \<longleftrightarrow> is_lower_az c \<or> is_digit c \<or> c = CHR ''.'' \<or> c = CHR ''-''"

definition is_path_char :: "char \<Rightarrow> bool" where
  "is_path_char c \<longleftrightarrow> is_registry_char c \<or> c = CHR ''_'' \<or> c = CHR ''/''"

definition is_tag_char :: "char \<Rightarrow> bool" where
  "is_tag_char c \<longleftrightarrow> is_alnum_ascii c \<or> c = CHR ''.'' \<or> c = CHR ''_'' \<or> c = CHR ''-''"

definition REF_BODY :: rx where
  "REF_BODY =
     rseq [rplus (RSet is_registry_char), rchr CHR ''/'', rplus (RSet is_path_char), rchr CHR '':'', rplus (RSet is_tag_char),
           rlit ''@sha256:'', rrep 64 (RSet is_hex_lower)]"

definition REF_RE :: rx where
  "REF_RE = rseq [RBol, REF_BODY, REol]"

definition CONST_RE :: rx where
  "CONST_RE =
     rseq [rlit ''public'', rplus rspace, rlit ''const'', rplus rspace, rlit ''string'', rplus rspace,
           RGroup 1 (RSeq (RSet is_word) (RLazy (RSet is_word))),
           RGroup 2 (ralt [rlit ''Registry'', rlit ''Image'', rlit ''Tag'', rlit ''Sha256'']),
           RStar rspace, rchr CHR ''='', RStar rspace, rchr CHR 0x22, RGroup 3 (RStar (RSet (\<lambda>c. c \<noteq> CHR 0x22))), rchr CHR 0x22,
           RStar rspace, rchr CHR '';'']"

definition FROM_RE :: rx where
  "FROM_RE =
     rseq [RBolM, rlit ''FROM'', rplus rspace, RGroup 1 (rplus (RSet (\<lambda>c. \<not> is_space c))), rplus rspace, rlit ''AS'', rplus rspace,
           rlit ''grype'', RStar rspace, REolM]"

definition DATE_BODY :: rx where
  "DATE_BODY = rseq [rrep 4 rdigit, rchr CHR ''-'', rrep 2 rdigit, rchr CHR ''-'', rrep 2 rdigit]"

definition DATE_RE :: rx where
  "DATE_RE = rseq [RBol, DATE_BODY, REol]"

definition is_ghsa_char :: "char \<Rightarrow> bool" where
  "is_ghsa_char c \<longleftrightarrow> c \<in> set ''23456789cfghjmpqrvwx''"

definition ID_BODY :: rx where
  "ID_BODY =
     RAlt (rseq [rlit ''CVE-'', rrep 4 rdigit, rchr CHR ''-'', ratleast 4 rdigit])
          (RSeq (rlit ''GHSA'') (rrep 3 (RSeq (rchr CHR ''-'') (rrep 4 (RSet is_ghsa_char)))))"

definition ID_RE :: rx where
  "ID_RE = rseq [RBol, ID_BODY, REol]"

definition ISSUE_BODY :: rx where
  "ISSUE_BODY = RSeq (rchr CHR ''#'') (rplus rdigit)"

definition ISSUE_RE :: rx where
  "ISSUE_RE = rseq [RBol, ISSUE_BODY, REol]"

definition is_package_char :: "char \<Rightarrow> bool" where
  "is_package_char c \<longleftrightarrow> is_alnum_ascii c \<or> c \<in> set ''._:@/+-''"

definition PACKAGE_BODY :: rx where
  "PACKAGE_BODY = RSeq (RSet is_alnum_ascii) (RStar (RSet is_package_char))"

definition PACKAGE_RE :: rx where
  "PACKAGE_RE = rseq [RBol, PACKAGE_BODY, REol]"

definition ENTRY_KEYS :: "string list" where
  "ENTRY_KEYS = [''id'', ''image'', ''package'', ''justification'', ''issue'', ''added'', ''expires'']"

definition APPROVAL_PHRASE :: string where
  "APPROVAL_PHRASE = ''approved by Marco''"

definition APPROVAL_RE :: rx where
  "APPROVAL_RE = rseq [rlit ''approved by Marco '', RGroup 1 DATE_BODY, RNotAhead rdigit]"


section \<open>Text hygiene\<close>

definition neutralize_text :: "string \<Rightarrow> string" where
  "neutralize_text s = concat (map neutralize_char s)"

definition MD_ENTITIES :: "(string \<times> string) list" where
  "MD_ENTITIES = [(''<'', ''&lt;''), (''>'', ''&gt;''), (''['', ''&#91;''), ('']'', ''&#93;''),
     ([char_of (92::nat)], ''&#92;''), (''|'', ''&#124;''), (''`'', ''&#96;'')]"

definition md_cell :: "string \<Rightarrow> string" where
  "md_cell t = foldl (\<lambda>s (raw, ent). replace_all raw ent s) (replace_all ''&'' ''&amp;'' (neutralize_text t)) MD_ENTITIES"

text \<open>\<^verbatim>\<open>emit_protected\<close>: the lines written for a token drawn by \<^verbatim>\<open>secrets\<close>.\<close>

definition emit_protected :: "string \<Rightarrow> string list \<Rightarrow> string list" where
  "emit_protected tok lines = [''::stop-commands::'' @ tok] @ map neutralize_text lines @ [''::'' @ tok @ ''::'']"


section \<open>Pins\<close>

type_synonym parts = "(string \<times> (string \<times> string) list) list"

fun add_consts :: "parts \<Rightarrow> caps list \<Rightarrow> string + parts" where
  "add_consts ps [] = Inr ps"
| "add_consts ps (c # cs) =
     (let name = group_text c 1; kind = group_text c 2; al = lower name;
          old = (case map_of ps al of None \<Rightarrow> [] | Some p \<Rightarrow> p)
      in if dhas old kind then Inl (fmt ''ContainerImages.cs: duplicate constant %s%s'' [name, kind])
         else add_consts (dset ps al (dset old kind (group_text c 3))) cs)"

definition PART_KINDS :: "string list" where
  "PART_KINDS = [''Registry'', ''Image'', ''Tag'', ''Sha256'']"

definition part_of :: "(string \<times> string) list \<Rightarrow> string \<Rightarrow> string" where
  "part_of p kind = (case map_of p kind of None \<Rightarrow> [] | Some v \<Rightarrow> v)"

definition ref_text :: "string \<Rightarrow> string \<Rightarrow> string \<Rightarrow> string \<Rightarrow> string" where
  "ref_text registry img tag sha = registry @ ''/'' @ img @ '':'' @ tag @ ''@sha256:'' @ sha"

definition alias_ref :: "parts \<Rightarrow> string \<Rightarrow> string + string \<times> string" where
  "alias_ref ps al =
     (let p = (case map_of ps al of None \<Rightarrow> [] | Some p \<Rightarrow> p);
          ref = ref_text (part_of p ''Registry'') (part_of p ''Image'') (part_of p ''Tag'') (part_of p ''Sha256'')
      in if \<not> same_set (dkeys p) PART_KINDS
         then Inl (fmt ''ContainerImages.cs: %s needs Registry, Image, Tag and Sha256 constants'' [al])
         else if \<not> matches REF_RE ref
         then Inl (fmt ''ContainerImages.cs: %s reference is not a digest-pinned reference'' [al])
         else Inr (al, ref))"

definition parse_targets :: "string \<Rightarrow> string + (string \<times> string) list" where
  "parse_targets t =
     sbind (add_consts [] (re_finditer CONST_RE t)) (\<lambda>ps.
       if \<not> same_set (dkeys ps) ALIASES
       then Inl (fmt ''ContainerImages.cs: image aliases are %s, expected %s'' [repr_strs (sort (dkeys ps)), repr_strs (sort ALIASES)])
       else smap (alias_ref ps) ALIASES)"

definition parse_scanner_ref :: "string \<Rightarrow> string + string" where
  "parse_scanner_ref t =
     (case re_findall1 FROM_RE t of
        [ref] \<Rightarrow> if matches REF_RE ref then Inr ref
                 else Inl ''image-scan/Dockerfile: the scanner reference is not a digest-pinned reference''
      | found \<Rightarrow> Inl (fmt (''image-scan/Dockerfile: expected exactly one '' @ [CHR 0x27] @ ''FROM <ref> AS grype'' @ [CHR 0x27]
                            @ '' line, found %d'') [show_nat (length found)]))"

text \<open>\<^verbatim>\<open>split_ref\<close>: on a reference the pattern accepts, every split finds its separator
  (\<open>split_ref_iff\<close> below).\<close>

definition split_ref :: "string \<Rightarrow> (string \<times> string \<times> string \<times> string) option" where
  "split_ref ref =
     (if \<not> matches REF_RE ref then None
      else do { (registry, rest) \<leftarrow> cut_at ''/'' ref;
                (name_tag, digest) \<leftarrow> cut_at ''@sha256:'' rest;
                (img, tag) \<leftarrow> rcut '':'' name_tag;
                Some (registry, img, tag, digest) })"

definition mapped_to :: "(string \<times> string) list \<Rightarrow> string \<Rightarrow> string \<Rightarrow> bool" where
  "mapped_to table al ref =
     (case (map_of table al, split_ref ref) of
        (Some want, Some (registry, img, tag, digest)) \<Rightarrow> registry @ ''/'' @ img = want
      | _ \<Rightarrow> False)"

definition is_own_build :: "string option \<Rightarrow> string \<Rightarrow> bool" where
  "is_own_build al ref = (case al of None \<Rightarrow> False | Some a \<Rightarrow> mapped_to OWN_BUILD_ALIASES a ref)"

definition approval_date :: "string \<Rightarrow> int option" where
  "approval_date justification =
     (if count_sub APPROVAL_PHRASE justification \<noteq> 1 then None
      else case re_findall1 APPROVAL_RE justification of
        [d] \<Rightarrow> date_fromisoformat d
      | _ \<Rightarrow> None)"


section \<open>The exceptions file\<close>

record exc_entry =
  exc_id :: string
  exc_image :: string
  exc_package :: string
  exc_justification :: string
  exc_issue :: string
  exc_added :: string
  exc_expires :: string
  added_date :: int
  expires_date :: int

type_synonym ident = "string \<times> string \<times> string"

definition ident_of :: "exc_entry \<Rightarrow> ident" where
  "ident_of e = (exc_image e, exc_package e, exc_id e)"

text \<open>One of the two dates: the message it adds, or the date.\<close>

definition date_field :: "string \<Rightarrow> string \<Rightarrow> string \<Rightarrow> string + int" where
  "date_field where key v =
     (if \<not> matches DATE_RE v then Inl (fmt ''%s: %s must be YYYY-MM-DD'' [where, key])
      else case date_fromisoformat v of
        None \<Rightarrow> Inl (fmt ''%s: %s is not a real date'' [where, key])
      | Some d \<Rightarrow> Inr d)"

definition left_of :: "'a + 'b \<Rightarrow> 'a list" where
  "left_of x = (case x of Inl a \<Rightarrow> [a] | Inr b \<Rightarrow> [])"

definition text_errors :: "string \<Rightarrow> (string \<Rightarrow> string) \<Rightarrow> string list" where
  "text_errors where v =
     msg_if (\<not> matches ID_RE (v ''id'')) (fmt ''%s: id must be a CVE or GHSA id'' [where])
     @ msg_if (v ''image'' \<notin> set EXCEPTION_IMAGES) (fmt ''%s: image must be one of %s'' [where, repr_strs EXCEPTION_IMAGES])
     @ msg_if (v ''package'' = [] \<or> \<not> matches PACKAGE_RE (v ''package''))
         (fmt ''%s: package must be a non-empty exact name without glob or regex characters'' [where])
     @ msg_if (length (strip (v ''justification'')) < 20) (fmt ''%s: justification must be at least 20 characters'' [where])
     @ msg_if (\<not> matches ISSUE_RE (v ''issue'')) (fmt ''%s: issue must look like #123'' [where])"

definition order_errors :: "int \<Rightarrow> string \<Rightarrow> string + int \<Rightarrow> string + int \<Rightarrow> string list" where
  "order_errors today where added expires =
     (case added of
        Inl _ \<Rightarrow> []
      | Inr a \<Rightarrow>
          msg_if (today < a) (fmt ''%s: added is in the future'' [where])
          @ (case expires of
               Inl _ \<Rightarrow> []
             | Inr x \<Rightarrow>
                 if x < a then [fmt ''%s: expires is before added'' [where]]
                 else msg_if (MAX_EXCEPTION_DAYS < x - a)
                   (fmt ''%s: expires is more than %d days after added'' [where, show_int MAX_EXCEPTION_DAYS])))"

definition approval_errors :: "string \<Rightarrow> string \<Rightarrow> string \<Rightarrow> int \<Rightarrow> string list" where
  "approval_errors where img justification a =
     (case approval_date justification of
        None \<Rightarrow> [fmt (''%s: the justification of a %s entry must contain exactly one '' @ [CHR 0x27] @ ''%s YYYY-MM-DD'' @ [CHR 0x27]
                      @ '' with a real date'') [where, img, APPROVAL_PHRASE]]
      | Some d \<Rightarrow> msg_if (a < d) (fmt ''%s: the approval date is after added'' [where]))"

text \<open>The errors of an entry whose keys and value types are right, and the entry when there are none.\<close>

definition value_errors :: "int \<Rightarrow> string \<Rightarrow> ident list \<Rightarrow> (string \<Rightarrow> string) \<Rightarrow> string list \<times> exc_entry option" where
  "value_errors today where seen v =
     (let added = date_field where ''added'' (v ''added''); expires = date_field where ''expires'' (v ''expires'');
          early = text_errors where v @ left_of added @ left_of expires @ order_errors today where added expires;
          approval = (case (added, expires) of
              (Inr a, Inr x) \<Rightarrow>
                if early = [] \<and> dhas OWN_BUILD_ALIASES (v ''image'') then approval_errors where (v ''image'') (v ''justification'') a else []
            | _ \<Rightarrow> []);
          again = msg_if ((v ''image'', v ''package'', v ''id'') \<in> set seen)
            (fmt ''%s: duplicates another entry (same image, package and id)'' [where]);
          errors = early @ approval @ again
      in (errors,
          case (added, expires) of
            (Inr a, Inr x) \<Rightarrow>
              if errors = [] then
                Some \<lparr> exc_id = v ''id'', exc_image = v ''image'', exc_package = v ''package'', exc_justification = v ''justification'',
                       exc_issue = v ''issue'', exc_added = v ''added'', exc_expires = v ''expires'', added_date = a, expires_date = x \<rparr>
              else None
          | _ \<Rightarrow> None))"

definition text_of :: "dict \<Rightarrow> string \<Rightarrow> string" where
  "text_of d k = (case dget d k of JStr s \<Rightarrow> s | _ \<Rightarrow> [])"

type_synonym exc_state = "string list \<times> ident list \<times> exc_entry list"

definition exception_step :: "int \<Rightarrow> exc_state \<Rightarrow> nat \<times> json \<Rightarrow> exc_state" where
  "exception_step today st ie =
     (case (st, ie) of ((errors, seen, entries), (i, e)) \<Rightarrow>
        let where = fmt ''exceptions[%d]'' [show_nat i] in
        case e of
          JObj d \<Rightarrow>
            if \<not> same_set (dkeys d) ENTRY_KEYS then
              (errors @ [fmt ''%s: keys must be exactly %s (missing %s, unknown %s)''
                 [where, repr_strs (sort ENTRY_KEYS), repr_strs (sorted_set (keys_minus ENTRY_KEYS (dkeys d))),
                  repr_strs (sorted_set (keys_minus (dkeys d) ENTRY_KEYS))]], seen, entries)
            else if \<not> list_all (\<lambda>k. is_str (dget d k)) ENTRY_KEYS then
              (errors @ [fmt ''%s: every value must be a string'' [where]], seen, entries)
            else
              (case value_errors today where seen (text_of d) of (new, entry) \<Rightarrow>
                 (errors @ new, seen @ [(text_of d ''image'', text_of d ''package'', text_of d ''id'')],
                  entries @ (case entry of None \<Rightarrow> [] | Some x \<Rightarrow> [x])))
        | _ \<Rightarrow> (errors @ [fmt ''%s: must be an object'' [where]], seen, entries))"

definition exception_errors :: "json \<Rightarrow> int \<Rightarrow> string list \<times> exc_entry list" where
  "exception_errors data today =
     (case data of
        JObj top_level \<Rightarrow>
          (case dget top_level ''exceptions'' of
             JList es \<Rightarrow>
               (let extra = keys_minus (dkeys top_level) [''$comment'', ''exceptions''];
                    head = msg_if (extra \<noteq> []) (fmt ''unknown top-level keys: %s'' [repr_strs (sorted_set extra)])
                      @ msg_if (dhas top_level ''$comment'' \<and> \<not> is_str (dget top_level ''$comment''))
                          ([CHR 0x27] @ ''$comment'' @ [CHR 0x27] @ '' must be a string'')
                in case foldl (exception_step today) (head, [], []) (enumerate 0 es) of (errors, seen, entries) \<Rightarrow> (errors, entries))
           | _ \<Rightarrow> ([''top level must be an object with an '' @ [CHR 0x27] @ ''exceptions'' @ [CHR 0x27] @ '' list''], []))
      | _ \<Rightarrow> ([''top level must be an object with an '' @ [CHR 0x27] @ ''exceptions'' @ [CHR 0x27] @ '' list''], []))"

text \<open>\<^verbatim>\<open>validate_exceptions\<close>: the lines printed before exit status 2, or the entries.\<close>

definition validate_exceptions :: "string \<Rightarrow> json \<Rightarrow> int \<Rightarrow> string list + exc_entry list" where
  "validate_exceptions tok data today =
     (case exception_errors data today of (errors, entries) \<Rightarrow>
        if errors \<noteq> [] then
          Inl (emit_protected tok (map (\<lambda>m. ''image-scan: invalid exceptions.json: '' @ m) errors)
               @ [''::error::image-scan: .github/image-scan/exceptions.json failed validation''])
        else Inr entries)"


section \<open>References\<close>

lemma cut_at_word: "sep \<noteq> [] \<Longrightarrow> hd sep \<notin> set a \<Longrightarrow> cut_at sep (a @ sep @ b) = Some (a, b)"
proof (induction a)
  case Nil
  then obtain c cs where "sep = c # cs" by (cases sep) auto
  then show ?case by simp
next
  case (Cons c cs)
  then have "\<not> prefix sep (c # cs @ sep @ b)" by (cases sep) auto
  with Cons show ?case by simp
qed

lemma rcut_char: "c \<notin> set b \<Longrightarrow> rcut [c] (a @ c # b) = Some (a, b)"
  using cut_at_word [of "[c]" "rev b" "rev a"] by (simp add: rcut_def)

lemma anchored: "plain body \<Longrightarrow> matches (rseq [RBol, body, REol]) s \<longleftrightarrow> s \<in> rlang body \<or> (\<exists>t. s = t @ [NL] \<and> t \<in> rlang body)"
  using re_match_anchored [of body s] by simp

definition is_sha :: "string \<Rightarrow> bool" where
  "is_sha d \<longleftrightarrow> length d = 64 \<and> (\<forall>c\<in>set d. is_hex_lower c)"

definition ref_parts_ok :: "string \<Rightarrow> string \<Rightarrow> string \<Rightarrow> bool" where
  "ref_parts_ok registry img tag \<longleftrightarrow>
     registry \<noteq> [] \<and> (\<forall>c\<in>set registry. is_registry_char c) \<and> img \<noteq> [] \<and> (\<forall>c\<in>set img. is_path_char c)
     \<and> tag \<noteq> [] \<and> (\<forall>c\<in>set tag. is_tag_char c)"

lemma plain_REF_BODY [simp]: "plain REF_BODY"
  by (simp add: REF_BODY_def)

lemma rlang_REF_BODY: "rlang REF_BODY = {ref_text r i t d | r i t d. ref_parts_ok r i t \<and> is_sha d}"
  by (fastforce simp: REF_BODY_def ref_text_def ref_parts_ok_def is_sha_def)

lemma ref_chars:
  "ref_parts_ok r i t \<Longrightarrow> CHR ''/'' \<notin> set r" "ref_parts_ok r i t \<Longrightarrow> CHR ''@'' \<notin> set (i @ '':'' @ t)"
  "ref_parts_ok r i t \<Longrightarrow> CHR '':'' \<notin> set t"
proof -
  have c: "\<not> is_registry_char CHR ''/''" "\<not> is_path_char CHR ''@''" "\<not> is_tag_char CHR ''@''" "\<not> is_tag_char CHR '':''" by code_simp+
  assume a: "ref_parts_ok r i t"
  then show "CHR ''/'' \<notin> set r" "CHR '':'' \<notin> set t" using c unfolding ref_parts_ok_def by blast+
  from a c show "CHR ''@'' \<notin> set (i @ '':'' @ t)" unfolding ref_parts_ok_def by auto
qed

lemma split_ref_text:
  assumes ok: "ref_parts_ok r i t" and m: "matches REF_RE (ref_text r i t d)"
  shows "split_ref (ref_text r i t d) = Some (r, i, t, d)"
proof -
  have 1: "cut_at ''/'' (ref_text r i t d) = Some (r, (i @ '':'' @ t) @ ''@sha256:'' @ d)"
    using cut_at_char [of "CHR ''/''" r "(i @ '':'' @ t) @ ''@sha256:'' @ d"] ref_chars(1) [OF ok] by (simp add: ref_text_def)
  have 2: "cut_at ''@sha256:'' ((i @ '':'' @ t) @ ''@sha256:'' @ d) = Some (i @ '':'' @ t, d)"
    by (rule cut_at_word) (use ref_chars(2) [OF ok] in simp_all)
  have 3: "rcut '':'' (i @ '':'' @ t) = Some (i, t)"
    using rcut_char [of "CHR '':''" t i] ref_chars(3) [OF ok] by simp
  show ?thesis using m unfolding split_ref_def 1 Option.bind.simps prod.case 2 3 by simp
qed

lemma matches_REF_RE:
  "matches REF_RE ref \<longleftrightarrow> (\<exists>r i t d. ref = ref_text r i t d \<and> ref_parts_ok r i t \<and> (is_sha d \<or> (\<exists>h. d = h @ [NL] \<and> is_sha h)))"
  (is "_ \<longleftrightarrow> ?R")
proof -
  have "matches REF_RE ref \<longleftrightarrow> ref \<in> rlang REF_BODY \<or> (\<exists>t. ref = t @ [NL] \<and> t \<in> rlang REF_BODY)"
    unfolding REF_RE_def by (rule anchored) simp
  also have "\<dots> \<longleftrightarrow> ?R"
  proof
    assume "ref \<in> rlang REF_BODY \<or> (\<exists>t. ref = t @ [NL] \<and> t \<in> rlang REF_BODY)"
    then show ?R
    proof (elim disjE exE conjE)
      assume "ref \<in> rlang REF_BODY" then show ?R unfolding rlang_REF_BODY by blast
    next
      fix s assume s: "ref = s @ [NL]" "s \<in> rlang REF_BODY"
      then obtain r i t d where "s = ref_text r i t d" "ref_parts_ok r i t" "is_sha d" unfolding rlang_REF_BODY by blast
      with s(1) have "ref = ref_text r i t (d @ [NL])" "ref_parts_ok r i t" "is_sha d" by (simp_all add: ref_text_def)
      then show ?R by blast
    qed
  next
    assume ?R
    then obtain r i t d where e: "ref = ref_text r i t d" "ref_parts_ok r i t" and d: "is_sha d \<or> (\<exists>h. d = h @ [NL] \<and> is_sha h)" by blast
    from d show "ref \<in> rlang REF_BODY \<or> (\<exists>t. ref = t @ [NL] \<and> t \<in> rlang REF_BODY)"
    proof (elim disjE exE conjE)
      assume "is_sha d" with e show ?thesis unfolding rlang_REF_BODY by blast
    next
      fix h assume h: "d = h @ [NL]" "is_sha h"
      with e have "ref = ref_text r i t h @ [NL]" by (simp add: ref_text_def)
      with e(2) h(2) show ?thesis unfolding rlang_REF_BODY by blast
    qed
  qed
  finally show ?thesis .
qed

lemma split_ref_iff:
  "split_ref ref = Some (r, i, t, d) \<longleftrightarrow>
     ref = ref_text r i t d \<and> ref_parts_ok r i t \<and> (is_sha d \<or> (\<exists>h. d = h @ [NL] \<and> is_sha h))"
proof
  assume s: "split_ref ref = Some (r, i, t, d)"
  then have m: "matches REF_RE ref" by (auto simp: split_ref_def split: if_splits)
  then obtain r' i' t' d' where e: "ref = ref_text r' i' t' d'" "ref_parts_ok r' i' t'" "is_sha d' \<or> (\<exists>h. d' = h @ [NL] \<and> is_sha h)"
    unfolding matches_REF_RE by blast
  from split_ref_text [OF e(2), of d'] m s e(1) have "(r, i, t, d) = (r', i', t', d')" by simp
  with e show "ref = ref_text r i t d \<and> ref_parts_ok r i t \<and> (is_sha d \<or> (\<exists>h. d = h @ [NL] \<and> is_sha h))" by simp
next
  assume a: "ref = ref_text r i t d \<and> ref_parts_ok r i t \<and> (is_sha d \<or> (\<exists>h. d = h @ [NL] \<and> is_sha h))"
  then have "matches REF_RE ref" unfolding matches_REF_RE by blast
  with a show "split_ref ref = Some (r, i, t, d)" using split_ref_text by blast
qed

lemma split_ref_None: "split_ref ref = None \<longleftrightarrow> \<not> matches REF_RE ref"
proof
  assume n: "split_ref ref = None"
  show "\<not> matches REF_RE ref"
  proof
    assume "matches REF_RE ref"
    then obtain r i t d where "ref = ref_text r i t d" "ref_parts_ok r i t" "is_sha d \<or> (\<exists>h. d = h @ [NL] \<and> is_sha h)"
      unfolding matches_REF_RE by blast
    with n show False using split_ref_iff [of ref r i t d] by simp
  qed
qed (simp add: split_ref_def)

lemma parse_targets_refs:
  assumes "parse_targets t = Inr refs"
  shows "dkeys refs = ALIASES" and "\<And>al ref. (al, ref) \<in> set refs \<Longrightarrow> split_ref ref \<noteq> None"
proof -
  from assms obtain ps where a: "list_all2 (\<lambda>al x. alias_ref ps al = Inr x) ALIASES refs"
    by (auto simp: parse_targets_def smap_Inr split: if_splits)
  have f: "fst x = al \<and> split_ref (snd x) \<noteq> None" if "alias_ref ps al = Inr x" for al x
    using that by (auto simp: alias_ref_def Let_def split_ref_None split: if_splits)
  from a show "dkeys refs = ALIASES" unfolding dkeys_def
    by (induction rule: list_all2_induct) (auto dest: f)
  from a show "\<And>al ref. (al, ref) \<in> set refs \<Longrightarrow> split_ref ref \<noteq> None"
    by (induction rule: list_all2_induct) (use f in fastforce)+
qed


section \<open>The schema of the exceptions file\<close>

text \<open>The patterns end with \<^verbatim>\<open>$\<close>, so each accepts one final line feed.\<close>

definition upto_newline :: "(string \<Rightarrow> bool) \<Rightarrow> string \<Rightarrow> bool" where
  "upto_newline P s \<longleftrightarrow> P s \<or> (\<exists>u. s = u @ [NL] \<and> P u)"

definition all_digits :: "string \<Rightarrow> bool" where
  "all_digits s \<longleftrightarrow> (\<forall>c\<in>set s. is_digit c)"

definition ghsa_part :: "string \<Rightarrow> bool" where
  "ghsa_part s \<longleftrightarrow> length s = 4 \<and> (\<forall>c\<in>set s. is_ghsa_char c)"

definition is_vuln_id :: "string \<Rightarrow> bool" where
  "is_vuln_id s \<longleftrightarrow>
     (\<exists>y n. s = ''CVE-'' @ y @ ''-'' @ n \<and> length y = 4 \<and> all_digits y \<and> 4 \<le> length n \<and> all_digits n)
     \<or> (\<exists>a b c. s = ''GHSA-'' @ a @ ''-'' @ b @ ''-'' @ c \<and> ghsa_part a \<and> ghsa_part b \<and> ghsa_part c)"

definition is_package_name :: "string \<Rightarrow> bool" where
  "is_package_name s \<longleftrightarrow> (\<exists>c cs. s = c # cs \<and> is_alnum_ascii c \<and> (\<forall>x\<in>set cs. is_package_char x))"

definition is_issue :: "string \<Rightarrow> bool" where
  "is_issue s \<longleftrightarrow> (\<exists>n. s = CHR ''#'' # n \<and> n \<noteq> [] \<and> all_digits n)"

definition is_iso_date :: "string \<Rightarrow> bool" where
  "is_iso_date s \<longleftrightarrow>
     (\<exists>y m d. s = y @ ''-'' @ m @ ''-'' @ d \<and> length y = 4 \<and> length m = 2 \<and> length d = 2
        \<and> all_digits y \<and> all_digits m \<and> all_digits d)"

lemma plain_bodies [simp]: "plain ID_BODY" "plain PACKAGE_BODY" "plain ISSUE_BODY" "plain DATE_BODY"
  by (simp_all add: ID_BODY_def PACKAGE_BODY_def ISSUE_BODY_def DATE_BODY_def rdigit_def)

lemma rlang_ID_BODY: "s \<in> rlang ID_BODY \<longleftrightarrow> is_vuln_id s"
proof -
  have 1: "s \<in> rlang (rseq [rlit ''CVE-'', rrep 4 rdigit, rchr CHR ''-'', ratleast 4 rdigit]) \<longleftrightarrow>
      (\<exists>y n. s = ''CVE-'' @ y @ ''-'' @ n \<and> length y = 4 \<and> all_digits y \<and> 4 \<le> length n \<and> all_digits n)"
    unfolding rdigit_def all_digits_def by auto
  have rep3: "rrep 3 r = RSeq r (RSeq r (RSeq r REps))" for r by (simp add: eval_nat_numeral)
  have 2: "s \<in> rlang (RSeq (rlit ''GHSA'') (rrep 3 (RSeq (rchr CHR ''-'') (rrep 4 (RSet is_ghsa_char))))) \<longleftrightarrow>
      (\<exists>a b c. s = ''GHSA-'' @ a @ ''-'' @ b @ ''-'' @ c \<and> ghsa_part a \<and> ghsa_part b \<and> ghsa_part c)"
    (is "?L \<longleftrightarrow> ?R")
  proof
    assume ?L
    then obtain a b c where "s = ''GHSA'' @ (''-'' @ a) @ (''-'' @ b) @ (''-'' @ c) @ []" "ghsa_part a" "ghsa_part b" "ghsa_part c"
      unfolding rep3 ghsa_part_def rlang.simps rlang_rrep_RSet rlang_rlit rlang_rchr by blast
    then have "s = ''GHSA-'' @ a @ ''-'' @ b @ ''-'' @ c \<and> ghsa_part a \<and> ghsa_part b \<and> ghsa_part c" by simp
    then show ?R by blast
  next
    assume ?R
    then obtain a b c where abc: "s = ''GHSA'' @ (''-'' @ a) @ (''-'' @ b) @ (''-'' @ c) @ []" "ghsa_part a" "ghsa_part b" "ghsa_part c"
      by auto
    then show ?L unfolding rep3 abc(1) by (intro rlang_RSeqI) (simp_all add: ghsa_part_def)
  qed
  show ?thesis unfolding ID_BODY_def is_vuln_id_def rlang.simps(4) Un_iff 1 2 by simp
qed

lemma rlang_PACKAGE_BODY: "s \<in> rlang PACKAGE_BODY \<longleftrightarrow> is_package_name s"
  unfolding PACKAGE_BODY_def is_package_name_def
  by (cases s) (simp_all only: Cons_in_RSet_Seq Nil_in_RSet_Seq rlang_star_RSet, auto)

lemma rlang_ISSUE_BODY: "s \<in> rlang ISSUE_BODY \<longleftrightarrow> is_issue s"
  by (auto simp: ISSUE_BODY_def is_issue_def rdigit_def all_digits_def)

lemma rlang_DATE_BODY: "s \<in> rlang DATE_BODY \<longleftrightarrow> is_iso_date s"
proof
  assume "s \<in> rlang DATE_BODY"
  then obtain y m d where "s = y @ ''-'' @ m @ ''-'' @ d @ []" "length y = 4" "length m = 2" "length d = 2" "all_digits y" "all_digits m" "all_digits d"
    unfolding DATE_BODY_def rdigit_def all_digits_def rseq.simps rlang.simps rlang_rchr rlang_rrep_RSet by blast
  then show "is_iso_date s" unfolding is_iso_date_def append_Nil2 by blast
next
  assume "is_iso_date s"
  then obtain y m d where s: "s = y @ ''-'' @ m @ ''-'' @ d @ []" "length y = 4" "length m = 2" "length d = 2" "all_digits y" "all_digits m" "all_digits d"
    unfolding is_iso_date_def append_Nil2 by blast
  then show "s \<in> rlang DATE_BODY" unfolding DATE_BODY_def rseq.simps s(1)
    by (intro rlang_RSeqI) (simp_all add: rdigit_def all_digits_def)
qed

lemma field_patterns:
  "matches ID_RE s \<longleftrightarrow> upto_newline is_vuln_id s"
  "matches PACKAGE_RE s \<longleftrightarrow> upto_newline is_package_name s"
  "matches ISSUE_RE s \<longleftrightarrow> upto_newline is_issue s"
  "matches DATE_RE s \<longleftrightarrow> upto_newline is_iso_date s"
  unfolding ID_RE_def PACKAGE_RE_def ISSUE_RE_def DATE_RE_def upto_newline_def
  by (simp_all only: anchored plain_bodies rlang_ID_BODY rlang_PACKAGE_BODY rlang_ISSUE_BODY rlang_DATE_BODY)

lemmas field_patterns_None = field_patterns [THEN arg_cong [where f = Not], unfolded not_not]

definition real_date :: "string \<Rightarrow> int \<Rightarrow> bool" where
  "real_date s d \<longleftrightarrow> is_iso_date s \<and> date_fromisoformat s = Some d"

lemma date_field_Inr: "date_field where key v = Inr d \<longleftrightarrow> real_date v d"
proof -
  have "length v = 10" if "date_fromisoformat v = Some d" "upto_newline is_iso_date v"
    using that by (auto simp: upto_newline_def is_iso_date_def date_fromisoformat_def split: if_splits)
  then have "is_iso_date v" if "date_fromisoformat v = Some d" "upto_newline is_iso_date v"
    using that by (auto simp: upto_newline_def is_iso_date_def)
  then show ?thesis
    by (auto simp: date_field_def field_patterns_None real_date_def upto_newline_def split: option.splits)
qed

text \<open>What an entry has to satisfy; \<open>v\<close> reads the text of a key.\<close>

definition entry_ok :: "int \<Rightarrow> (string \<Rightarrow> string) \<Rightarrow> int \<Rightarrow> int \<Rightarrow> bool" where
  "entry_ok today v a x \<longleftrightarrow>
     upto_newline is_vuln_id (v ''id'') \<and> v ''image'' \<in> set EXCEPTION_IMAGES \<and> upto_newline is_package_name (v ''package'')
     \<and> 20 \<le> length (strip (v ''justification'')) \<and> upto_newline is_issue (v ''issue'')
     \<and> real_date (v ''added'') a \<and> real_date (v ''expires'') x \<and> a \<le> today \<and> a \<le> x \<and> x - a \<le> 90
     \<and> (v ''image'' = ''caddy'' \<longrightarrow> (\<exists>d. approval_date (v ''justification'') = Some d \<and> d \<le> a))"

definition entry_of :: "(string \<Rightarrow> string) \<Rightarrow> int \<Rightarrow> int \<Rightarrow> exc_entry" where
  "entry_of v a x = \<lparr> exc_id = v ''id'', exc_image = v ''image'', exc_package = v ''package'', exc_justification = v ''justification'',
     exc_issue = v ''issue'', exc_added = v ''added'', exc_expires = v ''expires'', added_date = a, expires_date = x \<rparr>"

lemma text_errors_Nil:
  "text_errors where v = [] \<longleftrightarrow>
     upto_newline is_vuln_id (v ''id'') \<and> v ''image'' \<in> set EXCEPTION_IMAGES \<and> upto_newline is_package_name (v ''package'')
     \<and> 20 \<le> length (strip (v ''justification'')) \<and> upto_newline is_issue (v ''issue'')"
proof -
  have "v ''package'' \<noteq> []" if "upto_newline is_package_name (v ''package'')"
    using that by (auto simp: upto_newline_def is_package_name_def)
  then show ?thesis unfolding text_errors_def field_patterns by (auto simp: not_less)
qed

lemma own_build_caddy: "dhas OWN_BUILD_ALIASES img \<longleftrightarrow> img = ''caddy''"
  by (simp add: OWN_BUILD_ALIASES_def dhas_def)

lemma entry_ok_fields:
  "entry_ok today v a x \<longleftrightarrow>
     text_errors where v = [] \<and> date_field where ''added'' (v ''added'') = Inr a \<and> date_field where ''expires'' (v ''expires'') = Inr x
     \<and> order_errors today where (Inr a) (Inr x) = []
     \<and> (dhas OWN_BUILD_ALIASES (v ''image'') \<longrightarrow> approval_errors where (v ''image'') (v ''justification'') a = [])"
  by (auto simp: entry_ok_def text_errors_Nil date_field_Inr order_errors_def approval_errors_def own_build_caddy MAX_EXCEPTION_DAYS_def
      split: option.splits if_splits)

lemma value_errors_Nil:
  "fst (value_errors today where seen v) = [] \<longleftrightarrow>
     (\<exists>a x. entry_ok today v a x) \<and> (v ''image'', v ''package'', v ''id'') \<notin> set seen"
  "snd (value_errors today where seen v) = Some e \<longleftrightarrow>
     (\<exists>a x. entry_ok today v a x \<and> e = entry_of v a x) \<and> (v ''image'', v ''package'', v ''id'') \<notin> set seen"
  unfolding entry_ok_fields [of _ _ _ _ "where"] value_errors_def Let_def fst_conv snd_conv
  by (cases "date_field where ''added'' (v ''added'')"; cases "date_field where ''expires'' (v ''expires'')";
      auto simp: left_of_def entry_of_def)+


definition dict_ident :: "dict \<Rightarrow> ident" where
  "dict_ident d = (text_of d ''image'', text_of d ''package'', text_of d ''id'')"

definition dict_ok :: "int \<Rightarrow> dict \<Rightarrow> exc_entry \<Rightarrow> bool" where
  "dict_ok today d e \<longleftrightarrow>
     set (dkeys d) = set ENTRY_KEYS \<and> (\<forall>k\<in>set ENTRY_KEYS. is_str (dget d k))
     \<and> (\<exists>a x. entry_ok today (text_of d) a x \<and> e = entry_of (text_of d) a x)"

lemma exception_step_values:
  assumes "set (dkeys d) = set ENTRY_KEYS" "\<forall>k\<in>set ENTRY_KEYS. is_str (dget d k)"
  obtains w where "\<And>errors seen entries. exception_step today (errors, seen, entries) (i, JObj d) =
      (errors @ fst (value_errors today w seen (text_of d)), seen @ [dict_ident d],
       entries @ (case snd (value_errors today w seen (text_of d)) of None \<Rightarrow> [] | Some x \<Rightarrow> [x]))"
proof
  show "exception_step today (errors, seen, entries) (i, JObj d) =
      (errors @ fst (value_errors today (fmt ''exceptions[%d]'' [show_nat i]) seen (text_of d)), seen @ [dict_ident d],
       entries @ (case snd (value_errors today (fmt ''exceptions[%d]'' [show_nat i]) seen (text_of d)) of None \<Rightarrow> [] | Some x \<Rightarrow> [x]))"
    for errors seen entries
    using assms by (simp add: exception_step_def dict_ident_def list_all_iff Let_def split: prod.split)
qed

interpretation scan_file: exception_checker "exception_step today" "dict_ok today" dict_ident for today
proof
  fix d x seen errors entries i
  assume ok: "dict_ok today d x" "dict_ident d \<notin> set seen"
  then obtain w where step: "exception_step today (errors, seen, entries) (i, JObj d) =
      (errors @ fst (value_errors today w seen (text_of d)), seen @ [dict_ident d],
       entries @ (case snd (value_errors today w seen (text_of d)) of None \<Rightarrow> [] | Some x \<Rightarrow> [x]))"
    by (metis dict_ok_def exception_step_values)
  have "fst (value_errors today w seen (text_of d)) = []" "snd (value_errors today w seen (text_of d)) = Some x"
    unfolding value_errors_Nil using ok by (auto simp: dict_ok_def dict_ident_def)
  with step show "exception_step today (errors, seen, entries) (i, JObj d) = (errors, seen @ [dict_ident d], entries @ [x])" by simp
next
  fix e seen errors entries i
  assume no: "\<nexists>d x. e = JObj d \<and> dict_ok today d x \<and> dict_ident d \<notin> set seen"
  show "\<exists>new seen'. new \<noteq> [] \<and> exception_step today (errors, seen, entries) (i, e) = (errors @ new, seen', entries)"
  proof (cases "\<exists>d. e = JObj d \<and> set (dkeys d) = set ENTRY_KEYS \<and> (\<forall>k\<in>set ENTRY_KEYS. is_str (dget d k))")
    case True
    then obtain d where d: "e = JObj d" "set (dkeys d) = set ENTRY_KEYS" "\<forall>k\<in>set ENTRY_KEYS. is_str (dget d k)" by blast
    obtain w where step: "exception_step today (errors, seen, entries) (i, JObj d) =
      (errors @ fst (value_errors today w seen (text_of d)), seen @ [dict_ident d],
       entries @ (case snd (value_errors today w seen (text_of d)) of None \<Rightarrow> [] | Some x \<Rightarrow> [x]))"
      using exception_step_values [OF d(2,3)] by metis
    have bad: "\<not> ((\<exists>a x. entry_ok today (text_of d) a x) \<and> dict_ident d \<notin> set seen)" using no d by (auto simp: dict_ok_def)
    then have "fst (value_errors today w seen (text_of d)) \<noteq> []" unfolding value_errors_Nil(1) dict_ident_def .
    moreover have "snd (value_errors today w seen (text_of d)) \<noteq> Some y" for y
      unfolding value_errors_Nil(2) using bad by (auto simp: dict_ident_def)
    then have "snd (value_errors today w seen (text_of d)) = None" by (metis not_None_eq)
    ultimately show ?thesis using step d(1) by simp
  next
    case False
    then show ?thesis by (cases e) (auto simp: exception_step_def Let_def list_all_iff)
  qed
qed

text \<open>The exceptions files that are accepted, and the entries they give.\<close>

definition exceptions_ok :: "json \<Rightarrow> int \<Rightarrow> exc_entry list \<Rightarrow> bool" where
  "exceptions_ok data today entries \<longleftrightarrow>
     (\<exists>d ds. data = JObj d \<and> dget d ''exceptions'' = JList (map JObj ds)
        \<and> set (dkeys d) \<subseteq> {''$comment'', ''exceptions''} \<and> (dhas d ''$comment'' \<longrightarrow> is_str (dget d ''$comment''))
        \<and> list_all2 (dict_ok today) ds entries \<and> distinct (map dict_ident ds))"

lemma exception_errors_cases:
  assumes "exception_errors data today = (errors, entries)"
  shows "(errors = [] \<longleftrightarrow> exceptions_ok data today entries) \<and> (\<forall>ys. exceptions_ok data today ys \<longrightarrow> ys = entries)
     \<and> (\<forall>e\<in>set entries. \<exists>d. dict_ok today d e)"
proof (cases "\<exists>d es. data = JObj d \<and> dget d ''exceptions'' = JList es")
  case True
  then obtain d es where d: "data = JObj d" "dget d ''exceptions'' = JList es" by blast
  define h where "h = msg_if (keys_minus (dkeys d) [''$comment'', ''exceptions''] \<noteq> [])
        (fmt ''unknown top-level keys: %s'' [repr_strs (sorted_set (keys_minus (dkeys d) [''$comment'', ''exceptions'']))])
      @ msg_if (dhas d ''$comment'' \<and> \<not> is_str (dget d ''$comment'')) ([CHR 0x27] @ ''$comment'' @ [CHR 0x27] @ '' must be a string'')"
  from assms d obtain seen where f: "foldl (exception_step today) (h, [], []) (enumerate 0 es) = (errors, seen, entries)"
    unfolding h_def by (auto simp: exception_errors_def Let_def split: prod.splits)
  have h: "h = [] \<longleftrightarrow> set (dkeys d) \<subseteq> {''$comment'', ''exceptions''} \<and> (dhas d ''$comment'' \<longrightarrow> is_str (dget d ''$comment''))"
    unfolding h_def by auto
  have entries: "\<forall>x\<in>set entries. \<exists>d. dict_ok today d x" using scan_file.loop_entries [OF f] by simp
  have ok: "exceptions_ok data today ys \<longleftrightarrow> h = [] \<and> accepts (dict_ok today) dict_ident [] es ys" for ys
    unfolding exceptions_ok_def h accepts_def using d by auto
  show ?thesis unfolding ok scan_file.loop_exact [OF f, symmetric] using entries by blast
next
  case False
  then have "errors \<noteq> []" "entries = []"
    using assms by (auto simp: exception_errors_def split: json.splits)
  with False show ?thesis by (auto simp: exceptions_ok_def)
qed

text \<open>
  The exceptions file is accepted exactly when it is an object with only a comment text and a list of
  entries, each entry has exactly the seven keys with string values, names a CVE or GHSA id, a known
  image, an exact package and an issue, gives a justification of 20 characters and two real dates with
  added not in the future and expires at most 90 days later, has for the image this repository builds
  exactly one approval dated not after added, and no two entries name the same image, package and id.
  The entries returned are then those of the file in order.
\<close>

theorem exceptions_exact: "exception_errors data today = ([], entries) \<longleftrightarrow> exceptions_ok data today entries"
proof -
  obtain errors es where e: "exception_errors data today = (errors, es)" by (cases "exception_errors data today")
  show ?thesis using e exception_errors_cases [OF e] by auto
qed

lemma dict_ok_bounds:
  assumes "dict_ok today d e"
  shows "added_date e \<le> today" "added_date e \<le> expires_date e" "expires_date e \<le> added_date e + 90" "exc_image e \<in> set EXCEPTION_IMAGES"
proof -
  from assms obtain a x where "entry_ok today (text_of d) a x" "e = entry_of (text_of d) a x" by (auto simp: dict_ok_def)
  then show "added_date e \<le> today" "added_date e \<le> expires_date e" "expires_date e \<le> added_date e + 90" "exc_image e \<in> set EXCEPTION_IMAGES"
    by (simp_all add: entry_ok_def entry_of_def)
qed

text \<open>
  Whatever the file holds, every entry that is returned was added by today, lives at most 90 days and
  names one of the eight known images.
\<close>

theorem exceptions_bounded:
  "list_all (\<lambda>e. added_date e \<le> today \<and> added_date e \<le> expires_date e \<and> expires_date e \<le> added_date e + 90
      \<and> exc_image e \<in> set EXCEPTION_IMAGES) (snd (exception_errors data today))"
proof -
  obtain errors es where e: "exception_errors data today = (errors, es)" by (cases "exception_errors data today")
  show ?thesis using exception_errors_cases [OF e] unfolding e
    by (auto simp: list_all_iff dest: dict_ok_bounds)
qed

definition sample_exceptions :: "string \<Rightarrow> json" where
  "sample_exceptions package = JObj [(''exceptions'', JList [JObj [(''id'', JStr ''CVE-2026-0001''), (''image'', JStr ''postgres''),
     (''package'', JStr package), (''justification'', JStr ''not reachable from the stack''), (''issue'', JStr ''#28''),
     (''added'', JStr ''2026-01-02''), (''expires'', JStr ''2026-03-02'')]])]"

text \<open>
  An entry whose package name ends with a line feed is accepted, although the pattern is meant to
  refuse white space.
\<close>

theorem package_newline_accepted:
  "fst (exception_errors (sample_exceptions (''openssl'' @ [NL])) 739700) = []"
  by code_simp


section \<open>Cells of the summary\<close>

lemma set_join: "set (join sep ss) \<subseteq> set sep \<union> \<Union>(set ` set ss)"
  by (induction sep ss rule: join.induct) auto

lemma split_on_parts: "sep \<noteq> [] \<Longrightarrow> \<Union>(set ` set (split_on sep s)) \<subseteq> set s"
proof (induction sep s rule: split_on.induct)
  case (1 sep s)
  show ?case
  proof (cases "cut_at sep s")
    case None
    with 1(2) show ?thesis by (subst split_on.simps) simp
  next
    case (Some ab)
    obtain a b where ab: "ab = (a, b)" by (cases ab)
    with Some 1(2) have s: "s = a @ sep @ b" by (simp add: cut_at_SomeD)
    with 1(1) [OF 1(2) Some ab [symmetric]] 1(2) Some ab show ?thesis by (subst split_on.simps) auto
  qed
qed

lemma split_on_char_free: "\<forall>t\<in>set (split_on [c] s). c \<notin> set t"
proof (induction "[c]" s rule: split_on.induct)
  case (1 s)
  show ?case
  proof (cases "cut_at [c] s")
    case None
    then have "c \<notin> set s" using cut_at_None [of "[c]" s] by (simp add: sublist_single)
    then show ?thesis by (simp add: split_on_not_in)
  next
    case (Some ab)
    then have "c \<in> set s" using cut_at_None [of "[c]" s] by (auto simp: sublist_single)
    then obtain a b where s: "s = a @ c # b" "c \<notin> set a" by (auto dest: split_list_first)
    then have "cut_at [c] s = Some (a, b)" by (simp add: cut_at_char)
    with 1 s show ?thesis by (simp add: split_on_char)
  qed
qed

lemma set_replace_all: "old \<noteq> [] \<Longrightarrow> set (replace_all old new s) \<subseteq> set s \<union> set new"
  using set_join [of new "split_on old s"] split_on_parts [of old s] by (auto simp: replace_all_def)

lemma replace_all_removes: "c \<notin> set new \<Longrightarrow> c \<notin> set (replace_all [c] new s)"
  using set_join [of new "split_on [c] s"] split_on_char_free [of c s] by (auto simp: replace_all_def)

lemma neutralize_text_control: "\<forall>c\<in>set (neutralize_text s). \<not> is_control c"
proof -
  have "\<not> is_control c" if "c \<in> set (neutralize_char x)" for c x
    using that neutralize_char_control by blast
  then show ?thesis by (auto simp: neutralize_text_def)
qed

text \<open>
  A cell of the step summary holds no control character and none of the characters that start
  markup in a Markdown table: angle and square brackets, backslash, bar and back quote.
\<close>

theorem md_cell_inert: "list_all (\<lambda>c. \<not> is_control c \<and> c \<notin> set ''<>[]|`'' \<and> ccode c \<noteq> 92) (md_cell t)"
proof -
  let ?step = "\<lambda>s (raw, ent). replace_all raw ent s"
  have ents: "\<forall>(raw, ent)\<in>set MD_ENTITIES. length raw = 1 \<and> (\<forall>c\<in>set ent. \<not> is_control c \<and> [c] \<notin> set (dkeys MD_ENTITIES))"
    by code_simp
  have keeps: "P c" if "\<forall>c\<in>set s. P c" "\<forall>(raw, ent)\<in>set es. raw \<noteq> [] \<and> (\<forall>c\<in>set ent. P c)" "c \<in> set (foldl ?step s es)" for P s es c
    using that
  proof (induction es arbitrary: s)
    case (Cons re es)
    obtain raw ent where re: "re = (raw, ent)" by (cases re)
    have "\<forall>c\<in>set (replace_all raw ent s). P c" using set_replace_all [of raw ent s] Cons.prems re by fastforce
    with Cons re show ?case by simp
  qed simp
  have gone: "d \<notin> set (foldl ?step s es)" if "[d] \<in> set (dkeys es)" "\<forall>(raw, ent)\<in>set es. raw \<noteq> [] \<and> d \<notin> set ent" for d s es
    using that
  proof (induction es arbitrary: s)
    case (Cons re es)
    obtain raw ent where re: "re = (raw, ent)" by (cases re)
    show ?case
    proof (cases "raw = [d]")
      case True
      with Cons.prems re have "d \<notin> set (replace_all raw ent s)" using replace_all_removes [of d ent s] by simp
      with keeps [of "replace_all raw ent s" "\<lambda>c. c \<noteq> d" es d] Cons.prems re show ?thesis by fastforce
    next
      case False
      with Cons re show ?thesis by (simp add: dkeys_def)
    qed
  qed (simp add: dkeys_def)
  have raws: "\<forall>(raw, ent)\<in>set MD_ENTITIES. raw \<noteq> []" using ents by fastforce
  have "\<forall>c\<in>set (replace_all ''&'' ''&amp;'' (neutralize_text t)). \<not> is_control c"
  proof -
    have "\<forall>c\<in>set ''&amp;''. \<not> is_control c" by code_simp
    with set_replace_all [of "''&''" "''&amp;''" "neutralize_text t"] neutralize_text_control [of t] show ?thesis by blast
  qed
  then have ctl: "\<not> is_control c" if "c \<in> set (md_cell t)" for c
    using keeps [of "replace_all ''&'' ''&amp;'' (neutralize_text t)" "\<lambda>c. \<not> is_control c" MD_ENTITIES c] ents raws that
    unfolding md_cell_def by fastforce
  have no: "d \<notin> set (md_cell t)" if "[d] \<in> set (dkeys MD_ENTITIES)" for d
    unfolding md_cell_def by (rule gone [OF that]) (use ents raws that in fastforce)
  have keys: "dkeys MD_ENTITIES = [''<'', ''>'', ''['', '']'', [char_of (92::nat)], ''|'', ''`'']"
    by (simp add: MD_ENTITIES_def dkeys_def)
  have "c \<notin> set ''<>[]|`'' \<and> ccode c \<noteq> 92" if "c \<in> set (md_cell t)" for c
  proof -
    have "c = char_of (92::nat)" if "ccode c = 92" using that by (metis ccode_def char_of_char)
    with that no [of c] show ?thesis unfolding keys by auto
  qed
  with ctl show ?thesis by (simp add: list_all_iff)
qed

end
