(* ===== verification/Scan_Policy.thy ===== *)
theory Scan_Policy
  imports Scan_Inputs
begin

text \<open>
  The policy of the CI image scan, \<^verbatim>\<open>.github/scripts/image_scan.py\<close>: the command lines of the scanner,
  whether a scan result proves that it scanned the requested reference (\<^verbatim>\<open>check_provenance\<close>), and which of its
  matches block (\<^verbatim>\<open>evaluate\<close>). The outer \<^term>\<open>None\<close> is an exception the function does not catch.
\<close>


section \<open>Command lines\<close>

definition DB_MOUNT :: string where
  "DB_MOUNT = ''/db''"

definition OUT_MOUNT :: string where
  "OUT_MOUNT = ''/out''"

definition SBOM_NAME :: string where
  "SBOM_NAME = ''sbom.cdx.json''"

definition PLATFORM :: string where
  "PLATFORM = ''linux/amd64''"

definition DB_UPDATE_ENV :: "(string \<times> string) list" where
  "DB_UPDATE_ENV = [(''GRYPE_DB_CACHE_DIR'', DB_MOUNT)]"

definition SCAN_ENV :: "(string \<times> string) list" where
  "SCAN_ENV = [(''GRYPE_DB_CACHE_DIR'', DB_MOUNT), (''GRYPE_DB_AUTO_UPDATE'', ''false''), (''GRYPE_CHECK_FOR_APP_UPDATE'', ''false'')]"

definition env_args :: "(string \<times> string) list \<Rightarrow> string list" where
  "env_args env = concat (map (\<lambda>(k, v). [''-e'', k @ ''='' @ v]) env)"

definition db_update_argv :: "string \<Rightarrow> string \<Rightarrow> string list" where
  "db_update_argv scanner db_dir =
     [''docker'', ''run'', ''--rm'', ''-v'', db_dir @ '':'' @ DB_MOUNT] @ env_args DB_UPDATE_ENV @ [scanner, ''db'', ''update'']"

definition scan_argv :: "string \<Rightarrow> string \<Rightarrow> string \<Rightarrow> string option \<Rightarrow> string list" where
  "scan_argv scanner ref db_dir out_dir =
     [''docker'', ''run'', ''--rm'', ''-v'', db_dir @ '':'' @ DB_MOUNT]
     @ (case out_dir of None \<Rightarrow> [] | Some d \<Rightarrow> [''-v'', d @ '':'' @ OUT_MOUNT])
     @ env_args SCAN_ENV
     @ [scanner, ''registry:'' @ ref, ''--platform'', PLATFORM, ''-o'', ''json'']
     @ (case out_dir of None \<Rightarrow> [] | Some d \<Rightarrow> [''-o'', ''cyclonedx-json='' @ OUT_MOUNT @ ''/'' @ SBOM_NAME])"


section \<open>Evidence\<close>

definition OWN_BUILD_TAG_RE :: rx where
  "OWN_BUILD_TAG_RE =
     rseq [RGroup 1 (rseq [rplus rdigit, rchr CHR ''.'', rplus rdigit, rchr CHR ''.'', rplus rdigit]), rchr CHR ''-'',
           rrep 40 (RSet is_hex_lower)]"

definition OWN_BUILD_CADDY_PURL :: string where
  "OWN_BUILD_CADDY_PURL = ''pkg:golang/github.com/caddyserver/caddy/v2@v''"

definition OWN_BUILD_STDLIB_PURL :: string where
  "OWN_BUILD_STDLIB_PURL = ''pkg:golang/stdlib@''"

definition LAYER_PROP_RE :: rx where
  "LAYER_PROP_RE = rseq [rlit ''syft:location:'', rplus rdigit, rlit '':layerID'']"

definition STDLIB_VERSION_RE :: rx where
  "STDLIB_VERSION_RE = RSeq (RSet is_alnum_ascii) (RStar (RSet (\<lambda>c. is_alnum_ascii c \<or> c \<in> set ''._+~-'')))"

text \<open>\<^verbatim>\<open>x if isinstance(x, dict) else {}\<close>.\<close>

definition dict_or_empty :: "json \<Rightarrow> dict" where
  "dict_or_empty v = (case v of JObj d \<Rightarrow> d | _ \<Rightarrow> [])"

text \<open>\<^verbatim>\<open>d.get(k, default)\<close>.\<close>

definition dget_or :: "dict \<Rightarrow> string \<Rightarrow> json \<Rightarrow> json" where
  "dget_or d k v = (case map_of d k of None \<Rightarrow> v | Some x \<Rightarrow> x)"

definition db_built :: "dict \<Rightarrow> json option" where
  "db_built doc =
     do { descriptor \<leftarrow> or_dict (dget doc ''descriptor'');
          Some (case dget descriptor ''db'' of
              JObj db \<Rightarrow>
                if truthy (dget db ''built'') then dget db ''built''
                else (case dget db ''status'' of
                        JObj status \<Rightarrow> if truthy (dget status ''built'') then dget status ''built'' else JNull
                      | _ \<Rightarrow> JNull)
            | _ \<Rightarrow> JNull) }"

definition is_go_module :: "json list \<Rightarrow> bool" where
  "is_go_module props =
     list_ex (\<lambda>p. case p of JObj d \<Rightarrow> dget d ''name'' = JStr ''syft:package:type'' \<and> dget d ''value'' = JStr ''go-module'' | _ \<Rightarrow> False) props"

definition layer_id :: "json \<Rightarrow> string option" where
  "layer_id p =
     (case p of
        JObj d \<Rightarrow>
          (case (dget d ''name'', dget d ''value'') of
             (JStr name, JStr v) \<Rightarrow> if fullmatches LAYER_PROP_RE name then Some v else None
           | _ \<Rightarrow> None)
      | _ \<Rightarrow> None)"

definition layer_ids :: "json list \<Rightarrow> string list" where
  "layer_ids props = List.map_filter layer_id props"

definition go_component :: "json \<Rightarrow> (string \<times> string list) option" where
  "go_component c =
     (case c of
        JObj d \<Rightarrow>
          (case (dget d ''purl'', dget d ''properties'') of
             (JStr purl, JList props) \<Rightarrow>
               if py_startswith purl ''pkg:golang/'' \<and> is_go_module props then Some (purl, layer_ids props) else None
           | _ \<Rightarrow> None)
      | _ \<Rightarrow> None)"

definition sbom_go_components :: "dict \<Rightarrow> (string list \<times> string list) option" where
  "sbom_go_components sbom =
     (case dget sbom ''components'' of
        JList cs \<Rightarrow> (let gs = List.map_filter go_component cs in Some (map fst gs, concat (map snd gs)))
      | _ \<Rightarrow> None)"

definition doc_target :: "dict \<Rightarrow> dict" where
  "doc_target doc = dict_or_empty (dget (dict_or_empty (dget doc ''source'')) ''target'')"

text \<open>The set of layer digests; a digest that cannot be hashed raises.\<close>

definition json_layers :: "dict \<Rightarrow> json list option" where
  "json_layers doc =
     (case dget (doc_target doc) ''layers'' of
        JList ls \<Rightarrow>
          (let ds = map (\<lambda>d. dget d ''digest'') (List.map_filter as_dict ls)
           in if list_all hashable ds then Some (filter (\<lambda>v. v \<noteq> JNull) ds) else None)
      | _ \<Rightarrow> Some [])"

definition in_layers :: "string list \<Rightarrow> json list \<Rightarrow> bool" where
  "in_layers ids layers \<longleftrightarrow> list_ex (\<lambda>i. JStr i \<in> set layers) ids"

text \<open>A match of a Go module whose purl no component of the SBOM has.\<close>

definition unlisted_match :: "string list \<Rightarrow> json \<Rightarrow> bool option" where
  "unlisted_match purls m =
     (case m of
        JObj d \<Rightarrow>
          (case dget d ''artifact'' of
             JObj a \<Rightarrow>
               if dget a ''type'' = JStr ''go-module''
               then (if hashable (dget a ''purl'') then Some (dget a ''purl'' \<notin> JStr ` set purls) else None)
               else Some False
           | _ \<Rightarrow> Some False)
      | _ \<Rightarrow> Some False)"

definition catalogue_problems :: "dict \<Rightarrow> dict \<Rightarrow> string list option" where
  "catalogue_problems sbom doc =
     (case sbom_go_components sbom of
        None \<Rightarrow> Some [''SBOM has no '' @ [CHR 0x27] @ ''components'' @ [CHR 0x27] @ '' list'']
      | Some ([], ids) \<Rightarrow> Some [''SBOM lists no Go-module component (syft:package:type go-module with a pkg:golang/ purl): the binary was not catalogued'']
      | Some (purls, ids) \<Rightarrow>
          do { layers \<leftarrow> json_layers doc;
               ms \<leftarrow> py_iter (dget doc ''matches'');
               b \<leftarrow> any_opt (unlisted_match purls) ms;
               Some (msg_if (\<not> in_layers ids layers)
                       ''no Go-module component belongs to a layer listed in the JSON source.target.layers''
                     @ msg_if b ''a JSON go-module match has no SBOM component with the same purl: the two outputs disagree'') })"

definition check_binary_sbom :: "json \<Rightarrow> string \<Rightarrow> dict \<Rightarrow> string list option" where
  "check_binary_sbom v ref doc =
     (case v of
        JObj sbom \<Rightarrow>
          (case dget (dict_or_empty (dget sbom ''metadata'')) ''component'' of
             JObj c \<Rightarrow>
               (case split_ref ref of
                  None \<Rightarrow> Some [''pinned reference is not a digest-pinned reference'']
                | Some (registry, img, tag, digest) \<Rightarrow>
                    map_option (\<lambda>cat.
                        msg_if (dget c ''type'' \<noteq> JStr ''container'')
                          (''SBOM metadata.component.type is not '' @ [CHR 0x27] @ ''container'' @ [CHR 0x27])
                        @ msg_if (dget c ''name'' \<noteq> JStr (registry @ ''/'' @ img))
                            ''SBOM metadata.component.name does not equal the pinned Registry/Image''
                        @ msg_if (dget c ''version'' \<noteq> JStr tag) ''SBOM metadata.component.version does not equal the pinned tag''
                        @ cat) (catalogue_problems sbom doc))
           | _ \<Rightarrow> Some [''SBOM has no metadata.component: it does not identify the scanned image''])
      | _ \<Rightarrow> Some [''SBOM missing or not a JSON object: binary-only evidence unavailable''])"

definition purl_head :: "string \<Rightarrow> string" where
  "purl_head purl = takeWhile (\<lambda>c. c \<noteq> CHR ''?'' \<and> c \<noteq> CHR ''#'') purl"

definition component_facts :: "json \<Rightarrow> (string \<times> bool \<times> string list) option" where
  "component_facts c =
     (case c of
        JObj d \<Rightarrow>
          (case (dget d ''purl'', dget d ''properties'') of
             (JStr purl, JList props) \<Rightarrow> Some (purl_head purl, is_go_module props, layer_ids props)
           | _ \<Rightarrow> None)
      | _ \<Rightarrow> None)"

definition is_stdlib_purl :: "string \<Rightarrow> bool" where
  "is_stdlib_purl purl \<longleftrightarrow>
     py_startswith purl OWN_BUILD_STDLIB_PURL \<and> fullmatches STDLIB_VERSION_RE (drop (length OWN_BUILD_STDLIB_PURL) purl)"

definition check_own_build_sbom :: "json \<Rightarrow> string \<Rightarrow> dict \<Rightarrow> string list option" where
  "check_own_build_sbom v ref doc =
     (case Option.bind (split_ref ref) (\<lambda>(registry, img, tag, digest). re_fullmatch OWN_BUILD_TAG_RE tag) of
        None \<Rightarrow> Some [''own-build evidence: the pinned tag is not <x.y.z>-<40 hex commit>: the Caddy version cannot be bound'']
      | Some version \<Rightarrow>
          (case (case v of JObj sbom \<Rightarrow> dget sbom ''components'' | _ \<Rightarrow> JNull) of
             JList cs \<Rightarrow>
               do { layers \<leftarrow> json_layers doc;
                    let want = OWN_BUILD_CADDY_PURL @ group_text version 1;
                    let found = map fst (filter (\<lambda>(purl, go, ids). go \<and> in_layers ids layers) (List.map_filter component_facts cs));
                    Some (msg_if (want \<notin> set found)
                            (fmt ''own-build evidence: no go-module component %s in a layer listed in source.target.layers: the Caddy binary does not match the pinned tag'' [want])
                          @ msg_if (\<not> list_ex (\<lambda>p. p \<noteq> want \<and> is_stdlib_purl p) found)
                            (fmt ''own-build evidence: no go-module component %s<version> in a layer listed in source.target.layers: the Go toolchain was not catalogued'' [OWN_BUILD_STDLIB_PURL])) }
           | _ \<Rightarrow> Some [''own-build evidence: SBOM has no '' @ [CHR 0x27] @ ''components'' @ [CHR 0x27] @ '' list'']))"


section \<open>Provenance\<close>

definition binary_only :: "string option \<Rightarrow> string \<Rightarrow> bool" where
  "binary_only al ref = (case al of None \<Rightarrow> False | Some a \<Rightarrow> mapped_to BINARY_ONLY_ALIASES a ref)"

definition source_problems :: "dict \<Rightarrow> string \<Rightarrow> bool \<Rightarrow> string list option" where
  "source_problems doc ref binary =
     (let source = dict_or_empty (dget doc ''source''); target = doc_target doc in
      map_option (\<lambda>built.
        msg_if (dget source ''type'' \<noteq> JStr ''image'') (''source.type is not '' @ [CHR 0x27] @ ''image'' @ [CHR 0x27])
        @ msg_if (dget target ''userInput'' \<notin> {JStr ref, JStr (''registry:'' @ ref)})
            ''source.target.userInput does not equal the requested reference with its digest''
        @ msg_if (\<not> (is_list (dget target ''layers'') \<and> truthy (dget target ''layers'')))
            ''source.target.layers is empty: nothing was catalogued''
        @ msg_if (\<not> binary \<and> \<not> truthy (dget (dict_or_empty (dget doc ''distro'')) ''name''))
            ''distro.name is empty: the image was not recognised as an OS image''
        @ msg_if (\<not> truthy built) ''descriptor.db.built is missing: the vulnerability database is not identified'') (db_built doc))"

definition check_provenance :: "json \<Rightarrow> string \<Rightarrow> string option \<Rightarrow> json \<Rightarrow> string list option" where
  "check_provenance v ref al sbom =
     (case v of
        JObj doc \<Rightarrow>
          if \<not> is_list (dget doc ''matches'') then Some [''scanner JSON has no '' @ [CHR 0x27] @ ''matches'' @ [CHR 0x27] @ '' list'']
          else do { ps \<leftarrow> source_problems doc ref (binary_only al ref);
                    if (binary_only al ref \<or> is_own_build al ref) \<and> ps = [] then
                      do { bs \<leftarrow> check_binary_sbom sbom ref doc;
                           if \<not> binary_only al ref \<and> bs = [] then check_own_build_sbom sbom ref doc else Some bs }
                    else Some ps }
      | _ \<Rightarrow> Some [''scanner JSON has no '' @ [CHR 0x27] @ ''matches'' @ [CHR 0x27] @ '' list''])"


section \<open>The policy\<close>

text \<open>\<^verbatim>\<open>float(x) >= 7.0\<close>: the decimal is rounded to the nearest double; the midpoint below 7 is
  \<open>7 - 2 ^ - 51\<close> and rounds to the even 7. A whole number too large for a double raises OverflowError, which is
  not caught; a score that is no number is skipped.\<close>

definition at_least_seven :: "pyfloat \<Rightarrow> bool" where
  "at_least_seven f =
     (case f of
        FDec m e \<Rightarrow>
          if 0 \<le> e then 7 * 2 ^ 51 - 1 \<le> m * 10 ^ nat e * 2 ^ 51
          else (7 * 2 ^ 51 - 1) * 10 ^ nat (- e) \<le> m * 2 ^ 51
      | FInf neg \<Rightarrow> \<not> neg
      | FNan \<Rightarrow> False)"

definition score_of :: "json \<Rightarrow> bool list option" where
  "score_of c =
     do { d \<leftarrow> as_dict c;
          metrics \<leftarrow> or_dict (dget d ''metrics'');
          (let v = dget metrics ''baseScore'' in
           case v of
             JInt i \<Rightarrow> if 2 ^ 1024 - 2 ^ 970 \<le> \<bar>i\<bar> then None else Some [7 \<le> i]
           | _ \<Rightarrow> Some (case py_float v of None \<Rightarrow> [] | Some f \<Rightarrow> [at_least_seven f])) }"

text \<open>Whether each score reaches \<^verbatim>\<open>ELEVATE_CVSS\<close>.\<close>

definition scores :: "dict list \<Rightarrow> bool list option" where
  "scores vulns =
     map_option concat (map_opt (\<lambda>v. do { cs \<leftarrow> py_iter (dget v ''cvss''); map_option concat (map_opt score_of cs) }) vulns)"

definition TAG_UNCHANGED :: string where
  "TAG_UNCHANGED = ''unchanged''"

definition TAG_MOVED :: string where
  "TAG_MOVED = ''moved''"

definition TAG_UNKNOWN :: string where
  "TAG_UNKNOWN = ''unknown''"

text \<open>\<^verbatim>\<open>alias in ALIASES and artifact.get("type") in OS_PACKAGE_TYPES\<close>; an unhashable type raises.\<close>

definition os_package :: "string \<Rightarrow> dict \<Rightarrow> bool option" where
  "os_package al artifact =
     (if al \<notin> set ALIASES then Some False
      else if hashable (dget artifact ''type'') then Some (dget artifact ''type'' \<in> JStr ` set OS_PACKAGE_TYPES) else None)"

definition keeps_fixed_exception :: "exc_entry \<Rightarrow> string \<Rightarrow> dict \<Rightarrow> string option \<Rightarrow> bool option" where
  "keeps_fixed_exception hit al artifact tag_state =
     (if tag_state \<noteq> Some TAG_UNCHANGED then Some False
      else map_option (\<lambda>os. os \<and> expires_date hit - added_date hit \<le> MAX_FIXED_EXCEPTION_DAYS) (os_package al artifact))"

record item =
  it_image :: string
  it_package :: json
  it_version :: json
  it_id :: json
  it_type :: json
  it_severity :: string
  it_fix :: json
  it_note :: "string option"

datatype severity = Severe | Elevated | Minor

definition severity_text :: "dict \<Rightarrow> string" where
  "severity_text vuln = lower (strip (py_str (dget_or vuln ''severity'' (JStr []))))"

definition severity_of :: "dict \<Rightarrow> json \<Rightarrow> severity option" where
  "severity_of vuln related =
     (let sev = severity_text vuln in
      if sev \<in> {''high'', ''critical''} then Some Severe
      else if sev \<in> {''unknown'', ''negligible'', ''''} then
        do { rs \<leftarrow> py_iter related;
             ds \<leftarrow> map_opt as_dict rs;
             ss \<leftarrow> scores (vuln # ds);
             Some (if list_ex id ss then Elevated else Minor) }
      else Some Minor)"

definition capitalize :: "string \<Rightarrow> string" where
  "capitalize s = (case s of [] \<Rightarrow> [] | c # cs \<Rightarrow> char_upper c @ lower cs)"

definition severity_label :: "severity \<Rightarrow> string \<Rightarrow> string" where
  "severity_label s sev = (if s = Elevated then ''Elevated('' @ (if sev = [] then ''unknown'' else sev) @ '')'' else capitalize sev)"

text \<open>\<^verbatim>\<open>{vuln.get("id")} | {r.get("id") for r in related}\<close> without None.\<close>

definition ids_of :: "dict \<Rightarrow> json \<Rightarrow> json list option" where
  "ids_of vuln related =
     do { rs \<leftarrow> py_iter related;
          ds \<leftarrow> map_opt as_dict rs;
          let ids = dget vuln ''id'' # map (\<lambda>d. dget d ''id'') ds;
          if list_all hashable ids then Some (filter (\<lambda>v. v \<noteq> JNull) ids) else None }"

definition fix_text :: "dict \<Rightarrow> json option" where
  "fix_text fx =
     (if dget fx ''state'' = JStr ''fixed'' then
        do { vs \<leftarrow> py_iter (dget fx ''versions''); ss \<leftarrow> map_opt as_str vs; Some (JStr (join '', '' ss)) }
      else Some (py_or (dget fx ''state'') (JStr ''unknown'')))"

definition matching :: "string \<Rightarrow> json \<Rightarrow> json list \<Rightarrow> exc_entry \<Rightarrow> bool" where
  "matching al package ids e \<longleftrightarrow> exc_image e = al \<and> JStr (exc_package e) = package \<and> JStr (exc_id e) \<in> set ids"

definition refused_note :: "bool \<Rightarrow> string option \<Rightarrow> string \<Rightarrow> string" where
  "refused_note eligible tag_state tag_label =
     ''exception not applied: a fix is now available, bump the image''
     @ (if eligible \<and> tag_state = Some TAG_MOVED
        then '' (tag moved: rescan and bump'' @ (if tag_label = [] then [] else '': '' @ tag_label) @ '')''
        else if eligible \<and> tag_state = Some TAG_UNKNOWN then '' (tag resolution failed: D-2 applied)'' else [])"

text \<open>The exception that is left for a match, and the note of its item.\<close>

definition apply_fix_rule ::
  "exc_entry option \<Rightarrow> bool \<Rightarrow> string \<Rightarrow> dict \<Rightarrow> string option \<Rightarrow> string \<Rightarrow> (exc_entry option \<times> string option) option" where
  "apply_fix_rule hit fixed al artifact tag_state tag_label =
     (case hit of
        None \<Rightarrow> Some (None, None)
      | Some e \<Rightarrow>
          if \<not> fixed then Some (Some e, None)
          else do { keep \<leftarrow> keeps_fixed_exception e al artifact tag_state;
                    if keep then
                      Some (Some e, Some (fmt ''excepted (no rebuilt image: %s still at the pinned digest)'' [if tag_label = [] then ''tag'' else tag_label]))
                    else do { eligible \<leftarrow> os_package al artifact;
                              Some (None, Some (refused_note eligible tag_state tag_label)) } })"

text \<open>One match: nothing, or its item and the exception that covers it.\<close>

definition judge :: "string \<Rightarrow> exc_entry list \<Rightarrow> string option \<Rightarrow> string \<Rightarrow> json \<Rightarrow> (item \<times> exc_entry option) option option" where
  "judge al active tag_state tag_label m =
     do { d \<leftarrow> as_dict m;
          vuln \<leftarrow> or_dict (dget d ''vulnerability'');
          let related = dget d ''relatedVulnerabilities'';
          s \<leftarrow> severity_of vuln related;
          (if s = Minor then Some None
           else
             do { ids \<leftarrow> ids_of vuln related;
                  fx \<leftarrow> or_dict (dget vuln ''fix'');
                  artifact \<leftarrow> or_dict (dget d ''artifact'');
                  ft \<leftarrow> fix_text fx;
                  let package = dget_or artifact ''name'' (JStr []);
                  (hit, note) \<leftarrow> apply_fix_rule (find (matching al package ids) active) (dget fx ''state'' = JStr ''fixed'') al artifact
                    tag_state tag_label;
                  Some (Some (\<lparr> it_image = al, it_package = package, it_version = dget_or artifact ''version'' (JStr []),
                     it_id = dget_or vuln ''id'' (JStr []), it_type = dget_or artifact ''type'' (JStr []),
                     it_severity = severity_label s (severity_text vuln), it_fix = ft, it_note = note \<rparr>, hit)) }) }"

record verdict =
  findings :: "item list"
  excepted :: "item list"
  used :: "ident list"

text \<open>\<^verbatim>\<open>for m in v\<close>.\<close>

definition iter_of :: "json option \<Rightarrow> json list option" where
  "iter_of v =
     (case v of
        Some (JList xs) \<Rightarrow> Some xs
      | Some (JObj d) \<Rightarrow> Some (map JStr (dkeys d))
      | Some (JStr s) \<Rightarrow> Some (map (\<lambda>c. JStr [c]) s)
      | _ \<Rightarrow> None)"

definition evaluate :: "dict \<Rightarrow> string \<Rightarrow> exc_entry list \<Rightarrow> int \<Rightarrow> string option \<Rightarrow> string \<Rightarrow> verdict option" where
  "evaluate doc al exceptions today tag_state tag_label =
     (let active = filter (\<lambda>e. today \<le> expires_date e) exceptions in
      do { ms \<leftarrow> iter_of (map_of doc ''matches'');
           js \<leftarrow> map_opt (judge al active tag_state tag_label) ms;
           let judged = List.map_filter id js;
           Some \<lparr> findings = map fst (filter (\<lambda>(i, h). h = None) judged),
                  excepted = map fst (filter (\<lambda>(i, h). h \<noteq> None) judged),
                  used = remdups (map ident_of (List.map_filter snd judged)) \<rparr> })"


section \<open>What the policy guarantees\<close>

text \<open>A match that blocks unless an exception covers it.\<close>

definition blocking :: "json \<Rightarrow> bool" where
  "blocking m \<longleftrightarrow>
     (case m of
        JObj d \<Rightarrow>
          (case or_dict (dget d ''vulnerability'') of
             Some vuln \<Rightarrow> severity_of vuln (dget d ''relatedVulnerabilities'') \<in> {Some Severe, Some Elevated}
           | None \<Rightarrow> False)
      | _ \<Rightarrow> False)"

text \<open>\<open>covers al today tag_state e m\<close>: the exception is in force, names the image, the exact package and
  one of the ids of the match, and either no fix is known or the narrow rule for rebuilt images holds.\<close>

definition covers :: "string \<Rightarrow> int \<Rightarrow> string option \<Rightarrow> exc_entry \<Rightarrow> json \<Rightarrow> bool" where
  "covers al today tag_state e m \<longleftrightarrow>
     today \<le> expires_date e \<and> exc_image e = al \<and>
     (\<exists>d vuln artifact fx ids. m = JObj d \<and> or_dict (dget d ''vulnerability'') = Some vuln \<and> or_dict (dget d ''artifact'') = Some artifact
        \<and> or_dict (dget vuln ''fix'') = Some fx \<and> ids_of vuln (dget d ''relatedVulnerabilities'') = Some ids
        \<and> dget_or artifact ''name'' (JStr []) = JStr (exc_package e) \<and> JStr (exc_id e) \<in> set ids
        \<and> (dget fx ''state'' = JStr ''fixed'' \<longrightarrow>
             tag_state = Some ''unchanged'' \<and> al \<in> set ALIASES \<and> dget artifact ''type'' \<in> {JStr ''apk'', JStr ''deb'', JStr ''rpm''}
             \<and> expires_date e - added_date e \<le> 30))"

lemma apply_fix_rule_Some:
  assumes "apply_fix_rule hit fixed al artifact tag_state tag_label = Some (Some e, note)"
  shows "hit = Some e \<and> (fixed \<longrightarrow> tag_state = Some ''unchanged'' \<and> al \<in> set ALIASES
     \<and> dget artifact ''type'' \<in> {JStr ''apk'', JStr ''deb'', JStr ''rpm''} \<and> expires_date e - added_date e \<le> 30)"
  using assms
  by (auto simp: apply_fix_rule_def keeps_fixed_exception_def os_package_def TAG_UNCHANGED_def OS_PACKAGE_TYPES_def
      MAX_FIXED_EXCEPTION_DAYS_def bind_eq_Some_conv split: option.splits if_splits)

lemma judge_Some:
  assumes "judge al active tag_state tag_label m = Some res"
  shows "res = None \<longleftrightarrow> \<not> blocking m"
    and "res = Some (i, Some e) \<Longrightarrow> e \<in> set active \<and> (today \<le> expires_date e \<longrightarrow> covers al today tag_state e m)"
proof -
  from assms obtain d vuln s where j: "m = JObj d" "or_dict (dget d ''vulnerability'') = Some vuln"
      "severity_of vuln (dget d ''relatedVulnerabilities'') = Some s" and res: "s = Minor \<longleftrightarrow> res = None"
    by (cases res) (auto simp: judge_def bind_eq_Some_conv Let_def split: if_splits)
  then show "res = None \<longleftrightarrow> \<not> blocking m" by (cases s) (auto simp: blocking_def)
  assume "res = Some (i, Some e)"
  with assms j res obtain ids fx artifact ft nt where
    p: "ids_of vuln (dget d ''relatedVulnerabilities'') = Some ids" "or_dict (dget vuln ''fix'') = Some fx"
       "or_dict (dget d ''artifact'') = Some artifact"
    and r: "apply_fix_rule (find (matching al (dget_or artifact ''name'' (JStr [])) ids) active) (dget fx ''state'' = JStr ''fixed'') al artifact
        tag_state tag_label = Some (Some e, nt)"
    by (auto simp: judge_def bind_eq_Some_conv Let_def split: if_splits)
  from apply_fix_rule_Some [OF r] have "find (matching al (dget_or artifact ''name'' (JStr [])) ids) active = Some e" by simp
  then have "e \<in> set active" "matching al (dget_or artifact ''name'' (JStr [])) ids e"
    by (auto simp: find_Some_iff)
  with apply_fix_rule_Some [OF r] p j show "e \<in> set active \<and> (today \<le> expires_date e \<longrightarrow> covers al today tag_state e m)"
    unfolding covers_def matching_def by auto
qed

lemma map_opt_all2: "map_opt f xs = Some ys \<longleftrightarrow> list_all2 (\<lambda>x y. f x = Some y) xs ys"
  by (induction xs arbitrary: ys) (auto simp: bind_eq_Some_conv list_all2_Cons1)

lemma list_all2_member: "list_all2 P xs ys \<Longrightarrow> x \<in> set xs \<Longrightarrow> \<exists>y\<in>set ys. P x y"
  by (induction rule: list_all2_induct) auto

lemma evaluate_parts:
  assumes "evaluate doc al exceptions today tag_state tag_label = Some r"
  obtains ms js where "iter_of (map_of doc ''matches'') = Some ms"
    and "list_all2 (\<lambda>m j. judge al (filter (\<lambda>e. today \<le> expires_date e) exceptions) tag_state tag_label m = Some j) ms js"
    and "findings r = map fst (filter (\<lambda>(i, h). h = None) (List.map_filter id js))"
    and "excepted r = map fst (filter (\<lambda>(i, h). h \<noteq> None) (List.map_filter id js))"
    and "used r = remdups (map ident_of (List.map_filter snd (List.map_filter id js)))"
  using assms by (auto simp: evaluate_def bind_eq_Some_conv map_opt_all2 Let_def)

lemma evaluate_counts:
  assumes "evaluate doc al exceptions today tag_state tag_label = Some r" and "map_of doc ''matches'' = Some (JList ms)"
  shows "length (findings r) + length (excepted r) = length (filter blocking ms)"
proof -
  from assms obtain js where js: "list_all2 (\<lambda>m j. judge al (filter (\<lambda>e. today \<le> expires_date e) exceptions) tag_state tag_label m = Some j) ms js"
    and r: "findings r = map fst (filter (\<lambda>(i, h). h = None) (List.map_filter id js))"
      "excepted r = map fst (filter (\<lambda>(i, h). h \<noteq> None) (List.map_filter id js))"
    by (auto elim!: evaluate_parts simp: iter_of_def)
  from js have "length (List.map_filter id js) = length (filter blocking ms)"
  proof (induction rule: list_all2_induct)
    case (Cons m ms j js)
    from judge_Some(1) [OF Cons.hyps(1)] Cons.IH show ?case by (cases j) (simp_all add: map_filter_simps)
  qed (simp add: map_filter_simps)
  moreover have "length (filter (\<lambda>(i, h). h = None) ks) + length (filter (\<lambda>(i, h). h \<noteq> None) ks) = length ks"
    for ks :: "(item \<times> exc_entry option) list"
    by (induction ks) auto
  ultimately show ?thesis by (simp add: r)
qed

lemma evaluate_covered:
  assumes e: "evaluate doc al exceptions today tag_state tag_label = Some r" and ms: "map_of doc ''matches'' = Some (JList ms)"
    and none: "findings r = []" and m: "m \<in> set ms" "blocking m"
  shows "\<exists>e\<in>set exceptions. covers al today tag_state e m"
proof -
  from e ms obtain js where js: "list_all2 (\<lambda>m j. judge al (filter (\<lambda>e. today \<le> expires_date e) exceptions) tag_state tag_label m = Some j) ms js"
    and r: "findings r = map fst (filter (\<lambda>(i, h). h = None) (List.map_filter id js))"
    by (auto elim!: evaluate_parts simp: iter_of_def)
  from js m(1) obtain j where j: "j \<in> set js" "judge al (filter (\<lambda>e. today \<le> expires_date e) exceptions) tag_state tag_label m = Some j"
    by (auto dest: list_all2_member)
  from judge_Some(1) [OF j(2)] m(2) have "j \<noteq> None" by simp
  then obtain i h where jh: "j = Some (i, h)" by auto
  with j(1) have "(i, h) \<in> set (List.map_filter id js)" by (auto simp: set_map_filter)
  with none r have "h \<noteq> None" by (auto simp: filter_empty_conv)
  then obtain x where "h = Some x" by blast
  with judge_Some(2) [OF j(2), of i x today] jh show ?thesis by auto
qed


text \<open>
  C27: The policy loses no match: each High, Critical or elevated match is either a finding or excepted. When
  there is no finding, each of them is covered by an exception of the file that is in force today, names this
  image, this exact package and one of the ids, and, when a fix is known, the tag still resolves to the
  pinned digest, the package is an operating-system package of a vendor image and the exception was
  granted for at most 30 days.
\<close>

theorem scan_policy_sound:
  assumes "evaluate doc al exceptions today tag_state tag_label = Some r" and "map_of doc ''matches'' = Some (JList ms)"
  shows "length (findings r) + length (excepted r) = length (filter blocking ms)
    \<and> (findings r = [] \<longrightarrow> (\<forall>m\<in>set ms. blocking m \<longrightarrow> (\<exists>e\<in>set exceptions. covers al today tag_state e m)))"
  using evaluate_counts [OF assms] evaluate_covered [OF assms] by blast

definition sample_match :: "string \<Rightarrow> json" where
  "sample_match state = JObj [(''vulnerability'', JObj [(''id'', JStr ''CVE-2026-0001''), (''severity'', JStr ''High''),
       (''fix'', JObj [(''state'', JStr state), (''versions'', JList [JStr ''1.2''])])]),
     (''artifact'', JObj [(''name'', JStr ''openssl''), (''version'', JStr ''1.1''), (''type'', JStr ''deb'')])]"

definition sample_doc :: "string \<Rightarrow> dict" where
  "sample_doc state = [(''matches'', JList [sample_match state])]"

definition sample_entry :: exc_entry where
  "sample_entry = \<lparr> exc_id = ''CVE-2026-0001'', exc_image = ''postgres'', exc_package = ''openssl'',
     exc_justification = ''not reachable from the stack'', exc_issue = ''#28'', exc_added = ''2026-01-02'', exc_expires = ''2026-01-22'',
     added_date = 739618, expires_date = 739638 \<rparr>"

lemma sample_evaluated:
  "map_option (\<lambda>r. (findings r = [], length (excepted r))) (evaluate (sample_doc ''fixed'') ''postgres'' [sample_entry] 739620 (Some ''unchanged'') '''')
     = Some (True, 1)"
  "map_option (\<lambda>r. findings r = []) (evaluate (sample_doc ''fixed'') ''postgres'' [sample_entry] 739620 None '''') = Some False"
  by code_simp+

lemma sample_blocking: "blocking (sample_match ''fixed'')"
  by code_simp

theorem scan_policy_sound_witness: "covers ''postgres'' 739620 (Some ''unchanged'') sample_entry (sample_match ''fixed'')"
proof -
  from sample_evaluated(1) obtain r where r: "evaluate (sample_doc ''fixed'') ''postgres'' [sample_entry] 739620 (Some ''unchanged'') '''' = Some r"
      "findings r = []"
    by (auto simp: map_option_case split: option.splits)
  have "map_of (sample_doc ''fixed'') ''matches'' = Some (JList [sample_match ''fixed''])" by (simp add: sample_doc_def)
  from scan_policy_sound [OF r(1) this] r(2) sample_blocking show ?thesis by simp
qed

text \<open>
  Without a tag state (the release images and the image this repository builds) a fix ends every
  exception at once: a blocking match with a known fix is always a finding.
\<close>

theorem strict_fix_blocks:
  assumes "evaluate doc al exceptions today None tag_label = Some r" and "map_of doc ''matches'' = Some (JList ms)"
    and "JObj d \<in> set ms" and "blocking (JObj d)"
    and "or_dict (dget d ''vulnerability'') = Some vuln" and "dget (dict_or_empty (dget vuln ''fix'')) ''state'' = JStr ''fixed''"
  shows "findings r \<noteq> []"
proof
  assume "findings r = []"
  from evaluate_covered [OF assms(1,2) this assms(3,4)] obtain e where "covers al today None e (JObj d)" by blast
  with assms(5) obtain fx where "or_dict (dget vuln ''fix'') = Some fx" "dget fx ''state'' \<noteq> JStr ''fixed''"
    by (auto simp: covers_def)
  with assms(6) show False by (cases "dget vuln ''fix''") (auto simp: dict_or_empty_def or_dict_def as_dict_def split: if_splits)
qed

theorem strict_fix_blocks_witness:
  "\<exists>r. evaluate (sample_doc ''fixed'') ''postgres'' [sample_entry] 739620 None '''' = Some r \<and> findings r \<noteq> []"
proof -
  from sample_evaluated(2) obtain r where r: "evaluate (sample_doc ''fixed'') ''postgres'' [sample_entry] 739620 None '''' = Some r"
    by (auto simp: map_option_case split: option.splits)
  have m: "map_of (sample_doc ''fixed'') ''matches'' = Some (JList [sample_match ''fixed''])" by (simp add: sample_doc_def)
  from r strict_fix_blocks [OF r m, unfolded sample_match_def, OF _ sample_blocking [unfolded sample_match_def]]
  show ?thesis by (simp add: or_dict_def as_dict_def dict_or_empty_def)
qed


section \<open>What a trusted scan proves\<close>

definition proven :: "json \<Rightarrow> string \<Rightarrow> string option \<Rightarrow> json \<Rightarrow> bool" where
  "proven v ref al sbom \<longleftrightarrow>
     (\<exists>doc ms l ls built. v = JObj doc \<and> dget doc ''matches'' = JList ms
        \<and> dget (dict_or_empty (dget doc ''source'')) ''type'' = JStr ''image''
        \<and> dget (doc_target doc) ''userInput'' \<in> {JStr ref, JStr (''registry:'' @ ref)}
        \<and> dget (doc_target doc) ''layers'' = JList (l # ls)
        \<and> db_built doc = Some built \<and> truthy built
        \<and> (if binary_only al ref then check_binary_sbom sbom ref doc = Some []
           else truthy (dget (dict_or_empty (dget doc ''distro'')) ''name'')
             \<and> (is_own_build al ref \<longrightarrow> check_binary_sbom sbom ref doc = Some [] \<and> check_own_build_sbom sbom ref doc = Some [])))"

lemma nonempty_list: "is_list v \<and> truthy v \<longleftrightarrow> (\<exists>l ls. v = JList (l # ls))"
  by (cases v) (auto simp: is_list_def neq_Nil_conv)

lemma source_problems_Nil:
  "source_problems doc ref binary = Some [] \<longleftrightarrow>
     (\<exists>l ls built. dget (dict_or_empty (dget doc ''source'')) ''type'' = JStr ''image''
        \<and> dget (doc_target doc) ''userInput'' \<in> {JStr ref, JStr (''registry:'' @ ref)}
        \<and> dget (doc_target doc) ''layers'' = JList (l # ls)
        \<and> db_built doc = Some built \<and> truthy built \<and> (binary \<or> truthy (dget (dict_or_empty (dget doc ''distro'')) ''name'')))"
  unfolding source_problems_def Let_def nonempty_list by (cases "db_built doc") auto

lemma check_provenance_proven: "check_provenance v ref al sbom = Some [] \<longleftrightarrow> proven v ref al sbom"
proof (cases "\<exists>doc ms. v = JObj doc \<and> dget doc ''matches'' = JList ms")
  case True
  then obtain doc ms where d: "v = JObj doc" "dget doc ''matches'' = JList ms" by blast
  have "check_provenance v ref al sbom = Some [] \<longleftrightarrow>
      source_problems doc ref (binary_only al ref) = Some [] \<and>
      (if binary_only al ref then check_binary_sbom sbom ref doc = Some []
       else is_own_build al ref \<longrightarrow> check_binary_sbom sbom ref doc = Some [] \<and> check_own_build_sbom sbom ref doc = Some [])"
    unfolding check_provenance_def d
    by (auto simp: is_list_def d bind_eq_Some_conv split: if_splits)
  also have "\<dots> \<longleftrightarrow> proven v ref al sbom"
    unfolding source_problems_Nil proven_def using d by auto
  finally show ?thesis .
next
  case False
  then have "check_provenance v ref al sbom \<noteq> Some []"
    by (cases v) (auto simp: check_provenance_def is_list_def split: json.splits if_splits)
  with False show ?thesis by (auto simp: proven_def)
qed



lemma own_build_tag:
  assumes "re_fullmatch OWN_BUILD_TAG_RE tag = Some c"
  obtains commit where "tag = group_text c 1 @ ''-'' @ commit" "length commit = 40" "\<forall>x\<in>set commit. is_hex_lower x"
proof -
  from re_fullmatch_caps [OF assms] obtain e where e: "(tag, e) \<in> rcaps OWN_BUILD_TAG_RE" "c = (0, tag) # e" by auto
  from e(1) obtain u d v where "tag = u @ ''-'' @ v" "e = [] @ [(1, u)]" "length v = 40" "\<forall>x\<in>set v. is_hex_lower x"
    by (auto simp: OWN_BUILD_TAG_RE_def rdigit_def rcaps_groupless)
  with e(2) that show thesis by (simp add: group_text_def)
qed

lemma own_build_components:
  assumes "check_own_build_sbom sbom ref doc = Some []" and "split_ref ref = Some (registry, img, tag, digest)"
  obtains c s cs layers comp ids where "re_fullmatch OWN_BUILD_TAG_RE tag = Some c" "sbom = JObj s" "dget s ''components'' = JList cs"
    "json_layers doc = Some layers" "comp \<in> set cs" "component_facts comp = Some (OWN_BUILD_CADDY_PURL @ group_text c 1, True, ids)"
    "in_layers ids layers"
proof -
  from assms obtain c where c: "re_fullmatch OWN_BUILD_TAG_RE tag = Some c"
    by (cases "re_fullmatch OWN_BUILD_TAG_RE tag") (auto simp: check_own_build_sbom_def)
  with assms obtain s cs where s: "sbom = JObj s" "dget s ''components'' = JList cs"
    by (auto simp: check_own_build_sbom_def split: json.splits)
  from assms c s obtain layers where l: "json_layers doc = Some layers" and f: "OWN_BUILD_CADDY_PURL @ group_text c 1 \<in>
      set (map fst (filter (\<lambda>(purl, go, ids). go \<and> in_layers ids layers) (List.map_filter component_facts cs)))"
    by (auto simp: check_own_build_sbom_def Let_def bind_eq_Some_conv simp del: set_map set_filter)
  from f obtain ids comp where "comp \<in> set cs" "component_facts comp = Some (OWN_BUILD_CADDY_PURL @ group_text c 1, True, ids)" "in_layers ids layers"
    by (auto simp: set_map_filter)
  with that c s l show thesis by blast
qed

text \<open>
  A trusted scan of the image this repository builds proves which Caddy it holds: the reference is of the
  repository's own package, its tag is a version and a commit, and the SBOM of the same run has a Go-module
  component of exactly that Caddy version, in a layer of the scanned image.
\<close>

theorem own_build_evidence:
  assumes "is_own_build al ref" and "check_provenance v ref al sbom = Some []"
  shows "\<exists>registry img version commit digest doc s cs layers comp ids.
     al = Some ''caddy'' \<and> ref = ref_text registry img (version @ ''-'' @ commit) digest \<and> registry @ ''/'' @ img = ''ghcr.io/mpcs2013/decisya-caddy''
     \<and> length commit = 40 \<and> v = JObj doc \<and> json_layers doc = Some layers
     \<and> sbom = JObj s \<and> dget s ''components'' = JList cs \<and> comp \<in> set cs
     \<and> component_facts comp = Some (''pkg:golang/github.com/caddyserver/caddy/v2@v'' @ version, True, ids) \<and> in_layers ids layers"
proof -
  from assms(1) obtain a registry img tag digest where al: "al = Some a" "map_of OWN_BUILD_ALIASES a = Some (registry @ ''/'' @ img)"
    and s: "split_ref ref = Some (registry, img, tag, digest)"
    by (auto simp: is_own_build_def mapped_to_def split: option.splits)
  then have a: "a = ''caddy''" "registry @ ''/'' @ img = ''ghcr.io/mpcs2013/decisya-caddy''"
    by (auto simp: OWN_BUILD_ALIASES_def split: if_splits)
  have "\<not> binary_only al ref" using al a by (simp add: binary_only_def mapped_to_def BINARY_ONLY_ALIASES_def)
  with assms obtain doc where d: "v = JObj doc" "check_own_build_sbom sbom ref doc = Some []"
    by (auto simp: check_provenance_def is_list_def bind_eq_Some_conv split: json.splits if_splits)
  obtain c x cs layers comp ids where x: "re_fullmatch OWN_BUILD_TAG_RE tag = Some c" "sbom = JObj x" "dget x ''components'' = JList cs"
    "json_layers doc = Some layers" "comp \<in> set cs" "component_facts comp = Some (OWN_BUILD_CADDY_PURL @ group_text c 1, True, ids)"
    "in_layers ids layers"
    by (rule own_build_components [OF d(2) s])
  obtain commit where commit: "tag = group_text c 1 @ ''-'' @ commit" "length commit = 40" by (rule own_build_tag [OF x(1)])
  from s have "ref = ref_text registry img tag digest" by (simp add: split_ref_iff)
  then have "ref = ref_text registry img (group_text c 1 @ ''-'' @ commit) digest" using commit(1) by simp
  with al a commit(2) d(1) x show ?thesis unfolding OWN_BUILD_CADDY_PURL_def by blast
qed

definition sample_caddy_ref :: string where
  "sample_caddy_ref = ref_text ''ghcr.io'' ''mpcs2013/decisya-caddy'' (''2.11.2-'' @ replicate 40 CHR ''a'') (replicate 64 CHR ''b'')"

definition sample_component :: "string \<Rightarrow> json" where
  "sample_component purl = JObj [(''purl'', JStr purl), (''properties'', JList [
     JObj [(''name'', JStr ''syft:package:type''), (''value'', JStr ''go-module'')],
     JObj [(''name'', JStr ''syft:location:0:layerID''), (''value'', JStr ''sha256:1'')]])]"

definition sample_caddy_sbom :: json where
  "sample_caddy_sbom = JObj [(''metadata'', JObj [(''component'', JObj [(''type'', JStr ''container''),
       (''name'', JStr ''ghcr.io/mpcs2013/decisya-caddy''), (''version'', JStr (''2.11.2-'' @ replicate 40 CHR ''a''))])]),
     (''components'', JList [sample_component ''pkg:golang/github.com/caddyserver/caddy/v2@v2.11.2'', sample_component ''pkg:golang/stdlib@1.25.1''])]"

definition sample_caddy_doc :: dict where
  "sample_caddy_doc = [(''matches'', JList []), (''source'', JObj [(''type'', JStr ''image''), (''target'', JObj [
       (''userInput'', JStr (''registry:'' @ sample_caddy_ref)), (''layers'', JList [JObj [(''digest'', JStr ''sha256:1'')]])])]),
     (''distro'', JObj [(''name'', JStr ''alpine'')]), (''descriptor'', JObj [(''db'', JObj [(''built'', JStr ''2026-10-01T00:00:00Z'')])])]"

lemma sample_caddy_split:
  "split_ref sample_caddy_ref = Some (''ghcr.io'', ''mpcs2013/decisya-caddy'', ''2.11.2-'' @ replicate 40 CHR ''a'', replicate 64 CHR ''b'')"
proof -
  have "ref_parts_ok ''ghcr.io'' ''mpcs2013/decisya-caddy'' (''2.11.2-'' @ replicate 40 CHR ''a'')" "is_sha (replicate 64 CHR ''b'')"
    by code_simp+
  then show ?thesis unfolding split_ref_iff sample_caddy_ref_def by blast
qed

lemma sample_caddy_evidence:
  "re_fullmatch OWN_BUILD_TAG_RE (''2.11.2-'' @ replicate 40 CHR ''a'') = Some [(0, ''2.11.2-'' @ replicate 40 CHR ''a''), (1, ''2.11.2'')]"
  "catalogue_problems (dict_or_empty sample_caddy_sbom) sample_caddy_doc = Some []"
  by code_simp+

lemma sample_caddy_trusted: "is_own_build (Some ''caddy'') sample_caddy_ref"
  "check_provenance (JObj sample_caddy_doc) sample_caddy_ref (Some ''caddy'') sample_caddy_sbom = Some []"
proof -
  show own: "is_own_build (Some ''caddy'') sample_caddy_ref"
    by (simp add: is_own_build_def mapped_to_def sample_caddy_split OWN_BUILD_ALIASES_def)
  have bin: "\<not> binary_only (Some ''caddy'') sample_caddy_ref" by (simp add: binary_only_def mapped_to_def BINARY_ONLY_ALIASES_def)
  have 1: "source_problems sample_caddy_doc sample_caddy_ref False = Some []" by code_simp
  have 2: "check_binary_sbom sample_caddy_sbom sample_caddy_ref sample_caddy_doc = Some []"
    using sample_caddy_evidence(2) unfolding check_binary_sbom_def sample_caddy_split
    by (simp add: sample_caddy_sbom_def dict_or_empty_def)
  have 3: "check_own_build_sbom sample_caddy_sbom sample_caddy_ref sample_caddy_doc = Some []"
    unfolding check_own_build_sbom_def sample_caddy_split Option.bind.simps prod.case sample_caddy_evidence(1) option.case by code_simp
  have "is_list (dget sample_caddy_doc ''matches'')" by code_simp
  with own bin 1 2 3 show "check_provenance (JObj sample_caddy_doc) sample_caddy_ref (Some ''caddy'') sample_caddy_sbom = Some []"
    by (simp add: check_provenance_def)
qed

theorem own_build_evidence_witness:
  "\<exists>version commit digest registry img. sample_caddy_ref = ref_text registry img (version @ ''-'' @ commit) digest \<and> length commit = 40"
  using own_build_evidence [OF sample_caddy_trusted] by blast

end
