(* ===== verification/Scan_Runs.thy ===== *)
theory Scan_Runs
  imports Scan_Policy
begin

text \<open>
  The runs of the CI image scan, \<^verbatim>\<open>.github/scripts/image_scan.py\<close>: resolving a tag at its registry, scanning a
  set of targets, the pull-request modes with the comparison against the base, and the exit status.

  What the script talks to is an argument: the registries (\<open>net\<close>), the docker and git processes and the
  files (\<open>world\<close>), and the base commit's copy of the module (\<open>api\<close>), which is code of another commit. A
  process gives its exit status, its standard output as \<^verbatim>\<open>json.loads\<close> reads it (\<^term>\<open>Inl\<close> is the text of the
  ValueError) and the lines of its standard error. An uncaught exception is \<^term>\<open>None\<close>; where the script prints the
  class of an exception it caught, the class name is the argument \<open>exc\<close>.
\<close>


section \<open>Resolving a tag\<close>

record net =
  http_get :: "string \<Rightarrow> (string \<times> string) list \<Rightarrow> (int \<times> json) option"
  http_head :: "string \<Rightarrow> (string \<times> string) list \<Rightarrow> (int \<times> (string \<times> string) list) option"

definition REGISTRY_API :: "(string \<times> string \<times> string \<times> string) list" where
  "REGISTRY_API = [
     (''docker.io'', ''registry-1.docker.io'', ''https://auth.docker.io/token?service=registry.docker.io&scope=repository:'', '':pull''),
     (''quay.io'', ''quay.io'', ''https://quay.io/v2/auth?service=quay.io&scope=repository:'', '':pull''),
     (''ghcr.io'', ''ghcr.io'', ''https://ghcr.io/token?service=ghcr.io&scope=repository:'', '':pull'')]"

definition MANIFEST_ACCEPT :: string where
  "MANIFEST_ACCEPT = join '', '' [''application/vnd.oci.image.index.v1+json'', ''application/vnd.docker.distribution.manifest.list.v2+json'',
     ''application/vnd.oci.image.manifest.v1+json'', ''application/vnd.docker.distribution.manifest.v2+json'']"

definition DIGEST_RE :: rx where
  "DIGEST_RE = RSeq (rlit ''sha256:'') (rrep 64 (RSet is_hex_lower))"

definition IMAGE_PATH_RE :: rx where
  "IMAGE_PATH_RE = rplus (RSet is_path_char)"

definition TAG_RE :: rx where
  "TAG_RE = rplus (RSet is_tag_char)"

definition SHA_RE :: rx where
  "SHA_RE = rrep 64 (RSet is_hex_lower)"

definition anonymous_token :: "net \<Rightarrow> string \<Rightarrow> string option" where
  "anonymous_token n url =
     do { (status, data) \<leftarrow> http_get n url [(''Accept'', ''application/json'')];
          if status \<noteq> 200 then None
          else (case (case data of JObj d \<Rightarrow> py_or (dget d ''token'') (dget d ''access_token'') | _ \<Rightarrow> JNull) of
                  JStr tok \<Rightarrow> if tok = [] then None else Some tok
                | _ \<Rightarrow> None) }"

text \<open>\<^verbatim>\<open>urllib.parse.quote(image, safe="")\<close> on the characters an image path may have.\<close>

definition quote_image :: "string \<Rightarrow> string" where
  "quote_image s = concat (map (\<lambda>c. if c = CHR ''/'' then ''%2F'' else [c]) s)"

type_synonym moved = "((string \<times> string \<times> string) \<times> string) list"

text \<open>\<^verbatim>\<open>resolve_tag_state\<close>: the state and the table \<^verbatim>\<open>MOVED_DIGESTS\<close> afterwards.\<close>

definition resolve_tag_state :: "net \<Rightarrow> moved \<Rightarrow> string \<Rightarrow> string \<Rightarrow> string \<Rightarrow> string \<Rightarrow> string \<times> moved" where
  "resolve_tag_state n moved registry img tag sha =
     (case map_of REGISTRY_API registry of
        None \<Rightarrow> (TAG_UNKNOWN, moved)
      | Some (host, pre, post) \<Rightarrow>
          if \<not> (fullmatches IMAGE_PATH_RE img \<and> fullmatches TAG_RE tag \<and> fullmatches SHA_RE sha) then (TAG_UNKNOWN, moved)
          else case anonymous_token n (pre @ quote_image img @ post) of
            None \<Rightarrow> (TAG_UNKNOWN, moved)
          | Some tok \<Rightarrow>
              (case http_head n (''https://'' @ host @ ''/v2/'' @ img @ ''/manifests/'' @ tag)
                      [(''Accept'', MANIFEST_ACCEPT), (''Authorization'', ''Bearer '' @ tok)] of
                 None \<Rightarrow> (TAG_UNKNOWN, moved)
               | Some (status, headers) \<Rightarrow>
                   (case map_of headers ''docker-content-digest'' of
                      None \<Rightarrow> (TAG_UNKNOWN, moved)
                    | Some digest \<Rightarrow>
                        if status \<noteq> 200 \<or> \<not> fullmatches DIGEST_RE digest then (TAG_UNKNOWN, moved)
                        else if digest = ''sha256:'' @ sha then (TAG_UNCHANGED, moved)
                        else (TAG_MOVED, dset moved (registry, img, tag) digest))))"

definition tag_label :: "moved \<Rightarrow> string \<Rightarrow> string \<Rightarrow> string \<Rightarrow> string \<Rightarrow> string" where
  "tag_label moved state registry img tag =
     img @ '':'' @ tag
     @ (case map_of moved (registry, img, tag) of
          Some digest \<Rightarrow> if state = TAG_MOVED then '' now at '' @ digest else []
        | None \<Rightarrow> [])"


section \<open>Processes and files\<close>

record proc =
  returncode :: int
  stdout :: "string + json"
  stderr :: "string list"

record entry =
  is_link :: bool
  is_file :: bool
  size_of :: int
  content :: "json option"

record world =
  w_net :: net
  mkdtemp :: "string \<Rightarrow> string"
  dir_empty :: "string \<Rightarrow> bool"
  docker :: "string list \<Rightarrow> proc option"
  stat :: "string \<Rightarrow> entry option"
  git :: "string list \<Rightarrow> (int \<times> string) option"
  exc :: string

definition read_sbom :: "world \<Rightarrow> string \<Rightarrow> json" where
  "read_sbom w out_dir =
     (case stat w (out_dir @ ''/'' @ SBOM_NAME) of
        None \<Rightarrow> JNull
      | Some f \<Rightarrow>
          if is_link f \<or> \<not> is_file f \<or> \<not> (0 < size_of f \<and> size_of f \<le> 64 * 1024 * 1024) then JNull
          else (case content f of None \<Rightarrow> JNull | Some v \<Rightarrow> v))"

definition last_lines :: "nat \<Rightarrow> string list \<Rightarrow> string list" where
  "last_lines n ls = drop (length ls - n) ls"

text \<open>\<^verbatim>\<open>_run\<close>: the process and the lines it adds to the log.\<close>

definition run_argv :: "world \<Rightarrow> string list \<Rightarrow> (proc \<times> string list) option" where
  "run_argv w argv =
     map_option (\<lambda>p. (p, map (\<lambda>l. ''  [docker stderr] '' @ l) (last_lines 200 (stderr p)))) (docker w argv)"


section \<open>Scanning the targets\<close>

type_synonym row = "item \<times> string"

record scan =
  log :: "string list"
  rows :: "row list"
  failed :: "string list"
  used_keys :: "ident list"
  moved_digests :: moved
  docs :: "(string \<times> dict) list"

definition add_used :: "ident list \<Rightarrow> ident list \<Rightarrow> ident list" where
  "add_used us vs = remdups (us @ vs)"

definition add_log :: "string list \<Rightarrow> scan \<Rightarrow> scan" where
  "add_log ls s = s\<lparr>log := log s @ ls\<rparr>"

definition add_failed :: "string list \<Rightarrow> scan \<Rightarrow> scan" where
  "add_failed ms s = s\<lparr>failed := failed s @ ms\<rparr>"

definition with_status :: "string \<Rightarrow> item list \<Rightarrow> row list" where
  "with_status st is = map (\<lambda>i. (i, st)) is"

definition match_count :: "dict \<Rightarrow> nat" where
  "match_count doc = (case iter_of (map_of doc ''matches'') of None \<Rightarrow> 0 | Some ms \<Rightarrow> length ms)"

record cfg =
  strict :: "string list"
  scanner :: string
  db_dir :: string
  entries :: "exc_entry list"
  today :: int

text \<open>The verdict on a trusted document, as the full scan and the comparison both reach it.\<close>

definition head_verdict :: "world \<Rightarrow> cfg \<Rightarrow> string \<Rightarrow> string \<Rightarrow> dict \<Rightarrow> scan \<Rightarrow> (verdict \<times> scan) option" where
  "head_verdict w c al ref doc s =
     (if al \<in> set (strict c) \<or> is_own_build (Some al) ref then
        map_option (\<lambda>v. (v, s)) (evaluate doc al (entries c) (today c) None [])
      else
        do { (registry, img, tag, sha) \<leftarrow> split_ref ref;
             let res = resolve_tag_state (w_net w) (moved_digests s) registry img tag sha;
             v \<leftarrow> evaluate doc al (entries c) (today c) (Some (fst res)) (tag_label (snd res) (fst res) registry img tag);
             Some (v, add_log [fmt ''  %s: tag state %s'' [al, fst res]] (s\<lparr>moved_digests := snd res\<rparr>)) })"

text \<open>What happens with a process that ended: a failure, or the rows of its trusted document.\<close>

definition scan_output :: "world \<Rightarrow> cfg \<Rightarrow> string \<Rightarrow> string \<Rightarrow> string \<Rightarrow> proc \<Rightarrow> scan \<Rightarrow> scan option" where
  "scan_output w c al ref out_dir p s =
     (if returncode p \<noteq> 0 then Some (add_failed [fmt ''%s: scanner exit %d'' [al, show_int (returncode p)]] s)
      else case stdout p of
        Inl why \<Rightarrow> Some (add_failed [fmt ''%s: scanner output is not JSON (%s)'' [al, why]] s)
      | Inr v \<Rightarrow>
          do { problems \<leftarrow> check_provenance v ref (Some al) (read_sbom w out_dir);
               if problems \<noteq> [] then Some (add_failed (map (\<lambda>m. al @ '': '' @ m) problems) s)
               else
                 do { doc \<leftarrow> as_dict v;
                      (r, s') \<leftarrow> head_verdict w c al ref doc (s\<lparr>docs := dset (docs s) al doc\<rparr>);
                      Some (add_log [fmt ''  %s: %d matches, %d blocking, %d excepted''
                             [al, show_nat (match_count doc), show_nat (length (findings r)), show_nat (length (excepted r))]]
                        (s'\<lparr>used_keys := add_used (used_keys s') (used r),
                            rows := rows s' @ with_status ''FAIL'' (findings r) @ with_status ''excepted'' (excepted r)\<rparr>)) } })"

definition scan_target :: "world \<Rightarrow> cfg \<Rightarrow> string \<Rightarrow> scan \<Rightarrow> string \<times> string \<Rightarrow> scan option" where
  "scan_target w c out_prefix s target =
     (case target of (al, ref) \<Rightarrow>
        let s1 = add_log [fmt ''scanning %s: %s'' [al, ref]] s; out_dir = mkdtemp w (out_prefix @ al @ ''-'') in
        if \<not> dir_empty w out_dir then Some (add_failed [fmt ''%s: SBOM directory is not empty before the run'' [al]] s1)
        else
          do { (p, lines) \<leftarrow> run_argv w (scan_argv (scanner c) ref (db_dir c) (Some out_dir));
               scan_output w c al ref out_dir p (add_log lines s1) })"

definition scan_targets :: "world \<Rightarrow> cfg \<Rightarrow> string \<Rightarrow> (string \<times> string) list \<Rightarrow> scan \<Rightarrow> (scan \<times> string list) option" where
  "scan_targets w c out_prefix targets s0 =
     do { s \<leftarrow> fold_opt (scan_target w c out_prefix) s0 targets;
          built \<leftarrow> map_opt db_built (dvals (docs s));
          Some (s, remdups (map py_str built)) }"


section \<open>Git\<close>

definition NUL :: char where
  "NUL = char_of (0::nat)"

definition changed_files :: "world \<Rightarrow> string list option" where
  "changed_files w =
     (case git w [''diff'', ''--name-only'', ''--no-renames'', ''-z'', ''HEAD^1'', ''HEAD''] of
        Some (rc, out) \<Rightarrow> if rc = 0 then Some (filter (\<lambda>p. p \<noteq> []) (split_on [NUL] out)) else None
      | None \<Rightarrow> None)"

definition is_merge_commit :: "world \<Rightarrow> bool" where
  "is_merge_commit w =
     (case (git w [''rev-parse'', ''--verify'', ''HEAD^2^{commit}''], git w [''rev-parse'', ''--verify'', ''HEAD^3^{commit}'']) of
        (Some (second, _), Some (third, _)) \<Rightarrow> second = 0 \<and> third \<noteq> 0
      | _ \<Rightarrow> False)"

definition COMMIT_RE :: rx where
  "COMMIT_RE = RAlt (rrep 40 (RSet is_hex_lower)) (rrep 64 (RSet is_hex_lower))"

definition first_parent_sha :: "world \<Rightarrow> string option" where
  "first_parent_sha w =
     (case git w [''rev-parse'', ''--verify'', ''HEAD^1^{commit}''] of
        Some (rc, out) \<Rightarrow> if rc = 0 \<and> fullmatches COMMIT_RE (strip out) then Some (strip out) else None
      | None \<Rightarrow> None)"


section \<open>Modes\<close>

definition PIN_FILE :: string where
  "PIN_FILE = ''src/Decisya.AppHost/ContainerImages.cs''"

definition PARITY_FILE :: string where
  "PARITY_FILE = ''.devcontainer/engine/images.Dockerfile''"

definition EXCEPTIONS_PATH :: string where
  "EXCEPTIONS_PATH = ''.github/image-scan/exceptions.json''"

definition RELEASE_PREFIX :: string where
  "RELEASE_PREFIX = ''.github/release/''"

definition GATE_FILES :: "string list" where
  "GATE_FILES = [''.github/scripts/image_scan.py'', ''.github/image-scan/Dockerfile'', ''.github/workflows/ci.yml'']"

definition IMAGES_LANE_RE :: rx where
  "IMAGES_LANE_RE =
     ralt [rseq [RBol, rlit ''src/Decisya.AppHost/ContainerImages.cs'', REol],
           rseq [RBol, rlit ''.devcontainer/engine/images.Dockerfile'', REol],
           rseq [RBol, rlit ''.github/image-scan/''],
           rseq [RBol, rlit ''.github/release/''],
           rseq [RBol, rlit ''.github/scripts/image_scan.py'', REol],
           rseq [RBol, rlit ''.github/workflows/ci.yml'', REol]]"

datatype mode = MODE_FULL | MODE_GATE | MODE_DELTA | MODE_VALIDATOR

definition mode_text :: "mode \<Rightarrow> string" where
  "mode_text m = (case m of MODE_FULL \<Rightarrow> ''full'' | MODE_GATE \<Rightarrow> ''gate-change'' | MODE_DELTA \<Rightarrow> ''delta'' | MODE_VALIDATOR \<Rightarrow> ''validator'')"

definition in_lane :: "string \<Rightarrow> bool" where
  "in_lane p \<longleftrightarrow> searches IMAGES_LANE_RE p"

definition select_mode :: "string option \<Rightarrow> string list option \<Rightarrow> bool \<Rightarrow> mode \<times> string" where
  "select_mode event changed merge_commit =
     (if event \<noteq> Some ''pull_request'' then
        (MODE_FULL, fmt ''event %s is not a pull_request'' [case event of None \<Rightarrow> ''None'' | Some e \<Rightarrow> repr_str e])
      else if \<not> merge_commit then (MODE_FULL, ''HEAD is not a merge commit with exactly two parents'')
      else case changed of
        None \<Rightarrow> (MODE_FULL, ''the base is unknown (git diff against HEAD^1 failed)'')
      | Some cs \<Rightarrow>
          (let lane = filter in_lane cs; known = [PIN_FILE, PARITY_FILE, EXCEPTIONS_PATH] @ GATE_FILES;
               other = filter (\<lambda>p. p \<notin> set known \<and> \<not> py_startswith p RELEASE_PREFIX) lane
           in if lane = [] then (MODE_FULL, ''no changed path is in the images lane although the step ran'')
              else if other \<noteq> [] then (MODE_FULL, ''a changed path in the images lane is not classified'')
              else if list_ex (\<lambda>p. p \<in> set GATE_FILES) lane then (MODE_GATE, ''the script, the scanner pin or the workflow changed'')
              else if same_set lane [EXCEPTIONS_PATH] then (MODE_VALIDATOR, ''only exceptions.json changed'')
              else (MODE_DELTA, ''only image pins, the parity file, release pins or exceptions changed'')))"

definition changed_aliases :: "(string \<times> string) list \<Rightarrow> (string \<times> string) list \<Rightarrow> string list" where
  "changed_aliases base_refs head_refs = map fst (filter (\<lambda>(al, ref). map_of base_refs al \<noteq> Some ref) head_refs)"

definition base_pin_refs :: "world \<Rightarrow> (string \<times> string) list option" where
  "base_pin_refs w =
     (case git w [''show'', ''HEAD^1:'' @ PIN_FILE] of
        Some (rc, out) \<Rightarrow> if rc \<noteq> 0 then None else (case parse_targets out of Inr refs \<Rightarrow> Some refs | Inl _ \<Rightarrow> None)
      | None \<Rightarrow> None)"


section \<open>The tag check fails closed\<close>

definition tag_at_pin :: "net \<Rightarrow> string \<Rightarrow> string \<Rightarrow> string \<Rightarrow> string \<Rightarrow> bool" where
  "tag_at_pin n registry img tag sha \<longleftrightarrow>
     (\<exists>host pre post tok headers. map_of REGISTRY_API registry = Some (host, pre, post)
        \<and> img \<noteq> [] \<and> (\<forall>c\<in>set img. is_path_char c) \<and> tag \<noteq> [] \<and> (\<forall>c\<in>set tag. is_tag_char c) \<and> is_sha sha
        \<and> anonymous_token n (pre @ quote_image img @ post) = Some tok
        \<and> http_head n (''https://'' @ host @ ''/v2/'' @ img @ ''/manifests/'' @ tag)
            [(''Accept'', MANIFEST_ACCEPT), (''Authorization'', ''Bearer '' @ tok)] = Some (200, headers)
        \<and> map_of headers ''docker-content-digest'' = Some (''sha256:'' @ sha))"

lemma digest_of_sha: "is_sha sha \<Longrightarrow> ''sha256:'' @ sha \<in> rlang DIGEST_RE"
  unfolding DIGEST_RE_def by (rule rlang_RSeqI) (simp_all add: is_sha_def)

text \<open>
  A tag counts as unchanged exactly when its registry is known, the inputs are well formed, an anonymous token was
  granted and the registry answered 200 with exactly the pinned digest; any error, other status or other text makes
  it moved or unknown, and then no exception outlives a fix.
\<close>

theorem tag_unchanged_exact:
  "fst (resolve_tag_state n moved registry img tag sha) = TAG_UNCHANGED \<longleftrightarrow> tag_at_pin n registry img tag sha"
proof -
  have plain: "plain IMAGE_PATH_RE" "plain TAG_RE" "plain SHA_RE" "plain DIGEST_RE"
    by (simp_all add: IMAGE_PATH_RE_def TAG_RE_def SHA_RE_def DIGEST_RE_def)
  have forms: "fullmatches IMAGE_PATH_RE img \<longleftrightarrow> img \<noteq> [] \<and> (\<forall>c\<in>set img. is_path_char c)"
    "fullmatches TAG_RE tag \<longleftrightarrow> tag \<noteq> [] \<and> (\<forall>c\<in>set tag. is_tag_char c)" "fullmatches SHA_RE sha \<longleftrightarrow> is_sha sha"
    unfolding re_fullmatch_iff [OF plain(1)] re_fullmatch_iff [OF plain(2)] re_fullmatch_iff [OF plain(3)]
    by (simp_all add: IMAGE_PATH_RE_def TAG_RE_def SHA_RE_def is_sha_def)
  have states: "TAG_UNKNOWN \<noteq> TAG_UNCHANGED" "TAG_MOVED \<noteq> TAG_UNCHANGED" by (simp_all add: TAG_UNKNOWN_def TAG_UNCHANGED_def TAG_MOVED_def)
  show ?thesis
    unfolding resolve_tag_state_def tag_at_pin_def forms
    using digest_of_sha [of sha] states
    by (auto simp: plain split: option.splits prod.splits if_splits)
qed


section \<open>What the smaller modes rely on\<close>

lemma in_lane_prefix:
  assumes "prefix ''.github/image-scan/'' p"
  shows "in_lane p"
proof -
  have bol: "run (rseq [RBol, rlit w]) None p [] \<noteq> [] \<longleftrightarrow> prefix w p" for w
  proof -
    have "run (rseq [RBol, rlit w]) None p [] = run (RSeq (rlit w) REps) None p []"
      unfolding rseq.simps run.simps(3) [of RBol] by simp
    then show ?thesis by (simp only: run_RSeq_REps run_rlit)
  qed
  have "run (rseq [RBol, rlit ''.github/image-scan/'']) None p [] \<noteq> []"
    unfolding bol by (rule assms)
  then have "run IMAGES_LANE_RE None p [] \<noteq> []" unfolding IMAGES_LANE_RE_def ralt.simps run.simps(4) by blast
  then have "search_from IMAGES_LANE_RE None p \<noteq> None" unfolding search_from_run by (intro exI [of _ "[]"] exI [of _ p]) simp
  then show ?thesis by (simp add: in_lane_def re_search_def)
qed

lemma in_lane_gate: "p \<in> set GATE_FILES \<Longrightarrow> in_lane p"
proof -
  have "in_lane ''.github/scripts/image_scan.py'' \<and> in_lane ''.github/workflows/ci.yml''" by code_simp
  moreover have "in_lane ''.github/image-scan/Dockerfile''" by (rule in_lane_prefix) simp
  ultimately show "p \<in> set GATE_FILES \<Longrightarrow> in_lane p" unfolding GATE_FILES_def by (simp only: list.set insert_iff empty_iff) blast
qed

text \<open>
  The comparison without a full scan (delta) and the run without any scan (validator) are chosen only on a
  pull request whose head is a two-parent merge with a known base, when no changed path is the script, the
  scanner pin or the workflow and nothing under the scan's folder changed but the exceptions file; the validator
  run only when the exceptions file is the one changed path of the lane.
\<close>

theorem small_modes_safe:
  assumes "fst (select_mode event changed merge_commit) \<in> {MODE_DELTA, MODE_VALIDATOR}"
  shows "event = Some ''pull_request'' \<and> merge_commit \<and> (\<exists>cs. changed = Some cs \<and> (\<exists>p\<in>set cs. in_lane p)
     \<and> (\<forall>p\<in>set cs. p \<notin> set GATE_FILES \<and> (prefix ''.github/image-scan/'' p \<longrightarrow> p = EXCEPTIONS_PATH))
     \<and> (fst (select_mode event changed merge_commit) = MODE_VALIDATOR \<longrightarrow> (\<forall>p\<in>set cs. in_lane p \<longrightarrow> p = EXCEPTIONS_PATH)))"
proof -
  from assms obtain cs where c: "event = Some ''pull_request''" "merge_commit" "changed = Some cs"
    by (auto simp: select_mode_def split: if_splits option.splits)
  define lane where "lane = filter in_lane cs"
  have sel: "fst (select_mode event changed merge_commit) =
    (if lane = [] then MODE_FULL
     else if filter (\<lambda>p. p \<notin> set ([PIN_FILE, PARITY_FILE, EXCEPTIONS_PATH] @ GATE_FILES) \<and> \<not> prefix RELEASE_PREFIX p) lane \<noteq> [] then MODE_FULL
     else if list_ex (\<lambda>p. p \<in> set GATE_FILES) lane then MODE_GATE
     else if same_set lane [EXCEPTIONS_PATH] then MODE_VALIDATOR else MODE_DELTA)"
    using c by (simp add: select_mode_def Let_def lane_def)
  with assms have l: "lane \<noteq> []" "\<forall>p\<in>set lane. p \<in> set ([PIN_FILE, PARITY_FILE, EXCEPTIONS_PATH] @ GATE_FILES) \<or> prefix RELEASE_PREFIX p"
    "\<forall>p\<in>set lane. p \<notin> set GATE_FILES"
    by (auto simp: filter_empty_conv list_ex_iff split: if_splits)
  have other: "\<not> prefix ''.github/image-scan/'' PIN_FILE" "\<not> prefix ''.github/image-scan/'' PARITY_FILE"
    by (simp_all add: PIN_FILE_def PARITY_FILE_def)
  have rel: "\<not> prefix RELEASE_PREFIX p" if "prefix ''.github/image-scan/'' p" for p
    using that by (auto simp: prefix_def RELEASE_PREFIX_def)
  have "p \<notin> set GATE_FILES \<and> (prefix ''.github/image-scan/'' p \<longrightarrow> p = EXCEPTIONS_PATH)" if "p \<in> set cs" for p
  proof -
    have "p \<notin> set GATE_FILES" using l(3) in_lane_gate that by (auto simp: lane_def)
    moreover have "p = EXCEPTIONS_PATH" if pre: "prefix ''.github/image-scan/'' p"
    proof -
      have "p \<in> set lane" using in_lane_prefix [OF pre] \<open>p \<in> set cs\<close> by (simp add: lane_def)
      with l(2) rel [OF pre] \<open>p \<notin> set GATE_FILES\<close> have "p \<in> {PIN_FILE, PARITY_FILE, EXCEPTIONS_PATH}" by auto
      with other pre show ?thesis by auto
    qed
    ultimately show ?thesis by blast
  qed
  moreover have "\<exists>p\<in>set cs. in_lane p" using l(1) by (auto simp: lane_def filter_empty_conv)
  moreover have "\<forall>p\<in>set cs. in_lane p \<longrightarrow> p = EXCEPTIONS_PATH" if "fst (select_mode event changed merge_commit) = MODE_VALIDATOR"
    using that sel by (auto simp: lane_def split: if_splits)
  ultimately show ?thesis using c by blast
qed

theorem small_modes_safe_witness:
  "\<exists>cs. Some [EXCEPTIONS_PATH] = Some cs \<and> (\<exists>p\<in>set cs. in_lane p)"
proof -
  have "fst (select_mode (Some ''pull_request'') (Some [EXCEPTIONS_PATH]) True) \<in> {MODE_DELTA, MODE_VALIDATOR}" by code_simp
  from small_modes_safe [OF this] show ?thesis by blast
qed

end
