(* ===== verification/Scan_Compare.thy ===== *)
theory Scan_Compare
  imports Scan_Runs "HOL-Library.Product_Lexorder"
begin

text \<open>
  The pull-request comparison and the whole run of \<^verbatim>\<open>.github/scripts/image_scan.py\<close>: one image scanned with
  the functions of one module, the ranks of the base findings, the comparison of an alias at the head and at the
  base, the notes, the exit status.
\<close>


section \<open>One module's functions\<close>

record api =
  api_scan_argv :: "string \<Rightarrow> string \<Rightarrow> string \<Rightarrow> string option \<Rightarrow> string list option"
  api_run :: "string list \<Rightarrow> (proc \<times> string list) option"
  api_check_provenance :: "json \<Rightarrow> string \<Rightarrow> string option \<Rightarrow> json option \<Rightarrow> string list option"
  api_read_sbom :: "string \<Rightarrow> json option"
  api_evaluate :: "dict \<Rightarrow> string \<Rightarrow> int \<Rightarrow> verdict option"

definition head_api :: "world \<Rightarrow> api" where
  "head_api w = \<lparr>
     api_scan_argv = (\<lambda>scanner ref db out. Some (scan_argv scanner ref db out)),
     api_run = run_argv w,
     api_check_provenance = (\<lambda>v ref al sbom. check_provenance v ref al (case sbom of None \<Rightarrow> JNull | Some x \<Rightarrow> x)),
     api_read_sbom = (\<lambda>d. Some (read_sbom w d)),
     api_evaluate = (\<lambda>doc al day. evaluate doc al [] day None []) \<rparr>"

text \<open>\<^verbatim>\<open>scan_with\<close>: the document or the reasons, and the lines added to the log.\<close>

definition scan_with :: "world \<Rightarrow> api \<Rightarrow> string \<Rightarrow> string \<Rightarrow> string \<Rightarrow> string \<Rightarrow> (string list + json) \<times> string list" where
  "scan_with w m scn ref al db =
     (let out_dir = mkdtemp w (''grype-sbom-'' @ al @ ''-''); raised = Inl [fmt ''%s raised while scanning'' [exc w]] in
      if \<not> dir_empty w out_dir then (Inl [''SBOM directory is not empty before the run''], [])
      else case Option.bind (api_scan_argv m scn ref db (Some out_dir)) (api_run m) of
        None \<Rightarrow> (raised, [])
      | Some (p, lines) \<Rightarrow>
          (if returncode p \<noteq> 0 then Inl [fmt ''scanner exit %d'' [show_int (returncode p)]]
           else case stdout p of
             Inl why \<Rightarrow> Inl [fmt ''scanner output is not JSON (%s)'' [why]]
           | Inr v \<Rightarrow>
               (case api_check_provenance m v ref (Some al) (api_read_sbom m out_dir) of
                  None \<Rightarrow> raised
                | Some problems \<Rightarrow> if problems \<noteq> [] then Inl problems else Inr v), lines))"


section \<open>Keys and ranks\<close>

type_synonym fkey = "string \<times> string \<times> string \<times> string"

definition str_or_empty :: "json \<Rightarrow> string" where
  "str_or_empty v = (case v of JStr s \<Rightarrow> s | _ \<Rightarrow> [])"

definition finding_key :: "string \<Rightarrow> json \<Rightarrow> fkey" where
  "finding_key al m =
     (let artifact = dict_or_empty (dget (dict_or_empty m) ''artifact''); vuln = dict_or_empty (dget (dict_or_empty m) ''vulnerability'')
      in (al, str_or_empty (dget artifact ''name''), str_or_empty (dget artifact ''type''), str_or_empty (dget vuln ''id'')))"

definition item_key :: "item \<Rightarrow> fkey" where
  "item_key i = (it_image i, str_or_empty (it_package i), str_or_empty (it_type i), str_or_empty (it_id i))"

definition rank_of :: "string \<Rightarrow> nat option" where
  "rank_of label =
     (if label = ''Critical'' then Some 2
      else if label = ''High'' \<or> py_startswith label ''Elevated('' then Some 1 else None)"

type_synonym ranks = "(fkey \<times> nat) list"

definition add_rank :: "fkey \<Rightarrow> ranks \<Rightarrow> item \<Rightarrow> ranks" where
  "add_rank key rs i =
     (case rank_of (it_severity i) of
        None \<Rightarrow> rs
      | Some n \<Rightarrow> dset rs key (max (case map_of rs key of None \<Rightarrow> 0 | Some k \<Rightarrow> k) n))"

definition base_ranks :: "api \<Rightarrow> dict \<Rightarrow> string \<Rightarrow> int \<Rightarrow> ranks option" where
  "base_ranks base doc al day =
     do { ms \<leftarrow> iter_of (map_of doc ''matches'');
          fold_opt (\<lambda>rs m. map_option (\<lambda>r. foldl (add_rank (finding_key al m)) rs (findings r)) (api_evaluate base [(''matches'', JList [m])] al day))
            [] ms }"

definition is_new :: "ranks option \<Rightarrow> item \<Rightarrow> bool" where
  "is_new ranks i =
     (case ranks of
        None \<Rightarrow> True
      | Some rs \<Rightarrow>
          (case (map_of rs (item_key i), rank_of (it_severity i)) of
             (Some n, Some k) \<Rightarrow> n < k
           | _ \<Rightarrow> True))"

definition new_findings :: "item list \<Rightarrow> ranks option \<Rightarrow> item list" where
  "new_findings is ranks = filter (is_new ranks) is"

definition raw_keys :: "dict \<Rightarrow> string \<Rightarrow> fkey list option" where
  "raw_keys doc al = map_option (\<lambda>ms. remdups (map (finding_key al) (filter is_obj ms))) (py_iter (dget doc ''matches''))"

definition same_repository :: "string option \<Rightarrow> string \<Rightarrow> bool" where
  "same_repository base_ref head_ref =
     (case (Option.bind base_ref split_ref, split_ref head_ref) of
        (Some (r, i, _), Some (r', i', _)) \<Rightarrow> r = r' \<and> i = i'
      | _ \<Rightarrow> False)"

definition show_key :: "fkey \<Rightarrow> string" where
  "show_key k = (case k of (a, b, c, d) \<Rightarrow> ''('' @ join '', '' (map repr_str [a, b, c, d]) @ '')'')"


section \<open>One alias\<close>

record base_side =
  base_api :: "api option"
  base_refs :: "(string \<times> string) list option"
  base_scanner :: "string option"

text \<open>The base document with its ranks when it can be compared, the status and the lines of the log.\<close>

type_synonym base_result = "(dict \<times> ranks) option \<times> string \<times> string list"

definition base_compare :: "world \<Rightarrow> cfg \<Rightarrow> base_side \<Rightarrow> string \<Rightarrow> string \<Rightarrow> dict \<Rightarrow> base_result option" where
  "base_compare w c b al ref doc =
     (case (base_api b, base_refs b, base_scanner b) of
        (Some base, Some refs, Some bscanner) \<Rightarrow>
          if \<not> same_repository (map_of refs al) ref then Some (None, ''re-pointed'', [])
          else
            (case map_of refs al of
               None \<Rightarrow> None
             | Some base_ref \<Rightarrow>
                 (case scan_with w base bscanner base_ref al (db_dir c) of
                    (Inl why, lines) \<Rightarrow>
                      Some (None, ''unavailable: '' @ take 200 (join ''; '' why), fmt ''scanning base %s: %s'' [al, base_ref] # lines)
                  | (Inr v, lines) \<Rightarrow>
                      do { bdoc \<leftarrow> as_dict v;
                           bbuilt \<leftarrow> db_built bdoc;
                           hbuilt \<leftarrow> db_built doc;
                           Some (if bbuilt \<noteq> hbuilt then (None, ''unavailable: the base scan used another database build'')
                                 else case base_ranks base bdoc al (today c) of
                                   None \<Rightarrow> (None, ''unavailable: the base classification raised '' @ exc w)
                                 | Some rs \<Rightarrow> (Some (bdoc, rs), ''trusted'')) }
                      \<bind> (\<lambda>(found, status). Some (found, status, fmt ''scanning base %s: %s'' [al, base_ref] # lines))))
      | _ \<Rightarrow> Some (None, ''unavailable: no usable base module'', []))"

definition unchanged_inputs :: "cfg \<Rightarrow> base_side \<Rightarrow> string \<Rightarrow> string \<Rightarrow> bool" where
  "unchanged_inputs c b al ref \<longleftrightarrow>
     base_scanner b = Some (scanner c) \<and> Option.bind (base_refs b) (\<lambda>refs. map_of refs al) = Some ref"

definition finding_line :: "ranks option \<Rightarrow> item \<Rightarrow> string" where
  "finding_line ranks i = ''  key '' @ show_key (item_key i) @ '' '' @ it_severity i @ '' '' @ py_str (it_version i) @ '' fix='' @ py_str (it_fix i)
     @ (if is_new ranks i then '' new'' else '' at base'')"

text \<open>Rule R-1: nothing the base reported may vanish while the scanner and the reference are the same.\<close>

definition raw_step :: "bool \<Rightarrow> string \<Rightarrow> dict \<Rightarrow> dict option \<Rightarrow> scan \<Rightarrow> scan option" where
  "raw_step unchanged al doc base_doc s =
     do { head_raw \<leftarrow> raw_keys doc al;
          (case base_doc of
             None \<Rightarrow> Some s
           | Some bdoc \<Rightarrow>
               do { base_raw \<leftarrow> raw_keys bdoc al;
                    let missing = sort (filter (\<lambda>k. k \<notin> set head_raw) base_raw);
                    let s1 = add_log [fmt ''  %s: raw keys base %d, head %d, missing at the head %d''
                        [al, show_nat (length base_raw), show_nat (length head_raw), show_nat (length missing)]] s;
                    Some (if missing = [] then s1
                          else if unchanged then
                            add_log (map (\<lambda>k. ''  R-1 missing key '' @ show_key k) (take 50 missing))
                              (add_failed [fmt ''%s: R-1: %d raw base match(es) are missing at the head with the same scanner and reference''
                                 [al, show_nat (length missing)]] s1)
                          else add_log [fmt ''  %s: fewer raw matches at the head (%d); the scanner or the reference changed, so this is logged only''
                                 [al, show_nat (length missing)]] s1) }) }"

text \<open>The rows and failures of an alias, from the head verdict and the base side.\<close>

definition compare_rows :: "mode \<Rightarrow> bool \<Rightarrow> string \<Rightarrow> dict \<Rightarrow> verdict \<Rightarrow> (dict \<times> ranks) option \<Rightarrow> scan \<Rightarrow> scan option" where
  "compare_rows m unchanged al doc r found s =
     (let ranks = map_option snd found;
          s1 = (if m = MODE_GATE \<and> found = None \<and> unchanged
                then add_failed [fmt ''%s: the base side is unavailable for an unchanged scanner and reference; R-1 cannot be evaluated'' [al]] s
                else s);
          s2 = add_log (map (finding_line ranks) (findings r))
            (s1\<lparr>rows := rows s1 @ map (\<lambda>i. (i, if is_new ranks i then ''FAIL'' else ''at base'')) (findings r)
                @ with_status ''excepted'' (excepted r)\<rparr>)
      in raw_step unchanged al doc (map_option fst found) s2)"

definition compare_alias :: "world \<Rightarrow> cfg \<Rightarrow> mode \<Rightarrow> base_side \<Rightarrow> scan \<Rightarrow> string \<times> string \<Rightarrow> scan option" where
  "compare_alias w c m b s0 target =
     (case target of (al, ref) \<Rightarrow>
        let s1 = add_log [fmt ''scanning %s: %s'' [al, ref]] s0 in
        case scan_with w (head_api w) (scanner c) ref al (db_dir c) of
          (Inl problems, lines) \<Rightarrow> Some (add_failed (map (\<lambda>p. al @ '': '' @ p) problems) (add_log lines s1))
        | (Inr v, lines) \<Rightarrow>
            do { doc \<leftarrow> as_dict v;
                 let s2 = add_log (lines @ (if is_own_build (Some al) ref then [fmt ''  %s: own build, strict: no tag lookup'' [al]] else [])) s1;
                 (r, s3) \<leftarrow> head_verdict w (c\<lparr>strict := []\<rparr>) al ref doc s2;
                 (found, status, blines) \<leftarrow> base_compare w c b al ref doc;
                 let s4 = add_log (blines @ [fmt ''  %s: base %s'' [al, status]]) (s3\<lparr>used_keys := add_used (used_keys s3) (used r)\<rparr>);
                 s5 \<leftarrow> compare_rows m (unchanged_inputs c b al ref) al doc r found s4;
                 let n = length (new_findings (findings r) (map_option snd found));
                 Some (add_log [fmt ''  %s: %d matches, %d new blocking, %d at base, %d excepted''
                   [al, show_nat (match_count doc), show_nat n, show_nat (length (findings r) - n), show_nat (length (excepted r))]] s5) })"


section \<open>Notes and exit status\<close>

definition exception_note :: "ident list \<Rightarrow> int \<Rightarrow> bool \<Rightarrow> exc_entry \<Rightarrow> string list" where
  "exception_note used_ids day complete e =
     (if expires_date e < day then
        [fmt ''expired (not applied): %s %s %s (expired %s, %s)'' [exc_id e, exc_image e, exc_package e, exc_expires e, exc_issue e]]
      else msg_if (complete \<and> ident_of e \<notin> set used_ids)
        (fmt ''stale (matched nothing): %s %s %s'' [exc_id e, exc_image e, exc_package e]))"

definition exception_notes :: "exc_entry list \<Rightarrow> ident list \<Rightarrow> int \<Rightarrow> bool \<Rightarrow> string list" where
  "exception_notes es used_ids day complete = concat (map (exception_note used_ids day complete) es)"

definition row_line :: "row \<Rightarrow> string" where
  "row_line r =
     (case r of (i, status) \<Rightarrow>
        ''  '' @ status @ '': '' @ join '' '' [it_image i, py_str (it_package i), py_str (it_version i), py_str (it_id i), it_severity i]
        @ '' fix='' @ py_str (it_fix i) @ (case it_note i of None \<Rightarrow> [] | Some t \<Rightarrow> '' ('' @ t @ '')''))"

definition summary_row :: "row \<Rightarrow> string" where
  "summary_row r =
     (case r of (i, status) \<Rightarrow>
        ''| '' @ join '' | '' (map md_cell [it_image i, py_str (it_package i), py_str (it_version i), py_str (it_id i), it_severity i, py_str (it_fix i),
             status @ (case it_note i of Some t \<Rightarrow> if status = ''excepted'' then '': '' @ t else [] | None \<Rightarrow> [])]) @ '' |'')"

text \<open>The lines \<^verbatim>\<open>_summary\<close> appends to the step summary.\<close>

definition summary_lines :: "row list \<Rightarrow> string list \<Rightarrow> string \<Rightarrow> string list" where
  "summary_lines rs notes mode_line =
     [''### Image CVE scan'', ''''] @ (if mode_line = [] then [] else [''Mode: '' @ md_cell mode_line, ''''])
     @ (if rs \<noteq> [] then
          [''| Image | Package | Version | Id | Severity | Fix | Status |'', ''| --- | --- | --- | --- | --- | --- | --- |''] @ map summary_row rs
        else [''No High or Critical findings.''])
     @ [''''] @ map (\<lambda>n. ''- '' @ md_cell n) notes"

record outcome_of_run =
  status :: int
  printed :: "string list"
  summary :: "string list"

definition blocking_rows :: "row list \<Rightarrow> row list" where
  "blocking_rows rs = filter (\<lambda>(i, st). st = ''FAIL'') rs"

definition finish :: "string \<Rightarrow> scan \<Rightarrow> string list \<Rightarrow> string \<Rightarrow> outcome_of_run" where
  "finish tok s notes mode_line =
     (let bad = blocking_rows (rows s) in
      \<lparr> status = (if failed s \<noteq> [] \<or> bad \<noteq> [] then 1 else 0),
        printed = emit_protected tok (log s @ map (\<lambda>n. ''  '' @ n) notes @ map row_line (rows s)
            @ map (\<lambda>f. ''  SCAN NOT TRUSTED: '' @ f) (failed s))
          @ msg_if (failed s \<noteq> []) (fmt ''::error::image-scan: %d scan problem(s); the result cannot be trusted'' [show_nat (length (failed s))])
          @ msg_if (bad \<noteq> []) (fmt ''::error::image-scan: %d High or Critical finding(s) without an active exception'' [show_nat (length bad)]),
        summary = summary_lines (rows s) (notes @ map (\<lambda>f. ''scan not trusted: '' @ f) (failed s)) mode_line \<rparr>)"


section \<open>The run\<close>

record ci = world +
  images_text :: "string + string"
  dockerfile_text :: "string + string"
  exceptions_json :: "string + json"
  event_name :: "string option"
  utc_today :: int
  runner_temp :: string
  token_hex :: string
  base_path_linked :: bool
  base_module_file :: bool
  base_module :: "api option"
  base_names :: "string list option"
  base_reads :: "((string \<times> string) list \<times> string) option"

definition BASE_API :: "string list" where
  "BASE_API = [''CONTAINER_IMAGES'', ''SCANNER_DOCKERFILE'', ''parse_targets'', ''parse_scanner_ref'', ''scan_argv'', ''read_sbom'',
     ''check_provenance'', ''evaluate'', ''_run'']"

definition BASE_CHECKOUT :: string where
  "BASE_CHECKOUT = ''.image-scan-base''"

text \<open>\<^verbatim>\<open>load_base_module\<close>: the module or the reason that is logged. \<open>base_module\<close> is \<^term>\<open>None\<close> when loading raised,
  \<open>base_names\<close> when inspecting the module raised.\<close>

definition load_base_module :: "'a ci_scheme \<Rightarrow> string + api" where
  "load_base_module x =
     (if base_path_linked x then Inl ''  base: refused, a path of the base module is a link''
      else if \<not> base_module_file x then Inl ''  base: the base module is missing''
      else
        let got = (case git x [''-C'', BASE_CHECKOUT, ''rev-parse'', ''--verify'', ''HEAD''] of
              Some (rc, out) \<Rightarrow> if rc = 0 then Some (strip out) else None
            | None \<Rightarrow> None)
        in if first_parent_sha (world.truncate x) = None \<or> got \<noteq> first_parent_sha (world.truncate x)
           then Inl ''  base: the base checkout is not the first parent of the merge commit''
           else case base_module x of
             None \<Rightarrow> Inl (fmt ''  base: the base module could not be loaded (%s)'' [exc x])
           | Some m \<Rightarrow>
               (case base_names x of
                  None \<Rightarrow> Inl (fmt ''  base: the base module could not be inspected (%s)'' [exc x])
                | Some names \<Rightarrow>
                    (let missing = filter (\<lambda>n. n \<notin> set names) BASE_API
                     in if missing \<noteq> [] then Inl (fmt ''  base: the base module lacks %s'' [join '', '' missing]) else Inr m)))"

text \<open>The base side of a comparison and what it adds to the log and to the failures.\<close>

definition base_side_of :: "'a ci_scheme \<Rightarrow> mode \<Rightarrow> (string \<times> string) list option \<Rightarrow> scan \<Rightarrow> base_side \<times> scan" where
  "base_side_of x m base_old s =
     (let loaded = load_base_module x;
          found = (case loaded of Inl why \<Rightarrow> (None, [why])
            | Inr base \<Rightarrow>
                (case base_reads x of
                   None \<Rightarrow> (None, [''  base: the base module could not read its own pins or scanner reference''])
                 | Some (refs, bscanner) \<Rightarrow>
                     if m = MODE_DELTA \<and> (case base_old of None \<Rightarrow> True | Some old \<Rightarrow> set refs \<noteq> set old)
                     then (None, [''  base: the base module'' @ [CHR 0x27] @ ''s pins differ from ContainerImages.cs at HEAD^1''])
                     else (Some (base, refs, bscanner), [])));
          side = \<lparr> base_api = map_option fst (fst found), base_refs = map_option (\<lambda>(a, r, b). r) (fst found),
                   base_scanner = map_option (\<lambda>(a, r, b). b) (fst found) \<rparr>;
          s1 = add_log (snd found) s;
          s2 = (if m = MODE_GATE \<and> fst found = None
                then add_failed [''the base side is unavailable (see the log); a gate change needs the base comparison''] s1 else s1)
      in (side, add_log [fmt ''base scanner: %s'' [case base_scanner side of None \<Rightarrow> ''None'' | Some b \<Rightarrow> b]] s2))"

definition empty_scan :: scan where
  "empty_scan = \<lparr> log = [], rows = [], failed = [], used_keys = [], moved_digests = [], docs = [] \<rparr>"

definition chosen_mode :: "'a ci_scheme \<Rightarrow> mode \<times> string \<times> (string \<times> string) list option" where
  "chosen_mode x =
     (let w = world.truncate x; on_pr = (event_name x = Some ''pull_request'');
          (m, reason) = select_mode (event_name x) (if on_pr then changed_files w else None) (on_pr \<and> is_merge_commit w)
      in if m = MODE_DELTA then
           (case base_pin_refs w of
              None \<Rightarrow> (MODE_FULL, ''the base pins cannot be read or parsed from HEAD^1'', None)
            | Some old \<Rightarrow> (MODE_DELTA, reason, Some old))
         else (m, reason, None))"

text \<open>The scans of a run, after the database update.\<close>

definition run_scans :: "'a ci_scheme \<Rightarrow> cfg \<Rightarrow> mode \<Rightarrow> (string \<times> string) list option \<Rightarrow> (string \<times> string) list \<Rightarrow> scan \<Rightarrow> scan option" where
  "run_scans x c m base_old targets s =
     (let w = world.truncate x in
      if m = MODE_FULL then map_option fst (scan_targets w c ''grype-sbom-'' targets s)
      else case base_side_of x m base_old s of (side, s1) \<Rightarrow> fold_opt (compare_alias w c m side) s1 targets)"

definition config_error :: "'a ci_scheme \<Rightarrow> string \<Rightarrow> outcome_of_run" where
  "config_error x why = \<lparr> status = 2,
     printed = emit_protected (token_hex x) [''image-scan: configuration error: '' @ why] @ [''::error::image-scan: configuration error''], summary = [] \<rparr>"

text \<open>The run on inputs that were read, and the whole run.\<close>

definition run_inputs :: "'a ci_scheme \<Rightarrow> (string \<times> string) list \<Rightarrow> string \<Rightarrow> json \<Rightarrow> outcome_of_run option" where
  "run_inputs x refs sc raw =
     (case validate_exceptions (token_hex x) raw (utc_today x) of
        Inl lines \<Rightarrow> Some \<lparr> status = 2, printed = lines, summary = [] \<rparr>
      | Inr es \<Rightarrow>
          (case chosen_mode x of (m, reason, base_old) \<Rightarrow>
             let mode_line = mode_text m @ '' ('' @ reason @ '')'';
                 s0 = add_log [''mode: '' @ mode_line] empty_scan;
                 targets = (if m = MODE_DELTA then filter (\<lambda>(al, ref). al \<in> set (changed_aliases (the base_old) refs)) refs else refs);
                 c = \<lparr> strict = [], scanner = sc, db_dir = runner_temp x @ ''/grype-db'', entries = es, today = utc_today x \<rparr>
             in if m = MODE_VALIDATOR then
                  Some (finish (token_hex x)
                    (add_log [''exceptions.json is the only changed path in the images lane: it was validated; no image or scanner changed, so nothing is scanned (ADR-0022, O1)''] s0)
                    (exception_notes es [] (utc_today x) False) mode_line)
                else if m = MODE_DELTA \<and> targets = [] then
                  Some (finish (token_hex x)
                    (add_log [''no image reference changed: nothing is scanned (a parity-only or release-only change)''] s0)
                    (exception_notes es [] (utc_today x) False) mode_line)
                else
                  do { (p, lines) \<leftarrow> run_argv (world.truncate x) (db_update_argv sc (db_dir c));
                       let s1 = add_log ([''scanner: '' @ sc] @ lines) s0;
                       if returncode p \<noteq> 0 then
                         Some \<lparr> status = 1,
                           printed = emit_protected (token_hex x) (log s1 @ [fmt ''vulnerability database update failed (exit %d)'' [show_int (returncode p)]])
                             @ [''::error::image-scan: vulnerability database update failed''], summary = [] \<rparr>
                       else
                         do { s2 \<leftarrow> run_scans x c m base_old targets s1;
                              Some (finish (token_hex x) s2
                                (exception_notes es (used_keys s2) (utc_today x) (m \<in> {MODE_FULL, MODE_GATE})) mode_line) } }))"

definition run_ci :: "'a ci_scheme \<Rightarrow> outcome_of_run option" where
  "run_ci x =
     (case sbind (sbind (images_text x) parse_targets) (\<lambda>refs. sbind (sbind (dockerfile_text x) parse_scanner_ref) (\<lambda>sc.
             sbind (exceptions_json x) (\<lambda>raw. Inr (refs, sc, raw)))) of
        Inl why \<Rightarrow> Some (config_error x why)
      | Inr (refs, sc, raw) \<Rightarrow> run_inputs x refs sc raw)"

text \<open>\<^verbatim>\<open>main\<close>: an unexpected exception is exit status 1.\<close>

definition main_status :: "'a ci_scheme \<Rightarrow> int" where
  "main_status x = (case run_ci x of None \<Rightarrow> 1 | Some r \<Rightarrow> status r)"


section \<open>A green full scan\<close>

lemma head_verdict_Some:
  assumes "head_verdict w c al ref doc s = Some (r, s')"
  obtains ts lbl where "evaluate doc al (entries c) (today c) ts lbl = Some r" "al \<in> set (strict c) \<or> is_own_build (Some al) ref \<Longrightarrow> ts = None"
    "failed s' = failed s" "rows s' = rows s"
  using assms by (auto simp: head_verdict_def bind_eq_Some_conv Let_def add_log_def split: if_splits)

text \<open>What a green run shows of one target: the scanner ran on the pinned reference, its result is trusted, and no
  match blocks.\<close>

definition target_clean :: "world \<Rightarrow> cfg \<Rightarrow> string \<Rightarrow> string \<times> string \<Rightarrow> bool" where
  "target_clean w c out_prefix target \<longleftrightarrow>
     (case target of (al, ref) \<Rightarrow>
        \<exists>p doc r ts lbl. docker w (scan_argv (scanner c) ref (db_dir c) (Some (mkdtemp w (out_prefix @ al @ ''-'')))) = Some p
          \<and> returncode p = 0 \<and> stdout p = Inr (JObj doc)
          \<and> check_provenance (JObj doc) ref (Some al) (read_sbom w (mkdtemp w (out_prefix @ al @ ''-''))) = Some []
          \<and> evaluate doc al (entries c) (today c) ts lbl = Some r \<and> findings r = [] \<and> (al \<in> set (strict c) \<or> is_own_build (Some al) ref \<longrightarrow> ts = None))"

lemma blocking_rows_append: "blocking_rows (xs @ ys) = blocking_rows xs @ blocking_rows ys"
  by (simp add: blocking_rows_def)

lemma blocking_rows_status: "blocking_rows (with_status st is) = (if st = ''FAIL'' then with_status st is else [])"
  by (auto simp: blocking_rows_def with_status_def filter_map o_def)

lemma scan_output_step:
  assumes "scan_output w c al ref out p s = Some s'"
  shows "\<exists>ms rs. failed s' = failed s @ ms \<and> rows s' = rows s @ rs
     \<and> (ms = [] \<longrightarrow> blocking_rows rs = [] \<longrightarrow>
         returncode p = 0 \<and> (\<exists>doc r ts lbl. stdout p = Inr (JObj doc) \<and> check_provenance (JObj doc) ref (Some al) (read_sbom w out) = Some []
           \<and> evaluate doc al (entries c) (today c) ts lbl = Some r \<and> findings r = [] \<and> (al \<in> set (strict c) \<or> is_own_build (Some al) ref \<longrightarrow> ts = None)))"
proof (cases "\<exists>v. returncode p = 0 \<and> stdout p = Inr v \<and> check_provenance v ref (Some al) (read_sbom w out) = Some []")
  case True
  then obtain v where v: "returncode p = 0" "stdout p = Inr v" "check_provenance v ref (Some al) (read_sbom w out) = Some []" by blast
  with assms obtain doc r s3 where d: "v = JObj doc" "head_verdict w c al ref doc (s\<lparr>docs := dset (docs s) al doc\<rparr>) = Some (r, s3)"
    and s': "failed s' = failed s3" "rows s' = rows s3 @ with_status ''FAIL'' (findings r) @ with_status ''excepted'' (excepted r)"
    by (auto simp: scan_output_def bind_eq_Some_conv add_log_def)
  obtain ts lbl where e: "evaluate doc al (entries c) (today c) ts lbl = Some r" "al \<in> set (strict c) \<or> is_own_build (Some al) ref \<Longrightarrow> ts = None"
    "failed s3 = failed s" "rows s3 = rows s" by (rule head_verdict_Some [OF d(2)]) auto
  have "findings r = []" if "blocking_rows (with_status ''FAIL'' (findings r) @ with_status ''excepted'' (excepted r)) = []"
    using that unfolding blocking_rows_append blocking_rows_status by (simp add: with_status_def)
  with v d(1) e s' show ?thesis by (auto simp del: append_assoc)
next
  case False
  then have "\<exists>ms. ms \<noteq> [] \<and> s' = add_failed ms s"
    using assms by (auto simp: scan_output_def bind_eq_Some_conv split: if_splits sum.splits)
  then show ?thesis by (auto simp: add_failed_def)
qed

lemma scan_target_step:
  assumes "scan_target w c out_prefix s target = Some s'"
  shows "\<exists>ms rs. failed s' = failed s @ ms \<and> rows s' = rows s @ rs
     \<and> (ms = [] \<longrightarrow> blocking_rows rs = [] \<longrightarrow> target_clean w c out_prefix target)"
proof -
  obtain al ref where t: "target = (al, ref)" by (cases target)
  define out where "out = mkdtemp w (out_prefix @ al @ ''-'')"
  define s1 where "s1 = add_log [fmt ''scanning %s: %s'' [al, ref]] s"
  have s1: "failed s1 = failed s" "rows s1 = rows s" by (simp_all add: s1_def add_log_def)
  show ?thesis
  proof (cases "dir_empty w out")
    case False
    with assms have "s' = add_failed [fmt ''%s: SBOM directory is not empty before the run'' [al]] s1"
      unfolding scan_target_def t prod.case Let_def out_def [symmetric] s1_def [symmetric] by simp
    then show ?thesis by (simp add: add_failed_def s1)
  next
    case True
    with assms obtain p lines where p: "run_argv w (scan_argv (scanner c) ref (db_dir c) (Some out)) = Some (p, lines)"
      "scan_output w c al ref out p (add_log lines s1) = Some s'"
      unfolding scan_target_def t prod.case Let_def out_def [symmetric] s1_def [symmetric] by (auto simp: bind_eq_Some_conv)
    then have "docker w (scan_argv (scanner c) ref (db_dir c) (Some out)) = Some p"
      by (auto simp: run_argv_def)
    with scan_output_step [OF p(2)] s1 show ?thesis
      unfolding target_clean_def t prod.case out_def [symmetric] by (fastforce simp: add_log_def)
  qed
qed

definition scan_clean :: "scan \<Rightarrow> bool" where
  "scan_clean s \<longleftrightarrow> failed s = [] \<and> blocking_rows (rows s) = []"

interpretation full_scan: clean_loop "scan_target w c out_prefix" scan_clean "target_clean w c out_prefix" for w c out_prefix
proof
  fix s x s'
  assume "scan_target w c out_prefix s x = Some s'" "scan_clean s'"
  then show "scan_clean s \<and> target_clean w c out_prefix x"
    using scan_target_step [of w c out_prefix s x s'] by (auto simp: scan_clean_def blocking_rows_append)
qed

lemma finish_green: "status (finish tok s notes mode_line) = 0 \<longleftrightarrow> failed s = [] \<and> blocking_rows (rows s) = []"
  by (simp add: finish_def Let_def)

definition ci_cfg :: "'a ci_scheme \<Rightarrow> string \<Rightarrow> exc_entry list \<Rightarrow> cfg" where
  "ci_cfg x sc es = \<lparr> strict = [], scanner = sc, db_dir = runner_temp x @ ''/grype-db'', entries = es, today = utc_today x \<rparr>"

lemma run_inputs_green:
  assumes run: "run_inputs x refs sc raw = Some out" "status out = 0" and mode: "chosen_mode x = (m, reason, base_old)"
  obtains es where "exception_errors raw (utc_today x) = ([], es)" and "m = MODE_VALIDATOR"
  | es where "exception_errors raw (utc_today x) = ([], es)" and "m = MODE_DELTA" and "changed_aliases (the base_old) refs = []"
  | es s1 s2 where "exception_errors raw (utc_today x) = ([], es)" and "m \<noteq> MODE_VALIDATOR"
      and "failed s1 = []" and "rows s1 = []"
      and "run_scans x (ci_cfg x sc es) m base_old
        (if m = MODE_DELTA then filter (\<lambda>(al, ref). al \<in> set (changed_aliases (the base_old) refs)) refs else refs) s1 = Some s2"
      and "failed s2 = []" and "blocking_rows (rows s2) = []"
proof -
  from run obtain es where v: "validate_exceptions (token_hex x) raw (utc_today x) = Inr es"
    by (auto simp: run_inputs_def split: sum.splits)
  then have es: "exception_errors raw (utc_today x) = ([], es)"
    by (auto simp: validate_exceptions_def split: prod.splits if_splits)
  define targets where "targets = (if m = MODE_DELTA then filter (\<lambda>(al, ref). al \<in> set (changed_aliases (the base_old) refs)) refs else refs)"
  note run' = run(1) [unfolded run_inputs_def sum.case prod.case v mode Let_def targets_def [symmetric] ci_cfg_def [symmetric]]
  show thesis
  proof (cases "m = MODE_VALIDATOR \<or> m = MODE_DELTA \<and> targets = []")
    case True
    then show thesis
    proof
      assume "m = MODE_VALIDATOR" with es that(1) show thesis by blast
    next
      assume a: "m = MODE_DELTA \<and> targets = []"
      then have "changed_aliases (the base_old) refs = []"
        unfolding targets_def changed_aliases_def by (fastforce simp: filter_empty_conv)
      with es that(2) a show thesis by blast
    qed
  next
    case False
    with run' run(2) obtain lines s2 nts ml where s: "run_scans x (ci_cfg x sc es) m base_old targets
          (add_log ([''scanner: '' @ sc] @ lines) (add_log [''mode: '' @ mode_text m @ '' ('' @ reason @ '')''] empty_scan)) = Some s2"
        "out = finish (token_hex x) s2 nts ml"
      by (auto simp: bind_eq_Some_conv split: if_splits)
    define s1 where "s1 = add_log ([''scanner: '' @ sc] @ lines) (add_log [''mode: '' @ mode_text m @ '' ('' @ reason @ '')''] empty_scan)"
    have "failed s1 = []" "rows s1 = []" by (simp_all add: s1_def add_log_def empty_scan_def)
    moreover have "failed s2 = []" "blocking_rows (rows s2) = []" using run(2) s(2) finish_green by auto
    moreover have "run_scans x (ci_cfg x sc es) m base_old targets s1 = Some s2" using s(1) unfolding s1_def .
    ultimately have "\<exists>s1 s2. failed s1 = [] \<and> rows s1 = [] \<and> run_scans x (ci_cfg x sc es) m base_old targets s1 = Some s2
        \<and> failed s2 = [] \<and> blocking_rows (rows s2) = []" by blast
    with es that(3) False show thesis unfolding targets_def by blast
  qed
qed

lemma main_status_green:
  assumes "main_status x = 0"
  obtains refs sc raw out where "sbind (images_text x) parse_targets = Inr refs" "dkeys refs = ALIASES"
    "sbind (dockerfile_text x) parse_scanner_ref = Inr sc" "exceptions_json x = Inr raw" "run_inputs x refs sc raw = Some out" "status out = 0"
proof -
  from assms obtain out where r: "run_ci x = Some out" "status out = 0" by (cases "run_ci x") (auto simp: main_status_def)
  then obtain refs sc raw where i: "sbind (images_text x) parse_targets = Inr refs" "sbind (dockerfile_text x) parse_scanner_ref = Inr sc"
      "exceptions_json x = Inr raw" "run_inputs x refs sc raw = Some out"
    by (auto simp: run_ci_def config_error_def split: sum.splits)
  then have "dkeys refs = ALIASES" using parse_targets_refs(1) by auto
  with that i r(2) show thesis by blast
qed

text \<open>
  C25: When a full scan ends with status 0, each image of the pins was scanned at its pinned reference, its result is
  trusted for that reference, and each High, Critical or elevated match is covered by a valid, unexpired exception
  of the file; the image this repository builds is judged without the rule for rebuilt images.
\<close>

theorem full_scan_green:
  assumes run: "run_inputs x refs sc raw = Some out" "status out = 0" and mode: "fst (chosen_mode x) = MODE_FULL"
    and ref: "(al, ref) \<in> set refs"
  shows "\<exists>es p doc ts. exceptions_ok raw (utc_today x) es
     \<and> docker x (scan_argv sc ref (runner_temp x @ ''/grype-db'') (Some (mkdtemp x (''grype-sbom-'' @ al @ ''-'')))) = Some p
     \<and> returncode p = 0 \<and> stdout p = Inr (JObj doc)
     \<and> proven (JObj doc) ref (Some al) (read_sbom (world.truncate x) (mkdtemp x (''grype-sbom-'' @ al @ ''-'')))
     \<and> (is_own_build (Some al) ref \<longrightarrow> ts = None)
     \<and> (\<forall>ms. map_of doc ''matches'' = Some (JList ms) \<longrightarrow> (\<forall>m\<in>set ms. blocking m \<longrightarrow> (\<exists>e\<in>set es. covers al (utc_today x) ts e m)))"
proof -
  obtain reason base_old where m: "chosen_mode x = (MODE_FULL, reason, base_old)" using mode by (cases "chosen_mode x") auto
  obtain es s1 s2 where es: "exception_errors raw (utc_today x) = ([], es)"
    and scans: "run_scans x (ci_cfg x sc es) MODE_FULL base_old refs s1 = Some s2" and ok: "failed s2 = []" "blocking_rows (rows s2) = []"
    by (rule run_inputs_green [OF run m]) auto
  let ?w = "world.truncate x"
  from scans have f: "fold_opt (scan_target ?w (ci_cfg x sc es) ''grype-sbom-'') s1 refs = Some s2"
    by (auto simp: run_scans_def Let_def scan_targets_def bind_eq_Some_conv)
  have clean: "target_clean ?w (ci_cfg x sc es) ''grype-sbom-'' (al, ref)"
    using full_scan.loop_clean [OF f] ok ref by (simp add: scan_clean_def)
  then obtain p doc r ts lbl where t:
    "docker ?w (scan_argv sc ref (runner_temp x @ ''/grype-db'') (Some (mkdtemp ?w (''grype-sbom-'' @ al @ ''-'')))) = Some p"
    "returncode p = 0" "stdout p = Inr (JObj doc)"
    "check_provenance (JObj doc) ref (Some al) (read_sbom ?w (mkdtemp ?w (''grype-sbom-'' @ al @ ''-''))) = Some []"
    "evaluate doc al es (utc_today x) ts lbl = Some r" "findings r = []" "is_own_build (Some al) ref \<longrightarrow> ts = None"
    unfolding target_clean_def prod.case by (auto simp: ci_cfg_def)
  have w: "docker ?w = docker x" "mkdtemp ?w = mkdtemp x" by (simp_all add: world.truncate_def)
  have "proven (JObj doc) ref (Some al) (read_sbom ?w (mkdtemp x (''grype-sbom-'' @ al @ ''-'')))"
    using t(4) unfolding w check_provenance_proven .
  moreover have "exceptions_ok raw (utc_today x) es" using exception_errors_cases [OF es] by simp
  ultimately show ?thesis using evaluate_covered [OF t(5) _ t(6)] t(1-3,7) unfolding w by blast
qed


section \<open>A green comparison\<close>

lemma base_ranks_sound:
  assumes "base_ranks base doc al day = Some rs" and "map_of rs key = Some n"
  shows "\<exists>ms m r i. iter_of (map_of doc ''matches'') = Some ms \<and> m \<in> set ms \<and> finding_key al m = key
     \<and> api_evaluate base [(''matches'', JList [m])] al day = Some r \<and> i \<in> set (findings r) \<and> rank_of (it_severity i) = Some n"
proof -
  let ?step = "\<lambda>rs m. map_option (\<lambda>r. foldl (add_rank (finding_key al m)) rs (findings r)) (api_evaluate base [(''matches'', JList [m])] al day)"
  let ?from = "\<lambda>ms key n. \<exists>m r i. m \<in> set ms \<and> finding_key al m = key \<and> api_evaluate base [(''matches'', JList [m])] al day = Some r
     \<and> i \<in> set (findings r) \<and> rank_of (it_severity i) = Some n"
  have add: "map_of rs key = Some n \<or> key = k \<and> (\<exists>i\<in>set is. rank_of (it_severity i) = Some n)"
    if "map_of (foldl (add_rank k) rs is) key = Some n" for k rs "is" key n
    using that
  proof (induction "is" arbitrary: rs)
    case (Cons i "is")
    from Cons.IH [of "add_rank k rs i"] Cons.prems show ?case
      by (auto simp: add_rank_def max_def split: option.splits if_splits)
  qed simp
  have "map_of rs0 key = Some n \<or> ?from ms key n" if "fold_opt ?step rs0 ms = Some rs" "map_of rs key = Some n" for rs0 ms
    using that
  proof (induction ms arbitrary: rs0)
    case (Cons m ms)
    then obtain r where r: "api_evaluate base [(''matches'', JList [m])] al day = Some r"
      "fold_opt ?step (foldl (add_rank (finding_key al m)) rs0 (findings r)) ms = Some rs" by (auto simp: bind_eq_Some_conv)
    from Cons.IH [OF r(2) Cons.prems(2)] show ?case
    proof
      assume "map_of (foldl (add_rank (finding_key al m)) rs0 (findings r)) key = Some n"
      from add [OF this] r(1) show ?thesis by (metis list.set_intros(1))
    next
      assume "?from ms key n" then show ?thesis by (metis list.set_intros(2))
    qed
  qed simp
  moreover from assms(1) obtain ms where "iter_of (map_of doc ''matches'') = Some ms" "fold_opt ?step [] ms = Some rs"
    by (auto simp: base_ranks_def bind_eq_Some_conv)
  ultimately show ?thesis using assms(2) by fastforce
qed

text \<open>A head finding the base has: a base match with the same key that the base module itself ranks at least as high.\<close>

definition at_base :: "api \<Rightarrow> int \<Rightarrow> dict \<Rightarrow> string \<Rightarrow> item \<Rightarrow> bool" where
  "at_base base day bdoc al i \<longleftrightarrow>
     (\<exists>ms m r j n k. iter_of (map_of bdoc ''matches'') = Some ms \<and> m \<in> set ms \<and> finding_key al m = item_key i
        \<and> api_evaluate base [(''matches'', JList [m])] al day = Some r \<and> j \<in> set (findings r)
        \<and> rank_of (it_severity j) = Some n \<and> rank_of (it_severity i) = Some k \<and> k \<le> n)"

lemma not_new_at_base:
  "base_ranks base bdoc al day = Some rs \<Longrightarrow> \<not> is_new (Some rs) i \<Longrightarrow> at_base base day bdoc al i"
  using base_ranks_sound [of base bdoc al day rs "item_key i"]
  by (auto simp: is_new_def at_base_def not_less split: option.splits)

lemma base_compare_found:
  assumes "base_compare w c b al ref doc = Some (Some (bdoc, rs), st, ls)"
  obtains base refs bscanner base_ref where "base_api b = Some base" "base_refs b = Some refs" "base_scanner b = Some bscanner"
    "map_of refs al = Some base_ref" "same_repository (Some base_ref) ref"
    "fst (scan_with w base bscanner base_ref al (db_dir c)) = Inr (JObj bdoc)" "db_built bdoc = db_built doc"
    "base_ranks base bdoc al (today c) = Some rs"
proof -
  from assms obtain base refs bscanner where b: "base_api b = Some base" "base_refs b = Some refs" "base_scanner b = Some bscanner"
    by (auto simp: base_compare_def split: option.splits)
  with assms obtain base_ref where r: "map_of refs al = Some base_ref" "same_repository (Some base_ref) ref"
    by (auto simp: base_compare_def split: if_splits option.splits)
  obtain res lines where s: "scan_with w base bscanner base_ref al (db_dir c) = (res, lines)" by (cases "scan_with w base bscanner base_ref al (db_dir c)")
  with assms b r obtain v where v: "res = Inr v" by (cases res) (auto simp: base_compare_def)
  with assms b r s have "v = JObj bdoc" "db_built bdoc = db_built doc" "base_ranks base bdoc al (today c) = Some rs"
    by (auto simp: base_compare_def bind_eq_Some_conv split: if_splits option.splits)
  with that b r s v show thesis by simp
qed

text \<open>What a comparison without failure and without blocking row shows of one target.\<close>

definition compared :: "world \<Rightarrow> cfg \<Rightarrow> mode \<Rightarrow> base_side \<Rightarrow> string \<times> string \<Rightarrow> bool" where
  "compared w c m b target \<longleftrightarrow>
     (case target of (al, ref) \<Rightarrow>
        \<exists>doc r ts lbl found st ls. fst (scan_with w (head_api w) (scanner c) ref al (db_dir c)) = Inr (JObj doc)
          \<and> evaluate doc al (entries c) (today c) ts lbl = Some r \<and> (is_own_build (Some al) ref \<longrightarrow> ts = None)
          \<and> base_compare w c b al ref doc = Some (found, st, ls)
          \<and> (\<forall>i\<in>set (findings r). \<not> is_new (map_option snd found) i)
          \<and> (unchanged_inputs c b al ref \<longrightarrow>
               (m = MODE_GATE \<longrightarrow> found \<noteq> None)
               \<and> (\<forall>bdoc rs hk bk. found = Some (bdoc, rs) \<longrightarrow> raw_keys doc al = Some hk \<longrightarrow> raw_keys bdoc al = Some bk \<longrightarrow> set bk \<subseteq> set hk)))"

lemma sort_Nil_iff: "sort xs = [] \<longleftrightarrow> xs = []"
  by (metis length_0_conv length_sort)

lemma raw_step_cases:
  assumes "raw_step unchanged al doc base_doc s = Some s'"
  shows "\<exists>ms. failed s' = failed s @ ms \<and> rows s' = rows s
     \<and> (ms = [] \<longrightarrow> unchanged \<longrightarrow> (\<forall>bdoc hk bk. base_doc = Some bdoc \<longrightarrow> raw_keys doc al = Some hk \<longrightarrow> raw_keys bdoc al = Some bk \<longrightarrow> set bk \<subseteq> set hk))"
proof (cases base_doc)
  case None
  with assms show ?thesis by (auto simp: raw_step_def bind_eq_Some_conv)
next
  case (Some bdoc)
  with assms obtain hk bk where k: "raw_keys doc al = Some hk" "raw_keys bdoc al = Some bk" by (auto simp: raw_step_def bind_eq_Some_conv)
  let ?missing = "filter (\<lambda>k. k \<notin> set hk) bk"
  have "\<exists>ms. failed s' = failed s @ ms \<and> rows s' = rows s \<and> (ms = [] \<longrightarrow> unchanged \<longrightarrow> ?missing = [])"
    using assms unfolding raw_step_def Some k option.case Option.bind.simps Let_def sort_Nil_iff
    by (cases "?missing = []"; cases unchanged) (auto simp: add_log_def add_failed_def)
  then show ?thesis using Some k by (auto simp: filter_empty_conv subset_iff)
qed

lemma compare_rows_step:
  assumes "compare_rows m unchanged al doc r found s = Some s'"
  shows "\<exists>ms rs. failed s' = failed s @ ms \<and> rows s' = rows s @ rs
     \<and> (ms = [] \<longrightarrow> blocking_rows rs = [] \<longrightarrow>
          (\<forall>i\<in>set (findings r). \<not> is_new (map_option snd found) i)
          \<and> (unchanged \<longrightarrow> (m = MODE_GATE \<longrightarrow> found \<noteq> None)
               \<and> (\<forall>bdoc rs hk bk. found = Some (bdoc, rs) \<longrightarrow> raw_keys doc al = Some hk \<longrightarrow> raw_keys bdoc al = Some bk \<longrightarrow> set bk \<subseteq> set hk)))"
proof -
  define pre where "pre = (if m = MODE_GATE \<and> found = None \<and> unchanged
      then [fmt ''%s: the base side is unavailable for an unchanged scanner and reference; R-1 cannot be evaluated'' [al]] else [])"
  define new where "new = map (\<lambda>i. (i, if is_new (map_option snd found) i then ''FAIL'' else ''at base'')) (findings r) @ with_status ''excepted'' (excepted r)"
  define s1 where "s1 = (if m = MODE_GATE \<and> found = None \<and> unchanged
      then add_failed [fmt ''%s: the base side is unavailable for an unchanged scanner and reference; R-1 cannot be evaluated'' [al]] s else s)"
  define s2 where "s2 = add_log (map (finding_line (map_option snd found)) (findings r)) (s1\<lparr>rows := rows s1 @ new\<rparr>)"
  have s2: "failed s2 = failed s @ pre" "rows s2 = rows s @ new" "raw_step unchanged al doc (map_option fst found) s2 = Some s'"
    using assms unfolding compare_rows_def Let_def s1_def [symmetric] new_def [symmetric] s2_def [symmetric]
    by (simp_all add: s2_def s1_def pre_def add_log_def add_failed_def)
  have quiet: "\<forall>i\<in>set (findings r). \<not> is_new (map_option snd found) i" if "blocking_rows new = []"
    using that unfolding new_def by (auto simp: blocking_rows_append blocking_rows_def filter_empty_conv)
  have "unchanged \<longrightarrow> m = MODE_GATE \<longrightarrow> found \<noteq> None" if "pre = []" using that by (auto simp: pre_def split: if_splits)
  with raw_step_cases [OF s2(3)] s2(1,2) quiet show ?thesis by fastforce
qed

lemma compare_alias_step:
  assumes "compare_alias w c m b s target = Some s'"
  shows "\<exists>ms rs. failed s' = failed s @ ms \<and> rows s' = rows s @ rs \<and> (ms = [] \<longrightarrow> blocking_rows rs = [] \<longrightarrow> compared w c m b target)"
proof -
  obtain al ref where t: "target = (al, ref)" by (cases target)
  define s1 where "s1 = add_log [fmt ''scanning %s: %s'' [al, ref]] s"
  have s1: "failed s1 = failed s" "rows s1 = rows s" by (simp_all add: s1_def add_log_def)
  obtain res lines where sc: "scan_with w (head_api w) (scanner c) ref al (db_dir c) = (res, lines)" by (cases "scan_with w (head_api w) (scanner c) ref al (db_dir c)")
  note c = assms [unfolded compare_alias_def t prod.case Let_def s1_def [symmetric] sc]
  show ?thesis
  proof (cases res)
    case (Inl problems)
    have "problems \<noteq> []" using sc Inl by (auto simp: scan_with_def Let_def split: if_splits option.splits sum.splits)
    with c Inl show ?thesis by (auto simp: add_failed_def add_log_def s1)
  next
    case (Inr v)
    define s2 where "s2 = add_log (lines @ (if is_own_build (Some al) ref then [fmt ''  %s: own build, strict: no tag lookup'' [al]] else [])) s1"
    have s2: "failed s2 = failed s" "rows s2 = rows s" by (simp_all add: s2_def add_log_def s1)
    note c2 = c [unfolded Inr sum.case, folded s2_def]
    then obtain doc r s3 where d: "v = JObj doc" "head_verdict w (c\<lparr>strict := []\<rparr>) al ref doc s2 = Some (r, s3)"
      by (auto simp: bind_eq_Some_conv)
    from c2 d obtain found st ls where bc: "base_compare w c b al ref doc = Some (found, st, ls)" by (auto simp: bind_eq_Some_conv)
    define s4 where "s4 = add_log (ls @ [fmt ''  %s: base %s'' [al, st]]) (s3\<lparr>used_keys := add_used (used_keys s3) (used r)\<rparr>)"
    have s4: "failed s4 = failed s3" "rows s4 = rows s3" by (simp_all add: s4_def add_log_def)
    from c2 d bc obtain s5 l where s5: "compare_rows m (unchanged_inputs c b al ref) al doc r found s4 = Some s5" "s' = add_log l s5"
      unfolding s4_def by (auto simp: bind_eq_Some_conv)
    obtain ts lbl where e: "evaluate doc al (entries c) (today c) ts lbl = Some r" "is_own_build (Some al) ref \<Longrightarrow> ts = None"
      "failed s3 = failed s" "rows s3 = rows s" by (rule head_verdict_Some [OF d(2)]) (simp_all add: s2)
    obtain ms rs where r: "failed s5 = failed s @ ms" "rows s5 = rows s @ rs"
      "ms = [] \<longrightarrow> blocking_rows rs = [] \<longrightarrow>
          (\<forall>i\<in>set (findings r). \<not> is_new (map_option snd found) i)
          \<and> (unchanged_inputs c b al ref \<longrightarrow> (m = MODE_GATE \<longrightarrow> found \<noteq> None)
               \<and> (\<forall>bdoc rs hk bk. found = Some (bdoc, rs) \<longrightarrow> raw_keys doc al = Some hk \<longrightarrow> raw_keys bdoc al = Some bk \<longrightarrow> set bk \<subseteq> set hk))"
      using compare_rows_step [OF s5(1)] unfolding s4 e(3,4) by blast
    have "compared w c m b target" if "ms = []" "blocking_rows rs = []"
      unfolding compared_def t prod.case using sc Inr d(1) bc e(1,2) r(3) that by auto
    with r(1,2) s5(2) show ?thesis by (auto simp: add_log_def)
  qed
qed


interpretation comparison: clean_loop "compare_alias w c m b" scan_clean "compared w c m b" for w c m b
proof
  fix s x s'
  assume "compare_alias w c m b s x = Some s'" "scan_clean s'"
  then show "scan_clean s \<and> compared w c m b x"
    using compare_alias_step [of w c m b s x s'] by (auto simp: scan_clean_def blocking_rows_append)
qed

lemma scan_with_head:
  assumes "fst (scan_with w (head_api w) sc ref al db) = Inr v"
  shows "check_provenance v ref (Some al) (read_sbom w (mkdtemp w (''grype-sbom-'' @ al @ ''-''))) = Some []"
  using assms by (auto simp: scan_with_def head_api_def Let_def split: if_splits option.splits sum.splits prod.splits)

lemma load_base_module_Inr: "load_base_module x = Inr base \<Longrightarrow> base_module x = Some base"
  by (auto simp: load_base_module_def Let_def split: if_splits option.splits)

lemma base_side_of_cases:
  assumes "base_side_of x m base_old s = (side, s')"
  shows "base_api side = Some base \<Longrightarrow> base_refs side = Some brefs \<Longrightarrow> base_scanner side = Some bsc \<Longrightarrow>
      base_module x = Some base \<and> base_reads x = Some (brefs, bsc)"
    and "failed s' = [] \<Longrightarrow> m = MODE_GATE \<Longrightarrow> \<exists>base brefs bsc. base_api side = Some base \<and> base_refs side = Some brefs \<and> base_scanner side = Some bsc"
  using assms by (auto simp: base_side_of_def Let_def add_log_def add_failed_def load_base_module_Inr split: sum.splits option.splits if_splits prod.splits)

text \<open>A scan of the base's reference with the base's functions, in the run \<open>x\<close>.\<close>

definition base_scanned :: "'a ci_scheme \<Rightarrow> string \<Rightarrow> string \<Rightarrow> api \<Rightarrow> dict \<Rightarrow> bool" where
  "base_scanned x al ref base bdoc \<longleftrightarrow>
     (\<exists>brefs bsc bref. base_module x = Some base \<and> base_reads x = Some (brefs, bsc) \<and> map_of brefs al = Some bref
        \<and> same_repository (Some bref) ref
        \<and> fst (scan_with (world.truncate x) base bsc bref al (runner_temp x @ ''/grype-db'')) = Inr (JObj bdoc))"

text \<open>
  C26: When a comparison (gate-change or delta) ends with status 0, each compared image has a trusted head scan, and
  each of its findings after exceptions is already at the base: the base module's own scan of the same repository,
  with the same database build, holds a match with the same image, package, type and id that the base ranks at
  least as high. In a gate change the base side was available, and when the scanner and the reference are the same
  on both sides no raw match of the base is missing at the head.
\<close>

theorem comparison_green:
  assumes run: "run_inputs x refs sc raw = Some out" "status out = 0" and mode: "chosen_mode x = (m, reason, base_old)"
    and m: "m = MODE_GATE \<or> m = MODE_DELTA \<and> al \<in> set (changed_aliases (the base_old) refs)" and ref: "(al, ref) \<in> set refs"
  shows "\<exists>es doc r ts lbl. exceptions_ok raw (utc_today x) es
     \<and> proven (JObj doc) ref (Some al) (read_sbom (world.truncate x) (mkdtemp x (''grype-sbom-'' @ al @ ''-'')))
     \<and> evaluate doc al es (utc_today x) ts lbl = Some r \<and> (is_own_build (Some al) ref \<longrightarrow> ts = None)
     \<and> (\<forall>i\<in>set (findings r). \<exists>base bdoc. base_scanned x al ref base bdoc \<and> db_built bdoc = db_built doc \<and> at_base base (utc_today x) bdoc al i)
     \<and> (m = MODE_GATE \<longrightarrow> (\<exists>base brefs bsc. base_module x = Some base \<and> base_reads x = Some (brefs, bsc)
          \<and> (bsc = sc \<longrightarrow> map_of brefs al = Some ref \<longrightarrow>
               (\<exists>bdoc. base_scanned x al ref base bdoc
                  \<and> (\<forall>hk bk. raw_keys doc al = Some hk \<longrightarrow> raw_keys bdoc al = Some bk \<longrightarrow> set bk \<subseteq> set hk)))))"
proof -
  let ?w = "world.truncate x"
  have w: "mkdtemp ?w = mkdtemp x" by (simp add: world.truncate_def)
  define targets where "targets = (if m = MODE_DELTA then filter (\<lambda>(al, ref). al \<in> set (changed_aliases (the base_old) refs)) refs else refs)"
  have t: "(al, ref) \<in> set targets" using m ref by (auto simp: targets_def)
  obtain es s1 s2 where es: "exception_errors raw (utc_today x) = ([], es)"
    and scans: "run_scans x (ci_cfg x sc es) m base_old targets s1 = Some s2" and ok: "failed s2 = []" "blocking_rows (rows s2) = []"
    by (rule run_inputs_green [OF run mode]) (use m in \<open>auto simp: targets_def\<close>)
  obtain side s3 where side: "base_side_of x m base_old s1 = (side, s3)" by (cases "base_side_of x m base_old s1")
  have "m \<noteq> MODE_FULL" using m by auto
  with scans side have f: "fold_opt (compare_alias ?w (ci_cfg x sc es) m side) s3 targets = Some s2" by (simp add: run_scans_def Let_def)
  have c: "compared ?w (ci_cfg x sc es) m side (al, ref)" and s3: "failed s3 = []"
    using comparison.loop_clean [OF f] ok t by (simp_all add: scan_clean_def)
  from c obtain doc r ts lbl found st ls where d: "fst (scan_with ?w (head_api ?w) sc ref al (runner_temp x @ ''/grype-db'')) = Inr (JObj doc)"
      "evaluate doc al es (utc_today x) ts lbl = Some r" "is_own_build (Some al) ref \<longrightarrow> ts = None"
      "base_compare ?w (ci_cfg x sc es) side al ref doc = Some (found, st, ls)"
      "\<forall>i\<in>set (findings r). \<not> is_new (map_option snd found) i"
    and r1: "unchanged_inputs (ci_cfg x sc es) side al ref \<longrightarrow> (m = MODE_GATE \<longrightarrow> found \<noteq> None)
      \<and> (\<forall>bdoc rs hk bk. found = Some (bdoc, rs) \<longrightarrow> raw_keys doc al = Some hk \<longrightarrow> raw_keys bdoc al = Some bk \<longrightarrow> set bk \<subseteq> set hk)"
    unfolding compared_def prod.case by (auto simp: ci_cfg_def)
  have p: "proven (JObj doc) ref (Some al) (read_sbom ?w (mkdtemp x (''grype-sbom-'' @ al @ ''-'')))"
    using scan_with_head [OF d(1)] unfolding w check_provenance_proven .
  have es': "exceptions_ok raw (utc_today x) es" using exception_errors_cases [OF es] by simp
  have base: "\<exists>base. base_api side = Some base \<and> base_scanned x al ref base bdoc \<and> db_built bdoc = db_built doc \<and> base_ranks base bdoc al (utc_today x) = Some rs"
    if "found = Some (bdoc, rs)" for bdoc rs
  proof -
    from d(4) that have "base_compare ?w (ci_cfg x sc es) side al ref doc = Some (Some (bdoc, rs), st, ls)" by simp
    then obtain base brefs bsc bref where b: "base_api side = Some base" "base_refs side = Some brefs" "base_scanner side = Some bsc"
      "map_of brefs al = Some bref" "same_repository (Some bref) ref"
      "fst (scan_with ?w base bsc bref al (db_dir (ci_cfg x sc es))) = Inr (JObj bdoc)" "db_built bdoc = db_built doc"
      "base_ranks base bdoc al (today (ci_cfg x sc es)) = Some rs" by (rule base_compare_found)
    with base_side_of_cases(1) [OF side b(1-3)] show ?thesis unfolding base_scanned_def by (auto simp: ci_cfg_def)
  qed
  have "\<exists>base bdoc. base_scanned x al ref base bdoc \<and> db_built bdoc = db_built doc \<and> at_base base (utc_today x) bdoc al i"
    if i: "i \<in> set (findings r)" for i
  proof -
    from d(5) i obtain bdoc rs where f: "found = Some (bdoc, rs)" by (cases found) (auto simp: is_new_def)
    with base [OF f] d(5) i not_new_at_base show ?thesis by fastforce
  qed
  moreover have "\<exists>base brefs bsc. base_module x = Some base \<and> base_reads x = Some (brefs, bsc)
          \<and> (bsc = sc \<longrightarrow> map_of brefs al = Some ref \<longrightarrow>
               (\<exists>bdoc. base_scanned x al ref base bdoc
                  \<and> (\<forall>hk bk. raw_keys doc al = Some hk \<longrightarrow> raw_keys bdoc al = Some bk \<longrightarrow> set bk \<subseteq> set hk)))" if g: "m = MODE_GATE"
  proof -
    from base_side_of_cases(2) [OF side s3 g] obtain b brefs bsc where
      b: "base_api side = Some b" "base_refs side = Some brefs" "base_scanner side = Some bsc" by blast
    have "\<exists>bdoc. base_scanned x al ref b bdoc \<and> (\<forall>hk bk. raw_keys doc al = Some hk \<longrightarrow> raw_keys bdoc al = Some bk \<longrightarrow> set bk \<subseteq> set hk)"
      if "bsc = sc" "map_of brefs al = Some ref"
    proof -
      have "unchanged_inputs (ci_cfg x sc es) side al ref" using b that by (simp add: unchanged_inputs_def ci_cfg_def)
      with r1 g obtain bdoc rs where f: "found = Some (bdoc, rs)" by (cases found) auto
      with base [OF f] b(1) r1 \<open>unchanged_inputs (ci_cfg x sc es) side al ref\<close> show ?thesis by auto
    qed
    with base_side_of_cases(1) [OF side b] show ?thesis by blast
  qed
  ultimately show ?thesis using es' p d(2,3) by blast
qed


section \<open>Sample runs\<close>

definition sample_ref :: string where
  "sample_ref = ref_text ''r'' ''i'' ''t'' (replicate 64 CHR ''a'')"

definition sample_trusted_doc :: json where
  "sample_trusted_doc = JObj [(''matches'', JList [sample_match ''not-fixed'']), (''source'', JObj [(''type'', JStr ''image''), (''target'', JObj [
       (''userInput'', JStr (''registry:'' @ sample_ref)), (''layers'', JList [JObj [(''digest'', JStr ''sha256:1'')]])])]),
     (''distro'', JObj [(''name'', JStr ''debian'')]), (''descriptor'', JObj [(''db'', JObj [(''built'', JStr ''2026-01-01T00:00:00Z'')])])]"

definition sample_git :: "string list \<Rightarrow> (int \<times> string) option" where
  "sample_git args =
     Some (if hd args = ''diff'' then (0, ''.github/scripts/image_scan.py'' @ [NUL])
           else if last args = ''HEAD^3^{commit}'' then (1, []) else (0, replicate 40 CHR ''a''))"

definition sample_world :: world where
  "sample_world = \<lparr> w_net = \<lparr> http_get = (\<lambda>_ _. None), http_head = (\<lambda>_ _. None) \<rparr>, mkdtemp = (\<lambda>prefix. ''/tmp/'' @ prefix),
     dir_empty = (\<lambda>_. True), docker = (\<lambda>argv. Some \<lparr> returncode = 0, stdout = Inr sample_trusted_doc, stderr = [] \<rparr>),
     stat = (\<lambda>_. None), git = sample_git, exc = ''Exception'' \<rparr>"

definition sample_ci :: "string option \<Rightarrow> ci" where
  "sample_ci event = world.extend sample_world (ci.fields (Inr []) (Inr []) (Inr JNull) event 739620 ''/tmp'' ''0'' False True
     (Some (head_api sample_world)) (Some BASE_API) (Some ([(''postgres'', sample_ref)], ''s'')))"

lemma sample_run_full:
  "map_option status (run_inputs (sample_ci None) [(''postgres'', sample_ref)] ''s'' (sample_exceptions ''openssl'')) = Some 0"
  "fst (chosen_mode (sample_ci None)) = MODE_FULL"
  by code_simp+

lemma sample_run_gate:
  "map_option status (run_inputs (sample_ci (Some ''pull_request'')) [(''postgres'', sample_ref)] ''s'' (sample_exceptions ''zlib'')) = Some 0"
  "fst (chosen_mode (sample_ci (Some ''pull_request''))) = MODE_GATE"
  by code_simp+

theorem full_scan_green_witness:
  "\<exists>es p doc. exceptions_ok (sample_exceptions ''openssl'') 739620 es
     \<and> docker (sample_ci None) (scan_argv ''s'' sample_ref ''/tmp/grype-db'' (Some ''/tmp/grype-sbom-postgres-'')) = Some p
     \<and> stdout p = Inr (JObj doc) \<and> proven (JObj doc) sample_ref (Some ''postgres'') JNull"
proof -
  from sample_run_full(1) obtain out where "run_inputs (sample_ci None) [(''postgres'', sample_ref)] ''s'' (sample_exceptions ''openssl'') = Some out"
      "status out = 0" by (auto simp: map_option_case split: option.splits)
  from full_scan_green [OF this sample_run_full(2), of "''postgres''" sample_ref] show ?thesis
    by (auto simp: sample_ci_def sample_world_def world.defs ci.defs read_sbom_def)
qed

theorem comparison_green_witness:
  "\<exists>base bdoc. base_scanned (sample_ci (Some ''pull_request'')) ''postgres'' sample_ref base bdoc"
proof -
  from sample_run_gate(1) obtain out where r: "run_inputs (sample_ci (Some ''pull_request'')) [(''postgres'', sample_ref)] ''s'' (sample_exceptions ''zlib'') = Some out"
      "status out = 0" by (auto simp: map_option_case split: option.splits)
  obtain reason base_old where m: "chosen_mode (sample_ci (Some ''pull_request'')) = (MODE_GATE, reason, base_old)"
    using sample_run_gate(2) by (cases "chosen_mode (sample_ci (Some ''pull_request''))") auto
  have b: "base_reads (sample_ci (Some ''pull_request'')) = Some ([(''postgres'', sample_ref)], ''s'')"
    by (simp add: sample_ci_def sample_world_def world.defs ci.defs)
  from comparison_green [OF r m, of "''postgres''" sample_ref] show ?thesis unfolding b by auto
qed

end
