(* ===== verification/Inspect_Guard.thy ===== *)
theory Inspect_Guard
  imports Stack_Config
begin

text \<open>
  The check of the running containers, \<^verbatim>\<open>inspect_problems\<close> of \<^verbatim>\<open>deploy/compose/stackguards.py\<close>: what
  \<^verbatim>\<open>docker inspect\<close> prints after the start is compared with the same tables as the configuration, so that a
  stack edited by hand is caught too. A container is a JSON object; \<^term>\<open>None\<close> is an uncaught exception.
\<close>


section \<open>Keycloak\<close>

definition mount_dicts :: "dict \<Rightarrow> dict list option" where
  "mount_dicts container =
     map_option (List.map_filter (\<lambda>m. case m of JObj d \<Rightarrow> Some d | _ \<Rightarrow> None)) (py_iter (dget container ''Mounts''))"

definition by_destination :: "dict list \<Rightarrow> (string \<times> dict) list" where
  "by_destination mounts = dict_of (map (\<lambda>m. (normpath (str_get m ''Destination'' ''''), m)) mounts)"

definition expected_mount_problems :: "(string \<times> dict) list \<Rightarrow> string \<Rightarrow> string \<Rightarrow> string list" where
  "expected_mount_problems by_dest target source =
     (case map_of by_dest target of
        None \<Rightarrow> []
      | Some mount \<Rightarrow>
          if str_get mount ''Type'' ''None'' \<noteq> ''bind'' then [fmt ''keycloak container: %s is not a bind mount'' [target]]
          else msg_if (dget mount ''RW'' \<noteq> JBool False) (fmt ''keycloak container: %s is not read-only'' [target])
            @ msg_if (\<not> py_endswith (replace_all [CHR 0x5C] ''/'' (str_get mount ''Source'' '''')) (drop 1 source))
                (fmt ''keycloak container: the host file behind %s is not the assembled one'' [target]))"

definition keycloak_binds :: "(string \<times> string) list" where
  "keycloak_binds = (case map_of BIND_MOUNTS ''keycloak'' of Some m \<Rightarrow> m | None \<Rightarrow> [])"

definition keycloak_inspect_problems :: "dict \<Rightarrow> string list option" where
  "keycloak_inspect_problems container =
     map_option (\<lambda>mounts.
       let by_dest = by_destination mounts;
           binds = map fst (filter (\<lambda>(d, m). str_get m ''Type'' ''None'' = ''bind'' \<and> \<not> py_startswith d ''/run/secrets/'') by_dest)
       in msg_if (filter under_import_dir (dkeys by_dest) \<noteq> [REALM_TARGET])
            ''keycloak container: exactly one mount may sit in the realm import folder, and it must be the production realm file''
          @ msg_if (\<not> same_set binds (map snd keycloak_binds @ [CADDY_ROOT_TARGET]))
              ''keycloak container: bind destinations differ from the mount table''
          @ concat (map (\<lambda>(source, target). expected_mount_problems by_dest target source) keycloak_binds))
       (mount_dicts container)"


section \<open>One container\<close>

text \<open>The service of a container of the stack, or the message that skips the container.\<close>

definition container_labels :: "dict \<Rightarrow> dict option" where
  "container_labels container = Option.bind (or_path (JObj container) [''Config'', ''Labels'']) or_dict"

definition container_service :: "dict \<Rightarrow> (string + string) option" where
  "container_service container =
     do { labels \<leftarrow> container_labels container;
          let service = (case map_of labels ''com.docker.compose.service'' of None \<Rightarrow> JStr ''?'' | Some v \<Rightarrow> v);
          Some (if dget labels ''com.docker.compose.project'' \<noteq> JStr STACK_NAME
                then Inl ''a container of another project is on the stack''
                else if service \<notin> set (map JStr EXPECTED_SERVICES)
                then Inl (fmt ''unknown container for service %s'' [py_str service])
                else Inr (py_str service)) }"

text \<open>\<^verbatim>\<open>set(v or {})\<close> for a JSON value.\<close>

definition json_set :: "json \<Rightarrow> json list option" where
  "json_set v = do { xs \<leftarrow> py_iter v; if list_all hashable xs then Some xs else None }"

text \<open>\<^verbatim>\<open>[(b.get("HostIp"), b.get("HostPort")) for b in v]\<close>, where \<open>v\<close> itself must be iterable.\<close>

definition host_bindings :: "json \<Rightarrow> (json \<times> json) list option" where
  "host_bindings v =
     (if is_list v \<or> is_obj v \<or> is_str v then
        do { xs \<leftarrow> py_iter v;
             map_opt (\<lambda>b. map_option (\<lambda>d. (dget d ''HostIp'', dget d ''HostPort'')) (as_dict b)) xs }
      else None)"

definition binding_problems :: "json \<Rightarrow> string \<Rightarrow> string \<Rightarrow> string option \<Rightarrow> string list option" where
  "binding_problems bindings bind_addr key wanted =
     (case wanted of
        None \<Rightarrow> Some []
      | Some port \<Rightarrow>
          do { d \<leftarrow> as_dict bindings;
               v \<leftarrow> map_of d key;
               bs \<leftarrow> host_bindings v;
               Some (msg_if (bs \<noteq> [(JStr bind_addr, JStr port)])
                 (fmt (''caddy'' @ [CHR 0x27] @ ''s published %s is not the configured bind address and port'') [key])) })"

definition published_problems ::
  "string option \<Rightarrow> string option \<Rightarrow> string option \<Rightarrow> string \<Rightarrow> json \<Rightarrow> string list option" where
  "published_problems bind_addr port admin_port service bindings =
     (if service = ''caddy'' then
        do { keys \<leftarrow> json_set bindings;
             if set keys \<noteq> {JStr ''8443/tcp'', JStr ''8444/tcp''} then Some [''caddy must publish 8443/tcp and 8444/tcp only'']
             else case bind_addr of
               None \<Rightarrow> Some []
             | Some b \<Rightarrow> both (binding_problems bindings b ''8443/tcp'' port) (binding_problems bindings b ''8444/tcp'' admin_port) }
      else Some (msg_if (truthy bindings) (fmt ''service %s publishes a port'' [service])))"

definition HOST_MODES :: "string list" where
  "HOST_MODES = [''NetworkMode'', ''PidMode'', ''IpcMode'', ''UsernsMode'', ''UTSMode'']"

definition isolation_messages :: "string \<Rightarrow> dict \<Rightarrow> string list option" where
  "isolation_messages service host =
     do { dropped \<leftarrow> py_iter (dget host ''CapDrop'');
          opts \<leftarrow> py_iter (dget host ''SecurityOpt'');
          Some (msg_if (truthy (dget host ''Privileged'')) (fmt ''service %s runs privileged'' [service])
            @ msg_if (truthy (dget host ''CapAdd'')) (fmt ''service %s has added capabilities'' [service])
            @ msg_if (''ALL'' \<notin> set (map (\<lambda>c. upper (py_str c)) dropped)) (fmt ''service %s does not drop ALL capabilities'' [service])
            @ msg_if (\<not> list_ex (\<lambda>x. py_startswith (py_str x) ''no-new-privileges'') opts)
                (fmt ''service %s lacks no-new-privileges'' [service])
            @ concat (map (\<lambda>f. msg_if (py_str (py_or (dget host f) (JStr '''')) = ''host'')
                (fmt ''service %s uses the host namespace (%s)'' [service, f])) HOST_MODES)
            @ msg_if (truthy (dget host ''Devices'')) (fmt ''service %s has devices'' [service])) }"

text \<open>The host side of every bind and mount.\<close>

definition mount_sources :: "dict \<Rightarrow> dict \<Rightarrow> string list option" where
  "mount_sources container host =
     do { binds \<leftarrow> py_iter (dget host ''Binds'');
          mounts \<leftarrow> py_iter (dget container ''Mounts'');
          ds \<leftarrow> map_opt as_dict mounts;
          Some (map py_str binds @ map (\<lambda>m. str_get m ''Source'' '''') ds) }"

definition container_networks :: "dict \<Rightarrow> json list option" where
  "container_networks container = Option.bind (or_path (JObj container) [''NetworkSettings'', ''Networks'']) json_set"

definition wanted_networks :: "string \<Rightarrow> string list" where
  "wanted_networks service =
     map (\<lambda>n. STACK_NAME @ ''_'' @ n) (case map_of EXPECTED_NETWORKS service of Some ns \<Rightarrow> ns | None \<Rightarrow> [])"

definition container_problems ::
  "string option \<Rightarrow> string option \<Rightarrow> string option \<Rightarrow> dict \<Rightarrow> string \<Rightarrow> string list option" where
  "container_problems bind_addr port admin_port container service =
     do { host \<leftarrow> or_dict (dget container ''HostConfig'');
          isolation \<leftarrow> isolation_messages service host;
          sources \<leftarrow> mount_sources container host;
          published \<leftarrow> published_problems bind_addr port admin_port service (py_or (dget host ''PortBindings'') (JObj []));
          networks \<leftarrow> container_networks container;
          kc \<leftarrow> (if service = ''keycloak'' then keycloak_inspect_problems container else Some []);
          Some (isolation
            @ msg_if (list_ex (py_in ''docker.sock'') sources) (fmt ''service %s mounts the Docker socket'' [service])
            @ published
            @ msg_if (set networks \<noteq> set (map JStr (wanted_networks service))) (fmt ''service %s is on unexpected networks'' [service])
            @ kc) }"


section \<open>All containers\<close>

definition inspect_container :: "string option \<Rightarrow> string option \<Rightarrow> string option \<Rightarrow> dict \<Rightarrow> string list option" where
  "inspect_container bind_addr port admin_port container =
     do { r \<leftarrow> container_service container;
          (case r of
             Inl m \<Rightarrow> Some [m]
           | Inr service \<Rightarrow> container_problems bind_addr port admin_port container service) }"

definition seen_services :: "dict list \<Rightarrow> string list" where
  "seen_services cs = List.map_filter (\<lambda>c. case container_service c of Some (Inr s) \<Rightarrow> Some s | _ \<Rightarrow> None) cs"

definition inspect_problems ::
  "json list \<Rightarrow> string option \<Rightarrow> string option \<Rightarrow> string option \<Rightarrow> string list option" where
  "inspect_problems containers bind_addr port admin_port =
     do { cs \<leftarrow> map_opt as_dict containers;
          ms \<leftarrow> collect (inspect_container bind_addr port admin_port) cs;
          Some (ms @ map (\<lambda>s. fmt ''service %s has no container'' [s])
            (filter (\<lambda>s. s \<notin> set (seen_services cs)) (sorted_set EXPECTED_SERVICES))) }"


section \<open>What an accepted stack is\<close>

text \<open>A container of the stack that runs a service, by its labels.\<close>

definition runs :: "dict \<Rightarrow> string \<Rightarrow> bool" where
  "runs c s \<longleftrightarrow> (\<exists>labels. container_labels c = Some labels
     \<and> map_of labels ''com.docker.compose.project'' = Some (JStr STACK_NAME)
     \<and> map_of labels ''com.docker.compose.service'' = Some (JStr s))"

text \<open>The published ports: container port, host address, host port.\<close>

definition published :: "dict \<Rightarrow> (string \<times> json \<times> json) set" where
  "published c = {(k, ip, p). \<exists>host d v bs. or_dict (dget c ''HostConfig'') = Some host \<and> dget host ''PortBindings'' = JObj d
     \<and> map_of d k = Some v \<and> host_bindings v = Some bs \<and> (ip, p) \<in> set bs}"

text \<open>No privilege, no device, no host namespace, no Docker socket.\<close>

definition confined :: "dict \<Rightarrow> bool" where
  "confined c \<longleftrightarrow> (\<exists>host. or_dict (dget c ''HostConfig'') = Some host
     \<and> \<not> truthy (dget host ''Privileged'') \<and> \<not> truthy (dget host ''CapAdd'') \<and> \<not> truthy (dget host ''Devices'')
     \<and> (\<exists>caps. py_iter (dget host ''CapDrop'') = Some caps \<and> (\<exists>x\<in>set caps. upper (py_str x) = ''ALL''))
     \<and> (\<exists>opts. py_iter (dget host ''SecurityOpt'') = Some opts \<and> (\<exists>x\<in>set opts. py_startswith (py_str x) ''no-new-privileges''))
     \<and> (\<forall>f\<in>set HOST_MODES. dget host f \<noteq> JStr ''host'')
     \<and> (\<exists>sources. mount_sources c host = Some sources \<and> (\<forall>x\<in>set sources. \<not> py_in ''docker.sock'' x)))"

text \<open>The mounts of the Keycloak container: one mount in the import folder, the read-only production realm file, and no
  bind outside the table.\<close>

definition realm_mount :: "dict \<Rightarrow> bool" where
  "realm_mount m \<longleftrightarrow> normpath (str_get m ''Destination'' '''') = REALM_TARGET \<and> str_get m ''Type'' ''None'' = ''bind''
     \<and> dget m ''RW'' = JBool False
     \<and> py_endswith (replace_all [CHR 0x5C] ''/'' (str_get m ''Source'' '''')) (drop 1 REALM_SOURCE)"

definition keycloak_mounts :: "dict \<Rightarrow> bool" where
  "keycloak_mounts c \<longleftrightarrow> (\<exists>ms. mount_dicts c = Some ms \<and> (\<exists>m\<in>set ms. realm_mount m)
     \<and> (\<forall>m\<in>set ms. under_import_dir (normpath (str_get m ''Destination'' ''''))
          \<longrightarrow> normpath (str_get m ''Destination'' '''') = REALM_TARGET))"

lemma dict_of_map_of: "map_of (foldl (\<lambda>d (k, v). dset d k v) d kvs) k = (case map_of (rev kvs) k of None \<Rightarrow> map_of d k | Some v \<Rightarrow> Some v)"
  by (induction kvs arbitrary: d) (auto simp: map_add_Some_iff split: option.splits)

lemma map_of_dict_of: "map_of (dict_of kvs) k = map_of (rev kvs) k"
  by (simp add: dict_of_def dict_of_map_of split: option.splits)

lemma dkeys_dict_of: "set (dkeys (dict_of kvs)) = fst ` set kvs"
proof -
  have "set (dkeys (dict_of kvs)) = dom (map_of (dict_of kvs))" unfolding dkeys_def by (simp add: dom_map_of_conv_image_fst)
  also have "\<dots> = dom (map_of (rev kvs))" unfolding dom_def map_of_dict_of ..
  also have "\<dots> = fst ` set kvs" by (simp add: dom_map_of_conv_image_fst)
  finally show ?thesis .
qed

lemma realm_in_binds: "(REALM_SOURCE, REALM_TARGET) \<in> set keycloak_binds"
  by (simp add: keycloak_binds_def BIND_MOUNTS_def)

lemma keycloak_inspect_sound: "keycloak_inspect_problems c = Some [] \<Longrightarrow> keycloak_mounts c"
proof -
  assume "keycloak_inspect_problems c = Some []"
  then obtain ms where ms: "mount_dicts c = Some ms" and imp: "filter under_import_dir (dkeys (by_destination ms)) = [REALM_TARGET]"
    and exp: "\<forall>(source, target)\<in>set keycloak_binds. expected_mount_problems (by_destination ms) target source = []"
    by (auto simp: keycloak_inspect_problems_def Let_def)
  have dests: "set (dkeys (by_destination ms)) = (\<lambda>m. normpath (str_get m ''Destination'' '''')) ` set ms"
    by (auto simp: by_destination_def dkeys_dict_of image_image)
  have "REALM_TARGET \<in> set (dkeys (by_destination ms))" using arg_cong [OF imp, of set] by auto
  then obtain m where m: "map_of (by_destination ms) REALM_TARGET = Some m"
    by (auto simp: dhas_iff [symmetric] dhas_def)
  then have mem: "m \<in> set ms" "normpath (str_get m ''Destination'' '''') = REALM_TARGET"
    by (auto simp: by_destination_def map_of_dict_of dest!: map_of_SomeD)
  have "expected_mount_problems (by_destination ms) REALM_TARGET REALM_SOURCE = []" using exp realm_in_binds by blast
  with m mem have "realm_mount m" by (auto simp: expected_mount_problems_def realm_mount_def split: if_splits)
  moreover have "normpath (str_get x ''Destination'' '''') = REALM_TARGET"
    if "x \<in> set ms" "under_import_dir (normpath (str_get x ''Destination'' ''''))" for x
  proof -
    have "normpath (str_get x ''Destination'' '''') \<in> set (filter under_import_dir (dkeys (by_destination ms)))"
      using that by (simp add: dests)
    then show ?thesis by (simp only: imp) simp
  qed
  ultimately show ?thesis using ms mem by (auto simp: keycloak_mounts_def)
qed

lemma published_sound:
  assumes "or_dict (dget c ''HostConfig'') = Some host"
    "published_problems (Some b) (Some p) (Some a) s (py_or (dget host ''PortBindings'') (JObj [])) = Some []"
  shows "published c = (if s = ''caddy'' then {(''8443/tcp'', JStr b, JStr p), (''8444/tcp'', JStr b, JStr a)} else {})"
proof (cases "s = ''caddy''")
  case True
  let ?v = "py_or (dget host ''PortBindings'') (JObj [])"
  from assms(2) True obtain keys where k: "json_set ?v = Some keys" "set keys = {JStr ''8443/tcp'', JStr ''8444/tcp''}"
    "binding_problems ?v b ''8443/tcp'' (Some p) = Some []" "binding_problems ?v b ''8444/tcp'' (Some a) = Some []"
    by (auto simp: published_problems_def bind_eq_Some_conv split: if_splits)
  then obtain d v w where d: "?v = JObj d" "map_of d ''8443/tcp'' = Some v" "host_bindings v = Some [(JStr b, JStr p)]"
    "map_of d ''8444/tcp'' = Some w" "host_bindings w = Some [(JStr b, JStr a)]"
    by (auto simp: binding_problems_def bind_eq_Some_conv)
  from d(1,2) have obj: "dget host ''PortBindings'' = JObj d" by (auto simp: py_or_def split: if_splits)
  have only: "k \<in> {''8443/tcp'', ''8444/tcp''}" if "map_of d k = Some x" for k x
  proof -
    have "d \<noteq> []" using d(2) by auto
    then have "keys = map JStr (dkeys d)" using k(1) d(1) by (auto simp: json_set_def py_iter_def bind_eq_Some_conv split: if_splits)
    moreover have "k \<in> set (dkeys d)" using that by (auto simp: dkeys_def dest: map_of_SomeD intro: image_eqI [of _ fst "(k, x)"])
    ultimately have "JStr k \<in> set keys" by simp
    with k(2) show ?thesis by simp
  qed
  have mem: "(k, ip, q) \<in> published c \<longleftrightarrow> (\<exists>x bs. map_of d k = Some x \<and> host_bindings x = Some bs \<and> (ip, q) \<in> set bs)" for k ip q
    using assms(1) obj by (simp add: published_def)
  have "(k, ip, q) \<in> published c \<longleftrightarrow>
      k = ''8443/tcp'' \<and> ip = JStr b \<and> q = JStr p \<or> k = ''8444/tcp'' \<and> ip = JStr b \<and> q = JStr a" for k ip q
  proof -
    consider "k = ''8443/tcp''" | "k = ''8444/tcp''" | "map_of d k = None" "k \<noteq> ''8443/tcp''" "k \<noteq> ''8444/tcp''"
      using only [of k] by (cases "map_of d k") auto
    then show ?thesis
    proof cases
      case 1 then show ?thesis unfolding mem using d(2,3) by simp
    next
      case 2 then show ?thesis unfolding mem using d(4,5) by simp
    next
      case 3 then show ?thesis unfolding mem by simp
    qed
  qed
  then show ?thesis using True by (intro set_eqI) (simp add: split_paired_all)
next
  case False
  with assms(2) have "\<not> truthy (dget host ''PortBindings'')" by (auto simp: published_problems_def py_or_def split: if_splits)
  then show ?thesis using False assms(1) by (auto simp: published_def)
qed

lemma inspect_container_Nil:
  "inspect_container b p a c = Some [] \<longleftrightarrow> (\<exists>s. container_service c = Some (Inr s) \<and> container_problems b p a c s = Some [])"
  by (cases "container_service c"; cases "the (container_service c)") (auto simp: inspect_container_def)

lemma set_seen_services: "s \<in> set (seen_services cs) \<longleftrightarrow> (\<exists>c\<in>set cs. container_service c = Some (Inr s))"
proof -
  have "(case x of Some (Inr s) \<Rightarrow> Some s | _ \<Rightarrow> None) = Some s \<longleftrightarrow> x = Some (Inr s)" for x :: "(string + string) option"
    by (cases x; cases "the x") auto
  then show ?thesis by (simp add: seen_services_def set_map_filter)
qed

lemma container_sound:
  assumes "inspect_container (Some b) (Some p) (Some a) c = Some []"
  obtains s where "container_service c = Some (Inr s)" "s \<in> set EXPECTED_SERVICES" "runs c s" "confined c"
    "published c = (if s = ''caddy'' then {(''8443/tcp'', JStr b, JStr p), (''8444/tcp'', JStr b, JStr a)} else {})"
    "\<exists>ns. container_networks c = Some ns \<and> set ns = set (map JStr (wanted_networks s))" "s = ''keycloak'' \<Longrightarrow> keycloak_mounts c"
proof -
  from assms obtain s where s: "container_service c = Some (Inr s)" "container_problems (Some b) (Some p) (Some a) c s = Some []"
    by (auto simp: inspect_container_Nil)
  from s(1) have r: "s \<in> set EXPECTED_SERVICES" "runs c s"
    by (auto simp: container_service_def runs_def bind_eq_Some_conv Let_def dget_def STACK_NAME_def EXPECTED_SERVICES_def
        split: if_splits option.splits)
  from s(2) obtain host where h: "or_dict (dget c ''HostConfig'') = Some host" "isolation_messages s host = Some []"
    "\<exists>src. mount_sources c host = Some src \<and> (\<forall>x\<in>set src. \<not> py_in ''docker.sock'' x)"
    "published_problems (Some b) (Some p) (Some a) s (py_or (dget host ''PortBindings'') (JObj [])) = Some []"
    "\<exists>ns. container_networks c = Some ns \<and> set ns = set (map JStr (wanted_networks s))"
    "s = ''keycloak'' \<longrightarrow> keycloak_inspect_problems c = Some []"
    by (auto simp: container_problems_def bind_eq_Some_conv list_ex_iff split: if_splits)
  have "dget host f \<noteq> JStr ''host''" if "py_str (py_or (dget host f) (JStr [])) \<noteq> ''host''" for f
    using that by (auto simp: py_or_def)
  with h(1,2,3) have "confined c"
    by (auto simp: confined_def isolation_messages_def bind_eq_Some_conv list_ex_iff guard_simps image_iff)
  with that [OF s(1) r this published_sound [OF h(1,4)] h(5)] keycloak_inspect_sound h(6) show thesis by blast
qed

text \<open>
  C30: When the check after the start reports nothing, every service of the stack has a container and every container
  is one of the stack's services: it is confined, is on exactly its networks, publishes nothing, or for caddy exactly
  the two configured addresses, and Keycloak's import folder holds the read-only production realm file and nothing
  else.
\<close>

theorem inspect_sound:
  assumes "inspect_problems cs (Some b) (Some p) (Some a) = Some []"
  shows "(\<forall>s\<in>set EXPECTED_SERVICES. \<exists>c. JObj c \<in> set cs \<and> runs c s)
    \<and> (\<forall>v\<in>set cs. \<exists>c s. v = JObj c \<and> s \<in> set EXPECTED_SERVICES \<and> runs c s \<and> confined c
        \<and> published c = (if s = ''caddy'' then {(''8443/tcp'', JStr b, JStr p), (''8444/tcp'', JStr b, JStr a)} else {})
        \<and> (\<exists>ns. container_networks c = Some ns \<and> set ns = set (map JStr (wanted_networks s)))
        \<and> (s = ''keycloak'' \<longrightarrow> keycloak_mounts c))"
proof -
  from assms obtain ds where ds: "map_opt as_dict cs = Some ds" "\<forall>c\<in>set ds. inspect_container (Some b) (Some p) (Some a) c = Some []"
    "\<forall>s\<in>set EXPECTED_SERVICES. s \<in> set (seen_services ds)"
    by (auto simp: inspect_problems_def bind_eq_Some_conv filter_empty_conv)
  from ds(1) have cs: "cs = map JObj ds" by (auto simp: map_opt_Some list_all2_conv_all_nth list_eq_iff_nth_eq)
  have "\<exists>c. JObj c \<in> set cs \<and> runs c s" if "s \<in> set EXPECTED_SERVICES" for s
  proof -
    from that ds(3) obtain c where c: "c \<in> set ds" "container_service c = Some (Inr s)"
      by (auto simp: set_seen_services)
    with ds(2) container_sound [of b p a c] have "runs c s" by (metis option.inject sum.inject(2))
    with c(1) cs show ?thesis by auto
  qed
  moreover have "\<exists>s. s \<in> set EXPECTED_SERVICES \<and> runs c s \<and> confined c
        \<and> published c = (if s = ''caddy'' then {(''8443/tcp'', JStr b, JStr p), (''8444/tcp'', JStr b, JStr a)} else {})
        \<and> (\<exists>ns. container_networks c = Some ns \<and> set ns = set (map JStr (wanted_networks s)))
        \<and> (s = ''keycloak'' \<longrightarrow> keycloak_mounts c)" if "c \<in> set ds" for c
    by (rule container_sound [OF bspec [OF ds(2) that]]) blast
  ultimately show ?thesis unfolding cs by auto
qed

definition sample_container :: "string \<Rightarrow> json \<Rightarrow> json list \<Rightarrow> json" where
  "sample_container s ports mounts = JObj [
     (''Config'', JObj [(''Labels'', JObj [(''com.docker.compose.project'', JStr STACK_NAME), (''com.docker.compose.service'', JStr s)])]),
     (''HostConfig'', JObj [(''CapDrop'', JList [JStr ''ALL'']), (''SecurityOpt'', JList [JStr ''no-new-privileges:true'']),
        (''NetworkMode'', JStr ''decisya_default''), (''PortBindings'', ports)]),
     (''Mounts'', JList mounts),
     (''NetworkSettings'', JObj [(''Networks'', JObj (map (\<lambda>n. (n, JObj [])) (wanted_networks s)))])]"

definition sample_bind :: "string \<Rightarrow> string \<Rightarrow> json" where
  "sample_bind src dst = JObj [(''Type'', JStr ''bind''), (''Source'', JStr src), (''Destination'', JStr dst), (''RW'', JBool False)]"

definition sample_port :: "string \<Rightarrow> json" where
  "sample_port p = JList [JObj [(''HostIp'', JStr ''192.0.2.10''), (''HostPort'', JStr p)]]"

definition sample_stack :: "json list" where
  "sample_stack =
     [sample_container ''caddy'' (JObj [(''8443/tcp'', sample_port ''443''), (''8444/tcp'', sample_port ''8444'')]) [],
      sample_container ''keycloak'' (JObj [])
        (sample_bind ''/srv/decisya/trust/caddy-root.crt'' CADDY_ROOT_TARGET
         # map (\<lambda>(source, target). sample_bind (''/srv/decisya'' @ drop 1 source) target) keycloak_binds)]
     @ map (\<lambda>s. sample_container s (JObj []) []) [''api'', ''bff'', ''migrator'', ''otel-collector'', ''postgres'', ''redis'']"

lemma sample_stack_ok: "inspect_problems sample_stack (Some ''192.0.2.10'') (Some ''443'') (Some ''8444'') = Some []"
  by code_simp

theorem inspect_sound_witness:
  "\<exists>c. JObj c \<in> set sample_stack \<and> runs c ''keycloak''"
proof -
  have "''keycloak'' \<in> set EXPECTED_SERVICES" by (simp add: EXPECTED_SERVICES_def)
  with inspect_sound [OF sample_stack_ok] show ?thesis by blast
qed

end
