(* ===== verification/Py_Url.thy ===== *)
theory Py_Url
  imports Py_Net Py_Json
begin

text \<open>
  \<^verbatim>\<open>urllib.parse.urlsplit\<close> and the attributes of its result that the scripts read: scheme, path, user information,
  host name and port. \<^term>\<open>None\<close> is the \<^verbatim>\<open>ValueError\<close> of the library. The NFKC check of the network location never refuses a
  text whose characters are below 256, so it has no counterpart here.
\<close>


section \<open>Splitting\<close>

record split_url =
  url_scheme :: string
  url_netloc :: string
  url_path_part :: string

definition scheme_char :: "char \<Rightarrow> bool" where
  "scheme_char c \<longleftrightarrow> is_alnum_ascii c \<or> c \<in> {CHR ''+'', CHR ''-'', CHR ''.''}"

definition netloc_end :: "char \<Rightarrow> bool" where
  "netloc_end c \<longleftrightarrow> c \<in> {CHR ''/'', CHR ''?'', CHR ''#''}"

definition clean_url :: "string \<Rightarrow> string" where
  "clean_url url = filter (\<lambda>c. ccode c \<notin> {9, 10, 13}) (dropWhile (\<lambda>c. ccode c \<le> 32) url)"

definition split_scheme :: "string \<Rightarrow> string \<times> string" where
  "split_scheme url =
     (case cut_at '':'' url of
        Some (s, rest) \<Rightarrow> if s \<noteq> [] \<and> is_alpha_ascii (hd s) \<and> list_all scheme_char s then (lower s, rest) else ([], url)
      | None \<Rightarrow> ([], url))"

definition is_hex_char :: "char \<Rightarrow> bool" where
  "is_hex_char c \<longleftrightarrow> is_digit c \<or> in_range 97 102 c \<or> in_range 65 70 c"

definition VFUTURE_RE :: rx where
  "VFUTURE_RE = rseq [rchr CHR ''v'', rplus (RSet is_hex_char), rchr CHR ''.'', rplus rdot]"

definition bracketed_host_ok :: "string \<Rightarrow> bool" where
  "bracketed_host_ok h \<longleftrightarrow>
     (if py_startswith h ''v'' then fullmatches VFUTURE_RE h
      else (case v6_scope h of Some (a, sc) \<Rightarrow> ipv6_of a \<noteq> None | None \<Rightarrow> False))"

definition after_at :: "string \<Rightarrow> string" where
  "after_at netloc = (case rcut ''@'' netloc of None \<Rightarrow> netloc | Some (u, h) \<Rightarrow> h)"

definition brackets_ok :: "string \<Rightarrow> bool" where
  "brackets_ok netloc \<longleftrightarrow>
     (CHR ''['' \<in> set netloc \<longleftrightarrow> CHR '']'' \<in> set netloc)
     \<and> (CHR ''['' \<in> set netloc \<longrightarrow>
          (case partition_at ''['' (after_at netloc) of
             (before, True, bracketed) \<Rightarrow>
               (case partition_at '']'' bracketed of (h, f, port) \<Rightarrow>
                  before = [] \<and> (port = [] \<or> py_startswith port '':'') \<and> bracketed_host_ok h)
           | (_, False, _) \<Rightarrow> bracketed_host_ok (split_head '':'' (after_at netloc))))"

definition urlsplit :: "string \<Rightarrow> split_url option" where
  "urlsplit url0 =
     (case split_scheme (clean_url url0) of (scheme, rest) \<Rightarrow>
        let (netloc, tail) = (if py_startswith rest ''//'' then (takeWhile (Not \<circ> netloc_end) (drop 2 rest), dropWhile (Not \<circ> netloc_end) (drop 2 rest))
              else ([], rest))
        in if \<not> brackets_ok netloc then None
           else Some \<lparr> url_scheme = scheme, url_netloc = netloc, url_path_part = split_head ''?'' (split_head ''#'' tail) \<rparr>)"


section \<open>Attributes\<close>

text \<open>\<^verbatim>\<open>_hostinfo\<close>: the host and the port text, both possibly empty.\<close>

definition hostinfo :: "string \<Rightarrow> string \<times> string" where
  "hostinfo netloc =
     (case partition_at ''['' (after_at netloc) of
        (_, True, bracketed) \<Rightarrow> (case partition_at '']'' bracketed of (h, _, p) \<Rightarrow> (case partition_at '':'' p of (_, _, port) \<Rightarrow> (h, port)))
      | (_, False, _) \<Rightarrow> (case partition_at '':'' (after_at netloc) of (h, _, port) \<Rightarrow> (h, port)))"

definition url_hostname :: "split_url \<Rightarrow> string option" where
  "url_hostname u =
     (case fst (hostinfo (url_netloc u)) of
        [] \<Rightarrow> None
      | h \<Rightarrow> (case cut_at ''%'' h of None \<Rightarrow> Some (lower h) | Some (a, zone) \<Rightarrow> Some (lower a @ ''%'' @ zone)))"

text \<open>The port: \<^term>\<open>None\<close> raises, \<^term>\<open>Some None\<close> is no port.\<close>

definition url_port :: "split_url \<Rightarrow> int option option" where
  "url_port u =
     (case snd (hostinfo (url_netloc u)) of
        [] \<Rightarrow> Some None
      | p \<Rightarrow> if list_all is_digit p \<and> length p \<le> 4300 \<and> digits_val p \<le> 65535 then Some (Some (digits_val p)) else None)"

definition has_userinfo :: "split_url \<Rightarrow> bool" where
  "has_userinfo u \<longleftrightarrow> CHR ''@'' \<in> set (url_netloc u)"


section \<open>Facts\<close>

lemma char_lower_alpha: "is_alpha_ascii (char_lower c) \<Longrightarrow> is_alpha_ascii c"
proof -
  have "ccode c < 256" by (simp add: ccode_def)
  then show "is_alpha_ascii (char_lower c) \<Longrightarrow> is_alpha_ascii c"
    by (auto simp: char_lower_def is_alpha_ascii_def is_upper_az_def is_lower_az_def in_range_def ccode_def split: if_splits)
qed

lemma lower_alpha: "list_all is_alpha_ascii (lower w) \<Longrightarrow> list_all is_alpha_ascii w"
  by (auto simp: list_all_iff lower_def char_lower_alpha)

lemma alpha_chars:
  assumes "is_alpha_ascii c"
  shows "scheme_char c" "\<not> netloc_end c" "c \<notin> {CHR '':'', CHR ''@'', CHR ''['', CHR '']'', CHR ''%''}"
  using assms by (auto simp: scheme_char_def is_alnum_ascii_def netloc_end_def is_alpha_ascii_def is_upper_az_def is_lower_az_def
      in_range_def ccode_def)

lemma digit_chars:
  assumes "is_digit c"
  shows "\<not> netloc_end c" "c \<notin> {CHR '':'', CHR ''@'', CHR ''['', CHR '']'', CHR ''%''}"
  using assms by (auto simp: netloc_end_def is_digit_def in_range_def ccode_def)

lemma clean_url_id: "list_all (\<lambda>c. 32 < ccode c) url \<Longrightarrow> clean_url url = url"
proof -
  assume a: "list_all (\<lambda>c. 32 < ccode c) url"
  then have "dropWhile (\<lambda>c. ccode c \<le> 32) url = url" by (cases url) auto
  with a show ?thesis by (auto simp: clean_url_def list_all_iff filter_id_conv)
qed

lemma cut_at_none_char: "c \<notin> set s \<longleftrightarrow> cut_at [c] s = None"
  by (simp add: cut_at_None sublist_single)

lemma partition_at_char: "d \<notin> set a \<Longrightarrow> partition_at [d] (a @ d # b) = (a, True, b)"
  by (simp add: partition_at_def cut_at_char)

lemma partition_at_none: "d \<notin> set a \<Longrightarrow> partition_at [d] a = (a, False, [])"
  by (simp add: partition_at_def cut_at_none_char)

lemma cut_at_char_iff: "cut_at [d] s = Some (a, b) \<longleftrightarrow> s = a @ d # b \<and> d \<notin> set a"
proof
  assume "cut_at [d] s = Some (a, b)"
  moreover from this have "s = a @ [d] @ b" by (intro cut_at_SomeD) auto
  moreover have "d \<notin> set a" if "cut_at [d] (a @ d # b) = Some (a, b)"
  proof
    assume "d \<in> set a"
    then obtain u v where "a = u @ d # v" "d \<notin> set u" by (meson split_list_first)
    with that cut_at_char [of d u "v @ d # b"] show False by simp
  qed
  ultimately show "s = a @ d # b \<and> d \<notin> set a" by simp
qed (simp add: cut_at_char)

lemma after_at_id: "CHR ''@'' \<notin> set n \<Longrightarrow> after_at n = n"
proof -
  assume "CHR ''@'' \<notin> set n"
  then have "cut_at ''@'' (rev n) = None" using cut_at_none_char [of "CHR ''@''" "rev n"] by simp
  then show ?thesis by (simp add: after_at_def rcut_def)
qed

text \<open>A host without a colon is no IPv6 address, so brackets cannot hide a plain name.\<close>

lemma ipv6_needs_colon: "CHR '':'' \<notin> set h \<Longrightarrow> ipv6_of h = None"
  using split_on_not_in [of "CHR '':''" h] by (simp add: ipv6_of_def v6_parts_def Let_def)

lemma bracketed_name_refused:
  assumes "lower h = ''localhost''"
  shows "\<not> bracketed_host_ok h"
proof -
  have a: "list_all is_alpha_ascii h" by (rule lower_alpha) (simp add: assms is_alpha_ascii_def is_lower_az_def in_range_def ccode_def)
  have "\<not> prefix ''v'' h"
  proof
    assume "prefix ''v'' h"
    then obtain t where "h = CHR ''v'' # t" by (auto simp: prefix_def)
    with assms show False by (simp add: char_lower_def is_upper_az_def in_range_def ccode_def)
  qed
  moreover have "CHR '':'' \<notin> set h" "CHR ''%'' \<notin> set h" using a alpha_chars(3) by (auto simp: list_all_iff)
  then have "v6_scope h = Some (h, [])" "ipv6_of h = None"
    using ipv6_needs_colon cut_at_none_char [of "CHR ''%''" h] by (simp_all add: v6_scope_def)
  ultimately show ?thesis by (simp add: bracketed_host_ok_def)
qed

end
