(* ===== verification/Zap_Policy.thy ===== *)
theory Zap_Policy
  imports Scan_Inputs Py_Url
begin

text \<open>
  The verdict on the ZAP baseline scan, \<^verbatim>\<open>.github/scripts/zap_policy.py\<close>: the origin of a URL, the exceptions file, the
  evaluation of the report and the exit status. The text helpers \<^verbatim>\<open>neutralize\<close>, \<^verbatim>\<open>md_cell\<close> and \<^verbatim>\<open>emit_protected\<close> and the
  patterns for dates and issues are the same text as in \<^verbatim>\<open>image_scan.py\<close> and are the definitions of Scan\_Inputs.
  The files are arguments: \<^term>\<open>Inl\<close> is the class name of the OSError or ValueError that reading raised.
\<close>


section \<open>Constants\<close>

definition ORIGIN :: "string \<times> string \<times> int" where
  "ORIGIN = (''https'', ''localhost'', 7200)"

definition REQUIRED_PATHS :: "string list" where
  "REQUIRED_PATHS = [''/'', ''/bff/me'']"

definition OK_ZAP_EXIT_CODES :: "int list" where
  "OK_ZAP_EXIT_CODES = [0, 1, 2]"

definition MEDIUM :: int where
  "MEDIUM = 2"

definition HIGH :: int where
  "HIGH = 3"

definition RISK_NAMES :: "(int \<times> string) list" where
  "RISK_NAMES = [(0, ''Informational''), (1, ''Low''), (2, ''Medium''), (3, ''High'')]"

definition MAX_ZAP_EXCEPTION_DAYS :: int where
  "MAX_ZAP_EXCEPTION_DAYS = 90"

definition MAX_URL_LINES :: int where
  "MAX_URL_LINES = 200000"

definition MAX_REPORT_BYTES :: int where
  "MAX_REPORT_BYTES = 256 * 1024 * 1024"

definition PLUGIN_BODY :: rx where
  "PLUGIN_BODY = rplus rdigit"

definition PLUGIN_RE :: rx where
  "PLUGIN_RE = rseq [RBol, PLUGIN_BODY, REol]"

definition ZAP_ENTRY_KEYS :: "string list" where
  "ZAP_ENTRY_KEYS = [''pluginId'', ''path'', ''justification'', ''issue'', ''added'', ''expires'']"


section \<open>Origins and paths\<close>

definition parse_origin :: "json \<Rightarrow> (string \<times> string \<times> int) option" where
  "parse_origin v =
     (case v of
        JStr url \<Rightarrow>
          if url = [] \<or> url \<noteq> strip url \<or> list_ex (\<lambda>c. ccode c < 0x21 \<or> ccode c = 0x7F) url then None
          else
            do { parts \<leftarrow> urlsplit url;
                 port \<leftarrow> url_port parts;
                 if has_userinfo parts then None
                 else if url_scheme parts = [] then None
                 else
                   do { host \<leftarrow> url_hostname parts;
                        n \<leftarrow> (case port of Some n \<Rightarrow> Some n | None \<Rightarrow> map_of [(''https'', 443), (''http'', 80)] (url_scheme parts));
                        Some (url_scheme parts, host, n) } }
      | _ \<Rightarrow> None)"

definition is_bff_origin :: "json \<Rightarrow> bool" where
  "is_bff_origin v \<longleftrightarrow> parse_origin v = Some ORIGIN"

definition url_path :: "string \<Rightarrow> string option" where
  "url_path url = map_option (\<lambda>parts. if url_path_part parts = [] then ''/'' else url_path_part parts) (urlsplit url)"

definition path_covered :: "string \<Rightarrow> string \<Rightarrow> bool" where
  "path_covered rule_path uri_path =
     (if py_endswith rule_path ''/'' then py_startswith uri_path rule_path else uri_path = rule_path)"


section \<open>The exceptions file\<close>

record zap_entry =
  z_plugin :: string
  z_path :: string
  z_justification :: string
  z_issue :: string
  z_added :: string
  z_expires :: string
  z_added_date :: int
  z_expires_date :: int

type_synonym zap_ident = "string \<times> string"

definition zap_path_ok :: "string \<Rightarrow> bool" where
  "zap_path_ok p \<longleftrightarrow>
     py_startswith p ''/'' \<and> p \<noteq> ''/'' \<and> \<not> list_ex (\<lambda>c. c \<in> set p) [CHR ''?'', CHR ''#'', CHR ''*''] \<and> \<not> list_ex (\<lambda>c. ccode c < 0x21) p"

definition zap_text_errors :: "string \<Rightarrow> (string \<Rightarrow> string) \<Rightarrow> string list" where
  "zap_text_errors where v =
     msg_if (\<not> matches PLUGIN_RE (v ''pluginId'')) (fmt ''%s: pluginId must be a digit string'' [where])
     @ msg_if (\<not> zap_path_ok (v ''path''))
         (fmt (''%s: path must be an exact path or a prefix ending in '' @ [CHR 0x27] @ ''/'' @ [CHR 0x27] @ '', never '' @ [CHR 0x27] @ ''/'' @ [CHR 0x27]
               @ '' alone, with no query, glob or whitespace'') [where])
     @ msg_if (length (strip (v ''justification'')) < 20) (fmt ''%s: justification must be at least 20 characters'' [where])
     @ msg_if (\<not> matches ISSUE_RE (v ''issue'')) (fmt ''%s: issue must look like #123'' [where])"

definition zap_order_errors :: "int \<Rightarrow> string \<Rightarrow> string + int \<Rightarrow> string + int \<Rightarrow> string list" where
  "zap_order_errors today where added expires =
     (case added of
        Inl _ \<Rightarrow> []
      | Inr a \<Rightarrow>
          msg_if (today < a) (fmt ''%s: added is in the future'' [where])
          @ (case expires of
               Inl _ \<Rightarrow> []
             | Inr x \<Rightarrow>
                 if x < a then [fmt ''%s: expires is before added'' [where]]
                 else msg_if (MAX_ZAP_EXCEPTION_DAYS < x - a)
                   (fmt ''%s: expires is more than %d days after added'' [where, show_int MAX_ZAP_EXCEPTION_DAYS])))"

definition zap_value_errors :: "int \<Rightarrow> string \<Rightarrow> zap_ident list \<Rightarrow> (string \<Rightarrow> string) \<Rightarrow> string list \<times> zap_entry option" where
  "zap_value_errors today where seen v =
     (let added = date_field where ''added'' (v ''added''); expires = date_field where ''expires'' (v ''expires'');
          errors = zap_text_errors where v @ left_of added @ left_of expires @ zap_order_errors today where added expires
            @ msg_if ((v ''pluginId'', v ''path'') \<in> set seen) (fmt ''%s: duplicates another entry (same pluginId and path)'' [where])
      in (errors,
          case (added, expires) of
            (Inr a, Inr x) \<Rightarrow>
              if errors = [] then
                Some \<lparr> z_plugin = v ''pluginId'', z_path = v ''path'', z_justification = v ''justification'', z_issue = v ''issue'',
                       z_added = v ''added'', z_expires = v ''expires'', z_added_date = a, z_expires_date = x \<rparr>
              else None
          | _ \<Rightarrow> None))"

type_synonym zap_state = "string list \<times> zap_ident list \<times> zap_entry list"

definition zap_exception_step :: "int \<Rightarrow> zap_state \<Rightarrow> nat \<times> json \<Rightarrow> zap_state" where
  "zap_exception_step today st ie =
     (case (st, ie) of ((errors, seen, entries), (i, e)) \<Rightarrow>
        let where = fmt ''exceptions[%d]'' [show_nat i] in
        case e of
          JObj d \<Rightarrow>
            if \<not> same_set (dkeys d) ZAP_ENTRY_KEYS then
              (errors @ [fmt ''%s: keys must be exactly %s (missing %s, unknown %s)''
                 [where, repr_strs (sort ZAP_ENTRY_KEYS), repr_strs (sorted_set (keys_minus ZAP_ENTRY_KEYS (dkeys d))),
                  repr_strs (sorted_set (keys_minus (dkeys d) ZAP_ENTRY_KEYS))]], seen, entries)
            else if \<not> list_all (\<lambda>k. is_str (dget d k)) ZAP_ENTRY_KEYS then
              (errors @ [fmt ''%s: every value must be a string'' [where]], seen, entries)
            else
              (case zap_value_errors today where seen (text_of d) of (new, entry) \<Rightarrow>
                 (errors @ new, seen @ [(text_of d ''pluginId'', text_of d ''path'')],
                  entries @ (case entry of None \<Rightarrow> [] | Some x \<Rightarrow> [x])))
        | _ \<Rightarrow> (errors @ [fmt ''%s: must be an object'' [where]], seen, entries))"

definition zap_exception_errors :: "json \<Rightarrow> int \<Rightarrow> string list \<times> zap_entry list" where
  "zap_exception_errors data today =
     (case data of
        JObj d \<Rightarrow>
          (case dget d ''exceptions'' of
             JList es \<Rightarrow>
               (let extra = keys_minus (dkeys d) [''$comment'', ''exceptions''];
                    head = msg_if (extra \<noteq> []) (fmt ''unknown top-level keys: %s'' [repr_strs (sorted_set extra)])
                      @ msg_if (dhas d ''$comment'' \<and> \<not> is_str (dget d ''$comment''))
                          ([CHR 0x27] @ ''$comment'' @ [CHR 0x27] @ '' must be a string'')
                in case foldl (zap_exception_step today) (head, [], []) (enumerate 0 es) of (errors, seen, entries) \<Rightarrow> (errors, entries))
           | _ \<Rightarrow> ([''top level must be an object with an '' @ [CHR 0x27] @ ''exceptions'' @ [CHR 0x27] @ '' list''], []))
      | _ \<Rightarrow> ([''top level must be an object with an '' @ [CHR 0x27] @ ''exceptions'' @ [CHR 0x27] @ '' list''], []))"

definition zap_validate_exceptions :: "string \<Rightarrow> json \<Rightarrow> int \<Rightarrow> string list + zap_entry list" where
  "zap_validate_exceptions tok data today =
     (case zap_exception_errors data today of (errors, entries) \<Rightarrow>
        if errors \<noteq> [] then
          Inl (emit_protected tok (map (\<lambda>m. ''zap-policy: invalid exceptions.json: '' @ m) errors)
               @ [''::error::zap-policy: .github/zap/exceptions.json failed validation''])
        else Inr entries)"


section \<open>The report\<close>

definition parse_risk :: "json \<Rightarrow> int" where
  "parse_risk v =
     (case v of
        JBool b \<Rightarrow> HIGH
      | _ \<Rightarrow> (case int_of_text (strip (py_str v)) of
                None \<Rightarrow> HIGH
              | Some code \<Rightarrow> if 0 \<le> code \<and> code \<le> HIGH then code else HIGH))"

definition is_false_positive :: "json \<Rightarrow> bool" where
  "is_false_positive v \<longleftrightarrow> (case v of JBool b \<Rightarrow> False | _ \<Rightarrow> int_of_text (strip (py_str v)) = Some 0)"

text \<open>\<^verbatim>\<open>read_urls\<close> on the text of the file; Python reads every kind of line end as a line feed.\<close>

definition file_lines :: "string \<Rightarrow> string list" where
  "file_lines text =
     (let ls = split_on [NL] (replace_all [char_of (13::nat)] [NL] (replace_all [char_of (13::nat), NL] [NL] text))
      in if last ls = [] then butlast ls else ls)"

definition read_urls :: "string \<Rightarrow> string + string list" where
  "read_urls text =
     (let ls = file_lines text
      in if MAX_URL_LINES < int (length ls) then Inl ''ValueError''
         else Inr (filter (\<lambda>l. strip l \<noteq> []) ls))"

record zap_row =
  r_plugin :: string
  r_name :: string
  r_risk :: int
  r_path :: string
  r_issue :: string

type_synonym counted = "((string \<times> string \<times> int) \<times> nat) list"

record zap_result =
  z_problems :: "string list"
  z_findings :: "zap_row list"
  z_excepted :: "zap_row list"
  z_reported :: counted
  z_used :: "zap_ident list"

definition add_problem :: "string \<Rightarrow> zap_result \<Rightarrow> zap_result" where
  "add_problem m r = r\<lparr>z_problems := z_problems r @ [m]\<rparr>"

definition count_reported :: "counted \<Rightarrow> string \<times> string \<times> int \<Rightarrow> counted" where
  "count_reported cs k = dset cs k ((case map_of cs k of None \<Rightarrow> 0 | Some n \<Rightarrow> n) + 1)"

text \<open>One alert instance.\<close>

definition instance_step :: "zap_entry list \<Rightarrow> string \<Rightarrow> string \<Rightarrow> int \<Rightarrow> zap_result \<Rightarrow> json \<Rightarrow> zap_result option" where
  "instance_step active plugin name risk r inst =
     (let uri = (case inst of JObj d \<Rightarrow> dget d ''uri'' | _ \<Rightarrow> JNull) in
      if \<not> is_bff_origin uri then
        Some (add_problem (fmt ''an alert instance of plugin %s is not on https://localhost:7200'' [if plugin = [] then ''?'' else plugin]) r)
      else
        do { text \<leftarrow> as_str uri;
             path \<leftarrow> url_path text;
             Some (if risk < MEDIUM then r\<lparr>z_reported := count_reported (z_reported r) (plugin, name, risk)\<rparr>
                   else
                     let row = \<lparr> r_plugin = plugin, r_name = name, r_risk = risk, r_path = path, r_issue = [] \<rparr> in
                     case find (\<lambda>e. z_plugin e = plugin \<and> path_covered (z_path e) path) active of
                       Some hit \<Rightarrow> r\<lparr>z_used := List.insert (z_plugin hit, z_path hit) (z_used r),
                                     z_excepted := z_excepted r @ [row\<lparr>r_issue := z_issue hit\<rparr>]\<rparr>
                     | None \<Rightarrow> r\<lparr>z_findings := z_findings r @ [row]\<rparr>) })"

text \<open>The plugin, name and risk of an alert, and the instances that are judged; an alert without instances is
  judged as one instance without a URI.\<close>

definition alert_plugin :: "dict \<Rightarrow> string" where
  "alert_plugin d = strip (py_str (case map_of d ''pluginid'' of
      Some v \<Rightarrow> v
    | None \<Rightarrow> (case map_of d ''pluginId'' of Some v \<Rightarrow> v | None \<Rightarrow> JStr '''')))"

definition alert_name :: "dict \<Rightarrow> string" where
  "alert_name d = py_str (py_or (py_or (dget d ''name'') (dget d ''alert'')) (JStr ''(unnamed)''))"

definition alert_instances :: "dict \<Rightarrow> json list" where
  "alert_instances d = (case dget d ''instances'' of JList (x # xs) \<Rightarrow> x # xs | _ \<Rightarrow> [JObj [(''uri'', JNull)]])"

definition alert_step :: "zap_entry list \<Rightarrow> zap_result \<Rightarrow> json \<Rightarrow> zap_result option" where
  "alert_step active r alert =
     (case alert of
        JObj d \<Rightarrow>
          if is_false_positive (dget d ''confidence'') then Some r
          else fold_opt (instance_step active (alert_plugin d) (alert_name d) (parse_risk (dget d ''riskcode''))) r (alert_instances d)
      | _ \<Rightarrow> Some (add_problem ''a report alert is not an object'' r))"

definition site_step :: "zap_entry list \<Rightarrow> zap_result \<Rightarrow> json \<Rightarrow> zap_result option" where
  "site_step active r site =
     (case site of
        JObj d \<Rightarrow>
          (let r1 = (if is_bff_origin (dget d ''@name'') then r else add_problem ''a report site is not https://localhost:7200'' r) in
           case dget d ''alerts'' of
             JList alerts \<Rightarrow> fold_opt (alert_step active) r1 alerts
           | _ \<Rightarrow> Some (add_problem (''a report site has no '' @ [CHR 0x27] @ ''alerts'' @ [CHR 0x27] @ '' list'') r1))
      | _ \<Rightarrow> Some (add_problem ''a report site entry is not an object'' r))"

text \<open>What the exit code and the URL list say.\<close>

definition coverage_problems :: "string list option \<Rightarrow> string list option" where
  "coverage_problems urls =
     (case urls of
        Some (u # us) \<Rightarrow>
          do { let good = filter (\<lambda>u. is_bff_origin (JStr u)) (u # us);
               let bad = length (u # us) - length good;
               paths \<leftarrow> map_opt url_path good;
               Some (msg_if (bad \<noteq> 0) (fmt ''%d URL(s) in the URL list are not on https://localhost:7200'' [show_nat bad])
                 @ concat (map (\<lambda>p. msg_if (p \<notin> set paths) (fmt ''the URL list does not include %s'' [p])) REQUIRED_PATHS)) }
      | _ \<Rightarrow> Some [''the URL list ZAP wrote is missing or empty: coverage cannot be proven''])"

definition zap_exit_problems :: "int option \<Rightarrow> string list" where
  "zap_exit_problems zap_exit =
     msg_if (case zap_exit of None \<Rightarrow> True | Some n \<Rightarrow> n \<notin> set OK_ZAP_EXIT_CODES)
       (fmt ''ZAP exit code %s is not 0, 1 or 2'' [case zap_exit of None \<Rightarrow> ''None'' | Some n \<Rightarrow> show_int n])"

definition report_sites :: "json \<Rightarrow> json list option" where
  "report_sites report =
     (case report of JObj d \<Rightarrow> (case dget d ''site'' of JList sites \<Rightarrow> Some sites | _ \<Rightarrow> None) | _ \<Rightarrow> None)"

definition sort_reported :: "counted \<Rightarrow> counted" where
  "sort_reported cs = sort_key (\<lambda>((plugin, name, risk), n). - risk) (sort_key (\<lambda>((plugin, name, risk), n). plugin) cs)"

definition zap_evaluate :: "json \<Rightarrow> string list option \<Rightarrow> int option \<Rightarrow> zap_entry list \<Rightarrow> int \<Rightarrow> zap_result option" where
  "zap_evaluate report urls zap_exit exceptions today =
     do { coverage \<leftarrow> coverage_problems urls;
          let active = filter (\<lambda>e. today \<le> z_expires_date e) exceptions;
          let start = \<lparr> z_problems = zap_exit_problems zap_exit @ coverage
              @ msg_if (report_sites report = None) (''report has no '' @ [CHR 0x27] @ ''site'' @ [CHR 0x27] @ '' list''),
              z_findings = [], z_excepted = [], z_reported = [], z_used = [] \<rparr>;
          r \<leftarrow> fold_opt (site_step active) start (case report_sites report of Some sites \<Rightarrow> sites | None \<Rightarrow> []);
          Some (r\<lparr>z_reported := sort_reported (z_reported r)\<rparr>) }"


section \<open>Output and exit status\<close>

definition risk_name :: "int \<Rightarrow> string" where
  "risk_name n = (case map_of RISK_NAMES n of Some t \<Rightarrow> t | None \<Rightarrow> [])"

definition zap_table :: "string list \<Rightarrow> string" where
  "zap_table cells = ''| '' @ join '' | '' (map md_cell cells) @ '' |''"

definition zap_summary :: "zap_result \<Rightarrow> string list \<Rightarrow> string list" where
  "zap_summary r notes =
     [''### ZAP baseline'', '''']
     @ (if z_findings r \<noteq> [] then
          [''| Plugin | Alert | Risk | Path | Status |'', ''| --- | --- | --- | --- | --- |'']
          @ map (\<lambda>x. zap_table [r_plugin x, r_name x, risk_name (r_risk x), r_path x, ''FAIL'']) (z_findings r)
        else [''No Medium or High alerts without an exception.''])
     @ (if z_excepted r \<noteq> [] then
          ['''', ''Excepted:'', '''', ''| Plugin | Alert | Risk | Path | Issue |'', ''| --- | --- | --- | --- | --- |'']
          @ map (\<lambda>x. zap_table [r_plugin x, r_name x, risk_name (r_risk x), r_path x, r_issue x]) (z_excepted r)
        else [])
     @ (if z_reported r \<noteq> [] then
          ['''', ''Reported only (Low and Informational):'', '''', ''| Plugin | Alert | Risk | Instances |'', ''| --- | --- | --- | --- |'']
          @ map (\<lambda>((plugin, name, risk), n). zap_table [plugin, name, risk_name risk, show_nat n]) (z_reported r)
        else [])
     @ [''''] @ map (\<lambda>n. ''- '' @ md_cell n) notes"

record zap_files =
  zf_exceptions :: "string + json"
  zf_report :: "string + int \<times> (string + json)"
  zf_urls :: "string + string"
  zf_today :: int
  zf_token :: string

record zap_outcome =
  z_status :: int
  z_printed :: "string list"
  z_summary :: "string list"

text \<open>The report: its size is asked first, then the text is parsed; \<^term>\<open>JNull\<close> stands for \<^verbatim>\<open>None\<close>.\<close>

definition load_report :: "zap_files \<Rightarrow> json \<times> string list" where
  "load_report f =
     (case (case zf_report f of Inl ex \<Rightarrow> Inl ex | Inr (bytes, content) \<Rightarrow> if MAX_REPORT_BYTES < bytes then Inl ''ValueError'' else content) of
        Inl ex \<Rightarrow> (JNull, [fmt ''the ZAP JSON report is missing or unparsable (%s)'' [ex]])
      | Inr v \<Rightarrow> (v, []))"

definition load_urls :: "zap_files \<Rightarrow> string list option \<times> string list" where
  "load_urls f =
     (case sbind (zf_urls f) read_urls of
        Inl ex \<Rightarrow> (None, [fmt ''the URL list cannot be read (%s)'' [ex]])
      | Inr us \<Rightarrow> (Some us, []))"

definition zap_notes :: "zap_entry list \<Rightarrow> zap_ident list \<Rightarrow> int \<Rightarrow> string list" where
  "zap_notes entries used today =
     concat (map (\<lambda>e.
       if z_expires_date e < today then
         [fmt ''expired (not applied): plugin %s %s (expired %s, %s)'' [z_plugin e, z_path e, z_expires e, z_issue e]]
       else msg_if ((z_plugin e, z_path e) \<notin> set used) (fmt ''stale (matched nothing): plugin %s %s'' [z_plugin e, z_path e])) entries)"

definition zap_log :: "int \<Rightarrow> string list option \<Rightarrow> zap_result \<Rightarrow> string list \<Rightarrow> string list" where
  "zap_log zap_exit urls r notes =
     [''zap exit code: '' @ show_int zap_exit,
      ''URLs ZAP accessed: '' @ show_nat (case urls of None \<Rightarrow> 0 | Some us \<Rightarrow> length us),
      fmt ''blocking: %d, excepted: %d, reported only: %d''
        [show_nat (length (z_findings r)), show_nat (length (z_excepted r)), show_nat (sum_list (map snd (z_reported r)))]]
     @ map (\<lambda>x. fmt ''  FAIL: plugin %s %s %s at %s'' [r_plugin x, risk_name (r_risk x), r_name x, r_path x]) (z_findings r)
     @ map (\<lambda>x. fmt ''  excepted: plugin %s %s %s at %s (%s)'' [r_plugin x, risk_name (r_risk x), r_name x, r_path x, r_issue x]) (z_excepted r)
     @ map (\<lambda>((plugin, name, risk), n). fmt ''  %s: plugin %s %s x%d'' [risk_name risk, plugin, name, show_nat n]) (z_reported r)
     @ map (\<lambda>n. ''  '' @ n) notes
     @ map (\<lambda>p. ''  RESULT NOT TRUSTED: '' @ p) (z_problems r)"

definition zap_finish :: "zap_files \<Rightarrow> int \<Rightarrow> string list option \<Rightarrow> zap_result \<Rightarrow> string list \<Rightarrow> zap_outcome" where
  "zap_finish f zap_exit urls r notes = \<lparr>
     z_status = (if z_problems r \<noteq> [] \<or> z_findings r \<noteq> [] then 1 else 0),
     z_printed = emit_protected (zf_token f) (zap_log zap_exit urls r notes)
       @ msg_if (z_problems r \<noteq> []) (fmt ''::error::zap-policy: %d problem(s); the result cannot be trusted'' [show_nat (length (z_problems r))])
       @ msg_if (z_findings r \<noteq> []) (fmt ''::error::zap-policy: %d Medium or High alert instance(s) without an active exception''
           [show_nat (length (z_findings r))]),
     z_summary = zap_summary r (notes @ map (\<lambda>p. ''result not trusted: '' @ p) (z_problems r)) \<rparr>"

definition zap_run :: "zap_files \<Rightarrow> int \<Rightarrow> zap_outcome option" where
  "zap_run f zap_exit =
     (case zf_exceptions f of
        Inl ex \<Rightarrow> Some \<lparr> z_status = 2,
          z_printed = emit_protected (zf_token f) [''zap-policy: cannot read the exceptions file: '' @ ex] @ [''::error::zap-policy: configuration error''],
          z_summary = [] \<rparr>
      | Inr raw \<Rightarrow>
          (case zap_validate_exceptions (zf_token f) raw (zf_today f) of
             Inl lines \<Rightarrow> Some \<lparr> z_status = 2, z_printed = lines, z_summary = [] \<rparr>
           | Inr entries \<Rightarrow>
               (case (load_report f, load_urls f) of ((report, early1), (urls, early2)) \<Rightarrow>
                  do { r0 \<leftarrow> zap_evaluate report urls (Some zap_exit) entries (zf_today f);
                       let r = r0\<lparr>z_problems := early1 @ early2 @ z_problems r0\<rparr>;
                       Some (zap_finish f zap_exit urls r (zap_notes entries (z_used r) (zf_today f))) })))"

text \<open>\<^verbatim>\<open>main\<close> on parsed arguments: any other exception is exit status 1.\<close>

definition zap_main :: "zap_files \<Rightarrow> int \<Rightarrow> int" where
  "zap_main f zap_exit = (case zap_run f zap_exit of None \<Rightarrow> 1 | Some x \<Rightarrow> z_status x)"


section \<open>The origin, exactly\<close>

text \<open>A port text with the value 7200; a longer one with leading zeros is read too, up to the digit limit of \<^verbatim>\<open>int\<close>.\<close>

definition is_7200 :: "string \<Rightarrow> bool" where
  "is_7200 p \<longleftrightarrow> p \<noteq> [] \<and> list_all is_digit p \<and> length p \<le> 4300 \<and> digits_val p = 7200"

lemma localhost_alpha: "lower h = ''localhost'' \<Longrightarrow> list_all is_alpha_ascii h"
  by (rule lower_alpha) (simp add: is_alpha_ascii_def is_lower_az_def in_range_def ccode_def)

lemma https_alpha: "lower s = ''https'' \<Longrightarrow> list_all is_alpha_ascii s \<and> s \<noteq> []"
  using lower_alpha [of s] by (auto simp: is_alpha_ascii_def is_lower_az_def in_range_def ccode_def)

lemma hostinfo_plain:
  assumes "CHR ''@'' \<notin> set n" "CHR ''['' \<notin> set n"
  shows "hostinfo n = (case cut_at '':'' n of None \<Rightarrow> (n, []) | Some (h, p) \<Rightarrow> (h, p))"
  using assms by (simp add: hostinfo_def after_at_id partition_at_none) (simp add: partition_at_def split: option.split)

lemma hostname_plain: "url_hostname u = Some ''localhost'' \<longleftrightarrow> lower (fst (hostinfo (url_netloc u))) = ''localhost''"
proof -
  define h where "h = fst (hostinfo (url_netloc u))"
  have "cut_at ''%'' h = None" if "lower h = ''localhost''"
    using localhost_alpha [OF that] alpha_chars(3) cut_at_none_char [of "CHR ''%''" h] by (auto simp: list_all_iff)
  moreover have "lower a @ CHR ''%'' # z \<noteq> ''localhost''" for a z
  proof
    assume e: "lower a @ CHR ''%'' # z = ''localhost''"
    have "CHR ''%'' \<in> set (lower a @ CHR ''%'' # z)" by simp
    then show False unfolding e by simp
  qed
  moreover have "lower h \<noteq> ''localhost''" if "cut_at ''%'' h = Some az" for az
    using that calculation(1) by auto
  ultimately show ?thesis
    using h_def by (cases "h = []"; cases "cut_at ''%'' h") (auto simp: url_hostname_def neq_Nil_conv)
qed

lemma netloc_origin:
  assumes "CHR ''@'' \<notin> set n"
  shows "brackets_ok n \<and> lower (fst (hostinfo n)) = ''localhost'' \<and> is_7200 (snd (hostinfo n))
    \<longleftrightarrow> (\<exists>h p. n = h @ '':'' @ p \<and> lower h = ''localhost'' \<and> is_7200 p)"
proof
  assume l: "brackets_ok n \<and> lower (fst (hostinfo n)) = ''localhost'' \<and> is_7200 (snd (hostinfo n))"
  show "\<exists>h p. n = h @ '':'' @ p \<and> lower h = ''localhost'' \<and> is_7200 p"
  proof (cases "CHR ''['' \<in> set n")
    case True
    then obtain a b where ab: "n = a @ CHR ''['' # b" "CHR ''['' \<notin> set a" by (meson split_list_first)
    then have p: "partition_at ''['' (after_at n) = (a, True, b)"
      using assms by (simp add: after_at_id partition_at_char)
    obtain h f r where r: "partition_at '']'' b = (h, f, r)" by (cases "partition_at '']'' b") auto
    with l p True have "bracketed_host_ok h" by (simp add: brackets_ok_def)
    moreover have "fst (hostinfo n) = h" by (simp add: hostinfo_def p r split: prod.split)
    ultimately show ?thesis using l bracketed_name_refused by auto
  next
    case False
    with l assms hostinfo_plain [of n] obtain h p where "cut_at '':'' n = Some (h, p)" "lower h = ''localhost''" "is_7200 p"
      by (cases "cut_at '':'' n") (auto simp: is_7200_def)
    then show ?thesis by (intro exI [of _ h] exI [of _ p]) (simp add: cut_at_char_iff)
  qed
next
  assume "\<exists>h p. n = h @ '':'' @ p \<and> lower h = ''localhost'' \<and> is_7200 p"
  then obtain h p where hp: "n = h @ '':'' @ p" "lower h = ''localhost''" "is_7200 p" by blast
  have h: "\<forall>c\<in>set h. is_alpha_ascii c" using localhost_alpha [OF hp(2)] by (simp add: list_all_iff)
  have p: "\<forall>c\<in>set p. is_digit c" using hp(3) by (simp add: is_7200_def list_all_iff)
  have h: "CHR '':'' \<notin> set h" "CHR ''['' \<notin> set h" "CHR '']'' \<notin> set h" using h alpha_chars(3) by blast+
  have p: "CHR ''['' \<notin> set p" "CHR '']'' \<notin> set p" using p digit_chars(2) by blast+
  have "CHR '':'' \<notin> set h" "CHR ''['' \<notin> set n" "CHR '']'' \<notin> set n" using h p hp(1) by simp_all
  with hp assms show "brackets_ok n \<and> lower (fst (hostinfo n)) = ''localhost'' \<and> is_7200 (snd (hostinfo n))"
    by (simp add: hostinfo_plain cut_at_char brackets_ok_def)
qed

lemma port_7200: "url_port u = Some (Some 7200) \<longleftrightarrow> is_7200 (snd (hostinfo (url_netloc u)))"
  by (auto simp: url_port_def is_7200_def split: list.splits)

lemma urlsplit_https:
  assumes "list_all (\<lambda>c. 32 < ccode c) url"
  shows "urlsplit url = Some u \<and> url_scheme u = ''https'' \<and> url_netloc u \<noteq> [] \<longleftrightarrow>
    (\<exists>s n rest. url = s @ ''://'' @ n @ rest \<and> lower s = ''https'' \<and> n \<noteq> [] \<and> list_all (Not \<circ> netloc_end) n
       \<and> (rest = [] \<or> netloc_end (hd rest)) \<and> brackets_ok n
       \<and> u = \<lparr> url_scheme = ''https'', url_netloc = n, url_path_part = split_head ''?'' (split_head ''#'' rest) \<rparr>)"
  (is "_ \<longleftrightarrow> ?R")
proof
  assume l: "urlsplit url = Some u \<and> url_scheme u = ''https'' \<and> url_netloc u \<noteq> []"
  obtain sch r where sr: "split_scheme url = (sch, r)" by (cases "split_scheme url")
  with l have sch: "sch = ''https''" and dbl: "prefix ''//'' r"
    by (auto simp: urlsplit_def clean_url_id [OF assms] Let_def split: if_splits)
  from sr sch obtain s where s: "url = s @ CHR '':'' # r" "lower s = ''https''"
    by (auto simp: split_scheme_def cut_at_char_iff split: option.splits if_splits)
  from dbl obtain w where w: "r = ''//'' @ w" by (auto simp: prefix_def)
  define n rest where "n = takeWhile (Not \<circ> netloc_end) w" and "rest = dropWhile (Not \<circ> netloc_end) w"
  have "rest = [] \<or> netloc_end (hd rest)" unfolding rest_def using hd_dropWhile [of "Not \<circ> netloc_end" w] by auto
  moreover have "list_all (Not \<circ> netloc_end) n" unfolding n_def by (auto simp: list_all_iff dest: set_takeWhileD)
  moreover have "brackets_ok n" "u = \<lparr> url_scheme = ''https'', url_netloc = n, url_path_part = split_head ''?'' (split_head ''#'' rest) \<rparr>"
    using l sr sch w by (auto simp: urlsplit_def clean_url_id [OF assms] Let_def n_def rest_def split: if_splits)
  moreover have "n \<noteq> []" using l calculation(4) by simp
  moreover have "w = n @ rest" by (simp add: n_def rest_def)
  then have "url = s @ ''://'' @ n @ rest" using s w by simp
  ultimately show ?R using s(2) by blast
next
  assume ?R
  then obtain s n rest where r: "url = s @ ''://'' @ n @ rest" "lower s = ''https''" "n \<noteq> []" "list_all (Not \<circ> netloc_end) n"
    "rest = [] \<or> netloc_end (hd rest)" "brackets_ok n"
    and u: "u = \<lparr> url_scheme = ''https'', url_netloc = n, url_path_part = split_head ''?'' (split_head ''#'' rest) \<rparr>" by blast
  from https_alpha [OF r(2)] have s: "list_all is_alpha_ascii s" "s \<noteq> []" by auto
  then have "CHR '':'' \<notin> set s" "list_all scheme_char s" "is_alpha_ascii (hd s)"
    using alpha_chars(1,3) by (auto simp: list_all_iff)
  then have "split_scheme url = (''https'', ''//'' @ n @ rest)"
    using s(2) r(2) unfolding r(1) by (simp add: split_scheme_def cut_at_char)
  moreover have "takeWhile (Not \<circ> netloc_end) (n @ rest) = n" "dropWhile (Not \<circ> netloc_end) (n @ rest) = rest"
    using r(4,5) by (cases rest; auto simp: list_all_iff takeWhile_append2 dropWhile_append2)+
  ultimately show "urlsplit url = Some u \<and> url_scheme u = ''https'' \<and> url_netloc u \<noteq> []"
    using r(3,6) u by (simp add: urlsplit_def clean_url_id [OF assms])
qed


lemma localhost_netloc:
  assumes "lower h = ''localhost''" "is_7200 p"
  shows "CHR ''@'' \<notin> set (h @ '':'' @ p)" "list_all (Not \<circ> netloc_end) (h @ '':'' @ p)"
proof -
  have c: "\<forall>c\<in>set h. is_alpha_ascii c" "\<forall>c\<in>set p. is_digit c"
    using localhost_alpha [OF assms(1)] assms(2) by (simp_all add: is_7200_def list_all_iff)
  then have "CHR ''@'' \<notin> set h" "CHR ''@'' \<notin> set p" using alpha_chars(3) digit_chars(2) by blast+
  then show "CHR ''@'' \<notin> set (h @ '':'' @ p)" by simp
  have "\<not> netloc_end CHR '':''" by (simp add: netloc_end_def)
  then show "list_all (Not \<circ> netloc_end) (h @ '':'' @ p)" using c alpha_chars(2) digit_chars(1) by (auto simp: list_all_iff)
qed

definition visible :: "string \<Rightarrow> bool" where
  "visible url \<longleftrightarrow> strip url = url \<and> list_all (\<lambda>c. 0x21 \<le> ccode c \<and> ccode c \<noteq> 0x7F) url"

lemma is_bff_origin_parts:
  "is_bff_origin (JStr url) \<longleftrightarrow> visible url \<and>
      (\<exists>u. (urlsplit url = Some u \<and> url_scheme u = ''https'' \<and> url_netloc u \<noteq> []) \<and> CHR ''@'' \<notin> set (url_netloc u)
         \<and> lower (fst (hostinfo (url_netloc u))) = ''localhost'' \<and> is_7200 (snd (hostinfo (url_netloc u))))"
proof (cases "visible url \<and> url \<noteq> []")
  case False
  then show ?thesis
    by (auto simp: is_bff_origin_def parse_origin_def list_ex_iff list_all_iff not_le visible_def urlsplit_def clean_url_def split_scheme_def split: if_splits)
next
  case True
  have "lower (fst (hostinfo (url_netloc u))) = ''localhost'' \<Longrightarrow> url_netloc u \<noteq> []" for u :: split_url
    by (auto simp: hostinfo_def after_at_def rcut_def partition_at_def)
  then show ?thesis
    using True unfolding hostname_plain [symmetric] port_7200 [symmetric] visible_def
    by (cases "urlsplit url")
      (auto simp: is_bff_origin_def parse_origin_def ORIGIN_def has_userinfo_def list_ex_iff list_all_iff bind_eq_Some_conv
        split: option.splits if_splits)
qed

text \<open>
  A URL counts as the application's origin exactly when it is https, :// , the host localhost (both in any letter
  case), a colon, a port text with the value 7200, and then nothing or a path, query or fragment, with no
  white space or control character. User information, brackets, a longer host, another port or a prefix trick is never
  accepted.
\<close>

theorem bff_origin_exact:
  "is_bff_origin (JStr url) \<longleftrightarrow> visible url
     \<and> (\<exists>s h p rest. url = s @ ''://'' @ h @ '':'' @ p @ rest \<and> lower s = ''https'' \<and> lower h = ''localhost'' \<and> is_7200 p
          \<and> (rest = [] \<or> netloc_end (hd rest)))"
proof (cases "visible url")
  case True
  then have ch: "list_all (\<lambda>c. 32 < ccode c) url" by (auto simp: visible_def list_all_iff)
  note split = urlsplit_https [OF ch]
  show ?thesis
  proof
    assume "is_bff_origin (JStr url)"
    then obtain u where u: "urlsplit url = Some u \<and> url_scheme u = ''https'' \<and> url_netloc u \<noteq> []" "CHR ''@'' \<notin> set (url_netloc u)"
        "lower (fst (hostinfo (url_netloc u))) = ''localhost''" "is_7200 (snd (hostinfo (url_netloc u)))"
      unfolding is_bff_origin_parts by blast
    from u(1) obtain s n rest where r: "url = s @ ''://'' @ n @ rest" "lower s = ''https''" "rest = [] \<or> netloc_end (hd rest)"
      "brackets_ok n" and n: "url_netloc u = n" unfolding split by force
    from netloc_origin [OF u(2)] u(3,4) r(4) n obtain h p where "n = h @ '':'' @ p" "lower h = ''localhost''" "is_7200 p" by blast
    with True r(1,2,3) show "visible url \<and> (\<exists>s h p rest. url = s @ ''://'' @ h @ '':'' @ p @ rest \<and> lower s = ''https''
        \<and> lower h = ''localhost'' \<and> is_7200 p \<and> (rest = [] \<or> netloc_end (hd rest)))" by (metis append.assoc)
  next
    assume "visible url \<and> (\<exists>s h p rest. url = s @ ''://'' @ h @ '':'' @ p @ rest \<and> lower s = ''https''
        \<and> lower h = ''localhost'' \<and> is_7200 p \<and> (rest = [] \<or> netloc_end (hd rest)))"
    then obtain s h p rest where r: "url = s @ ''://'' @ (h @ '':'' @ p) @ rest" "lower s = ''https''" "lower h = ''localhost''" "is_7200 p"
      "rest = [] \<or> netloc_end (hd rest)" by auto
    define n where "n = h @ '':'' @ p"
    have n: "brackets_ok n" "lower (fst (hostinfo n)) = ''localhost''" "is_7200 (snd (hostinfo n))" "CHR ''@'' \<notin> set n"
      using netloc_origin [OF localhost_netloc(1) [OF r(3,4)]] localhost_netloc(1) [OF r(3,4)] r(3,4) unfolding n_def by blast+
    define u where "u = \<lparr> url_scheme = ''https'', url_netloc = n, url_path_part = split_head ''?'' (split_head ''#'' rest) \<rparr>"
    have "urlsplit url = Some u \<and> url_scheme u = ''https'' \<and> url_netloc u \<noteq> []"
      unfolding split using r n(1) localhost_netloc(2) [OF r(3,4)] by (intro exI [of _ s] exI [of _ n] exI [of _ rest]) (auto simp: u_def n_def)
    then show "is_bff_origin (JStr url)" unfolding is_bff_origin_parts using True n(2,3,4) by (auto simp: u_def)
  qed
qed (simp add: is_bff_origin_parts)


section \<open>The exceptions file, exactly\<close>

definition is_plugin_id :: "string \<Rightarrow> bool" where
  "is_plugin_id s \<longleftrightarrow> s \<noteq> [] \<and> all_digits s"

definition zap_entry_ok :: "int \<Rightarrow> (string \<Rightarrow> string) \<Rightarrow> int \<Rightarrow> int \<Rightarrow> bool" where
  "zap_entry_ok today v a x \<longleftrightarrow>
     upto_newline is_plugin_id (v ''pluginId'') \<and> zap_path_ok (v ''path'') \<and> 20 \<le> length (strip (v ''justification''))
     \<and> upto_newline is_issue (v ''issue'') \<and> real_date (v ''added'') a \<and> real_date (v ''expires'') x \<and> a \<le> today \<and> a \<le> x \<and> x - a \<le> 90"

definition zap_entry_of :: "(string \<Rightarrow> string) \<Rightarrow> int \<Rightarrow> int \<Rightarrow> zap_entry" where
  "zap_entry_of v a x = \<lparr> z_plugin = v ''pluginId'', z_path = v ''path'', z_justification = v ''justification'', z_issue = v ''issue'',
     z_added = v ''added'', z_expires = v ''expires'', z_added_date = a, z_expires_date = x \<rparr>"

definition zap_ident_of :: "dict \<Rightarrow> zap_ident" where
  "zap_ident_of d = (text_of d ''pluginId'', text_of d ''path'')"

definition zap_dict_ok :: "int \<Rightarrow> dict \<Rightarrow> zap_entry \<Rightarrow> bool" where
  "zap_dict_ok today d e \<longleftrightarrow>
     set (dkeys d) = set ZAP_ENTRY_KEYS \<and> (\<forall>k\<in>set ZAP_ENTRY_KEYS. is_str (dget d k))
     \<and> (\<exists>a x. zap_entry_ok today (text_of d) a x \<and> e = zap_entry_of (text_of d) a x)"

lemma PLUGIN_RE_iff: "matches PLUGIN_RE s \<longleftrightarrow> upto_newline is_plugin_id s"
proof -
  have "u \<in> rlang PLUGIN_BODY \<longleftrightarrow> is_plugin_id u" for u
    by (simp add: PLUGIN_BODY_def is_plugin_id_def all_digits_def rdigit_def list_all_iff)
  moreover have "plain PLUGIN_BODY" by (simp add: PLUGIN_BODY_def rdigit_def)
  ultimately show ?thesis unfolding PLUGIN_RE_def upto_newline_def by (simp only: anchored)
qed

lemma zap_entry_fields:
  "zap_entry_ok today v a x \<longleftrightarrow>
     zap_text_errors where v = [] \<and> date_field where ''added'' (v ''added'') = Inr a \<and> date_field where ''expires'' (v ''expires'') = Inr x
     \<and> zap_order_errors today where (Inr a) (Inr x) = []"
  unfolding zap_entry_ok_def zap_text_errors_def PLUGIN_RE_iff field_patterns date_field_Inr
  by (auto simp: zap_order_errors_def MAX_ZAP_EXCEPTION_DAYS_def not_less split: if_splits)

lemma zap_value_errors_Nil:
  "fst (zap_value_errors today where seen v) = [] \<longleftrightarrow>
     (\<exists>a x. zap_entry_ok today v a x) \<and> (v ''pluginId'', v ''path'') \<notin> set seen"
  "snd (zap_value_errors today where seen v) = Some e \<longleftrightarrow>
     (\<exists>a x. zap_entry_ok today v a x \<and> e = zap_entry_of v a x) \<and> (v ''pluginId'', v ''path'') \<notin> set seen"
  unfolding zap_entry_fields [of _ _ _ _ "where"] zap_value_errors_def Let_def fst_conv snd_conv
  by (cases "date_field where ''added'' (v ''added'')"; cases "date_field where ''expires'' (v ''expires'')";
      auto simp: left_of_def zap_entry_of_def)+

lemma zap_step_values:
  assumes "set (dkeys d) = set ZAP_ENTRY_KEYS" "\<forall>k\<in>set ZAP_ENTRY_KEYS. is_str (dget d k)"
  obtains w where "\<And>errors seen entries. zap_exception_step today (errors, seen, entries) (i, JObj d) =
      (errors @ fst (zap_value_errors today w seen (text_of d)), seen @ [zap_ident_of d],
       entries @ (case snd (zap_value_errors today w seen (text_of d)) of None \<Rightarrow> [] | Some x \<Rightarrow> [x]))"
proof
  show "zap_exception_step today (errors, seen, entries) (i, JObj d) =
      (errors @ fst (zap_value_errors today (fmt ''exceptions[%d]'' [show_nat i]) seen (text_of d)), seen @ [zap_ident_of d],
       entries @ (case snd (zap_value_errors today (fmt ''exceptions[%d]'' [show_nat i]) seen (text_of d)) of None \<Rightarrow> [] | Some x \<Rightarrow> [x]))"
    for errors seen entries
    using assms by (simp add: zap_exception_step_def zap_ident_of_def list_all_iff Let_def split: prod.split)
qed

interpretation zap_file: exception_checker "zap_exception_step today" "zap_dict_ok today" zap_ident_of for today
proof
  fix d x seen errors entries i
  assume ok: "zap_dict_ok today d x" "zap_ident_of d \<notin> set seen"
  then obtain w where step: "zap_exception_step today (errors, seen, entries) (i, JObj d) =
      (errors @ fst (zap_value_errors today w seen (text_of d)), seen @ [zap_ident_of d],
       entries @ (case snd (zap_value_errors today w seen (text_of d)) of None \<Rightarrow> [] | Some x \<Rightarrow> [x]))"
    by (metis zap_dict_ok_def zap_step_values)
  have "fst (zap_value_errors today w seen (text_of d)) = []" "snd (zap_value_errors today w seen (text_of d)) = Some x"
    unfolding zap_value_errors_Nil using ok by (auto simp: zap_dict_ok_def zap_ident_of_def)
  with step show "zap_exception_step today (errors, seen, entries) (i, JObj d) = (errors, seen @ [zap_ident_of d], entries @ [x])" by simp
next
  fix e seen errors entries i
  assume no: "\<nexists>d x. e = JObj d \<and> zap_dict_ok today d x \<and> zap_ident_of d \<notin> set seen"
  show "\<exists>new seen'. new \<noteq> [] \<and> zap_exception_step today (errors, seen, entries) (i, e) = (errors @ new, seen', entries)"
  proof (cases "\<exists>d. e = JObj d \<and> set (dkeys d) = set ZAP_ENTRY_KEYS \<and> (\<forall>k\<in>set ZAP_ENTRY_KEYS. is_str (dget d k))")
    case True
    then obtain d where d: "e = JObj d" "set (dkeys d) = set ZAP_ENTRY_KEYS" "\<forall>k\<in>set ZAP_ENTRY_KEYS. is_str (dget d k)" by blast
    obtain w where step: "zap_exception_step today (errors, seen, entries) (i, JObj d) =
      (errors @ fst (zap_value_errors today w seen (text_of d)), seen @ [zap_ident_of d],
       entries @ (case snd (zap_value_errors today w seen (text_of d)) of None \<Rightarrow> [] | Some x \<Rightarrow> [x]))"
      using zap_step_values [OF d(2,3)] by metis
    have bad: "\<not> ((\<exists>a x. zap_entry_ok today (text_of d) a x) \<and> zap_ident_of d \<notin> set seen)" using no d by (auto simp: zap_dict_ok_def)
    then have "fst (zap_value_errors today w seen (text_of d)) \<noteq> []" unfolding zap_value_errors_Nil(1) zap_ident_of_def .
    moreover have "snd (zap_value_errors today w seen (text_of d)) \<noteq> Some y" for y
      unfolding zap_value_errors_Nil(2) using bad by (auto simp: zap_ident_of_def)
    then have "snd (zap_value_errors today w seen (text_of d)) = None" by (metis not_None_eq)
    ultimately show ?thesis using step d(1) by simp
  next
    case False
    then show ?thesis by (cases e) (auto simp: zap_exception_step_def Let_def list_all_iff)
  qed
qed

definition zap_exceptions_ok :: "json \<Rightarrow> int \<Rightarrow> zap_entry list \<Rightarrow> bool" where
  "zap_exceptions_ok data today entries \<longleftrightarrow>
     (\<exists>d ds. data = JObj d \<and> dget d ''exceptions'' = JList (map JObj ds)
        \<and> set (dkeys d) \<subseteq> {''$comment'', ''exceptions''} \<and> (dhas d ''$comment'' \<longrightarrow> is_str (dget d ''$comment''))
        \<and> list_all2 (zap_dict_ok today) ds entries \<and> distinct (map zap_ident_of ds))"

lemma zap_exception_errors_iff: "zap_exception_errors data today = ([], entries) \<longleftrightarrow> zap_exceptions_ok data today entries"
proof (cases "\<exists>d es. data = JObj d \<and> dget d ''exceptions'' = JList es")
  case True
  then obtain d es where d: "data = JObj d" "dget d ''exceptions'' = JList es" by blast
  define h where "h = msg_if (keys_minus (dkeys d) [''$comment'', ''exceptions''] \<noteq> [])
        (fmt ''unknown top-level keys: %s'' [repr_strs (sorted_set (keys_minus (dkeys d) [''$comment'', ''exceptions'']))])
      @ msg_if (dhas d ''$comment'' \<and> \<not> is_str (dget d ''$comment'')) ([CHR 0x27] @ ''$comment'' @ [CHR 0x27] @ '' must be a string'')"
  obtain errors seen es' where f: "foldl (zap_exception_step today) (h, [], []) (enumerate 0 es) = (errors, seen, es')"
    by (cases "foldl (zap_exception_step today) (h, [], []) (enumerate 0 es)") auto
  have "zap_exception_errors data today = (errors, es')" using d f unfolding h_def by (simp add: zap_exception_errors_def Let_def)
  moreover have "h = [] \<longleftrightarrow> set (dkeys d) \<subseteq> {''$comment'', ''exceptions''} \<and> (dhas d ''$comment'' \<longrightarrow> is_str (dget d ''$comment''))"
    unfolding h_def by auto
  then have "zap_exceptions_ok data today entries \<longleftrightarrow> h = [] \<and> accepts (zap_dict_ok today) zap_ident_of [] es entries"
    unfolding zap_exceptions_ok_def accepts_def using d by auto
  ultimately show ?thesis unfolding zap_file.loop_exact [OF f, symmetric] by auto
next
  case False
  then have "fst (zap_exception_errors data today) \<noteq> []" by (auto simp: zap_exception_errors_def split: json.splits)
  with False show ?thesis by (auto simp: zap_exceptions_ok_def)
qed

text \<open>
  The exceptions file of the ZAP verdict is accepted exactly when it is an object with only a comment text and a
  list of entries, each with exactly the six keys and string values, a digit plugin id, a path rule that is never the
  whole site, a justification of 20 characters, an issue, and two real dates with added not in the future and
  expires at most 90 days later, and no two entries name the same plugin and path.
\<close>

theorem zap_exceptions_exact:
  "zap_validate_exceptions tok data today = Inr entries \<longleftrightarrow> zap_exceptions_ok data today entries"
  unfolding zap_exception_errors_iff [symmetric] by (auto simp: zap_validate_exceptions_def split: prod.splits)


section \<open>A green verdict\<close>

definition zap_clean :: "zap_result \<Rightarrow> bool" where
  "zap_clean r \<longleftrightarrow> z_problems r = [] \<and> z_findings r = []"

definition instance_ok :: "zap_entry list \<Rightarrow> string \<Rightarrow> int \<Rightarrow> json \<Rightarrow> bool" where
  "instance_ok active plugin risk inst \<longleftrightarrow>
     (\<exists>d url path. inst = JObj d \<and> dget d ''uri'' = JStr url \<and> is_bff_origin (JStr url) \<and> url_path url = Some path
        \<and> (risk < 2 \<or> (\<exists>e\<in>set active. z_plugin e = plugin \<and> path_covered (z_path e) path)))"

definition alert_ok :: "zap_entry list \<Rightarrow> json \<Rightarrow> bool" where
  "alert_ok active alert \<longleftrightarrow>
     (\<exists>d. alert = JObj d \<and> (is_false_positive (dget d ''confidence'')
        \<or> (\<forall>inst\<in>set (alert_instances d). instance_ok active (alert_plugin d) (parse_risk (dget d ''riskcode'')) inst)))"

definition site_ok :: "zap_entry list \<Rightarrow> json \<Rightarrow> bool" where
  "site_ok active site \<longleftrightarrow>
     (\<exists>d alerts. site = JObj d \<and> is_bff_origin (dget d ''@name'') \<and> dget d ''alerts'' = JList alerts
        \<and> (\<forall>alert\<in>set alerts. alert_ok active alert))"

lemma is_bff_origin_str: "is_bff_origin v \<Longrightarrow> \<exists>s. v = JStr s"
  by (cases v) (auto simp: is_bff_origin_def parse_origin_def)

interpretation zap_instances: clean_loop "instance_step active plugin name risk" zap_clean "instance_ok active plugin risk"
  for active plugin name risk
proof
  fix r inst r'
  assume st: "instance_step active plugin name risk r inst = Some r'" and c: "zap_clean r'"
  define uri where "uri = (case inst of JObj d \<Rightarrow> dget d ''uri'' | _ \<Rightarrow> JNull)"
  have "is_bff_origin uri"
    using st c by (auto simp: instance_step_def uri_def [symmetric] add_problem_def zap_clean_def Let_def split: if_splits)
  then obtain url where url: "uri = JStr url" using is_bff_origin_str by blast
  then obtain d where d: "inst = JObj d" "dget d ''uri'' = JStr url" unfolding uri_def by (cases inst) auto
  from st url \<open>is_bff_origin uri\<close> obtain path where path: "url_path url = Some path"
    by (auto simp: instance_step_def uri_def [symmetric] as_str_def bind_eq_Some_conv)
  with st c url \<open>is_bff_origin uri\<close> d show "zap_clean r \<and> instance_ok active plugin risk inst"
    by (auto simp: instance_step_def uri_def [symmetric] as_str_def bind_eq_Some_conv zap_clean_def instance_ok_def MEDIUM_def Let_def find_Some_iff
        split: if_splits option.splits)
qed

interpretation zap_alerts: clean_loop "alert_step active" zap_clean "alert_ok active" for active
proof
  fix r alert r'
  assume st: "alert_step active r alert = Some r'" and c: "zap_clean r'"
  then obtain d where d: "alert = JObj d"
    by (cases alert) (auto simp: alert_step_def add_problem_def zap_clean_def)
  show "zap_clean r \<and> alert_ok active alert"
  proof (cases "is_false_positive (dget d ''confidence'')")
    case True with st c d show ?thesis by (simp add: alert_step_def alert_ok_def)
  next
    case False
    with st d zap_instances.loop_clean [OF _ c] show ?thesis by (auto simp: alert_step_def alert_ok_def)
  qed
qed

interpretation zap_sites: clean_loop "site_step active" zap_clean "site_ok active" for active
proof
  fix r site r'
  assume st: "site_step active r site = Some r'" and c: "zap_clean r'"
  then obtain d where d: "site = JObj d" by (cases site) (auto simp: site_step_def add_problem_def zap_clean_def)
  with st c obtain alerts where a: "dget d ''alerts'' = JList alerts"
    by (cases "dget d ''alerts''") (auto simp: site_step_def add_problem_def zap_clean_def Let_def)
  define r1 where "r1 = (if is_bff_origin (dget d ''@name'') then r else add_problem ''a report site is not https://localhost:7200'' r)"
  from st d a have "fold_opt (alert_step active) r1 alerts = Some r'" by (simp add: site_step_def r1_def)
  from zap_alerts.loop_clean [OF this c] have "zap_clean r1" "\<forall>x\<in>set alerts. alert_ok active x" by auto
  with d a show "zap_clean r \<and> site_ok active site"
    by (auto simp: site_ok_def r1_def zap_clean_def add_problem_def split: if_splits)
qed

lemma coverage_Nil:
  assumes "coverage_problems urls = Some []"
  shows "\<exists>us. urls = Some us \<and> (\<forall>u\<in>set us. is_bff_origin (JStr u)) \<and> (\<forall>p\<in>set REQUIRED_PATHS. \<exists>u\<in>set us. url_path u = Some p)"
proof -
  from assms obtain u us where us: "urls = Some (u # us)" by (auto simp: coverage_problems_def split: option.splits list.splits)
  define good where "good = filter (\<lambda>u. is_bff_origin (JStr u)) (u # us)"
  from assms us obtain paths where p: "map_opt url_path good = Some paths" "length (u # us) - length good = 0"
      "\<forall>p\<in>set REQUIRED_PATHS. p \<in> set paths"
    unfolding coverage_problems_def us option.case list.case Let_def good_def [symmetric]
    by (auto simp: bind_eq_Some_conv concat_map_Nil)
  have "length good = length (u # us)" using p(2) length_filter_le [of _ "u # us"] unfolding good_def by (meson diff_is_0_eq le_antisym)
  then have all: "good = u # us" unfolding good_def by (metis filter_id_conv length_filter_less nat_neq_iff)
  then have "\<forall>x\<in>set (u # us). is_bff_origin (JStr x)" unfolding good_def filter_id_conv by blast
  moreover have "\<exists>x\<in>set (u # us). url_path x = Some p" if "p \<in> set REQUIRED_PATHS" for p
  proof -
    from p(1) have l: "list_all2 (\<lambda>x y. url_path x = Some y) (u # us) paths" unfolding all map_opt_Some .
    have "p \<in> set paths" using p(3) that by blast
    then obtain i where i: "i < length paths" "paths ! i = p" by (auto simp: in_set_conv_nth)
    have "(u # us) ! i \<in> set (u # us)" using i(1) list_all2_lengthD [OF l] by (intro nth_mem) simp
    moreover have "url_path ((u # us) ! i) = Some p" using list_all2_nthD2 [OF l i(1)] i(2) by simp
    ultimately show ?thesis by (rule rev_bexI)
  qed
  ultimately show ?thesis using us by blast
qed

lemma zap_evaluate_clean:
  assumes "zap_evaluate report urls zap_exit es day = Some r0" "zap_clean r0"
  obtains rep sites where "zap_exit_problems zap_exit = []" "coverage_problems urls = Some []" "report = JObj rep" "dget rep ''site'' = JList sites"
    "\<forall>site\<in>set sites. site_ok (filter (\<lambda>e. day \<le> z_expires_date e) es) site"
proof -
  define active where "active = filter (\<lambda>e. day \<le> z_expires_date e) es"
  from assms(1) obtain coverage r where e: "coverage_problems urls = Some coverage"
      "fold_opt (site_step active) \<lparr> z_problems = zap_exit_problems zap_exit @ coverage
              @ msg_if (report_sites report = None) (''report has no '' @ [CHR 0x27] @ ''site'' @ [CHR 0x27] @ '' list''),
              z_findings = [], z_excepted = [], z_reported = [], z_used = [] \<rparr>
        (case report_sites report of Some sites \<Rightarrow> sites | None \<Rightarrow> []) = Some r" "zap_clean r = zap_clean r0"
    by (auto simp: zap_evaluate_def active_def zap_clean_def bind_eq_Some_conv)
  from zap_sites.loop_clean [OF e(2)] e(3) assms(2) have c: "zap_exit_problems zap_exit = []" "coverage = []" "report_sites report \<noteq> None"
      "\<forall>x\<in>set (case report_sites report of Some sites \<Rightarrow> sites | None \<Rightarrow> []). site_ok active x"
    by (auto simp: zap_clean_def)
  then obtain rep sites where "report = JObj rep" "dget rep ''site'' = JList sites" "\<forall>x\<in>set sites. site_ok active x"
    by (auto simp: report_sites_def split: json.splits)
  with that c(1,2) e(1) show thesis unfolding active_def by blast
qed


lemma zap_main_status:
  "zap_main f code =
     (case zf_exceptions f of
        Inl ex \<Rightarrow> 2
      | Inr raw \<Rightarrow>
          (case zap_exception_errors raw (zf_today f) of (errors, es) \<Rightarrow>
             if errors \<noteq> [] then 2
             else case zap_evaluate (fst (load_report f)) (fst (load_urls f)) (Some code) es (zf_today f) of
               None \<Rightarrow> 1
             | Some r \<Rightarrow> if snd (load_report f) = [] \<and> snd (load_urls f) = [] \<and> zap_clean r then 0 else 1))"
  by (cases "zf_exceptions f"; cases "load_report f"; cases "load_urls f")
    (auto simp: zap_main_def zap_run_def zap_validate_exceptions_def zap_finish_def zap_clean_def Let_def split: prod.splits option.splits)

definition sample_alert :: "string \<Rightarrow> string \<Rightarrow> string \<Rightarrow> json" where
  "sample_alert risk confidence uri = JObj [(''pluginid'', JStr ''10038''), (''name'', JStr ''CSP''), (''riskcode'', JStr risk),
     (''confidence'', JStr confidence), (''instances'', JList [JObj [(''uri'', JStr uri)]])]"

definition sample_zap :: "json list \<Rightarrow> zap_files" where
  "sample_zap alerts = \<lparr> zf_exceptions = Inr (JObj [(''exceptions'', JList [])]),
     zf_report = Inr (2048, Inr (JObj [(''site'', JList [JObj [(''@name'', JStr ''https://localhost:7200''), (''alerts'', JList alerts)]])])),
     zf_urls = Inr (unlines [''https://localhost:7200/'', ''https://localhost:7200/bff/me'']), zf_today = 739700, zf_token = ''0f'' \<rparr>"


text \<open>
  An alert that ZAP marks a false positive is dropped before its instances are looked at, so an instance of it
  on another origin leaves the verdict at 0.
\<close>

theorem zap_false_positive_unchecked:
  "zap_main (sample_zap [sample_alert ''3'' ''0'' ''https://elsewhere.example/'']) 0 = 0
   \<and> zap_main (sample_zap [sample_alert ''0'' ''1'' ''https://elsewhere.example/'']) 0 = 1"
  unfolding zap_main_status by code_simp


section \<open>The hook in the scanner\<close>

text \<open>
  \<^verbatim>\<open>.github/zap/hook.py\<close> runs inside ZAP. What it asks of ZAP is a list of calls; the URLs ZAP answers with are an
  argument.
\<close>

definition BFF_ORIGIN :: string where
  "BFF_ORIGIN = ''https://localhost:7200''"

definition EXCLUDE_ALL_BUT_BFF :: string where
  "EXCLUDE_ALL_BUT_BFF = ''^(?!https://localhost:7200(/|$)).*$''"

definition SEED_PATHS :: "string list" where
  "SEED_PATHS = [''/'', ''/bff/me'', ''/api/capabilities'']"

datatype zap_call =
    Core_exclude_from_proxy string
  | Spider_exclude_from_scan string
  | Core_access_url string string

definition zap_started :: "zap_call list" where
  "zap_started = [Core_exclude_from_proxy EXCLUDE_ALL_BUT_BFF, Spider_exclude_from_scan EXCLUDE_ALL_BUT_BFF]
     @ map (\<lambda>path. Core_access_url (BFF_ORIGIN @ path) ''false'') SEED_PATHS"

definition url_line :: "string \<Rightarrow> string" where
  "url_line url = replace_all [NL] [] (replace_all [char_of (13::nat)] [] url)"

definition zap_pre_shutdown :: "string list \<Rightarrow> string" where
  "zap_pre_shutdown urls = concat (map (\<lambda>url. url_line url @ [NL]) urls)"


section \<open>The URL list reaches the verdict\<close>

lemma replace_all_absent: "c \<notin> set s \<Longrightarrow> replace_all [c] r s = s"
  by (simp add: replace_all_def split_on_not_in)

lemma url_line_clean: "NL \<notin> set (url_line url)" "char_of (13::nat) \<notin> set (url_line url)"
proof -
  show "NL \<notin> set (url_line url)" unfolding url_line_def by (rule replace_all_removes) simp
  show "char_of (13::nat) \<notin> set (url_line url)" unfolding url_line_def
    using set_replace_all [of "[NL]" "[]" "replace_all [char_of (13::nat)] [] url"] replace_all_removes [of "char_of (13::nat)" "[]" url] by auto
qed

lemma split_on_unlines: "\<forall>l\<in>set ls. NL \<notin> set l \<Longrightarrow> split_on [NL] (concat (map (\<lambda>l. l @ [NL]) ls)) = ls @ [[]]"
  by (induction ls) (simp_all add: split_on_char split_on_not_in)

lemma file_lines_written:
  assumes "\<forall>l\<in>set ls. NL \<notin> set l \<and> char_of (13::nat) \<notin> set l"
  shows "file_lines (concat (map (\<lambda>l. l @ [NL]) ls)) = ls"
proof -
  define t where "t = concat (map (\<lambda>l. l @ [NL]) ls)"
  have "NL \<noteq> char_of (13::nat)" by (simp add: NL_def)
  with assms have cr: "char_of (13::nat) \<notin> set t" by (auto simp: t_def)
  then have "\<not> sublist [char_of (13::nat), NL] t" by (auto simp: sublist_def)
  then have "replace_all [char_of (13::nat), NL] [NL] t = t" by (simp add: replace_all_def split_on_no_sep)
  with cr have "file_lines t = (let ls = split_on [NL] t in if last ls = [] then butlast ls else ls)"
    by (simp add: file_lines_def replace_all_absent)
  with split_on_unlines [of ls] assms show ?thesis by (simp add: t_def)
qed

text \<open>
  The verdict reads back exactly the URLs that the hook in the scanner wrote: each with its line ends removed, in
  order, without the blank ones, as long as there are at most 200000.
\<close>

theorem url_list_roundtrip:
  assumes "length urls \<le> 200000"
  shows "read_urls (zap_pre_shutdown urls) = Inr (filter (\<lambda>l. strip l \<noteq> []) (map url_line urls))"
proof -
  have "zap_pre_shutdown urls = concat (map (\<lambda>l. l @ [NL]) (map url_line urls))" by (simp add: zap_pre_shutdown_def o_def)
  moreover have "\<forall>l\<in>set (map url_line urls). NL \<notin> set l \<and> char_of (13::nat) \<notin> set l" using url_line_clean by auto
  ultimately have "file_lines (zap_pre_shutdown urls) = map url_line urls" using file_lines_written by metis
  then show ?thesis using assms by (simp add: read_urls_def Let_def MAX_URL_LINES_def)
qed

theorem url_list_roundtrip_witness:
  "read_urls (zap_pre_shutdown [''https://localhost:7200/'']) = Inr (filter (\<lambda>l. strip l \<noteq> []) (map url_line [''https://localhost:7200/'']))"
  by (rule url_list_roundtrip) simp

end
