(* ===== verification/Ci_Guards.thy ===== *)
theory Ci_Guards
  imports Py_Json
begin

text \<open>
  Two small CI scripts. \<^verbatim>\<open>.github/scripts/spa_package_guard.py\<close> checks that the SPA's package files run no install
  script; \<^verbatim>\<open>.github/scripts/dependency_canary.py\<close> proves that the dependency gates still fail on a seeded vulnerable
  package. Files and processes are arguments; \<^term>\<open>Inl\<close> is the class name of the exception that reading raised.
\<close>


section \<open>The SPA package guard\<close>

definition LIFECYCLE_SCRIPTS :: "string list" where
  "LIFECYCLE_SCRIPTS = [''preinstall'', ''install'', ''postinstall'', ''prepublish'', ''preprepare'', ''prepare'', ''postprepare'']"

definition is_blank :: "char \<Rightarrow> bool" where
  "is_blank c \<longleftrightarrow> c = CHR '' '' \<or> ccode c = 9"

definition IGNORE_SCRIPTS_BODY :: rx where
  "IGNORE_SCRIPTS_BODY = rseq [rlit ''ignore-scripts'', RStar (RSet is_blank), rchr CHR ''='', RStar (RSet is_blank), rlit ''true'',
     RStar (RSet is_blank)]"

definition IGNORE_SCRIPTS_RE :: rx where
  "IGNORE_SCRIPTS_RE = rseq [RBolM, IGNORE_SCRIPTS_BODY, REolM]"

record package_files =
  npmrc :: "string + string"
  package_json :: "string + json"

definition spa_check :: "package_files \<Rightarrow> string + string list" where
  "spa_check f =
     sbind (npmrc f) (\<lambda>rc. sbind (package_json f) (\<lambda>package.
       case package of
         JObj d \<Rightarrow>
           Inr (msg_if (\<not> searches IGNORE_SCRIPTS_RE rc) ''src/Decisya.Web/.npmrc must set ignore-scripts=true''
             @ (case dget d ''scripts'' of
                  JObj scripts \<Rightarrow>
                    (let bad = filter (dhas scripts) LIFECYCLE_SCRIPTS
                     in msg_if (bad \<noteq> []) (''lifecycle scripts in package.json: '' @ join '', '' bad))
                | _ \<Rightarrow> [])
             @ msg_if (dhas d ''allowScripts'') ''package.json must not set allowScripts'')
       | _ \<Rightarrow> Inl ''ValueError''))"

definition spa_main :: "package_files \<Rightarrow> int \<times> string list" where
  "spa_main f =
     (case spa_check f of
        Inl ex \<Rightarrow> (2, [fmt ''::error::SPA package guard could not read the package files (%s)'' [ex]])
      | Inr problems \<Rightarrow> (if problems \<noteq> [] then 1 else 0, map (\<lambda>p. ''::error::'' @ p) problems))"


section \<open>The dependency canary\<close>

definition NUGET_PACKAGE :: string where
  "NUGET_PACKAGE = ''Newtonsoft.Json''"

definition NUGET_VERSION :: string where
  "NUGET_VERSION = ''12.0.3''"

definition NPM_PACKAGE :: string where
  "NPM_PACKAGE = ''lodash''"

definition NPM_VERSION :: string where
  "NPM_VERSION = ''4.17.20''"

definition NPM_AUDIT_LEVEL :: string where
  "NPM_AUDIT_LEVEL = ''--audit-level=high''"

definition UNLOCKED_RESTORE_ARGS :: "string list" where
  "UNLOCKED_RESTORE_ARGS = [''-p:RestoreLockedMode=false'', ''-p:LOCKED_RESTORE=false'']"

definition NU190X_RE :: rx where
  "NU190X_RE = rseq [rlit ''error '', RGroup 1 (RSeq (rlit ''NU190'') (RSet (in_range 49 52))), rlit '': '',
     ropt (rlit ''Warning As Error: ''), rlit ''Package '', rchr CHR 0x27, RGroup 2 (rplus (RSet (\<lambda>c. c \<noteq> CHR 0x27))), rchr CHR 0x27]"

text \<open>The pairs of code and package name that \<^verbatim>\<open>findall\<close> returns.\<close>

definition nuget_hits :: "string \<Rightarrow> (string \<times> string) list" where
  "nuget_hits output = map (\<lambda>c. (group_text c 1, group_text c 2)) (re_finditer NU190X_RE output)"

definition judge_nuget :: "int \<Rightarrow> string \<Rightarrow> bool \<times> string" where
  "judge_nuget rc output =
     (if rc = 0 then (False, ''FAIL: restore succeeded, so the NuGet audit gate is open'')
      else
        let hits = nuget_hits output; others = sorted_set (filter (\<lambda>n. n \<noteq> NUGET_PACKAGE) (map snd hits)) in
        if hits = [] then (False, ''FAIL: restore failed, but not with an NU1901-NU1904 audit error: the proof was not made'')
        else if others \<noteq> [] then (False, fmt ''FAIL: an audit error names a package other than %s: %s'' [NUGET_PACKAGE, repr_strs others])
        else if \<not> list_ex (\<lambda>(code, name). code \<in> {''NU1903'', ''NU1904''}) hits then
          (False, ''FAIL: the audit errors are below High severity (NU1901/NU1902 only); the seeded package must be High or Critical'')
        else (True, fmt ''OK: restore failed with %s naming %s'' [repr_strs (sorted_set (map fst hits)), NUGET_PACKAGE]))"

text \<open>\<^verbatim>\<open>doc["vulnerabilities"][NPM_PACKAGE]["severity"]\<close>; a missing key and a value that cannot be indexed by a
  text are \<^term>\<open>None\<close>, as is an output that is no JSON (\<open>stdout = Inl\<close>).\<close>

definition index_key :: "json \<Rightarrow> string \<Rightarrow> json option" where
  "index_key v k = (case v of JObj d \<Rightarrow> map_of d k | _ \<Rightarrow> None)"

definition npm_severity :: "string + json \<Rightarrow> json option" where
  "npm_severity stdout =
     (case stdout of
        Inl ex \<Rightarrow> None
      | Inr doc \<Rightarrow> do { vs \<leftarrow> index_key doc ''vulnerabilities''; p \<leftarrow> index_key vs NPM_PACKAGE; index_key p ''severity'' })"

definition judge_npm :: "int \<Rightarrow> string + json \<Rightarrow> bool \<times> string" where
  "judge_npm rc stdout =
     (if rc = 0 then (False, ''FAIL: npm audit exited 0, so the npm audit gate is open'')
      else case npm_severity stdout of
        None \<Rightarrow> (False, fmt ''FAIL: npm audit failed, but its JSON does not list %s: the proof was not made'' [NPM_PACKAGE])
      | Some sev \<Rightarrow>
          if sev \<notin> {JStr ''high'', JStr ''critical''} then
            (False, fmt (''FAIL: %s is listed at '' @ [CHR 0x27] @ ''%s'' @ [CHR 0x27] @ '', expected high or critical'') [NPM_PACKAGE, py_str sev])
          else (True, fmt ''OK: npm audit exited %d and lists %s at %s'' [show_int rc, NPM_PACKAGE, py_str sev]))"

text \<open>The two runs. A process is its exit code, its output as a text and, for the audit, its standard output as JSON.\<close>

record canary_env =
  tool :: "string option"
  canary_dir :: string
  github_actions :: string
  work_in_repo :: bool
  restore :: "(string \<times> string) list \<Rightarrow> string list \<Rightarrow> int \<times> string"
  npm_lock :: "json \<Rightarrow> string list \<Rightarrow> int"
  npm_audit :: "json \<Rightarrow> string list \<Rightarrow> int \<times> (string + json)"

text \<open>The seeded projects: two files for the restore, one for npm.\<close>

definition quoted :: "char \<Rightarrow> string \<Rightarrow> string" where
  "quoted q t = [q] @ t @ [q]"

definition packages_props :: string where
  "packages_props = unlines [
     ''<Project>'',
     ''  <Import Project='' @ quoted CHR 0x22 (''$([MSBuild]::GetPathOfFileAbove('' @ quoted CHR 0x27 ''Directory.Packages.props'' @ '', ''
        @ quoted CHR 0x27 ''$(MSBuildThisFileDirectory)../'' @ ''))'') @ '' />'',
     ''  <ItemGroup>'',
     ''    <PackageVersion Include='' @ quoted CHR 0x22 NUGET_PACKAGE @ '' Version='' @ quoted CHR 0x22 NUGET_VERSION @ '' />'',
     ''  </ItemGroup>'',
     ''</Project>'']"

definition canary_csproj :: string where
  "canary_csproj = unlines [
     ''<Project Sdk='' @ quoted CHR 0x22 ''Microsoft.NET.Sdk'' @ ''>'',
     ''  <PropertyGroup>'',
     ''    <EnableDefaultItems>false</EnableDefaultItems>'',
     ''  </PropertyGroup>'',
     ''  <ItemGroup>'',
     ''    <PackageReference Include='' @ quoted CHR 0x22 NUGET_PACKAGE @ '' />'',
     ''  </ItemGroup>'',
     ''</Project>'']"

definition seeded_files :: "(string \<times> string) list" where
  "seeded_files = [(''Directory.Packages.props'', packages_props), (''Canary.csproj'', canary_csproj)]"

definition seeded_package :: json where
  "seeded_package = JObj [(''name'', JStr ''decisya-dependency-canary''), (''version'', JStr ''0.0.0''), (''private'', JBool True),
     (''dependencies'', JObj [(NPM_PACKAGE, JStr NPM_VERSION)])]"

definition restore_args :: "canary_env \<Rightarrow> string \<Rightarrow> bool \<Rightarrow> string list" where
  "restore_args e dotnet weaken = [dotnet, ''restore'', ''Canary.csproj'', ''--packages'', canary_dir e @ ''/packages'',
       ''-p:ArtifactsPath='' @ canary_dir e @ ''/out'']
     @ UNLOCKED_RESTORE_ARGS @ (if weaken then [''-p:TreatWarningsAsErrors=false''] else [])"

definition canary_nuget :: "canary_env \<Rightarrow> bool \<Rightarrow> int" where
  "canary_nuget e weaken =
     (case tool e of
        None \<Rightarrow> 2
      | Some dotnet \<Rightarrow> (case restore e seeded_files (restore_args e dotnet weaken) of (rc, output) \<Rightarrow> if fst (judge_nuget rc output) then 0 else 1))"

definition canary_npm :: "canary_env \<Rightarrow> int" where
  "canary_npm e =
     (case tool e of
        None \<Rightarrow> 2
      | Some npm \<Rightarrow>
          if work_in_repo e then 2
          else if npm_lock e seeded_package [npm, ''install'', ''--package-lock-only'', ''--ignore-scripts'', ''--no-audit'', ''--no-fund''] \<noteq> 0 then 1
          else (case npm_audit e seeded_package [npm, ''audit'', NPM_AUDIT_LEVEL, ''--json''] of (rc, stdout) \<Rightarrow> if fst (judge_npm rc stdout) then 0 else 1))"

definition canary_main :: "canary_env \<Rightarrow> string \<Rightarrow> bool \<Rightarrow> int" where
  "canary_main e target weaken =
     (if weaken \<and> lower (github_actions e) = ''true'' then 2
      else if weaken \<and> target \<noteq> ''nuget'' then 2
      else if target = ''nuget'' then canary_nuget e weaken else canary_npm e)"


section \<open>What a pass proves\<close>

text \<open>
  C31: The canary passes only when the gate really failed: the restore of the seeded project (which asks for the seeded package at its vulnerable version) ended with an error and
  every audit error of the output names the seeded package with at least one of High or Critical severity, or the
  npm audit failed and lists the seeded package as high or critical. On a CI runner the weakened mode never passes.
\<close>

theorem canary_pass_sound:
  assumes "canary_main e target weaken = 0"
  shows "\<not> (weaken \<and> lower (github_actions e) = ''true'') \<and> (\<exists>path rc. tool e = Some path \<and> rc \<noteq> 0
    \<and> (if target = ''nuget'' then
         (\<exists>out. restore e seeded_files (restore_args e path weaken) = (rc, out) \<and> snd ` set (nuget_hits out) = {NUGET_PACKAGE}
            \<and> fst ` set (nuget_hits out) \<inter> {''NU1903'', ''NU1904''} \<noteq> {})
       else (\<exists>doc. npm_audit e seeded_package [path, ''audit'', NPM_AUDIT_LEVEL, ''--json''] = (rc, Inr doc)
            \<and> npm_severity (Inr doc) \<in> {Some (JStr ''high''), Some (JStr ''critical'')})))"
proof (cases "target = ''nuget''")
  case True
  with assms obtain path rc out where r: "tool e = Some path" "restore e seeded_files (restore_args e path weaken) = (rc, out)" "fst (judge_nuget rc out)"
    "\<not> (weaken \<and> lower (github_actions e) = ''true'')"
    by (auto simp: canary_main_def canary_nuget_def split: if_splits prod.splits option.splits)
  then have "rc \<noteq> 0" "nuget_hits out \<noteq> []" "\<forall>h\<in>set (nuget_hits out). snd h = NUGET_PACKAGE"
    "\<exists>h\<in>set (nuget_hits out). fst h \<in> {''NU1903'', ''NU1904''}"
    by (force simp: judge_nuget_def Let_def filter_empty_conv list_ex_iff split: if_splits)+
  moreover from this(2,3) have "snd ` set (nuget_hits out) = {NUGET_PACKAGE}" by (cases "nuget_hits out") auto
  moreover from calculation(4) have "fst ` set (nuget_hits out) \<inter> {''NU1903'', ''NU1904''} \<noteq> {}" by blast
  ultimately have "\<exists>x. restore e seeded_files (restore_args e path weaken) = (rc, x) \<and> snd ` set (nuget_hits x) = {NUGET_PACKAGE}
      \<and> fst ` set (nuget_hits x) \<inter> {''NU1903'', ''NU1904''} \<noteq> {}" "rc \<noteq> 0" using r(2) by blast+
  then show ?thesis using r(1,4) True by (intro conjI exI [of _ path] exI [of _ rc]) (simp_all only: simp_thms if_True)
next
  case False
  with assms obtain path rc out where r: "tool e = Some path" "npm_audit e seeded_package [path, ''audit'', NPM_AUDIT_LEVEL, ''--json''] = (rc, out)"
    "fst (judge_npm rc out)" "\<not> weaken"
    by (auto simp: canary_main_def canary_npm_def split: if_splits prod.splits option.splits)
  then obtain doc where "out = Inr doc" by (cases out) (auto simp: judge_npm_def npm_severity_def split: if_splits)
  with r False show ?thesis by (auto simp: judge_npm_def split: if_splits option.splits)
qed

definition sample_canary :: canary_env where
  "sample_canary = \<lparr> tool = Some ''dotnet'', canary_dir = ''/c'', github_actions = ''true'', work_in_repo = False,
     restore = (\<lambda>files argv. (1, ''error NU1903: Warning As Error: Package '' @ [CHR 0x27] @ ''Newtonsoft.Json'' @ [CHR 0x27] @ '' 12.0.3'')),
     npm_lock = (\<lambda>pkg argv. 0), npm_audit = (\<lambda>pkg argv. (1, Inl ''ValueError'')) \<rparr>"

theorem canary_pass_sound_witness: "\<exists>path rc. tool sample_canary = Some path \<and> rc \<noteq> 0
    \<and> (\<exists>out. restore sample_canary seeded_files (restore_args sample_canary path False) = (rc, out) \<and> snd ` set (nuget_hits out) = {NUGET_PACKAGE})"
proof -
  have "canary_main sample_canary ''nuget'' False = 0" by code_simp
  from canary_pass_sound [OF this] show ?thesis by (simp only: if_True simp_thms) blast
qed


section \<open>What the package guard accepts\<close>

text \<open>
  The package guard passes only when package.json is an object without allowScripts, no script of it is an
  install-time script, and some line of .npmrc is exactly ignore-scripts=true, with blanks at most around the
  equals sign and at the end.
\<close>

theorem spa_guard_sound:
  assumes "fst (spa_main f) = 0"
  shows "\<exists>d rc a b c pre post. package_json f = Inr (JObj d) \<and> \<not> dhas d ''allowScripts''
    \<and> (\<forall>scripts s. dget d ''scripts'' = JObj scripts \<longrightarrow> s \<in> set LIFECYCLE_SCRIPTS \<longrightarrow> \<not> dhas scripts s)
    \<and> npmrc f = Inr rc \<and> rc = pre @ ''ignore-scripts'' @ a @ ''='' @ b @ ''true'' @ c @ post
    \<and> list_all is_blank (a @ b @ c) \<and> (pre = [] \<or> last pre = NL) \<and> (post = [] \<or> hd post = NL)"
proof -
  from assms obtain problems where p: "spa_check f = Inr problems" "problems = []"
    by (auto simp: spa_main_def split: sum.splits if_splits)
  then obtain rc v where v: "npmrc f = Inr rc" "package_json f = Inr v" by (auto simp: spa_check_def)
  with p obtain d where d: "v = JObj d" by (cases v) (auto simp: spa_check_def)
  with v p have f: "npmrc f = Inr rc" "package_json f = Inr (JObj d)" "searches IGNORE_SCRIPTS_RE rc" "\<not> dhas d ''allowScripts''"
    and scripts: "(case dget d ''scripts'' of JObj scripts \<Rightarrow> filter (dhas scripts) LIFECYCLE_SCRIPTS = [] | _ \<Rightarrow> True)"
    by (simp_all add: spa_check_def sbind_def Let_def split: json.splits)
  have "plain IGNORE_SCRIPTS_BODY" by (simp add: IGNORE_SCRIPTS_BODY_def)
  from f(3) obtain pre b post where line: "rc = pre @ b @ post" "b \<in> rlang IGNORE_SCRIPTS_BODY" "pre = [] \<or> last pre = NL" "post = [] \<or> hd post = NL"
    unfolding IGNORE_SCRIPTS_RE_def searches_line [OF \<open>plain IGNORE_SCRIPTS_BODY\<close>] by blast
  have "\<exists>x y z. b = ''ignore-scripts'' @ x @ ''='' @ y @ ''true'' @ z @ [] \<and> (\<forall>c\<in>set x. is_blank c) \<and> (\<forall>c\<in>set y. is_blank c)
      \<and> (\<forall>c\<in>set z. is_blank c)"
    using line(2) unfolding IGNORE_SCRIPTS_BODY_def rseq.simps rlang.simps(1,3) rlang_rlit rlang_rchr rlang_star_RSet mem_Collect_eq singleton_iff
    by (elim exE conjE) (hypsubst, intro exI conjI, rule refl, assumption+)
  then obtain x y z where b: "b = ''ignore-scripts'' @ x @ ''='' @ y @ ''true'' @ z @ []" and "\<forall>c\<in>set x. is_blank c" "\<forall>c\<in>set y. is_blank c"
    "\<forall>c\<in>set z. is_blank c" by blast
  then have blank: "list_all is_blank (x @ y @ z)" by (simp add: list_all_iff ball_Un)
  have rc: "rc = pre @ ''ignore-scripts'' @ x @ ''='' @ y @ ''true'' @ z @ post"
    unfolding line(1) b by (simp only: append_assoc append_Nil2 append_Nil)
  have "\<forall>scr s. dget d ''scripts'' = JObj scr \<longrightarrow> s \<in> set LIFECYCLE_SCRIPTS \<longrightarrow> \<not> dhas scr s"
    using scripts by (auto simp: filter_empty_conv)
  then show ?thesis using f(1,2,4) rc blank line(3,4) by blast
qed

definition sample_package :: package_files where
  "sample_package = \<lparr> npmrc = Inr (''ignore-scripts=true'' @ [NL]), package_json = Inr (JObj [(''scripts'', JObj [(''build'', JStr ''vite'')])]) \<rparr>"

theorem spa_guard_sound_witness: "\<exists>d. package_json sample_package = Inr (JObj d) \<and> \<not> dhas d ''allowScripts''"
proof -
  have "fst (spa_main sample_package) = 0" by code_simp
  from spa_guard_sound [OF this] show ?thesis by blast
qed

end
