(* ===== verification/Release_Images.thy ===== *)
theory Release_Images
  imports Scan_Runs Stack_Env
begin

text \<open>
  The release pipeline, \<^verbatim>\<open>.github/scripts/release_images.py\<close>: the build context, the pins of base images and
  tools, the docker archives, the checks on an image, the verdicts on what cosign and gitleaks print, and the
  references that are published.

  A raised \<^verbatim>\<open>ReleaseError\<close> is \<^term>\<open>Inl\<close> with its text; any other exception is \<^term>\<open>Inl\<close> too, because \<^verbatim>\<open>main\<close> fails
  closed on both in the same way. The environment is a function from names to texts. The lines added to the protected
  log are not part of the model: no decision reads them. Hashing, JSON parsing and tar reading are arguments.
\<close>


section \<open>Constants\<close>

definition REPO :: string where
  "REPO = ''mpcs2013/decisya''"

definition REGISTRY :: string where
  "REGISTRY = ''ghcr.io''"

definition OWNER :: string where
  "OWNER = split_head ''/'' REPO"

definition WORKFLOW_REF :: string where
  "WORKFLOW_REF = ''refs/heads/main''"

definition IDENTITY :: string where
  "IDENTITY = ''https://github.com/'' @ REPO @ ''/.github/workflows/release.yml@'' @ WORKFLOW_REF"

definition IDENTITY_CI :: string where
  "IDENTITY_CI = ''https://github.com/'' @ REPO @ ''/.github/workflows/ci.yml@'' @ WORKFLOW_REF"

definition ISSUER :: string where
  "ISSUER = ''https://token.actions.githubusercontent.com''"

definition IMAGES :: "(string \<times> string \<times> string) list" where
  "IMAGES = [(''api'', ''src/Decisya.Api/Decisya.Api.csproj'', ''aspnet''), (''bff'', ''src/Decisya.Bff/Decisya.Bff.csproj'', ''aspnet''),
     (''migrator'', ''src/Decisya.Infrastructure.Migrator/Decisya.Infrastructure.Migrator.csproj'', ''runtime'')]"

definition BASE_ALIASES :: "string list" where
  "BASE_ALIASES = [''aspnet'', ''runtime'']"

definition TOOL_ALIASES :: "string list" where
  "TOOL_ALIASES = [''syft'', ''cosign'', ''gitleaks'']"

definition SHA256_BODY :: rx where
  "SHA256_BODY = RSeq (rlit ''sha256:'') (rrep 64 (RSet is_hex_lower))"

definition RELEASE_REF_RE :: rx where
  "RELEASE_REF_RE = rseq [RBol, rseq [rplus (RSet is_registry_char), ropt (RSeq (rchr CHR '':'') (rplus rdigit)), rchr CHR ''/'',
     rplus (RSet is_path_char), rchr CHR '':'', rplus (RSet is_tag_char), rlit ''@sha256:'', rrep 64 (RSet is_hex_lower)], REol]"

definition PIN_FROM_RE :: rx where
  "PIN_FROM_RE = rseq [RBol, rlit ''FROM'', rplus rspace, RGroup 1 (rplus (RSet (\<lambda>c. \<not> is_space c))), rplus rspace, rlit ''AS'',
     rplus rspace, RGroup 2 (rplus (RSet (\<lambda>c. \<not> is_space c))), RStar rspace, REol]"

definition SHA40_RE :: rx where
  "SHA40_RE = rseq [RBol, rrep 40 (RSet is_hex_lower), REol]"

definition HEX64_RE :: rx where
  "HEX64_RE = rseq [RBol, rrep 64 (RSet is_hex_lower), REol]"

definition RELEASE_DIGEST_RE :: rx where
  "RELEASE_DIGEST_RE = rseq [RBol, SHA256_BODY, REol]"

definition VERSION_BODY :: rx where
  "VERSION_BODY = rseq [rplus rdigit, rchr CHR ''.'', rplus rdigit, rchr CHR ''.'', rplus rdigit]"

definition VERSION_RE :: rx where
  "VERSION_RE = rseq [RBol, VERSION_BODY, REol]"

definition RELEASE_TAG_RE :: rx where
  "RELEASE_TAG_RE = rseq [RBol, RAlt VERSION_BODY (RSeq (rlit ''sha-'') (rrep 12 (RSet is_hex_lower))), REol]"

definition is_output_key_char :: "char \<Rightarrow> bool" where
  "is_output_key_char c \<longleftrightarrow> is_lower_az c \<or> is_digit c \<or> c = CHR ''_''"

definition is_output_value_char :: "char \<Rightarrow> bool" where
  "is_output_value_char c \<longleftrightarrow> is_alnum_ascii c \<or> c \<in> {CHR ''.'', CHR ''_'', CHR '':'', CHR ''-''}"

definition OUTPUT_KEY_RE :: rx where
  "OUTPUT_KEY_RE = rseq [RBol, rplus (RSet is_output_key_char), REol]"

definition OUTPUT_VALUE_RE :: rx where
  "OUTPUT_VALUE_RE = rseq [RBol, RStar (RSet is_output_value_char), REol]"

definition USER_ID :: string where
  "USER_ID = ''1654''"

definition ENV_ALLOW :: "string list" where
  "ENV_ALLOW = [''PATH'', ''APP_UID'', ''ASPNETCORE_HTTP_PORTS'', ''DOTNET_RUNNING_IN_CONTAINER'', ''DOTNET_VERSION'', ''ASPNET_VERSION'']"

definition at_start_or_slash :: rx where
  "at_start_or_slash = RAlt RBol (rchr CHR ''/'')"

definition FORBIDDEN_FILE_RES :: "rx list" where
  "FORBIDDEN_FILE_RES = [
     rseq [at_start_or_slash, rlit_ci ''appsettings'', rchr CHR ''.'', rplus (RSet (\<lambda>c. c \<noteq> CHR ''/'')), rlit_ci ''.json'', REol],
     rseq [at_start_or_slash, rlit_ci ''.env'', RAlt REol (rchr CHR ''.'')],
     rseq [at_start_or_slash, rlit_ci ''secrets.json'', REol],
     rseq [at_start_or_slash, rlit_ci ''launchSettings.json'', REol],
     rseq [rchr CHR ''.'', ralt [rlit_ci ''pfx'', rlit_ci ''p12'', rlit_ci ''key''], REol],
     rseq [at_start_or_slash, rlit ''id_'', ralt [rlit ''rsa'', rlit ''dsa'', rlit ''ecdsa'', rlit ''ed25519''], REol],
     rseq [at_start_or_slash, rlit ''.gitleaksignore'', REol],
     rseq [at_start_or_slash, rlit ''.gitleaks.toml'', REol]]"

definition CERT_RE :: rx where
  "CERT_RE = rseq [rchr CHR ''.'', RAlt (rlit_ci ''pem'') (rlit_ci ''crt''), REol]"

definition CERT_ALLOWED_PREFIXES :: "string list" where
  "CERT_ALLOWED_PREFIXES = [''etc/ssl/'', ''usr/share/ca-certificates/'']"

definition CERT_ALLOWED_FILES :: "string list" where
  "CERT_ALLOWED_FILES = [''usr/lib/ssl/cert.pem'']"

definition NETWORK_RE :: rx where
  "NETWORK_RE = ralt (map rlit_ci [''dial tcp'', ''no such host'', ''i/o timeout'', ''timed out'', ''timeout'', ''connection refused'',
       ''connection reset'', ''TLS handshake'', ''temporary failure'', ''UNAUTHORIZED'', ''DENIED'', ''TOOMANYREQUESTS'']
     @ [rseq [RWordB, rlit ''50'', RSet (in_range 48 52), RWordB], rlit_ci ''EOF''])"

definition MISMATCH_RE :: rx where
  "MISMATCH_RE = ralt [rlit_ci ''none of the expected identities matched'',
     rseq [rlit_ci ''expected '', rupto 80 rdot, ralt [rlit_ci ''not found in'', rlit_ci ''does not match'', rlit_ci ''mismatch''], rupto 40 rdot,
       rlit_ci ''certificate''],
     rlit_ci ''certificate identity'',
     RSeq (rlit_ci ''expected workflow '') (ralt [rlit_ci ''trigger'', rlit_ci ''sha'', rlit_ci ''ref'']),
     rlit_ci ''expected GitHub workflow'']"

definition MISSING_RE :: rx where
  "MISSING_RE = ralt [rlit_ci ''no signatures found'', rlit_ci ''no signatures associated'', rlit_ci ''signature not found'',
     rseq [rlit_ci ''no attestation'', ropt (rci CHR ''s''), rlit_ci '' found'']]"


section \<open>The build context\<close>

type_synonym environ = "string \<Rightarrow> string option"

definition env_required :: "environ \<Rightarrow> string \<Rightarrow> rx \<Rightarrow> string + string" where
  "env_required env name pattern =
     (let v = (case env name of Some v \<Rightarrow> v | None \<Rightarrow> [])
      in if \<not> matches pattern v then Inl (fmt ''environment variable %s is missing or malformed'' [name]) else Inr v)"

definition check_repository :: "environ \<Rightarrow> string + unit" where
  "check_repository env =
     (case env ''GITHUB_REPOSITORY'' of
        Some actual \<Rightarrow> if actual \<noteq> REPO then Inl (fmt ''GITHUB_REPOSITORY is not %s: the verify identity is bound to %s; edit REPO in a reviewed diff'' [REPO, REPO])
                         else Inr ()
      | None \<Rightarrow> Inr ())"

definition EVENT_RE :: "string list \<Rightarrow> rx" where
  "EVENT_RE names = rseq [RBol, ralt (map rlit names), REol]"

definition VTAG_RE :: rx where
  "VTAG_RE = rseq [RBol, RSeq (rchr CHR ''v'') VERSION_BODY, REol]"

record release_ctx =
  c_event :: string
  c_sha :: string
  c_version :: string
  c_tag :: string
  c_release_tag :: string

text \<open>What a push event has to bring: the checks on the values of release-please.\<close>

definition push_context :: "environ \<Rightarrow> string + json \<Rightarrow> string \<Rightarrow> string \<Rightarrow> string + release_ctx" where
  "push_context env manifest event sha =
     (if env ''RP_RELEASE_CREATED'' \<noteq> Some ''true'' then Inl ''release-please did not create a release''
      else sbind (env_required env ''RP_SHA'' SHA40_RE) (\<lambda>rp_sha.
        if rp_sha \<noteq> sha then
          Inl ''release-please sha differs from the pushed commit (a newer push replaced this run, or the action is wrong); never edit the outputs, see docs/runbooks/release.md''
        else sbind (env_required env ''RP_VERSION'' VERSION_RE) (\<lambda>version.
          sbind (env_required env ''RP_TAG'' VTAG_RE) (\<lambda>tag_name.
            if tag_name \<noteq> ''v'' @ version then Inl (''release-please tag_name is not '' @ [CHR 0x27] @ ''v'' @ [CHR 0x27] @ '' + version'')
            else case manifest of
              Inl ex \<Rightarrow> Inl (fmt ''.release-please-manifest.json is unreadable: %s'' [ex])
            | Inr v \<Rightarrow>
                (case v of
                   JObj d \<Rightarrow>
                     if dget d ''.'' \<noteq> JStr version then
                       Inl (''release-please version differs from the '' @ [CHR 0x27] @ ''.'' @ [CHR 0x27] @ '' entry of .release-please-manifest.json in the checked-out tree'')
                     else Inr \<lparr> c_event = event, c_sha = sha, c_version = version, c_tag = version, c_release_tag = tag_name \<rparr>
                 | _ \<Rightarrow> Inl (''release-please version differs from the '' @ [CHR 0x27] @ ''.'' @ [CHR 0x27] @ '' entry of .release-please-manifest.json in the checked-out tree''))))))"

definition release_context :: "environ \<Rightarrow> string + json \<Rightarrow> string + release_ctx" where
  "release_context env manifest =
     sbind (check_repository env) (\<lambda>u.
     sbind (env_required env ''RELEASE_EVENT'' (EVENT_RE [''push'', ''workflow_dispatch'', ''pull_request''])) (\<lambda>event.
     sbind (env_required env ''RELEASE_SHA'' SHA40_RE) (\<lambda>sha.
       if event = ''push'' then push_context env manifest event sha
       else if event = ''workflow_dispatch'' then
         (let short = take 12 sha
          in Inr \<lparr> c_event = event, c_sha = sha, c_version = ''0.0.0-sha.'' @ short, c_tag = ''sha-'' @ short, c_release_tag = [] \<rparr>)
       else Inr \<lparr> c_event = event, c_sha = sha, c_version = ''0.0.0-pr'', c_tag = ''pr-build'', c_release_tag = [] \<rparr>)))"

definition publish_context :: "environ \<Rightarrow> string + (string \<times> string \<times> string)" where
  "publish_context env =
     sbind (check_repository env) (\<lambda>u.
     sbind (env_required env ''RELEASE_EVENT'' (EVENT_RE [''push'', ''workflow_dispatch''])) (\<lambda>event.
     sbind (env_required env ''RELEASE_SHA'' SHA40_RE) (\<lambda>sha.
     sbind (env_required env ''RELEASE_TAG'' RELEASE_TAG_RE) (\<lambda>tag.
       if event = ''workflow_dispatch'' \<and> tag \<noteq> ''sha-'' @ take 12 sha then Inl ''a dry-run tag must be sha-<first 12 hex of RELEASE_SHA>''
       else if event = ''push'' \<and> \<not> matches VERSION_RE tag then Inl ''a release tag must be a SemVer version''
       else Inr (event, sha, tag)))))"


section \<open>Pins\<close>

definition ZERO_DIGEST_RE :: rx where
  "ZERO_DIGEST_RE = rseq [rlit ''@sha256:'', rrep 64 (rchr CHR ''0''), REol]"

definition pin_line :: "string \<Rightarrow> string list \<Rightarrow> (string \<times> string) list \<Rightarrow> nat \<times> string \<Rightarrow> string + (string \<times> string) list" where
  "pin_line file aliases refs numbered =
     (case numbered of (n, raw) \<Rightarrow>
        let line = strip raw; at = file @ '':'' @ show_nat n @ '': '' in
        if line = [] \<or> py_startswith line ''#'' then Inr refs
        else case re_match PIN_FROM_RE line of
          None \<Rightarrow> Inl (at @ ''only '' @ [CHR 0x27] @ ''FROM <tag@digest> AS <alias>'' @ [CHR 0x27] @ '' lines and comments are allowed'')
        | Some c \<Rightarrow>
            (let ref = group_text c 1; al = group_text c 2 in
             if al \<notin> set aliases then Inl (at @ fmt ''unknown alias %s, expected one of %s'' [repr_str al, repr_strs aliases])
             else if dhas refs al then Inl (at @ ''duplicate alias '' @ al)
             else if \<not> matches RELEASE_REF_RE ref then Inl (at @ al @ '' is not a tag@sha256 reference'')
             else if searches ZERO_DIGEST_RE ref then Inl (at @ al @ '' has an unresolved all-zero digest'')
             else Inr (dset refs al ref)))"

fun sfold :: "('s \<Rightarrow> 'a \<Rightarrow> string + 's) \<Rightarrow> 's \<Rightarrow> 'a list \<Rightarrow> string + 's" where
  "sfold f s [] = Inr s"
| "sfold f s (x # xs) = sbind (f s x) (\<lambda>s'. sfold f s' xs)"

definition parse_pins :: "string \<Rightarrow> string \<Rightarrow> string list \<Rightarrow> string + (string \<times> string) list" where
  "parse_pins file text aliases =
     sbind (sfold (pin_line file aliases) [] (enumerate 1 (splitlines text))) (\<lambda>refs.
       if \<not> same_set (dkeys refs) aliases then
         Inl (file @ fmt '': aliases are %s, expected %s'' [repr_strs (sort (dkeys refs)), repr_strs (sort aliases)])
       else Inr refs)"

definition digest_only :: "string \<Rightarrow> string" where
  "digest_only ref =
     (case partition_at ''@'' ref of (repo_tag, f, digest) \<Rightarrow>
        (case rcut '':'' repo_tag of None \<Rightarrow> repo_tag | Some (a, b) \<Rightarrow> a) @ ''@'' @ digest)"

definition image_ref :: "string \<Rightarrow> string \<Rightarrow> string + string" where
  "image_ref name digest =
     (if \<not> matches RELEASE_DIGEST_RE digest then Inl (name @ '': not a sha256 digest'')
      else Inr (REGISTRY @ ''/'' @ OWNER @ ''/decisya-'' @ name @ ''@'' @ digest))"


section \<open>Archives\<close>

function strip_lead :: "string \<Rightarrow> string" where
  "strip_lead n = (if py_startswith n ''./'' then strip_lead (drop 2 n) else if py_startswith n ''/'' then strip_lead (drop 1 n) else n)"
  by pat_completeness auto
termination
  by (relation "measure length") (auto simp: prefix_def)

declare strip_lead.simps [simp del]

definition normalize_name :: "string \<Rightarrow> string" where
  "normalize_name name = strip_lead (replace_all [CHR 0x5C] ''/'' name)"

text \<open>A member of the outer tar: its name, whether it is a regular file, and its bytes when they can be read.\<close>

record member =
  m_name :: string
  m_isreg :: bool
  m_data :: "string option"

definition archive_members :: "member list \<Rightarrow> (string \<times> member) list" where
  "archive_members ms = dict_of (map (\<lambda>m. (normalize_name (m_name m), m)) ms)"

definition blob :: "(string \<times> member) list \<Rightarrow> string \<Rightarrow> string + string" where
  "blob members name =
     (let n = normalize_name name in
      if py_startswith n ''..'' \<or> py_in ''/../'' n then Inl (fmt ''archive member %s is missing or unsafe'' [repr_str name])
      else case map_of members n of
        None \<Rightarrow> Inl (fmt ''archive member %s is missing or unsafe'' [repr_str name])
      | Some m \<Rightarrow>
          if \<not> m_isreg m then Inl (fmt ''archive member %s is not a regular file'' [repr_str name])
          else (case m_data m of
                  None \<Rightarrow> Inl (fmt ''archive member %s cannot be read'' [repr_str name])
                | Some data \<Rightarrow> Inr data))"

text \<open>A member of a layer: what \<^verbatim>\<open>tarfile\<close> says of it, and the class of the exception its data filter raises.\<close>

record layer_member =
  u_name :: string
  u_linkname :: string
  u_sym :: bool
  u_lnk :: bool
  u_filtered :: "string option"

text \<open>Hashing, \<^verbatim>\<open>json.loads\<close> (\<^term>\<open>Inl\<close> is the text of the ValueError), reading an archive, reading a layer (its
  members up to the error that ends the iteration, if there is one) and writing a tar of small files.\<close>

record tools =
  sha256 :: "string \<Rightarrow> string"
  json_loads :: "string \<Rightarrow> string + json"
  untar :: "string \<Rightarrow> string + member list"
  layer_tar :: "string \<Rightarrow> layer_member list \<times> string option"
  tar_write :: "(string \<times> string) list \<Rightarrow> string"

record archive =
  a_repo_tags :: json
  a_config :: json
  a_config_bytes :: string
  a_config_digest :: string
  a_layers :: "(string \<times> string) list"

definition single_entry :: "json \<Rightarrow> dict option" where
  "single_entry v = (case v of JList [JObj d] \<Rightarrow> Some d | _ \<Rightarrow> None)"

definition layer_blobs :: "(string \<times> member) list \<Rightarrow> json \<Rightarrow> string + (string \<times> string) list" where
  "layer_blobs members v =
     (case v of
        JList (x # xs) \<Rightarrow> smap (\<lambda>n. sbind (blob members (py_str n)) (\<lambda>data. Inr (py_str n, data))) (x # xs)
      | _ \<Rightarrow> Inl ''manifest.json lists no layers'')"

definition relabel :: "string \<Rightarrow> string + 'a \<Rightarrow> string + 'a" where
  "relabel label x = (case x of Inl ex \<Rightarrow> Inl (label @ ex) | Inr a \<Rightarrow> Inr a)"

definition read_archive :: "tools \<Rightarrow> string \<Rightarrow> string + archive" where
  "read_archive t bytes =
     sbind (untar t bytes) (\<lambda>ms.
       let members = archive_members ms in
       sbind (blob members ''manifest.json'') (\<lambda>mb.
       sbind (relabel ''manifest.json is not JSON: '' (json_loads t mb)) (\<lambda>manifest.
         case single_entry manifest of
           None \<Rightarrow> Inl ''manifest.json must hold exactly one image''
         | Some entry \<Rightarrow>
             sbind (blob members (py_str (case map_of entry ''Config'' of Some v \<Rightarrow> v | None \<Rightarrow> JStr ''''))) (\<lambda>config_bytes.
             sbind (layer_blobs members (dget entry ''Layers'')) (\<lambda>layers.
             sbind (relabel ''image config is not JSON: '' (json_loads t config_bytes)) (\<lambda>config.
               Inr \<lparr> a_repo_tags = py_or (dget entry ''RepoTags'') (JList []), a_config = config, a_config_bytes = config_bytes,
                     a_config_digest = ''sha256:'' @ sha256 t config_bytes, a_layers = layers \<rparr>))))))"


section \<open>Checks on an image\<close>

text \<open>An exception that the script does not raise itself.\<close>

definition unexpected :: "'a option \<Rightarrow> string + 'a" where
  "unexpected x = (case x of None \<Rightarrow> Inl ''unexpected'' | Some a \<Rightarrow> Inr a)"

definition entrypoint_ok :: "json \<Rightarrow> bool" where
  "entrypoint_ok v =
     (case v of
        JList (a # b # rest) \<Rightarrow> a = JStr ''dotnet'' \<and> py_startswith (py_str b) ''/app/'' \<and> py_endswith (py_str b) ''.dll''
      | _ \<Rightarrow> False)"

definition check_config :: "string \<Rightarrow> json \<Rightarrow> string + string list" where
  "check_config name v =
     sbind (unexpected (as_dict v)) (\<lambda>cfg.
       let inner = dict_or_empty (dget cfg ''config'') in
       sbind (unexpected (py_iter (dget inner ''Env''))) (\<lambda>env.
         let keys = map (\<lambda>item. split_head ''='' (py_str item)) env; extra = sorted_set (keys_minus keys ENV_ALLOW)
         in Inr (
           msg_if (dget cfg ''os'' \<noteq> JStr ''linux'' \<or> dget cfg ''architecture'' \<noteq> JStr ''amd64'')
             (fmt ''%s: platform is %s/%s, expected linux/amd64'' [name, py_str (dget cfg ''os''), py_str (dget cfg ''architecture'')])
           @ msg_if ((case map_of inner ''User'' of Some u \<Rightarrow> py_str u | None \<Rightarrow> []) \<noteq> USER_ID)
               (fmt ''%s: User is %s, expected %s'' [name, py_repr (dget inner ''User''), repr_str USER_ID])
           @ msg_if (extra \<noteq> []) (fmt ''%s: Env keys outside the allow-list: %s'' [name, repr_strs extra])
           @ concat (map (\<lambda>banned. msg_if (banned \<in> set keys) (fmt ''%s: %s must not be set in the image'' [name, banned]))
               [''ASPNETCORE_ENVIRONMENT'', ''DOTNET_ENVIRONMENT''])
           @ msg_if (\<not> entrypoint_ok (dget inner ''Entrypoint'')) (fmt (''%s: Entrypoint is not '' @ [CHR 0x27] @ ''dotnet /app/<App>.dll'' @ [CHR 0x27]) [name]))))"

definition forbidden_name :: "string \<Rightarrow> bool" where
  "forbidden_name m \<longleftrightarrow> list_ex (\<lambda>rx. searches rx m) FORBIDDEN_FILE_RES"

definition stray_certificate :: "string \<Rightarrow> bool" where
  "stray_certificate m \<longleftrightarrow> searches CERT_RE m \<and> \<not> list_ex (py_startswith m) CERT_ALLOWED_PREFIXES \<and> m \<notin> set CERT_ALLOWED_FILES"

definition check_names :: "string \<Rightarrow> nat \<Rightarrow> string list \<Rightarrow> string list" where
  "check_names name index names =
     concat (map (\<lambda>m.
       if py_startswith (rsplit_last ''/'' m) ''.wh.'' then []
       else if forbidden_name m then [fmt ''%s: layer %d: forbidden file %s'' [name, show_nat index, m]]
       else msg_if (stray_certificate m) (fmt ''%s: layer %d: certificate or key file outside the CA store: %s'' [name, show_nat index, m])) names)"


section \<open>Gitleaks\<close>

definition gitleaks_argv :: "string \<Rightarrow> string \<Rightarrow> string \<Rightarrow> string list" where
  "gitleaks_argv tool_ref scan_dir cfg_dir =
     [''docker'', ''run'', ''--rm'', ''--network'', ''none'', ''-v'', scan_dir @ '':/scan:ro'', ''-v'', cfg_dir @ '':/cfg:ro'', tool_ref, ''dir'', ''/scan'',
      ''--config'', ''/cfg/gitleaks-image.toml'', ''--gitleaks-ignore-path'', ''/cfg/empty.gitleaksignore'', ''--ignore-gitleaks-allow'',
      ''--redact'', ''--no-banner'', ''--no-color'', ''--exit-code'', ''1'', ''--report-format'', ''json'', ''--report-path'', ''-'']"

datatype leak_status = Scan_clean | Scan_leak | Scan_error

type_synonym leak_result = "leak_status \<times> (string \<times> string \<times> json) list"

definition leak_findings :: "json list \<Rightarrow> (string \<times> string \<times> json) list" where
  "leak_findings report = List.map_filter (\<lambda>f. case f of
      JObj d \<Rightarrow> Some (py_str (case map_of d ''RuleID'' of Some v \<Rightarrow> v | None \<Rightarrow> JStr ''?''),
                       py_str (case map_of d ''File'' of Some v \<Rightarrow> v | None \<Rightarrow> JStr ''?''),
                       (case map_of d ''StartLine'' of Some v \<Rightarrow> v | None \<Rightarrow> JInt 0))
    | _ \<Rightarrow> None) report"

text \<open>The verdict of \<^verbatim>\<open>scan_dir_with_gitleaks\<close> on the exit code and the report.\<close>

definition gitleaks_verdict :: "tools \<Rightarrow> int \<Rightarrow> string \<Rightarrow> leak_result" where
  "gitleaks_verdict t rc out =
       (case (if strip out = [] then Inr (JList []) else json_loads t out) of
           Inr (JList report) \<Rightarrow>
             (let found = leak_findings report in
              if rc = 0 \<and> found = [] then (Scan_clean, [])
              else if rc = 1 \<and> found \<noteq> [] then (Scan_leak, found)
              else (Scan_error, found))
         | _ \<Rightarrow> (Scan_error, []))"

text \<open>The verdict of the canary on the scans of its two layers.\<close>

definition status_text :: "leak_status \<Rightarrow> string" where
  "status_text s = (case s of Scan_clean \<Rightarrow> ''clean'' | Scan_leak \<Rightarrow> ''leak'' | Scan_error \<Rightarrow> ''error'')"

definition release_canary :: "leak_result \<Rightarrow> leak_result \<Rightarrow> string + unit" where
  "release_canary first second =
     (if fst first \<noteq> Scan_leak \<or> \<not> list_ex (\<lambda>(rule, file, line). py_in ''canary-token.txt'' file) (snd first) then
        Inl ''canary: the layer scan did not report the seeded token in layer 0; the secret gate cannot be trusted''
      else if fst second \<noteq> Scan_clean then
        Inl (fmt ''canary: the whiteout-only layer was not clean (%s); the secret gate cannot be trusted'' [status_text (fst second)])
      else Inr ())"


section \<open>Grype and syft\<close>

text \<open>\<^verbatim>\<open>_grype\<close>: the problems of a scan of the archive, with the policy of the CI image scan and no tag state.\<close>

definition grype_argv :: "string \<Rightarrow> string \<Rightarrow> string \<Rightarrow> string \<Rightarrow> string list" where
  "grype_argv scn db archive_dir name =
     [''docker'', ''run'', ''--rm'', ''-v'', db @ '':'' @ DB_MOUNT, ''-v'', archive_dir @ '':/in:ro''] @ env_args SCAN_ENV
     @ [scn, ''docker-archive:/in/'' @ name @ ''.tar'', ''-o'', ''json'']"

definition grype_evidence :: "string \<Rightarrow> dict \<Rightarrow> string + string list" where
  "grype_evidence name doc =
     (let source = dict_or_empty (dget doc ''source''); target = dict_or_empty (dget source ''target'') in
      sbind (unexpected (or_dict (dget doc ''distro''))) (\<lambda>distro.
      sbind (unexpected (db_built doc)) (\<lambda>built.
        Inr (msg_if (dget source ''type'' \<noteq> JStr ''image'') (fmt (''%s: grype source.type is not '' @ [CHR 0x27] @ ''image'' @ [CHR 0x27]) [name])
          @ msg_if (\<not> is_list (dget target ''layers'') \<or> \<not> truthy (dget target ''layers'')) (fmt ''%s: grype catalogued no layers'' [name])
          @ msg_if (\<not> truthy (dget distro ''name'')) (fmt ''%s: grype did not recognise the OS'' [name])
          @ msg_if (\<not> truthy built) (fmt ''%s: grype database is not identified'' [name])))))"

definition grype_problems :: "tools \<Rightarrow> string \<Rightarrow> exc_entry list \<Rightarrow> int \<Rightarrow> int \<Rightarrow> string \<Rightarrow> string + string list" where
  "grype_problems t name es day rc out =
       (if rc \<noteq> 0 then Inr [fmt ''%s: grype exit %d'' [name, show_int rc]]
        else case json_loads t out of
          Inl ex \<Rightarrow> Inr [fmt ''%s: grype output is not JSON (%s)'' [name, ex]]
        | Inr v \<Rightarrow>
            (case v of
               JObj doc \<Rightarrow>
                 if \<not> is_list (dget doc ''matches'') then Inr [fmt (''%s: grype JSON has no '' @ [CHR 0x27] @ ''matches'' @ [CHR 0x27] @ '' list'') [name]]
                 else sbind (grype_evidence name doc) (\<lambda>problems.
                   if problems \<noteq> [] then Inr problems
                   else sbind (unexpected (evaluate doc name es day None [])) (\<lambda>r.
                     Inr (msg_if (findings r \<noteq> [])
                       (fmt ''%s: %d High or Critical finding(s) without an active exception'' [name, show_nat (length (findings r))]))))
             | _ \<Rightarrow> Inr [fmt (''%s: grype JSON has no '' @ [CHR 0x27] @ ''matches'' @ [CHR 0x27] @ '' list'') [name]]))"

definition syft_document :: "string \<Rightarrow> bool \<Rightarrow> string + json \<Rightarrow> string + unit" where
  "syft_document filename require_components doc =
     (case doc of
        Inl ex \<Rightarrow> Inl (fmt ''%s: not valid JSON (%s)'' [filename, ex])
      | Inr v \<Rightarrow>
          (case v of
             JObj d \<Rightarrow>
               if dget d ''bomFormat'' \<noteq> JStr ''CycloneDX'' then Inl (filename @ '': not a CycloneDX document'')
               else if require_components \<and> \<not> truthy (dget d ''components'') then Inl (filename @ '': no components were catalogued'')
               else Inr ()
           | _ \<Rightarrow> Inl (filename @ '': not a CycloneDX document'')))"


section \<open>Verification with cosign\<close>

definition verify_flags :: "string \<Rightarrow> string \<Rightarrow> string \<Rightarrow> string + string list" where
  "verify_flags sha trigger identity =
     (if \<not> matches SHA40_RE sha then Inl ''verification requires --certificate-github-workflow-sha (the release commit)''
      else if trigger \<notin> {''push'', ''workflow_dispatch''} then Inl ''trigger must be push or workflow_dispatch''
      else Inr [''--certificate-identity'', identity, ''--certificate-oidc-issuer'', ISSUER, ''--certificate-github-workflow-repository'', REPO,
        ''--certificate-github-workflow-trigger'', trigger, ''--certificate-github-workflow-sha'', sha,
        ''--certificate-github-workflow-ref'', WORKFLOW_REF])"

datatype negative = Verified | Mismatch | Missing | Other

definition classify_negative :: "int \<Rightarrow> string \<Rightarrow> negative" where
  "classify_negative rc out =
     (if rc = 0 then Verified
      else if searches NETWORK_RE out then Other
      else if searches MISMATCH_RE out then Mismatch
      else if searches MISSING_RE out then Missing
      else Other)"

end
