(* ===== verification/Py_Path.thy ===== *)
theory Py_Path
  imports Py_Prelude
begin

text \<open>
  \<^verbatim>\<open>pathlib.Path\<close> on a POSIX system, as far as the scripts build paths with it: a root (none, one slash, or exactly
  two) and the parts that are neither empty nor a single dot.
\<close>

type_synonym ppath = "string \<times> string list"

definition path_parts :: "string \<Rightarrow> string list" where
  "path_parts s = filter (\<lambda>p. p \<noteq> [] \<and> p \<noteq> ''.'') (split_on ''/'' s)"

definition path_root :: "string \<Rightarrow> string" where
  "path_root s =
     (if py_startswith s ''//'' \<and> \<not> py_startswith s ''///'' then ''//'' else if py_startswith s ''/'' then ''/'' else [])"

definition path_of :: "string \<Rightarrow> ppath" where
  "path_of s = (path_root s, path_parts s)"

text \<open>\<^verbatim>\<open>p / x\<close> for a relative text.\<close>

definition path_sub :: "ppath \<Rightarrow> string \<Rightarrow> ppath" where
  "path_sub p x = (fst p, snd p @ path_parts x)"

definition path_text :: "ppath \<Rightarrow> string" where
  "path_text p = (if fst p = [] \<and> snd p = [] then ''.'' else fst p @ join ''/'' (snd p))"

text \<open>\<^verbatim>\<open>p.parents\<close>, nearest first, and \<^verbatim>\<open>p.name\<close>.\<close>

definition path_parents :: "ppath \<Rightarrow> ppath list" where
  "path_parents p = map (\<lambda>n. (fst p, take n (snd p))) (rev [0..<length (snd p)])"

definition path_name :: "ppath \<Rightarrow> string" where
  "path_name p = (if snd p = [] then [] else last (snd p))"

end
