(* ===== verification/Jobs.thy ===== *)
theory Jobs
  imports Py_Prelude "HOL-Library.Sublist"
begin

text \<open>
  Commands with effects, shared by the release jobs and the stack's operator commands: programs over an explicit
  history of events, and the rules to reason about them.
\<close>


section \<open>Jobs\<close>

text \<open>
  What a job does to the world, in order: the commands it starts (with a text on standard input, \<open>Feed\<close>) and the files it
  writes, copies or removes; \<open>Put\<close> replaces a file of the secrets folder, and \<open>Sleep\<close> is a pause in seconds. A
  job maps the events so far to the events after it and its result, and every answer of the world (an exit code, the
  bytes of a file) may depend on the events before it.
\<close>

datatype event =
    Run "string list"
  | Write string string
  | Copy string string
  | Mkdir string
  | Rmtree string
  | Chmod string nat
  | Extract string string
  | Feed "string list" string
  | Put string string
  | Unlink string
  | Sleep nat

type_synonym history = "event list"

text \<open>An exception of the standard library, with its class and text: an \<^verbatim>\<open>OSError\<close>, a \<^verbatim>\<open>SubprocessError\<close>, a
  \<^verbatim>\<open>ValueError\<close>, a \<^verbatim>\<open>KeyError\<close>, or another.\<close>

datatype fault_kind = OS_error | Subprocess_error | Value_error | Key_error | Other_error

record fault =
  f_kind :: fault_kind
  f_class :: string
  f_text :: string

text \<open>An error of the script's own class, which \<^verbatim>\<open>main\<close> reports as a failure; a \<^verbatim>\<open>SystemExit\<close>; or an exception, which
  ends the interpreter with status 1 when nothing catches it.\<close>

datatype job_error = Failed string | Exited int | Raised fault

type_synonym 'a job = "history \<Rightarrow> history \<times> (job_error + 'a)"

definition jret :: "'a \<Rightarrow> 'a job" where
  "jret a h = (h, Inr a)"

definition jbind :: "'a job \<Rightarrow> ('a \<Rightarrow> 'b job) \<Rightarrow> 'b job" where
  "jbind m f h = (case m h of (h', Inl e) \<Rightarrow> (h', Inl e) | (h', Inr a) \<Rightarrow> f a h')"

definition jlift :: "string + 'a \<Rightarrow> 'a job" where
  "jlift x h = (h, case x of Inl e \<Rightarrow> Inl (Failed e) | Inr a \<Rightarrow> Inr a)"

definition jask :: "(history \<Rightarrow> string + 'a) \<Rightarrow> 'a job" where
  "jask q h = jlift (q h) h"

definition jfail :: "string \<Rightarrow> 'a job" where
  "jfail e = jlift (Inl e)"

definition jdo :: "event \<Rightarrow> unit job" where
  "jdo e h = (h @ [e], Inr ())"

fun jmap :: "('a \<Rightarrow> 'b job) \<Rightarrow> 'a list \<Rightarrow> 'b list job" where
  "jmap f [] = jret []"
| "jmap f (x # xs) = jbind (f x) (\<lambda>y. jbind (jmap f xs) (\<lambda>ys. jret (y # ys)))"

text \<open>A look at the world, a refusal, and an event that happens on every way out.\<close>

definition jlook :: "(history \<Rightarrow> 'a) \<Rightarrow> 'a job" where
  "jlook q h = (h, Inr (q h))"

definition jguard :: "bool \<Rightarrow> string \<Rightarrow> unit job" where
  "jguard bad msg = (if bad then jfail msg else jret ())"

definition jfinally :: "'a job \<Rightarrow> event \<Rightarrow> 'a job" where
  "jfinally m e h = (case m h of (h', r) \<Rightarrow> (h' @ [e], r))"

text \<open>An exception, and a handler: \<^term>\<open>None\<close> lets the error through.\<close>

definition jraise :: "fault \<Rightarrow> 'a job" where
  "jraise x h = (h, Inl (Raised x))"

definition jread :: "(history \<Rightarrow> fault + 'a) \<Rightarrow> 'a job" where
  "jread q h = (h, case q h of Inl x \<Rightarrow> Inl (Raised x) | Inr a \<Rightarrow> Inr a)"

definition jtry :: "'a job \<Rightarrow> (job_error \<Rightarrow> 'a job option) \<Rightarrow> 'a job" where
  "jtry m k h = (case m h of
      (h', Inl e) \<Rightarrow> (case k e of None \<Rightarrow> (h', Inl e) | Some r \<Rightarrow> r h')
    | (h', Inr a) \<Rightarrow> (h', Inr a))"


section \<open>Running jobs\<close>

lemma jbind_eq:
  "jbind m f h = (h', r) \<longleftrightarrow>
     (\<exists>e. m h = (h', Inl e) \<and> r = Inl e) \<or> (\<exists>h1 a. m h = (h1, Inr a) \<and> f a h1 = (h', r))"
  by (auto simp: jbind_def split: prod.splits sum.splits)

lemma jbind_Inr [simp]:
  "jbind m f h = (h', Inr b) \<longleftrightarrow> (\<exists>h1 a. m h = (h1, Inr a) \<and> f a h1 = (h', Inr b))"
  by (simp add: jbind_eq)

lemma jret_eq [simp]: "jret a h = (h', r) \<longleftrightarrow> h' = h \<and> r = Inr a"
  by (auto simp: jret_def)

lemma jlift_eq: "jlift x h = (h', r) \<longleftrightarrow> h' = h \<and> r = (case x of Inl e \<Rightarrow> Inl (Failed e) | Inr a \<Rightarrow> Inr a)"
  by (auto simp: jlift_def)

lemma jlift_Inr [simp]: "jlift x h = (h', Inr a) \<longleftrightarrow> h' = h \<and> x = Inr a"
  by (auto simp: jlift_def split: sum.splits)

lemma jask_Inr [simp]: "jask q h = (h', Inr a) \<longleftrightarrow> h' = h \<and> q h = Inr a"
  by (simp add: jask_def)

lemma jfail_Inr [simp]: "jfail e h \<noteq> (h', Inr a)"
  by (simp add: jfail_def)

lemma jdo_Inr [simp]: "jdo e h = (h', r) \<longleftrightarrow> h' = h @ [e] \<and> r = Inr ()"
  by (auto simp: jdo_def)

lemma jlook_Inr [simp]: "jlook q h = (h', Inr a) \<longleftrightarrow> h' = h \<and> a = q h"
  by (auto simp: jlook_def)

lemma jguard_Inr [simp]: "jguard b msg h = (h', Inr u) \<longleftrightarrow> h' = h \<and> \<not> b"
  by (auto simp: jguard_def)

lemma jraise_Inr [simp]: "jraise x h \<noteq> (h', Inr a)"
  by (simp add: jraise_def)

lemma jread_Inr [simp]: "jread q h = (h', Inr a) \<longleftrightarrow> h' = h \<and> q h = Inr a"
  by (auto simp: jread_def split: sum.splits)

text \<open>Every event of a loop comes from one of its rounds.\<close>

lemma jmap_Inr:
  "jmap f xs h = (h', Inr ys) \<Longrightarrow> list_all2 (\<lambda>x y. \<exists>h1 h2. f x h1 = (h2, Inr y)) xs ys"
  by (induction xs arbitrary: h ys) (auto simp: list_all2_Cons1)

text \<open>A check on an event, given the events before it, that holds of all events of a history.\<close>

definition guarded :: "(history \<Rightarrow> event \<Rightarrow> bool) \<Rightarrow> history \<Rightarrow> bool" where
  "guarded ok h \<longleftrightarrow> (\<forall>a e b. h = a @ e # b \<longrightarrow> ok a e)"

lemma guarded_Nil [simp]: "guarded ok []"
  by (simp add: guarded_def)

lemma guarded_snoc [simp]: "guarded ok (h @ [e]) \<longleftrightarrow> guarded ok h \<and> ok h e"
proof
  assume g: "guarded ok (h @ [e])"
  have "ok a x" if "h = a @ x # b" for a x b
    using g that by (auto simp: guarded_def)
  with g show "guarded ok h \<and> ok h e" by (auto simp: guarded_def)
next
  assume g: "guarded ok h \<and> ok h e"
  have "ok a x" if "h @ [e] = a @ x # b" for a x b
    using that g by (cases b rule: rev_cases) (auto simp: guarded_def)
  then show "guarded ok (h @ [e])" by (simp add: guarded_def)
qed

text \<open>A job keeps a property of histories.\<close>

definition keeps :: "(history \<Rightarrow> bool) \<Rightarrow> 'a job \<Rightarrow> bool" where
  "keeps P m \<longleftrightarrow> (\<forall>h. P h \<longrightarrow> P (fst (m h)))"

lemma keeps_jret: "keeps P (jret a)"
  by (simp add: keeps_def jret_def)

lemma keeps_jlift: "keeps P (jlift x)"
  by (simp add: keeps_def jlift_def)

lemma keeps_jask: "keeps P (jask q)"
  by (simp add: keeps_def jask_def jlift_def)

lemma keeps_jbind: "keeps P m \<Longrightarrow> (\<And>a. keeps P (f a)) \<Longrightarrow> keeps P (jbind m f)"
  by (fastforce simp: keeps_def jbind_def split: prod.splits sum.splits)

lemma keeps_jmap: "(\<And>x. x \<in> set xs \<Longrightarrow> keeps P (f x)) \<Longrightarrow> keeps P (jmap f xs)"
  by (induction xs) (auto intro!: keeps_jret keeps_jbind)

lemmas keeps_intros = keeps_jret keeps_jlift keeps_jask keeps_jbind keeps_jmap


text \<open>Weakest preconditions of the steps.\<close>

definition wp :: "'a job \<Rightarrow> (job_error + 'a \<Rightarrow> history \<Rightarrow> bool) \<Rightarrow> history \<Rightarrow> bool" where
  "wp m Q h \<longleftrightarrow> (case m h of (h', r) \<Rightarrow> Q r h')"

lemma wp_jbind:
  "wp m (\<lambda>r h'. case r of Inl e \<Rightarrow> Q (Inl e) h' | Inr a \<Rightarrow> wp (f a) Q h') h \<Longrightarrow> wp (jbind m f) Q h"
  by (auto simp: wp_def jbind_def split: prod.splits sum.splits)

lemma wp_jret: "Q (Inr a) h \<Longrightarrow> wp (jret a) Q h"
  by (simp add: wp_def jret_def)

lemma wp_jlift: "(\<And>e. Q (Inl e) h) \<Longrightarrow> (\<And>a. x = Inr a \<Longrightarrow> Q (Inr a) h) \<Longrightarrow> wp (jlift x) Q h"
  by (auto simp: wp_def jlift_def split: sum.splits)

lemma wp_jfail: "(\<And>e. Q (Inl e) h) \<Longrightarrow> wp (jfail e) Q h"
  by (simp add: wp_def jfail_def jlift_def)

lemma wp_jask: "(\<And>e. Q (Inl e) h) \<Longrightarrow> (\<And>a. q h = Inr a \<Longrightarrow> Q (Inr a) h) \<Longrightarrow> wp (jask q) Q h"
  by (auto simp: wp_def jask_def jlift_def split: sum.splits)

lemma wp_keeps: "(\<And>h. P h \<Longrightarrow> wp m (\<lambda>r. P) h) \<Longrightarrow> keeps P m"
  by (simp add: wp_def keeps_def split_beta)

lemma wp_Inr: "wp m Q h \<Longrightarrow> m h = (h', r) \<Longrightarrow> Q r h'"
  by (simp add: wp_def)

lemma keeps_jdo: "keeps (prefix h0) (jdo e)"
  by (auto simp: keeps_def jdo_def)

lemma keeps_jfail: "keeps P (jfail e)"
  by (simp add: jfail_def keeps_jlift)

lemma keeps_prefixD: "(\<And>h0. keeps (prefix h0) m) \<Longrightarrow> m h = (h', r) \<Longrightarrow> prefix h h'"
  unfolding keeps_def by (metis fst_conv prefix_order.refl)


section \<open>The events of a job\<close>

text \<open>All events a job adds satisfy a condition.\<close>

definition emits :: "(event \<Rightarrow> bool) \<Rightarrow> 'a job \<Rightarrow> bool" where
  "emits A m \<longleftrightarrow> (\<forall>h. \<exists>evs. fst (m h) = h @ evs \<and> (\<forall>e\<in>set evs. A e))"

lemma emitsD: "emits A m \<Longrightarrow> \<exists>evs. fst (m h) = h @ evs \<and> (\<forall>e\<in>set evs. A e)"
  by (simp add: emits_def)

lemma emits_mono: "emits A m \<Longrightarrow> (\<And>e. A e \<Longrightarrow> B e) \<Longrightarrow> emits B m"
  unfolding emits_def by meson

lemma emits_same: "(\<And>h. fst (m h) = h) \<Longrightarrow> emits A m"
  by (simp add: emits_def)

lemma emits_jret: "emits A (jret a)" and emits_jlift: "emits A (jlift x)" and emits_jfail: "emits A (jfail e)" and emits_jlook: "emits A (jlook q)"
  and emits_jread: "emits A (jread r)" and emits_jraise: "emits A (jraise flt)" and emits_jguard: "emits A (jguard b msg)" and emits_jask: "emits A (jask s)"
  by (rule emits_same; simp add: jret_def jlift_def jfail_def jlook_def jread_def jraise_def jguard_def jask_def)+

lemma emits_jdo: "A e \<Longrightarrow> emits A (jdo e)"
  by (simp add: emits_def jdo_def)

text \<open>Two stretches of events in a row.\<close>

lemma emits_join:
  assumes "\<exists>evs. h1 = h @ evs \<and> (\<forall>e\<in>set evs. A e)" "\<exists>evs. h2 = h1 @ evs \<and> (\<forall>e\<in>set evs. A e)"
  shows "\<exists>evs. h2 = h @ evs \<and> (\<forall>e\<in>set evs. A e)"
proof -
  from assms obtain e1 e2 where "h1 = h @ e1" "\<forall>e\<in>set e1. A e" "h2 = h1 @ e2" "\<forall>e\<in>set e2. A e" by blast
  then show ?thesis by (intro exI [of _ "e1 @ e2"]) auto
qed

lemma emits_jbind: "emits A m \<Longrightarrow> (\<And>a. emits A (f a)) \<Longrightarrow> emits A (jbind m f)"
proof -
  assume m: "emits A m" and f: "\<And>a. emits A (f a)"
  show "emits A (jbind m f)" unfolding emits_def
  proof
    fix h
    show "\<exists>evs. fst (jbind m f h) = h @ evs \<and> (\<forall>e\<in>set evs. A e)"
    proof (cases "snd (m h)")
      case (Inl x)
      with emitsD [OF m, of h] show ?thesis by (auto simp: jbind_def split: prod.splits)
    next
      case (Inr a)
      then have "fst (jbind m f h) = fst (f a (fst (m h)))" by (cases "m h") (simp add: jbind_def)
      with emits_join [OF emitsD [OF m, of h] emitsD [OF f, of a "fst (m h)"]] show ?thesis by simp
    qed
  qed
qed

lemma emits_jtry: "emits A m \<Longrightarrow> (\<And>e r. k e = Some r \<Longrightarrow> emits A r) \<Longrightarrow> emits A (jtry m k)"
proof -
  assume m: "emits A m" and k: "\<And>e r. k e = Some r \<Longrightarrow> emits A r"
  show "emits A (jtry m k)" unfolding emits_def
  proof
    fix h
    show "\<exists>evs. fst (jtry m k h) = h @ evs \<and> (\<forall>e\<in>set evs. A e)"
    proof (cases "\<exists>x r. snd (m h) = Inl x \<and> k x = Some r")
      case False
      with emitsD [OF m, of h] show ?thesis by (auto simp: jtry_def split: prod.splits sum.splits option.splits)
    next
      case True
      then obtain x r where x: "snd (m h) = Inl x" "k x = Some r" by blast
      then have "fst (jtry m k h) = fst (r (fst (m h)))" by (cases "m h") (simp add: jtry_def)
      with emits_join [OF emitsD [OF m, of h] emitsD [OF k [OF x(2)], of "fst (m h)"]] show ?thesis by simp
    qed
  qed
qed

lemma emits_jfinally: "emits A m \<Longrightarrow> A e \<Longrightarrow> emits A (jfinally m e)"
proof -
  assume m: "emits A m" and e: "A e"
  have "fst (jfinally m e h) = fst (m h) @ [e]" for h by (simp add: jfinally_def split_beta)
  with m e show ?thesis unfolding emits_def by (metis append_assoc emptyE in_set_conv_nth insertE list.set(1) list.simps(15) set_append Un_iff)
qed

lemma emits_jmap: "(\<And>x. x \<in> set xs \<Longrightarrow> emits A (f x)) \<Longrightarrow> emits A (jmap f xs)"
  by (induction xs) (auto intro: emits_jret emits_jbind)

lemmas emits_silent = emits_jret emits_jlift emits_jfail emits_jlook emits_jread emits_jraise emits_jguard emits_jask

lemma emits_Inr:
  assumes "emits A m" "m h = (h', r)"
  obtains evs where "h' = h @ evs" "\<forall>e\<in>set evs. A e"
  using emitsD [OF assms(1), of h] assms(2) by auto

text \<open>A job that looks and reads only.\<close>

abbreviation silent :: "'a job \<Rightarrow> bool" where
  "silent m \<equiv> emits (\<lambda>e. False) m"

lemma silent_same: "silent m \<Longrightarrow> m h = (h', r) \<Longrightarrow> h' = h"
  by (auto simp: emits_def dest: spec [of _ h])

lemma silent_emits: "silent m \<Longrightarrow> emits A m"
  unfolding emits_def by metis

end
