(* ===== verification/Release_Jobs.thy ===== *)
theory Release_Jobs
  imports Release_Images Py_Path Jobs
begin

text \<open>
  The subcommands of \<^verbatim>\<open>.github/scripts/release_images.py\<close> as programs over an explicit history: build, inspect, push,
  sign, verify, assets, and the exit status of \<^verbatim>\<open>main\<close>. What they guarantee is in Release_Guarantees.
\<close>


section \<open>The host of a job\<close>

text \<open>The files of a job, what its commands answer (exit code, standard output, standard error; \<^term>\<open>None\<close> when the
  command cannot be started or times out), and what it takes from the process.\<close>

record host =
  h_env :: environ
  h_root :: string
  h_tools :: tools
  h_uid :: string
  h_gid :: string
  h_today :: int
  h_token :: string
  h_is_file :: "history \<Rightarrow> string \<Rightarrow> bool"
  h_is_symlink :: "history \<Rightarrow> string \<Rightarrow> bool"
  h_is_dir :: "history \<Rightarrow> string \<Rightarrow> bool"
  h_exists :: "history \<Rightarrow> string \<Rightarrow> bool"
  h_bytes :: "history \<Rightarrow> string \<Rightarrow> string + string"
  h_text :: "history \<Rightarrow> string \<Rightarrow> string + string"
  h_glob_sboms :: "history \<Rightarrow> string \<Rightarrow> string list"
  h_exec :: "history \<Rightarrow> string list \<Rightarrow> (int \<times> string \<times> string) option"

definition run_command :: "host \<Rightarrow> string list \<Rightarrow> (int \<times> string \<times> string) job" where
  "run_command w argv h = jlift (unexpected (h_exec w h argv)) (h @ [Run argv])"

definition run_checked :: "host \<Rightarrow> string list \<Rightarrow> string \<Rightarrow> string job" where
  "run_checked w argv what =
     jbind (run_command w argv) (\<lambda>(rc, out, err).
       if rc \<noteq> 0 then jfail (what @ fmt '' failed (exit %s)'' [show_int rc]) else jret out)"

definition release_temp :: "host \<Rightarrow> string + ppath" where
  "release_temp w =
     (case h_env w ''RUNNER_TEMP'' of
        Some v \<Rightarrow> if v = [] then Inl ''RUNNER_TEMP is not set; this script runs in CI'' else Inr (path_of v)
      | None \<Rightarrow> Inl ''RUNNER_TEMP is not set; this script runs in CI'')"

definition out_dir :: "host \<Rightarrow> string + ppath" where
  "out_dir w = sbind (release_temp w) (\<lambda>p. Inr (path_sub (path_sub p ''release'') ''out''))"

definition in_dir :: "host \<Rightarrow> string + ppath" where
  "in_dir w = sbind (release_temp w) (\<lambda>p. Inr (path_sub p ''release-in''))"

definition in_path :: "ppath \<Rightarrow> string \<Rightarrow> string" where
  "in_path p x = path_text (path_sub p x)"

definition repo_file :: "host \<Rightarrow> string \<Rightarrow> string" where
  "repo_file w rel = in_path (path_of (h_root w)) rel"

definition base_pins :: "host \<Rightarrow> (string \<times> string) list job" where
  "base_pins w =
     jbind (jask (\<lambda>h. h_text w h (repo_file w ''.github/release/base-images.Dockerfile''))) (\<lambda>t.
       jlift (parse_pins ''base-images.Dockerfile'' t BASE_ALIASES))"

definition tool_pins :: "host \<Rightarrow> (string \<times> string) list job" where
  "tool_pins w =
     jbind (jask (\<lambda>h. h_text w h (repo_file w ''.github/release/tools.Dockerfile''))) (\<lambda>t.
       jlift (parse_pins ''tools.Dockerfile'' t TOOL_ALIASES))"

definition pin_of :: "(string \<times> string) list \<Rightarrow> string \<Rightarrow> string" where
  "pin_of refs al = the (map_of refs al)"

definition image_names :: "string list" where
  "image_names = map fst IMAGES"

definition digest_env :: "host \<Rightarrow> string \<Rightarrow> string \<Rightarrow> rx \<Rightarrow> string + string" where
  "digest_env w name suf pattern = env_required (h_env w) (upper name @ ''_'' @ suf) pattern"


section \<open>Push\<close>

definition PUSHED_RE :: rx where
  "PUSHED_RE = rseq [rlit ''digest:'', rplus rspace, RGroup 1 SHA256_BODY, rplus rspace, rlit ''size:'']"

definition local_ref :: "string \<Rightarrow> string \<Rightarrow> string" where
  "local_ref name tag = ''decisya-'' @ name @ '':'' @ tag"

definition remote_ref :: "string \<Rightarrow> string \<Rightarrow> string" where
  "remote_ref name tag = REGISTRY @ ''/'' @ OWNER @ ''/decisya-'' @ name @ '':'' @ tag"

text \<open>What is checked on a downloaded archive before docker sees it.\<close>

definition checked_archive :: "host \<Rightarrow> ppath \<Rightarrow> string \<Rightarrow> string \<Rightarrow> history \<Rightarrow> string + archive" where
  "checked_archive w src tag name h =
     (let file = in_path src (name @ ''.tar'') in
      if \<not> h_is_file w h file \<or> h_is_symlink w h file then Inl (name @ '': downloaded archive is missing'')
      else sbind (h_bytes w h file) (\<lambda>bytes.
        sbind (digest_env w name ''SHA256'' HEX64_RE) (\<lambda>scanned.
          if sha256 (h_tools w) bytes \<noteq> scanned then Inl (name @ '': archive SHA-256 differs from the one the build job scanned'')
          else sbind (read_archive (h_tools w) bytes) (\<lambda>info.
            sbind (digest_env w name ''CONFIG'' RELEASE_DIGEST_RE) (\<lambda>config.
              if a_config_digest info \<noteq> config then Inl (name @ '': archive config digest differs from the one the build job scanned'')
              else if a_repo_tags info \<noteq> JList [JStr (local_ref name tag)] then
                Inl (name @ fmt '': archive RepoTags are not [%s]'' [repr_str (local_ref name tag)])
              else Inr info)))))"

definition load_argv :: "ppath \<Rightarrow> string \<Rightarrow> string list" where
  "load_argv src name = [''docker'', ''load'', ''-i'', in_path src (name @ ''.tar'')]"

definition tag_argv :: "string \<Rightarrow> string \<Rightarrow> string list" where
  "tag_argv name tag = [''docker'', ''tag'', local_ref name tag, remote_ref name tag]"

definition push_argv :: "string \<Rightarrow> string \<Rightarrow> string list" where
  "push_argv name tag = [''docker'', ''push'', remote_ref name tag]"

definition pushed_config :: "string + json \<Rightarrow> json" where
  "pushed_config manifest =
     (case manifest of
        Inr (JObj d) \<Rightarrow> (case or_dict (dget d ''config'') of Some c \<Rightarrow> dget c ''digest'' | None \<Rightarrow> JNull)
      | _ \<Rightarrow> JNull)"

definition push_image :: "host \<Rightarrow> ppath \<Rightarrow> string \<Rightarrow> string \<Rightarrow> (string \<times> string) job" where
  "push_image w src tag name =
     jbind (jask (checked_archive w src tag name)) (\<lambda>info.
     jbind (run_checked w (load_argv src name) (''docker load '' @ name)) (\<lambda>u.
     jbind (run_checked w (tag_argv name tag) (''docker tag '' @ name)) (\<lambda>v.
     jbind (run_checked w (push_argv name tag) (''docker push '' @ name)) (\<lambda>pushed.
       case re_search PUSHED_RE pushed of
         None \<Rightarrow> jfail (name @ '': docker push printed no digest'')
       | Some c \<Rightarrow>
           (let digest = group_text c 1 in
            jbind (jlift (image_ref name digest)) (\<lambda>ref.
            jbind (run_checked w [''docker'', ''manifest'', ''inspect'', ref] (''docker manifest inspect '' @ name)) (\<lambda>manifest.
              if pushed_config (json_loads (h_tools w) manifest) \<noteq> JStr (a_config_digest info) then
                jfail (name @ '': the pushed config digest differs from the scanned archive''
                  @ [CHR 0x27] @ ''s (or the manifest has an unexpected shape)'')
              else jret (name @ ''_digest'', digest))))))))"

definition cmd_push :: "host \<Rightarrow> (string \<times> string) list job" where
  "cmd_push w =
     jbind (jlift (publish_context (h_env w))) (\<lambda>(event, sha, tag).
     jbind (jlift (in_dir w)) (\<lambda>src.
       jmap (push_image w src tag) image_names))"


section \<open>Sign and verify\<close>

definition docker_config :: "host \<Rightarrow> history \<Rightarrow> string + ppath" where
  "docker_config w h =
     (case h_env w ''DOCKER_CONFIG'' of
        Some v \<Rightarrow> if v = [] \<or> \<not> h_is_dir w h (path_text (path_of v)) then Inl ''DOCKER_CONFIG must point at the directory written by docker login''
                 else Inr (path_of v)
      | None \<Rightarrow> Inl ''DOCKER_CONFIG must point at the directory written by docker login'')"

definition cosign_argv :: "host \<Rightarrow> string \<Rightarrow> string list \<Rightarrow> bool \<Rightarrow> string list job" where
  "cosign_argv w tool mounts token =
     jbind (jlift (release_temp w)) (\<lambda>tmp.
       let home = in_path tmp ''cosign-home'' in
       jbind (jdo (Mkdir home)) (\<lambda>u.
       jbind (jask (docker_config w)) (\<lambda>cfg.
         jret ([''docker'', ''run'', ''--rm'', ''--user'', h_uid w @ '':'' @ h_gid w,
             ''-e'', ''DOCKER_CONFIG=/dockercfg'', ''-v'', path_text cfg @ '':/dockercfg:ro'',
             ''-e'', ''HOME=/cosign-home'', ''-v'', home @ '':/cosign-home'']
           @ (if token then [''-e'', ''ACTIONS_ID_TOKEN_REQUEST_URL'', ''-e'', ''ACTIONS_ID_TOKEN_REQUEST_TOKEN''] else [])
           @ concat (map (\<lambda>m. [''-v'', m]) mounts) @ [tool]))))"

definition sbom_names :: "string \<Rightarrow> string \<Rightarrow> string list" where
  "sbom_names name tag =
     [''decisya-'' @ name @ ''-'' @ tag @ ''.cdx.json''] @ (if name = ''bff'' then [''decisya-bff-spa-'' @ tag @ ''.cdx.json''] else [])"

definition attest_sbom :: "host \<Rightarrow> string \<Rightarrow> ppath \<Rightarrow> string \<Rightarrow> string \<Rightarrow> unit job" where
  "attest_sbom w tool src ref sbom =
     jbind (jask (\<lambda>h. if h_is_file w h (in_path src sbom) then Inr () else Inl (sbom @ '' is missing from the downloaded artifact''))) (\<lambda>u.
     jbind (cosign_argv w tool [path_text src @ '':/in:ro''] True) (\<lambda>argv.
     jbind (run_checked w (argv @ [''attest'', ''--yes'', ''--type'', ''cyclonedx'', ''--predicate'', ''/in/'' @ sbom, ref]) (''cosign attest '' @ sbom)) (\<lambda>out.
       jret ())))"

definition sign_image :: "host \<Rightarrow> string \<Rightarrow> ppath \<Rightarrow> string \<Rightarrow> string \<Rightarrow> unit job" where
  "sign_image w tool src tag name =
     jbind (jlift (sbind (digest_env w name ''DIGEST'' RELEASE_DIGEST_RE) (image_ref name))) (\<lambda>ref.
     jbind (cosign_argv w tool [] True) (\<lambda>argv.
     jbind (run_checked w (argv @ [''sign'', ''--yes'', ref]) (''cosign sign '' @ name)) (\<lambda>out.
     jbind (jmap (attest_sbom w tool src ref) (sbom_names name tag)) (\<lambda>us. jret ()))))"

definition cmd_sign :: "host \<Rightarrow> (string \<times> string) list job" where
  "cmd_sign w =
     jbind (jlift (publish_context (h_env w))) (\<lambda>(event, sha, tag).
     jbind (tool_pins w) (\<lambda>tls.
     jbind (jlift (in_dir w)) (\<lambda>src.
     jbind (jmap (sign_image w (pin_of tls ''cosign'') src tag) image_names) (\<lambda>us. jret []))))"

definition cosign_verify :: "host \<Rightarrow> string \<Rightarrow> string \<Rightarrow> string list \<Rightarrow> bool \<Rightarrow> (int \<times> string \<times> string) job" where
  "cosign_verify w tool ref flags attestation =
     jbind (cosign_argv w tool [] False) (\<lambda>argv.
       run_command w (argv @ (if attestation then [''verify-attestation'', ''--type'', ''cyclonedx''] else [''verify'']) @ flags @ [ref]))"

definition positive_check :: "host \<Rightarrow> string \<Rightarrow> string list \<Rightarrow> (string \<times> string) \<times> bool \<Rightarrow> string list job" where
  "positive_check w tool flags c =
     (case c of ((name, ref), attestation) \<Rightarrow>
        jbind (cosign_verify w tool ref flags attestation) (\<lambda>(rc, out, err).
          jret (msg_if (rc \<noteq> 0) (name @ '': cosign '' @ (if attestation then ''verify-attestation'' else ''verify'') @ '' failed''))))"

definition negative_text :: "negative \<Rightarrow> string" where
  "negative_text v = (case v of Verified \<Rightarrow> ''verified'' | Mismatch \<Rightarrow> ''mismatch'' | Missing \<Rightarrow> ''missing'' | Other \<Rightarrow> ''other'')"

definition negative_check :: "host \<Rightarrow> string \<Rightarrow> string \<Rightarrow> string \<Rightarrow> string list \<Rightarrow> negative \<Rightarrow> string list job" where
  "negative_check w tool label ref flags expect =
     jbind (cosign_verify w tool ref flags False) (\<lambda>(rc, out, err).
       let verdict = classify_negative rc (out @ [NL] @ err) in
       jret (msg_if (verdict \<noteq> expect)
         (fmt ''negative case %s: expected a failure classified %s, got %s; proof not made''
            [label, repr_str (negative_text expect), repr_str (negative_text verdict)])))"

text \<open>The negative proofs: the base image, another workflow's identity and, in a dry run, the release trigger.\<close>

definition negative_checks :: "host \<Rightarrow> string \<Rightarrow> string \<Rightarrow> string \<Rightarrow> string \<Rightarrow> string \<Rightarrow> string list \<Rightarrow> string list job" where
  "negative_checks w tool base_ref api_ref event sha flags =
     jbind (negative_check w tool ''1 unsigned base image'' base_ref flags Missing) (\<lambda>n1.
     jbind (jlift (verify_flags sha event IDENTITY_CI)) (\<lambda>ci_flags.
     jbind (negative_check w tool ''2 wrong identity (ci.yml)'' api_ref ci_flags Mismatch) (\<lambda>n2.
     jbind (if event = ''workflow_dispatch''
            then jbind (jlift (verify_flags sha ''push'' IDENTITY)) (\<lambda>push_flags.
                   negative_check w tool ''3 dry-run image as a push release'' api_ref push_flags Mismatch)
            else jret []) (\<lambda>n3. jret (n1 @ n2 @ n3)))))"

definition published_refs :: "host \<Rightarrow> string + (string \<times> string) list" where
  "published_refs w =
     smap (\<lambda>name. sbind (digest_env w name ''DIGEST'' RELEASE_DIGEST_RE) (\<lambda>d. sbind (image_ref name d) (\<lambda>r. Inr (name, r)))) image_names"

definition cmd_verify :: "host \<Rightarrow> (string \<times> string) list job" where
  "cmd_verify w =
     jbind (jlift (publish_context (h_env w))) (\<lambda>(event, sha, tag).
     jbind (tool_pins w) (\<lambda>tls.
     jbind (base_pins w) (\<lambda>bases.
     jbind (jlift (verify_flags sha event IDENTITY)) (\<lambda>flags.
     jbind (jlift (published_refs w)) (\<lambda>refs.
     let tool = pin_of tls ''cosign'' in
     jbind (jmap (positive_check w tool flags) (concat (map (\<lambda>r. [(r, False), (r, True)]) refs))) (\<lambda>ps.
     jbind (negative_checks w tool (digest_only (pin_of bases ''aspnet'')) (pin_of refs ''api'') event sha flags) (\<lambda>ns.
       let problems = concat ps @ ns in
       if problems \<noteq> [] then jfail (show_nat (length problems) @ '' verification check(s) failed'') else jret [])))))))"


section \<open>Assets\<close>

definition is_shell_safe :: "char \<Rightarrow> bool" where
  "is_shell_safe c \<longleftrightarrow> is_alnum_ascii c \<or> c \<in> set ''_@%+=:,./-''"

text \<open>\<^verbatim>\<open>shlex.quote\<close>: a single quote inside becomes a closing quote, a quoted quote and an opening quote.\<close>

definition shlex_quote :: "string \<Rightarrow> string" where
  "shlex_quote s =
     (if s = [] then [CHR 0x27, CHR 0x27]
      else if list_all is_shell_safe s then s
      else [CHR 0x27] @ replace_all [CHR 0x27] [CHR 0x27, CHR 0x22, CHR 0x27, CHR 0x22, CHR 0x27] s @ [CHR 0x27])"

definition consumer_command :: "host \<Rightarrow> string \<Rightarrow> string \<Rightarrow> string \<Rightarrow> string \<Rightarrow> string list job" where
  "consumer_command w name digest sha runner =
     jbind (jlift (verify_flags sha ''push'' IDENTITY)) (\<lambda>flags.
     jbind (jlift (image_ref name digest)) (\<lambda>ref.
       if runner = ''docker'' then
         jbind (tool_pins w) (\<lambda>tls. jret ([''docker'', ''run'', ''--rm'', pin_of tls ''cosign''] @ [''verify''] @ flags @ [ref]))
       else jret ([''cosign'', ''verify''] @ flags @ [ref])))"

definition shell_line :: "string list \<Rightarrow> string" where
  "shell_line argv = join '' '' (map shlex_quote argv)"

definition cmd_verify_command :: "host \<Rightarrow> string \<Rightarrow> string \<Rightarrow> string \<Rightarrow> string \<Rightarrow> string job" where
  "cmd_verify_command w im digest sha runner =
     (if im \<notin> set image_names then jfail (fmt ''--image must be one of %s'' [repr_strs (sort image_names)])
      else jbind (consumer_command w im digest sha runner) (\<lambda>argv. jret (shell_line argv)))"

definition asset_line :: "host \<Rightarrow> string \<Rightarrow> string \<Rightarrow> (string \<times> string) job" where
  "asset_line w sha name =
     jbind (jlift (digest_env w name ''DIGEST'' RELEASE_DIGEST_RE)) (\<lambda>digest.
     jbind (jlift (image_ref name digest)) (\<lambda>ref.
     jbind (consumer_command w name digest sha ''cosign'') (\<lambda>argv. jret (ref, shell_line argv))))"

definition verify_text :: "string \<Rightarrow> string list \<Rightarrow> string" where
  "verify_text sha ls =
     ''# Pull by digest only, and verify before you run. A valid signature proves the image was built by'' @ [NL]
     @ fmt ''# %s at commit %s; it does not prove the dependencies were benign.'' [IDENTITY, sha] @ [NL] @ join [NL] ls @ [NL]"

definition asset_sum :: "host \<Rightarrow> ppath \<Rightarrow> string \<Rightarrow> string job" where
  "asset_sum w src a =
     jbind (jask (\<lambda>h. h_bytes w h (in_path src a))) (\<lambda>bytes. jret (sha256 (h_tools w) bytes @ ''  '' @ a @ [NL]))"

text \<open>What follows once \<^verbatim>\<open>images.txt\<close> is written: the other two files and the upload.\<close>

definition assets_upload :: "host \<Rightarrow> ppath \<Rightarrow> string \<Rightarrow> string \<Rightarrow> string list \<Rightarrow> (string \<times> string) list job" where
  "assets_upload w src sha tag verify_lines =
     jbind (jdo (Write (in_path src ''VERIFY.txt'') (verify_text sha verify_lines))) (\<lambda>v.
     jbind (jask (\<lambda>h. Inr (sort (h_glob_sboms w h (path_text src))))) (\<lambda>sboms.
       if length sboms \<noteq> 4 then jfail (fmt ''expected 4 SBOMs, found %s'' [show_nat (length sboms)])
       else let assets = sboms @ [''images.txt'', ''VERIFY.txt''] in
       jbind (jmap (asset_sum w src) assets) (\<lambda>sums.
       jbind (jdo (Write (in_path src ''SHA256SUMS'') (concat sums))) (\<lambda>x.
       jbind (run_checked w ([''gh'', ''release'', ''upload'', ''v'' @ tag] @ map (in_path src) (assets @ [''SHA256SUMS''])
           @ [''--clobber'', ''--repo'', REPO]) ''gh release upload'') (\<lambda>y. jret [])))))"

definition cmd_assets :: "host \<Rightarrow> (string \<times> string) list job" where
  "cmd_assets w =
     jbind (jlift (publish_context (h_env w))) (\<lambda>(event, sha, tag).
       if event \<noteq> ''push'' then jfail ''release assets are only uploaded for a release''
       else
       jbind (jlift (in_dir w)) (\<lambda>src.
       jbind (jmap (asset_line w sha) image_names) (\<lambda>ls.
       jbind (jdo (Write (in_path src ''images.txt'') (join [NL] (map fst ls) @ [NL]))) (\<lambda>u.
         assets_upload w src sha tag (map snd ls)))))"


section \<open>Build\<close>

definition SDK_RE :: rx where
  "SDK_RE = VERSION_BODY"

definition check_stable_sdk :: "string \<Rightarrow> string + string" where
  "check_stable_sdk v =
     (let v' = strip v in
      if \<not> fullmatches SDK_RE v' then Inl (fmt ''the selected .NET SDK %s is not a stable release; release images need one'' [repr_str v'])
      else Inr v')"

text \<open>\<^verbatim>\<open>if d.exists(): shutil.rmtree(d)\<close>, then \<^verbatim>\<open>d.mkdir(parents=True)\<close>.\<close>

definition fresh_dir :: "host \<Rightarrow> string \<Rightarrow> unit job" where
  "fresh_dir w d =
     jbind (jask (\<lambda>h. Inr (h_exists w h d))) (\<lambda>old.
     jbind (if old then jdo (Rmtree d) else jret ()) (\<lambda>u. jdo (Mkdir d)))"

definition release_job_context :: "host \<Rightarrow> release_ctx job" where
  "release_job_context w =
     jask (\<lambda>h. release_context (h_env w) (sbind (h_text w h (repo_file w ''.release-please-manifest.json'')) (json_loads (h_tools w))))"

definition publish_argv :: "string \<Rightarrow> string \<Rightarrow> string \<Rightarrow> release_ctx \<Rightarrow> string \<Rightarrow> string list" where
  "publish_argv project base_ref file ctx name =
     [''dotnet'', ''publish'', project, ''-c'', ''Release'', ''-r'', ''linux-x64'', ''--self-contained'', ''false'',
      ''-t:PublishContainer'', ''--nologo'', ''-p:ContainerBaseImage='' @ base_ref, ''-p:ContainerArchiveOutputPath='' @ file,
      ''-p:ContainerRepository=decisya-'' @ name, ''-p:ContainerImageTag='' @ c_tag ctx, ''-p:Version='' @ c_version ctx]"

definition build_image :: "host \<Rightarrow> release_ctx \<Rightarrow> (string \<times> string) list \<Rightarrow> ppath \<Rightarrow> string \<times> string \<times> string \<Rightarrow> unit job" where
  "build_image w ctx bases dest i =
     (case i of (name, project, al) \<Rightarrow>
        let file = in_path dest (name @ ''.tar'') in
        jbind (run_checked w (publish_argv project (pin_of bases al) file ctx name) (''dotnet publish '' @ name)) (\<lambda>out.
          jask (\<lambda>h. if \<not> h_is_file w h file \<or> h_is_symlink w h file then Inl (name @ '': no archive was written'') else Inr ())))"

definition cmd_build :: "host \<Rightarrow> (string \<times> string) list job" where
  "cmd_build w =
     jbind (release_job_context w) (\<lambda>ctx.
     jbind (run_checked w [''dotnet'', ''--version''] ''dotnet --version'') (\<lambda>version.
     jbind (jlift (check_stable_sdk version)) (\<lambda>sdk.
     jbind (base_pins w) (\<lambda>bases.
     jbind (jlift (out_dir w)) (\<lambda>dest.
     jbind (fresh_dir w (path_text dest)) (\<lambda>u.
     jbind (jmap (build_image w ctx bases dest) IMAGES) (\<lambda>us. jret [])))))))"

definition cmd_crosscheck :: "host \<Rightarrow> (string \<times> string) list job" where
  "cmd_crosscheck w = jbind (release_job_context w) (\<lambda>ctx. jret [(''tag'', c_tag ctx), (''version'', c_version ctx)])"

definition cmd_pins :: "host \<Rightarrow> (string \<times> string) list job" where
  "cmd_pins w = jbind (base_pins w) (\<lambda>b. jbind (tool_pins w) (\<lambda>t. jret []))"


section \<open>Layers\<close>

definition unpack_member :: "host \<Rightarrow> ppath \<Rightarrow> layer_member \<Rightarrow> (string \<times> string list) job" where
  "unpack_member w dest m =
     (let n = normalize_name (u_name m) in
      case u_filtered m of
        Some ex \<Rightarrow>
          if u_sym m \<or> u_lnk m then jret (n, [n @ '' -> '' @ u_linkname m @ '' ('' @ ex @ '')''])
          else jfail (fmt ''layer member %s rejected by the data filter (%s): not skipped'' [repr_str n, ex])
      | None \<Rightarrow>
          jbind (jask (\<lambda>h. Inr (h_exists w h (in_path dest (normalize_name (u_linkname m)))))) (\<lambda>target.
            if u_lnk m \<and> \<not> target then jret (n, [n @ '' => '' @ u_linkname m @ '' (hard link to another layer)''])
            else jbind (jdo (Extract (path_text dest) n)) (\<lambda>u. jret (n, []))))"

text \<open>\<^verbatim>\<open>unpack_layer\<close>: the names of all members and the skipped links.\<close>

definition unpack_layer :: "host \<Rightarrow> string \<Rightarrow> ppath \<Rightarrow> (string list \<times> string list) job" where
  "unpack_layer w data dest =
     jbind (jdo (Mkdir (path_text dest))) (\<lambda>u.
       case layer_tar (h_tools w) data of (ms, err) \<Rightarrow>
         jbind (jmap (unpack_member w dest) ms) (\<lambda>rs.
           case err of Some ex \<Rightarrow> jfail ex | None \<Rightarrow> jret (map fst rs, concat (map snd rs))))"

definition scan_dir_with_gitleaks :: "host \<Rightarrow> string \<Rightarrow> string \<Rightarrow> string \<Rightarrow> leak_result job" where
  "scan_dir_with_gitleaks w tool scan_dir cfg_dir =
     jbind (jdo (Chmod scan_dir 493)) (\<lambda>u.
     jbind (run_command w (gitleaks_argv tool scan_dir cfg_dir)) (\<lambda>(rc, out, err). jret (gitleaks_verdict (h_tools w) rc out)))"


section \<open>Inspect\<close>

definition make_cfg_dir :: "host \<Rightarrow> ppath \<Rightarrow> string job" where
  "make_cfg_dir w work =
     (let cfg = path_sub work ''cfg'' in
      jbind (jdo (Mkdir (path_text cfg))) (\<lambda>u.
      jbind (jdo (Copy (repo_file w ''.github/release/gitleaks-image.toml'') (in_path cfg ''gitleaks-image.toml''))) (\<lambda>v.
      jbind (jdo (Write (in_path cfg ''empty.gitleaksignore'') [])) (\<lambda>x.
      jbind (jdo (Chmod (path_text cfg) 493)) (\<lambda>y. jret (path_text cfg))))))"

definition canary_scan :: "host \<Rightarrow> string \<Rightarrow> ppath \<Rightarrow> string \<Rightarrow> unit job" where
  "canary_scan w tool work cfg_dir =
     (let base = path_sub work ''canary'';
          layer0 = tar_write (h_tools w) [(''app/canary-token.txt'', ''github_token = '' @ [CHR 0x22] @ ''ghp_'' @ h_token w @ [CHR 0x22, NL])];
          layer1 = tar_write (h_tools w) [(''app/.wh.canary-token.txt'', [])]
      in jbind (jask (\<lambda>h. Inr (h_exists w h (path_text base)))) (\<lambda>old.
         jbind (if old then jdo (Rmtree (path_text base)) else jret ()) (\<lambda>u.
         jbind (unpack_layer w layer0 (path_sub base ''0'')) (\<lambda>r0.
         jbind (unpack_layer w layer1 (path_sub base ''1'')) (\<lambda>r1.
         jbind (scan_dir_with_gitleaks w tool (in_path base ''0'') cfg_dir) (\<lambda>first.
         jbind (scan_dir_with_gitleaks w tool (in_path base ''1'') cfg_dir) (\<lambda>second.
           jlift (release_canary first second))))))))"

definition show_leaks :: "leak_result \<Rightarrow> string" where
  "show_leaks r =
     status_text (fst r) @ '' ['' @ join '', '' (map (\<lambda>(rule, file, line). ''('' @ join '', '' [repr_str rule, repr_str file, py_repr line] @ '')'') (snd r)) @ '']''"

definition two_digits :: "nat \<Rightarrow> string" where
  "two_digits n = (if n < 10 then ''0'' else []) @ show_nat n"

definition inspect_layer :: "host \<Rightarrow> string \<Rightarrow> ppath \<Rightarrow> string \<Rightarrow> string \<Rightarrow> nat \<times> string \<times> string \<Rightarrow> (string list \<times> string list) job" where
  "inspect_layer w tool work cfg_dir name l =
     (case l of (index, layer_name, data) \<Rightarrow>
        let dest = path_sub (path_sub (path_sub work ''layers'') name) (two_digits index) in
        jbind (jask (\<lambda>h. Inr (h_exists w h (path_text dest)))) (\<lambda>old.
        jbind (if old then jdo (Rmtree (path_text dest)) else jret ()) (\<lambda>u.
        jbind (unpack_layer w data dest) (\<lambda>(names, skipped).
        jbind (scan_dir_with_gitleaks w tool (path_text dest) cfg_dir) (\<lambda>res.
          jret (names, check_names name index names
            @ msg_if (fst res \<noteq> Scan_clean) (fmt ''%s: gitleaks on layer %s: %s'' [name, show_nat index, show_leaks res])))))))"

text \<open>The label lines of the log can raise when the configuration has an unexpected shape.\<close>

definition labels_of :: "json \<Rightarrow> string + unit" where
  "labels_of v =
     sbind (unexpected (as_dict v)) (\<lambda>cfg.
     sbind (unexpected (or_dict (dget cfg ''config''))) (\<lambda>inner.
     sbind (unexpected (or_dict (dget inner ''Labels''))) (\<lambda>labels. Inr ())))"

definition grype_scan :: "host \<Rightarrow> string \<Rightarrow> string \<Rightarrow> string \<Rightarrow> string \<Rightarrow> exc_entry list \<Rightarrow> string list job" where
  "grype_scan w scn db dest name es =
     jbind (run_command w (grype_argv scn db dest name)) (\<lambda>(rc, out, err).
       jlift (grype_problems (h_tools w) name es (h_today w) rc out))"

definition syft_argv :: "string \<Rightarrow> string \<Rightarrow> string \<Rightarrow> string \<Rightarrow> string \<Rightarrow> string list" where
  "syft_argv tool mount source sbom_dir filename =
     [''docker'', ''run'', ''--rm'', ''--network'', ''none'', ''-e'', ''SYFT_CHECK_FOR_APP_UPDATE=false'',
      ''-e'', ''SYFT_JAVASCRIPT_INCLUDE_DEV_DEPENDENCIES=false'', ''-v'', mount @ '':/in:ro'', ''-v'', sbom_dir @ '':/out'',
      tool, ''scan'', source, ''-o'', ''cyclonedx-json=/out/'' @ filename]"

definition syft_scan :: "host \<Rightarrow> string \<Rightarrow> string \<Rightarrow> string \<Rightarrow> ppath \<Rightarrow> string \<Rightarrow> bool \<Rightarrow> unit job" where
  "syft_scan w tool mount source sbom_dir filename require_components =
     jbind (run_checked w (syft_argv tool mount source (path_text sbom_dir) filename) (''syft '' @ filename)) (\<lambda>out.
     jask (\<lambda>h. syft_document filename require_components (sbind (h_text w h (in_path sbom_dir filename)) (json_loads (h_tools w)))))"

record inspect_cfg =
  i_tag :: string
  i_tools :: "(string \<times> string) list"
  i_work :: ppath
  i_out :: ppath
  i_cfg_dir :: string
  i_scanner :: string
  i_entries :: "exc_entry list"
  i_db :: string
  i_sboms :: ppath

text \<open>One image: its problems and its two outputs.\<close>

definition inspect_image :: "host \<Rightarrow> inspect_cfg \<Rightarrow> string \<Rightarrow> (string list \<times> (string \<times> string) list) job" where
  "inspect_image w c name =
     (let file = in_path (i_out c) (name @ ''.tar''); gitleaks = pin_of (i_tools c) ''gitleaks'';
          scan_cfg = path_sub (path_sub (i_work c) ''cfgscan'') name
      in jbind (jask (\<lambda>h. sbind (h_bytes w h file) (read_archive (h_tools w)))) (\<lambda>info.
         jbind (jlift (check_config name (a_config info))) (\<lambda>config_problems.
         jbind (jlift (labels_of (a_config info))) (\<lambda>u.
         jbind (fresh_dir w (path_text scan_cfg)) (\<lambda>v.
         jbind (jdo (Write (in_path scan_cfg ''config.json'') (a_config_bytes info))) (\<lambda>x.
         jbind (scan_dir_with_gitleaks w gitleaks (path_text scan_cfg) (i_cfg_dir c)) (\<lambda>res.
         jbind (jmap (inspect_layer w gitleaks (i_work c) (i_cfg_dir c) name) (enumerate 0 (a_layers info))) (\<lambda>ls.
         jbind (grype_scan w (i_scanner c) (i_db c) (path_text (i_out c)) name (i_entries c)) (\<lambda>gs.
         jbind (syft_scan w (pin_of (i_tools c) ''syft'') (path_text (i_out c)) (''docker-archive:/in/'' @ name @ ''.tar'') (i_sboms c)
             (''decisya-'' @ name @ ''-'' @ i_tag c @ ''.cdx.json'') True) (\<lambda>y.
         jbind (jask (\<lambda>h. h_bytes w h file)) (\<lambda>bytes.
           jret (msg_if (a_repo_tags info \<noteq> JList [JStr (local_ref name (i_tag c))])
                   (fmt ''%s: archive RepoTags are %s, expected [%s]'' [name, py_str (a_repo_tags info), repr_str (local_ref name (i_tag c))])
                 @ config_problems
                 @ msg_if (fst res \<noteq> Scan_clean) (fmt ''%s: gitleaks on the image config: %s'' [name, show_leaks res])
                 @ concat (map snd ls)
                 @ msg_if (name = ''bff'' \<and> ''app/wwwroot/index.html'' \<notin> set (concat (map fst ls)))
                     ''bff: app/wwwroot/index.html is missing (the SPA was not built into the image)''
                 @ gs,
                 [(name @ ''_config'', a_config_digest info), (name @ ''_sha256'', sha256 (h_tools w) bytes)]))))))))))))"

definition load_entries :: "host \<Rightarrow> exc_entry list job" where
  "load_entries w h =
     (case sbind (h_text w h (repo_file w ''.github/image-scan/exceptions.json'')) (json_loads (h_tools w)) of
        Inl e \<Rightarrow> (h, Inl (Failed e))
      | Inr raw \<Rightarrow>
          (case validate_exceptions [] raw (h_today w) of Inl shown \<Rightarrow> (h, Inl (Exited 2)) | Inr es \<Rightarrow> (h, Inr es)))"

text \<open>The SPA's lock file gets an SBOM of its own; then all SBOMs are copied beside the archives.\<close>

definition inspect_spa :: "host \<Rightarrow> inspect_cfg \<Rightarrow> unit job" where
  "inspect_spa w c =
     (let spa = path_sub (i_work c) ''spa''; web = path_of (repo_file w ''src/Decisya.Web'') in
      jbind (fresh_dir w (path_text spa)) (\<lambda>u.
      jbind (jmap (\<lambda>f. jdo (Copy (in_path web f) (in_path spa f))) [''package.json'', ''package-lock.json'']) (\<lambda>v.
      jbind (syft_scan w (pin_of (i_tools c) ''syft'') (path_text spa) ''dir:/in'' (i_sboms c) (''decisya-bff-spa-'' @ i_tag c @ ''.cdx.json'') True) (\<lambda>x.
      jbind (jask (\<lambda>h. Inr (sort (h_glob_sboms w h (path_text (i_sboms c)))))) (\<lambda>sboms.
      jbind (jmap (\<lambda>f. jdo (Copy (in_path (i_sboms c) f) (in_path (i_out c) f))) sboms) (\<lambda>y. jret ()))))))"

text \<open>What comes before the first image: the pins, the canary, the exceptions and the scanner's database.\<close>

definition inspect_setup :: "host \<Rightarrow> inspect_cfg job" where
  "inspect_setup w =
     jbind (release_job_context w) (\<lambda>ctx.
     jbind (tool_pins w) (\<lambda>tls.
     jbind (base_pins w) (\<lambda>bases.
     jbind (jlift (release_temp w)) (\<lambda>tmp.
     let work = path_sub tmp ''release''; db = in_path work ''grype-db''; sboms = path_sub work ''sbom'' in
     jbind (jlift (out_dir w)) (\<lambda>dest.
     jbind (make_cfg_dir w work) (\<lambda>cfg_dir.
     jbind (canary_scan w (pin_of tls ''gitleaks'') work cfg_dir) (\<lambda>u.
     jbind (jask (\<lambda>h. sbind (h_text w h (repo_file w ''.github/image-scan/Dockerfile'')) parse_scanner_ref)) (\<lambda>scn.
     jbind (load_entries w) (\<lambda>es.
     jbind (jdo (Mkdir db)) (\<lambda>v.
     jbind (jdo (Chmod db 511)) (\<lambda>x.
     jbind (run_checked w (db_update_argv scn db) ''grype database update'') (\<lambda>y.
     jbind (fresh_dir w (path_text sboms)) (\<lambda>z.
     jbind (jdo (Chmod (path_text sboms) 511)) (\<lambda>z'.
       jret \<lparr> i_tag = c_tag ctx, i_tools = tls, i_work = work, i_out = dest, i_cfg_dir = cfg_dir, i_scanner = scn, i_entries = es,
              i_db = db, i_sboms = sboms \<rparr>))))))))))))))"

definition inspect_images :: "host \<Rightarrow> inspect_cfg \<Rightarrow> (string \<times> string) list job" where
  "inspect_images w c =
     jbind (jmap (inspect_image w c) image_names) (\<lambda>rs.
     jbind (inspect_spa w c) (\<lambda>s.
       let problems = concat (map fst rs) in
       if problems \<noteq> [] then jfail (show_nat (length problems) @ '' pre-push check(s) failed; nothing was pushed'')
       else jret ((''tag'', i_tag c) # concat (map snd rs))))"

definition cmd_inspect :: "host \<Rightarrow> (string \<times> string) list job" where
  "cmd_inspect w = jbind (inspect_setup w) (inspect_images w)"


section \<open>Outputs and exit status\<close>

text \<open>\<^verbatim>\<open>write_outputs\<close>: the lines appended to the file, also when a later pair is refused.\<close>

fun output_lines :: "(string \<times> string) list \<Rightarrow> string list \<times> (string + unit)" where
  "output_lines [] = ([], Inr ())"
| "output_lines ((k, v) # kvs) =
     (if \<not> matches OUTPUT_KEY_RE k \<or> \<not> matches OUTPUT_VALUE_RE v then
        ([], Inl (fmt ''refusing to write output %s: unexpected characters'' [repr_str k]))
      else case output_lines kvs of (ls, r) \<Rightarrow> ((k @ ''='' @ v @ [NL]) # ls, r))"

definition write_outputs :: "environ \<Rightarrow> (string \<times> string) list \<Rightarrow> string list \<times> (string + unit)" where
  "write_outputs env outputs =
     (case env ''GITHUB_OUTPUT'' of
        Some path \<Rightarrow> if path = [] \<or> outputs = [] then ([], Inr ()) else output_lines outputs
      | None \<Rightarrow> ([], Inr ()))"

datatype command = Pins | Crosscheck | Build | Inspect | Push | Sign | Verify | Assets | Verify_command string string string string

definition run_job :: "host \<Rightarrow> command \<Rightarrow> (string \<times> string) list job" where
  "run_job w cmd =
     (case cmd of
        Pins \<Rightarrow> cmd_pins w | Crosscheck \<Rightarrow> cmd_crosscheck w | Build \<Rightarrow> cmd_build w | Inspect \<Rightarrow> cmd_inspect w | Push \<Rightarrow> cmd_push w
      | Sign \<Rightarrow> cmd_sign w | Verify \<Rightarrow> cmd_verify w | Assets \<Rightarrow> cmd_assets w
      | Verify_command im digest sha runner \<Rightarrow> jbind (cmd_verify_command w im digest sha runner) (\<lambda>t. jret []))"

text \<open>\<^verbatim>\<open>main\<close>: what the job did, the lines added to the output file, and the exit status.\<close>

definition release_main :: "host \<Rightarrow> command \<Rightarrow> history \<times> string list \<times> int" where
  "release_main w cmd =
     (case run_job w cmd [] of
        (h, Inl (Failed e)) \<Rightarrow> (h, [], 1)
      | (h, Inl (Exited n)) \<Rightarrow> (h, [], n)
      | (h, Inl (Raised x)) \<Rightarrow> (h, [], 1)
      | (h, Inr outputs) \<Rightarrow>
          (case write_outputs (h_env w) outputs of
             (ls, Inl e) \<Rightarrow> (h, ls, 1)
           | (ls, Inr u) \<Rightarrow> (h, ls, 0)))"

end
