(* ===== verification/Release_Guarantees.thy ===== *)
theory Release_Guarantees
  imports Release_Jobs "HOL-Library.While_Combinator"
begin

text \<open>
  What the release jobs guarantee: only what was inspected is pushed, a successful verification made every positive and
  negative proof, and the files handed to consumers read back as they were meant.
\<close>



section \<open>Commands\<close>

lemma run_command_Inr [simp]:
  "run_command w argv h = (h', Inr p) \<longleftrightarrow> h' = h @ [Run argv] \<and> h_exec w h argv = Some p"
  by (auto simp: run_command_def unexpected_def split: option.splits)

lemma run_checked_Inr [simp]:
  "run_checked w argv what h = (h', Inr out) \<longleftrightarrow> h' = h @ [Run argv] \<and> (\<exists>err. h_exec w h argv = Some (0, out, err))"
  by (auto simp: run_checked_def split: if_splits prod.splits)

lemma run_checked_fst: "fst (run_checked w argv what h) = h @ [Run argv]"
  by (auto simp: run_checked_def run_command_def jbind_def jfail_def jlift_def jret_def split: sum.splits prod.splits if_splits option.splits)

section \<open>Only a scanned archive is pushed\<close>

text \<open>The archive of an image as the build job scanned it: its SHA-256 and the digest of its configuration are the ones the
  build job recorded, and its only tag is the tag of the run.\<close>

definition scanned_archive :: "host \<Rightarrow> ppath \<Rightarrow> string \<Rightarrow> string \<Rightarrow> history \<Rightarrow> bool" where
  "scanned_archive w src tag name h \<longleftrightarrow>
     (\<exists>bytes info.
        h_is_file w h (in_path src (name @ ''.tar'')) \<and> \<not> h_is_symlink w h (in_path src (name @ ''.tar'')) \<and>
        h_bytes w h (in_path src (name @ ''.tar'')) = Inr bytes \<and>
        h_env w (upper name @ ''_SHA256'') = Some (sha256 (h_tools w) bytes) \<and>
        read_archive (h_tools w) bytes = Inr info \<and>
        h_env w (upper name @ ''_CONFIG'') = Some (a_config_digest info) \<and>
        a_repo_tags info = JList [JStr (local_ref name tag)])"

lemma env_required_Inr: "env_required env n p = Inr v \<Longrightarrow> matches p v \<and> (env n = Some v \<or> env n = None \<and> v = [])"
  by (auto simp: env_required_def Let_def split: if_splits option.splits)

lemma no_empty_HEX64: "\<not> matches HEX64_RE []"
  by code_simp

lemma no_empty_DIGEST: "\<not> matches RELEASE_DIGEST_RE []"
  by code_simp

lemma digest_env_Inr:
  "digest_env w name suf HEX64_RE = Inr v \<Longrightarrow> h_env w (upper name @ ''_'' @ suf) = Some v"
  "digest_env w name suf RELEASE_DIGEST_RE = Inr v \<Longrightarrow> h_env w (upper name @ ''_'' @ suf) = Some v"
  using no_empty_HEX64 no_empty_DIGEST by (auto simp: digest_env_def dest!: env_required_Inr)

lemma checked_archive_scanned:
  assumes "checked_archive w src tag name h = Inr info"
  shows "scanned_archive w src tag name h"
  using assms unfolding checked_archive_def scanned_archive_def Let_def
  by (force simp: dest: digest_env_Inr split: if_splits)

text \<open>What may happen: a push only of the image loaded and tagged just before from a scanned archive.\<close>

definition push_allowed :: "host \<Rightarrow> ppath \<Rightarrow> string \<Rightarrow> history \<Rightarrow> event \<Rightarrow> bool" where
  "push_allowed w src tag h e \<longleftrightarrow>
     (\<forall>remote. e = Run [''docker'', ''push'', remote] \<longrightarrow>
       (\<exists>name\<in>set image_names. \<exists>before.
          remote = remote_ref name tag \<and> h = before @ [Run (load_argv src name), Run (tag_argv name tag)] \<and>
          scanned_archive w src tag name before))"

lemmas argv_defs = load_argv_def tag_argv_def push_argv_def

lemma wp_run_checked:
  assumes "\<And>e. Q (Inl e) (h @ [Run argv])" and "\<And>out. Q (Inr out) (h @ [Run argv])"
  shows "wp (run_checked w argv what) Q h"
  using assms run_checked_fst [of w argv what h]
  by (auto simp: wp_def split: prod.splits) (metis sum.exhaust)

lemmas wp_intros = wp_jbind wp_jret wp_jlift wp_jfail wp_jask wp_run_checked

lemma push_allowed_other [simp]:
  "push_allowed w src tag h (Run (load_argv src' name))" "push_allowed w src tag h (Run (tag_argv name t))"
  "push_allowed w src tag h (Run [''docker'', ''manifest'', ''inspect'', ref])"
  by (simp_all add: push_allowed_def argv_defs)

lemma push_allowed_push:
  "name \<in> set image_names \<Longrightarrow> scanned_archive w src tag name h \<Longrightarrow>
   push_allowed w src tag ((h @ [Run (load_argv src name)]) @ [Run (tag_argv name tag)]) (Run (push_argv name tag))"
  by (auto simp: push_allowed_def push_argv_def)

lemma push_steps_guarded:
  assumes "guarded (push_allowed w src tag) h" and "name \<in> set image_names" and "scanned_archive w src tag name h"
  shows "guarded (push_allowed w src tag) (h @ [Run (load_argv src name), Run (tag_argv name tag)])"
    and "guarded (push_allowed w src tag) (h @ [Run (load_argv src name), Run (tag_argv name tag), Run (push_argv name tag)])"
    and "guarded (push_allowed w src tag)
      (h @ [Run (load_argv src name), Run (tag_argv name tag), Run (push_argv name tag), Run [''docker'', ''manifest'', ''inspect'', ref]])"
proof -
  let ?P = "push_allowed w src tag" and ?l = "Run (load_argv src name)" and ?t = "Run (tag_argv name tag)"
    and ?p = "Run (push_argv name tag)" and ?i = "Run [''docker'', ''manifest'', ''inspect'', ref]"
  from assms have "guarded ?P ((h @ [?l]) @ [?t])" by (simp del: append_assoc)
  moreover from this assms have "guarded ?P (((h @ [?l]) @ [?t]) @ [?p])"
    by (simp add: push_allowed_push del: append_assoc)
  moreover from this have "guarded ?P ((((h @ [?l]) @ [?t]) @ [?p]) @ [?i])" by (simp del: append_assoc)
  ultimately show "guarded ?P (h @ [?l, ?t])" "guarded ?P (h @ [?l, ?t, ?p])" "guarded ?P (h @ [?l, ?t, ?p, ?i])" by simp_all
qed

lemma push_image_keeps:
  assumes "name \<in> set image_names"
  shows "keeps (guarded (push_allowed w src tag)) (push_image w src tag name)"
proof (rule wp_keeps)
  fix h assume g: "guarded (push_allowed w src tag) h"
  show "wp (push_image w src tag name) (\<lambda>r. guarded (push_allowed w src tag)) h"
    unfolding push_image_def Let_def
    apply (intro wp_intros; simp add: g)
    apply (drule checked_archive_scanned)
    apply (auto intro!: wp_intros simp: g push_steps_guarded [OF g assms] split: option.splits)
    done
qed

lemma push_scanned_lemma:
  assumes "fst (cmd_push w []) = earlier @ Run [''docker'', ''push'', remote] # later"
  shows "\<exists>event sha tag src name before.
    publish_context (h_env w) = Inr (event, sha, tag) \<and> in_dir w = Inr src \<and> name \<in> set image_names \<and>
    remote = remote_ref name tag \<and>
    earlier = before @ [Run (load_argv src name), Run (tag_argv name tag)] \<and>
    scanned_archive w src tag name before"
proof (cases "\<exists>event sha tag src. publish_context (h_env w) = Inr (event, sha, tag) \<and> in_dir w = Inr src")
  case True
  then obtain event sha tag src where c: "publish_context (h_env w) = Inr (event, sha, tag)" "in_dir w = Inr src" by blast
  have "keeps (guarded (push_allowed w src tag)) (jmap (push_image w src tag) image_names)"
    by (intro keeps_jmap push_image_keeps)
  moreover have "cmd_push w [] = jmap (push_image w src tag) image_names []"
    by (simp add: cmd_push_def jbind_def jlift_def c)
  ultimately have "guarded (push_allowed w src tag) (fst (cmd_push w []))"
    by (simp add: keeps_def)
  with assms have "push_allowed w src tag earlier (Run [''docker'', ''push'', remote])"
    by (auto simp: guarded_def)
  with c show ?thesis by (auto simp: push_allowed_def)
next
  case False
  then have "fst (cmd_push w []) = []"
    by (auto simp: cmd_push_def jbind_def jlift_def split: sum.splits)
  with assms show ?thesis by simp
qed

text \<open>
  C7: Every push that the job makes, also before it fails, is of the image loaded and tagged just before it from an archive
  that is byte for byte the one the build job scanned, under the tag of this run.\<close>

theorem push_only_scanned:
  assumes "fst (cmd_push w []) = earlier @ Run [''docker'', ''push'', remote] # later"
  shows "\<exists>event sha tag src name before.
    publish_context (h_env w) = Inr (event, sha, tag) \<and> in_dir w = Inr src \<and> name \<in> set image_names \<and>
    remote = remote_ref name tag \<and>
    earlier = before @ [Run (load_argv src name), Run (tag_argv name tag)] \<and>
    scanned_archive w src tag name before"
  using assms by (rule push_scanned_lemma)


lemma keeps_run_checked: "keeps (prefix h0) (run_checked w argv what)"
  by (intro wp_keeps wp_run_checked) auto

lemma keeps_run_command: "keeps (prefix h0) (run_command w argv)"
  by (auto simp: keeps_def run_command_def jlift_def)

lemmas keeps_prefix = keeps_intros keeps_run_checked keeps_run_command keeps_jdo keeps_jfail

lemma jmap_Inr_within:
  assumes ext: "\<And>x h0. keeps (prefix h0) (f x)"
  shows "jmap f xs h = (h', Inr ys) \<Longrightarrow>
    list_all2 (\<lambda>x y. \<exists>h1 h2. f x h1 = (h2, Inr y) \<and> prefix h h1 \<and> prefix h2 h') xs ys"
proof (induction xs arbitrary: h ys)
  case Nil
  then show ?case by simp
next
  case (Cons x xs)
  from Cons.prems obtain h1 y ys' where 1: "f x h = (h1, Inr y)" "jmap f xs h1 = (h', Inr ys')" "ys = y # ys'" by auto
  have "prefix h h1" using keeps_prefixD [OF ext 1(1)] .
  moreover have "prefix h1 h'"
    using keeps_prefixD [OF keeps_jmap [OF ext] 1(2)] .
  ultimately show ?case using 1 Cons.IH [OF 1(2)]
    by (auto elim!: list_all2_mono intro: prefix_order.trans)
qed

lemma push_image_extends: "keeps (prefix h0) (push_image w src tag name)"
  unfolding push_image_def Let_def
  by (intro keeps_prefix | (simp split: option.split; intro conjI impI allI))+

text \<open>What the registry was asked after a push: the manifest under the digest the push printed.\<close>

definition confirmed_push :: "host \<Rightarrow> ppath \<Rightarrow> string \<Rightarrow> history \<Rightarrow> string \<Rightarrow> string \<Rightarrow> bool" where
  "confirmed_push w src tag h name digest \<longleftrightarrow>
     (\<exists>before manifest config ref err.
        scanned_archive w src tag name before \<and> image_ref name digest = Inr ref \<and>
        prefix (before @ [Run (load_argv src name), Run (tag_argv name tag), Run (push_argv name tag),
                          Run [''docker'', ''manifest'', ''inspect'', ref]]) h \<and>
        h_exec w (before @ [Run (load_argv src name), Run (tag_argv name tag), Run (push_argv name tag)])
          [''docker'', ''manifest'', ''inspect'', ref] = Some (0, manifest, err) \<and>
        h_env w (upper name @ ''_CONFIG'') = Some config \<and>
        pushed_config (json_loads (h_tools w) manifest) = JStr config)"

lemma checked_archive_config:
  "checked_archive w src tag name h = Inr info \<Longrightarrow> h_env w (upper name @ ''_CONFIG'') = Some (a_config_digest info)"
  unfolding checked_archive_def Let_def
  by (force dest: digest_env_Inr split: if_splits)

lemma push_image_confirmed:
  assumes "push_image w src tag name h1 = (h2, Inr kv)" and "prefix h2 h"
  shows "fst kv = name @ ''_digest'' \<and> confirmed_push w src tag h name (snd kv)"
proof -
  from assms(1) obtain info pushed c where info: "checked_archive w src tag name h1 = Inr info"
    and c: "re_search PUSHED_RE pushed = Some c"
    and rest: "jbind (jlift (image_ref name (group_text c 1))) (\<lambda>ref.
            jbind (run_checked w [''docker'', ''manifest'', ''inspect'', ref] (''docker manifest inspect '' @ name)) (\<lambda>manifest.
              if pushed_config (json_loads (h_tools w) manifest) \<noteq> JStr (a_config_digest info) then
                jfail (name @ '': the pushed config digest differs from the scanned archive''
                  @ [CHR 0x27] @ ''s (or the manifest has an unexpected shape)'')
              else jret (name @ ''_digest'', group_text c 1)))
          (h1 @ [Run (load_argv src name), Run (tag_argv name tag), Run (push_argv name tag)]) = (h2, Inr kv)"
    unfolding push_image_def Let_def by (auto split: option.splits)
  from rest obtain ref manifest err where 1: "image_ref name (group_text c 1) = Inr ref"
    and 2: "h_exec w (h1 @ [Run (load_argv src name), Run (tag_argv name tag), Run (push_argv name tag)])
              [''docker'', ''manifest'', ''inspect'', ref] = Some (0, manifest, err)"
    and 3: "pushed_config (json_loads (h_tools w) manifest) = JStr (a_config_digest info)"
    and 4: "kv = (name @ ''_digest'', group_text c 1)"
    and 5: "h2 = h1 @ [Run (load_argv src name), Run (tag_argv name tag), Run (push_argv name tag), Run [''docker'', ''manifest'', ''inspect'', ref]]"
    by (auto split: if_splits)
  show ?thesis
    using checked_archive_scanned [OF info] checked_archive_config [OF info] 1 2 3 assms(2)
    unfolding confirmed_push_def 4 fst_conv snd_conv 5 by blast
qed

text \<open>
  C9: A push job that succeeds has pushed all images, and for each the registry confirmed, under the digest that the job
  hands to the signing job, the configuration that was scanned.\<close>

theorem push_confirmed:
  assumes "cmd_push w [] = (h, Inr outs)"
  shows "\<exists>event sha tag src.
    publish_context (h_env w) = Inr (event, sha, tag) \<and> in_dir w = Inr src \<and>
    list_all2 (\<lambda>name kv. fst kv = name @ ''_digest'' \<and> confirmed_push w src tag h name (snd kv)) image_names outs"
proof -
  from assms obtain event sha tag src where c: "publish_context (h_env w) = Inr (event, sha, tag)" "in_dir w = Inr src"
    and j: "jmap (push_image w src tag) image_names [] = (h, Inr outs)"
    by (auto simp: cmd_push_def)
  from jmap_Inr_within [OF push_image_extends j]
  have "list_all2 (\<lambda>name kv. fst kv = name @ ''_digest'' \<and> confirmed_push w src tag h name (snd kv)) image_names outs"
    by (rule list_all2_mono) (blast dest: push_image_confirmed)
  with c show ?thesis by blast
qed


section \<open>A verification that succeeds made every proof\<close>

text \<open>The answer of cosign to a verification of a reference, asked during the run with history \<open>h\<close>.\<close>

definition cosign_call :: "string list \<Rightarrow> string \<Rightarrow> string \<Rightarrow> string list \<Rightarrow> bool \<Rightarrow> string list" where
  "cosign_call pre tool ref flags attestation =
     pre @ tool # (if attestation then [''verify-attestation'', ''--type'', ''cyclonedx''] else [''verify'']) @ flags @ [ref]"

definition cosign_answer :: "host \<Rightarrow> history \<Rightarrow> string \<Rightarrow> string \<Rightarrow> string list \<Rightarrow> bool \<Rightarrow> int \<Rightarrow> string \<Rightarrow> string \<Rightarrow> bool" where
  "cosign_answer w h tool ref flags attestation rc out err \<longleftrightarrow>
     (\<exists>h1 pre. prefix (h1 @ [Run (cosign_call pre tool ref flags attestation)]) h
        \<and> h_exec w h1 (cosign_call pre tool ref flags attestation) = Some (rc, out, err))"

lemma cosign_answer_later: "cosign_answer w h tool ref flags att rc out err \<Longrightarrow> prefix h h' \<Longrightarrow> cosign_answer w h' tool ref flags att rc out err"
  unfolding cosign_answer_def by (blast intro: prefix_order.trans)

lemma cosign_argv_Inr: "cosign_argv w tool mounts token h = (h', Inr argv) \<Longrightarrow> \<exists>a. argv = a @ [tool]"
  by (auto simp: cosign_argv_def Let_def)

lemma cosign_verify_Inr:
  assumes "cosign_verify w tool ref flags att h = (h', Inr (rc, out, err))"
  shows "cosign_answer w h' tool ref flags att rc out err"
proof -
  from assms obtain h1 argv where 1: "cosign_argv w tool [] False h = (h1, Inr argv)"
    and 2: "h' = h1 @ [Run (argv @ (if att then [''verify-attestation'', ''--type'', ''cyclonedx''] else [''verify'']) @ flags @ [ref])]"
    and 3: "h_exec w h1 (argv @ (if att then [''verify-attestation'', ''--type'', ''cyclonedx''] else [''verify'']) @ flags @ [ref]) = Some (rc, out, err)"
    by (auto simp: cosign_verify_def)
  from cosign_argv_Inr [OF 1] obtain pre where
    "argv @ (if att then [''verify-attestation'', ''--type'', ''cyclonedx''] else [''verify'']) @ flags @ [ref] = cosign_call pre tool ref flags att"
    by (auto simp: cosign_call_def)
  with 2 3 show ?thesis unfolding cosign_answer_def by (metis prefix_order.refl)
qed

lemma cosign_verify_extends: "keeps (prefix h0) (cosign_verify w tool ref flags att)"
  unfolding cosign_verify_def cosign_argv_def Let_def by (intro keeps_prefix)

lemma positive_check_extends: "keeps (prefix h0) (positive_check w tool flags c)"
  unfolding positive_check_def by (auto split: prod.splits intro!: keeps_prefix cosign_verify_extends)

lemma negative_check_extends: "keeps (prefix h0) (negative_check w tool label ref flags expect)"
  unfolding negative_check_def Let_def by (auto split: prod.splits intro!: keeps_prefix cosign_verify_extends)

lemma negative_checks_extends: "keeps (prefix h0) (negative_checks w tool base_ref api_ref event sha flags)"
  unfolding negative_checks_def by (auto intro!: keeps_prefix negative_check_extends)

definition accepted :: "host \<Rightarrow> history \<Rightarrow> string \<Rightarrow> string list \<Rightarrow> string \<Rightarrow> bool \<Rightarrow> bool" where
  "accepted w h tool flags ref att \<longleftrightarrow> (\<exists>out err. cosign_answer w h tool ref flags att 0 out err)"

definition refused :: "host \<Rightarrow> history \<Rightarrow> string \<Rightarrow> string list \<Rightarrow> string \<Rightarrow> negative \<Rightarrow> bool" where
  "refused w h tool flags ref expect \<longleftrightarrow>
     (\<exists>rc out err. cosign_answer w h tool ref flags False rc out err \<and> classify_negative rc (out @ [NL] @ err) = expect)"

lemma accepted_later: "accepted w h tool flags ref att \<Longrightarrow> prefix h h' \<Longrightarrow> accepted w h' tool flags ref att"
  unfolding accepted_def by (blast intro: cosign_answer_later)

lemma refused_later: "refused w h tool flags ref expect \<Longrightarrow> prefix h h' \<Longrightarrow> refused w h' tool flags ref expect"
  unfolding refused_def by (blast intro: cosign_answer_later)

lemma positive_check_clean:
  "positive_check w tool flags ((name, ref), att) h = (h', Inr []) \<Longrightarrow> accepted w h' tool flags ref att"
  by (auto simp: positive_check_def accepted_def dest!: cosign_verify_Inr)

lemma negative_check_clean:
  "negative_check w tool label ref flags expect h = (h', Inr []) \<Longrightarrow> refused w h' tool flags ref expect"
  by (auto simp: negative_check_def refused_def Let_def dest!: cosign_verify_Inr)

text \<open>The certificate that a verification asks for.\<close>

definition identity_flags :: "string \<Rightarrow> string \<Rightarrow> string \<Rightarrow> string list" where
  "identity_flags identity trigger sha =
     [''--certificate-identity'', identity, ''--certificate-oidc-issuer'', ISSUER, ''--certificate-github-workflow-repository'', REPO,
      ''--certificate-github-workflow-trigger'', trigger, ''--certificate-github-workflow-sha'', sha,
      ''--certificate-github-workflow-ref'', WORKFLOW_REF]"

lemma verify_flags_Inr: "verify_flags sha trigger identity = Inr fl \<Longrightarrow> fl = identity_flags identity trigger sha"
  by (auto simp: verify_flags_def identity_flags_def split: if_splits)

definition published_ref :: "host \<Rightarrow> string \<Rightarrow> string \<Rightarrow> bool" where
  "published_ref w name ref \<longleftrightarrow> (\<exists>digest. h_env w (upper name @ ''_DIGEST'') = Some digest \<and> image_ref name digest = Inr ref)"

lemma smap_list_all2: "smap f xs = Inr ys \<Longrightarrow> list_all2 (\<lambda>x y. f x = Inr y) xs ys"
  by (induction xs arbitrary: ys) auto

lemma smap_keys: "smap (\<lambda>x. sbind (f x) (\<lambda>d. sbind (g x d) (\<lambda>r. Inr (x, r)))) xs = Inr ys \<Longrightarrow> map fst ys = xs"
  by (induction xs arbitrary: ys) auto

lemma list_all2_all: "list_all2 P xs ys \<Longrightarrow> concat ys = [] \<Longrightarrow> list_all (\<lambda>x. P x []) xs"
  by (induction rule: list_all2_induct) auto

lemma positive_checks_clean:
  assumes ext: "prefix h1 h"
  shows "list_all (\<lambda>x. \<exists>h0 h2. positive_check w tool flags x h0 = (h2, Inr []) \<and> prefix [] h0 \<and> prefix h2 h1)
      (concat (map (\<lambda>r. [(r, False), (r, True)]) refs)) \<Longrightarrow>
    list_all (\<lambda>(name, ref). accepted w h tool flags ref False \<and> accepted w h tool flags ref True) refs"
proof (induction refs)
  case (Cons r refs)
  obtain name ref where r: "r = (name, ref)" by (cases r)
  have "accepted w h tool flags ref att"
    if "\<exists>h0 h2. positive_check w tool flags (r, att) h0 = (h2, Inr []) \<and> prefix [] h0 \<and> prefix h2 h1" for att
    using that ext unfolding r by (meson positive_check_clean accepted_later prefix_order.trans)
  with Cons r show ?case by simp
qed simp

lemma published_refs_Inr:
  assumes "published_refs w = Inr refs"
  shows "list_all (\<lambda>(name, ref). published_ref w name ref) refs"
proof -
  have "list_all (\<lambda>(name, ref). published_ref w name ref) ys"
    if "smap (\<lambda>name. sbind (digest_env w name ''DIGEST'' RELEASE_DIGEST_RE) (\<lambda>d. sbind (image_ref name d) (\<lambda>r. Inr (name, r)))) xs = Inr ys" for xs ys
    using that
  proof (induction xs arbitrary: ys)
    case (Cons x xs)
    then obtain d r zs where z: "digest_env w x ''DIGEST'' RELEASE_DIGEST_RE = Inr d" "image_ref x d = Inr r" "ys = (x, r) # zs"
      and "list_all (\<lambda>(name, ref). published_ref w name ref) zs" by auto
    with digest_env_Inr(2) [OF z(1)] show ?case by (auto simp: published_ref_def)
  qed simp
  with assms show ?thesis by (simp add: published_refs_def)
qed

lemma negative_checks_clean:
  assumes "negative_checks w tool base_ref api_ref event sha flags h = (h', Inr [])"
  shows "refused w h' tool flags base_ref Missing
    \<and> refused w h' tool (identity_flags IDENTITY_CI event sha) api_ref Mismatch
    \<and> (event \<noteq> ''workflow_dispatch'' \<or> refused w h' tool (identity_flags IDENTITY ''push'' sha) api_ref Mismatch)"
proof -
  let ?n3 = "if event = ''workflow_dispatch''
            then jbind (jlift (verify_flags sha ''push'' IDENTITY)) (\<lambda>push_flags.
                   negative_check w tool ''3 dry-run image as a push release'' api_ref push_flags Mismatch)
            else jret []"
  from assms obtain h1 h2 fl where
    n1: "negative_check w tool ''1 unsigned base image'' base_ref flags Missing h = (h1, Inr [])"
    and fl: "verify_flags sha event IDENTITY_CI = Inr fl"
    and n2: "negative_check w tool ''2 wrong identity (ci.yml)'' api_ref fl Mismatch h1 = (h2, Inr [])"
    and n3: "?n3 h2 = (h', Inr [])"
    by (auto simp: negative_checks_def)
  have p2: "prefix h1 h2" by (rule keeps_prefixD [OF negative_check_extends n2])
  have p3: "prefix h2 h'"
    by (rule keeps_prefixD [where m = ?n3, OF _ n3]) (auto intro!: keeps_prefix negative_check_extends)
  from n3 have "event \<noteq> ''workflow_dispatch'' \<or> refused w h' tool (identity_flags IDENTITY ''push'' sha) api_ref Mismatch"
    by (auto dest!: verify_flags_Inr negative_check_clean split: if_splits)
  with n1 n2 p2 p3 verify_flags_Inr [OF fl] show ?thesis
    by (meson negative_check_clean refused_later prefix_order.trans)
qed

text \<open>
  C10: A verification job that succeeds: for every published image, cosign accepted signature and SBOM attestation for the
  release workflow at the commit of this run; it found no signature on the pinned base image, rejected the identity of another
  workflow, and, in a dry run, rejected the image as a release.\<close>

theorem verify_job_sound:
  assumes "cmd_verify w [] = (h, Inr outs)"
  shows "\<exists>event sha tag tls bases refs.
    publish_context (h_env w) = Inr (event, sha, tag) \<and> tool_pins w [] = ([], Inr tls) \<and> base_pins w [] = ([], Inr bases) \<and>
    map fst refs = image_names \<and>
    list_all (\<lambda>(name, ref). published_ref w name ref
      \<and> accepted w h (pin_of tls ''cosign'') (identity_flags IDENTITY event sha) ref False
      \<and> accepted w h (pin_of tls ''cosign'') (identity_flags IDENTITY event sha) ref True) refs \<and>
    refused w h (pin_of tls ''cosign'') (identity_flags IDENTITY event sha) (digest_only (pin_of bases ''aspnet'')) Missing \<and>
    refused w h (pin_of tls ''cosign'') (identity_flags IDENTITY_CI event sha) (pin_of refs ''api'') Mismatch \<and>
    (event = ''workflow_dispatch'' \<longrightarrow>
       refused w h (pin_of tls ''cosign'') (identity_flags IDENTITY ''push'' sha) (pin_of refs ''api'') Mismatch)"
proof -
  from assms obtain event sha tag tls bases flags refs ps h1 where
    ctx: "publish_context (h_env w) = Inr (event, sha, tag)"
    and tls: "tool_pins w [] = ([], Inr tls)" and bases: "base_pins w [] = ([], Inr bases)"
    and fl0: "verify_flags sha event IDENTITY = Inr flags"
    and refs: "published_refs w = Inr refs"
    and ps: "jmap (positive_check w (pin_of tls ''cosign'') flags) (concat (map (\<lambda>r. [(r, False), (r, True)]) refs)) [] = (h1, Inr ps)"
    and ns: "negative_checks w (pin_of tls ''cosign'') (digest_only (pin_of bases ''aspnet'')) (pin_of refs ''api'') event sha flags h1 = (h, Inr [])"
    and none: "concat ps = []"
    unfolding cmd_verify_def Let_def by (auto simp: tool_pins_def base_pins_def split: if_splits)
  have keys: "map fst refs = image_names" using smap_keys [OF refs [unfolded published_refs_def]] .
  have pub: "list_all (\<lambda>(name, ref). published_ref w name ref) refs"
    by (rule published_refs_Inr [OF refs])
  have ext: "prefix h1 h" by (rule keeps_prefixD [OF negative_checks_extends ns])
  have "list_all (\<lambda>x. \<exists>h0 h2. positive_check w (pin_of tls ''cosign'') flags x h0 = (h2, Inr []) \<and> prefix [] h0 \<and> prefix h2 h1)
      (concat (map (\<lambda>r. [(r, False), (r, True)]) refs))"
    by (rule list_all2_all [OF jmap_Inr_within [OF positive_check_extends ps] none])
  note acc = positive_checks_clean [OF ext this]
  have "list_all (\<lambda>(name, ref). published_ref w name ref \<and> accepted w h (pin_of tls ''cosign'') flags ref False
      \<and> accepted w h (pin_of tls ''cosign'') flags ref True) refs"
    using pub acc unfolding list_all_iff by blast
  note all = this [unfolded verify_flags_Inr [OF fl0]]
  note neg = negative_checks_clean [OF ns, unfolded verify_flags_Inr [OF fl0]]
  show ?thesis
    by (intro exI conjI, rule ctx, rule tls, rule bases, rule keys, rule all, rule neg [THEN conjunct1],
        rule neg [THEN conjunct2, THEN conjunct1], use neg [THEN conjunct2, THEN conjunct2] in blast)
qed


section \<open>What an inspected image is\<close>

definition env_keys :: "dict \<Rightarrow> string list option" where
  "env_keys inner = map_option (map (\<lambda>item. split_head ''='' (py_str item))) (py_iter (dget inner ''Env''))"

definition config_ok :: "json \<Rightarrow> bool" where
  "config_ok v \<longleftrightarrow>
     (case v of
        JObj cfg \<Rightarrow>
          (let inner = dict_or_empty (dget cfg ''config'') in
           dget cfg ''os'' = JStr ''linux'' \<and> dget cfg ''architecture'' = JStr ''amd64'' \<and>
           py_str (dget_or inner ''User'' (JStr [])) = ''1654'' \<and>
           (case env_keys inner of Some ks \<Rightarrow> list_all (\<lambda>k. k \<in> set ENV_ALLOW) ks | None \<Rightarrow> False) \<and>
           entrypoint_ok (dget inner ''Entrypoint''))
      | _ \<Rightarrow> False)"

lemma banned_not_allowed: "''ASPNETCORE_ENVIRONMENT'' \<notin> set ENV_ALLOW" "''DOTNET_ENVIRONMENT'' \<notin> set ENV_ALLOW"
  by (simp_all add: ENV_ALLOW_def)

lemma check_config_Inr: "check_config name v = Inr [] \<longleftrightarrow> config_ok v"
proof (cases v)
  case (JObj cfg)
  let ?inner = "dict_or_empty (dget cfg ''config'')"
  show ?thesis
  proof (cases "py_iter (dget ?inner ''Env'')")
    case None
    then show ?thesis
      by (simp add: JObj check_config_def config_ok_def env_keys_def as_dict_def unexpected_def Let_def)
  next
    case (Some env)
    let ?keys = "map (\<lambda>item. split_head ''='' (py_str item)) env"
    have user: "(case map_of ?inner ''User'' of Some u \<Rightarrow> py_str u | None \<Rightarrow> []) = py_str (dget_or ?inner ''User'' (JStr []))"
      by (simp add: dget_or_def py_str_def split: option.split)
    have la: "list_all (\<lambda>k. k \<in> set ENV_ALLOW) ?keys \<longleftrightarrow> set ?keys \<subseteq> set ENV_ALLOW" by (auto simp: list_all_iff)
    have banned: "set ?keys \<subseteq> set ENV_ALLOW \<Longrightarrow> ''ASPNETCORE_ENVIRONMENT'' \<notin> set ?keys \<and> ''DOTNET_ENVIRONMENT'' \<notin> set ?keys"
      using banned_not_allowed by blast
    show ?thesis
      using banned unfolding check_config_def config_ok_def JObj as_dict_def unexpected_def env_keys_def
      by (auto simp: Some user la sbind_def USER_ID_def Let_def simp del: set_map split: if_splits)
  qed
qed (simp_all add: check_config_def config_ok_def as_dict_def unexpected_def)

text \<open>
  C32: The configuration check accepts an image exactly when it is for linux/amd64, runs as the unprivileged user, has only
  the allowed environment variables and starts an application DLL with dotnet.\<close>

theorem check_config_exact: "check_config name v = Inr [] \<longleftrightarrow> config_ok v"
  by (rule check_config_Inr)

definition member_ok :: "string \<Rightarrow> bool" where
  "member_ok m \<longleftrightarrow> py_startswith (rsplit_last ''/'' m) ''.wh.'' \<or> \<not> forbidden_name m \<and> \<not> stray_certificate m"

lemma check_names_Nil: "check_names name index names = [] \<longleftrightarrow> list_all member_ok names"
  unfolding check_names_def list_all_iff member_ok_def concat_eq_Nil_conv set_map ball_simps
  by (rule ball_cong) (simp_all split: if_split)


text \<open>An answer of gitleaks that makes the scan of a directory clean, given during the run.\<close>

definition gitleaks_clean :: "host \<Rightarrow> history \<Rightarrow> string \<Rightarrow> string \<Rightarrow> string \<Rightarrow> bool" where
  "gitleaks_clean w h tool dir cfg_dir \<longleftrightarrow>
     (\<exists>h1 rc out err. prefix (h1 @ [Run (gitleaks_argv tool dir cfg_dir)]) h \<and>
        h_exec w h1 (gitleaks_argv tool dir cfg_dir) = Some (rc, out, err) \<and> gitleaks_verdict (h_tools w) rc out = (Scan_clean, []))"

definition layer_inspected :: "host \<Rightarrow> history \<Rightarrow> string \<Rightarrow> ppath \<Rightarrow> string \<Rightarrow> string \<Rightarrow> nat \<times> string \<times> string \<Rightarrow> bool" where
  "layer_inspected w h tool work cfg_dir name l \<longleftrightarrow>
     (case l of (index, layer_name, data) \<Rightarrow>
        (\<exists>ms. layer_tar (h_tools w) data = (ms, None) \<and> list_all (\<lambda>m. member_ok (normalize_name (u_name m))) ms \<and>
          list_all (\<lambda>m. u_filtered m = None \<or> u_sym m \<or> u_lnk m) ms) \<and>
        gitleaks_clean w h tool (path_text (path_sub (path_sub (path_sub work ''layers'') name) (two_digits index))) cfg_dir)"

definition grype_clean :: "host \<Rightarrow> history \<Rightarrow> inspect_cfg \<Rightarrow> string \<Rightarrow> bool" where
  "grype_clean w h c name \<longleftrightarrow>
     (\<exists>h1 out err doc r. prefix (h1 @ [Run (grype_argv (i_scanner c) (i_db c) (path_text (i_out c)) name)]) h \<and>
        h_exec w h1 (grype_argv (i_scanner c) (i_db c) (path_text (i_out c)) name) = Some (0, out, err) \<and>
        json_loads (h_tools w) out = Inr (JObj doc) \<and> evaluate doc name (i_entries c) (h_today w) None [] = Some r \<and> findings r = [])"

definition image_inspected :: "host \<Rightarrow> history \<Rightarrow> inspect_cfg \<Rightarrow> string \<Rightarrow> archive \<Rightarrow> bool" where
  "image_inspected w h c name info \<longleftrightarrow>
     a_repo_tags info = JList [JStr (local_ref name (i_tag c))] \<and>
     config_ok (a_config info) \<and>
     gitleaks_clean w h (pin_of (i_tools c) ''gitleaks'') (path_text (path_sub (path_sub (i_work c) ''cfgscan'') name)) (i_cfg_dir c) \<and>
     list_all (layer_inspected w h (pin_of (i_tools c) ''gitleaks'') (i_work c) (i_cfg_dir c) name) (enumerate 0 (a_layers info)) \<and>
     grype_clean w h c name"

lemma keeps_if: "keeps P a \<Longrightarrow> keeps P b \<Longrightarrow> keeps P (if c then a else b)"
  by simp

lemma keeps_prod: "(\<And>x y. keeps P (f x y)) \<Longrightarrow> keeps P (case p of (x, y) \<Rightarrow> f x y)"
  by (cases p) simp

lemma keeps_option: "keeps P a \<Longrightarrow> (\<And>x. keeps P (f x)) \<Longrightarrow> keeps P (case p of None \<Rightarrow> a | Some x \<Rightarrow> f x)"
  by (cases p) simp_all

lemmas keeps_all = keeps_prefix keeps_if keeps_prod keeps_option

lemma unpack_layer_extends: "keeps (prefix h0) (unpack_layer w data dest)"
  unfolding unpack_layer_def unpack_member_def Let_def by (intro keeps_all)

lemma gitleaks_extends: "keeps (prefix h0) (scan_dir_with_gitleaks w tool dir cfg)"
  unfolding scan_dir_with_gitleaks_def by (intro keeps_all)

lemma fresh_dir_extends: "keeps (prefix h0) (fresh_dir w d)"
  unfolding fresh_dir_def by (intro keeps_all)

lemma inspect_layer_extends: "keeps (prefix h0) (inspect_layer w tool work cfg_dir name l)"
  unfolding inspect_layer_def Let_def by (intro keeps_all unpack_layer_extends gitleaks_extends)

lemma grype_scan_extends: "keeps (prefix h0) (grype_scan w scn db dest name es)"
  unfolding grype_scan_def by (intro keeps_all)

lemma syft_scan_extends: "keeps (prefix h0) (syft_scan w tool mount source sbom_dir f b)"
  unfolding syft_scan_def by (intro keeps_all)

lemmas job_extends = unpack_layer_extends gitleaks_extends fresh_dir_extends inspect_layer_extends grype_scan_extends syft_scan_extends

lemma inspect_image_extends: "keeps (prefix h0) (inspect_image w c name)"
  unfolding inspect_image_def Let_def by (intro keeps_all job_extends)

lemma inspect_spa_extends: "keeps (prefix h0) (inspect_spa w c)"
  unfolding inspect_spa_def Let_def by (intro keeps_all job_extends)

lemma gitleaks_verdict_clean: "fst (gitleaks_verdict t rc out) = Scan_clean \<Longrightarrow> gitleaks_verdict t rc out = (Scan_clean, [])"
  by (auto simp: gitleaks_verdict_def Let_def split: sum.splits json.splits if_splits)

lemma gitleaks_scan_clean:
  "scan_dir_with_gitleaks w tool dir cfg h = (h', Inr res) \<Longrightarrow> fst res = Scan_clean \<Longrightarrow> gitleaks_clean w h' tool dir cfg"
  unfolding scan_dir_with_gitleaks_def gitleaks_clean_def
  by (auto dest!: gitleaks_verdict_clean intro!: exI [of _ "h @ [Chmod dir 493]"])

lemma gitleaks_clean_later: "gitleaks_clean w h tool dir cfg \<Longrightarrow> prefix h h' \<Longrightarrow> gitleaks_clean w h' tool dir cfg"
  unfolding gitleaks_clean_def by (blast intro: prefix_order.trans)

lemma layer_inspected_later: "layer_inspected w h tool work cfg n l \<Longrightarrow> prefix h h' \<Longrightarrow> layer_inspected w h' tool work cfg n l"
  by (auto simp: layer_inspected_def intro: gitleaks_clean_later split: prod.splits)

lemma grype_clean_later: "grype_clean w h c name \<Longrightarrow> prefix h h' \<Longrightarrow> grype_clean w h' c name"
  unfolding grype_clean_def by (blast intro: prefix_order.trans)

lemma image_inspected_later: "image_inspected w h c name info \<Longrightarrow> prefix h h' \<Longrightarrow> image_inspected w h' c name info"
  unfolding image_inspected_def list_all_iff
  by (blast intro: gitleaks_clean_later layer_inspected_later grype_clean_later)

lemma unpack_member_Inr:
  "unpack_member w dest m h = (h', Inr r) \<Longrightarrow> fst r = normalize_name (u_name m) \<and> (u_filtered m = None \<or> u_sym m \<or> u_lnk m)"
  by (auto simp: unpack_member_def Let_def split: option.splits if_splits)

lemma unpack_layer_Inr:
  assumes "unpack_layer w data dest h = (h', Inr (names, skipped))"
  shows "\<exists>ms. layer_tar (h_tools w) data = (ms, None) \<and> names = map (\<lambda>m. normalize_name (u_name m)) ms
    \<and> list_all (\<lambda>m. u_filtered m = None \<or> u_sym m \<or> u_lnk m) ms"
proof -
  from assms obtain ms rs h1 h2 where ms: "layer_tar (h_tools w) data = (ms, None)"
    and rs: "jmap (unpack_member w dest) ms h1 = (h2, Inr rs)" and names: "names = map fst rs"
    by (auto simp: unpack_layer_def split: prod.splits option.splits)
  have "list_all2 (\<lambda>m r. fst r = normalize_name (u_name m) \<and> (u_filtered m = None \<or> u_sym m \<or> u_lnk m)) ms rs"
    using jmap_Inr [OF rs] by (rule list_all2_mono) (blast dest: unpack_member_Inr)
  then have "map fst rs = map (\<lambda>m. normalize_name (u_name m)) ms \<and> list_all (\<lambda>m. u_filtered m = None \<or> u_sym m \<or> u_lnk m) ms"
    by (induction rule: list_all2_induct) auto
  with ms names show ?thesis by blast
qed

lemma inspect_layer_clean:
  assumes "inspect_layer w tool work cfg_dir name l h = (h', Inr (names, []))"
  shows "layer_inspected w h' tool work cfg_dir name l"
proof -
  obtain index ln data where l: "l = (index, ln, data)" by (cases l) auto
  let ?dest = "path_sub (path_sub (path_sub work ''layers'') name) (two_digits index)"
  from assms obtain h1 h2 skipped res where u: "unpack_layer w data ?dest h1 = (h2, Inr (names, skipped))"
    and g: "scan_dir_with_gitleaks w tool (path_text ?dest) cfg_dir h2 = (h', Inr res)"
    and ok: "check_names name index names = []" "fst res = Scan_clean"
    by (auto simp: inspect_layer_def l Let_def)
  from unpack_layer_Inr [OF u] ok(1) gitleaks_scan_clean [OF g ok(2)] show ?thesis
    by (auto simp: layer_inspected_def l check_names_Nil list_all_iff)
qed

lemma grype_problems_Nil:
  assumes "grype_problems t name es day rc out = Inr []"
  shows "rc = 0 \<and> (\<exists>doc r. json_loads t out = Inr (JObj doc) \<and> evaluate doc name es day None [] = Some r \<and> findings r = [])"
  using assms
  by (auto simp: grype_problems_def unexpected_def split: if_splits sum.splits json.splits option.splits)

lemma grype_scan_clean:
  "grype_scan w (i_scanner c) (i_db c) (path_text (i_out c)) name (i_entries c) h = (h', Inr []) \<Longrightarrow> grype_clean w h' c name"
  unfolding grype_scan_def grype_clean_def by (auto dest!: grype_problems_Nil)


lemma inspect_image_clean:
  assumes run: "inspect_image w c name h = (h', Inr ([], outs))"
  shows "\<exists>bytes info bytes' h1.
    h_bytes w h (in_path (i_out c) (name @ ''.tar'')) = Inr bytes \<and> read_archive (h_tools w) bytes = Inr info \<and>
    image_inspected w h' c name info \<and>
    h_bytes w h1 (in_path (i_out c) (name @ ''.tar'')) = Inr bytes' \<and>
    outs = [(name @ ''_config'', a_config_digest info), (name @ ''_sha256'', sha256 (h_tools w) bytes')]"
proof -
  let ?file = "in_path (i_out c) (name @ ''.tar'')" and ?g = "pin_of (i_tools c) ''gitleaks''"
    and ?dir = "path_text (path_sub (path_sub (i_work c) ''cfgscan'') name)"
  from run obtain bytes info h2 h3 res h4 ls h5 bytes' where
    b: "h_bytes w h ?file = Inr bytes" and info: "read_archive (h_tools w) bytes = Inr info"
    and cfg: "check_config name (a_config info) = Inr []"
    and g: "scan_dir_with_gitleaks w ?g ?dir (i_cfg_dir c) h2 = (h3, Inr res)" and clean: "fst res = Scan_clean"
    and ls: "jmap (inspect_layer w ?g (i_work c) (i_cfg_dir c) name) (enumerate 0 (a_layers info)) h3 = (h4, Inr ls)"
    and lsN: "concat (map snd ls) = []"
    and gr: "grype_scan w (i_scanner c) (i_db c) (path_text (i_out c)) name (i_entries c) h4 = (h5, Inr [])"
    and sy: "syft_scan w (pin_of (i_tools c) ''syft'') (path_text (i_out c)) (''docker-archive:/in/'' @ name @ ''.tar'') (i_sboms c)
             (''decisya-'' @ name @ ''-'' @ i_tag c @ ''.cdx.json'') True h5 = (h', Inr ())"
    and tags: "a_repo_tags info = JList [JStr (local_ref name (i_tag c))]"
    and b': "h_bytes w h' ?file = Inr bytes'"
    and outs: "outs = [(name @ ''_config'', a_config_digest info), (name @ ''_sha256'', sha256 (h_tools w) bytes')]"
    unfolding inspect_image_def Let_def
    apply (simp only: jbind_Inr jask_Inr jlift_Inr jdo_Inr jret_eq sbind_Inr prod.inject sum.inject append_is_Nil_conv Nil_is_append_conv
        msg_if_Nil msg_if_Nil' not_not)
    apply clarify
    apply (rule that)
    apply assumption+
    done
  have p5: "prefix h5 h'" by (rule keeps_prefixD [OF syft_scan_extends sy])
  have p4: "prefix h4 h'" using keeps_prefixD [OF grype_scan_extends gr] p5 by (rule prefix_order.trans)
  have p3: "prefix h3 h'" using keeps_prefixD [OF keeps_jmap [OF inspect_layer_extends] ls] p4 by (rule prefix_order.trans)
  have "list_all2 (\<lambda>l r. snd r = [] \<longrightarrow> layer_inspected w h' ?g (i_work c) (i_cfg_dir c) name l) (enumerate 0 (a_layers info)) ls"
    using jmap_Inr_within [OF inspect_layer_extends ls]
  proof (rule list_all2_mono, intro impI)
    fix l r assume "\<exists>h1 h2. inspect_layer w ?g (i_work c) (i_cfg_dir c) name l h1 = (h2, Inr r) \<and> prefix h3 h1 \<and> prefix h2 h4" "snd r = []"
    then obtain h1 h2 where "inspect_layer w ?g (i_work c) (i_cfg_dir c) name l h1 = (h2, Inr (fst r, []))" and "prefix h2 h4"
      by (metis prod.collapse)
    with p4 show "layer_inspected w h' ?g (i_work c) (i_cfg_dir c) name l"
      by (blast intro: layer_inspected_later inspect_layer_clean prefix_order.trans)
  qed
  then have "list_all (layer_inspected w h' ?g (i_work c) (i_cfg_dir c) name) (enumerate 0 (a_layers info))"
    using lsN by (induction rule: list_all2_induct) auto
  then have "image_inspected w h' c name info"
    using tags cfg gitleaks_clean_later [OF gitleaks_scan_clean [OF g clean] p3] grype_clean_later [OF grype_scan_clean [OF gr] p5]
    by (simp add: image_inspected_def check_config_Inr)
  with b info b' outs show ?thesis by blast
qed


section \<open>Inspection, and what is pushed after it\<close>

text \<open>The scanner was seen to find a seeded secret in this run, and to pass the layer that deletes it.\<close>

definition canary_seen :: "host \<Rightarrow> inspect_cfg \<Rightarrow> bool" where
  "canary_seen w c \<longleftrightarrow>
     (\<exists>h0 rc out err. h_exec w h0 (gitleaks_argv (pin_of (i_tools c) ''gitleaks'') (in_path (path_sub (i_work c) ''canary'') ''0'') (i_cfg_dir c)) = Some (rc, out, err) \<and>
        fst (gitleaks_verdict (h_tools w) rc out) = Scan_leak) \<and>
     (\<exists>h1. gitleaks_clean w h1 (pin_of (i_tools c) ''gitleaks'') (in_path (path_sub (i_work c) ''canary'') ''1'') (i_cfg_dir c))"

lemma canary_scan_seen:
  assumes "canary_scan w (pin_of (i_tools c) ''gitleaks'') (i_work c) (i_cfg_dir c) h = (h', Inr u)"
  shows "canary_seen w c"
proof -
  let ?t = "pin_of (i_tools c) ''gitleaks''" and ?b = "path_sub (i_work c) ''canary''"
  from assms obtain h0 h1 h2 first second where
    1: "scan_dir_with_gitleaks w ?t (in_path ?b ''0'') (i_cfg_dir c) h0 = (h1, Inr first)"
    and 2: "scan_dir_with_gitleaks w ?t (in_path ?b ''1'') (i_cfg_dir c) h1 = (h2, Inr second)"
    and v: "release_canary first second = Inr ()"
    unfolding canary_scan_def Let_def by (auto simp del: append.simps)
  from v have st: "fst first = Scan_leak" "fst second = Scan_clean"
    by (auto simp: release_canary_def split: if_splits)
  from 1 st(1) have "\<exists>h0 rc out err. h_exec w h0 (gitleaks_argv ?t (in_path ?b ''0'') (i_cfg_dir c)) = Some (rc, out, err) \<and>
        fst (gitleaks_verdict (h_tools w) rc out) = Scan_leak"
    unfolding scan_dir_with_gitleaks_def by (simp add: split_beta) (metis prod.collapse)
  moreover have "gitleaks_clean w h2 ?t (in_path ?b ''1'') (i_cfg_dir c)" by (rule gitleaks_scan_clean [OF 2 st(2)])
  ultimately show ?thesis unfolding canary_seen_def by blast
qed

text \<open>The archives do not change while they are inspected.\<close>

definition archives_kept :: "host \<Rightarrow> ppath \<Rightarrow> bool" where
  "archives_kept w dir \<longleftrightarrow> (\<forall>h. \<forall>name\<in>set image_names. h_bytes w h (in_path dir (name @ ''.tar'')) = h_bytes w [] (in_path dir (name @ ''.tar'')))"

definition inspected :: "host \<Rightarrow> history \<Rightarrow> inspect_cfg \<Rightarrow> (string \<times> string) list \<Rightarrow> string \<Rightarrow> bool" where
  "inspected w h c outs name \<longleftrightarrow>
     (\<exists>bytes info. h_bytes w [] (in_path (i_out c) (name @ ''.tar'')) = Inr bytes \<and> read_archive (h_tools w) bytes = Inr info \<and>
        image_inspected w h c name info \<and>
        map_of outs (name @ ''_config'') = Some (a_config_digest info) \<and> map_of outs (name @ ''_sha256'') = Some (sha256 (h_tools w) bytes))"

lemma image_names_list: "image_names = [''api'', ''bff'', ''migrator'']"
  by (simp add: image_names_def IMAGES_def)

lemma inspect_setup_Inr:
  assumes "inspect_setup w [] = (h, Inr c)"
  shows "\<exists>ctx. release_job_context w [] = ([], Inr ctx) \<and> i_tag c = c_tag ctx \<and> out_dir w = Inr (i_out c) \<and> canary_seen w c"
proof -
  from assms obtain ctx h1 h2 u where ctx: "release_job_context w [] = ([], Inr ctx)"
    and i: "i_tag c = c_tag ctx" "out_dir w = Inr (i_out c)"
    and canary: "canary_scan w (pin_of (i_tools c) ''gitleaks'') (i_work c) (i_cfg_dir c) h1 = (h2, Inr u)"
    unfolding inspect_setup_def Let_def by (auto simp: release_job_context_def)
  from canary_scan_seen [OF canary] ctx i show ?thesis by blast
qed

definition round_inspected :: "host \<Rightarrow> history \<Rightarrow> inspect_cfg \<Rightarrow> string \<Rightarrow> string list \<times> (string \<times> string) list \<Rightarrow> bool" where
  "round_inspected w h c name r \<longleftrightarrow>
     (\<exists>bytes info. h_bytes w [] (in_path (i_out c) (name @ ''.tar'')) = Inr bytes \<and> read_archive (h_tools w) bytes = Inr info \<and>
        image_inspected w h c name info \<and>
        snd r = [(name @ ''_config'', a_config_digest info), (name @ ''_sha256'', sha256 (h_tools w) bytes)])"

lemma inspect_image_outputs:
  assumes "inspect_image w c name h1 = (h2, Inr r)" and "fst r = []" and "prefix h2 h"
    and kept: "archives_kept w (i_out c)" and "name \<in> set image_names"
  shows "round_inspected w h c name r"
proof -
  from assms(1,2) have "inspect_image w c name h1 = (h2, Inr ([], snd r))" by (metis prod.collapse)
  from inspect_image_clean [OF this] obtain bytes info bytes' h0 where
    1: "h_bytes w h1 (in_path (i_out c) (name @ ''.tar'')) = Inr bytes" "read_archive (h_tools w) bytes = Inr info"
      "image_inspected w h2 c name info" "h_bytes w h0 (in_path (i_out c) (name @ ''.tar'')) = Inr bytes'"
      "snd r = [(name @ ''_config'', a_config_digest info), (name @ ''_sha256'', sha256 (h_tools w) bytes')]"
    by (elim exE conjE) (rule that)
  from kept assms(5) have "h_bytes w h' (in_path (i_out c) (name @ ''.tar'')) = h_bytes w [] (in_path (i_out c) (name @ ''.tar''))" for h'
    unfolding archives_kept_def by blast
  from this [of h1] this [of h0] 1(1,4) have "h_bytes w [] (in_path (i_out c) (name @ ''.tar'')) = Inr bytes" "bytes' = bytes"
    by (metis sum.inject(2))+
  with 1 image_inspected_later [OF 1(3) assms(3)] show ?thesis unfolding round_inspected_def by blast
qed

lemma three_rounds:
  assumes "list_all2 P image_names rs"
  obtains r1 r2 r3 where "rs = [r1, r2, r3]" "P ''api'' r1" "P ''bff'' r2" "P ''migrator'' r3"
  using assms unfolding image_names_list list_all2_Cons1 by auto

text \<open>An inspection that succeeds: the secret scanner was seen to work, and every image had its configuration, the names in its
  layers, the secrets in its layers and configuration, and its vulnerabilities checked, with the hash of exactly that archive as output.\<close>

lemma inspect_job_inspected:
  assumes run: "cmd_inspect w [] = (h, Inr outs)" and kept: "\<And>dir. out_dir w = Inr dir \<Longrightarrow> archives_kept w dir"
  shows "\<exists>ctx c. release_job_context w [] = ([], Inr ctx) \<and> i_tag c = c_tag ctx \<and> out_dir w = Inr (i_out c) \<and> canary_seen w c \<and>
    list_all (inspected w h c outs) image_names"
proof -
  from run obtain h1 c where s: "inspect_setup w [] = (h1, Inr c)" and i: "inspect_images w c h1 = (h, Inr outs)"
    by (auto simp: cmd_inspect_def)
  from i obtain h2 rs where rs: "jmap (inspect_image w c) image_names h1 = (h2, Inr rs)"
    and spa: "inspect_spa w c h2 = (h, Inr ())" and none: "list_all (\<lambda>r. fst r = []) rs"
    and outs: "outs = (''tag'', i_tag c) # concat (map snd rs)"
    unfolding inspect_images_def Let_def by (auto simp: list_all_iff split: if_splits)
  from inspect_setup_Inr [OF s] obtain ctx where ctx: "release_job_context w [] = ([], Inr ctx)" "i_tag c = c_tag ctx" "out_dir w = Inr (i_out c)" "canary_seen w c"
    by blast
  have p: "prefix h2 h" by (rule keeps_prefixD [OF inspect_spa_extends spa])
  note k = kept [OF ctx(3)]
  have "list_all2 (\<lambda>name r. name \<in> set image_names \<longrightarrow> fst r = [] \<longrightarrow> round_inspected w h c name r) image_names rs"
    using jmap_Inr_within [OF inspect_image_extends rs]
    by (rule list_all2_mono) (blast intro: inspect_image_outputs [OF _ _ _ k] prefix_order.trans p)
  then obtain r1 r2 r3 where rs3: "rs = [r1, r2, r3]"
    and P: "round_inspected w h c ''api'' r1" "round_inspected w h c ''bff'' r2" "round_inspected w h c ''migrator'' r3"
    by (rule three_rounds) (use none in \<open>simp add: image_names_list\<close>)
  have "list_all (inspected w h c outs) image_names"
    using P by (auto simp: round_inspected_def inspected_def outs rs3 image_names_list)
  with ctx show ?thesis by blast
qed


theorem inspect_job_sound:
  assumes "cmd_inspect w [] = (h, Inr outs)" and "\<And>dir. out_dir w = Inr dir \<Longrightarrow> archives_kept w dir"
  shows "\<exists>ctx c. release_job_context w [] = ([], Inr ctx) \<and> i_tag c = c_tag ctx \<and> out_dir w = Inr (i_out c) \<and> canary_seen w c \<and>
    list_all (inspected w h c outs) image_names"
  using assms by (rule inspect_job_inspected)

lemma push_event_scanned:
  assumes "fst (cmd_push w []) = earlier @ Run [''docker'', ''push'', remote] # later"
  shows "\<exists>tag src name before. in_dir w = Inr src \<and> name \<in> set image_names \<and> remote = remote_ref name tag \<and>
    earlier = before @ [Run (load_argv src name), Run (tag_argv name tag)] \<and> scanned_archive w src tag name before"
  using push_scanned_lemma [OF assms] by blast

text \<open>
  C6: The two jobs together. When the push job gets the hashes that the inspection put out and SHA-256 tells the archives apart,
  every image that is pushed, even by a push job that fails later, was loaded from an archive with the bytes that passed the
  inspection, under the tag that was inspected.\<close>

theorem pushed_was_inspected:
  assumes insp: "cmd_inspect b [] = (h, Inr outs)" and kept: "\<And>dir. out_dir b = Inr dir \<Longrightarrow> archives_kept b dir"
    and tools: "h_tools p = h_tools b"
    and wired: "\<And>name. name \<in> set image_names \<Longrightarrow> h_env p (upper name @ ''_SHA256'') = map_of outs (name @ ''_sha256'')"
    and no_collision: "\<And>x y. sha256 (h_tools b) x = sha256 (h_tools b) y \<Longrightarrow> x = y"
    and pushed: "fst (cmd_push p []) = earlier @ Run [''docker'', ''push'', remote] # later"
  shows "\<exists>c name src before bytes info. name \<in> set image_names \<and> remote = remote_ref name (i_tag c) \<and> in_dir p = Inr src \<and>
    earlier = before @ [Run (load_argv src name), Run (tag_argv name (i_tag c))] \<and>
    h_bytes p before (in_path src (name @ ''.tar'')) = Inr bytes \<and>
    read_archive (h_tools b) bytes = Inr info \<and> image_inspected b h c name info \<and> canary_seen b c"
proof -
  from push_event_scanned [OF pushed] obtain tag src name before where
    n: "name \<in> set image_names" and src: "in_dir p = Inr src" and e: "remote = remote_ref name tag"
      "earlier = before @ [Run (load_argv src name), Run (tag_argv name tag)]" and s: "scanned_archive p src tag name before"
    by blast
  from inspect_job_inspected [OF insp kept] obtain c where cs: "canary_seen b c" and "list_all (inspected b h c outs) image_names" by blast
  with n have "inspected b h c outs name" by (simp add: list_all_iff)
  then obtain bytes info where i: "read_archive (h_tools b) bytes = Inr info" "image_inspected b h c name info"
    and o: "map_of outs (name @ ''_sha256'') = Some (sha256 (h_tools b) bytes)"
    unfolding inspected_def by blast
  from s obtain bytes' info' where s': "h_bytes p before (in_path src (name @ ''.tar'')) = Inr bytes'"
    "h_env p (upper name @ ''_SHA256'') = Some (sha256 (h_tools p) bytes')" "read_archive (h_tools p) bytes' = Inr info'"
    "a_repo_tags info' = JList [JStr (local_ref name tag)]"
    unfolding scanned_archive_def by blast
  have "sha256 (h_tools b) bytes' = sha256 (h_tools b) bytes"
    using s'(2) wired [OF n] o tools by simp
  then have eq: "bytes' = bytes" by (rule no_collision)
  with s'(3,4) i tools have "local_ref name tag = local_ref name (i_tag c)" by (simp add: image_inspected_def)
  then have "tag = i_tag c" by (simp add: local_ref_def)
  with n src e s'(1) i cs show ?thesis unfolding eq by blast
qed


section \<open>Digests and the list of images\<close>

definition is_digest_text :: "string \<Rightarrow> bool" where
  "is_digest_text s \<longleftrightarrow> (\<exists>hex. s = ''sha256:'' @ hex \<and> length hex = 64 \<and> list_all is_hex_lower hex)"

lemma rlang_SHA256_BODY: "s \<in> rlang SHA256_BODY \<longleftrightarrow> is_digest_text s"
  by (auto simp: SHA256_BODY_def is_digest_text_def list_all_iff simp del: append.simps rlit.simps)

lemma plain_SHA256_BODY [simp]: "plain SHA256_BODY"
  by (simp add: SHA256_BODY_def)

lemma matches_digest: "matches RELEASE_DIGEST_RE s \<longleftrightarrow> upto_newline is_digest_text s"
  unfolding RELEASE_DIGEST_RE_def upto_newline_def by (simp only: anchored plain_SHA256_BODY rlang_SHA256_BODY)

lemma registry_prefix: "REGISTRY @ ''/'' @ OWNER @ ''/decisya-'' = IMAGE_PREFIX"
  by code_simp

lemma image_ref_Inr:
  "image_ref name digest = Inr ref \<longleftrightarrow> upto_newline is_digest_text digest \<and> ref = IMAGE_PREFIX @ name @ ''@'' @ digest"
  unfolding image_ref_def registry_prefix [symmetric] matches_digest [symmetric]
  by (auto simp del: append.simps)

lemma hex_not_space: "is_hex_lower c \<Longrightarrow> \<not> is_space c"
  by (auto simp: is_hex_lower_def is_digit_def in_range_def is_space_def)

lemma prefix_not_space: "list_all (\<lambda>c. \<not> is_space c) IMAGE_PREFIX" "list_all (\<lambda>c. \<not> is_space c) ''@sha256:''"
  by code_simp+

lemma line_break_space: "is_line_break c \<Longrightarrow> is_space c"
  by (auto simp: is_line_break_def is_space_def in_range_def)

lemma image_ref_no_space:
  assumes "is_image_ref service s" and "service \<in> {''api'', ''bff'', ''migrator''}"
  shows "list_all (\<lambda>c. \<not> is_space c) s"
proof -
  have "list_all (\<lambda>c. \<not> is_space c) service" using assms(2) by (elim insertE) (simp_all, code_simp+)
  with assms(1) prefix_not_space show ?thesis
    by (auto simp: is_image_ref_def list_all_iff hex_not_space simp del: append.simps)
qed

lemma strip_digest:
  assumes "upto_newline is_digest_text d"
  shows "is_digest_text (strip d) \<and> (d = strip d \<or> d = strip d @ [NL])"
proof -
  have one: "strip u = u" "strip (u @ [NL]) = u" if "is_digest_text u" for u
  proof -
    have ns: "list_all (\<lambda>c. \<not> is_space c) u"
      using that prefix_not_space(2) by (auto simp: is_digest_text_def list_all_iff hex_not_space)
    show "strip u = u" using ns by (rule strip_no_space)
    have "u \<noteq> []" using that by (auto simp: is_digest_text_def)
    then have "lstrip (u @ [NL]) = u @ [NL]" using ns by (cases u) (auto simp: lstrip_def)
    moreover have "rstrip (u @ [NL]) = rstrip u" by (simp add: rstrip_def is_space_def in_range_def)
    moreover have "lstrip u = u" using ns \<open>u \<noteq> []\<close> by (cases u) (auto simp: lstrip_def)
    ultimately show "strip (u @ [NL]) = u" using \<open>strip u = u\<close> by (simp add: strip_def)
  qed
  from assms show ?thesis unfolding upto_newline_def
  proof (elim disjE exE conjE)
    assume "is_digest_text d" with one(1) [OF this] show ?thesis by simp
  next
    fix u assume "d = u @ [NL]" "is_digest_text u" with one(2) [OF this(2)] show ?thesis by simp
  qed
qed

text \<open>The lines of a published reference whose digest may end with a line feed.\<close>

definition ref_lines :: "string \<Rightarrow> string \<Rightarrow> string list" where
  "ref_lines name d = (let r = IMAGE_PREFIX @ name @ ''@'' @ strip d in if d = strip d then [r] else [r, []])"

lemma unlines_ref_lines:
  "upto_newline is_digest_text d \<Longrightarrow> unlines (ref_lines name d) = (IMAGE_PREFIX @ name @ ''@'' @ d) @ [NL]"
  using strip_digest [of d] by (auto simp: ref_lines_def unlines_def Let_def simp del: append.simps)

lemma is_image_ref_strip:
  "upto_newline is_digest_text d \<Longrightarrow> is_image_ref name (IMAGE_PREFIX @ name @ ''@'' @ strip d)"
  using strip_digest [of d] by (auto simp: is_image_ref_def is_digest_text_def)

definition images_step :: "env \<Rightarrow> string \<Rightarrow> env" where
  "images_step refs line = (case re_fullmatch IMAGE_RE (strip line) of Some c \<Rightarrow> dset refs (group_text c 1) (strip line) | None \<Rightarrow> refs)"

lemma images_step_ref:
  assumes "is_image_ref service s" and "service \<in> {''api'', ''bff'', ''migrator''}"
  shows "images_step refs s = dset refs service s"
proof -
  have st: "strip s = s" by (rule strip_no_space [OF image_ref_no_space [OF assms]])
  have "s \<in> rlang IMAGE_RE" using assms by (auto simp: rlang_IMAGE_RE)
  then obtain c where c: "re_fullmatch IMAGE_RE s = Some c" using re_fullmatch_None [OF plain_IMAGE_RE, of s] by (cases "re_fullmatch IMAGE_RE s") auto
  have "group_text c 1 = service"
    using IMAGE_RE_caps [OF c] assms by (intro is_image_ref_inj [of _ s]) auto
  with c st show ?thesis by (simp add: images_step_def)
qed

lemma images_step_empty: "images_step refs [] = refs"
proof -
  have "strip [] = []" by (simp add: strip_no_space)
  moreover have "[] \<notin> rlang IMAGE_RE" by (auto simp: rlang_IMAGE_RE is_image_ref_def IMAGE_PREFIX_def)
  then have "re_fullmatch IMAGE_RE [] = None" using re_fullmatch_None [OF plain_IMAGE_RE] by blast
  ultimately show ?thesis unfolding images_step_def by (simp only: option.case)
qed

lemma ref_lines_cases:
  "ref_lines name d = [IMAGE_PREFIX @ name @ ''@'' @ strip d] \<or> ref_lines name d = [IMAGE_PREFIX @ name @ ''@'' @ strip d, []]"
  unfolding ref_lines_def Let_def by meson

lemma images_step_lines:
  assumes "upto_newline is_digest_text d" and "name \<in> {''api'', ''bff'', ''migrator''}"
  shows "foldl images_step refs (ref_lines name d) = dset refs name (IMAGE_PREFIX @ name @ ''@'' @ strip d)"
  using ref_lines_cases [of name d] images_step_ref [OF is_image_ref_strip [OF assms(1)] assms(2), of refs]
  by (elim disjE) (simp_all only: foldl.simps images_step_empty)

lemma ref_lines_no_break:
  assumes "upto_newline is_digest_text d" and "name \<in> {''api'', ''bff'', ''migrator''}"
  shows "\<forall>l\<in>set (ref_lines name d). \<forall>c\<in>set l. \<not> is_line_break c"
proof -
  have r: "\<forall>c\<in>set (IMAGE_PREFIX @ name @ ''@'' @ strip d). \<not> is_line_break c"
    using image_ref_no_space [OF is_image_ref_strip [OF assms(1)] assms(2)] line_break_space unfolding list_all_iff by blast
  then show ?thesis using ref_lines_cases [of name d] by (elim disjE) (simp_all only: list.set ball_simps ball_empty)
qed

lemma parse_images_text:
  assumes "upto_newline is_digest_text a" "upto_newline is_digest_text b" "upto_newline is_digest_text m"
  shows "parse_images_txt (join [NL] [IMAGE_PREFIX @ ''api'' @ ''@'' @ a, IMAGE_PREFIX @ ''bff'' @ ''@'' @ b, IMAGE_PREFIX @ ''migrator'' @ ''@'' @ m] @ [NL])
    = [(''api'', IMAGE_PREFIX @ ''api'' @ ''@'' @ strip a), (''bff'', IMAGE_PREFIX @ ''bff'' @ ''@'' @ strip b), (''migrator'', IMAGE_PREFIX @ ''migrator'' @ ''@'' @ strip m)]"
    (is "parse_images_txt ?t = ?r")
proof -
  let ?ls = "ref_lines ''api'' a @ ref_lines ''bff'' b @ ref_lines ''migrator'' m"
  have t: "?t = unlines ?ls"
    using unlines_ref_lines [OF assms(1), of "''api''"] unlines_ref_lines [OF assms(2), of "''bff''"] unlines_ref_lines [OF assms(3), of "''migrator''"]
    unfolding unlines_def by simp
  have "splitlines (unlines ?ls) = ?ls"
    using ref_lines_no_break [OF assms(1), of "''api''"] ref_lines_no_break [OF assms(2), of "''bff''"] ref_lines_no_break [OF assms(3), of "''migrator''"]
    by (intro splitlines_unlines) auto
  then show ?thesis
    unfolding parse_images_txt_def images_step_def [symmetric] t
    by (simp add: images_step_lines assms del: append.simps)
qed


lemma assets_upload_extends: "keeps (prefix h0) (assets_upload w src sha tag ls)"
  unfolding assets_upload_def asset_sum_def Let_def by (intro keeps_all)

lemma asset_lines_Inr:
  assumes "jmap (asset_line w sha) image_names h = (h', Inr ls)"
  shows "h' = h \<and> (\<exists>a b m. h_env w ''API_DIGEST'' = Some a \<and> h_env w ''BFF_DIGEST'' = Some b \<and> h_env w ''MIGRATOR_DIGEST'' = Some m \<and>
    upto_newline is_digest_text a \<and> upto_newline is_digest_text b \<and> upto_newline is_digest_text m \<and>
    map fst ls = [IMAGE_PREFIX @ ''api'' @ ''@'' @ a, IMAGE_PREFIX @ ''bff'' @ ''@'' @ b, IMAGE_PREFIX @ ''migrator'' @ ''@'' @ m])"
proof -
  have one: "h2 = h1 \<and> (\<exists>d. h_env w (upper name @ ''_DIGEST'') = Some d \<and> upto_newline is_digest_text d \<and> fst l = IMAGE_PREFIX @ name @ ''@'' @ d)"
    if "asset_line w sha name h1 = (h2, Inr l)" for name h1 h2 l
  proof -
    from that obtain d r t where "digest_env w name ''DIGEST'' RELEASE_DIGEST_RE = Inr d" and r: "image_ref name d = Inr r" and "l = (r, t)" and "h2 = h1"
      by (auto simp: asset_line_def consumer_command_def)
    moreover from digest_env_Inr(2) [OF this(1)] have "h_env w (upper name @ ''_DIGEST'') = Some d" by simp
    ultimately show ?thesis using r by (auto simp: image_ref_Inr simp del: append.simps)
  qed
  have up: "upper ''api'' = ''API''" "upper ''bff'' = ''BFF''" "upper ''migrator'' = ''MIGRATOR''" by code_simp+
  from assms obtain h1 h2 l1 l2 l3 where l: "asset_line w sha ''api'' h = (h1, Inr l1)" "asset_line w sha ''bff'' h1 = (h2, Inr l2)"
    "asset_line w sha ''migrator'' h2 = (h', Inr l3)" "ls = [l1, l2, l3]"
    unfolding image_names_list by auto
  show ?thesis using one [OF l(1)] one [OF l(2)] one [OF l(3)] unfolding up l(4) by (auto simp del: append.simps) (simp_all)
qed

text \<open>
  C33: The list of images that a release publishes is read back by the deployment's own parser as exactly the three images, each
  under the digest that the push job handed on.\<close>

theorem images_txt_roundtrip:
  assumes "cmd_assets w [] = (h, Inr outs)"
  shows "\<exists>src text a b m. in_dir w = Inr src \<and> Write (in_path src ''images.txt'') text \<in> set h \<and>
    h_env w ''API_DIGEST'' = Some a \<and> h_env w ''BFF_DIGEST'' = Some b \<and> h_env w ''MIGRATOR_DIGEST'' = Some m \<and>
    parse_images_txt text = [(''api'', IMAGE_PREFIX @ ''api@'' @ strip a), (''bff'', IMAGE_PREFIX @ ''bff@'' @ strip b), (''migrator'', IMAGE_PREFIX @ ''migrator@'' @ strip m)]"
proof -
  from assms obtain event sha tag src ls h1 where src: "in_dir w = Inr src"
    and ls: "jmap (asset_line w sha) image_names [] = (h1, Inr ls)"
    and rest: "jbind (jdo (Write (in_path src ''images.txt'') (join [NL] (map fst ls) @ [NL]))) (\<lambda>u. assets_upload w src sha tag (map snd ls)) h1 = (h, Inr outs)"
    by (auto simp: cmd_assets_def split: if_splits)
  have "assets_upload w src sha tag (map snd ls) (h1 @ [Write (in_path src ''images.txt'') (join [NL] (map fst ls) @ [NL])]) = (h, Inr outs)"
    using rest by simp
  from keeps_prefixD [OF assets_upload_extends this] have "Write (in_path src ''images.txt'') (join [NL] (map fst ls) @ [NL]) \<in> set h"
    by (auto simp: prefix_def)
  moreover from asset_lines_Inr [OF ls] obtain a b m where e: "h_env w ''API_DIGEST'' = Some a" "h_env w ''BFF_DIGEST'' = Some b" "h_env w ''MIGRATOR_DIGEST'' = Some m"
    and d: "upto_newline is_digest_text a" "upto_newline is_digest_text b" "upto_newline is_digest_text m"
    and f: "map fst ls = [IMAGE_PREFIX @ ''api'' @ ''@'' @ a, IMAGE_PREFIX @ ''bff'' @ ''@'' @ b, IMAGE_PREFIX @ ''migrator'' @ ''@'' @ m]"
    by (elim conjE exE) (rule that)
  ultimately show ?thesis using parse_images_text [OF d] src e unfolding f by auto
qed


section \<open>Outputs\<close>

lemma matches_output_key: "matches OUTPUT_KEY_RE s \<longleftrightarrow> upto_newline (\<lambda>u. u \<noteq> [] \<and> list_all is_output_key_char u) s"
proof -
  have "plain (rplus (RSet is_output_key_char))" by (simp add: rplus_def)
  moreover have "u \<in> rlang (rplus (RSet is_output_key_char)) \<longleftrightarrow> u \<noteq> [] \<and> list_all is_output_key_char u" for u
    by (auto simp: rlang_rplus_RSet list_all_iff)
  ultimately show ?thesis unfolding OUTPUT_KEY_RE_def upto_newline_def by (simp only: anchored)
qed

lemma matches_output_value: "matches OUTPUT_VALUE_RE s \<longleftrightarrow> upto_newline (list_all is_output_value_char) s"
  unfolding OUTPUT_VALUE_RE_def upto_newline_def by (simp only: anchored plain.simps) (auto simp: list_all_iff)

definition output_ok :: "string \<times> string \<Rightarrow> bool" where
  "output_ok kv \<longleftrightarrow> upto_newline (\<lambda>u. u \<noteq> [] \<and> list_all is_output_key_char u) (fst kv) \<and> upto_newline (list_all is_output_value_char) (snd kv)"

definition output_line :: "string \<times> string \<Rightarrow> string" where
  "output_line kv = fst kv @ ''='' @ snd kv @ [NL]"

lemma output_ok_iff: "output_ok (k, v) \<longleftrightarrow> matches OUTPUT_KEY_RE k \<and> matches OUTPUT_VALUE_RE v"
  by (simp only: output_ok_def matches_output_key matches_output_value fst_conv snd_conv)

lemma output_lines_takeWhile:
  "output_lines kvs = (map output_line (takeWhile output_ok kvs),
     case dropWhile output_ok kvs of [] \<Rightarrow> Inr () | kv # rest \<Rightarrow> Inl (fmt ''refusing to write output %s: unexpected characters'' [repr_str (fst kv)]))"
proof (induction kvs)
  case (Cons kv kvs)
  then show ?case by (cases kv) (auto simp: output_ok_iff output_line_def simp del: fmt.simps)
qed simp

section \<open>Names in archives\<close>

text \<open>The loop of \<^verbatim>\<open>normalize\<close> as it is written.\<close>

definition lead_loop :: "string \<Rightarrow> string option" where
  "lead_loop = while_option (\<lambda>n. py_startswith n ''./'' \<or> py_startswith n ''/'')
     (\<lambda>n. if py_startswith n ''./'' then drop 2 n else drop 1 n)"

lemma lead_loop_strip_lead: "lead_loop n = Some (strip_lead n)"
proof (induction n rule: strip_lead.induct)
  case (1 n)
  show ?case
    unfolding lead_loop_def
    by (subst while_option_unfold, subst strip_lead.simps) (use 1 in \<open>auto simp: lead_loop_def\<close>)
qed

lemma strip_lead_step:
  "py_startswith n ''./'' \<Longrightarrow> strip_lead n = strip_lead (drop 2 n)"
  "\<not> py_startswith n ''./'' \<Longrightarrow> py_startswith n ''/'' \<Longrightarrow> strip_lead n = strip_lead (drop 1 n)"
  "\<not> py_startswith n ''./'' \<Longrightarrow> \<not> py_startswith n ''/'' \<Longrightarrow> strip_lead n = n"
  by (subst strip_lead.simps, simp)+

lemma strip_lead_clean: "\<not> py_startswith (strip_lead n) ''./'' \<and> \<not> py_startswith (strip_lead n) ''/'' \<and> suffix (strip_lead n) n"
proof (induction n rule: strip_lead.induct)
  case (1 n)
  have s: "suffix (drop k n) n" for k by (rule suffix_drop)
  consider "py_startswith n ''./''" | "\<not> py_startswith n ''./''" "py_startswith n ''/''" | "\<not> py_startswith n ''./''" "\<not> py_startswith n ''/''"
    by blast
  then show ?case
  proof cases
    case a: 1
    from 1(1) [OF a] show ?thesis unfolding strip_lead_step(1) [OF a] using s suffix_order.trans by blast
  next
    case a: 2
    from 1(2) [OF a] show ?thesis unfolding strip_lead_step(2) [OF a] using s suffix_order.trans by blast
  next
    case a: 3
    then show ?thesis unfolding strip_lead_step(3) [OF a] by simp
  qed
qed


lemma replace_backslash: "CHR 0x5C \<notin> set (replace_all [CHR 0x5C] ''/'' s)"
proof (induction s rule: measure_induct_rule [of length])
  case (less s)
  show ?case
  proof (cases "CHR 0x5C \<in> set s")
    case True
    then obtain a b where s: "s = a @ CHR 0x5C # b" "CHR 0x5C \<notin> set a" by (auto dest: split_list_first)
    obtain c cs where cs: "split_on [CHR 0x5C] b = c # cs" by (cases "split_on [CHR 0x5C] b") auto
    have "CHR 0x5C \<notin> set (replace_all [CHR 0x5C] ''/'' b)" by (rule less.IH) (simp add: s)
    with s cs show ?thesis by (simp add: replace_all_def split_on_char)
  qed (simp add: replace_all_def split_on_not_in)
qed

lemma normalize_name_idem: "normalize_name (normalize_name n) = normalize_name n"
proof -
  note c = strip_lead_clean [of "replace_all [CHR 0x5C] ''/'' n"]
  have "CHR 0x5C \<notin> set (normalize_name n)"
    using c replace_backslash [of n] unfolding normalize_name_def by (meson set_mono_suffix subsetD)
  then have "replace_all [CHR 0x5C] ''/'' (normalize_name n) = normalize_name n" by (simp add: replace_all_def split_on_not_in)
  with c show ?thesis unfolding normalize_name_def by (metis strip_lead_step(3))
qed

text \<open>
  The loop that strips leading slashes and dots from an archive name ends on every name; what is left has no backslash, does not
  start with a slash or with a dot and a slash, and normalizing it again changes nothing.\<close>

theorem normalize_terminates:
  "lead_loop (replace_all [CHR 0x5C] ''/'' n) = Some (normalize_name n) \<and> CHR 0x5C \<notin> set (normalize_name n) \<and>
   \<not> py_startswith (normalize_name n) ''/'' \<and> \<not> py_startswith (normalize_name n) ''./'' \<and>
   normalize_name (normalize_name n) = normalize_name n"
proof -
  note c = strip_lead_clean [of "replace_all [CHR 0x5C] ''/'' n"]
  have "CHR 0x5C \<notin> set (normalize_name n)"
    using c replace_backslash [of n] unfolding normalize_name_def by (meson set_mono_suffix subsetD)
  with c lead_loop_strip_lead normalize_name_idem show ?thesis by (simp add: normalize_name_def)
qed

text \<open>What is appended to the output file: the pairs before the first key or value with a character outside the allowed sets,
  one line each. The first such pair fails the job.\<close>

theorem write_outputs_exact:
  assumes "env ''GITHUB_OUTPUT'' = Some file" and "file \<noteq> []"
  shows "write_outputs env kvs = (map output_line (takeWhile output_ok kvs),
     case dropWhile output_ok kvs of [] \<Rightarrow> Inr () | kv # rest \<Rightarrow> Inl (fmt ''refusing to write output %s: unexpected characters'' [repr_str (fst kv)]))"
  using assms by (cases kvs) (simp_all add: write_outputs_def output_lines_takeWhile)


section \<open>Pins\<close>

definition pin_ok :: "string list \<Rightarrow> string \<times> string \<Rightarrow> bool" where
  "pin_ok aliases p \<longleftrightarrow> fst p \<in> set aliases \<and> matches RELEASE_REF_RE (snd p) \<and> \<not> searches ZERO_DIGEST_RE (snd p)"

definition pins_wf :: "string list \<Rightarrow> (string \<times> string) list \<Rightarrow> bool" where
  "pins_wf aliases refs \<longleftrightarrow> distinct (dkeys refs) \<and> list_all (pin_ok aliases) refs"

lemma pin_line_wf:
  assumes "pin_line file aliases refs l = Inr refs'" and "pins_wf aliases refs"
  shows "pins_wf aliases refs'"
proof -
  obtain n raw where l: "l = (n, raw)" by (cases l)
  from assms(1) have "refs' = refs \<or> (\<exists>al ref. al \<in> set aliases \<and> \<not> dhas refs al \<and> matches RELEASE_REF_RE ref \<and> \<not> searches ZERO_DIGEST_RE ref \<and> refs' = dset refs al ref)"
    unfolding pin_line_def l Let_def by (simp split: if_split_asm option.split_asm) blast+
  then show ?thesis
    using assms(2) by (auto simp: pins_wf_def pin_ok_def dset_absent dkeys_def dhas_def)
qed

lemma sfold_inv: "(\<And>s x s'. P s \<Longrightarrow> f s x = Inr s' \<Longrightarrow> P s') \<Longrightarrow> P s \<Longrightarrow> sfold f s xs = Inr s' \<Longrightarrow> P s'"
  by (induction xs arbitrary: s) auto

text \<open>
  A pin file that is accepted gives every alias exactly one reference, and every reference names a tag and a digest that is not
  the all-zero placeholder.\<close>

theorem parse_pins_wf:
  assumes "parse_pins file text aliases = Inr refs"
  shows "pins_wf aliases refs \<and> set (dkeys refs) = set aliases"
proof -
  from assms have f: "sfold (pin_line file aliases) [] (enumerate 1 (splitlines text)) = Inr refs" and s: "same_set (dkeys refs) aliases"
    by (auto simp: parse_pins_def split: if_splits)
  have "pins_wf aliases refs"
    using sfold_inv [where P = "pins_wf aliases", OF pin_line_wf _ f] by (simp add: pins_wf_def dkeys_def)
  with s show ?thesis by (simp add: same_set_def)
qed


section \<open>Context\<close>

lemma env_required_some: "env_required env n p = Inr v \<Longrightarrow> \<not> matches p [] \<Longrightarrow> env n = Some v \<and> matches p v"
  by (auto dest!: env_required_Inr)

lemma no_empty_context: "\<not> matches SHA40_RE []" "\<not> matches VERSION_RE []" "\<not> matches VTAG_RE []"
  "\<not> matches (EVENT_RE [''push'', ''workflow_dispatch'', ''pull_request'']) []"
  by code_simp+

lemma push_context_Inr:
  assumes "push_context env manifest event sha = Inr ctx"
  shows "c_event ctx = event \<and> env ''RP_RELEASE_CREATED'' = Some ''true'' \<and> env_required env ''RP_SHA'' SHA40_RE = Inr (c_sha ctx) \<and>
    env_required env ''RP_VERSION'' VERSION_RE = Inr (c_version ctx) \<and> env_required env ''RP_TAG'' VTAG_RE = Inr (''v'' @ c_version ctx) \<and>
    (\<exists>d. manifest = Inr (JObj d) \<and> dget d ''.'' = JStr (c_version ctx)) \<and> c_sha ctx = sha \<and> c_tag ctx = c_version ctx"
  using assms unfolding push_context_def
  by (clarsimp split: if_split_asm) (auto split: sum.split_asm json.split_asm if_split_asm)

text \<open>
  A release build is of the pushed commit, and release-please, the tag and the manifest in the checked-out tree agree on its
  version.\<close>

theorem release_context_push:
  assumes "release_context env manifest = Inr ctx" and "c_event ctx = ''push''"
  shows "env ''RELEASE_EVENT'' = Some ''push'' \<and> env ''RELEASE_SHA'' = Some (c_sha ctx) \<and> env ''RP_SHA'' = Some (c_sha ctx) \<and> env ''RP_RELEASE_CREATED'' = Some ''true'' \<and>
    env ''RP_VERSION'' = Some (c_version ctx) \<and> env ''RP_TAG'' = Some (''v'' @ c_version ctx) \<and> c_tag ctx = c_version ctx \<and>
    (\<exists>d. manifest = Inr (JObj d) \<and> dget d ''.'' = JStr (c_version ctx)) \<and>
    (env ''GITHUB_REPOSITORY'' = None \<or> env ''GITHUB_REPOSITORY'' = Some ''mpcs2013/decisya'')"
proof -
  from assms(1) obtain event sha u where
    e: "env_required env ''RELEASE_EVENT'' (EVENT_RE [''push'', ''workflow_dispatch'', ''pull_request'']) = Inr event"
    and s: "env_required env ''RELEASE_SHA'' SHA40_RE = Inr sha" and r: "check_repository env = Inr u"
    and c: "(if event = ''push'' then push_context env manifest event sha
       else if event = ''workflow_dispatch'' then
         (let short = take 12 sha
          in Inr \<lparr> c_event = event, c_sha = sha, c_version = ''0.0.0-sha.'' @ short, c_tag = ''sha-'' @ short, c_release_tag = [] \<rparr>)
       else Inr \<lparr> c_event = event, c_sha = sha, c_version = ''0.0.0-pr'', c_tag = ''pr-build'', c_release_tag = [] \<rparr>) = Inr ctx"
    unfolding release_context_def sbind_Inr by (elim exE conjE) (rule that)
  from c assms(2) have p: "event = ''push''" by (auto simp: Let_def split: if_split_asm dest: push_context_Inr)
  with c have "push_context env manifest event sha = Inr ctx" by simp
  note pc = push_context_Inr [OF this]
  moreover have "env ''GITHUB_REPOSITORY'' = None \<or> env ''GITHUB_REPOSITORY'' = Some ''mpcs2013/decisya''"
    using r by (auto simp: check_repository_def REPO_def split: option.splits if_splits)
  moreover have "env ''RELEASE_EVENT'' = Some ''push''" using env_required_some [OF e] no_empty_context p by simp
  moreover have "env ''RELEASE_SHA'' = Some sha" using env_required_some [OF s] no_empty_context by simp
  moreover have "env ''RP_SHA'' = Some sha" "env ''RP_VERSION'' = Some (c_version ctx)" "env ''RP_TAG'' = Some (''v'' @ c_version ctx)"
    using pc no_empty_context by (metis env_required_some)+
  ultimately show ?thesis using pc by simp
qed


section \<open>A push that nothing hinders completes\<close>

lemma jmap_total:
  "(\<And>x h. x \<in> set xs \<Longrightarrow> f x h = (h @ ev x, Inr (g x))) \<Longrightarrow> jmap f xs h = (h @ concat (map ev xs), Inr (map g xs))"
  by (induction xs arbitrary: h) (simp_all add: jbind_def jret_def)

text \<open>Docker answers every step on an image, and the registry holds the pushed configuration.\<close>

definition docker_serves :: "host \<Rightarrow> ppath \<Rightarrow> string \<Rightarrow> (string \<Rightarrow> string) \<Rightarrow> string \<Rightarrow> bool" where
  "docker_serves w src tag dig name \<longleftrightarrow>
     (\<forall>h. (\<exists>out err. h_exec w h (load_argv src name) = Some (0, out, err)) \<and>
          (\<exists>out err. h_exec w h (tag_argv name tag) = Some (0, out, err)) \<and>
          (\<exists>out err c. h_exec w h (push_argv name tag) = Some (0, out, err) \<and> re_search PUSHED_RE out = Some c \<and> group_text c 1 = dig name) \<and>
          (\<exists>ref out err config. image_ref name (dig name) = Inr ref \<and> h_exec w h [''docker'', ''manifest'', ''inspect'', ref] = Some (0, out, err) \<and>
             h_env w (upper name @ ''_CONFIG'') = Some config \<and> pushed_config (json_loads (h_tools w) out) = JStr config))"

definition push_events :: "ppath \<Rightarrow> string \<Rightarrow> (string \<Rightarrow> string) \<Rightarrow> string \<Rightarrow> history" where
  "push_events src tag dig name =
     [Run (load_argv src name), Run (tag_argv name tag), Run (push_argv name tag),
      Run [''docker'', ''manifest'', ''inspect'', IMAGE_PREFIX @ name @ ''@'' @ dig name]]"

lemma push_image_completes:
  assumes "docker_serves w src tag dig name" and "\<And>h. \<exists>info. checked_archive w src tag name h = Inr info"
  shows "push_image w src tag name h = (h @ push_events src tag dig name, Inr (name @ ''_digest'', dig name))"
proof -
  from assms(2) obtain info where info: "checked_archive w src tag name h = Inr info" by blast
  note cfg = checked_archive_config [OF info]
  obtain o1 e1 where 1: "h_exec w h (load_argv src name) = Some (0, o1, e1)" using assms(1) unfolding docker_serves_def by blast
  let ?h1 = "h @ [Run (load_argv src name)]"
  obtain o2 e2 where 2: "h_exec w ?h1 (tag_argv name tag) = Some (0, o2, e2)" using assms(1) unfolding docker_serves_def by blast
  let ?h2 = "?h1 @ [Run (tag_argv name tag)]"
  obtain o3 e3 c where 3: "h_exec w ?h2 (push_argv name tag) = Some (0, o3, e3)" "re_search PUSHED_RE o3 = Some c" "group_text c 1 = dig name"
    using assms(1) unfolding docker_serves_def by blast
  let ?h3 = "?h2 @ [Run (push_argv name tag)]"
  obtain ref o4 e4 where 4: "image_ref name (dig name) = Inr ref" "h_exec w ?h3 [''docker'', ''manifest'', ''inspect'', ref] = Some (0, o4, e4)"
    "pushed_config (json_loads (h_tools w) o4) = JStr (a_config_digest info)"
  proof -
    from assms(1) have "\<exists>ref out err config. image_ref name (dig name) = Inr ref \<and> h_exec w ?h3 [''docker'', ''manifest'', ''inspect'', ref] = Some (0, out, err) \<and>
        h_env w (upper name @ ''_CONFIG'') = Some config \<and> pushed_config (json_loads (h_tools w) out) = JStr config"
      unfolding docker_serves_def by blast
    with cfg show thesis by (elim exE conjE) (rule that, simp_all)
  qed
  from 4(1) have ref: "ref = IMAGE_PREFIX @ name @ ''@'' @ dig name" by (simp only: image_ref_Inr)
  show ?thesis
    unfolding push_image_def push_events_def Let_def
    using 1 2 3 4(1,2,3) info ref by (simp del: append.simps)
qed

text \<open>
  C8: When all three archives pass the checks and docker and the registry answer, the push job ends: it has done the four steps for
  every image in order, and hands on the digest of each.\<close>

theorem push_completes:
  assumes "publish_context (h_env w) = Inr (event, sha, tag)" and "in_dir w = Inr src"
    and "\<And>name h. name \<in> set image_names \<Longrightarrow> \<exists>info. checked_archive w src tag name h = Inr info"
    and "\<And>name. name \<in> set image_names \<Longrightarrow> docker_serves w src tag dig name"
  shows "cmd_push w [] = (concat (map (push_events src tag dig) image_names), Inr (map (\<lambda>name. (name @ ''_digest'', dig name)) image_names))"
proof -
  have "jmap (push_image w src tag) image_names [] = ([] @ concat (map (push_events src tag dig) image_names), Inr (map (\<lambda>name. (name @ ''_digest'', dig name)) image_names))"
    by (rule jmap_total) (rule push_image_completes, rule assms, assumption, rule assms)
  with assms(1,2) show ?thesis by (simp add: cmd_push_def jbind_def jlift_def)
qed

end
