(* ===== verification/Release_Runs.thy ===== *)
theory Release_Runs
  imports Release_Guarantees
begin

text \<open>
  Complete runs of the release jobs on a small host, and the guarantees of Release_Guarantees applied to them.
\<close>



section \<open>A run\<close>

text \<open>A host on which all jobs of a dry run succeed. Hashing is the identity, so the archives and configurations are texts of 64
  hexadecimal digits.\<close>

definition run_sha :: string where
  "run_sha = replicate 40 (CHR ''a'')"

definition run_archive :: "string \<Rightarrow> string" where
  "run_archive name = (if name = ''api'' then replicate 64 (CHR ''1'') else if name = ''bff'' then replicate 64 (CHR ''2'') else replicate 64 (CHR ''3''))"

definition run_config :: string where
  "run_config = replicate 64 (CHR ''c'')"

definition run_digest :: string where
  "run_digest = ''sha256:'' @ replicate 64 (CHR ''d'')"

definition run_environ :: environ where
  "run_environ = map_of [(''RELEASE_EVENT'', ''workflow_dispatch''), (''RELEASE_SHA'', run_sha), (''RELEASE_TAG'', ''sha-aaaaaaaaaaaa''),
     (''RUNNER_TEMP'', ''/tmp''), (''DOCKER_CONFIG'', ''/cfg''), (''GITHUB_OUTPUT'', ''/out''),
     (''API_SHA256'', run_archive ''api''), (''BFF_SHA256'', run_archive ''bff''), (''MIGRATOR_SHA256'', run_archive ''migrator''),
     (''API_CONFIG'', ''sha256:'' @ run_config), (''BFF_CONFIG'', ''sha256:'' @ run_config), (''MIGRATOR_CONFIG'', ''sha256:'' @ run_config),
     (''API_DIGEST'', run_digest), (''BFF_DIGEST'', run_digest), (''MIGRATOR_DIGEST'', run_digest)]"

definition run_tar_name :: "string \<Rightarrow> string" where
  "run_tar_name bytes = (if bytes = run_archive ''api'' then ''api'' else if bytes = run_archive ''bff'' then ''bff'' else ''migrator'')"

definition run_json :: "string \<Rightarrow> string + json" where
  "run_json t =
     (if t = run_config then
        Inr (JObj [(''os'', JStr ''linux''), (''architecture'', JStr ''amd64''),
          (''config'', JObj [(''User'', JStr ''1654''), (''Env'', JList [JStr ''PATH=/bin'']), (''Entrypoint'', JList [JStr ''dotnet'', JStr ''/app/A.dll''])])])
      else if t = ''leak'' then Inr (JList [JObj [(''RuleID'', JStr ''r''), (''File'', JStr ''app/canary-token.txt'')]])
      else if t = ''grype'' then
        Inr (JObj [(''matches'', JList []), (''source'', JObj [(''type'', JStr ''image''), (''target'', JObj [(''layers'', JList [JNull])])]),
          (''distro'', JObj [(''name'', JStr ''ubuntu'')]), (''descriptor'', JObj [(''db'', JObj [(''built'', JStr ''now'')])])])
      else if t = ''sbom'' then Inr (JObj [(''bomFormat'', JStr ''CycloneDX''), (''components'', JList [JNull])])
      else if t = ''manifest'' then Inr (JObj [(''config'', JObj [(''digest'', JStr (''sha256:'' @ run_config))])])
      else if t = ''exceptions'' then Inr (JObj [(''exceptions'', JList [])])
      else if t \<in> {''api'', ''bff'', ''migrator''} then
        Inr (JList [JObj [(''Config'', JStr ''config.json''), (''RepoTags'', JList [JStr (local_ref t ''sha-aaaaaaaaaaaa'')]), (''Layers'', JList [JStr ''layer.tar''])]])
      else Inl ''no JSON'')"

definition run_tools :: tools where
  "run_tools = \<lparr> sha256 = (\<lambda>b. b), json_loads = run_json,
     untar = (\<lambda>b. Inr [\<lparr> m_name = ''manifest.json'', m_isreg = True, m_data = Some (run_tar_name b) \<rparr>,
       \<lparr> m_name = ''config.json'', m_isreg = True, m_data = Some run_config \<rparr>, \<lparr> m_name = ''layer.tar'', m_isreg = True, m_data = Some ''layer'' \<rparr>]),
     layer_tar = (\<lambda>b. ([\<lparr> u_name = ''app/wwwroot/index.html'', u_linkname = [], u_sym = False, u_lnk = False, u_filtered = None \<rparr>], None)),
     tar_write = (\<lambda>fs. ''tar'') \<rparr>"

definition run_exec :: "history \<Rightarrow> string list \<Rightarrow> (int \<times> string \<times> string) option" where
  "run_exec h argv =
     (if ''/tmp/release/canary/0:/scan:ro'' \<in> set argv then Some (1, ''leak'', [])
      else if ''push'' \<in> set argv \<and> length argv = 3 then Some (0, ''digest: '' @ run_digest @ '' size: 1'', [])
      else if ''manifest'' \<in> set argv then Some (0, ''manifest'', [])
      else if ''json'' \<in> set argv \<and> ''-o'' \<in> set argv then Some (0, ''grype'', [])
      else if last argv = digest_only (''mcr.microsoft.com/a:1@'' @ run_digest) then Some (1, [], ''no signatures found'')
      else if IDENTITY_CI \<in> set argv \<or> ''push'' \<in> set argv then Some (1, [], ''none of the expected identities matched'')
      else Some (0, [], []))"

definition run_texts :: "string \<Rightarrow> string + string" where
  "run_texts f =
     (if f = ''/repo/.github/release/tools.Dockerfile'' then
        Inr (unlines (map (\<lambda>al. ''FROM ghcr.io/t/'' @ al @ '':1@'' @ run_digest @ '' AS '' @ al) TOOL_ALIASES))
      else if f = ''/repo/.github/release/base-images.Dockerfile'' then
        Inr (unlines (map (\<lambda>al. ''FROM mcr.microsoft.com/a:1@'' @ run_digest @ '' AS '' @ al) BASE_ALIASES))
      else if f = ''/repo/.github/image-scan/Dockerfile'' then Inr (''FROM ghcr.io/g:1@'' @ run_digest @ '' AS grype'' @ [NL])
      else if f = ''/repo/.github/image-scan/exceptions.json'' then Inr ''exceptions''
      else if suffix ''.cdx.json'' f then Inr ''sbom''
      else Inl ''missing'')"

definition run_bytes :: "string \<Rightarrow> string + string" where
  "run_bytes f =
     (if suffix ''api.tar'' f then Inr (run_archive ''api'') else if suffix ''bff.tar'' f then Inr (run_archive ''bff'')
      else if suffix ''migrator.tar'' f then Inr (run_archive ''migrator'') else Inr [])"

definition run_host :: host where
  "run_host = \<lparr> h_env = run_environ, h_root = ''/repo'', h_tools = run_tools, h_uid = ''1000'', h_gid = ''1000'', h_today = 0,
     h_token = [], h_is_file = (\<lambda>h f. True), h_is_symlink = (\<lambda>h f. False), h_is_dir = (\<lambda>h f. True), h_exists = (\<lambda>h f. False),
     h_bytes = (\<lambda>h. run_bytes), h_text = (\<lambda>h. run_texts),
     h_glob_sboms = (\<lambda>h d. [''a.cdx.json'', ''b.cdx.json'', ''c.cdx.json'', ''d.cdx.json'']), h_exec = run_exec \<rparr>"

definition run_push_events :: history where
  "run_push_events = concat (map (\<lambda>n. [Run [''docker'', ''load'', ''-i'', ''/tmp/release-in/'' @ n @ ''.tar''],
     Run [''docker'', ''tag'', local_ref n ''sha-aaaaaaaaaaaa'', remote_ref n ''sha-aaaaaaaaaaaa''],
     Run [''docker'', ''push'', remote_ref n ''sha-aaaaaaaaaaaa''],
     Run [''docker'', ''manifest'', ''inspect'', ''ghcr.io/mpcs2013/decisya-'' @ n @ ''@'' @ run_digest]]) image_names)"

lemma run_push: "cmd_push run_host [] = (run_push_events, Inr (map (\<lambda>n. (n @ ''_digest'', run_digest)) image_names))"
  by code_simp

lemma run_push_at: "run_push_events = take 2 run_push_events @ Run [''docker'', ''push'', ''ghcr.io/mpcs2013/decisya-api:sha-aaaaaaaaaaaa''] # drop 3 run_push_events"
  by code_simp

lemma run_inspect:
  "snd (cmd_inspect run_host []) = Inr ((''tag'', ''sha-aaaaaaaaaaaa'') # concat (map (\<lambda>n. [(n @ ''_config'', ''sha256:'' @ run_config), (n @ ''_sha256'', run_archive n)]) image_names))"
  by code_simp

lemma run_verify: "snd (cmd_verify run_host []) = Inr []"
  by code_simp

lemma run_out_dir: "out_dir run_host = Inr (''/'', [''tmp'', ''release'', ''out''])"
  by code_simp

lemma run_kept: "archives_kept run_host dir"
  by (simp add: archives_kept_def run_host_def)

lemma run_context: "publish_context (h_env run_host) = Inr (''workflow_dispatch'', run_sha, ''sha-aaaaaaaaaaaa'')"
  by code_simp

theorem push_only_scanned_witness:
  "\<exists>src name before. in_dir run_host = Inr src \<and> name \<in> set image_names \<and>
     ''ghcr.io/mpcs2013/decisya-api:sha-aaaaaaaaaaaa'' = remote_ref name ''sha-aaaaaaaaaaaa'' \<and>
     take 2 run_push_events = before @ [Run (load_argv src name), Run (tag_argv name ''sha-aaaaaaaaaaaa'')] \<and>
     scanned_archive run_host src ''sha-aaaaaaaaaaaa'' name before"
proof -
  have "fst (cmd_push run_host []) = take 2 run_push_events @ Run [''docker'', ''push'', ''ghcr.io/mpcs2013/decisya-api:sha-aaaaaaaaaaaa''] # drop 3 run_push_events"
    unfolding run_push fst_conv by (rule run_push_at)
  from push_only_scanned [OF this] show ?thesis unfolding run_context sum.inject prod.inject by blast
qed

theorem push_confirmed_witness:
  "\<exists>src. in_dir run_host = Inr src \<and> confirmed_push run_host src ''sha-aaaaaaaaaaaa'' run_push_events ''api'' run_digest"
  using push_confirmed [OF run_push] unfolding run_context sum.inject prod.inject image_names_list by auto

theorem verify_job_sound_witness:
  "\<exists>tls refs. tool_pins run_host [] = ([], Inr tls) \<and> map fst refs = image_names \<and>
     refused run_host (fst (cmd_verify run_host [])) (pin_of tls ''cosign'') (identity_flags IDENTITY ''push'' run_sha) (pin_of refs ''api'') Mismatch"
proof -
  have "cmd_verify run_host [] = (fst (cmd_verify run_host []), Inr [])" using run_verify by (metis prod.collapse)
  from verify_job_sound [OF this] show ?thesis unfolding run_context sum.inject prod.inject by blast
qed

definition run_outputs :: "(string \<times> string) list" where
  "run_outputs = (''tag'', ''sha-aaaaaaaaaaaa'') # concat (map (\<lambda>n. [(n @ ''_config'', ''sha256:'' @ run_config), (n @ ''_sha256'', run_archive n)]) image_names)"

lemma run_inspect_eq: "cmd_inspect run_host [] = (fst (cmd_inspect run_host []), Inr run_outputs)"
  using run_inspect unfolding run_outputs_def by (metis prod.collapse)

theorem inspect_job_sound_witness:
  "\<exists>c. i_out c = (''/'', [''tmp'', ''release'', ''out'']) \<and> canary_seen run_host c \<and> inspected run_host (fst (cmd_inspect run_host [])) c run_outputs ''bff''"
  using inspect_job_sound [OF run_inspect_eq run_kept] unfolding run_out_dir sum.inject image_names_list list.pred_inject by metis

lemma run_wired: "name \<in> set image_names \<Longrightarrow> h_env run_host (upper name @ ''_SHA256'') = map_of run_outputs (name @ ''_sha256'')"
  unfolding image_names_list list.set by (elim insertE emptyE) (hypsubst, code_simp)+

lemma run_no_collision: "sha256 (h_tools run_host) x = sha256 (h_tools run_host) y \<Longrightarrow> x = y"
  by (simp add: run_host_def run_tools_def)

theorem pushed_was_inspected_witness:
  "\<exists>c name bytes info. ''ghcr.io/mpcs2013/decisya-api:sha-aaaaaaaaaaaa'' = remote_ref name (i_tag c) \<and> read_archive run_tools bytes = Inr info \<and>
     image_inspected run_host (fst (cmd_inspect run_host [])) c name info"
proof -
  have p: "fst (cmd_push run_host []) = take 2 run_push_events @ Run [''docker'', ''push'', ''ghcr.io/mpcs2013/decisya-api:sha-aaaaaaaaaaaa''] # drop 3 run_push_events"
    unfolding run_push fst_conv by (rule run_push_at)
  have "h_tools run_host = run_tools" by (simp add: run_host_def)
  with pushed_was_inspected [OF run_inspect_eq run_kept refl run_wired run_no_collision p] show ?thesis by metis
qed


definition run_src :: ppath where
  "run_src = (''/'', [''tmp'', ''release-in''])"

lemma run_src: "in_dir run_host = Inr run_src"
  by code_simp

lemma run_exec_const: "h_exec run_host h argv = run_exec [] argv"
  by (simp add: run_host_def run_exec_def)

lemma run_checked_const: "checked_archive run_host src tag name h = checked_archive run_host src tag name []"
  by (simp add: checked_archive_def run_host_def)

lemma run_archives: "list_all (\<lambda>name. case checked_archive run_host run_src ''sha-aaaaaaaaaaaa'' name [] of Inr info \<Rightarrow> True | Inl e \<Rightarrow> False) image_names"
  by code_simp

lemma run_serves_api: "run_exec [] (load_argv run_src name) = Some (0, [], []) \<and> run_exec [] (tag_argv name ''sha-aaaaaaaaaaaa'') = Some (0, [], [])"
  if "name \<in> set image_names" for name
  using that unfolding image_names_list list.set by (elim insertE emptyE) (hypsubst, code_simp)+

lemma run_serves_push:
  "run_exec [] (push_argv name ''sha-aaaaaaaaaaaa'') = Some (0, ''digest: '' @ run_digest @ '' size: 1'', []) \<and>
   run_exec [] [''docker'', ''manifest'', ''inspect'', IMAGE_PREFIX @ name @ ''@'' @ run_digest] = Some (0, ''manifest'', []) \<and>
   h_env run_host (upper name @ ''_CONFIG'') = Some (''sha256:'' @ run_config) \<and> image_ref name run_digest = Inr (IMAGE_PREFIX @ name @ ''@'' @ run_digest)"
  if "name \<in> set image_names" for name
  using that unfolding image_names_list list.set by (elim insertE emptyE) (hypsubst, code_simp)+

lemma run_pushed: "map_option (\<lambda>c. group_text c 1) (re_search PUSHED_RE (''digest: '' @ run_digest @ '' size: 1'')) = Some run_digest"
  by code_simp

lemma run_manifest: "pushed_config (json_loads (h_tools run_host) ''manifest'') = JStr (''sha256:'' @ run_config)"
  by code_simp

lemma run_docker_serves: "name \<in> set image_names \<Longrightarrow> docker_serves run_host run_src ''sha-aaaaaaaaaaaa'' (\<lambda>n. run_digest) name"
  using run_pushed run_manifest run_serves_api [of name] run_serves_push [of name]
  unfolding docker_serves_def run_exec_const by (auto simp only: map_option_eq_Some)

theorem push_completes_witness:
  "cmd_push run_host [] = (concat (map (push_events run_src ''sha-aaaaaaaaaaaa'' (\<lambda>n. run_digest)) image_names), Inr (map (\<lambda>name. (name @ ''_digest'', run_digest)) image_names))"
proof (rule push_completes [OF run_context run_src])
  fix name h assume "name \<in> set image_names"
  with run_archives show "\<exists>info. checked_archive run_host run_src ''sha-aaaaaaaaaaaa'' name h = Inr info"
    unfolding run_checked_const [of run_src _ name h] list_all_iff by (fastforce split: sum.splits)
qed (rule run_docker_serves)

text \<open>The same host on a release.\<close>

definition release_host :: host where
  "release_host = run_host\<lparr> h_env := run_environ(''RELEASE_EVENT'' \<mapsto> ''push'', ''RELEASE_TAG'' \<mapsto> ''1.2.3'', ''RP_RELEASE_CREATED'' \<mapsto> ''true'', ''RP_SHA'' \<mapsto> run_sha,
     ''RP_VERSION'' \<mapsto> ''1.2.3'', ''RP_TAG'' \<mapsto> ''v1.2.3'') \<rparr>"

lemma release_assets: "snd (cmd_assets release_host []) = Inr []"
  by code_simp

theorem images_txt_roundtrip_witness:
  "\<exists>src text. in_dir release_host = Inr src \<and> Write (in_path src ''images.txt'') text \<in> set (fst (cmd_assets release_host [])) \<and>
     map fst (parse_images_txt text) = [''api'', ''bff'', ''migrator'']"
proof -
  have "cmd_assets release_host [] = (fst (cmd_assets release_host []), Inr [])" using release_assets by (metis prod.collapse)
  from images_txt_roundtrip [OF this] show ?thesis by (elim exE conjE) (intro exI conjI, assumption, assumption, simp)
qed

theorem write_outputs_exact_witness:
  "write_outputs run_environ [(''tag'', ''1.2.3''), (''x'', ''a b''), (''y'', ''z'')]
     = ([''tag=1.2.3'' @ [NL]], Inl (fmt ''refusing to write output %s: unexpected characters'' [repr_str ''x'']))"
proof -
  have "run_environ ''GITHUB_OUTPUT'' = Some ''/out''" by code_simp
  moreover have "takeWhile output_ok [(''tag'', ''1.2.3''), (''x'', ''a b''), (''y'', ''z'')] = [(''tag'', ''1.2.3'')]"
    "dropWhile output_ok [(''tag'', ''1.2.3''), (''x'', ''a b''), (''y'', ''z'')] = [(''x'', ''a b''), (''y'', ''z'')]"
    unfolding takeWhile.simps dropWhile.simps output_ok_iff by code_simp+
  ultimately show ?thesis
    using write_outputs_exact [of run_environ "''/out''" "[(''tag'', ''1.2.3''), (''x'', ''a b''), (''y'', ''z'')]"] by (simp add: output_line_def)
qed

theorem parse_pins_wf_witness:
  "pins_wf [''syft''] [(''syft'', ''ghcr.io/t/syft:1@'' @ run_digest)] \<and> set (dkeys [(''syft'', ''ghcr.io/t/syft:1@'' @ run_digest)]) = {''syft''}"
proof -
  have "parse_pins ''t'' (''FROM ghcr.io/t/syft:1@'' @ run_digest @ '' AS syft'' @ [NL]) [''syft''] = Inr [(''syft'', ''ghcr.io/t/syft:1@'' @ run_digest)]"
    by code_simp
  from parse_pins_wf [OF this] show ?thesis by simp
qed

theorem release_context_push_witness:
  "h_env release_host ''RP_SHA'' = Some run_sha \<and> h_env release_host ''RP_TAG'' = Some (''v'' @ ''1.2.3'')"
proof -
  have "release_context (h_env release_host) (Inr (JObj [(''.'', JStr ''1.2.3'')])) =
    Inr \<lparr> c_event = ''push'', c_sha = run_sha, c_version = ''1.2.3'', c_tag = ''1.2.3'', c_release_tag = ''v1.2.3'' \<rparr>"
    by code_simp
  from release_context_push [OF this] show ?thesis by simp
qed

end
