(* ===== verification/Stack_Runner.thy ===== *)
theory Stack_Runner
  imports Jobs Py_Path Stack_Env Scan_Inputs
begin

text \<open>
  How \<^verbatim>\<open>deploy/compose/stackctl.py\<close> reaches the world: the host it runs on, its docker and Compose calls, the argument
  lists of the key-ring containers, and the references it pins.
\<close>


section \<open>The host\<close>

text \<open>
  The answers of the files and of docker may depend on what the command did before. A command line that cannot be started
  or runs out of time is a fault. The secrets folder is its mode, its owner and its entries (\<^term>\<open>None\<close> when there is none); the
  random values, hashing and the decoding of JSON are arguments.
\<close>

record sfile =
  sf_bytes :: string
  sf_mode :: nat
  sf_uid :: nat

type_synonym folder = "(string \<times> sfile option) list"

text \<open>What a path is, and a file once it is open.\<close>

datatype entry_kind = Regular | Link | Other_kind

record opened =
  o_regular :: bool
  o_uid :: nat
  o_mode :: nat
  o_size :: nat
  o_data :: string

record stack_host =
  k_stack :: ppath
  k_repo :: ppath
  k_root :: ppath
  k_posix :: bool
  k_uid :: nat
  k_environ :: "(string \<times> string) list"
  k_exec :: "history \<Rightarrow> (string \<times> string) list \<Rightarrow> string list \<Rightarrow> string option \<Rightarrow> fault + int \<times> string \<times> string"
  k_is_file :: "history \<Rightarrow> string \<Rightarrow> bool"
  k_is_dir :: "history \<Rightarrow> string \<Rightarrow> bool"
  k_exists :: "history \<Rightarrow> string \<Rightarrow> bool"
  k_mode :: "history \<Rightarrow> string \<Rightarrow> nat"
  k_size :: "history \<Rightarrow> string \<Rightarrow> fault + nat option"
  k_entries :: "history \<Rightarrow> string \<Rightarrow> string list"
  k_files_under :: "history \<Rightarrow> string \<Rightarrow> string list"
  k_bytes :: "history \<Rightarrow> string \<Rightarrow> fault + string"
  k_text :: "history \<Rightarrow> string \<Rightarrow> fault + string"
  k_secrets :: "history \<Rightarrow> (nat \<times> nat \<times> folder) option"
  k_decode :: "string \<Rightarrow> string option"
  k_json :: "string \<Rightarrow> fault + json"
  k_sha :: "string \<Rightarrow> string"
  k_choice :: "string \<Rightarrow> nat \<Rightarrow> char"
  k_token :: "string \<Rightarrow> string"
  k_salt :: string
  k_pbkdf2 :: "string \<Rightarrow> string \<Rightarrow> nat \<Rightarrow> string"
  k_hmac :: "string \<Rightarrow> string \<Rightarrow> string"
  k_hash :: "string \<Rightarrow> string"
  k_now :: "history \<Rightarrow> int"
  k_clock :: "history \<Rightarrow> int"
  k_temp :: "history \<Rightarrow> string"
  k_lstat :: "history \<Rightarrow> string \<Rightarrow> fault + entry_kind option"
  k_open :: "history \<Rightarrow> string \<Rightarrow> fault + opened"
  k_module :: "history \<Rightarrow> fault option"
  k_crash :: fault

definition in_stack :: "stack_host \<Rightarrow> string \<Rightarrow> string" where
  "in_stack w rel = path_text (path_sub (k_stack w) rel)"

definition in_repo :: "stack_host \<Rightarrow> string \<Rightarrow> string" where
  "in_repo w rel = path_text (path_sub (k_repo w) rel)"

definition value_fault :: "string \<Rightarrow> fault" where
  "value_fault t = \<lparr> f_kind = Value_error, f_class = ''ValueError'', f_text = t \<rparr>"

definition GENERATED_NAME :: string where
  "GENERATED_NAME = ''stack.generated.yaml''"

definition OVERLAY_NAME :: string where
  "OVERLAY_NAME = ''stack.overlay.yaml''"

definition MANIFEST_NAME :: string where
  "MANIFEST_NAME = ''MANIFEST.sha256''"

definition ENV_NAME :: string where
  "ENV_NAME = ''.env''"

definition IMAGES_NAME :: string where
  "IMAGES_NAME = ''images.txt''"


definition group_writable :: "nat \<Rightarrow> bool" where
  "group_writable m \<longleftrightarrow> m div 16 mod 2 = 1 \<or> m div 2 mod 2 = 1"

text \<open>\<^verbatim>\<open>str.split()\<close>.\<close>

fun words_from :: "string \<Rightarrow> string \<Rightarrow> string list" where
  "words_from acc [] = (if acc = [] then [] else [acc])"
| "words_from acc (c # cs) = (if is_space c then (if acc = [] then words_from [] cs else acc # words_from [] cs) else words_from (acc @ [c]) cs)"

definition words :: "string \<Rightarrow> string list" where
  "words s = words_from [] s"


section \<open>Docker\<close>

definition runner_environment :: "(string \<times> string) list \<Rightarrow> (string \<times> string) list" where
  "runner_environment env = filter (\<lambda>(k, v). \<not> (py_startswith k ''COMPOSE_'' \<or> py_startswith k ''DECISYA_'')) env"

definition compose_base :: "stack_host \<Rightarrow> string list" where
  "compose_base w = [''docker'', ''compose'', ''--project-directory'', path_text (k_stack w), ''--env-file'', in_stack w ENV_NAME,
     ''-f'', in_stack w GENERATED_NAME, ''-f'', in_stack w OVERLAY_NAME]"

definition docker_run :: "stack_host \<Rightarrow> string list \<Rightarrow> string option \<Rightarrow> (int \<times> string \<times> string) job" where
  "docker_run w argv stdin h =
     (h @ [case stdin of None \<Rightarrow> Run argv | Some t \<Rightarrow> Feed argv t],
      case k_exec w h (runner_environment (k_environ w)) argv stdin of Inl x \<Rightarrow> Inl (Raised x) | Inr r \<Rightarrow> Inr r)"

definition compose :: "stack_host \<Rightarrow> string list \<Rightarrow> string option \<Rightarrow> (int \<times> string \<times> string) job" where
  "compose w args stdin = docker_run w (compose_base w @ args) stdin"

definition config_json :: "stack_host \<Rightarrow> json job" where
  "config_json w =
     jbind (compose w [''config'', ''--no-path-resolution'', ''--format'', ''json''] None) (\<lambda>(rc, out, err).
       if rc \<noteq> 0 then
         jfail (''docker compose config failed: '' @ (case splitlines (strip err) of [] \<Rightarrow> ''no message'' | l # ls \<Rightarrow> take 200 l))
       else jread (\<lambda>h. k_json w out))"

text \<open>The temporary file with Caddy's environment, one line per host name; a missing value is a KeyError.\<close>

definition adapt_env :: "env \<Rightarrow> fault + string" where
  "adapt_env values =
     (if list_all (dhas values) CADDY_ENV_KEYS
      then Inr (concat (map (\<lambda>k. k @ ''='' @ val_of values k @ [NL]) CADDY_ENV_KEYS))
      else Inl \<lparr> f_kind = Key_error, f_class = ''KeyError'', f_text = repr_str (hd (filter (\<lambda>k. \<not> dhas values k) CADDY_ENV_KEYS)) \<rparr>)"

definition ADAPT_ENV_FILE :: string where
  "ADAPT_ENV_FILE = ''caddy.env''"

text \<open>The temporary folder is named by the argument \<open>folder\<close>; leaving the block removes it, on an error too.\<close>

definition caddy_adapt :: "stack_host \<Rightarrow> string \<Rightarrow> string \<Rightarrow> string \<Rightarrow> env \<Rightarrow> json job" where
  "caddy_adapt w folder im caddyfile values =
     (if CHR '','' \<in> set caddyfile then jfail ''the stack path must not contain a comma''
      else
        let env_path = folder @ ''/'' @ ADAPT_ENV_FILE in
        jbind (jdo (Mkdir folder)) (\<lambda>u.
        jbind (jfinally
            (jbind (jread (\<lambda>h. adapt_env values)) (\<lambda>t.
             jbind (jdo (Write env_path t)) (\<lambda>u.
             jbind (if k_posix w then jdo (Chmod env_path 384) else jret ()) (\<lambda>u.
               docker_run w ([''docker'', ''run'', ''--rm'', ''--network'', ''none'', ''--read-only'', ''--env-file'', env_path,
                 ''--mount'', ''type=bind,source='' @ caddyfile @ '',target=/etc/caddy/Caddyfile,readonly'',
                 im, ''caddy'', ''adapt'', ''--config'', ''/etc/caddy/Caddyfile'', ''--adapter'', ''caddyfile'']) None))))
            (Rmtree folder)) (\<lambda>(rc, out, err).
          if rc \<noteq> 0 then jfail (fmt ''caddy adapt failed (exit %d); run it by hand to read the message'' [show_int rc])
          else jread (\<lambda>h. k_json w out))))"

definition inspect_project :: "stack_host \<Rightarrow> json job" where
  "inspect_project w =
     jbind (compose w [''ps'', ''-aq''] None) (\<lambda>(rc, out, err).
       let ids = words out in
       if rc \<noteq> 0 \<or> ids = [] then jfail ''no containers found for the project''
       else jbind (docker_run w ([''docker'', ''inspect''] @ ids) None) (\<lambda>(rc', out', err').
         if rc' \<noteq> 0 then jfail ''docker inspect failed'' else jread (\<lambda>h. k_json w out')))"

definition require_ok :: "string \<Rightarrow> (int \<times> string \<times> string) job \<Rightarrow> unit job" where
  "require_ok label m = jbind m (\<lambda>(rc, out, err). if rc \<noteq> 0 then jfail (fmt label [show_int rc]) else jret ())"


section \<open>The key-ring containers\<close>

definition KEYRING_OWNER :: string where
  "KEYRING_OWNER = show_int KEYRING_UID @ '':'' @ show_int KEYRING_UID"

definition KEYRING_ONESHOT_CAPS :: "string list" where
  "KEYRING_ONESHOT_CAPS = [''CHOWN'', ''DAC_OVERRIDE'', ''FOWNER'']"

definition is_image_start :: "char \<Rightarrow> bool" where
  "is_image_start c \<longleftrightarrow> is_lower_az c \<or> is_digit c"

definition is_image_char :: "char \<Rightarrow> bool" where
  "is_image_char c \<longleftrightarrow> is_image_start c \<or> c \<in> set ''./_-''"

definition is_image_tag_char :: "char \<Rightarrow> bool" where
  "is_image_tag_char c \<longleftrightarrow> is_alnum_ascii c \<or> c \<in> set ''._-''"

definition PINNED_IMAGE_RE :: rx where
  "PINNED_IMAGE_RE = rseq [RSet is_image_start, RStar (RSet is_image_char), ropt (RSeq (rchr CHR '':'') (rplus (RSet is_image_tag_char))),
     rlit ''@sha256:'', rrep 64 (RSet is_hex_lower)]"

abbreviation SQ :: string where
  "SQ \<equiv> [CHR 0x27]"

abbreviation DQ :: string where
  "DQ \<equiv> [CHR 0x22]"

abbreviation BS :: string where
  "BS \<equiv> [CHR 0x5C]"

definition SET_EU :: string where
  "SET_EU = ''set -eu'' @ [NL]"

definition KEYRING_RULE_FUNCTION :: string where
  "KEYRING_RULE_FUNCTION =
     unlines [
       [],
       ''keyring_rule_ok() {'',
       ''  f=$1'',
       ''  if grep -qiE '' @ SQ @ ''masterKey|unencryptedKey'' @ SQ @ '' '' @ DQ @ ''$f'' @ DQ @ ''; then return 1; fi'',
       ''  n=$(grep -oiE '' @ SQ @ ''<([A-Za-z0-9_.-]+:)?encryptedSecret'' @ SQ @ '' '' @ DQ @ ''$f'' @ DQ @ '' | wc -l | tr -d '' @ SQ @ '' '' @ SQ @ '')'',
       ''  if [ '' @ DQ @ ''$n'' @ DQ @ '' = 0 ]; then'',
       ''    if grep -qE '' @ SQ @ ''<revocation[ >/]'' @ SQ @ '' '' @ DQ @ ''$f'' @ DQ @ ''; then return 0; fi'',
       ''    return 1'',
       ''  fi'',
       ''  if [ '' @ DQ @ ''$n'' @ DQ @ '' != 1 ]; then return 1; fi'',
       ''  grep -qE '' @ SQ @ ''decryptorType='' @ DQ @ ''Microsoft'' @ BS @ ''.AspNetCore'' @ BS @ ''.DataProtection'' @ BS @ ''.XmlEncryption'' @ BS @ ''.EncryptedXmlDecryptor[,'' @ DQ @ '']'' @ SQ @ '' '' @ DQ @ ''$f'' @ DQ @ '' || return 1'',
       ''  grep -qE '' @ SQ @ ''<([A-Za-z0-9_.-]+:)?EncryptedData'' @ SQ @ '' '' @ DQ @ ''$f'' @ DQ @ '' || return 1'',
       ''  return 0'',
       ''}'']"

definition KEYRING_REFUSE :: string where
  "KEYRING_REFUSE =
     unlines [
       [],
       ''cd /keyring'',
       ''bad=$(find . -xdev ! -type f ! -type d | wc -l | tr -d '' @ SQ @ '' '' @ SQ @ '')'',
       ''if [ '' @ DQ @ ''$bad'' @ DQ @ '' != 0 ]; then'',
       ''  echo '' @ DQ @ ''refused: $bad entries are neither files nor folders'' @ DQ @ '' >&2'',
       ''  exit 3'',
       ''fi'']"

definition KEYRING_PREPARE_SCRIPT :: string where
  "KEYRING_PREPARE_SCRIPT = SET_EU @ KEYRING_REFUSE @
     unlines [
       [],
       ''find . -xdev -exec chown -h 1654:1654 {} '' @ BS @ '';'',
       ''find . -xdev -type d -exec chmod 0700 {} '' @ BS @ '';'',
       ''find . -xdev -type f -exec chmod 0600 {} '' @ BS @ '';'',
       ''files=$(find . -xdev -type f | wc -l | tr -d '' @ SQ @ '' '' @ SQ @ '')'',
       ''dirs=$(find . -xdev -type d | wc -l | tr -d '' @ SQ @ '' '' @ SQ @ '')'',
       ''echo '' @ DQ @ ''prepared files=$files dirs=$dirs'' @ DQ]"

definition KEYRING_RESET_SCRIPT :: string where
  "KEYRING_RESET_SCRIPT = SET_EU @ KEYRING_RULE_FUNCTION @ KEYRING_REFUSE @
     unlines [
       [],
       ''result=$(find . -xdev -type f -name '' @ SQ @ ''*.xml'' @ SQ @ '' | while IFS= read -r f; do'',
       ''  if keyring_rule_ok '' @ DQ @ ''$f'' @ DQ @ ''; then echo kept; else rm -f -- '' @ DQ @ ''$f'' @ DQ @ ''; echo deleted; fi'',
       ''done)'',
       ''kept=$(printf '' @ SQ @ ''%s'' @ BS @ ''n'' @ SQ @ '' '' @ DQ @ ''$result'' @ DQ @ '' | grep -c '' @ SQ @ ''^kept$'' @ SQ @ '' || true)'',
       ''deleted=$(printf '' @ SQ @ ''%s'' @ BS @ ''n'' @ SQ @ '' '' @ DQ @ ''$result'' @ DQ @ '' | grep -c '' @ SQ @ ''^deleted$'' @ SQ @ '' || true)'',
       ''echo '' @ DQ @ ''reset kept=$kept deleted=$deleted'' @ DQ]"

definition KEYRING_RESET_ALL_SCRIPT :: string where
  "KEYRING_RESET_ALL_SCRIPT = SET_EU @ KEYRING_REFUSE @
     unlines [
       [],
       ''deleted=$(find . -xdev -type f -name '' @ SQ @ ''*.xml'' @ SQ @ '' | wc -l | tr -d '' @ SQ @ '' '' @ SQ @ '')'',
       ''find . -xdev -type f -name '' @ SQ @ ''*.xml'' @ SQ @ '' -exec rm -f -- {} '' @ BS @ '';'',
       ''echo '' @ DQ @ ''reset kept=0 deleted=$deleted'' @ DQ]"

definition KEYRING_VERIFY_SCRIPT :: string where
  "KEYRING_VERIFY_SCRIPT = SET_EU @ KEYRING_RULE_FUNCTION @
     unlines [
       [],
       ''cd /keyring'',
       ''count() { wc -l | tr -d '' @ SQ @ '' '' @ SQ @ ''; }'',
       ''refused=$(find . -xdev ! -type f ! -type d | count)'',
       ''result=$(find . -xdev -type f -name '' @ SQ @ ''*.xml'' @ SQ @ '' | while IFS= read -r f; do'',
       ''  if keyring_rule_ok '' @ DQ @ ''$f'' @ DQ @ ''; then echo ok; else echo failing; fi'',
       ''done)'',
       ''xml_ok=$(printf '' @ SQ @ ''%s'' @ BS @ ''n'' @ SQ @ '' '' @ DQ @ ''$result'' @ DQ @ '' | grep -c '' @ SQ @ ''^ok$'' @ SQ @ '' || true)'',
       ''xml_failing=$(printf '' @ SQ @ ''%s'' @ BS @ ''n'' @ SQ @ '' '' @ DQ @ ''$result'' @ DQ @ '' | grep -c '' @ SQ @ ''^failing$'' @ SQ @ '' || true)'',
       ''other=$(find . -xdev -type f ! -name '' @ SQ @ ''*.xml'' @ SQ @ '' | count)'',
       ''owner_user=$(find . -xdev ! -user 1654 | count)'',
       ''owner_group=$(find . -xdev ! -group 1654 | count)'',
       ''mode_dirs=$(find . -xdev -type d ! -perm 0700 | count)'',
       ''mode_files=$(find . -xdev -type f ! -perm 0600 | count)'',
       ''echo '' @ DQ @ ''refused_entries=$refused'' @ DQ,
       ''echo '' @ DQ @ ''xml_files=$((xml_ok + xml_failing))'' @ DQ,
       ''echo '' @ DQ @ ''xml_ok=$xml_ok'' @ DQ,
       ''echo '' @ DQ @ ''xml_failing=$xml_failing'' @ DQ,
       ''echo '' @ DQ @ ''other_files=$other'' @ DQ,
       ''echo '' @ DQ @ ''wrong_owner=$((owner_user + owner_group))'' @ DQ,
       ''echo '' @ DQ @ ''wrong_mode=$((mode_dirs + mode_files))'' @ DQ]"

definition require_pinned_image :: "string \<Rightarrow> string + string" where
  "require_pinned_image im = (if fullmatches PINNED_IMAGE_RE im then Inr im else Inl ''the image reference is not pinned by digest'')"

definition keyring_mount :: string where
  "keyring_mount = ''type=volume,source='' @ KEYRING_VOLUME_NAME @ '',target='' @ KEYRING_MOUNT_TARGET"

definition keyring_oneshot_argv :: "string \<Rightarrow> string \<Rightarrow> string + string list" where
  "keyring_oneshot_argv im script =
     sbind (require_pinned_image im) (\<lambda>pinned. Inr (
       [''docker'', ''run'', ''--rm'', ''--network'', ''none'', ''--read-only'', ''--security-opt'', ''no-new-privileges'', ''--cap-drop'', ''ALL'']
       @ concat (map (\<lambda>capability. [''--cap-add'', capability]) KEYRING_ONESHOT_CAPS)
       @ [''--user'', ''0:0'', ''--pids-limit'', ''64'', ''--memory'', ''64m'', ''--mount'', keyring_mount,
          ''--entrypoint'', ''sh'', pinned, ''-c'', script]))"

definition keyring_prepare_argv :: "string \<Rightarrow> string + string list" where
  "keyring_prepare_argv im = keyring_oneshot_argv im KEYRING_PREPARE_SCRIPT"

definition keyring_reset_argv :: "string \<Rightarrow> bool \<Rightarrow> string + string list" where
  "keyring_reset_argv im all_keys = keyring_oneshot_argv im (if all_keys then KEYRING_RESET_ALL_SCRIPT else KEYRING_RESET_SCRIPT)"

definition keyring_verify_argv :: "string \<Rightarrow> string + string list" where
  "keyring_verify_argv im =
     sbind (require_pinned_image im) (\<lambda>pinned. Inr
       [''docker'', ''run'', ''--rm'', ''--network'', ''none'', ''--read-only'', ''--security-opt'', ''no-new-privileges'', ''--cap-drop'', ''ALL'',
        ''--user'', KEYRING_OWNER, ''--pids-limit'', ''64'', ''--memory'', ''64m'', ''--mount'', keyring_mount @ '',readonly'',
        ''--entrypoint'', ''sh'', pinned, ''-c'', KEYRING_VERIFY_SCRIPT])"

definition BFF_ASSEMBLY :: string where
  "BFF_ASSEMBLY = ''/app/Decisya.Bff.dll''"

definition IMAGE_BFF_RE :: rx where
  "IMAGE_BFF_RE = RSeq (rlit ''ghcr.io/mpcs2013/decisya-bff@sha256:'') (rrep 64 (RSet is_hex_lower))"

definition keyring_generator_argv :: "string \<Rightarrow> string + string list" where
  "keyring_generator_argv im =
     (if \<not> fullmatches IMAGE_BFF_RE im then Inl ''the BFF image reference is not ghcr.io/mpcs2013/decisya-bff@sha256:<64 hex>''
      else Inr [''docker'', ''run'', ''--rm'', ''-i'', ''--network'', ''none'', ''--read-only'', ''--cap-drop'', ''ALL'',
        ''--security-opt'', ''no-new-privileges'', ''--user'', KEYRING_OWNER, ''--entrypoint'', ''dotnet'', im, BFF_ASSEMBLY, GENERATOR_FLAG])"


section \<open>References\<close>

text \<open>\<^verbatim>\<open>_read_env\<close>.\<close>

definition read_env :: "stack_host \<Rightarrow> (env \<times> string list) job" where
  "read_env w =
     jbind (jlook (\<lambda>h. k_is_file w h (in_stack w ENV_NAME))) (\<lambda>present.
       if \<not> present then jret ([], [''the stack'' @ SQ @ ''s environment file is missing (run `assemble`, then fill it in)''])
       else jbind (jread (\<lambda>h. k_text w h (in_stack w ENV_NAME))) (\<lambda>t.
         jbind (jlook (\<lambda>h. k_posix w \<and> group_writable (k_mode w h (in_stack w ENV_NAME)))) (\<lambda>open_file.
           jret (fst (parse_env_text t), snd (parse_env_text t)
             @ msg_if open_file (''the stack'' @ SQ @ ''s environment file is writable by group or others'')))))"

definition bff_image :: "stack_host \<Rightarrow> string job" where
  "bff_image w =
     jbind (read_env w) (\<lambda>(values, problems).
       let im = val_of values ''DECISYA_BFF_IMAGE'' in
       if im = [] then jfail (''DECISYA_BFF_IMAGE is missing in the stack'' @ SQ @ ''s environment file (the certificate generator runs from that image)'')
       else case value_problem ''DECISYA_BFF_IMAGE'' im of
         Some reason \<Rightarrow> jfail (''DECISYA_BFF_IMAGE '' @ reason)
       | None \<Rightarrow> jret im)"

text \<open>\<^verbatim>\<open>guards.load_scan_refs\<close>: the clone's own parser over its pinned images. Loading the module may fail.\<close>

definition CONTAINER_IMAGES :: string where
  "CONTAINER_IMAGES = ''src/Decisya.AppHost/ContainerImages.cs''"

definition load_scan_module :: "stack_host \<Rightarrow> unit job" where
  "load_scan_module w = jread (\<lambda>h. case k_module w h of Some x \<Rightarrow> Inl x | None \<Rightarrow> Inr ())"

definition value_result :: "string + 'a \<Rightarrow> fault + 'a" where
  "value_result r = (case r of Inl t \<Rightarrow> Inl (value_fault t) | Inr a \<Rightarrow> Inr a)"

definition load_scan_refs :: "stack_host \<Rightarrow> env job" where
  "load_scan_refs w =
     jbind (load_scan_module w) (\<lambda>u.
     jbind (jread (\<lambda>h. k_text w h (in_repo w CONTAINER_IMAGES))) (\<lambda>t.
       jread (\<lambda>h. value_result (parse_targets t))))"

text \<open>The classes \<^verbatim>\<open>pinned_caddy_image\<close> turns into its own message; reading and parsing raise no others.\<close>

definition is_caught_pin :: "job_error \<Rightarrow> bool" where
  "is_caught_pin e =
     (case e of
        Raised x \<Rightarrow> f_kind x \<in> {OS_error, Value_error, Key_error} \<or> f_class x \<in> {''AttributeError'', ''ImportError'', ''ModuleNotFoundError'', ''SyntaxError'', ''IndentationError'', ''TabError''}
      | _ \<Rightarrow> False)"

definition pinned_caddy_image :: "stack_host \<Rightarrow> string job" where
  "pinned_caddy_image w =
     jbind (jtry (jbind (load_scan_refs w) (\<lambda>refs. jret (val_of refs ''caddy''))) (\<lambda>e.
        if is_caught_pin e then Some (jfail ''could not read the pinned Caddy image from src/Decisya.AppHost/ContainerImages.cs'') else None)) (\<lambda>im.
       if \<not> fullmatches PINNED_IMAGE_RE im then jfail ''the pinned Caddy image is not a digest reference'' else jret im)"

end
