(* ===== verification/Stack_Secrets.thy ===== *)
theory Stack_Secrets
  imports Stack_Runner
begin

text \<open>
  The secret files of the stack, \<^verbatim>\<open>deploy/compose/stackctl.py\<close>: what each credential generates, the shape and consistency
  checks, and the commands that create, rotate and retire them.

  \<^verbatim>\<open>write_atomic\<close> replaces a file all or nothing, so an interruption between two writes is a shorter history. Texts are
  ASCII wherever a check accepts them, and their UTF-8 encoding is the text itself.
\<close>


section \<open>Names\<close>

definition PASSWORD_LENGTH :: nat where
  "PASSWORD_LENGTH = 48"

definition REDIS_USER :: string where
  "REDIS_USER = ''decisya-bff''"

definition ACL_BFF_HEAD :: string where
  "ACL_BFF_HEAD = ''user decisya-bff on #''"

definition ACL_BFF_TAIL :: string where
  "ACL_BFF_TAIL = '' ~decisya:bff:* -@all +get +set +del +expire +pexpire +exists +sadd +srem +smembers +multi +exec +discard +watch +unwatch +ping +echo +client +info +hello''"

definition ACL_FIXED :: "string list" where
  "ACL_FIXED = [''user default off resetpass resetkeys resetchannels -@all'', ''user health on nopass -@all +ping'']"

definition LOGICAL_SECRETS :: "string list" where
  "LOGICAL_SECRETS = [''postgres_superuser'', ''migrator_db'', ''tenancy_db'', ''entitlements_db'', ''keycloak_db'', ''keycloak_bootstrap'',
     ''redis'', ''bff_client'', ''user_id_hash_key'']"

definition ROTATE_SQL_ROLE :: "(string \<times> string) list" where
  "ROTATE_SQL_ROLE = [(''postgres_superuser'', ''postgres''), (''migrator_db'', ''decisya_migrator''), (''keycloak_db'', ''keycloak'')]"

definition DP_LOGICAL :: string where
  "DP_LOGICAL = ''dataprotection_cert''"

definition DP_PFX_MAX_BYTES :: nat where
  "DP_PFX_MAX_BYTES = 16 * 1024"

definition BOOTSTRAP_SECRET :: string where
  "BOOTSTRAP_SECRET = ''keycloak_bootstrap_admin_password''"

definition SECRET_FILE_NAMES :: "string list" where
  "SECRET_FILE_NAMES = sort ALL_SECRETS"

definition PASSWORD_FILES :: "string list" where
  "PASSWORD_FILES = [''postgres_superuser_password'', ''migrator_db_password'', ''keycloak_db_password'', ''Migrator__TenancyRolePassword'',
     ''Migrator__EntitlementsRolePassword'', ''Bff__Oidc__ClientSecret'']"

definition CONNECTION_USERS :: "(string \<times> string) list" where
  "CONNECTION_USERS = [(''ConnectionStrings__decisya'', ''decisya_migrator''), (''ConnectionStrings__tenancy'', ''decisya_tenancy''),
     (''ConnectionStrings__entitlements'', ''decisya_entitlements'')]"


section \<open>What a credential generates\<close>

definition connection_head :: "string \<Rightarrow> string" where
  "connection_head role = ''Host=postgres;Port=5432;Database=decisya;Username='' @ role @ '';Password=''"

definition connection_string :: "string \<Rightarrow> string \<Rightarrow> string" where
  "connection_string role password = connection_head role @ password"

definition redis_head :: string where
  "redis_head = ''redis:6379,user='' @ REDIS_USER @ '',password=''"

definition redis_connection_string :: "string \<Rightarrow> string" where
  "redis_connection_string password = redis_head @ password"

definition redis_acl_text :: "(string \<Rightarrow> string) \<Rightarrow> string \<Rightarrow> string" where
  "redis_acl_text sha password = join [NL] (ACL_FIXED @ [ACL_BFF_HEAD @ sha password @ ACL_BFF_TAIL])"

text \<open>\<^verbatim>\<open>files_for\<close> for the credentials with one value, and for the certificate pair.\<close>

definition files_for :: "(string \<Rightarrow> string) \<Rightarrow> string \<Rightarrow> string \<Rightarrow> string + (string \<times> string) list" where
  "files_for sha logical v =
     (if logical = ''postgres_superuser'' then Inr [(''postgres_superuser_password'', v)]
      else if logical = ''migrator_db'' then Inr [(''migrator_db_password'', v), (''ConnectionStrings__decisya'', connection_string ''decisya_migrator'' v)]
      else if logical = ''tenancy_db'' then Inr [(''Migrator__TenancyRolePassword'', v), (''ConnectionStrings__tenancy'', connection_string ''decisya_tenancy'' v)]
      else if logical = ''entitlements_db'' then
        Inr [(''Migrator__EntitlementsRolePassword'', v), (''ConnectionStrings__entitlements'', connection_string ''decisya_entitlements'' v)]
      else if logical = ''keycloak_db'' then Inr [(''keycloak_db_password'', v)]
      else if logical = ''keycloak_bootstrap'' then Inr [(''keycloak_bootstrap_admin_password'', v)]
      else if logical = ''redis'' then Inr [(''redis_acl'', redis_acl_text sha v), (''ConnectionStrings__redis'', redis_connection_string v)]
      else if logical = ''bff_client'' then Inr [(''Bff__Oidc__ClientSecret'', v)]
      else if logical = ''user_id_hash_key'' then Inr [(''Decisya__Observability__UserIdHashKey'', v)]
      else Inl ''unknown credential name'')"

definition certificate_files :: "string \<times> string \<Rightarrow> (string \<times> string) list" where
  "certificate_files pair = [(DP_CERT, fst pair), (DP_CERT_PASSWORD, snd pair), (DP_PREVIOUS, []), (DP_PREVIOUS_PASSWORD, [])]"


section \<open>Shapes\<close>

definition is_b64_char :: "char \<Rightarrow> bool" where
  "is_b64_char c \<longleftrightarrow> is_alnum_ascii c \<or> c = CHR ''+'' \<or> c = CHR ''/''"

text \<open>\<^verbatim>\<open>len(base64.b64decode(text, validate=True))\<close>, or \<^term>\<open>None\<close> for its ValueError: whole groups of four, the last one
  padded to four with at most two equals signs.\<close>

definition b64_length :: "string \<Rightarrow> nat option" where
  "b64_length s =
     (let data = takeWhile is_b64_char s; pads = dropWhile is_b64_char s; n = length data in
      if (pads = [] \<and> n mod 4 = 0) \<or> (pads = ''='' \<and> n mod 4 = 3) \<or> (pads = ''=='' \<and> n mod 4 = 2)
      then Some (3 * n div 4) else None)"

definition ALNUM32_RE :: rx where
  "ALNUM32_RE = ratleast 32 (RSet is_alnum_ascii)"

definition ALNUM32_256_RE :: rx where
  "ALNUM32_256_RE = rrange 32 256 (RSet is_alnum_ascii)"

definition PFX_RE :: rx where
  "PFX_RE = RSeq (rplus (RSet is_b64_char)) (rupto 2 (rchr CHR ''=''))"

definition pfx_shape_problem :: "string \<Rightarrow> string option" where
  "pfx_shape_problem t =
     (if \<not> fullmatches PFX_RE t then Some ''must be base64 on one line, with no line break''
      else case b64_length t of
        None \<Rightarrow> Some ''must be base64 on one line, with no line break''
      | Some n \<Rightarrow> if 1 \<le> n \<and> n \<le> DP_PFX_MAX_BYTES then None else Some ''must decode to 1 byte up to 16 KiB'')"

definition ACL_LINE_RES :: "rx list" where
  "ACL_LINE_RES = map rlit ACL_FIXED @ [rseq [rlit ACL_BFF_HEAD, rrep 64 (RSet is_hex_lower), rlit ACL_BFF_TAIL]]"

definition acl_ok :: "string \<Rightarrow> bool" where
  "acl_ok t \<longleftrightarrow> (let ls = split_on [NL] t in length ls = length ACL_LINE_RES \<and> list_all (\<lambda>(p, l). fullmatches p l) (zip ACL_LINE_RES ls))"

definition reason_unless :: "bool \<Rightarrow> string \<Rightarrow> string option" where
  "reason_unless b r = (if b then None else Some r)"

definition shape_problem :: "string \<Rightarrow> string \<Rightarrow> string option" where
  "shape_problem name t =
     (if name = DP_CERT then pfx_shape_problem t
      else if name = DP_PREVIOUS then (if t = [] then None else pfx_shape_problem t)
      else if name = DP_CERT_PASSWORD then reason_unless (fullmatches ALNUM32_256_RE t) ''must be 32 to 256 letters and digits''
      else if name = DP_PREVIOUS_PASSWORD then
        reason_unless (t = [] \<or> fullmatches ALNUM32_256_RE t) ''must be empty or 32 to 256 letters and digits''
      else if name \<in> set PASSWORD_FILES then reason_unless (fullmatches ALNUM32_RE t) ''must be at least 32 letters and digits''
      else if name = ''keycloak_bootstrap_admin_password'' then
        reason_unless (t = [] \<or> fullmatches ALNUM32_RE t) ''must be empty (retired) or at least 32 letters and digits''
      else if name = ''Decisya__Observability__UserIdHashKey'' then
        (case b64_length t of None \<Rightarrow> Some ''must be base64'' | Some n \<Rightarrow> reason_unless (32 \<le> n) ''must decode to at least 32 bytes'')
      else if dhas CONNECTION_USERS name then
        reason_unless (fullmatches (RSeq (rlit (connection_head (the (map_of CONNECTION_USERS name)))) ALNUM32_RE) t) ''must be the generated connection string form''
      else if name = ''ConnectionStrings__redis'' then
        reason_unless (fullmatches (RSeq (rlit redis_head) ALNUM32_RE) t) ''must be the generated Redis connection string form''
      else if name = ''redis_acl'' then reason_unless (acl_ok t) ''must be the ACL policy generated by stackctl''
      else Some ''is not a known secret file'')"

definition PASSWORD_OF_RE :: rx where
  "PASSWORD_OF_RE = rseq [RAlt (rchr CHR ''P'') (rchr CHR ''p''), rlit ''assword='', RGroup 1 (rplus (RSet is_alnum_ascii)), REol]"

definition password_of :: "string \<Rightarrow> string option" where
  "password_of t = map_option (\<lambda>c. group_text c 1) (re_search PASSWORD_OF_RE t)"

definition DERIVED_PAIRS :: "(string \<times> string) list" where
  "DERIVED_PAIRS = [(''ConnectionStrings__decisya'', ''migrator_db_password''), (''ConnectionStrings__tenancy'', ''Migrator__TenancyRolePassword''),
     (''ConnectionStrings__entitlements'', ''Migrator__EntitlementsRolePassword'')]"

type_synonym contents = "(string \<times> string) list"

definition derived_pair_problem :: "contents \<Rightarrow> string \<times> string \<Rightarrow> string list" where
  "derived_pair_problem contents p =
     (case (map_of contents (fst p), map_of contents (snd p)) of
        (Some d, Some s) \<Rightarrow>
          msg_if (shape_problem (fst p) d = None \<and> password_of d \<noteq> Some s)
            (fmt ''secret %s does not carry the credential in %s (half-rotated?)'' [fst p, snd p])
      | _ \<Rightarrow> [])"

definition previous_problems :: "contents \<Rightarrow> string list" where
  "previous_problems contents =
     (case map_of contents DP_PREVIOUS of
        None \<Rightarrow> []
      | Some prev \<Rightarrow>
          (case map_of contents DP_PREVIOUS_PASSWORD of
             None \<Rightarrow> []
           | Some pw \<Rightarrow> msg_if ((prev = []) \<noteq> (pw = []))
               (fmt ''secrets %s and %s must be empty together (half-finished rotation or retirement?)'' [DP_PREVIOUS, DP_PREVIOUS_PASSWORD]))
          @ msg_if (prev \<noteq> [] \<and> map_of contents DP_CERT = Some prev)
              (fmt ''secret %s holds the current certificate (half-finished rotation?)'' [DP_PREVIOUS]))"

definition redis_problems :: "(string \<Rightarrow> string) \<Rightarrow> contents \<Rightarrow> string list" where
  "redis_problems sha contents =
     (case (map_of contents ''ConnectionStrings__redis'', map_of contents ''redis_acl'') of
        (Some cs, Some acl) \<Rightarrow>
          msg_if (cs \<noteq> [] \<and> acl \<noteq> [] \<and> shape_problem ''ConnectionStrings__redis'' cs = None \<and> shape_problem ''redis_acl'' acl = None
              \<and> \<not> py_in (''#'' @ sha (case password_of cs of Some p \<Rightarrow> p | None \<Rightarrow> [])) acl)
            ''secret redis_acl does not carry the hash of the password in ConnectionStrings__redis (half-rotated?)''
      | _ \<Rightarrow> [])"

definition derived_problems :: "(string \<Rightarrow> string) \<Rightarrow> contents \<Rightarrow> string list" where
  "derived_problems sha contents =
     concat (map (derived_pair_problem contents) DERIVED_PAIRS) @ previous_problems contents @ redis_problems sha contents"


section \<open>The secrets folder\<close>

definition file_of :: "folder \<Rightarrow> string \<Rightarrow> sfile option" where
  "file_of d name = (case map_of d name of Some (Some f) \<Rightarrow> Some f | _ \<Rightarrow> None)"

definition others_any :: "nat \<Rightarrow> bool" where
  "others_any m \<longleftrightarrow> m mod 64 \<noteq> 0"

definition ends_newline :: "string \<Rightarrow> bool" where
  "ends_newline s \<longleftrightarrow> s \<noteq> [] \<and> ccode (last s) \<in> {10, 13}"

definition secret_file_check :: "stack_host \<Rightarrow> folder \<Rightarrow> string \<Rightarrow> string list \<times> contents" where
  "secret_file_check v d name =
     (case file_of d name of
        None \<Rightarrow> ([''secret '' @ name @ '': missing''], [])
      | Some f \<Rightarrow>
          (let own = (if k_posix v then
                msg_if (group_writable (sf_mode f)) (''secret '' @ name @ '': writable by group or others'')
                @ msg_if (sf_uid f \<noteq> k_uid v) (''secret '' @ name @ '': owned by another account'') else [])
           in if ends_newline (sf_bytes f) then (own @ [''secret '' @ name @ '': ends with a newline''], [])
              else case k_decode v (sf_bytes f) of
                None \<Rightarrow> (own @ [''secret '' @ name @ '': not valid UTF-8''], [])
              | Some t \<Rightarrow>
                  (case shape_problem name t of
                     Some reason \<Rightarrow> (own @ [''secret '' @ name @ '': '' @ reason], [])
                   | None \<Rightarrow> (own, [(name, t)]))))"

definition secret_dir_problems :: "stack_host \<Rightarrow> (nat \<times> nat \<times> folder) option \<Rightarrow> string list" where
  "secret_dir_problems v dir =
     (case dir of
        None \<Rightarrow> [''secrets folder is missing (run `secrets init`)'']
      | Some (mode, uid, d) \<Rightarrow>
          (let rs = map (secret_file_check v d) SECRET_FILE_NAMES in
           (if k_posix v then
              msg_if (others_any mode) ''secrets folder must be mode 0700 (it is readable or writable by others)''
              @ msg_if (uid \<noteq> k_uid v) ''secrets folder is owned by another account'' else [])
           @ map (\<lambda>n. fmt ''unexpected entry %s in the secrets folder'' [n]) (sorted_set (keys_minus (dkeys d) SECRET_FILE_NAMES))
           @ concat (map fst rs) @ derived_problems (k_sha v) (concat (map snd rs))))"



section \<open>Generating values\<close>

definition ALNUM :: string where
  "ALNUM = ''ABCDEFGHIJKLMNOPQRSTUVWXYZabcdefghijklmnopqrstuvwxyz0123456789''"

text \<open>\<^verbatim>\<open>secrets.choice\<close> once per character, and \<^verbatim>\<open>secrets.token_bytes\<close>, for the credential of the given name.\<close>

definition generate_password :: "stack_host \<Rightarrow> string \<Rightarrow> string" where
  "generate_password w logical = map (k_choice w logical) [0..<PASSWORD_LENGTH]"

definition B64_CHARS :: string where
  "B64_CHARS = ''ABCDEFGHIJKLMNOPQRSTUVWXYZabcdefghijklmnopqrstuvwxyz0123456789+/''"

definition b64_digit :: "nat \<Rightarrow> char" where
  "b64_digit n = B64_CHARS ! (n mod 64)"

text \<open>\<^verbatim>\<open>base64.b64encode\<close>.\<close>

fun b64encode :: "string \<Rightarrow> string" where
  "b64encode [] = []"
| "b64encode [a] = (let n = ccode a in [b64_digit (n div 4), b64_digit (n * 16), CHR ''='', CHR ''=''])"
| "b64encode [a, b] =
     (let n = ccode a * 256 + ccode b in [b64_digit (n div 1024), b64_digit (n div 16), b64_digit (n * 4), CHR ''=''])"
| "b64encode (a # b # c # s) =
     (let n = (ccode a * 256 + ccode b) * 256 + ccode c
      in b64_digit (n div 262144) # b64_digit (n div 4096) # b64_digit (n div 64) # b64_digit n # b64encode s)"

definition generate_hash_key :: "stack_host \<Rightarrow> string" where
  "generate_hash_key w = b64encode (k_token w ''user_id_hash_key'')"

definition generate_credential :: "stack_host \<Rightarrow> string \<Rightarrow> string" where
  "generate_credential w logical = (if logical = ''user_id_hash_key'' then generate_hash_key w else generate_password w logical)"

text \<open>The verifier of a password, from the salted password and the keyed hash. Hashes are byte strings here.\<close>

definition scram_verifier :: "(string \<Rightarrow> string \<Rightarrow> nat \<Rightarrow> string) \<Rightarrow> (string \<Rightarrow> string \<Rightarrow> string) \<Rightarrow> (string \<Rightarrow> string) \<Rightarrow> string \<Rightarrow> string \<Rightarrow> nat \<Rightarrow> string" where
  "scram_verifier pbkdf2 hmac hash password salt iterations =
     (let salted = pbkdf2 password salt iterations;
          client_key = hmac salted ''Client Key''; stored_key = hash client_key; server_key = hmac salted ''Server Key''
      in ''SCRAM-SHA-256$'' @ show_nat iterations @ '':'' @ b64encode salt @ ''$'' @ b64encode stored_key @ '':'' @ b64encode server_key)"

definition ROLE_RE :: rx where
  "ROLE_RE = rplus (RSet (\<lambda>c. is_lower_az c \<or> c = CHR ''_''))"

definition is_b64_text :: "char \<Rightarrow> bool" where
  "is_b64_text c \<longleftrightarrow> is_b64_char c \<or> c = CHR ''=''"

definition VERIFIER_RE :: rx where
  "VERIFIER_RE = rseq [rlit ''SCRAM-SHA-256$'', rplus rdigit, rchr CHR '':'', rplus (RSet is_b64_text), rchr CHR ''$'', rplus (RSet is_b64_text),
     rchr CHR '':'', rplus (RSet is_b64_text)]"

definition alter_role_sql :: "string \<Rightarrow> string \<Rightarrow> string + string" where
  "alter_role_sql role verifier =
     (if \<not> fullmatches ROLE_RE role \<or> \<not> fullmatches VERIFIER_RE verifier then Inl ''refusing to build SQL from an unexpected role or verifier''
      else Inr (unlines [''SET log_statement = '' @ SQ @ ''none'' @ SQ @ '';'', ''SET log_min_error_statement = '' @ SQ @ ''panic'' @ SQ @ '';'',
        ''ALTER ROLE '' @ DQ @ role @ DQ @ '' PASSWORD '' @ SQ @ verifier @ SQ @ '';'']))"


definition write_atomic :: "string \<Rightarrow> string \<Rightarrow> nat \<Rightarrow> unit job" where
  "write_atomic p content mode = jbind (jdo (Write p content)) (\<lambda>u. jdo (Chmod p mode))"

definition SECRET_DIR_MODE :: nat where
  "SECRET_DIR_MODE = 448"

definition ensure_dir :: "stack_host \<Rightarrow> string \<Rightarrow> nat \<Rightarrow> unit job" where
  "ensure_dir w p mode = jbind (jdo (Mkdir p)) (\<lambda>u. if k_posix w then jdo (Chmod p mode) else jret ())"


section \<open>The certificate generator\<close>

definition ensure_image :: "stack_host \<Rightarrow> string \<Rightarrow> unit job" where
  "ensure_image w im =
     jbind (docker_run w [''docker'', ''image'', ''inspect'', im] None) (\<lambda>(rc, out, err).
       if rc = 0 then jret ()
       else jbind (docker_run w [''docker'', ''pull'', im] None) (\<lambda>(rc', out', err').
         if rc' \<noteq> 0 then jfail ''could not pull the BFF image by the digest in the environment file'' else jret ()))"

definition is_ascii :: "char \<Rightarrow> bool" where
  "is_ascii c \<longleftrightarrow> ccode c < 128"

definition is_caught_run :: "job_error \<Rightarrow> bool" where
  "is_caught_run e = (case e of Raised x \<Rightarrow> f_kind x \<in> {OS_error, Subprocess_error} | _ \<Rightarrow> False)"

definition generate_certificate_pair :: "stack_host \<Rightarrow> string \<Rightarrow> (string \<times> string) job" where
  "generate_certificate_pair w im =
     jbind (ensure_image w im) (\<lambda>u.
     let password = generate_password w DP_LOGICAL in
     jbind (jlift (keyring_generator_argv im)) (\<lambda>argv.
     jbind (jtry (docker_run w argv (Some (password @ [NL]))) (\<lambda>e.
        if is_caught_run e then Some (jfail ''the certificate generator did not complete (timeout or Docker error)'') else None)) (\<lambda>(rc, out, err).
       if rc = 2 then jfail ''the certificate generator refused its argument list or its output (exit 2)''
       else if rc \<noteq> 0 then jfail (fmt ''the certificate generator failed (exit %d)'' [show_int rc])
       else if \<not> list_all is_ascii out then jfail (''the certificate generator'' @ SQ @ ''s output is not ASCII'')
       else case pfx_shape_problem out of
         Some reason \<Rightarrow> jfail (''the certificate generator'' @ SQ @ ''s output '' @ reason)
       | None \<Rightarrow> jret (out, password))))"


section \<open>Commands\<close>

definition location_problems :: "(string \<Rightarrow> bool) \<Rightarrow> ppath \<Rightarrow> string list" where
  "location_problems has stack =
     msg_if (list_ex (\<lambda>c. has (path_text (path_sub c ''.git''))) (stack # path_parents stack))
       ''the stack folder is inside a Git working tree; use a folder outside every clone''"

definition stored_secrets :: "(nat \<times> nat \<times> folder) option \<Rightarrow> folder" where
  "stored_secrets dir = (case dir of None \<Rightarrow> [] | Some (m, u, d) \<Rightarrow> d)"

definition open_folder :: "stack_host \<Rightarrow> (nat \<times> nat \<times> folder) option \<Rightarrow> bool" where
  "open_folder w dir = (case dir of None \<Rightarrow> False | Some (m, u, d) \<Rightarrow> k_posix w \<and> others_any m)"

definition refuse_overwrite :: "string list \<Rightarrow> unit job" where
  "refuse_overwrite existing =
     jguard (existing \<noteq> []) (fmt ''refusing to overwrite %d existing secret file(s): %s'' [show_nat (length existing), join '', '' existing])"

definition write_pair :: "(string \<times> string) list \<Rightarrow> unit job" where
  "write_pair pairs = jbind (jmap (\<lambda>(name, content). jdo (Put name content)) pairs) (\<lambda>us. jret ())"

definition init_secret :: "stack_host \<Rightarrow> string \<Rightarrow> unit job" where
  "init_secret w logical = jbind (jlift (files_for (k_sha w) logical (generate_credential w logical))) write_pair"

text \<open>An entry of any kind counts as existing; a link that points nowhere is not told apart.\<close>

definition cmd_secrets_init :: "stack_host \<Rightarrow> unit job" where
  "cmd_secrets_init w =
     jbind (jlook (\<lambda>h. k_is_dir w h (path_text (k_stack w)))) (\<lambda>here.
     jbind (jguard (\<not> here) ''the stack folder does not exist (run `assemble` first)'') (\<lambda>u.
     jbind (jlook (\<lambda>h. location_problems (k_exists w h) (k_stack w))) (\<lambda>problems.
     jbind (jguard (problems \<noteq> []) (hd problems)) (\<lambda>u.
     jbind (jlook (k_secrets w)) (\<lambda>dir.
     jbind (refuse_overwrite (filter (dhas (stored_secrets dir)) SECRET_FILE_NAMES)) (\<lambda>u.
     jbind (jguard (open_folder w dir) ''the secrets folder must be mode 0700'') (\<lambda>u.
     jbind (bff_image w) (\<lambda>im.
     jbind (generate_certificate_pair w im) (\<lambda>certificate.
     jbind (jlook (k_secrets w)) (\<lambda>dir'.
     jbind (if dir' = None then ensure_dir w (in_stack w ''secrets'') SECRET_DIR_MODE else jret ()) (\<lambda>u.
     jbind (jmap (init_secret w) LOGICAL_SECRETS) (\<lambda>us.
       write_pair (certificate_files certificate)))))))))))))"

definition cmd_secrets_add :: "stack_host \<Rightarrow> unit job" where
  "cmd_secrets_add w =
     jbind (jlook (k_secrets w)) (\<lambda>dir.
     jbind (jguard (dir = None) ''the secrets folder does not exist (run `secrets init` on a new stack)'') (\<lambda>u.
     jbind (jguard (open_folder w dir) ''the secrets folder must be mode 0700'') (\<lambda>u.
     jbind (refuse_overwrite (filter (dhas (stored_secrets dir)) DP_SECRETS)) (\<lambda>u.
     jbind (bff_image w) (\<lambda>im.
     jbind (generate_certificate_pair w im) (\<lambda>certificate.
       write_pair (certificate_files certificate)))))))"

definition decode_fault :: fault where
  "decode_fault = \<lparr> f_kind = Value_error, f_class = ''UnicodeDecodeError'', f_text = [] \<rparr>"

text \<open>\<^verbatim>\<open>_read_secret\<close>. Reading as text turns a carriage return into a line feed; every shape refuses both.\<close>

definition read_secret :: "stack_host \<Rightarrow> string \<Rightarrow> string job" where
  "read_secret w name =
     jbind (jlook (\<lambda>h. file_of (stored_secrets (k_secrets w h)) name)) (\<lambda>f.
       case f of
         None \<Rightarrow> jfail (fmt ''secret %s does not exist'' [name])
       | Some f \<Rightarrow> (case k_decode w (sf_bytes f) of None \<Rightarrow> jraise decode_fault | Some t \<Rightarrow> jret t))"

definition shape_guard :: "string \<times> string \<Rightarrow> unit job" where
  "shape_guard nt =
     (case shape_problem (fst nt) (snd nt) of
        Some reason \<Rightarrow> jfail (fmt ''secret %s: %s; repair it before a rotation'' [fst nt, reason])
      | None \<Rightarrow> jret ())"

definition rotate_certificate :: "stack_host \<Rightarrow> bool \<Rightarrow> unit job" where
  "rotate_certificate w drop_previous =
     jbind (jmap (read_secret w) DP_SECRETS) (\<lambda>texts.
     let current = texts ! 0; current_password = texts ! 1; previous = texts ! 2; previous_password = texts ! 3 in
     jbind (jmap shape_guard (zip DP_SECRETS texts)) (\<lambda>us.
     jbind (jguard ((previous = []) \<noteq> (previous_password = [])) ''the previous certificate pair is half empty; repair it before a rotation'') (\<lambda>u.
     jbind (jguard (previous \<noteq> [] \<and> \<not> drop_previous)
       (''the previous certificate pair is not empty: a rotation would drop it. Run `secrets retire dataprotection_previous` ''
        @ ''once no live key needs it, or pass --drop-previous (the bff then refuses to start if a live key was wrapped by ''
        @ ''the dropped certificate)'')) (\<lambda>u.
     jbind (bff_image w) (\<lambda>im.
     jbind (generate_certificate_pair w im) (\<lambda>fresh.
     jbind (write_pair [(DP_PREVIOUS, current), (DP_PREVIOUS_PASSWORD, current_password)]) (\<lambda>u.
       write_pair [(DP_CERT, fst fresh), (DP_CERT_PASSWORD, snd fresh)])))))))"

record rotate_args =
  r_name :: string
  r_apply_db :: bool
  r_files_only :: bool
  r_drop_previous :: bool

definition ALTER_ARGS :: "string list" where
  "ALTER_ARGS = [''exec'', ''-T'', ''postgres'', ''psql'', ''-U'', ''postgres'', ''-d'', ''postgres'', ''-v'', ''ON_ERROR_STOP=1'']"

definition existing_guard :: "stack_host \<Rightarrow> string \<Rightarrow> unit job" where
  "existing_guard w name =
     jbind (jlook (\<lambda>h. file_of (stored_secrets (k_secrets w h)) name)) (\<lambda>f.
       jguard (f = None) (fmt ''secret %s does not exist: rotate only replaces, `secrets init` creates'' [name]))"

definition apply_db :: "stack_host \<Rightarrow> string \<Rightarrow> string \<Rightarrow> unit job" where
  "apply_db w logical v =
     jbind (jlift (alter_role_sql (val_of ROTATE_SQL_ROLE logical) (scram_verifier (k_pbkdf2 w) (k_hmac w) (k_hash w) v (k_salt w) 4096))) (\<lambda>sql.
       require_ok ''ALTER ROLE failed (exit %d); no file was changed'' (compose w ALTER_ARGS (Some sql)))"

definition cmd_secrets_rotate :: "stack_host \<Rightarrow> rotate_args \<Rightarrow> unit job" where
  "cmd_secrets_rotate w a =
     (let logical = r_name a in
      jbind (jlook (k_secrets w)) (\<lambda>dir.
      jbind (jguard (dir = None) ''the secrets folder does not exist'') (\<lambda>u.
      jbind (jguard (r_drop_previous a \<and> logical \<noteq> DP_LOGICAL) ''--drop-previous only applies to dataprotection_cert'') (\<lambda>u.
      if logical = DP_LOGICAL then
        jbind (jguard (r_apply_db a \<or> r_files_only a) ''--apply-db and --files-only only apply to database credentials'') (\<lambda>u.
          rotate_certificate w (r_drop_previous a))
      else
        jbind (jguard (dhas ROTATE_SQL_ROLE logical \<and> \<not> (r_apply_db a \<or> r_files_only a))
          ''this credential belongs to a database role: pass --apply-db (alter the role, then the files) or --files-only'') (\<lambda>u.
        jbind (jguard (r_apply_db a \<and> \<not> dhas ROTATE_SQL_ROLE logical) ''--apply-db only applies to postgres_superuser, migrator_db and keycloak_db'') (\<lambda>u.
        let v = generate_credential w logical in
        jbind (jlift (files_for (k_sha w) logical v)) (\<lambda>files.
        jbind (jmap (existing_guard w) (map fst files)) (\<lambda>us.
        jbind (if r_apply_db a then apply_db w logical v else jret ()) (\<lambda>u.
          write_pair files)))))))))"

definition retire_previous_certificate :: "stack_host \<Rightarrow> unit job" where
  "retire_previous_certificate w =
     jbind (read_secret w DP_PREVIOUS) (\<lambda>previous.
     jbind (read_secret w DP_PREVIOUS_PASSWORD) (\<lambda>previous_password.
       if previous = [] \<and> previous_password = [] then jret ()
       else write_pair [(DP_PREVIOUS, []), (DP_PREVIOUS_PASSWORD, [])]))"

definition cmd_secrets_retire :: "stack_host \<Rightarrow> string \<Rightarrow> unit job" where
  "cmd_secrets_retire w name =
     (if name = ''dataprotection_previous'' then retire_previous_certificate w
      else jbind (jlook (\<lambda>h. file_of (stored_secrets (k_secrets w h)) BOOTSTRAP_SECRET)) (\<lambda>f.
        jbind (jguard (f = None) ''secret keycloak_bootstrap_admin_password does not exist'') (\<lambda>u.
          jdo (Put BOOTSTRAP_SECRET []))))"

end
