(* ===== verification/Stack_Vault.thy ===== *)
theory Stack_Vault
  imports Stack_Secrets
begin

text \<open>
  What the secrets folder stands for: a store with one value per credential and the key ring's certificate pair. The
  commands of Stack_Secrets refine the operations on that store, a folder that represents a well-formed store passes the
  check, and an interrupted rotation is reported or not as the last sections say.
\<close>


section \<open>Shapes of generated values\<close>

definition alnum_text :: "nat \<Rightarrow> string \<Rightarrow> bool" where
  "alnum_text n t \<longleftrightarrow> n \<le> length t \<and> list_all is_alnum_ascii t"

lemma ALNUM32: "fullmatches ALNUM32_RE t \<longleftrightarrow> alnum_text 32 t"
  unfolding ALNUM32_RE_def alnum_text_def by (simp add: re_fullmatch_iff list_all_iff)

lemma ALNUM256: "fullmatches ALNUM32_256_RE t \<longleftrightarrow> alnum_text 32 t \<and> length t \<le> 256"
  unfolding ALNUM32_256_RE_def alnum_text_def by (auto simp: re_fullmatch_iff list_all_iff)

lemma ratleast_alnum: "t \<in> rlang ALNUM32_RE \<longleftrightarrow> alnum_text 32 t"
  unfolding ALNUM32_RE_def alnum_text_def by (simp add: list_all_iff)

lemma plain_ALNUM32 [simp]: "plain ALNUM32_RE"
  by (simp add: ALNUM32_RE_def)

lemma headed_match: "fullmatches (RSeq (rlit head) ALNUM32_RE) (head @ p) \<longleftrightarrow> alnum_text 32 p"
  by (subst re_fullmatch_iff) (simp_all add: ratleast_alnum)

lemma mt_FC_all:
  "list_all P p \<Longrightarrow> mt fs (if p = [] then q else Some (last p)) [] c \<noteq> None \<Longrightarrow>
   mt (FC P # fs) q p c = mt fs (if p = [] then q else Some (last p)) [] c"
proof (induction p arbitrary: q)
  case Nil
  then show ?case by (simp add: mt.simps(15))
next
  case (Cons x xs)
  have "mt (FC P # fs) (Some x) xs c = mt fs (if xs = [] then Some x else Some (last xs)) [] c"
    using Cons by (intro Cons.IH) (auto split: if_splits)
  with Cons.prems show ?case
    by (subst mt.simps(15)) (auto split: option.split if_splits simp del: not_None_eq)
qed

lemma mt_rlit:
  "mt (FR (rlit u) # fs) q s c = (if prefix u s then mt fs (if u = [] then q else Some (last u)) (drop (length u) s) c else None)"
proof (induction u arbitrary: q s)
  case Nil
  then show ?case by (simp add: mt.simps)
next
  case (Cons x xs)
  then show ?case by (cases s) (auto simp: mt.simps rchr_def)
qed

lemma search_skip:
  "mt [FR (RGroup 0 r)] q (x # xs) [] = None \<Longrightarrow>
   search_from r q (x # xs) = map_option (\<lambda>(skipped, m). (x # skipped, m)) (search_from r (Some x) xs)"
  by (subst search_from_code) simp

lemma search_hit:
  "mt [FR (RGroup 0 r)] q s [] = Some m \<Longrightarrow> search_from r q s = Some ([], m)"
  by (subst search_from_code) simp

lemmas mt_steps = mt.simps(1-14) mt.simps(16-21)

lemma password_here:
  assumes "p \<noteq> []" "list_all is_alnum_ascii p" "x \<in> {CHR ''P'', CHR ''p''}"
  shows "\<exists>q m. search_from PASSWORD_OF_RE q0 (x # ''assword='' @ p) = Some ([], q, [], m) \<and> group_text m 1 = p"
proof -
  from assms(1) obtain y ys where p: "p = y # ys" by (cases p) auto
  with assms(2) have al: "is_alnum_ascii y" "list_all is_alnum_ascii ys" by simp_all
  have e: "mt [FR (RGroup 0 PASSWORD_OF_RE)] q0 (x # ''assword='' @ p) [] =
      Some (if ys = [] then Some y else Some (last ys), [], [(0, x # ''assword='' @ p), (1, p)])"
    using assms(3) al unfolding PASSWORD_OF_RE_def p
    by (auto simp: mt_steps mt_rlit rplus_def rchr_def mt_FC_all simp del: rlit.simps)
  show ?thesis unfolding search_hit [OF e] by (simp add: group_text_def group_def)
qed

lemma password_skip:
  "\<not> prefix ''assword='' (tl s) \<Longrightarrow> mt [FR (RGroup 0 PASSWORD_OF_RE)] q s [] = None"
  unfolding PASSWORD_OF_RE_def by (cases s) (auto simp: mt_steps mt_rlit rchr_def simp del: rlit.simps)

lemma password_of_connection:
  assumes "p \<noteq> []" "list_all is_alnum_ascii p" "role \<in> {''decisya_migrator'', ''decisya_tenancy'', ''decisya_entitlements''}"
  shows "password_of (connection_string role p) = Some p"
proof -
  from password_here [OF assms(1,2), of "CHR ''P''" "Some (CHR '';'')"] obtain q m
    where e: "search_from PASSWORD_OF_RE (Some (CHR '';'')) (''Password='' @ p) = Some ([], q, [], m)" "group_text m 1 = p"
    by (auto simp del: search_from.simps run.simps)
  show ?thesis using assms(3) e
    by (auto simp: password_of_def re_search_def connection_string_def connection_head_def search_skip password_skip simp del: search_from.simps run.simps)
qed

lemma password_of_redis:
  assumes "p \<noteq> []" "list_all is_alnum_ascii p"
  shows "password_of (redis_connection_string p) = Some p"
proof -
  from password_here [OF assms(1,2), of "CHR ''p''" "Some (CHR '','')"] obtain q m
    where e: "search_from PASSWORD_OF_RE (Some (CHR '','')) (''password='' @ p) = Some ([], q, [], m)" "group_text m 1 = p"
    by (auto simp del: search_from.simps run.simps)
  show ?thesis using e
    by (auto simp: password_of_def re_search_def redis_connection_string_def redis_head_def REDIS_USER_def search_skip password_skip simp del: search_from.simps run.simps)
qed

lemma is_alnum_cases: "is_alnum_ascii c \<Longrightarrow> is_ascii c \<and> ccode c \<noteq> 10 \<and> ccode c \<noteq> 13"
  by (auto simp: is_alnum_ascii_def is_alpha_ascii_def is_lower_az_def is_upper_az_def is_digit_def in_range_def is_ascii_def)

lemma split_on_join: "\<forall>s\<in>set ss. d \<notin> set s \<Longrightarrow> ss \<noteq> [] \<Longrightarrow> split_on [d] (join [d] ss) = ss"
  by (induction "[d]" ss rule: join.induct) (simp_all add: split_on_not_in split_on_char)

definition hex64 :: "string \<Rightarrow> bool" where
  "hex64 s \<longleftrightarrow> length s = 64 \<and> list_all is_hex_lower s"

lemma bff_line: "fullmatches (rseq [rlit a, rrep 64 (RSet is_hex_lower), rlit b]) (a @ s @ b)" if "hex64 s"
proof (subst re_fullmatch_iff)
  show "plain (rseq [rlit a, rrep 64 (RSet is_hex_lower), rlit b])" by simp
  have "s \<in> rlang (rrep 64 (RSet is_hex_lower))" using that by (simp add: hex64_def list_all_iff)
  then show "a @ s @ b \<in> rlang (rseq [rlit a, rrep 64 (RSet is_hex_lower), rlit b])"
    by (auto intro!: rlang_RSeqI simp del: rlang_rrep_RSet)
qed

lemma acl_text_ok:
  assumes "hex64 (sha v)"
  shows "acl_ok (redis_acl_text sha v)"
proof -
  have nl: "\<forall>s\<in>set ACL_FIXED. NL \<notin> set s" "NL \<notin> set ACL_BFF_HEAD" "NL \<notin> set ACL_BFF_TAIL" "\<not> is_hex_lower NL" by code_simp+
  have line: "NL \<notin> set (ACL_BFF_HEAD @ sha v @ ACL_BFF_TAIL)" using nl assms by (auto simp: hex64_def list_all_iff)
  have sp: "split_on [NL] (redis_acl_text sha v) = ACL_FIXED @ [ACL_BFF_HEAD @ sha v @ ACL_BFF_TAIL]"
    unfolding redis_acl_text_def by (rule split_on_join) (use nl(1) line in auto)
  have fixed: "list_all (\<lambda>(p, l). fullmatches p l) (zip (map rlit ls) ls)" for ls
  proof (induction ls)
    case (Cons a ls)
    have "fullmatches (rlit a) a" by (simp add: re_fullmatch_iff del: not_None_eq)
    with Cons show ?case by (simp del: not_None_eq)
  qed simp
  show ?thesis unfolding acl_ok_def ACL_LINE_RES_def Let_def sp
    using fixed [of ACL_FIXED] bff_line [OF assms, of ACL_BFF_HEAD ACL_BFF_TAIL]
    by (simp del: not_None_eq re_fullmatch_None rseq.simps)
qed

text \<open>The policy names one hash, so the hash of another password is not found in it.\<close>

lemma acl_hash_unique:
  assumes "hex64 (sha v)" "hex64 d"
  shows "py_in (CHR ''#'' # d) (redis_acl_text sha v) \<longleftrightarrow> d = sha v"
proof -
  let ?a = "join [NL] ACL_FIXED @ [NL] @ butlast ACL_BFF_HEAD"
  have t: "redis_acl_text sha v = ?a @ CHR ''#'' # sha v @ ACL_BFF_TAIL"
    by (simp add: redis_acl_text_def ACL_FIXED_def ACL_BFF_HEAD_def)
  have no: "CHR ''#'' \<notin> set ?a" "CHR ''#'' \<notin> set ACL_BFF_TAIL" "\<not> is_hex_lower (CHR ''#'')" by code_simp+
  with assms have no': "CHR ''#'' \<notin> set (sha v @ ACL_BFF_TAIL)" by (auto simp: hex64_def list_all_iff)
  show ?thesis
  proof
    assume "py_in (CHR ''#'' # d) (redis_acl_text sha v)"
    then obtain x y where xy: "redis_acl_text sha v = x @ CHR ''#'' # d @ y" by (auto simp: sublist_def)
    have "x = ?a \<and> sha v @ ACL_BFF_TAIL = d @ y"
      using xy no(1) no' unfolding t by (metis append_Cons_eq_iff)
    with assms show "d = sha v" by (auto simp: hex64_def append_eq_append_conv2)
  next
    assume "d = sha v"
    then show "py_in (CHR ''#'' # d) (redis_acl_text sha v)" unfolding t sublist_def by (metis append_Cons)
  qed
qed


text \<open>Base64 decodes to as many bytes as were encoded.\<close>

lemma b64_digit_ok [simp]: "is_b64_char (b64_digit n)"
proof -
  have "list_all (\<lambda>k. is_b64_char (B64_CHARS ! k)) [0..<64]" by code_simp
  then show ?thesis by (simp add: list_all_iff b64_digit_def)
qed

lemma b64encode_parts:
  "\<exists>data. list_all is_b64_char data \<and> b64encode s = data @ replicate ((3 - length s mod 3) mod 3) (CHR ''='')
     \<and> length data = 4 * (length s div 3) + (if length s mod 3 = 0 then 0 else length s mod 3 + 1)"
proof (induction s rule: b64encode.induct)
  case 1
  then show ?case by simp
next
  case (2 a)
  show ?case unfolding b64encode.simps Let_def
    by (rule exI [of _ "[b64_digit (ccode a div 4), b64_digit (ccode a * 16)]"]) (simp add: numeral_2_eq_2)
next
  case (3 a b)
  let ?n = "ccode a * 256 + ccode b"
  show ?case unfolding b64encode.simps Let_def
    by (rule exI [of _ "[b64_digit (?n div 1024), b64_digit (?n div 16), b64_digit (?n * 4)]"]) simp
next
  case (4 a b c s)
  let ?n = "(ccode a * 256 + ccode b) * 256 + ccode c"
  from 4 obtain data where "list_all is_b64_char data" "b64encode s = data @ replicate ((3 - length s mod 3) mod 3) (CHR ''='')"
     "length data = 4 * (length s div 3) + (if length s mod 3 = 0 then 0 else length s mod 3 + 1)" by blast
  moreover have "length (a # b # c # s) mod 3 = length s mod 3" "length (a # b # c # s) div 3 = Suc (length s div 3)"
    using div_add_self1 [of 3 "length s"] by simp_all
  ultimately show ?case unfolding b64encode.simps Let_def
    by (intro exI [of _ "b64_digit (?n div 262144) # b64_digit (?n div 4096) # b64_digit (?n div 64) # b64_digit ?n # data"])
       (simp only: append_Cons list.pred_inject b64_digit_ok simp_thms, simp)
qed

lemma b64_length_encode: "b64_length (b64encode s) = Some (length s)"
proof -
  obtain data where d: "list_all is_b64_char data" "b64encode s = data @ replicate ((3 - length s mod 3) mod 3) (CHR ''='')"
     "length data = 4 * (length s div 3) + (if length s mod 3 = 0 then 0 else length s mod 3 + 1)" using b64encode_parts by blast
  have e: "\<not> is_b64_char (CHR ''='')" by code_simp
  have t: "takeWhile is_b64_char (data @ replicate k (CHR ''='')) = data" "dropWhile is_b64_char (data @ replicate k (CHR ''='')) = replicate k (CHR ''='')" for k
    using d(1) e by (cases k; simp add: takeWhile_append2 dropWhile_append2 list_all_iff)+
  consider "length s mod 3 = 0" | "length s mod 3 = 1" | "length s mod 3 = 2" by linarith
  then show ?thesis
  proof cases
    case 1
    then have "length data = 4 * (length s div 3)" using d(3) by simp
    moreover from 1 have "length s = 3 * (length s div 3)" by presburger
    ultimately show ?thesis using 1 unfolding b64_length_def d(2) t Let_def by simp
  next
    case 2
    then have n: "length data = 4 * (length s div 3) + 2" using d(3) by simp
    moreover from 2 have "length s = 3 * (length s div 3) + 1" by presburger
    ultimately have "3 * length data div 4 = length s" "length data mod 4 = 2" by presburger+
    with 2 show ?thesis unfolding b64_length_def d(2) t Let_def by (simp add: numeral_2_eq_2)
  next
    case 3
    then have n: "length data = 4 * (length s div 3) + 3" using d(3) by simp
    moreover from 3 have "length s = 3 * (length s div 3) + 2" by presburger
    ultimately have "3 * length data div 4 = length s" "length data mod 4 = 3" by presburger+
    with 3 show ?thesis unfolding b64_length_def d(2) t Let_def by simp
  qed
qed

lemma b64encode_chars: "list_all is_b64_text (b64encode s)"
  using b64encode_parts [of s] by (auto simp: is_b64_text_def list_all_iff)


section \<open>Checking a folder\<close>

text \<open>A text that is stored as it is: ASCII, not ending in a line break.\<close>

definition plain_text :: "string \<Rightarrow> bool" where
  "plain_text t \<longleftrightarrow> list_all is_ascii t \<and> \<not> ends_newline t"

definition decodes_ascii :: "stack_host \<Rightarrow> bool" where
  "decodes_ascii w \<longleftrightarrow> (\<forall>t. list_all is_ascii t \<longrightarrow> k_decode w t = Some t)"

text \<open>A folder that holds exactly the known files, each owned by the account and not writable by others, with the given texts.\<close>

definition holds_texts :: "stack_host \<Rightarrow> folder \<Rightarrow> (string \<Rightarrow> string) \<Rightarrow> bool" where
  "holds_texts w d t \<longleftrightarrow>
     set (dkeys d) \<subseteq> set SECRET_FILE_NAMES \<and>
     (\<forall>n\<in>set SECRET_FILE_NAMES. plain_text (t n) \<and>
        (\<exists>f. file_of d n = Some f \<and> sf_bytes f = t n \<and> \<not> group_writable (sf_mode f) \<and> sf_uid f = k_uid w))"

definition private_dir :: "stack_host \<Rightarrow> nat \<Rightarrow> nat \<Rightarrow> bool" where
  "private_dir w m u \<longleftrightarrow> \<not> others_any m \<and> u = k_uid w"

definition shaped :: "(string \<Rightarrow> string) \<Rightarrow> bool" where
  "shaped t \<longleftrightarrow> (\<forall>n\<in>set SECRET_FILE_NAMES. shape_problem n (t n) = None)"

definition all_contents :: "(string \<Rightarrow> string) \<Rightarrow> contents" where
  "all_contents t = map (\<lambda>n. (n, t n)) SECRET_FILE_NAMES"

lemma check_view:
  assumes "decodes_ascii w" "holds_texts w d t" "shaped t" "private_dir w m u"
  shows "secret_dir_problems w (Some (m, u, d)) = derived_problems (k_sha w) (all_contents t)"
proof -
  have one: "secret_file_check w d n = ([], [(n, t n)])" if "n \<in> set SECRET_FILE_NAMES" for n
    using assms(1-3) that
    unfolding secret_file_check_def holds_texts_def shaped_def decodes_ascii_def plain_text_def msg_if_def
    by (force simp: Let_def)
  have extra: "keys_minus (dkeys d) SECRET_FILE_NAMES = []"
    using assms(2) by (auto simp: holds_texts_def keys_minus_def filter_empty_conv)
  have eq: "map (secret_file_check w d) SECRET_FILE_NAMES = map (\<lambda>n. ([], [(n, t n)])) SECRET_FILE_NAMES"
    using one by simp
  have fst: "concat (map fst (map (secret_file_check w d) SECRET_FILE_NAMES)) = []" unfolding eq by simp
  have snd: "concat (map snd (map (secret_file_check w d) SECRET_FILE_NAMES)) = all_contents t"
  proof -
    have "concat (map snd (map (\<lambda>n. ([], [(n, t n)])) ns)) = map (\<lambda>n. (n, t n)) ns" for ns by (induction ns) simp_all
    then show ?thesis unfolding eq all_contents_def .
  qed
  show ?thesis
    using assms(4) unfolding secret_dir_problems_def Let_def option.case prod.case fst snd extra private_dir_def
    by (simp add: msg_if_def sorted_set_def)
qed

text \<open>Replacing one file.\<close>

definition put_file :: "nat \<Rightarrow> string \<Rightarrow> string \<Rightarrow> folder \<Rightarrow> folder" where
  "put_file uid n c d = (n, Some \<lparr> sf_bytes = c, sf_mode = 292, sf_uid = uid \<rparr>) # filter (\<lambda>e. fst e \<noteq> n) d"

fun apply_puts :: "nat \<Rightarrow> history \<Rightarrow> folder \<Rightarrow> folder" where
  "apply_puts uid [] d = d"
| "apply_puts uid (Put n c # es) d = apply_puts uid es (put_file uid n c d)"
| "apply_puts uid (e # es) d = apply_puts uid es d"

lemma file_of_put: "file_of (put_file uid n c d) m = (if m = n then Some \<lparr> sf_bytes = c, sf_mode = 292, sf_uid = uid \<rparr> else file_of d m)"
proof -
  have "map_of (filter (\<lambda>e. fst e \<noteq> n) d) m = map_of d m" if "m \<noteq> n" using that by (induction d) auto
  then show ?thesis by (auto simp: file_of_def put_file_def)
qed

lemma put_holds:
  assumes "holds_texts w d t" "n \<in> set SECRET_FILE_NAMES" "plain_text c"
  shows "holds_texts w (put_file (k_uid w) n c d) (t(n := c))"
proof -
  have "set (dkeys (put_file (k_uid w) n c d)) \<subseteq> insert n (set (dkeys d))" by (auto simp: put_file_def dkeys_def)
  moreover have "\<not> group_writable 292" by (simp add: group_writable_def)
  ultimately show ?thesis using assms by (auto simp: holds_texts_def file_of_put)
qed

lemma apply_puts_append: "apply_puts uid (a @ b) d = apply_puts uid b (apply_puts uid a d)"
  by (induction uid a d rule: apply_puts.induct) simp_all


section \<open>The credential store\<close>

text \<open>What the secrets folder stands for: one value per credential, the key ring's current certificate with its password, and
  the previous pair, empty when there is none.\<close>

record store =
  creds :: "string \<Rightarrow> string"
  current :: "string \<times> string"
  previous :: "string \<times> string"

definition certificate_texts :: "store \<Rightarrow> contents" where
  "certificate_texts s = [(DP_CERT, fst (current s)), (DP_CERT_PASSWORD, snd (current s)),
     (DP_PREVIOUS, fst (previous s)), (DP_PREVIOUS_PASSWORD, snd (previous s))]"

definition credential_files :: "(string \<Rightarrow> string) \<Rightarrow> string \<Rightarrow> string \<Rightarrow> contents" where
  "credential_files sha l v = (case files_for sha l v of Inl e \<Rightarrow> [] | Inr fs \<Rightarrow> fs)"

definition store_files :: "(string \<Rightarrow> string) \<Rightarrow> store \<Rightarrow> contents" where
  "store_files sha s = concat (map (\<lambda>l. credential_files sha l (creds s l)) LOGICAL_SECRETS) @ certificate_texts s"

definition store_text :: "(string \<Rightarrow> string) \<Rightarrow> store \<Rightarrow> string \<Rightarrow> string" where
  "store_text sha s n = (case map_of (store_files sha s) n of Some t \<Rightarrow> t | None \<Rightarrow> [])"

text \<open>A folder represents a store when it holds exactly the files derived from it.\<close>

definition represents :: "stack_host \<Rightarrow> folder \<Rightarrow> store \<Rightarrow> bool" where
  "represents w d s \<longleftrightarrow> holds_texts w d (store_text (k_sha w) s)"

definition password_ok :: "string \<Rightarrow> bool" where
  "password_ok p \<longleftrightarrow> alnum_text 32 p \<and> length p \<le> 256"

definition pair_ok :: "string \<times> string \<Rightarrow> bool" where
  "pair_ok c \<longleftrightarrow> pfx_shape_problem (fst c) = None \<and> password_ok (snd c)"

definition hash_key_ok :: "string \<Rightarrow> bool" where
  "hash_key_ok k \<longleftrightarrow> list_all is_b64_text k \<and> (\<exists>n\<ge>32. b64_length k = Some n)"

definition credential_ok :: "string \<Rightarrow> string \<Rightarrow> bool" where
  "credential_ok l v \<longleftrightarrow>
     (if l = ''user_id_hash_key'' then hash_key_ok v else alnum_text 32 v \<or> (l = ''keycloak_bootstrap'' \<and> v = []))"

definition store_ok :: "store \<Rightarrow> bool" where
  "store_ok s \<longleftrightarrow> (\<forall>l\<in>set LOGICAL_SECRETS. credential_ok l (creds s l)) \<and> pair_ok (current s) \<and>
     (previous s = ([], []) \<or> pair_ok (previous s) \<and> fst (previous s) \<noteq> fst (current s))"

lemma store_files_eq:
  "store_files sha s =
    [(''postgres_superuser_password'', creds s ''postgres_superuser''),
     (''migrator_db_password'', creds s ''migrator_db''),
     (''ConnectionStrings__decisya'', connection_string ''decisya_migrator'' (creds s ''migrator_db'')),
     (''Migrator__TenancyRolePassword'', creds s ''tenancy_db''),
     (''ConnectionStrings__tenancy'', connection_string ''decisya_tenancy'' (creds s ''tenancy_db'')),
     (''Migrator__EntitlementsRolePassword'', creds s ''entitlements_db''),
     (''ConnectionStrings__entitlements'', connection_string ''decisya_entitlements'' (creds s ''entitlements_db'')),
     (''keycloak_db_password'', creds s ''keycloak_db''),
     (''keycloak_bootstrap_admin_password'', creds s ''keycloak_bootstrap''),
     (''redis_acl'', redis_acl_text sha (creds s ''redis'')),
     (''ConnectionStrings__redis'', redis_connection_string (creds s ''redis'')),
     (''Bff__Oidc__ClientSecret'', creds s ''bff_client''),
     (''Decisya__Observability__UserIdHashKey'', creds s ''user_id_hash_key''),
     (DP_CERT, fst (current s)), (DP_CERT_PASSWORD, snd (current s)),
     (DP_PREVIOUS, fst (previous s)), (DP_PREVIOUS_PASSWORD, snd (previous s))]"
  by (simp add: store_files_def LOGICAL_SECRETS_def credential_files_def files_for_def certificate_texts_def)

definition FILE_NAMES :: "string list" where
  "FILE_NAMES = [''postgres_superuser_password'', ''migrator_db_password'', ''ConnectionStrings__decisya'', ''Migrator__TenancyRolePassword'',
     ''ConnectionStrings__tenancy'', ''Migrator__EntitlementsRolePassword'', ''ConnectionStrings__entitlements'', ''keycloak_db_password'',
     ''keycloak_bootstrap_admin_password'', ''redis_acl'', ''ConnectionStrings__redis'', ''Bff__Oidc__ClientSecret'',
     ''Decisya__Observability__UserIdHashKey'', DP_CERT, DP_CERT_PASSWORD, DP_PREVIOUS, DP_PREVIOUS_PASSWORD]"

lemma file_names: "set SECRET_FILE_NAMES = set FILE_NAMES"
  by code_simp

lemma names_of_files: "map fst (store_files sha s) = FILE_NAMES"
  by (simp add: store_files_eq FILE_NAMES_def)

lemma distinct_names: "distinct FILE_NAMES"
  by code_simp

lemma store_text_in: "(n, t) \<in> set (store_files sha s) \<Longrightarrow> store_text sha s n = t"
  using distinct_names names_of_files [of sha s] by (simp add: store_text_def map_of_is_SomeI)

text \<open>A property of all files of a store, one file at a time.\<close>

lemma all_files:
  "(\<forall>n\<in>set SECRET_FILE_NAMES. P n (store_text sha s n)) \<longleftrightarrow> list_all (\<lambda>(n, t). P n t) (store_files sha s)"
proof -
  have "set SECRET_FILE_NAMES = fst ` set (store_files sha s)"
    unfolding file_names names_of_files [of sha s, symmetric] by simp
  then show ?thesis by (force simp: list_all_iff dest: store_text_in)
qed

lemmas credential_oks = credential_ok_def LOGICAL_SECRETS_def

lemma pfx_b64: "pfx_shape_problem t = None \<Longrightarrow> t \<noteq> [] \<and> list_all is_b64_text t"
proof -
  assume "pfx_shape_problem t = None"
  then have "fullmatches PFX_RE t" by (auto simp: pfx_shape_problem_def split: if_splits)
  then have "t \<in> rlang PFX_RE" by (subst (asm) re_fullmatch_iff) (simp_all add: PFX_RE_def)
  then obtain a b where ab: "t = a @ b" "a \<in> rlang (rplus (RSet is_b64_char))" "b \<in> rlang (rupto 2 (rchr CHR ''=''))"
    unfolding PFX_RE_def by auto
  from ab(2) have "a \<noteq> []" "\<forall>c\<in>set a. is_b64_char c" by simp_all
  moreover from ab(3) have "\<forall>c\<in>set b. c = CHR ''=''" unfolding rchr_def by simp
  ultimately show ?thesis using ab(1) by (auto simp: list_all_iff is_b64_text_def)
qed

lemma plain_chars: "list_all P t \<Longrightarrow> (\<And>c. P c \<Longrightarrow> is_ascii c \<and> ccode c \<noteq> 10 \<and> ccode c \<noteq> 13) \<Longrightarrow> plain_text t"
  by (auto simp: plain_text_def ends_newline_def list_all_iff)

lemma plain_alnum: "list_all is_alnum_ascii t \<Longrightarrow> plain_text t"
  by (erule plain_chars) (rule is_alnum_cases)

lemma b64_text_cases: "is_b64_text c \<Longrightarrow> is_ascii c \<and> ccode c \<noteq> 10 \<and> ccode c \<noteq> 13"
  by (auto simp: is_b64_text_def is_b64_char_def is_ascii_def ccode_def dest: is_alnum_cases [unfolded is_ascii_def ccode_def])

lemma plain_b64: "list_all is_b64_text t \<Longrightarrow> plain_text t"
  by (erule plain_chars) (rule b64_text_cases)

lemma plain_append: "list_all is_ascii a \<Longrightarrow> plain_text b \<Longrightarrow> b \<noteq> [] \<Longrightarrow> plain_text (a @ b)"
  by (simp add: plain_text_def ends_newline_def)

lemma plain_Nil [simp]: "plain_text []"
  by (simp add: plain_text_def ends_newline_def)

lemma hex_ascii: "is_hex_lower c \<Longrightarrow> is_ascii c"
  by (auto simp: is_hex_lower_def is_digit_def in_range_def is_ascii_def)

lemma plain_acl: "hex64 (sha v) \<Longrightarrow> plain_text (redis_acl_text sha v)"
proof -
  assume h: "hex64 (sha v)"
  have "list_all is_ascii (join [NL] ACL_FIXED @ [NL] @ ACL_BFF_HEAD)" "plain_text ACL_BFF_TAIL" "ACL_BFF_TAIL \<noteq> []" by code_simp+
  then have "plain_text ((join [NL] ACL_FIXED @ [NL] @ ACL_BFF_HEAD) @ sha v @ ACL_BFF_TAIL)"
    using h hex_ascii by (intro plain_append) (auto simp: hex64_def list_all_iff plain_text_def ends_newline_def)
  then show ?thesis by (simp add: redis_acl_text_def ACL_FIXED_def)
qed

lemma plain_connection:
  "alnum_text 32 p \<Longrightarrow> role \<in> {''decisya_migrator'', ''decisya_tenancy'', ''decisya_entitlements''} \<Longrightarrow> plain_text (connection_string role p)"
proof -
  assume p: "alnum_text 32 p" and r: "role \<in> {''decisya_migrator'', ''decisya_tenancy'', ''decisya_entitlements''}"
  have "list_all (\<lambda>r. list_all is_ascii (connection_head r)) [''decisya_migrator'', ''decisya_tenancy'', ''decisya_entitlements'']" by code_simp
  with r have "list_all is_ascii (connection_head role)" by (auto simp: list_all_iff)
  with p show ?thesis unfolding connection_string_def by (intro plain_append plain_alnum) (auto simp: alnum_text_def)
qed

lemma plain_redis: "alnum_text 32 p \<Longrightarrow> plain_text (redis_connection_string p)"
proof -
  assume p: "alnum_text 32 p"
  have "list_all is_ascii redis_head" by code_simp
  with p show ?thesis unfolding redis_connection_string_def by (intro plain_append plain_alnum) (auto simp: alnum_text_def)
qed


lemma creds_alnum:
  assumes "store_ok s" and "l \<in> {''postgres_superuser'', ''migrator_db'', ''tenancy_db'', ''entitlements_db'', ''keycloak_db'', ''redis'', ''bff_client''}"
  shows "alnum_text 32 (creds s l)"
proof -
  have "l \<in> set LOGICAL_SECRETS" "l \<noteq> ''user_id_hash_key''" "l \<noteq> ''keycloak_bootstrap''" using assms(2) by (auto simp: LOGICAL_SECRETS_def)
  with assms(1) show ?thesis unfolding store_ok_def credential_ok_def by metis
qed

lemma creds_bootstrap: "store_ok s \<Longrightarrow> creds s ''keycloak_bootstrap'' = [] \<or> alnum_text 32 (creds s ''keycloak_bootstrap'')"
  by (auto simp: store_ok_def credential_ok_def LOGICAL_SECRETS_def)

lemma creds_hash_key: "store_ok s \<Longrightarrow> hash_key_ok (creds s ''user_id_hash_key'')"
  by (auto simp: store_ok_def credential_ok_def LOGICAL_SECRETS_def)

lemma alnum_list: "alnum_text n t \<Longrightarrow> list_all is_alnum_ascii t"
  by (simp add: alnum_text_def)

lemma alnum_nonempty: "alnum_text 32 t \<Longrightarrow> t \<noteq> []"
  by (auto simp: alnum_text_def)

lemma pair_plain: "pair_ok c \<Longrightarrow> plain_text (fst c) \<and> plain_text (snd c)"
  by (auto simp: pair_ok_def password_ok_def intro: plain_b64 plain_alnum alnum_list dest: pfx_b64)

lemma store_plain:
  assumes "store_ok s" "\<And>v. hex64 (sha v)" and n: "n \<in> set SECRET_FILE_NAMES"
  shows "plain_text (store_text sha s n)"
proof -
  note al = creds_alnum [OF assms(1)]
  have "plain_text (fst (previous s)) \<and> plain_text (snd (previous s))"
    using assms(1) by (auto simp: store_ok_def dest: pair_plain)
  moreover have "plain_text (fst (current s)) \<and> plain_text (snd (current s))"
    using assms(1) by (auto simp: store_ok_def dest: pair_plain)
  moreover have "plain_text (creds s ''keycloak_bootstrap'')" using creds_bootstrap [OF assms(1)] by (auto intro: plain_alnum alnum_list)
  moreover have "plain_text (creds s ''user_id_hash_key'')"
    using creds_hash_key [OF assms(1)] by (auto simp: hash_key_ok_def intro: plain_b64)
  moreover have "plain_text (creds s l)" if "l \<in> {''postgres_superuser'', ''migrator_db'', ''tenancy_db'', ''entitlements_db'', ''keycloak_db'', ''redis'', ''bff_client''}" for l
    using al [OF that] by (intro plain_alnum alnum_list)
  moreover have "plain_text (connection_string ''decisya_migrator'' (creds s ''migrator_db''))"
    "plain_text (connection_string ''decisya_tenancy'' (creds s ''tenancy_db''))"
    "plain_text (connection_string ''decisya_entitlements'' (creds s ''entitlements_db''))"
    "plain_text (redis_connection_string (creds s ''redis''))"
    by (rule plain_connection plain_redis, rule al, simp, simp?)+
  moreover note plain_acl [of sha, OF assms(2)]
  ultimately have "list_all (\<lambda>(n, t). plain_text t) (store_files sha s)" unfolding store_files_eq by simp
  with n show ?thesis by (simp only: all_files [symmetric])
qed

lemma shape_simple:
  assumes "n \<in> set PASSWORD_FILES" "alnum_text 32 t"
  shows "shape_problem n t = None"
proof -
  have "list_all (\<lambda>n. n \<notin> {DP_CERT, DP_PREVIOUS, DP_CERT_PASSWORD, DP_PREVIOUS_PASSWORD}) PASSWORD_FILES" by code_simp
  with assms show ?thesis unfolding shape_problem_def reason_unless_def ALNUM32 list_all_iff by simp
qed

lemma shape_connection:
  assumes "(n, role) \<in> set CONNECTION_USERS" "alnum_text 32 t"
  shows "shape_problem n (connection_string role t) = None"
proof -
  have "list_all (\<lambda>(n, role). n \<notin> {DP_CERT, DP_PREVIOUS, DP_CERT_PASSWORD, DP_PREVIOUS_PASSWORD, ''keycloak_bootstrap_admin_password'',
      ''Decisya__Observability__UserIdHashKey''} \<and> n \<notin> set PASSWORD_FILES \<and> dhas CONNECTION_USERS n \<and> map_of CONNECTION_USERS n = Some role) CONNECTION_USERS"
    by code_simp
  then have f: "n \<noteq> DP_CERT" "n \<noteq> DP_PREVIOUS" "n \<noteq> DP_CERT_PASSWORD" "n \<noteq> DP_PREVIOUS_PASSWORD" "n \<noteq> ''keycloak_bootstrap_admin_password''"
      "n \<noteq> ''Decisya__Observability__UserIdHashKey''" "n \<notin> set PASSWORD_FILES" "dhas CONNECTION_USERS n" "map_of CONNECTION_USERS n = Some role"
    using assms(1) unfolding list_all_iff by blast+
  show ?thesis unfolding shape_problem_def reason_unless_def connection_string_def
    by (simp only: f if_False if_True option.sel headed_match assms(2))
qed

lemma store_shaped:
  assumes "store_ok s" "\<And>v. hex64 (sha v)"
  shows "shaped (store_text sha s)"
proof -
  note al = creds_alnum [OF assms(1)]
  have cur: "pair_ok (current s)" and prev: "previous s = ([], []) \<or> pair_ok (previous s)" using assms(1) by (auto simp: store_ok_def)
  have "list_all (\<lambda>(n, t). shape_problem n t = None) (store_files sha s)"
    unfolding store_files_eq list.pred_inject prod.case
  proof (intro conjI)
    show "shape_problem DP_CERT (fst (current s)) = None" using cur by (simp add: shape_problem_def pair_ok_def)
    show "shape_problem DP_PREVIOUS (fst (previous s)) = None" using prev
      by (auto simp: shape_problem_def pair_ok_def DP_CERT_def DP_PREVIOUS_def)
    show "shape_problem DP_CERT_PASSWORD (snd (current s)) = None" using cur
      by (simp add: shape_problem_def pair_ok_def password_ok_def reason_unless_def ALNUM256 DP_CERT_def DP_PREVIOUS_def DP_CERT_PASSWORD_def del: not_None_eq re_fullmatch_None)
    show "shape_problem DP_PREVIOUS_PASSWORD (snd (previous s)) = None" using prev
      by (auto simp: shape_problem_def pair_ok_def password_ok_def reason_unless_def ALNUM256 DP_CERT_def DP_PREVIOUS_def DP_CERT_PASSWORD_def DP_PREVIOUS_PASSWORD_def simp del: not_None_eq re_fullmatch_None)
    show "shape_problem ''keycloak_bootstrap_admin_password'' (creds s ''keycloak_bootstrap'') = None" using creds_bootstrap [OF assms(1)]
      by (auto simp: shape_problem_def reason_unless_def ALNUM32 PASSWORD_FILES_def DP_CERT_def DP_PREVIOUS_def DP_CERT_PASSWORD_def DP_PREVIOUS_PASSWORD_def simp del: not_None_eq re_fullmatch_None)
    show "shape_problem ''redis_acl'' (redis_acl_text sha (creds s ''redis'')) = None" using acl_text_ok [of sha, OF assms(2)]
      by (simp add: shape_problem_def reason_unless_def PASSWORD_FILES_def CONNECTION_USERS_def dhas_def DP_CERT_def DP_PREVIOUS_def DP_CERT_PASSWORD_def DP_PREVIOUS_PASSWORD_def)
    show "shape_problem ''Decisya__Observability__UserIdHashKey'' (creds s ''user_id_hash_key'') = None" using creds_hash_key [OF assms(1)]
      by (auto simp: hash_key_ok_def shape_problem_def reason_unless_def PASSWORD_FILES_def DP_CERT_def DP_PREVIOUS_def DP_CERT_PASSWORD_def DP_PREVIOUS_PASSWORD_def)
    show "shape_problem ''ConnectionStrings__redis'' (redis_connection_string (creds s ''redis'')) = None" using al [of "''redis''"]
      by (simp add: shape_problem_def redis_connection_string_def headed_match reason_unless_def PASSWORD_FILES_def CONNECTION_USERS_def dhas_def DP_CERT_def DP_PREVIOUS_def DP_CERT_PASSWORD_def DP_PREVIOUS_PASSWORD_def del: not_None_eq re_fullmatch_None)
    show "list_all (\<lambda>(n, t). shape_problem n t = None) []" by simp
  qed (rule shape_connection shape_simple, simp add: CONNECTION_USERS_def PASSWORD_FILES_def, rule al, simp)+
  then show ?thesis unfolding shaped_def by (rule all_files [where P = "\<lambda>n t. shape_problem n t = None", THEN iffD2])
qed


section \<open>What the check accepts\<close>

text \<open>The derived files carry the credential, the previous pair is empty together and is not the current one.\<close>

definition redis_consistent :: "(string \<Rightarrow> string) \<Rightarrow> (string \<Rightarrow> string) \<Rightarrow> bool" where
  "redis_consistent sha t \<longleftrightarrow>
     py_in (''#'' @ sha (case password_of (t ''ConnectionStrings__redis'') of Some p \<Rightarrow> p | None \<Rightarrow> [])) (t ''redis_acl'')"

definition consistent :: "(string \<Rightarrow> string) \<Rightarrow> (string \<Rightarrow> string) \<Rightarrow> bool" where
  "consistent sha t \<longleftrightarrow>
     (\<forall>(derived, source)\<in>set DERIVED_PAIRS. password_of (t derived) = Some (t source)) \<and>
     (t DP_PREVIOUS = [] \<longleftrightarrow> t DP_PREVIOUS_PASSWORD = []) \<and> (t DP_PREVIOUS = [] \<or> t DP_PREVIOUS \<noteq> t DP_CERT) \<and>
     redis_consistent sha t"

lemma contents_of: "n \<in> set SECRET_FILE_NAMES \<Longrightarrow> map_of (all_contents t) n = Some (t n)"
  by (simp add: all_contents_def map_of_map_restrict)

lemma pairs_known:
  "(d, s) \<in> set DERIVED_PAIRS \<Longrightarrow> d \<in> set SECRET_FILE_NAMES \<and> s \<in> set SECRET_FILE_NAMES"
  "DP_PREVIOUS \<in> set SECRET_FILE_NAMES" "DP_PREVIOUS_PASSWORD \<in> set SECRET_FILE_NAMES" "DP_CERT \<in> set SECRET_FILE_NAMES"
  "DP_CERT_PASSWORD \<in> set SECRET_FILE_NAMES" "''ConnectionStrings__redis'' \<in> set SECRET_FILE_NAMES" "''redis_acl'' \<in> set SECRET_FILE_NAMES"
proof -
  have "list_all (\<lambda>(d, s). d \<in> set FILE_NAMES \<and> s \<in> set FILE_NAMES) DERIVED_PAIRS" by code_simp
  then show "(d, s) \<in> set DERIVED_PAIRS \<Longrightarrow> d \<in> set SECRET_FILE_NAMES \<and> s \<in> set SECRET_FILE_NAMES"
    unfolding file_names list_all_iff by blast
qed (simp_all add: file_names FILE_NAMES_def)

lemma redis_shapes: "shape_problem ''ConnectionStrings__redis'' [] \<noteq> None" "shape_problem ''redis_acl'' [] \<noteq> None"
  by code_simp+

lemma derived_iff:
  assumes "shaped t"
  shows "derived_problems sha (all_contents t) = [] \<longleftrightarrow> consistent sha t"
proof -
  have shape: "shape_problem n (t n) = None" if "n \<in> set SECRET_FILE_NAMES" for n using assms that by (simp add: shaped_def)
  have pair: "derived_pair_problem (all_contents t) p = [] \<longleftrightarrow> password_of (t (fst p)) = Some (t (snd p))" if "p \<in> set DERIVED_PAIRS" for p
    using that pairs_known(1) [of "fst p" "snd p"] by (simp add: derived_pair_problem_def contents_of shape)
  have prev: "previous_problems (all_contents t) = [] \<longleftrightarrow>
     (t DP_PREVIOUS = [] \<longleftrightarrow> t DP_PREVIOUS_PASSWORD = []) \<and> (t DP_PREVIOUS = [] \<or> t DP_PREVIOUS \<noteq> t DP_CERT)"
    by (auto simp: previous_problems_def contents_of pairs_known)
  have ne: "t ''ConnectionStrings__redis'' \<noteq> []" "t ''redis_acl'' \<noteq> []"
    using shape [OF pairs_known(6)] shape [OF pairs_known(7)] redis_shapes by metis+
  have redis: "redis_problems sha (all_contents t) = [] \<longleftrightarrow> redis_consistent sha t"
    unfolding redis_problems_def redis_consistent_def contents_of [OF pairs_known(6)] contents_of [OF pairs_known(7)] prod.case option.case
    by (simp only: msg_if_Nil ne shape [OF pairs_known(6)] shape [OF pairs_known(7)] simp_thms)
  show ?thesis unfolding derived_problems_def consistent_def append_is_Nil_conv prev redis
    using pair by (auto simp: concat_eq_Nil_conv)
qed

lemma check_iff:
  assumes "decodes_ascii w" "holds_texts w d t" "shaped t" "private_dir w m u"
  shows "secret_dir_problems w (Some (m, u, d)) = [] \<longleftrightarrow> consistent (k_sha w) t"
  unfolding check_view [OF assms] derived_iff [OF assms(3)] by (rule refl)

lemma store_text_simps:
  "store_text sha s ''ConnectionStrings__decisya'' = connection_string ''decisya_migrator'' (creds s ''migrator_db'')"
  "store_text sha s ''ConnectionStrings__tenancy'' = connection_string ''decisya_tenancy'' (creds s ''tenancy_db'')"
  "store_text sha s ''ConnectionStrings__entitlements'' = connection_string ''decisya_entitlements'' (creds s ''entitlements_db'')"
  "store_text sha s ''migrator_db_password'' = creds s ''migrator_db''"
  "store_text sha s ''Migrator__TenancyRolePassword'' = creds s ''tenancy_db''"
  "store_text sha s ''Migrator__EntitlementsRolePassword'' = creds s ''entitlements_db''"
  "store_text sha s ''redis_acl'' = redis_acl_text sha (creds s ''redis'')"
  "store_text sha s ''ConnectionStrings__redis'' = redis_connection_string (creds s ''redis'')"
  "store_text sha s DP_CERT = fst (current s)" "store_text sha s DP_CERT_PASSWORD = snd (current s)"
  "store_text sha s DP_PREVIOUS = fst (previous s)" "store_text sha s DP_PREVIOUS_PASSWORD = snd (previous s)"
  by (rule store_text_in, simp add: store_files_eq)+

lemma password_of_generated:
  "alnum_text 32 p \<Longrightarrow> role \<in> {''decisya_migrator'', ''decisya_tenancy'', ''decisya_entitlements''} \<Longrightarrow> password_of (connection_string role p) = Some p"
  "alnum_text 32 p \<Longrightarrow> password_of (redis_connection_string p) = Some p"
  by (rule password_of_connection password_of_redis; simp add: alnum_nonempty alnum_list)+

lemma store_consistent:
  assumes "store_ok s" "\<And>v. hex64 (sha v)"
  shows "consistent sha (store_text sha s)"
proof -
  have "alnum_text 32 (creds s l)" if "l \<in> {''migrator_db'', ''tenancy_db'', ''entitlements_db'', ''redis''}" for l
    using creds_alnum [OF assms(1)] that by blast
  then have pw: "password_of (connection_string ''decisya_migrator'' (creds s ''migrator_db'')) = Some (creds s ''migrator_db'')"
    "password_of (connection_string ''decisya_tenancy'' (creds s ''tenancy_db'')) = Some (creds s ''tenancy_db'')"
    "password_of (connection_string ''decisya_entitlements'' (creds s ''entitlements_db'')) = Some (creds s ''entitlements_db'')"
    "password_of (redis_connection_string (creds s ''redis'')) = Some (creds s ''redis'')"
    by (simp_all add: password_of_generated)
  have "redis_consistent sha (store_text sha s)"
    unfolding redis_consistent_def store_text_simps pw option.case append.simps using acl_hash_unique [of sha, OF assms(2) assms(2)] by blast
  moreover have "\<forall>(derived, source)\<in>set DERIVED_PAIRS. password_of (store_text sha s derived) = Some (store_text sha s source)"
    by (simp only: DERIVED_PAIRS_def list.set ball_simps prod.case store_text_simps pw simp_thms)
  moreover have "pfx_shape_problem [] \<noteq> None" by code_simp
  ultimately show ?thesis
    using assms(1) unfolding consistent_def store_text_simps
    by (auto simp: store_ok_def pair_ok_def password_ok_def dest: alnum_nonempty)
qed

text \<open>A folder that represents a well-formed store passes the check.\<close>

lemma represented_passes:
  assumes "decodes_ascii w" "\<And>v. hex64 (k_sha w v)" "represents w d s" "store_ok s" "private_dir w m u"
  shows "secret_dir_problems w (Some (m, u, d)) = []"
  using check_iff [OF assms(1) assms(3) [unfolded represents_def] store_shaped [of s "k_sha w", OF assms(4,2)] assms(5)] store_consistent [of s "k_sha w", OF assms(4,2)] by blast


section \<open>Jobs that replace no secret\<close>

fun is_put :: "event \<Rightarrow> bool" where
  "is_put (Put n c) = True"
| "is_put e = False"

abbreviation quiet :: "'a job \<Rightarrow> bool" where
  "quiet m \<equiv> emits (\<lambda>e. \<not> is_put e) m"

lemma quiet_docker: "quiet (docker_run w argv stdin)"
  by (auto simp: emits_def docker_run_def split: option.split)

lemma quiet_compose: "quiet (compose w args stdin)"
  by (simp add: compose_def quiet_docker)

lemmas quiet_intros = emits_silent emits_jmap quiet_docker quiet_compose

lemma quiet_require_ok: "quiet m \<Longrightarrow> quiet (require_ok label m)"
  unfolding require_ok_def by (rule emits_jbind) (auto intro: quiet_intros)

lemma quiet_read_env: "quiet (read_env w)"
  unfolding read_env_def by (intro emits_jbind quiet_intros) (auto intro!: emits_jbind quiet_intros)

lemma quiet_bff_image: "quiet (bff_image w)"
  unfolding bff_image_def Let_def by (rule emits_jbind, rule quiet_read_env) (auto intro: quiet_intros split: prod.split option.split)

lemma quiet_ensure_image: "quiet (ensure_image w im)"
  unfolding ensure_image_def by (intro emits_jbind quiet_intros) (auto intro!: emits_jbind quiet_intros split: prod.split)

lemma quiet_generate: "quiet (generate_certificate_pair w im)"
  unfolding generate_certificate_pair_def Let_def
  by (intro emits_jbind emits_jtry quiet_ensure_image quiet_intros)
     (auto intro!: quiet_intros split: prod.split option.split if_splits)

lemma quiet_ensure_dir: "quiet (ensure_dir w p mode)"
  unfolding ensure_dir_def by (auto intro!: emits_jbind emits_jdo emits_silent)

lemma quiet_apply_db: "quiet (apply_db w l v)"
  unfolding apply_db_def by (intro emits_jbind quiet_require_ok quiet_intros)

lemma apply_quiet: "\<forall>e\<in>set evs. \<not> is_put e \<Longrightarrow> apply_puts uid evs d = d"
  by (induction uid evs d rule: apply_puts.induct) simp_all

lemma generated_pair:
  assumes "generate_certificate_pair w im h = (h', Inr c)"
  shows "pfx_shape_problem (fst c) = None \<and> snd c = generate_password w DP_LOGICAL"
  using assms unfolding generate_certificate_pair_def Let_def
  by (auto split: if_splits option.splits)

lemma jmap_same:
  "(\<And>x h h' y. x \<in> set xs \<Longrightarrow> f x h = (h', Inr y) \<Longrightarrow> h' = h) \<Longrightarrow> jmap f xs h = (h', Inr ys) \<Longrightarrow> h' = h"
  by (induction xs arbitrary: h ys) (fastforce)+

definition put_events :: "contents \<Rightarrow> history" where
  "put_events fs = map (\<lambda>(n, c). Put n c) fs"

lemma write_pair_eq [simp]: "write_pair fs h = (h @ put_events fs, Inr ())"
proof -
  have "jmap (\<lambda>(name, content). jdo (Put name content)) fs h = (h @ put_events fs, Inr (map (\<lambda>x. ()) fs))" for h
    by (induction fs arbitrary: h) (auto simp: put_events_def jbind_def jret_def jdo_def)
  then show ?thesis by (simp add: write_pair_def jbind_def jret_def)
qed


section \<open>The commands refine operations on the store\<close>

datatype secret_cmd = Rotate rotate_args | Retire string

definition secrets_job :: "stack_host \<Rightarrow> secret_cmd \<Rightarrow> unit job" where
  "secrets_job w cmd = (case cmd of Rotate a \<Rightarrow> cmd_secrets_rotate w a | Retire name \<Rightarrow> cmd_secrets_retire w name)"

text \<open>The names that \<^verbatim>\<open>build_parser\<close> lets through.\<close>

definition parsed :: "secret_cmd \<Rightarrow> bool" where
  "parsed cmd = (case cmd of
     Rotate a \<Rightarrow> r_name a \<in> set LOGICAL_SECRETS \<or> r_name a = DP_LOGICAL
   | Retire name \<Rightarrow> name \<in> {''keycloak_bootstrap'', ''dataprotection_previous''})"

definition with_credential :: "string \<Rightarrow> string \<Rightarrow> store \<Rightarrow> store" where
  "with_credential l v s = s\<lparr>creds := (creds s)(l := v)\<rparr>"

inductive store_step :: "stack_host \<Rightarrow> store \<Rightarrow> secret_cmd \<Rightarrow> store \<Rightarrow> bool" for w :: stack_host where
  rotate: "r_name a \<in> set LOGICAL_SECRETS \<Longrightarrow> \<not> r_drop_previous a \<Longrightarrow>
     dhas ROTATE_SQL_ROLE (r_name a) \<longrightarrow> r_apply_db a \<or> r_files_only a \<Longrightarrow>
     store_step w s (Rotate a) (with_credential (r_name a) (generate_credential w (r_name a)) s)"
| rotate_certificate: "r_name a = DP_LOGICAL \<Longrightarrow> previous s = ([], []) \<or> r_drop_previous a \<Longrightarrow> pfx_shape_problem c = None \<Longrightarrow>
     store_step w s (Rotate a) (s\<lparr>previous := current s, current := (c, generate_password w DP_LOGICAL)\<rparr>)"
| retire_bootstrap: "store_step w s (Retire ''keycloak_bootstrap'') (with_credential ''keycloak_bootstrap'' [] s)"
| retire_previous: "store_step w s (Retire ''dataprotection_previous'') (s\<lparr>previous := ([], [])\<rparr>)"

definition update_texts :: "contents \<Rightarrow> (string \<Rightarrow> string) \<Rightarrow> string \<Rightarrow> string" where
  "update_texts fs t n = (case map_of fs n of Some c \<Rightarrow> c | None \<Rightarrow> t n)"

lemma puts_hold:
  "holds_texts w d t \<Longrightarrow> distinct (map fst fs) \<Longrightarrow> \<forall>(n, c)\<in>set fs. n \<in> set SECRET_FILE_NAMES \<and> plain_text c \<Longrightarrow>
   holds_texts w (apply_puts (k_uid w) (put_events fs) d) (update_texts fs t)"
proof (induction fs arbitrary: d t)
  case Nil
  then show ?case by (simp add: put_events_def update_texts_def [abs_def])
next
  case (Cons x fs)
  obtain n c where x: "x = (n, c)" by (cases x)
  with Cons.prems have "holds_texts w (put_file (k_uid w) n c d) (t(n := c))" by (intro put_holds) auto
  from Cons.prems have rest: "distinct (map fst fs)" "\<forall>(n, c)\<in>set fs. n \<in> set SECRET_FILE_NAMES \<and> plain_text c" by simp_all
  have "holds_texts w (apply_puts (k_uid w) (put_events fs) (put_file (k_uid w) n c d)) (update_texts fs (t(n := c)))"
    by (rule Cons.IH) fact+
  moreover have "update_texts fs (t(n := c)) = update_texts (x # fs) t"
  proof
    fix m
    have "map_of fs n = None" using Cons.prems(2) x by (auto simp: map_of_eq_None_iff)
    then show "update_texts fs (t(n := c)) m = update_texts (x # fs) t m" by (auto simp: update_texts_def x split: option.split)
  qed
  ultimately show ?case by (simp add: put_events_def x)
qed

lemma holds_cong: "holds_texts w d t \<Longrightarrow> (\<And>n. n \<in> set SECRET_FILE_NAMES \<Longrightarrow> t n = t' n) \<Longrightarrow> holds_texts w d t'"
  by (auto simp: holds_texts_def)

lemma represents_puts:
  assumes "represents w d s" "distinct (map fst fs)" "set fs \<subseteq> set (store_files (k_sha w) s')"
    and "\<forall>(n, c)\<in>set fs. plain_text c"
    and "\<And>n. n \<in> set SECRET_FILE_NAMES \<Longrightarrow> n \<notin> fst ` set fs \<Longrightarrow> store_text (k_sha w) s' n = store_text (k_sha w) s n"
  shows "represents w (apply_puts (k_uid w) (put_events fs) d) s'"
proof -
  have "\<forall>(n, c)\<in>set fs. n \<in> set SECRET_FILE_NAMES \<and> plain_text c"
  proof clarify
    fix n c assume "(n, c) \<in> set fs"
    then have m: "(n, c) \<in> set (store_files (k_sha w) s')" using assms(3) by blast
    then have "n \<in> set SECRET_FILE_NAMES" unfolding file_names names_of_files [of "k_sha w" s', symmetric] by force
    moreover from assms(4) \<open>(n, c) \<in> set fs\<close> have "plain_text c" by blast
    ultimately show "n \<in> set SECRET_FILE_NAMES \<and> plain_text c" ..
  qed
  from puts_hold [OF assms(1) [unfolded represents_def] assms(2) this] show ?thesis unfolding represents_def
  proof (rule holds_cong)
    fix n assume n: "n \<in> set SECRET_FILE_NAMES"
    show "update_texts fs (store_text (k_sha w) s) n = store_text (k_sha w) s' n"
    proof (cases "map_of fs n")
      case None
      then have "n \<notin> fst ` set fs" by (simp add: map_of_eq_None_iff)
      with assms(5) [OF n] None show ?thesis by (simp add: update_texts_def)
    next
      case (Some c)
      then have "(n, c) \<in> set (store_files (k_sha w) s')" using assms(3) by (blast dest: map_of_SomeD)
      from store_text_in [OF this] Some show ?thesis by (simp add: update_texts_def)
    qed
  qed
qed

text \<open>A credential changes only its own files.\<close>

lemma credential_names: "map fst (credential_files sha l v) = map fst (credential_files sha l v')"
  by (simp add: credential_files_def files_for_def)

lemma credential_absent: "n \<notin> fst ` set (credential_files sha l v) \<Longrightarrow> map_of (credential_files sha l v') n = None"
  using credential_names [of sha l v v'] by (metis list.set_map map_of_eq_None_iff)

lemma credential_only:
  assumes "l \<in> set LOGICAL_SECRETS" "n \<notin> fst ` set (credential_files sha l v)"
  shows "store_text sha (with_credential l v s) n = store_text sha s n"
proof -
  have "map_of (credential_files sha l' (creds (with_credential l v s) l')) n = map_of (credential_files sha l' (creds s l')) n" for l'
    using credential_absent [OF assms(2)] by (cases "l' = l") (simp_all add: with_credential_def)
  then have "map_of (concat (map (\<lambda>l'. credential_files sha l' (creds (with_credential l v s) l')) ls)) n
      = map_of (concat (map (\<lambda>l'. credential_files sha l' (creds s l')) ls)) n" for ls
    by (induction ls) (simp_all add: map_add_def split: option.split)
  then show ?thesis
    by (simp add: store_text_def store_files_def map_add_def certificate_texts_def with_credential_def)
qed

lemma credential_in_store:
  assumes "l \<in> set LOGICAL_SECRETS"
  shows "set (credential_files sha l v) \<subseteq> set (store_files sha (with_credential l v s))"
  using assms by (auto simp: store_files_def with_credential_def intro!: bexI [of _ l])

lemma credential_files_distinct: "distinct (map fst (credential_files sha l v))"
  by (simp add: credential_files_def files_for_def)

lemma credential_files_Inr: "files_for sha l v = Inr fs \<Longrightarrow> credential_files sha l v = fs"
  by (simp add: credential_files_def)


text \<open>The values are drawn as the source draws them: characters from the alphabet, and 32 bytes for the hash key.\<close>

definition draws_ok :: "stack_host \<Rightarrow> bool" where
  "draws_ok w \<longleftrightarrow> (\<forall>l n. k_choice w l n \<in> set ALNUM) \<and> (\<forall>l. length (k_token w l) = 32)"

lemma generated_password: "draws_ok w \<Longrightarrow> alnum_text 48 (generate_password w l)"
proof -
  assume "draws_ok w"
  moreover have "list_all is_alnum_ascii ALNUM" by code_simp
  ultimately show ?thesis by (auto simp: draws_ok_def alnum_text_def generate_password_def PASSWORD_LENGTH_def list_all_iff)
qed

lemma generated_password_ok: "draws_ok w \<Longrightarrow> password_ok (generate_password w l)"
  using generated_password [of w l] by (auto simp: password_ok_def alnum_text_def generate_password_def PASSWORD_LENGTH_def)

lemma generated_ok: "draws_ok w \<Longrightarrow> credential_ok l (generate_credential w l)"
proof -
  assume w: "draws_ok w"
  have "hash_key_ok (generate_hash_key w)"
    using w by (auto simp: hash_key_ok_def generate_hash_key_def b64_length_encode b64encode_chars draws_ok_def)
  then show ?thesis using generated_password [OF w, of l] by (auto simp: credential_ok_def generate_credential_def alnum_text_def)
qed

text \<open>A store stays well-formed, when a certificate that is generated anew is not the one it replaces.\<close>

fun rotates_certificate :: "secret_cmd \<Rightarrow> bool" where
  "rotates_certificate (Rotate a) \<longleftrightarrow> r_name a = DP_LOGICAL"
| "rotates_certificate (Retire name) \<longleftrightarrow> False"

lemma store_step_ok:
  assumes "store_step w s cmd s'" "store_ok s" "draws_ok w" "rotates_certificate cmd \<longrightarrow> fst (current s') \<noteq> fst (current s)"
  shows "store_ok s'"
  using assms(1)
proof cases
  case (rotate a)
  with assms generated_ok [OF assms(3)] show ?thesis by (auto simp: store_ok_def with_credential_def)
next
  case (rotate_certificate a c)
  with assms generated_password_ok [OF assms(3), of DP_LOGICAL] show ?thesis by (auto simp: store_ok_def pair_ok_def)
next
  case retire_bootstrap
  with assms show ?thesis by (auto simp: store_ok_def with_credential_def credential_ok_def)
next
  case retire_previous
  with assms show ?thesis by (auto simp: store_ok_def)
qed

lemma represents_credential:
  assumes "represents w d s" "l \<in> set LOGICAL_SECRETS" "credential_ok l v" "store_ok s" "\<And>v. hex64 (k_sha w v)"
  shows "represents w (apply_puts (k_uid w) (put_events (credential_files (k_sha w) l v)) d) (with_credential l v s)"
proof (rule represents_puts [OF assms(1) credential_files_distinct credential_in_store [OF assms(2)]])
  have ok: "store_ok (with_credential l v s)" using assms(3,4) by (auto simp: store_ok_def with_credential_def)
  show "\<forall>(n, c)\<in>set (credential_files (k_sha w) l v). plain_text c"
  proof clarify
    fix n c assume "(n, c) \<in> set (credential_files (k_sha w) l v)"
    then have m: "(n, c) \<in> set (store_files (k_sha w) (with_credential l v s))" using credential_in_store [OF assms(2)] by blast
    then have "n \<in> set SECRET_FILE_NAMES" unfolding file_names names_of_files [of "k_sha w" "with_credential l v s", symmetric] by force
    from store_plain [of _ "k_sha w", OF ok assms(5) this] store_text_in [OF m] show "plain_text c" by simp
  qed
qed (rule credential_only [OF assms(2)])

lemma rotate_refines:
  assumes "cmd_secrets_rotate w a h = (h', Inr ())" "r_name a \<in> set LOGICAL_SECRETS" "represents w d s" "store_ok s"
    "draws_ok w" "\<And>v. hex64 (k_sha w v)"
  shows "\<exists>evs. h' = h @ evs \<and> store_step w s (Rotate a) (with_credential (r_name a) (generate_credential w (r_name a)) s) \<and>
     represents w (apply_puts (k_uid w) evs d) (with_credential (r_name a) (generate_credential w (r_name a)) s)"
proof -
  let ?l = "r_name a" let ?v = "generate_credential w ?l"
  have ne: "?l \<noteq> DP_LOGICAL" using assms(2) by (auto simp: LOGICAL_SECRETS_def DP_LOGICAL_def)
  from assms(1) obtain fs h1 us h2 where r: "\<not> r_drop_previous a" "dhas ROTATE_SQL_ROLE ?l \<longrightarrow> r_apply_db a \<or> r_files_only a"
      "files_for (k_sha w) ?l ?v = Inr fs" "jmap (existing_guard w) (map fst fs) h = (h1, Inr us)"
      "(if r_apply_db a then apply_db w ?l ?v else jret ()) h1 = (h2, Inr ())" "h' = h2 @ put_events fs"
    unfolding cmd_secrets_rotate_def Let_def using ne by (auto simp del: split_paired_Ex)
  have h1: "h1 = h" by (rule jmap_same [OF _ r(4)]) (auto simp: existing_guard_def)
  have "quiet (if r_apply_db a then apply_db w ?l ?v else jret ())" by (simp add: quiet_apply_db emits_jret)
  from emits_Inr [OF this r(5)] obtain evs where evs: "h2 = h1 @ evs" "\<forall>e\<in>set evs. \<not> is_put e" by blast
  have "represents w (apply_puts (k_uid w) (put_events (credential_files (k_sha w) ?l ?v)) d) (with_credential ?l ?v s)"
    by (rule represents_credential [OF assms(3,2) generated_ok [OF assms(5)] assms(4,6)])
  with r(3) evs h1 r(6) show ?thesis
    by (intro exI [of _ "evs @ put_events fs"]) (simp add: apply_puts_append apply_quiet credential_files_Inr store_step.rotate [OF assms(2) r(1,2)])
qed

lemma certificate_files_of_store:
  assumes "set fs \<subseteq> set (certificate_texts s')" "creds s' = creds s" "n \<in> set SECRET_FILE_NAMES" 
    "\<forall>m c. (m, c) \<in> set (certificate_texts s') \<longrightarrow> m \<notin> fst ` set fs \<longrightarrow> (m, c) \<in> set (certificate_texts s)" "n \<notin> fst ` set fs"
  shows "store_text sha s' n = store_text sha s n"
proof -
  from assms(3) obtain c where c: "(n, c) \<in> set (store_files sha s')"
    unfolding file_names names_of_files [of sha s', symmetric] by force
  with assms(2,4,5) have "(n, c) \<in> set (store_files sha s)" by (auto simp: store_files_def)
  with store_text_in [OF c] store_text_in show ?thesis by metis
qed


lemma read_secret_Inr:
  assumes "decodes_ascii w" "represents w d s" "k_secrets w h = Some (m, u, d)" "n \<in> set SECRET_FILE_NAMES"
  shows "read_secret w n h = (h, Inr (store_text (k_sha w) s n))"
proof -
  from assms(2,4) obtain f where f: "file_of d n = Some f" "sf_bytes f = store_text (k_sha w) s n" "plain_text (sf_bytes f)"
    unfolding represents_def holds_texts_def by force
  then have "k_decode w (sf_bytes f) = Some (sf_bytes f)" using assms(1) by (simp add: decodes_ascii_def plain_text_def)
  with f assms(3) show ?thesis by (simp add: read_secret_def jbind_def jlook_def stored_secrets_def jret_def)
qed

lemma DP_names: "n \<in> set DP_SECRETS \<Longrightarrow> n \<in> set SECRET_FILE_NAMES"
  by (auto simp: DP_SECRETS_def pairs_known)

lemma certificate_represents:
  assumes "represents w d s" "creds s' = creds s" "set fs \<subseteq> set (certificate_texts s')" "distinct (map fst fs)"
    "\<forall>(n, c)\<in>set fs. plain_text c"
    "\<forall>m c. (m, c) \<in> set (certificate_texts s') \<longrightarrow> m \<notin> fst ` set fs \<longrightarrow> (m, c) \<in> set (certificate_texts s)"
  shows "represents w (apply_puts (k_uid w) (put_events fs) d) s'"
proof (rule represents_puts [OF assms(1,4) _ assms(5)])
  show "set fs \<subseteq> set (store_files (k_sha w) s')" using assms(3) by (auto simp: store_files_def)
qed (rule certificate_files_of_store [OF assms(3,2) _ assms(6)])

definition rotation_puts :: "store \<Rightarrow> string \<times> string \<Rightarrow> contents" where
  "rotation_puts s fresh = [(DP_PREVIOUS, fst (current s)), (DP_PREVIOUS_PASSWORD, snd (current s)), (DP_CERT, fst fresh), (DP_CERT_PASSWORD, snd fresh)]"

lemma dp_distinct: "distinct [DP_PREVIOUS, DP_PREVIOUS_PASSWORD, DP_CERT, DP_CERT_PASSWORD]"
  by code_simp

lemma rotate_certificate_writes:
  assumes "rotate_certificate w dp h = (h', Inr ())" "represents w d s" "k_secrets w h = Some (m, u, d)" "decodes_ascii w" "store_ok s"
  shows "\<exists>evs c. h' = h @ evs @ put_events (rotation_puts s (c, generate_password w DP_LOGICAL)) \<and> (\<forall>e\<in>set evs. \<not> is_put e) \<and>
     pfx_shape_problem c = None \<and> (previous s = ([], []) \<or> dp)"
proof -
  have texts: "jmap (read_secret w) DP_SECRETS h = (h, Inr [fst (current s), snd (current s), fst (previous s), snd (previous s)])"
    using read_secret_Inr [OF assms(4,2,3)] DP_names
    by (simp add: DP_SECRETS_def jbind_def jret_def store_text_simps)
  have guards: "h1 = h" if "jmap shape_guard zs h = (h1, Inr us)" for zs h1 us
    by (rule jmap_same [OF _ that]) (auto simp: shape_guard_def split: option.splits)
  from assms(1) obtain us im h1 h2 fresh where r: "jmap shape_guard (zip DP_SECRETS [fst (current s), snd (current s), fst (previous s), snd (previous s)]) h = (h, Inr us)"
      "\<not> (fst (previous s) \<noteq> [] \<and> \<not> dp)" "bff_image w h = (h1, Inr im)" "generate_certificate_pair w im h1 = (h2, Inr fresh)"
      "h' = h2 @ put_events (rotation_puts s fresh)"
    unfolding rotate_certificate_def Let_def using texts guards
    by (auto simp: put_events_def rotation_puts_def nth_Cons_Suc numeral_eq_Suc) blast+
  from emits_Inr [OF quiet_bff_image r(3)] obtain e1 where e1: "h1 = h @ e1" "\<forall>e\<in>set e1. \<not> is_put e" by blast
  from emits_Inr [OF quiet_generate r(4)] obtain e2 where e2: "h2 = h1 @ e2" "\<forall>e\<in>set e2. \<not> is_put e" by blast
  have "pfx_shape_problem [] \<noteq> None" by code_simp
  with r(2) assms(5) have "previous s = ([], []) \<or> dp" by (auto simp: store_ok_def pair_ok_def)
  with e1 e2 r(5) generated_pair [OF r(4)] show ?thesis
    by (intro exI [of _ "e1 @ e2"] exI [of _ "fst fresh"]) (auto simp: rotation_puts_def)
qed

lemma rotation_represents:
  assumes "represents w d s" "store_ok s" "pfx_shape_problem c = None" "password_ok p"
  shows "represents w (apply_puts (k_uid w) (put_events (rotation_puts s (c, p))) d) (s\<lparr>previous := current s, current := (c, p)\<rparr>)"
proof (rule certificate_represents [OF assms(1)])
  show "\<forall>(n, x)\<in>set (rotation_puts s (c, p)). plain_text x"
    using pair_plain [of "(c, p)"] pair_plain [of "current s"] assms by (auto simp: rotation_puts_def pair_ok_def store_ok_def)
  show "distinct (map fst (rotation_puts s (c, p)))" using dp_distinct by (simp add: rotation_puts_def)
qed (auto simp: rotation_puts_def certificate_texts_def)

text \<open>Refinement: a command that succeeds on a folder that represents a store does to the folder what the operation does to
  the store.\<close>

lemma secrets_refine_lemma:
  assumes "decodes_ascii w" "\<And>v. hex64 (k_sha w v)" "draws_ok w" "parsed cmd"
    and "represents w d s" "store_ok s" "k_secrets w h = Some (m, u, d)" "secrets_job w cmd h = (h', Inr ())"
  shows "\<exists>s' evs. h' = h @ evs \<and> store_step w s cmd s' \<and> represents w (apply_puts (k_uid w) evs d) s'"
proof (cases cmd)
  case (Rotate a)
  show ?thesis
  proof (cases "r_name a = DP_LOGICAL")
    case True
    with Rotate assms(8) have "rotate_certificate w (r_drop_previous a) h = (h', Inr ())" by (simp add: secrets_job_def cmd_secrets_rotate_def Let_def)
    from rotate_certificate_writes [OF this assms(5,7,1,6)] obtain evs c where
      e: "h' = h @ evs @ put_events (rotation_puts s (c, generate_password w DP_LOGICAL))" "\<forall>e\<in>set evs. \<not> is_put e"
        "pfx_shape_problem c = None" "previous s = ([], []) \<or> r_drop_previous a" by blast
    show ?thesis
      using e rotation_represents [OF assms(5,6) e(3) generated_password_ok [OF assms(3)]] store_step.rotate_certificate [OF True e(4,3)] Rotate
      by (intro exI [of _ "s\<lparr>previous := current s, current := (c, generate_password w DP_LOGICAL)\<rparr>"]
            exI [of _ "evs @ put_events (rotation_puts s (c, generate_password w DP_LOGICAL))"]) (simp add: apply_puts_append apply_quiet)
  next
    case False
    with Rotate assms(4) have "r_name a \<in> set LOGICAL_SECRETS" by (simp add: parsed_def)
    from Rotate assms(8) have "cmd_secrets_rotate w a h = (h', Inr ())" by (simp add: secrets_job_def)
    from rotate_refines [OF this \<open>r_name a \<in> set LOGICAL_SECRETS\<close> assms(5,6,3,2)] Rotate show ?thesis by blast
  qed
next
  case (Retire name)
  show ?thesis
  proof (cases "name = ''dataprotection_previous''")
    case True
    have r: "read_secret w DP_PREVIOUS h = (h, Inr (fst (previous s)))" "read_secret w DP_PREVIOUS_PASSWORD h = (h, Inr (snd (previous s)))"
      using read_secret_Inr [OF assms(1,5,7)] by (simp_all add: pairs_known store_text_simps)
    let ?s = "s\<lparr>previous := ([], [])\<rparr>"
    have step: "store_step w s cmd ?s" unfolding Retire True by (rule store_step.retire_previous)
    show ?thesis
    proof (cases "previous s = ([], [])")
      case empty: True
      then have "?s = s" by (cases s) simp
      moreover from empty have "h' = h" using assms(8) r Retire True by (simp add: secrets_job_def cmd_secrets_retire_def retire_previous_certificate_def)
      ultimately show ?thesis using step assms(5) by (intro exI [of _ s] exI [of _ "[]"]) simp
    next
      case False
      let ?fs = "[(DP_PREVIOUS, []), (DP_PREVIOUS_PASSWORD, [])]"
      have "\<not> (fst (previous s) = [] \<and> snd (previous s) = [])" using False by (metis prod.collapse)
      then have h': "h' = h @ put_events ?fs" using assms(8) r Retire True
        by (auto simp: secrets_job_def cmd_secrets_retire_def retire_previous_certificate_def split: if_splits)
      have "represents w (apply_puts (k_uid w) (put_events ?fs) d) ?s"
        by (rule certificate_represents [OF assms(5)]) (use dp_distinct in \<open>auto simp: certificate_texts_def\<close>)
      with step h' show ?thesis by blast
    qed
  next
    case False
    with Retire assms(4) have n: "name = ''keycloak_bootstrap''" by (simp add: parsed_def)
    let ?fs = "[(BOOTSTRAP_SECRET, [])]"
    have fs: "credential_files (k_sha w) ''keycloak_bootstrap'' [] = ?fs" by (simp add: credential_files_def files_for_def BOOTSTRAP_SECRET_def)
    have h': "h' = h @ put_events ?fs" using assms(8) Retire False by (simp add: secrets_job_def cmd_secrets_retire_def put_events_def)
    have "represents w (apply_puts (k_uid w) (put_events ?fs) d) (with_credential ''keycloak_bootstrap'' [] s)"
      unfolding fs [symmetric] by (rule represents_credential [OF assms(5) _ _ assms(6,2)]) (simp_all add: LOGICAL_SECRETS_def credential_ok_def)
    with h' Retire n store_step.retire_bootstrap show ?thesis by blast
  qed
qed


section \<open>Interrupted rotations\<close>

lemma puts_split:
  assumes "h' = h @ evs @ put_events fs" "h' = h @ es @ rest" "\<forall>e\<in>set evs. \<not> is_put e"
  obtains k where "apply_puts uid es d = apply_puts uid (put_events (take k fs)) d" "k = length (filter is_put es)" "k \<le> length fs"
    "length (filter is_put rest) = length fs - k"
proof -
  have all: "filter is_put (put_events fs) = put_events fs" for fs by (induction fs) (auto simp: put_events_def)
  have none: "filter is_put evs = []" using assms(3) by (simp add: filter_empty_conv)
  have puts: "apply_puts uid es d = apply_puts uid (filter is_put es) d" for es d
    by (induction uid es d rule: apply_puts.induct) simp_all
  from assms(1,2) have "evs @ put_events fs = es @ rest" by simp
  then have f: "put_events fs = filter is_put es @ filter is_put rest"
    using all [of fs] none by (metis append_Nil filter_append)
  let ?k = "length (filter is_put es)"
  from f have "filter is_put es = take ?k (put_events fs)" by simp
  then have "filter is_put es = put_events (take ?k fs)" by (simp add: put_events_def take_map)
  moreover from f have "length fs = ?k + length (filter is_put rest)" by (metis length_append length_map put_events_def)
  ultimately show thesis using that [of ?k] puts by (metis add_diff_cancel_left' le_add1)
qed

lemma shaped_upd: "shaped t \<Longrightarrow> shape_problem n c = None \<Longrightarrow> shaped (t(n := c))"
  by (simp add: shaped_def)

text \<open>The first of the two files of a credential alone contradicts the second.\<close>

lemma first_file_contradicts:
  assumes "store_ok s" "\<And>v. hex64 (sha v)" "l \<in> {''migrator_db'', ''tenancy_db'', ''entitlements_db'', ''redis''}"
    and "alnum_text 32 v" "v \<noteq> creds s l" "sha v \<noteq> sha (creds s l)"
  shows "\<exists>n c f. credential_files sha l v = [(n, c), f] \<and> n \<in> set SECRET_FILE_NAMES \<and> plain_text c \<and>
     shaped ((store_text sha s)(n := c)) \<and> \<not> consistent sha ((store_text sha s)(n := c))"
proof -
  note sh = shaped_upd [OF store_shaped [of s sha, OF assms(1,2)]]
  note al = creds_alnum [OF assms(1)]
  have names: "''migrator_db_password'' \<in> set SECRET_FILE_NAMES" "''Migrator__TenancyRolePassword'' \<in> set SECRET_FILE_NAMES"
    "''Migrator__EntitlementsRolePassword'' \<in> set SECRET_FILE_NAMES" using pairs_known(1) by (auto simp: DERIVED_PAIRS_def)
  have pw: "shape_problem n v = None" if "n \<in> set PASSWORD_FILES" for n by (rule shape_simple [OF that assms(4)])
  have plain: "plain_text v" using assms(4) by (intro plain_alnum alnum_list)
  have redis: "shape_problem ''redis_acl'' (redis_acl_text sha v) = None" using acl_text_ok [of sha, OF assms(2)]
    by (simp add: shape_problem_def reason_unless_def PASSWORD_FILES_def CONNECTION_USERS_def dhas_def DP_CERT_def DP_PREVIOUS_def DP_CERT_PASSWORD_def DP_PREVIOUS_PASSWORD_def)
  have bad: "\<not> consistent sha ((store_text sha s)(src := v))"
    if "(dst, src) \<in> set DERIVED_PAIRS" "src \<noteq> dst" "password_of (store_text sha s dst) = Some (creds s l)" for dst src
    using that assms(5) unfolding consistent_def by fastforce
  have cs: "\<not> consistent sha ((store_text sha s)(''redis_acl'' := redis_acl_text sha v))" if "l = ''redis''"
  proof -
    have "password_of (store_text sha s ''ConnectionStrings__redis'') = Some (creds s ''redis'')"
      unfolding store_text_simps by (rule password_of_generated) (rule al, simp)
    then show ?thesis unfolding consistent_def redis_consistent_def
      using acl_hash_unique [of sha v "sha (creds s ''redis'')", OF assms(2) assms(2)] assms(6) that by simp
  qed
  from assms(3) consider "l = ''migrator_db''" | "l = ''tenancy_db''" | "l = ''entitlements_db''" | "l = ''redis''" by blast
  then show ?thesis
  proof cases
    case 1
    have "\<not> consistent sha ((store_text sha s)(''migrator_db_password'' := v))"
      by (rule bad [of "''ConnectionStrings__decisya''"])
         (use 1 in \<open>simp_all add: DERIVED_PAIRS_def store_text_simps password_of_generated al\<close>)
    with 1 names plain sh [OF pw] show ?thesis by (simp add: credential_files_def files_for_def PASSWORD_FILES_def)
  next
    case 2
    have "\<not> consistent sha ((store_text sha s)(''Migrator__TenancyRolePassword'' := v))"
      by (rule bad [of "''ConnectionStrings__tenancy''"])
         (use 2 in \<open>simp_all add: DERIVED_PAIRS_def store_text_simps password_of_generated al\<close>)
    with 2 names plain sh [OF pw] show ?thesis by (simp add: credential_files_def files_for_def PASSWORD_FILES_def)
  next
    case 3
    have "\<not> consistent sha ((store_text sha s)(''Migrator__EntitlementsRolePassword'' := v))"
      by (rule bad [of "''ConnectionStrings__entitlements''"])
         (use 3 in \<open>simp_all add: DERIVED_PAIRS_def store_text_simps password_of_generated al\<close>)
    with 3 names plain sh [OF pw] show ?thesis by (simp add: credential_files_def files_for_def PASSWORD_FILES_def)
  next
    case 4
    with cs sh [OF redis] plain_acl [of sha, OF assms(2)] pairs_known(7) show ?thesis by (simp add: credential_files_def files_for_def)
  qed
qed

lemma rotate_writes:
  assumes "cmd_secrets_rotate w a h = (h', Inr ())" "r_name a \<in> set LOGICAL_SECRETS"
  obtains evs where "h' = h @ evs @ put_events (credential_files (k_sha w) (r_name a) (generate_credential w (r_name a)))" "\<forall>e\<in>set evs. \<not> is_put e"
proof -
  let ?l = "r_name a" let ?v = "generate_credential w ?l"
  have ne: "?l \<noteq> DP_LOGICAL" using assms(2) by (auto simp: LOGICAL_SECRETS_def DP_LOGICAL_def)
  from assms(1) obtain fs h1 us h2 where r: "files_for (k_sha w) ?l ?v = Inr fs" "jmap (existing_guard w) (map fst fs) h = (h1, Inr us)"
      "(if r_apply_db a then apply_db w ?l ?v else jret ()) h1 = (h2, Inr ())" "h' = h2 @ put_events fs"
    unfolding cmd_secrets_rotate_def Let_def using ne by (auto simp del: split_paired_Ex)
  have h1: "h1 = h" by (rule jmap_same [OF _ r(2)]) (auto simp: existing_guard_def)
  have "quiet (if r_apply_db a then apply_db w ?l ?v else jret ())" by (simp add: quiet_apply_db emits_jret)
  from emits_Inr [OF this r(3)] obtain evs where "h2 = h1 @ evs" "\<forall>e\<in>set evs. \<not> is_put e" by blast
  with r h1 show thesis using that by (simp add: credential_files_Inr)
qed

lemma holds_put_first:
  assumes "represents w d s" "n \<in> set SECRET_FILE_NAMES" "plain_text c"
  shows "holds_texts w (apply_puts (k_uid w) (put_events [(n, c)]) d) ((store_text (k_sha w) s)(n := c))"
  using put_holds [OF assms(1) [unfolded represents_def] assms(2,3)] by (simp add: put_events_def)

lemma interrupted_rotation_lemma:
  assumes "decodes_ascii w" "\<And>v. hex64 (k_sha w v)" "draws_ok w" "represents w d s" "store_ok s" "private_dir w m u"
    and "r_name a \<in> {''migrator_db'', ''tenancy_db'', ''entitlements_db'', ''redis''}" "cmd_secrets_rotate w a h = (h @ es @ rest, Inr ())"
    and "k_sha w (generate_credential w (r_name a)) \<noteq> k_sha w (creds s (r_name a))"
    and "\<exists>e\<in>set es. is_put e" "\<exists>e\<in>set rest. is_put e"
  shows "secret_dir_problems w (Some (m, u, apply_puts (k_uid w) es d)) \<noteq> []"
proof -
  let ?l = "r_name a" let ?v = "generate_credential w ?l"
  have l: "?l \<in> set LOGICAL_SECRETS" using assms(7) by (auto simp: LOGICAL_SECRETS_def)
  have v: "alnum_text 32 ?v" using generated_ok [OF assms(3), of ?l] assms(7) by (auto simp: credential_ok_def)
  from first_file_contradicts [of s "k_sha w" ?l ?v, OF assms(5,2,7) v _ assms(9)] assms(9)
  obtain n c f where f: "credential_files (k_sha w) ?l ?v = [(n, c), f]" "n \<in> set SECRET_FILE_NAMES" "plain_text c"
     "shaped ((store_text (k_sha w) s)(n := c))" "\<not> consistent (k_sha w) ((store_text (k_sha w) s)(n := c))" by metis
  from rotate_writes [OF assms(8) l] obtain evs where evs: "h @ es @ rest = h @ evs @ put_events [(n, c), f]" "\<forall>e\<in>set evs. \<not> is_put e"
    unfolding f(1) by blast
  from puts_split [OF evs(1) refl evs(2), of "k_uid w" d] obtain k where k: "apply_puts (k_uid w) es d = apply_puts (k_uid w) (put_events (take k [(n, c), f])) d"
     "k = length (filter is_put es)" "k \<le> length [(n, c), f]" "length (filter is_put rest) = length [(n, c), f] - k" by blast
  have "0 < k" using assms(10) k(2) by (auto simp: filter_empty_conv)
  moreover have "0 < length (filter is_put rest)" using assms(11) by (auto simp: filter_empty_conv)
  ultimately have "k = 1" using k(3,4) by simp
  with k(1) have "apply_puts (k_uid w) es d = apply_puts (k_uid w) (put_events [(n, c)]) d" by simp
  with check_iff [OF assms(1) holds_put_first [OF assms(4) f(2,3)] f(4) assms(6)] f(5) show ?thesis by simp
qed


lemma dp_distinct': "distinct [DP_CERT_PASSWORD, DP_CERT, DP_PREVIOUS_PASSWORD, DP_PREVIOUS]"
  by code_simp

text \<open>Of the four writes of a certificate rotation, only the first two leave a trace that the check reports.\<close>

lemma certificate_interruption_lemma:
  assumes "decodes_ascii w" "\<And>v. hex64 (k_sha w v)" "draws_ok w" "represents w d s" "store_ok s" "private_dir w m u"
    and "k_secrets w h = Some (m, u, d)" "rotate_certificate w dp h = (h @ es @ rest, Inr ())"
    and fresh: "Put DP_CERT (fst (current s)) \<notin> set (es @ rest)"
  shows "secret_dir_problems w (Some (m, u, apply_puts (k_uid w) es d)) = [] \<longleftrightarrow> length (filter is_put es) \<notin> {1, 2}"
proof -
  let ?p = "generate_password w DP_LOGICAL" let ?t = "store_text (k_sha w) s"
  from rotate_certificate_writes [OF assms(8,4,7,1,5)] obtain evs c where
    e: "h @ es @ rest = h @ evs @ put_events (rotation_puts s (c, ?p))" "\<forall>e\<in>set evs. \<not> is_put e" "pfx_shape_problem c = None" by blast
  from e(1) have "set (put_events (rotation_puts s (c, ?p))) \<subseteq> set (es @ rest)" by simp
  then have c: "c \<noteq> fst (current s)" using fresh by (auto simp: put_events_def rotation_puts_def)
  from puts_split [OF e(1) refl e(2), of "k_uid w" d] obtain k where
    k: "apply_puts (k_uid w) es d = apply_puts (k_uid w) (put_events (take k (rotation_puts s (c, ?p)))) d" "k = length (filter is_put es)" "k \<le> length (rotation_puts s (c, ?p))" by blast
  then have k4: "k \<le> 4" by (simp add: rotation_puts_def)
  have cur: "pair_ok (current s)" using assms(5) by (simp add: store_ok_def)
  from cur have cur': "pfx_shape_problem (fst (current s)) = None" "alnum_text 32 (snd (current s))" by (simp_all add: pair_ok_def password_ok_def)
  have ne: "fst (current s) \<noteq> []" "snd (current s) \<noteq> []" "c \<noteq> []"
    using pfx_b64 [OF cur'(1)] pfx_b64 [OF e(3)] alnum_nonempty [OF cur'(2)] by simp_all
  have "pair_ok (c, ?p)" using e(3) generated_password_ok [OF assms(3)] by (simp add: pair_ok_def)
  from pair_plain [OF cur] pair_plain [OF this]
  have plain: "plain_text c" "plain_text ?p" "plain_text (fst (current s))" "plain_text (snd (current s))" by simp_all
  have prefix: "holds_texts w (apply_puts (k_uid w) (put_events fs) d) (update_texts fs ?t)"
    if "fs = take k (rotation_puts s (c, ?p))" for fs
  proof (rule puts_hold [OF assms(4) [unfolded represents_def]])
    show "distinct (map fst fs)" using dp_distinct unfolding that by (simp add: rotation_puts_def take_map [symmetric] distinct_take del: distinct.simps)
    show "\<forall>(n, c)\<in>set fs. n \<in> set SECRET_FILE_NAMES \<and> plain_text c"
      using plain pairs_known set_take_subset [of k "rotation_puts s (c, ?p)"] unfolding that by (auto simp: rotation_puts_def)
  qed
  have sh: "shaped ?t" "consistent (k_sha w) ?t" using store_shaped [of s "k_sha w"] store_consistent [of s "k_sha w"] assms(2,5) by blast+
  have shapes: "shape_problem DP_PREVIOUS (fst (current s)) = None" "shape_problem DP_PREVIOUS_PASSWORD (snd (current s)) = None"
    "shape_problem DP_CERT c = None" "shape_problem DP_CERT_PASSWORD ?p = None"
    using cur e(3) generated_password_ok [OF assms(3), of DP_LOGICAL] dp_distinct dp_distinct'
    by (simp_all add: shape_problem_def pair_ok_def password_ok_def reason_unless_def ALNUM256 del: not_None_eq re_fullmatch_None)
  have upd: "update_texts (take k (rotation_puts s (c, ?p))) ?t n =
      (if n = DP_PREVIOUS \<and> 1 \<le> k then fst (current s) else if n = DP_PREVIOUS_PASSWORD \<and> 2 \<le> k then snd (current s)
       else if n = DP_CERT \<and> 3 \<le> k then c else if n = DP_CERT_PASSWORD \<and> 4 \<le> k then ?p else ?t n)" for n
    using k4 dp_distinct by (auto simp: update_texts_def rotation_puts_def take_Cons' numeral_eq_Suc)
  have shaped: "shaped (update_texts (take k (rotation_puts s (c, ?p))) ?t)"
    using sh(1) shapes unfolding shaped_def upd by simp
  have other: "update_texts (take k (rotation_puts s (c, ?p))) ?t n = ?t n" if "n \<notin> set DP_SECRETS" for n
    using that unfolding upd by (simp add: DP_SECRETS_def)
  have "list_all (\<lambda>n. n \<notin> set DP_SECRETS) [''ConnectionStrings__redis'', ''redis_acl'']" "list_all (\<lambda>(a, b). a \<notin> set DP_SECRETS \<and> b \<notin> set DP_SECRETS) DERIVED_PAIRS"
    by code_simp+
  then have same: "(\<forall>(derived, source)\<in>set DERIVED_PAIRS. password_of (update_texts (take k (rotation_puts s (c, ?p))) ?t derived) = Some (update_texts (take k (rotation_puts s (c, ?p))) ?t source))"
      "redis_consistent (k_sha w) (update_texts (take k (rotation_puts s (c, ?p))) ?t)"
    using sh(2) other unfolding consistent_def redis_consistent_def list_all_iff by fastforce+
  have prev: "?t DP_PREVIOUS = [] \<longleftrightarrow> ?t DP_PREVIOUS_PASSWORD = []" "?t DP_PREVIOUS = [] \<or> ?t DP_PREVIOUS \<noteq> ?t DP_CERT"
    using sh(2) unfolding consistent_def by blast+
  have "consistent (k_sha w) (update_texts (take k (rotation_puts s (c, ?p))) ?t) \<longleftrightarrow> k \<notin> {1, 2}"
    unfolding consistent_def using same dp_distinct
    apply (simp only: same simp_thms upd)
    using k4 ne c prev by (auto simp: store_text_simps)
  with check_iff [OF assms(1) prefix [OF refl] shaped assms(6)] k(1,2) show ?thesis by simp
qed


section \<open>A new stack\<close>

definition new_store :: "stack_host \<Rightarrow> string \<Rightarrow> store" where
  "new_store w c = \<lparr> creds = generate_credential w, current = (c, generate_password w DP_LOGICAL), previous = ([], []) \<rparr>"

lemma empty_holds:
  assumes "distinct (map fst fs)" "set (map fst fs) = set SECRET_FILE_NAMES" "\<forall>(n, c)\<in>set fs. plain_text c"
  shows "holds_texts w (apply_puts (k_uid w) (put_events fs) []) (\<lambda>n. the (map_of fs n))"
proof -
  have f: "file_of (apply_puts uid (put_events fs) d) n = (case map_of fs n of Some c \<Rightarrow> Some \<lparr> sf_bytes = c, sf_mode = 292, sf_uid = uid \<rparr> | None \<Rightarrow> file_of d n)"
    if "distinct (map fst fs)" for uid fs d n using that
  proof (induction fs arbitrary: d)
    case (Cons x fs)
    then have none: "map_of fs (fst x) = None" by (simp add: map_of_eq_None_iff)
    from Cons have ih: "file_of (apply_puts uid (put_events fs) (put_file uid (fst x) (snd x) d)) n =
        (case map_of fs n of Some c \<Rightarrow> Some \<lparr> sf_bytes = c, sf_mode = 292, sf_uid = uid \<rparr> | None \<Rightarrow> file_of (put_file uid (fst x) (snd x) d) n)" by simp
    have "apply_puts uid (put_events (x # fs)) d = apply_puts uid (put_events fs) (put_file uid (fst x) (snd x) d)"
      by (cases x) (simp add: put_events_def)
    with ih none show ?case by (cases x) (auto simp: file_of_put split: option.split)
  qed (simp add: put_events_def)
  have keys: "set (dkeys (apply_puts uid (put_events fs) d)) \<subseteq> set (dkeys d) \<union> fst ` set fs" for uid fs d
  proof (induction fs arbitrary: d)
    case (Cons x fs)
    have "set (dkeys (put_file uid (fst x) (snd x) d)) \<subseteq> insert (fst x) (set (dkeys d))" by (auto simp: put_file_def dkeys_def)
    with Cons [of "put_file uid (fst x) (snd x) d"] show ?case by (cases x) (auto simp: put_events_def)
  qed (simp add: put_events_def)
  have "\<not> group_writable 292" by (simp add: group_writable_def)
  moreover have "\<exists>c. map_of fs n = Some c \<and> plain_text c" if "n \<in> set SECRET_FILE_NAMES" for n
    using that assms(2,3) by (metis (mono_tags, lifting) case_prodD list.set_map map_of_SomeD map_of_eq_None_iff option.exhaust)
  ultimately show ?thesis using keys [of "k_uid w" fs "[]"] assms(2) f [OF assms(1)]
    by (fastforce simp: holds_texts_def dkeys_def)
qed

lemma new_represents:
  assumes "store_ok s" "\<And>v. hex64 (k_sha w v)"
  shows "represents w (apply_puts (k_uid w) (put_events (store_files (k_sha w) s)) []) s"
proof -
  let ?fs = "store_files (k_sha w) s"
  have n: "set (map fst ?fs) = set SECRET_FILE_NAMES" unfolding names_of_files file_names ..
  have "\<forall>(n, c)\<in>set ?fs. plain_text c"
  proof clarify
    fix n c assume m: "(n, c) \<in> set ?fs"
    then have "n \<in> set SECRET_FILE_NAMES" using n by force
    from store_plain [of s "k_sha w", OF assms this] store_text_in [OF m] show "plain_text c" by simp
  qed
  with empty_holds [of ?fs w] n distinct_names have "holds_texts w (apply_puts (k_uid w) (put_events ?fs) []) (\<lambda>n. the (map_of ?fs n))"
    unfolding names_of_files by blast
  then show ?thesis unfolding represents_def
  proof (rule holds_cong)
    fix m assume "m \<in> set SECRET_FILE_NAMES"
    with n have "map_of ?fs m \<noteq> None" by (simp add: map_of_eq_None_iff)
    then show "the (map_of ?fs m) = store_text (k_sha w) s m" by (auto simp: store_text_def)
  qed
qed

lemma init_writes:
  assumes "cmd_secrets_init w h = (h', Inr ())"
  obtains evs c where "h' = h @ evs @ put_events (store_files (k_sha w) (new_store w c))" "\<forall>e\<in>set evs. \<not> is_put e" "pfx_shape_problem c = None"
proof -
  have loop: "h2 = h1 @ put_events (concat (map (\<lambda>l. credential_files (k_sha w) l (generate_credential w l)) ls))"
    if "jmap (init_secret w) ls h1 = (h2, Inr us)" for ls h1 h2 us
    using that
  proof (induction ls arbitrary: h1 us)
    case (Cons l ls)
    from Cons.prems obtain h3 us' where one: "init_secret w l h1 = (h3, Inr ())" "jmap (init_secret w) ls h3 = (h2, Inr us')" by auto
    from one(1) have "h3 = h1 @ put_events (credential_files (k_sha w) l (generate_credential w l))"
      by (auto simp: init_secret_def credential_files_Inr)
    with Cons.IH [OF one(2)] show ?case by (simp add: put_events_def)
  qed (simp add: put_events_def)
  from assms obtain im h1 h2 h3 fresh us h4 where r: "bff_image w h = (h1, Inr im)" "generate_certificate_pair w im h1 = (h2, Inr fresh)"
      "(if k_secrets w h2 = None then ensure_dir w (in_stack w ''secrets'') SECRET_DIR_MODE else jret ()) h2 = (h3, Inr ())" "jmap (init_secret w) LOGICAL_SECRETS h3 = (h4, Inr us)"
      "h' = h4 @ put_events (certificate_files fresh)"
    unfolding cmd_secrets_init_def refuse_overwrite_def by (auto simp del: split_paired_Ex split_paired_All)
  from emits_Inr [OF quiet_bff_image r(1)] obtain e1 where e1: "h1 = h @ e1" "\<forall>e\<in>set e1. \<not> is_put e" by blast
  from emits_Inr [OF quiet_generate r(2)] obtain e2 where e2: "h2 = h1 @ e2" "\<forall>e\<in>set e2. \<not> is_put e" by blast
  have "quiet (if k_secrets w h2 = None then ensure_dir w (in_stack w ''secrets'') SECRET_DIR_MODE else jret ())"
    by (simp add: quiet_ensure_dir emits_silent)
  from emits_Inr [OF this r(3)] obtain e3 where e3: "h3 = h2 @ e3" "\<forall>e\<in>set e3. \<not> is_put e" by blast
  from generated_pair [OF r(2)] have pair: "fresh = (fst fresh, generate_password w DP_LOGICAL)" "pfx_shape_problem (fst fresh) = None"
    by (metis prod.collapse)+
  have "certificate_files fresh = certificate_texts (new_store w (fst fresh))"
    by (subst pair(1)) (simp add: certificate_files_def certificate_texts_def new_store_def)
  then have "h' = h @ (e1 @ e2 @ e3) @ put_events (store_files (k_sha w) (new_store w (fst fresh)))"
    using r(5) loop [OF r(4)] e1 e2 e3 by (simp add: store_files_def new_store_def put_events_def)
  with e1 e2 e3 pair(2) show thesis by (intro that [of "e1 @ e2 @ e3" "fst fresh"]) auto
qed

lemma new_store_ok: "draws_ok w \<Longrightarrow> pfx_shape_problem c = None \<Longrightarrow> store_ok (new_store w c)"
  using generated_ok [of w] generated_password_ok [of w] by (auto simp: store_ok_def new_store_def pair_ok_def)

lemma init_checks_lemma:
  assumes "decodes_ascii w" "\<And>v. hex64 (k_sha w v)" "draws_ok w" "private_dir w m u" "cmd_secrets_init w [] = (h, Inr ())"
  shows "\<exists>s. represents w (apply_puts (k_uid w) h []) s \<and> store_ok s \<and> secret_dir_problems w (Some (m, u, apply_puts (k_uid w) h [])) = []"
proof -
  from init_writes [OF assms(5)] obtain evs c where e: "h = evs @ put_events (store_files (k_sha w) (new_store w c))"
     "\<forall>e\<in>set evs. \<not> is_put e" "pfx_shape_problem c = None" by auto
  note ok = new_store_ok [OF assms(3) e(3)]
  have r: "represents w (apply_puts (k_uid w) h []) (new_store w c)"
    using new_represents [of _ w, OF ok assms(2)] e(1,2) by (simp add: apply_puts_append apply_quiet)
  with ok represented_passes [OF assms(1,2) r ok assms(4)] show ?thesis by blast
qed


section \<open>Properties\<close>

text \<open>
  C2: A successful rotation or retirement does to the folder what the operation does to the store; the folder then passes the check,
  when a certificate that is generated anew is not the one it replaces.\<close>

theorem secrets_refine:
  assumes "decodes_ascii w" "\<And>v. hex64 (k_sha w v)" "draws_ok w" "parsed cmd"
    and "represents w d s" "store_ok s" "k_secrets w h = Some (m, u, d)" "private_dir w m u" "secrets_job w cmd h = (h', Inr ())"
  shows "\<exists>s' evs. h' = h @ evs \<and> store_step w s cmd s' \<and> represents w (apply_puts (k_uid w) evs d) s' \<and>
     ((rotates_certificate cmd \<longrightarrow> fst (current s') \<noteq> fst (current s)) \<longrightarrow>
        store_ok s' \<and> secret_dir_problems w (Some (m, u, apply_puts (k_uid w) evs d)) = [])"
proof -
  from secrets_refine_lemma [OF assms(1-7,9)] obtain s' evs where
    s: "h' = h @ evs" "store_step w s cmd s'" "represents w (apply_puts (k_uid w) evs d) s'" by blast
  have "store_ok s'" if "rotates_certificate cmd \<longrightarrow> fst (current s') \<noteq> fst (current s)"
    by (rule store_step_ok [OF s(2) assms(6,3) that])
  with s represented_passes [OF assms(1,2) s(3) _ assms(8)] show ?thesis by blast
qed

text \<open>
  C37: A new stack's secrets pass the check.\<close>

theorem init_checks:
  assumes "decodes_ascii w" "\<And>v. hex64 (k_sha w v)" "draws_ok w" "private_dir w m u" "cmd_secrets_init w [] = (h, Inr ())"
  shows "\<exists>s. represents w (apply_puts (k_uid w) h []) s \<and> store_ok s \<and> secret_dir_problems w (Some (m, u, apply_puts (k_uid w) h [])) = []"
  by (rule init_checks_lemma [OF assms])

text \<open>
  C38: A rotation that stops between the two files of a credential is reported.\<close>

theorem interrupted_rotation:
  assumes "decodes_ascii w" "\<And>v. hex64 (k_sha w v)" "draws_ok w" "represents w d s" "store_ok s" "private_dir w m u"
    and "r_name a \<in> {''migrator_db'', ''tenancy_db'', ''entitlements_db'', ''redis''}" "cmd_secrets_rotate w a h = (h @ es @ rest, Inr ())"
    and "k_sha w (generate_credential w (r_name a)) \<noteq> k_sha w (creds s (r_name a))"
    and "\<exists>e\<in>set es. is_put e" "\<exists>e\<in>set rest. is_put e"
  shows "secret_dir_problems w (Some (m, u, apply_puts (k_uid w) es d)) \<noteq> []"
  by (rule interrupted_rotation_lemma [OF assms])

text \<open>
  C39: A certificate rotation that stops is reported after its first and its second write, and not after its third, when the new
  certificate stands beside the old password.\<close>

theorem certificate_interruption:
  assumes "decodes_ascii w" "\<And>v. hex64 (k_sha w v)" "draws_ok w" "represents w d s" "store_ok s" "private_dir w m u"
    and "k_secrets w h = Some (m, u, d)" "rotate_certificate w dp h = (h @ es @ rest, Inr ())"
    and "Put DP_CERT (fst (current s)) \<notin> set (es @ rest)"
  shows "secret_dir_problems w (Some (m, u, apply_puts (k_uid w) es d)) = [] \<longleftrightarrow> length (filter is_put es) \<notin> {1, 2}"
  by (rule certificate_interruption_lemma [OF assms])


section \<open>A host\<close>

definition vault_sha :: "string \<Rightarrow> string" where
  "vault_sha v = replicate 64 (if py_startswith v ''A'' then CHR ''a'' else CHR ''b'')"

definition vault_exec :: "history \<Rightarrow> (string \<times> string) list \<Rightarrow> string list \<Rightarrow> string option \<Rightarrow> fault + int \<times> string \<times> string" where
  "vault_exec h env argv stdin = Inr (0, case stdin of None \<Rightarrow> [] | Some t \<Rightarrow> ''QUFB'', [])"

definition vault_env :: string where
  "vault_env = ''DECISYA_BFF_IMAGE=ghcr.io/mpcs2013/decisya-bff@sha256:'' @ replicate 64 (CHR ''a'') @ [NL]"

definition vault_host :: "(nat \<times> nat \<times> folder) option \<Rightarrow> stack_host" where
  "vault_host dir = \<lparr> k_stack = path_of ''/srv/stack'', k_repo = path_of ''/srv/clone'', k_root = path_of ''/srv/clone'', k_posix = True, k_uid = 0, k_environ = [],
     k_exec = vault_exec, k_is_file = (\<lambda>h p. True), k_is_dir = (\<lambda>h p. True), k_exists = (\<lambda>h p. False), k_mode = (\<lambda>h p. 384),
     k_size = (\<lambda>h p. Inr (Some 1)), k_entries = (\<lambda>h p. []), k_files_under = (\<lambda>h p. []), k_bytes = (\<lambda>h p. Inr []),
     k_text = (\<lambda>h p. Inr vault_env), k_secrets = (\<lambda>h. dir), k_decode = Some, k_json = (\<lambda>t. Inr JNull), k_sha = vault_sha,
     k_choice = (\<lambda>l n. CHR ''A''), k_token = (\<lambda>l. replicate 32 (CHR ''x'')), k_salt = ''salt'', k_pbkdf2 = (\<lambda>p s n. p),
     k_hmac = (\<lambda>k t. t), k_hash = (\<lambda>t. t), k_now = (\<lambda>h. 0), k_clock = (\<lambda>h. 0), k_temp = (\<lambda>h. ''/tmp/x''), k_lstat = (\<lambda>h p. Inr None),
     k_open = (\<lambda>h p. Inr \<lparr> o_regular = True, o_uid = 0, o_mode = 384, o_size = 0, o_data = [] \<rparr>), k_module = (\<lambda>h. None),
     k_crash = \<lparr> f_kind = Other_error, f_class = ''TypeError'', f_text = [] \<rparr> \<rparr>"

definition vault_store :: store where
  "vault_store = \<lparr> creds = (\<lambda>l. if l = ''user_id_hash_key'' then b64encode (replicate 32 (CHR ''y'')) else replicate 48 (CHR ''B'')),
     current = (''QQ=='', replicate 48 (CHR ''C'')), previous = ([], []) \<rparr>"

definition vault_folder :: folder where
  "vault_folder = apply_puts 0 (put_events (store_files vault_sha vault_store)) []"

definition vault :: stack_host where
  "vault = vault_host (Some (448, 0, vault_folder))"

lemma vault_facts: "decodes_ascii vault" "hex64 (k_sha vault v)" "draws_ok vault" "private_dir vault 448 0" "k_secrets vault h = Some (448, 0, vault_folder)"
  by (simp_all add: vault_def vault_host_def decodes_ascii_def hex64_def vault_sha_def draws_ok_def private_dir_def others_any_def ALNUM_def
      is_hex_lower_def is_digit_def in_range_def ccode_def list_all_iff)

lemma vault_store_ok: "store_ok vault_store"
proof -
  have "list_all (\<lambda>l. l = ''user_id_hash_key'' \<or> alnum_text 32 (creds vault_store l)) LOGICAL_SECRETS" by code_simp
  moreover have "hash_key_ok (creds vault_store ''user_id_hash_key'')"
    by (simp add: hash_key_ok_def vault_store_def b64_length_encode b64encode_chars)
  moreover have "pair_ok (current vault_store)" "previous vault_store = ([], [])" by code_simp+
  ultimately show ?thesis unfolding store_ok_def list_all_iff credential_ok_def by metis
qed

lemma vault_represents: "represents vault vault_folder vault_store"
proof -
  have "k_uid vault = 0" "k_sha vault = vault_sha" by (simp_all add: vault_def vault_host_def)
  with new_represents [of vault_store vault, OF vault_store_ok vault_facts(2)] show ?thesis by (simp add: vault_folder_def)
qed

definition vault_rotation :: "string \<Rightarrow> rotate_args" where
  "vault_rotation l = \<lparr> r_name = l, r_apply_db = False, r_files_only = True, r_drop_previous = False \<rparr>"

definition migrator_puts :: history where
  "migrator_puts = [Put ''migrator_db_password'' (replicate 48 (CHR ''A'')),
     Put ''ConnectionStrings__decisya'' (connection_string ''decisya_migrator'' (replicate 48 (CHR ''A'')))]"

lemma vault_rotates: "cmd_secrets_rotate vault (vault_rotation ''migrator_db'') [] = (migrator_puts, Inr ())"
  by code_simp

theorem secrets_refine_witness:
  "\<exists>s'. store_step vault vault_store (Rotate (vault_rotation ''migrator_db'')) s' \<and> represents vault (apply_puts 0 migrator_puts vault_folder) s' \<and>
     secret_dir_problems vault (Some (448, 0, apply_puts 0 migrator_puts vault_folder)) = []"
proof -
  have job: "secrets_job vault (Rotate (vault_rotation ''migrator_db'')) [] = (migrator_puts, Inr ())"
    using vault_rotates by (simp add: secrets_job_def)
  have p: "parsed (Rotate (vault_rotation ''migrator_db''))" "\<not> rotates_certificate (Rotate (vault_rotation ''migrator_db''))" by code_simp+
  have u: "k_uid vault = 0" by (simp add: vault_def vault_host_def)
  from secrets_refine [of vault, OF vault_facts(1,2,3) p(1) vault_represents vault_store_ok vault_facts(5,4) job] p(2) u show ?thesis by auto
qed

lemma vault_init: "\<exists>h. cmd_secrets_init (vault_host None) [] = (h, Inr ())"
proof -
  have "snd (cmd_secrets_init (vault_host None) []) = Inr ()" by code_simp
  then show ?thesis by (metis prod.collapse)
qed

theorem init_checks_witness:
  "\<exists>h s. cmd_secrets_init (vault_host None) [] = (h, Inr ()) \<and> represents (vault_host None) (apply_puts 0 h []) s \<and>
     secret_dir_problems (vault_host None) (Some (448, 0, apply_puts 0 h [])) = []"
proof -
  have f: "decodes_ascii (vault_host None)" "hex64 (k_sha (vault_host None) v)" "draws_ok (vault_host None)" "private_dir (vault_host None) 448 0" for v
    using vault_facts(1-4) by (simp_all add: vault_def vault_host_def decodes_ascii_def draws_ok_def private_dir_def)
  have u: "k_uid (vault_host None) = 0" by (simp add: vault_host_def)
  from vault_init obtain h where h: "cmd_secrets_init (vault_host None) [] = (h, Inr ())" by blast
  from init_checks [of "vault_host None", OF f(1,2,3,4) h] h u show ?thesis by auto
qed

theorem interrupted_rotation_witness:
  "secret_dir_problems vault (Some (448, 0, apply_puts (k_uid vault) [Put ''migrator_db_password'' (replicate 48 (CHR ''A''))] vault_folder)) \<noteq> []"
proof (rule interrupted_rotation [of vault, OF vault_facts(1,2,3) vault_represents vault_store_ok vault_facts(4), where a = "vault_rotation ''migrator_db''" and h = "[]"])
  show "cmd_secrets_rotate vault (vault_rotation ''migrator_db'') [] =
      ([] @ [Put ''migrator_db_password'' (replicate 48 (CHR ''A''))] @ tl migrator_puts, Inr ())"
    using vault_rotates by (simp add: migrator_puts_def)
  show "k_sha vault (generate_credential vault (r_name (vault_rotation ''migrator_db''))) \<noteq> k_sha vault (creds vault_store (r_name (vault_rotation ''migrator_db'')))"
    by code_simp
qed (simp_all add: vault_rotation_def migrator_puts_def)

definition certificate_events :: history where
  "certificate_events = fst (rotate_certificate vault False [])"

lemma vault_certificate: "snd (rotate_certificate vault False []) = Inr ()"
  by code_simp

lemma third_write: "length (filter is_put (take 5 certificate_events)) = 3"
  by code_simp

theorem certificate_interruption_witness:
  "secret_dir_problems vault (Some (448, 0, apply_puts (k_uid vault) (take 5 certificate_events) vault_folder)) = []"
proof -
  have run: "rotate_certificate vault False [] = ([] @ take 5 certificate_events @ drop 5 certificate_events, Inr ())"
    using vault_certificate by (simp add: certificate_events_def prod_eq_iff)
  have "list_all (\<lambda>e. e \<noteq> Put DP_CERT (fst (current vault_store))) certificate_events" by code_simp
  then have "Put DP_CERT (fst (current vault_store)) \<notin> set (take 5 certificate_events @ drop 5 certificate_events)"
    by (auto simp: list_all_iff)
  from certificate_interruption [of vault, OF vault_facts(1,2,3) vault_represents vault_store_ok vault_facts(4) vault_facts(5) run this] third_write
  show ?thesis by simp
qed

end
