(* ===== verification/Stack_Check.thy ===== *)
theory Stack_Check
  imports Stack_Secrets Stack_Config Caddy_Guard Inspect_Guard Verify_Reports Freshness
begin

text \<open>
  What \<^verbatim>\<open>deploy/compose/stackctl.py\<close> checks before and after it starts anything: the layout and the manifest of the
  assembled files, the Docker checks, the key ring, the identity report, and the freshness gate in front of them all.
\<close>


section \<open>Guards that raise\<close>

text \<open>A guard of stackguards that raises (\<^term>\<open>None\<close>) raises the exception given by the host.\<close>

definition jguards :: "stack_host \<Rightarrow> 'a option \<Rightarrow> 'a job" where
  "jguards w r = (case r of None \<Rightarrow> jraise (k_crash w) | Some a \<Rightarrow> jret a)"

definition error_class :: "job_error \<Rightarrow> string" where
  "error_class e = (case e of Failed m \<Rightarrow> ''StackError'' | Exited n \<Rightarrow> ''SystemExit'' | Raised x \<Rightarrow> f_class x)"

definition error_text :: "job_error \<Rightarrow> string" where
  "error_text e = (case e of Failed m \<Rightarrow> m | Exited n \<Rightarrow> show_int n | Raised x \<Rightarrow> f_text x)"

definition is_kind :: "fault_kind set \<Rightarrow> job_error \<Rightarrow> bool" where
  "is_kind ks e = (case e of Raised x \<Rightarrow> f_kind x \<in> ks | _ \<Rightarrow> False)"

definition is_failed :: "job_error \<Rightarrow> bool" where
  "is_failed e = (case e of Failed m \<Rightarrow> True | _ \<Rightarrow> False)"


section \<open>The key ring\<close>

definition keyring_volume_exists :: "stack_host \<Rightarrow> bool job" where
  "keyring_volume_exists w = jbind (docker_run w [''docker'', ''volume'', ''inspect'', KEYRING_VOLUME_NAME] None) (\<lambda>(rc, out, err). jret (rc = 0))"

definition OUTCOME_RE :: rx where
  "OUTCOME_RE = RSeq (RAlt (rlit ''prepared'') (rlit ''reset''))
     (rplus (rseq [rchr CHR '' '', rplus (RSet is_lower_az), rchr CHR ''='', rrange 1 9 rdigit]))"

definition keyring_outcome :: "string \<Rightarrow> int \<times> string \<times> string \<Rightarrow> string job" where
  "keyring_outcome label p =
     (case p of (rc, out, err) \<Rightarrow>
        if rc = 3 then
          jfail (fmt (''keyring %s refused: the volume holds an entry that is neither a file nor a folder (a link, pipe, socket or device); ''
            @ ''nothing was changed; inspect the volume by hand'') [label])
        else if rc \<noteq> 0 then jfail (fmt ''keyring %s failed (exit %d); nothing is printed from the volume'' [label, show_int rc])
        else case filter (\<lambda>l. fullmatches OUTCOME_RE (strip l)) (splitlines out) of
          [] \<Rightarrow> jret (label @ '' done'')
        | l # ls \<Rightarrow> jret (strip l))"

definition create_volume_step :: "stack_host \<Rightarrow> bool \<Rightarrow> unit job" where
  "create_volume_step w create_volume =
     (if \<not> create_volume then
        jfail (''the key-ring volume vanished while the reset ran; nothing was created. Run `stackctl scan`, then `up`, '' @ ''which creates the volume'')
      else require_ok (''could not create the key-ring volume through Compose (exit %d); on a first start run `up`, ''
          @ ''which exports Caddy'' @ SQ @ ''s root and then prepares the volume'') (compose w [''create'', ''bff''] None))"

definition keyring_prepare :: "stack_host \<Rightarrow> bool \<Rightarrow> string job" where
  "keyring_prepare w create_volume =
     jbind (pinned_caddy_image w) (\<lambda>im.
     jbind (keyring_volume_exists w) (\<lambda>there.
     jbind (if there then jret () else create_volume_step w create_volume) (\<lambda>u.
     jbind (jlift (keyring_prepare_argv im)) (\<lambda>argv.
     jbind (docker_run w argv None) (keyring_outcome ''prepare'')))))"

definition keyring_reset :: "stack_host \<Rightarrow> bool \<Rightarrow> string job" where
  "keyring_reset w all_keys =
     jbind (pinned_caddy_image w) (\<lambda>im.
     jbind (keyring_volume_exists w) (\<lambda>there.
     jbind (jguard (\<not> there) ''the key-ring volume does not exist: there is nothing to reset'') (\<lambda>u.
     jbind (require_ok ''could not stop the bff (exit %d); nothing was changed'' (compose w [''stop'', ''bff''] None)) (\<lambda>u.
     jbind (jlift (keyring_reset_argv im all_keys)) (\<lambda>argv.
     jbind (docker_run w argv None) (\<lambda>p.
     jbind (keyring_outcome ''reset'' p) (\<lambda>outcome.
     jbind (keyring_prepare w False) (\<lambda>prepared.
       jret (outcome @ ''; '' @ prepared)))))))))"

text \<open>Problems and notes of the key ring.\<close>

definition keyring_note :: "counts \<Rightarrow> string" where
  "keyring_note facts = fmt ''keyring: key_files=%d wrapped=%d failing=%d other_files=%d''
     (map (\<lambda>k. show_int (the (map_of facts k))) [''xml_files'', ''xml_ok'', ''xml_failing'', ''other_files''])"

definition keyring_check :: "stack_host \<Rightarrow> (string list \<times> string list) job" where
  "keyring_check w =
     jbind (jtry (jbind (pinned_caddy_image w) (\<lambda>im. jret (Inr im))) (\<lambda>e.
        if is_failed e then Some (jret (Inl (''key ring check: '' @ error_text e))) else None)) (\<lambda>r.
     case r of Inl m \<Rightarrow> jret ([m], []) | Inr im \<Rightarrow>
     jbind (jlift (keyring_verify_argv im)) (\<lambda>argv.
     jbind (jtry (jbind (docker_run w argv None) (\<lambda>p. jret (Some p))) (\<lambda>e. if is_caught_run e then Some (jret None) else None)) (\<lambda>q.
     case q of None \<Rightarrow> jret ([''key ring check: did not complete (timeout or Docker error)''], []) | Some (rc, out, err) \<Rightarrow>
       if rc \<noteq> 0 then jret ([fmt ''key ring check: could not run (exit %d); is Docker up and the Caddy image present?'' [show_int rc]], [])
       else case parse_keyring_report out of
         Inl reason \<Rightarrow> jret ([''key ring check: '' @ reason], [])
       | Inr facts \<Rightarrow> jbind (jguards w (keyring_problems facts)) (\<lambda>ps. jret (ps, [keyring_note facts])))))"


section \<open>The assembled files\<close>

definition ASSEMBLE_MAP :: "(string \<times> string) list" where
  "ASSEMBLE_MAP =
     [(''deploy/compose/docker-compose.yaml'', GENERATED_NAME),
      (''deploy/compose/docker-compose.stack.yaml'', OVERLAY_NAME),
      (''deploy/caddy/Caddyfile'', ''config/caddy/Caddyfile''),
      (''deploy/otel-collector/config.yaml'', ''config/otel-collector/config.yaml''),
      (''deploy/redis/redis.conf'', ''config/redis/redis.conf''),
      (''deploy/postgres/init/10-keycloak-db.sh'', ''config/postgres/init/10-keycloak-db.sh''),
      (''deploy/postgres/init/20-decisya-db.sh'', ''config/postgres/init/20-decisya-db.sh''),
      (''deploy/keycloak/entrypoint-stack.sh'', ''config/keycloak/entrypoint-stack.sh''),
      (''deploy/keycloak/production/realm-decisya.json'', ''config/keycloak/realm-decisya.json''),
      (''deploy/keycloak/production/common-passwords.txt'', ''config/keycloak/common-passwords.txt''),
      (''deploy/keycloak/production/identity-check.sql'', ''config/keycloak/identity-check.sql'')]"

definition IDENTITY_SQL_DEST :: string where
  "IDENTITY_SQL_DEST = ''config/keycloak/identity-check.sql''"

definition STACK_TOP_FILES :: "string list" where
  "STACK_TOP_FILES = [GENERATED_NAME, OVERLAY_NAME, MANIFEST_NAME, ENV_NAME, IMAGES_NAME]"

definition STACK_TOP_DIRS :: "string list" where
  "STACK_TOP_DIRS = [''config'', ''secrets'', ''trust'']"

definition COMPOSE_DEFAULT_NAME :: rx where
  "COMPOSE_DEFAULT_NAME = rseq [ropt (rlit_ci ''docker-''), rlit_ci ''compose'', ropt (rlit_ci ''.override''), rlit_ci ''.y'', ropt (rlit_ci ''a''), rlit_ci ''ml'']"

definition layout_entry :: "stack_host \<Rightarrow> history \<Rightarrow> string \<Rightarrow> string list" where
  "layout_entry w h name =
     (if fullmatches COMPOSE_DEFAULT_NAME name then
        [name @ '' carries a Compose default name, so a bare `docker compose up` would load it'']
      else if k_is_file w h (in_stack w name) \<and> name \<notin> set STACK_TOP_FILES then
        [''unexpected file '' @ name @ '' in the stack folder (no extra Compose or environment files)'']
      else msg_if (k_is_dir w h (in_stack w name) \<and> name \<notin> set STACK_TOP_DIRS) (''unexpected folder '' @ name @ '' in the stack folder''))"

definition layout_problems :: "stack_host \<Rightarrow> history \<Rightarrow> string list" where
  "layout_problems w h =
     concat (map (layout_entry w h) (sort (k_entries w h (path_text (k_stack w)))))
     @ concat (map (\<lambda>name. msg_if (\<not> k_is_file w h (in_stack w name)) (name @ '' is missing (run `assemble`)'')) [GENERATED_NAME, OVERLAY_NAME])"

definition MANIFEST_RE :: rx where
  "MANIFEST_RE = rseq [RGroup 1 (rrep 64 (RSet is_hex_lower)), rlit ''  '', RGroup 2 (RSeq (RSet (\<lambda>c. \<not> is_space c)) (RStar rdot))]"

definition manifest_entry :: "string \<Rightarrow> env \<Rightarrow> env" where
  "manifest_entry line entries =
     (case re_fullmatch MANIFEST_RE line of None \<Rightarrow> entries | Some c \<Rightarrow> dset entries (group_text c 2) (group_text c 1))"

definition parse_manifest :: "string \<Rightarrow> env" where
  "parse_manifest t = fold manifest_entry (splitlines t) []"

definition manifest_line :: "string \<times> string \<Rightarrow> string" where
  "manifest_line dh = snd dh @ ''  '' @ fst dh"

text \<open>The lines sorted by the path; the paths are distinct, so the order is one.\<close>

definition manifest_text :: "(string \<times> string) list \<Rightarrow> string" where
  "manifest_text hashes = join [NL] (map manifest_line (sort_key fst hashes)) @ [NL]"

definition file_hash :: "stack_host \<Rightarrow> string \<Rightarrow> string job" where
  "file_hash w p = jbind (jread (\<lambda>h. k_bytes w h p)) (\<lambda>b. jret (k_sha w b))"

definition assembled_problem :: "stack_host \<Rightarrow> env \<Rightarrow> string \<times> string \<Rightarrow> string list job" where
  "assembled_problem w recorded sd =
     (case sd of (source, dest) \<Rightarrow>
        jbind (jlook (\<lambda>h. k_is_file w h (in_stack w dest))) (\<lambda>there.
        if \<not> there then jret [fmt ''assembled file %s is missing'' [dest]]
        else
          jbind (file_hash w (in_stack w dest)) (\<lambda>actual.
          let changed = msg_if (map_of recorded dest \<noteq> Some actual)
              (fmt ''assembled file %s was changed after assemble (hash differs from the manifest)'' [dest]) in
          jbind (jlook (\<lambda>h. k_is_file w h (in_repo w source))) (\<lambda>cloned.
          if \<not> cloned then jret (changed @ [source @ '' is missing from the clone''])
          else
            jbind (file_hash w (in_repo w source)) (\<lambda>original.
              jret (changed @ msg_if (original \<noteq> actual)
                (fmt ''assembled file %s differs from the clone (check out the release tag and re-run assemble)'' [dest])))))))"

definition config_extra :: "stack_host \<Rightarrow> history \<Rightarrow> string list" where
  "config_extra w h =
     (if k_is_dir w h (in_stack w ''config'') then
        map (\<lambda>f. fmt ''unexpected file %s under config'' [f])
          (filter (\<lambda>f. f \<notin> set (map snd ASSEMBLE_MAP)) (k_files_under w h (in_stack w ''config'')))
      else [])"

definition manifest_problems :: "stack_host \<Rightarrow> string list job" where
  "manifest_problems w =
     jbind (jlook (\<lambda>h. k_is_file w h (in_stack w MANIFEST_NAME))) (\<lambda>there.
     if \<not> there then jret [MANIFEST_NAME @ '' is missing (run `assemble`)'']
     else
       jbind (jread (\<lambda>h. k_text w h (in_stack w MANIFEST_NAME))) (\<lambda>t.
       let recorded = parse_manifest t in
       jbind (jmap (assembled_problem w recorded) ASSEMBLE_MAP) (\<lambda>ps.
       jbind (jlook (config_extra w)) (\<lambda>extra.
         jret (msg_if (\<not> same_set (dkeys recorded) (map snd ASSEMBLE_MAP)) (MANIFEST_NAME @ '' does not list exactly the assembled files'')
           @ concat ps @ extra)))))"

definition root_problems :: "string option \<Rightarrow> string list" where
  "root_problems t =
     (case t of
        None \<Rightarrow> [''trust/caddy-root.crt is not readable ASCII PEM'']
      | Some text \<Rightarrow>
          msg_if (count_sub ''-----BEGIN CERTIFICATE-----'' text \<noteq> 1 \<or> count_sub ''-----END CERTIFICATE-----'' text \<noteq> 1)
            ''trust/caddy-root.crt must hold exactly one certificate''
          @ msg_if (py_in ''PRIVATE KEY'' text) ''trust/caddy-root.crt holds a private key'')"

text \<open>An unreadable file and bytes that are not ASCII are one case.\<close>

definition ascii_file :: "stack_host \<Rightarrow> string \<Rightarrow> history \<Rightarrow> string option" where
  "ascii_file w p h =
     (case k_bytes w h p of Inl x \<Rightarrow> None | Inr b \<Rightarrow> if list_all is_ascii b then Some b else None)"

definition trust_problems :: "stack_host \<Rightarrow> history \<Rightarrow> string list" where
  "trust_problems w h =
     (if k_is_dir w h (in_stack w ''trust'') then
        map (\<lambda>e. fmt ''unexpected entry %s in the trust folder (only the public root belongs there)'' [e])
          (filter (\<lambda>e. e \<noteq> ''caddy-root.crt'') (k_entries w h (in_stack w ''trust'')))
        @ (if k_exists w h (in_stack w ''trust/caddy-root.crt'') then root_problems (ascii_file w (in_stack w ''trust/caddy-root.crt'') h) else [])
      else [])"

definition images_problem :: "env \<Rightarrow> env \<Rightarrow> string \<times> string \<Rightarrow> string list" where
  "images_problem refs values ks =
     (case ks of (key, service) \<Rightarrow>
        if \<not> dhas refs service then [fmt ''%s has no line for %s'' [IMAGES_NAME, service]]
        else msg_if (val_of values key \<noteq> [] \<and> Some (val_of values key) \<noteq> map_of refs service)
          (fmt ''%s differs from the digest in %s'' [key, IMAGES_NAME]))"

definition images_problems :: "stack_host \<Rightarrow> env \<Rightarrow> string list job" where
  "images_problems w values =
     jbind (jlook (\<lambda>h. k_is_file w h (in_stack w IMAGES_NAME))) (\<lambda>there.
     if \<not> there then jret [fmt (''%s is missing: save the release'' @ SQ @ ''s images.txt in the stack folder'') [IMAGES_NAME]]
     else jbind (jread (\<lambda>h. k_text w h (in_stack w IMAGES_NAME))) (\<lambda>t.
       jret (concat (map (images_problem (parse_images_txt t) values) IMAGE_KEYS))))"

definition yaml_problems :: "stack_host \<Rightarrow> string \<Rightarrow> string list job" where
  "yaml_problems w name =
     jbind (jlook (\<lambda>h. k_is_file w h (in_stack w name))) (\<lambda>there.
       if there then jbind (jread (\<lambda>h. k_text w h (in_stack w name))) (\<lambda>t. jret (yaml_text_problems name t)) else jret [])"

definition shell_problems :: "(string \<times> string) list \<Rightarrow> string list" where
  "shell_problems env =
     (let ks = sort (filter (\<lambda>k. py_startswith k ''COMPOSE_'') (map fst env)) in
      msg_if (ks \<noteq> []) (fmt ''COMPOSE_* variables are set in the shell (%s); unset them'' [join '', '' ks]))"

definition static_problems :: "stack_host \<Rightarrow> string list job" where
  "static_problems w =
     jbind (jlook (\<lambda>h. k_is_dir w h (path_text (k_stack w)))) (\<lambda>here.
     if \<not> here then jret [''the stack folder does not exist'']
     else
       jbind (jlook (\<lambda>h. location_problems (k_exists w h) (k_stack w) @ layout_problems w h @ shell_problems (k_environ w))) (\<lambda>p1.
       jbind (read_env w) (\<lambda>(values, parse).
       jbind (images_problems w values) (\<lambda>p2.
       jbind (manifest_problems w) (\<lambda>p3.
       jbind (jlook (\<lambda>h. secret_dir_problems w (k_secrets w h) @ trust_problems w h)) (\<lambda>p4.
       jbind (jmap (yaml_problems w) [GENERATED_NAME, OVERLAY_NAME]) (\<lambda>p5.
         jret (p1 @ parse @ (if values \<noteq> [] \<or> parse = [] then env_problems values else []) @ p2 @ p3 @ p4 @ concat p5))))))))"


section \<open>The Docker checks\<close>

definition is_caught_check :: "job_error \<Rightarrow> bool" where
  "is_caught_check e \<longleftrightarrow> is_failed e \<or> is_kind {OS_error, Value_error, Key_error} e"

text \<open>One step of the block: an error that is caught ends the block with the problems so far.\<close>

definition attempt :: "string list \<Rightarrow> 'a job \<Rightarrow> ('a \<Rightarrow> string list job) \<Rightarrow> string list job" where
  "attempt ps m k h =
     (case m h of
        (h', Inr a) \<Rightarrow> k a h'
      | (h', Inl e) \<Rightarrow> if is_caught_check e then (h', Inr (ps @ [''Docker checks could not complete: '' @ error_text e])) else (h', Inl e))"

definition release_refs_of :: "stack_host \<Rightarrow> env job" where
  "release_refs_of w =
     jbind (jlook (\<lambda>h. k_is_file w h (in_stack w IMAGES_NAME))) (\<lambda>there.
       if there then jbind (jread (\<lambda>h. k_text w h (in_stack w IMAGES_NAME))) (\<lambda>t. jret (parse_images_txt t)) else jret [])"

definition caddy_image_of :: "dict \<Rightarrow> string option" where
  "caddy_image_of cfg =
     do { services \<leftarrow> or_dict (dget cfg ''services'');
          caddy \<leftarrow> (case map_of services ''caddy'' of None \<Rightarrow> Some [] | Some v \<Rightarrow> as_dict v);
          Some (case map_of caddy ''image'' of None \<Rightarrow> [] | Some v \<Rightarrow> py_str v) }"

definition CADDYFILE :: string where
  "CADDYFILE = ''config/caddy/Caddyfile''"

definition docker_problems :: "stack_host \<Rightarrow> string list job" where
  "docker_problems w =
     jbind (read_env w) (\<lambda>(values, parse).
     if parse \<noteq> [] \<or> env_problems values \<noteq> [] then jret [''Docker checks skipped: fix the environment file first'']
     else
       attempt [] (load_scan_refs w) (\<lambda>scan_refs.
       attempt [] (release_refs_of w) (\<lambda>release_refs.
       attempt [] (jbind (config_json w) (\<lambda>v. jguards w (as_dict v))) (\<lambda>cfg.
       attempt [] (jguards w (config_problems cfg True values (Some scan_refs) (Some release_refs))) (\<lambda>p1.
       attempt p1 (jread (\<lambda>h. k_text w h (in_stack w CADDYFILE))) (\<lambda>caddyfile.
       let p2 = p1 @ caddy_text_problems caddyfile in
       attempt p2 (jread (\<lambda>h. k_text w h (in_stack w ''config/redis/redis.conf''))) (\<lambda>redis_conf.
       let p3 = p2 @ redis_conf_problems redis_conf in
       attempt p3 (jbind (jguards w (caddy_image_of cfg)) (\<lambda>im.
           jbind (jlook (k_temp w)) (\<lambda>folder. caddy_adapt w folder im (in_stack w CADDYFILE) values))) (\<lambda>adapted.
       attempt p3 (jbind (jguards w (as_dict adapted)) (\<lambda>a. jguards w (caddy_problems a values))) (\<lambda>p4.
         jret (p3 @ p4))))))))))"


section \<open>The freshness gate\<close>

definition SCAN_RESULT_MAX_BYTES :: nat where
  "SCAN_RESULT_MAX_BYTES = 4 * 1024 * 1024"

definition SCAN_MODULE_PATH :: string where
  "SCAN_MODULE_PATH = ''.github/scripts/image_scan.py''"

definition STACK_EXCEPTIONS_PATH :: string where
  "STACK_EXCEPTIONS_PATH = ''.github/image-scan/exceptions.json''"

definition SCANNER_DOCKERFILE :: string where
  "SCANNER_DOCKERFILE = ''.github/image-scan/Dockerfile''"

definition scan_result_name :: "stack_host \<Rightarrow> string" where
  "scan_result_name w = path_name (k_stack w) @ ''.image-scan.json''"

definition scan_result_path :: "stack_host \<Rightarrow> string" where
  "scan_result_path w =
     path_text (path_sub (case path_parents (k_stack w) of [] \<Rightarrow> k_stack w | p # ps \<Rightarrow> p) (scan_result_name w))"

definition deploy_refs :: "stack_host \<Rightarrow> env job" where
  "deploy_refs w =
     jbind (jtry (load_scan_refs w) (\<lambda>e. Some (jfail ''could not read the pinned images from src/Decisya.AppHost/ContainerImages.cs''))) (\<lambda>scan_refs.
     jbind (read_env w) (\<lambda>(values, parse).
     jbind (jtry (release_refs_of w) (\<lambda>e. if is_kind {OS_error, Value_error} e then Some (jfail (IMAGES_NAME @ '' is not readable'')) else None)) (\<lambda>release_refs.
       case deploy_ref_set (Some scan_refs) (Some values) (Some release_refs) of (refs, problems) \<Rightarrow>
         if problems \<noteq> [] then jfail (''the stack'' @ SQ @ ''s image set is incomplete: '' @ join ''; '' problems) else jret refs)))"

definition scan_bindings :: "stack_host \<Rightarrow> (env \<times> string \<times> string \<times> string) job" where
  "scan_bindings w =
     jbind (deploy_refs w) (\<lambda>refs.
     jtry (jbind (load_scan_module w) (\<lambda>u.
           jbind (jread (\<lambda>h. k_text w h (in_repo w SCANNER_DOCKERFILE))) (\<lambda>t.
           jbind (jread (\<lambda>h. value_result (parse_scanner_ref t))) (\<lambda>scanner.
           jbind (file_hash w (in_repo w STACK_EXCEPTIONS_PATH)) (\<lambda>exceptions_sha.
           jbind (file_hash w (in_repo w SCAN_MODULE_PATH)) (\<lambda>scan_sha.
             jret (refs, scanner, exceptions_sha, scan_sha)))))))
       (\<lambda>e. Some (jfail ''the scanner reference, exceptions.json or image_scan.py of the clone is unreadable'')))"

definition larger_message :: "string \<Rightarrow> string" where
  "larger_message name = fmt ''%s is larger than %d bytes'' [name, show_nat SCAN_RESULT_MAX_BYTES]"

definition opened_result :: "stack_host \<Rightarrow> string \<Rightarrow> opened \<Rightarrow> string + string" where
  "opened_result w name f =
     (if \<not> o_regular f then Inl (name @ '' is not a regular file'')
      else if k_posix w \<and> o_uid f \<noteq> k_uid w then Inl (name @ '' is owned by another account'')
      else if k_posix w \<and> group_writable (o_mode f) then Inl (name @ '' is writable by group or others'')
      else if SCAN_RESULT_MAX_BYTES < o_size f then Inl (larger_message name)
      else let data = take (SCAN_RESULT_MAX_BYTES + 1) (o_data f) in
        if SCAN_RESULT_MAX_BYTES < length data then Inl (larger_message name) else Inr data)"

definition read_scan_result :: "stack_host \<Rightarrow> string job" where
  "read_scan_result w =
     (let name = scan_result_name w in
      jbind (jread (\<lambda>h. k_lstat w h (scan_result_path w))) (\<lambda>kind.
        case kind of
          None \<Rightarrow> jfail (fmt ''there is no scan result (%s); run `stackctl scan`'' [name])
        | Some Regular \<Rightarrow>
            jbind (jread (\<lambda>h. k_open w h (scan_result_path w))) (\<lambda>f. jlift (opened_result w name f))
        | Some _ \<Rightarrow> jfail (name @ '' is a link or not a regular file'')))"

definition overflow_fault :: fault where
  "overflow_fault = \<lparr> f_kind = Other_error, f_class = ''OverflowError'', f_text = [] \<rparr>"

definition gate_found :: "stack_host \<Rightarrow> json \<Rightarrow> string list job" where
  "gate_found w record =
     jbind (scan_bindings w) (\<lambda>(refs, scanner, exceptions_sha, scan_sha).
     jbind (jlook (k_now w)) (\<lambda>now.
       case scan_result_problems record refs scanner exceptions_sha scan_sha now of
         None \<Rightarrow> jraise overflow_fault
       | Some found \<Rightarrow> jret (map (\<lambda>p. ''scan result: '' @ p) found)))"

definition read_record :: "stack_host \<Rightarrow> (string + json) job" where
  "read_record w =
     jtry (jbind (read_scan_result w) (\<lambda>data.
           case k_decode w data of None \<Rightarrow> jraise decode_fault
           | Some t \<Rightarrow> jbind (jread (\<lambda>h. k_json w t)) (\<lambda>v. jret (Inr v))))
       (\<lambda>e. if is_failed e then Some (jret (Inl (''scan result: '' @ error_text e)))
            else if is_kind {Value_error} e then Some (jret (Inl (fmt ''scan result: %s is not JSON; run `stackctl scan`'' [scan_result_name w])))
            else None)"

definition freshness_problems :: "stack_host \<Rightarrow> string list job" where
  "freshness_problems w =
     jtry (jbind (read_record w) (\<lambda>r. case r of Inl m \<Rightarrow> jret [m] | Inr record \<Rightarrow> gate_found w record))
       (\<lambda>e. Some (jret [fmt ''scan result: %s could not be checked (%s); run `stackctl scan`'' [scan_result_name w, error_class e]]))"

definition deploy_gate_problems :: "stack_host \<Rightarrow> string list job" where
  "deploy_gate_problems w =
     jbind (freshness_problems w) (\<lambda>p1.
     jbind (jtry (manifest_problems w) (\<lambda>e.
         Some (jret [fmt ''the assembled files could not be compared with the clone (%s)'' [error_class e]]))) (\<lambda>p2.
       jret (p1 @ p2)))"


section \<open>The identity report and the running containers\<close>

definition PSQL_BASE :: "string list" where
  "PSQL_BASE = [''exec'', ''-T'', ''postgres'', ''psql'', ''-q'', ''-At'', ''-U'', ''postgres'', ''-v'', ''ON_ERROR_STOP=1'']"

definition bootstrap_retired :: "stack_host \<Rightarrow> history \<Rightarrow> bool" where
  "bootstrap_retired w h =
     (case k_size w h (in_stack w (''secrets/'' @ BOOTSTRAP_SECRET)) of
        Inr (Some n) \<Rightarrow> n = 0 | Inr None \<Rightarrow> True | Inl x \<Rightarrow> False)"

definition run_identity_check :: "stack_host \<Rightarrow> (string + facts) job" where
  "run_identity_check w =
     jbind (jtry (jbind (jread (\<lambda>h. k_text w h (in_stack w IDENTITY_SQL_DEST))) (\<lambda>t. jret (Some t))) (\<lambda>e.
        if is_kind {OS_error} e then Some (jret None) else None)) (\<lambda>r.
     case r of
       None \<Rightarrow> jret (Inl ''identity-check.sql is missing from the stack folder (run `assemble`)'')
     | Some t \<Rightarrow>
         (case identity_sql_problems t of
            b # bs \<Rightarrow> jret (Inl b)
          | [] \<Rightarrow>
              jbind (jtry (jbind (compose w (PSQL_BASE @ [''-d'', ''keycloak'']) (Some t)) (\<lambda>p. jret (Some p))) (\<lambda>e.
                 if is_caught_run e then Some (jret None) else None)) (\<lambda>q.
              case q of
                None \<Rightarrow> jret (Inl ''the identity check did not complete (timeout or Docker error)'')
              | Some (rc, out, err) \<Rightarrow>
                  if rc \<noteq> 0 then
                    jret (Inl (fmt ''the identity check could not run (exit %d); is postgres up and the keycloak database present?'' [show_int rc]))
                  else jret (parse_identity_output out))))"

definition fact_of :: "facts \<Rightarrow> string \<Rightarrow> fact" where
  "fact_of facts k = the (map_of facts k)"

definition identity_note :: "facts \<Rightarrow> string" where
  "identity_note facts = fmt ''identity: users_total=%d users_without_synthetic=%d tenant_mfa=%s breached_list=%s''
     [show_int (fact_int (fact_of facts ''users_total'')), show_int (fact_int (fact_of facts ''users_without_synthetic'')),
      on_off (fact_true (fact_of facts ''level_2_tenant_conditional'')), on_off (fact_true (fact_of facts ''breached_list_in_policy''))]"

definition identity_check_problems :: "stack_host \<Rightarrow> (string list \<times> string list) job" where
  "identity_check_problems w =
     jbind (run_identity_check w) (\<lambda>r.
       case r of
         Inl reason \<Rightarrow> jret ([''identity check: '' @ reason], [])
       | Inr facts \<Rightarrow>
           jbind (jlook (bootstrap_retired w)) (\<lambda>retired.
           jbind (jguards w (identity_problems facts retired)) (\<lambda>ps. jret (ps, [identity_note facts]))))"

definition json_items :: "json \<Rightarrow> json list option" where
  "json_items v = (case v of JList xs \<Rightarrow> Some xs | _ \<Rightarrow> None)"

definition verify_problems :: "stack_host \<Rightarrow> (string list \<times> string list) job" where
  "verify_problems w =
     jbind (read_env w) (\<lambda>(values, parse).
     jbind (inspect_project w) (\<lambda>v.
     jbind (jguards w (do { items \<leftarrow> json_items v;
         inspect_problems items (map_of values ''DECISYA_BIND_ADDRESS'') (map_of values ''DECISYA_HTTPS_PORT'') (map_of values ''DECISYA_ADMIN_PORT'') })) (\<lambda>p1.
     jbind (keyring_check w) (\<lambda>(p2, n2).
     jbind (identity_check_problems w) (\<lambda>(p3, n3).
       jret (p1 @ p2 @ p3, n2 @ n3))))))"

end
