(* ===== verification/Py_Clock.thy ===== *)
theory Py_Clock
  imports Py_Time
begin

text \<open>
  Dates and times printed: \<^verbatim>\<open>date.isoformat\<close> and the time stamp \<^verbatim>\<open>%Y-%m-%dT%H:%M:%SZ\<close>, and that they are read back.
\<close>


section \<open>From an ordinal to the calendar\<close>

definition year_of :: "int \<Rightarrow> int" where
  "year_of n = last (filter (\<lambda>y. days_before_year y < n) [n div 366 .. n div 365 + 1])"

definition month_of :: "int \<Rightarrow> int \<Rightarrow> int" where
  "month_of y k = last (filter (\<lambda>m. days_before_month y m < k) [1..12])"

text \<open>\<^verbatim>\<open>date.fromordinal\<close>.\<close>

definition ord_ymd :: "int \<Rightarrow> int \<times> int \<times> int" where
  "ord_ymd n =
     (let y = year_of n; k = n - days_before_year y; m = month_of y k in (y, m, k - days_before_month y m))"

lemma last_filter_upto:
  fixes a b x :: int
  assumes "a \<le> x" "x \<le> b" "P x" "\<And>y. x < y \<Longrightarrow> y \<le> b \<Longrightarrow> \<not> P y"
  shows "last (filter P [a..b]) = x"
proof -
  have "[a..b] = [a..x] @ [x + 1..b]" using assms(1,2) by (rule upto_split2)
  moreover have "filter P [x + 1..b] = []" using assms(4) by (auto simp: filter_empty_conv)
  moreover have "[a..x] = [a..x - 1] @ [x]" using assms(1) by (rule upto_rec2)
  ultimately show ?thesis using assms(3) by simp
qed

lemma days_before_year_bounds: "1 \<le> y \<Longrightarrow> (y - 1) * 365 \<le> days_before_year y \<and> days_before_year y \<le> (y - 1) * 366"
proof -
  assume "1 \<le> y"
  then have z: "0 \<le> y - 1" by simp
  have "(y - 1) div 100 \<le> (y - 1) div 4" "(y - 1) div 400 \<le> (y - 1) div 100"
    using z by (simp_all add: zdiv_mono2)
  moreover have "(y - 1) div 4 \<le> y - 1" "0 \<le> (y - 1) div 400" using z zdiv_mono2 [of "y - 1" 1 4] by (simp_all add: pos_imp_zdiv_nonneg_iff)
  ultimately show ?thesis unfolding days_before_year_def by (simp add: algebra_simps)
qed

lemma year_of_eq:
  assumes "1 \<le> y" "days_before_year y < n" "n \<le> days_before_year (y + 1)"
  shows "year_of n = y"
  unfolding year_of_def
proof (rule last_filter_upto)
  from assms days_before_year_bounds [of y] have l: "(y - 1) * 365 < n" by linarith
  from assms days_before_year_bounds [of "y + 1"] have u: "n \<le> y * 366" by simp
  show "n div 366 \<le> y" using u by linarith
  have "y - 1 \<le> n div 365" using l zdiv_mono1 [of "(y - 1) * 365" n 365] by simp
  then show "y \<le> n div 365 + 1" by simp
  show "days_before_year y < n" by fact
  fix z assume "y < z"
  with days_before_year_mono [of "y + 1" z] assms(3) show "\<not> days_before_year z < n" by linarith
qed

lemma month_of_eq:
  assumes "1 \<le> m" "m \<le> 12" "days_before_month y m < k" "k \<le> days_before_month y (m + 1)"
  shows "month_of y k = m"
  unfolding month_of_def
proof (rule last_filter_upto)
  fix z assume "m < z"
  with days_before_month_mono [of "m + 1" z y] assms show "\<not> days_before_month y z < k" by linarith
qed (use assms in auto)

lemma days_before_month_nonneg: "1 \<le> m \<Longrightarrow> 0 \<le> days_before_month y m"
  using days_before_month_mono [of 1 m y] by (simp add: days_before_month_def [of _ 1])

lemma valid_in_year:
  assumes "valid_ymd y m d"
  shows "days_before_year y < ymd_ord y m d \<and> ymd_ord y m d \<le> days_before_year (y + 1)"
proof -
  have "days_before_month y (m + 1) \<le> days_before_month y 13"
    using assms by (intro days_before_month_mono) (auto simp: valid_ymd_def)
  with ord_in_month [OF assms] days_before_year_step [of y] assms days_before_month_nonneg [of m y]
  show ?thesis by (simp add: ymd_ord_def valid_ymd_def)
qed

lemma ord_ymd_of_ymd: "valid_ymd y m d \<Longrightarrow> ord_ymd (ymd_ord y m d) = (y, m, d)"
proof -
  assume v: "valid_ymd y m d"
  have y: "year_of (ymd_ord y m d) = y" using v valid_in_year [OF v] by (intro year_of_eq) (auto simp: valid_ymd_def)
  have "month_of y (days_before_month y m + d) = m"
    using v ord_in_month [OF v] by (intro month_of_eq) (auto simp: valid_ymd_def)
  with y show ?thesis by (simp add: ord_ymd_def ymd_ord_def)
qed

lemma int_crossing:
  fixes f :: "int \<Rightarrow> int"
  assumes "f a < n" "n \<le> f b" "a \<le> b"
  obtains x where "a \<le> x" "x < b" "f x < n" "n \<le> f (x + 1)"
proof -
  have "\<exists>x. a \<le> x \<and> x < a + int k \<and> f x < n \<and> n \<le> f (x + 1)" if "n \<le> f (a + int k)" for k
    using that
  proof (induction k)
    case 0
    with assms(1) show ?case by simp
  next
    case (Suc k)
    show ?case
    proof (cases "n \<le> f (a + int k)")
      case True
      with Suc.IH show ?thesis by force
    next
      case False
      with Suc.prems show ?thesis by (intro exI [of _ "a + int k"]) (auto simp: algebra_simps)
    qed
  qed
  from this [of "nat (b - a)"] assms that show ?thesis by auto
qed

lemma ord_is_ymd:
  assumes "1 \<le> n" "n \<le> MAX_ORD"
  obtains y m d where "valid_ymd y m d" "ymd_ord y m d = n"
proof -
  have "days_before_year 1 < n" "n \<le> days_before_year 10000" using assms by (simp_all add: days_before_year_def MAX_ORD_def)
  then obtain y where y: "1 \<le> y" "y < 10000" "days_before_year y < n" "n \<le> days_before_year (y + 1)"
    using int_crossing [of days_before_year 1 n 10000] by auto
  define k where "k = n - days_before_year y"
  have "days_before_month y 1 < k" "k \<le> days_before_month y 13" using y days_before_year_step [of y] by (simp_all add: k_def days_before_month_def [of _ 1])
  then obtain m where m: "1 \<le> m" "m < 13" "days_before_month y m < k" "k \<le> days_before_month y (m + 1)"
    using int_crossing [of "days_before_month y" 1 k 13] by auto
  have "valid_ymd y m (k - days_before_month y m)" using y m days_before_month_step [of m y] by (simp add: valid_ymd_def)
  with that [OF this] show ?thesis by (simp add: ymd_ord_def k_def)
qed


section \<open>Printing\<close>

fun pad :: "nat \<Rightarrow> int \<Rightarrow> string" where
  "pad 0 n = []"
| "pad (Suc k) n = pad k (n div 10) @ [digit_char (nat (n mod 10))]"

definition isoformat :: "int \<Rightarrow> string" where
  "isoformat n = (case ord_ymd n of (y, m, d) \<Rightarrow> pad 4 y @ ''-'' @ pad 2 m @ ''-'' @ pad 2 d)"

text \<open>Seconds of a time in microseconds, from the year 1000 on (\<^verbatim>\<open>strftime\<close> does not fill up an earlier one).\<close>

definition time_stamp :: "int \<Rightarrow> string" where
  "time_stamp t =
     (let s = t mod DAY div 1000000 in
      isoformat (t div DAY) @ ''T'' @ pad 2 (s div 3600) @ '':'' @ pad 2 (s div 60 mod 60) @ '':'' @ pad 2 (s mod 60) @ ''Z'')"

lemma length_pad [simp]: "length (pad k n) = k"
  by (induction k arbitrary: n) simp_all

lemma pad_digits: "list_all is_digit (pad k n)"
  by (induction k arbitrary: n) (auto simp: is_digit_digit_char)

lemma digits_val_pad: "0 \<le> n \<Longrightarrow> n < 10 ^ k \<Longrightarrow> digits_val (pad k n) = n"
proof (induction k arbitrary: n)
  case 0
  then show ?case by (simp add: digits_val_def)
next
  case (Suc k)
  have "n div 10 < 10 ^ k" "0 \<le> n div 10" using Suc.prems by auto
  with Suc.IH have "digits_val (pad k (n div 10)) = n div 10" by blast
  then show ?case using Suc.prems by (simp add: digits_val_snoc digit_val_digit_char)
qed

lemma isoformat_read: 
  assumes "1 \<le> n" "n \<le> MAX_ORD"
  shows "date_fromisoformat (isoformat n) = Some n"
proof -
  from ord_is_ymd [OF assms] obtain y m d where v: "valid_ymd y m d" "ymd_ord y m d = n" .
  have r: "0 \<le> y" "y < 10 ^ 4" "0 \<le> m" "m < 10 ^ 2" "0 \<le> d" "d < 10 ^ 2" using v(1) by (auto simp: valid_ymd_def days_in_month_def split: if_splits)
  have i: "isoformat n = pad 4 y @ ''-'' @ pad 2 m @ ''-'' @ pad 2 d" using ord_ymd_of_ymd [OF v(1)] v(2) by (simp add: isoformat_def)
  have dm: "digits_val (pad 2 m) = m" using r by (simp add: digits_val_pad)
  obtain a b where ab: "pad 2 m = [a, b]" "is_digit a" using pad_digits [of 2 m] length_pad [of 2 m] by (auto simp: length_Suc_conv numeral_eq_Suc)
  have "a \<noteq> CHR ''W''" using ab(2) by (auto simp: is_digit_def in_range_def ccode_def)
  then show ?thesis unfolding i date_fromisoformat_def using r v pad_digits [of 2 m] 
    by (simp add: nth_append digits_text_def pad_digits digits_val_pad Let_def ab dm [unfolded ab] take_append drop_append ymd_date_def)
qed

end
