(* ===== verification/Stack_Scan.thy ===== *)
theory Stack_Scan
  imports Stack_Check Scan_Compare Py_Clock
begin

text \<open>
  \<^verbatim>\<open>stackctl scan\<close>: every image the stack would start is scanned with the clone's own scanner and policy, and the result is
  written beside the stack folder. The scanner's answers are those of a \<^typ>\<open>world\<close>, as in Scan_Runs; its containers do not
  appear in the history of the command.
\<close>


section \<open>The text of a result\<close>

text \<open>\<^verbatim>\<open>guards.dumps\<close>: \<^verbatim>\<open>json.dumps\<close> with an indentation of two and sorted keys, every character printable ASCII.\<close>

fun sort_json :: "json \<Rightarrow> json" where
  "sort_json (JList vs) = JList (map sort_json vs)"
| "sort_json (JObj d) = JObj (sort_key fst (map (\<lambda>(k, v). (k, sort_json v)) d))"
| "sort_json v = v"

definition dumps_char :: "char \<Rightarrow> string" where
  "dumps_char c =
     (if c = CHR 0x22 \<or> c = CHR 0x5C then [CHR 0x5C, c]
      else if c = CHR 0x0A then [CHR 0x5C, CHR ''n'']
      else if c = CHR 0x0D then [CHR 0x5C, CHR ''r'']
      else if c = CHR 0x09 then [CHR 0x5C, CHR ''t'']
      else if c = CHR 0x08 then [CHR 0x5C, CHR ''b'']
      else if c = CHR 0x0C then [CHR 0x5C, CHR ''f'']
      else if ccode c < 32 \<or> 126 < ccode c then [CHR 0x5C, CHR ''u'', CHR ''0'', CHR ''0''] @ hex2 (ccode c)
      else [c])"

definition dumps_str :: "string \<Rightarrow> string" where
  "dumps_str s = [CHR 0x22] @ concat (map dumps_char s) @ [CHR 0x22]"

definition dumps_items :: "nat \<Rightarrow> char \<Rightarrow> char \<Rightarrow> string list \<Rightarrow> string" where
  "dumps_items n l r items =
     (if items = [] then [l, r]
      else [l, NL] @ join ('','' @ [NL]) (map (\<lambda>t. replicate (n + 2) CHR '' '' @ t) items) @ [NL] @ replicate n CHR '' '' @ [r])"

fun dumps_at :: "nat \<Rightarrow> json \<Rightarrow> string" where
  "dumps_at n JNull = ''null''"
| "dumps_at n (JBool b) = (if b then ''true'' else ''false'')"
| "dumps_at n (JInt i) = show_int i"
| "dumps_at n (JFloat m e) = repr_float m e"
| "dumps_at n (JStr s) = dumps_str s"
| "dumps_at n (JList vs) = dumps_items n CHR ''['' CHR '']'' (map (dumps_at (n + 2)) vs)"
| "dumps_at n (JObj d) = dumps_items n CHR ''{'' CHR ''}'' (map (\<lambda>(k, v). dumps_str k @ '': '' @ dumps_at (n + 2) v) d)"

definition guards_dumps :: "json \<Rightarrow> string" where
  "guards_dumps v = dumps_at 0 (sort_json v)"


section \<open>The folders of a scan\<close>

text \<open>\<^verbatim>\<open>scan_workdir\<close>: the fresh folder is the host's; a folder inside the stack or the clone is removed again.\<close>

definition inside :: "ppath \<Rightarrow> ppath \<Rightarrow> bool" where
  "inside root forbidden \<longleftrightarrow> root = forbidden \<or> forbidden \<in> set (path_parents root)"

definition scan_workdir :: "stack_host \<Rightarrow> (string \<times> string) job" where
  "scan_workdir w =
     jbind (jlook (k_temp w)) (\<lambda>root.
     jbind (jdo (Mkdir root)) (\<lambda>u.
     case map snd (filter (\<lambda>fl. inside (path_of root) (fst fl)) [(k_stack w, ''the stack folder''), (k_repo w, ''the clone'')]) of
       label # ls \<Rightarrow>
         jbind (jdo (Rmtree root)) (\<lambda>u.
           jfail (fmt ''the temporary folder is inside %s (check TMPDIR); the scan mounts only its own folders'' [label]))
     | [] \<Rightarrow>
         (let db = root @ ''/db'' in
          jbind (jdo (Mkdir db)) (\<lambda>u. jbind (jdo (Chmod db 511)) (\<lambda>u. jret (root, db))))))"


section \<open>The scan\<close>

definition SCAN_STRICT :: "string list" where
  "SCAN_STRICT = dkeys RELEASE_SERVICES"

text \<open>A scanner that cannot be started or runs out of time counts as exit 125.\<close>

definition failed_proc :: proc where
  "failed_proc = \<lparr> returncode = 125, stdout = Inl [], stderr = [] \<rparr>"

definition scan_world :: "world \<Rightarrow> world" where
  "scan_world sw = sw\<lparr>docker := \<lambda>argv. Some (case docker sw argv of None \<Rightarrow> failed_proc | Some p \<Rightarrow> p)\<rparr>"

definition scan_entries :: "stack_host \<Rightarrow> (string list \<times> exc_entry list) job" where
  "scan_entries w =
     jtry (jbind (load_scan_module w) (\<lambda>u.
           jbind (jread (\<lambda>h. k_text w h (in_repo w STACK_EXCEPTIONS_PATH))) (\<lambda>t.
           jbind (jread (\<lambda>h. k_json w t)) (\<lambda>raw.
             jlook (\<lambda>h. exception_errors raw (k_now w h div DAY))))))
       (\<lambda>e. Some (jfail (STACK_EXCEPTIONS_PATH @ '' could not be read'')))"

text \<open>\<^verbatim>\<open>_valid_through\<close>.\<close>

definition valid_through :: "exc_entry list \<Rightarrow> ident list \<Rightarrow> item \<Rightarrow> string option" where
  "valid_through es used_ids i =
     (case map expires_date (filter (\<lambda>e. exc_image e = it_image i \<and> JStr (exc_package e) = it_package i \<and> ident_of e \<in> set used_ids) es) of
        [] \<Rightarrow> None
      | d # ds \<Rightarrow> Some (isoformat (foldl min d ds)))"

definition row_base :: "item \<Rightarrow> dict" where
  "row_base i = [(''image'', JStr (it_image i)), (''package'', it_package i), (''type'', it_type i), (''id'', it_id i)]"

record scan_parts =
  p_untrusted :: "string list"
  p_findings :: "json list"
  p_excepted :: "json list"
  p_built :: string

definition row_step :: "exc_entry list \<Rightarrow> ident list \<Rightarrow> scan_parts \<Rightarrow> row \<Rightarrow> scan_parts" where
  "row_step es used_ids p r =
     (case r of (i, st) \<Rightarrow>
        if st = ''FAIL'' then p\<lparr>p_findings := p_findings p @ [JObj (row_base i @ [(''severity'', JStr (it_severity i)), (''fix'', it_fix i)])]\<rparr>
        else case valid_through es used_ids i of
          None \<Rightarrow> p\<lparr>p_untrusted := p_untrusted p @ [fmt ''%s: an excepted finding has no matching exception entry'' [it_image i]]\<rparr>
        | Some through \<Rightarrow> p\<lparr>p_excepted := p_excepted p @ [JObj (row_base i @ [(''valid_through'', JStr through)])]\<rparr>)"

definition unscanned_step :: "string list \<Rightarrow> string list \<Rightarrow> string \<Rightarrow> string list" where
  "unscanned_step scanned us name =
     (if name \<notin> set scanned \<and> list_all (\<lambda>u. \<not> py_startswith u (name @ '':'')) us then us @ [name @ '': not scanned''] else us)"

text \<open>What the results of the targets come to; \<open>stamps\<close> are the database build times of the trusted documents.\<close>

definition scan_summary :: "env \<Rightarrow> exc_entry list \<Rightarrow> scan \<Rightarrow> string list \<Rightarrow> scan_parts" where
  "scan_summary refs es s stamps =
     (let apart = 1 < length stamps;
          us = failed s @ msg_if apart ''the scans report different database build times'';
          scanned = (if apart then [] else dkeys (docs s));
          start = \<lparr> p_untrusted = foldl (unscanned_step scanned) us (dkeys refs), p_findings = [], p_excepted = [],
                    p_built = (case stamps of [b] \<Rightarrow> b | _ \<Rightarrow> []) \<rparr>
      in foldl (row_step es (used_keys s)) start (rows s))"

definition scan_start :: scan where
  "scan_start = \<lparr> log = [], rows = [], failed = [], used_keys = [], moved_digests = [], docs = [] \<rparr>"

definition scan_images :: "world \<Rightarrow> cfg \<Rightarrow> env \<Rightarrow> scan_parts option" where
  "scan_images sw c refs =
     do { update \<leftarrow> docker (scan_world sw) (db_update_argv (scanner c) (db_dir c));
          if returncode update \<noteq> 0 then
            Some \<lparr> p_untrusted = [fmt ''db update failed (exit %d)'' [show_int (returncode update)]], p_findings = [], p_excepted = [], p_built = [] \<rparr>
          else
            do { (s, stamps) \<leftarrow> scan_targets (scan_world sw) c ''out-'' refs scan_start;
                 Some (scan_summary refs (entries c) s stamps) } }"

definition scan_green :: "scan_parts \<Rightarrow> bool" where
  "scan_green p \<longleftrightarrow> p_untrusted p = [] \<and> p_findings p = []"

definition scan_record :: "int \<Rightarrow> env \<times> string \<times> string \<times> string \<Rightarrow> scan_parts \<Rightarrow> dict" where
  "scan_record at b p =
     (case b of (refs, sc, exceptions_sha, scan_sha) \<Rightarrow>
        [(''schema'', JInt SCAN_RESULT_SCHEMA), (''scanned_at'', JStr (time_stamp at)), (''scanner'', JStr sc),
         (''db_built'', JStr (p_built p)), (''exceptions_sha256'', JStr exceptions_sha), (''image_scan_sha256'', JStr scan_sha),
         (''refs'', JObj (map (\<lambda>(name, ref). (name, JStr ref)) refs)), (''untrusted'', JList (map JStr (p_untrusted p))),
         (''findings'', JList (p_findings p)), (''excepted'', JList (p_excepted p)),
         (''verdict'', JStr (if scan_green p then ''green'' else ''red''))])"

text \<open>The time is read after the update of the database, and the policy's date with it.\<close>

definition scan_job :: "stack_host \<Rightarrow> world \<Rightarrow> env \<Rightarrow> string \<Rightarrow> string \<Rightarrow> exc_entry list \<Rightarrow> (int \<times> scan_parts) job" where
  "scan_job w sw refs sc db es =
     jbind (jdo (Run (db_update_argv sc db))) (\<lambda>u.
     jbind (jlook (k_now w)) (\<lambda>at.
     jbind (jguards w (scan_images sw \<lparr> strict = SCAN_STRICT, scanner = sc, db_dir = db, entries = es, today = at div DAY \<rparr> refs)) (\<lambda>p.
       jret (at, p))))"

definition cmd_scan :: "stack_host \<Rightarrow> world \<Rightarrow> (dict \<times> int) job" where
  "cmd_scan w sw =
     jbind (jlook (\<lambda>h. k_is_dir w h (path_text (k_stack w)))) (\<lambda>here.
     jbind (jguard (\<not> here) ''the stack folder does not exist (run `assemble` first)'') (\<lambda>u.
     jbind (jlook (\<lambda>h. location_problems (k_exists w h) (k_stack w))) (\<lambda>problems.
     jbind (jguard (problems \<noteq> []) (hd problems)) (\<lambda>u.
     jbind (scan_bindings w) (\<lambda>b.
     jbind (scan_entries w) (\<lambda>(errors, es).
     jbind (jguard (errors \<noteq> []) (fmt ''%s is invalid, nothing was scanned: %s'' [STACK_EXCEPTIONS_PATH, take 300 (join ''; '' errors)])) (\<lambda>u.
     jbind (scan_workdir w) (\<lambda>(root, db).
     jbind (jfinally (scan_job w sw (fst b) (fst (snd b)) db es) (Rmtree root)) (\<lambda>(at, p).
     jbind (write_atomic (scan_result_path w) (guards_dumps (JObj (scan_record at b p)) @ [NL]) 384) (\<lambda>u.
       jret (scan_record at b p, if scan_green p then 0 else 1)))))))))))"

end
