(* ===== verification/Stack_Commands.thy ===== *)
theory Stack_Commands
  imports Stack_Scan
begin

text \<open>
  The commands of \<^verbatim>\<open>deploy/compose/stackctl.py\<close> that assemble, check, start and rebuild the stack, and the exit status of
  \<^verbatim>\<open>main\<close>. What is printed is modelled where it depends on the outcome: the problems and the notes.
\<close>


section \<open>Files\<close>

definition ENV_TEMPLATE :: string where
  "ENV_TEMPLATE = ''deploy/compose/stack.env.example''"

definition COMMITTED_GENERATED :: string where
  "COMMITTED_GENERATED = ''deploy/compose/docker-compose.yaml''"

definition parent_of :: "stack_host \<Rightarrow> string \<Rightarrow> string" where
  "parent_of w rel = (case path_parents (path_sub (k_stack w) rel) of [] \<Rightarrow> path_text (k_stack w) | p # ps \<Rightarrow> path_text p)"

definition assemble_mode :: "string \<Rightarrow> nat" where
  "assemble_mode dest = (if suffix ''.sh'' dest then 493 else 420)"

definition assemble_file :: "stack_host \<Rightarrow> string \<times> string \<Rightarrow> unit job" where
  "assemble_file w sd =
     (case sd of (source, dest) \<Rightarrow>
        jbind (ensure_dir w (parent_of w dest) 493) (\<lambda>u.
        jbind (jread (\<lambda>h. k_bytes w h (in_repo w source))) (\<lambda>content.
          write_atomic (in_stack w dest) content (assemble_mode dest))))"

definition hash_dest :: "stack_host \<Rightarrow> string \<times> string \<Rightarrow> (string \<times> string) job" where
  "hash_dest w sd = (case sd of (source, dest) \<Rightarrow> jbind (file_hash w (in_stack w dest)) (\<lambda>x. jret (dest, x)))"

definition source_guard :: "stack_host \<Rightarrow> string \<Rightarrow> unit job" where
  "source_guard w source =
     jbind (jlook (\<lambda>h. k_is_file w h (in_repo w source))) (\<lambda>there. jguard (\<not> there) (source @ '' is missing from the clone''))"

definition cmd_assemble :: "stack_host \<Rightarrow> string \<Rightarrow> unit job" where
  "cmd_assemble w fresh_file =
     jbind (jlook (\<lambda>h. k_is_file w h (in_repo w COMMITTED_GENERATED) \<and> k_is_file w h fresh_file)) (\<lambda>there.
     jbind (jguard (\<not> there) ''the committed generated file or the published file is missing'') (\<lambda>u.
     jbind (file_hash w fresh_file) (\<lambda>fresh.
     jbind (file_hash w (in_repo w COMMITTED_GENERATED)) (\<lambda>committed.
     jbind (jguard (fresh \<noteq> committed) (fmt (''the freshly published Compose file differs from the committed %s (drift): ''
         @ ''check out the release tag and publish again'') [COMMITTED_GENERATED])) (\<lambda>u.
     jbind (jlook (\<lambda>h. location_problems (k_exists w h) (k_stack w))) (\<lambda>problems.
     jbind (jguard (problems \<noteq> []) (hd problems)) (\<lambda>u.
     jbind (jmap (source_guard w) (map fst ASSEMBLE_MAP @ [ENV_TEMPLATE])) (\<lambda>us.
     jbind (ensure_dir w (path_text (k_stack w)) 493) (\<lambda>u.
     jbind (jlook (\<lambda>h. k_exists w h (in_stack w ''config''))) (\<lambda>stale.
     jbind (if stale then jdo (Rmtree (in_stack w ''config'')) else jret ()) (\<lambda>u.
     jbind (jmap (assemble_file w) ASSEMBLE_MAP) (\<lambda>us.
     jbind (jmap (hash_dest w) ASSEMBLE_MAP) (\<lambda>hashes.
     jbind (write_atomic (in_stack w MANIFEST_NAME) (manifest_text hashes) 420) (\<lambda>u.
     jbind (ensure_dir w (in_stack w ''secrets'') SECRET_DIR_MODE) (\<lambda>u.
     jbind (ensure_dir w (in_stack w ''trust'') 493) (\<lambda>u.
     jbind (jlook (\<lambda>h. k_exists w h (in_stack w ENV_NAME))) (\<lambda>kept.
       if kept then jret ()
       else jbind (jread (\<lambda>h. k_bytes w h (in_repo w ENV_TEMPLATE))) (\<lambda>t. write_atomic (in_stack w ENV_NAME) t 384))))))))))))))))))"


section \<open>Waiting\<close>

definition ROOT_SOURCE :: string where
  "ROOT_SOURCE = ''caddy:/data/caddy/pki/authorities/local/root.crt''"

definition ROOT_EXPORT :: string where
  "ROOT_EXPORT = ''trust/.root-export.tmp''"

definition ATTEMPTS :: nat where
  "ATTEMPTS = 30"

definition PAUSE :: nat where
  "PAUSE = 2"

text \<open>The exported file is checked before it replaces the root. A removal that fails is not modelled.\<close>

definition take_root :: "stack_host \<Rightarrow> unit job" where
  "take_root w =
     jbind (jlook (ascii_file w (in_stack w ROOT_EXPORT))) (\<lambda>t.
       case root_problems t of
         p # ps \<Rightarrow> jbind (jdo (Unlink (in_stack w ROOT_EXPORT))) (\<lambda>u. jfail p)
       | [] \<Rightarrow>
           jbind (jread (\<lambda>h. k_bytes w h (in_stack w ROOT_EXPORT))) (\<lambda>b.
           jbind (write_atomic (in_stack w ''trust/caddy-root.crt'') b 420) (\<lambda>u.
             jdo (Unlink (in_stack w ROOT_EXPORT)))))"

fun export_loop :: "stack_host \<Rightarrow> nat \<Rightarrow> int option \<Rightarrow> unit job" where
  "export_loop w 0 rc_last =
     jfail (fmt (''Caddy'' @ SQ @ ''s root certificate did not appear (last exit %s); is caddy running?'')
       [case rc_last of None \<Rightarrow> ''None'' | Some n \<Rightarrow> show_int n])"
| "export_loop w (Suc n) rc_last =
     jbind (compose w [''cp'', ROOT_SOURCE, in_stack w ROOT_EXPORT] None) (\<lambda>(rc, out, err).
     jbind (jlook (\<lambda>h. rc = 0 \<and> k_is_file w h (in_stack w ROOT_EXPORT))) (\<lambda>copied.
       if copied then take_root w
       else jbind (jdo (Sleep PAUSE)) (\<lambda>u. export_loop w n (Some rc))))"

definition export_root :: "stack_host \<Rightarrow> unit job" where
  "export_root w = jbind (ensure_dir w (in_stack w ''trust'') 493) (\<lambda>u. export_loop w ATTEMPTS None)"

definition cmd_export_root :: "stack_host \<Rightarrow> unit job" where
  "cmd_export_root w = export_root w"

definition HEALTH_FORMAT :: string where
  "HEALTH_FORMAT = ''{{.State.Health.Status}}''"

definition healthy_now :: "stack_host \<Rightarrow> string \<Rightarrow> bool job" where
  "healthy_now w service =
     jbind (compose w [''ps'', ''-q'', service] None) (\<lambda>(rc, out, err).
       let container = strip out in
       if container = [] then jret False
       else jbind (docker_run w [''docker'', ''inspect'', ''--format'', HEALTH_FORMAT, container] None) (\<lambda>(rc', out', err').
         jret (strip out' = ''healthy'')))"

text \<open>The loop of \<^verbatim>\<open>wait_healthy\<close> with a bound on its rounds, after which the answer is \<^term>\<open>None\<close>; the deadline is
  reached before the bound when a pause takes its two seconds (\<open>wait_rounds_end\<close>).\<close>

fun wait_rounds :: "stack_host \<Rightarrow> string \<Rightarrow> int \<Rightarrow> nat \<Rightarrow> bool option job" where
  "wait_rounds w service deadline 0 = jret None"
| "wait_rounds w service deadline (Suc n) =
     jbind (jlook (k_clock w)) (\<lambda>now.
       if deadline \<le> now then jret (Some False)
       else
         jbind (healthy_now w service) (\<lambda>healthy.
           if healthy then jret (Some True)
           else jbind (jdo (Sleep 2)) (\<lambda>u. wait_rounds w service deadline n)))"

definition wait_healthy :: "stack_host \<Rightarrow> string \<Rightarrow> int \<Rightarrow> bool job" where
  "wait_healthy w service seconds =
     jbind (jlook (k_clock w)) (\<lambda>start.
     jbind (wait_rounds w service (start + seconds) (nat seconds div 2 + 2)) (\<lambda>r. jret (r = Some True)))"


section \<open>Check, verify and start\<close>

definition report_status :: "string list \<Rightarrow> string list \<times> int" where
  "report_status problems = (problems, if problems = [] then 0 else 1)"

definition cmd_check :: "stack_host \<Rightarrow> bool \<Rightarrow> (string list \<times> int) job" where
  "cmd_check w static_only =
     jbind (freshness_problems w) (\<lambda>p1.
     jbind (static_problems w) (\<lambda>p2.
     jbind (jlook (\<lambda>h. k_is_dir w h (path_text (k_stack w)))) (\<lambda>here.
     jbind (if \<not> static_only \<and> here then docker_problems w else jret []) (\<lambda>p3.
       jret (report_status (p1 @ p2 @ p3))))))"

text \<open>The verification takes the clone that holds the script, whatever \<^verbatim>\<open>--repo\<close> says.\<close>

definition at_root :: "stack_host \<Rightarrow> stack_host" where
  "at_root w = w\<lparr>k_repo := k_root w\<rparr>"

definition stack_verify :: "stack_host \<Rightarrow> (string list \<times> int) job" where
  "stack_verify w = jbind (verify_problems (at_root w)) (\<lambda>(problems, notes). jret (report_status problems))"

definition KEYCLOAK_WAIT_SECONDS :: int where
  "KEYCLOAK_WAIT_SECONDS = 420"

definition UP_CADDY :: "string list" where
  "UP_CADDY = [''up'', ''-d'', ''caddy'']"

definition UP_ALL :: "string list" where
  "UP_ALL = [''up'', ''-d'']"

definition start_stack :: "stack_host \<Rightarrow> unit job" where
  "start_stack w =
     jbind (require_ok ''start caddy failed (exit %d)'' (compose w UP_CADDY None)) (\<lambda>u.
     jbind (wait_healthy w ''caddy'' 120) (\<lambda>healthy.
     jbind (jguard (\<not> healthy) ''caddy did not become healthy within 120 seconds'') (\<lambda>u.
     jbind (export_root w) (\<lambda>u.
     jbind (keyring_prepare w True) (\<lambda>prepared.
       require_ok ''start failed (exit %d)'' (compose w UP_ALL None))))))"

definition cmd_up :: "stack_host \<Rightarrow> (string list \<times> int) job" where
  "cmd_up w =
     jbind (freshness_problems w) (\<lambda>stale.
     if stale \<noteq> [] then jret (report_status stale)
     else
       jbind (static_problems w) (\<lambda>p1.
       jbind (docker_problems w) (\<lambda>p2.
       if p1 @ p2 \<noteq> [] then jret (report_status (p1 @ p2))
       else
         jbind (start_stack w) (\<lambda>u.
         jbind (wait_healthy w ''keycloak'' KEYCLOAK_WAIT_SECONDS) (\<lambda>healthy.
           stack_verify w)))))"


section \<open>The key ring and the realm\<close>

definition refuse :: "string \<Rightarrow> string list \<Rightarrow> unit job" where
  "refuse what refused = jguard (refused \<noteq> []) (what @ take 600 (join ''; '' refused))"

definition cmd_keyring_prepare :: "stack_host \<Rightarrow> string job" where
  "cmd_keyring_prepare w =
     jbind (deploy_gate_problems w) (\<lambda>refused.
     jbind (refuse ''refusing to prepare the key ring: '' refused) (\<lambda>u. keyring_prepare w True))"

definition cmd_keyring_reset :: "stack_host \<Rightarrow> bool \<Rightarrow> bool \<Rightarrow> string job" where
  "cmd_keyring_reset w confirm all_keys =
     jbind (jguard (\<not> confirm) (''keyring reset deletes the key files that are not wrapped by the certificate and ends every session: pass --confirm'')) (\<lambda>u.
       keyring_reset w all_keys)"

text \<open>The only database that is dropped, written out.\<close>

definition REBUILD_SQL :: string where
  "REBUILD_SQL = unlines [''DROP DATABASE IF EXISTS keycloak WITH (FORCE);'', ''CREATE DATABASE keycloak OWNER keycloak;'',
     ''REVOKE ALL ON DATABASE keycloak FROM PUBLIC;'']"

definition rebuild_step :: "stack_host \<Rightarrow> string \<times> string list \<times> string option \<Rightarrow> unit job" where
  "rebuild_step w st =
     (case st of (label, args, sql) \<Rightarrow>
        jbind (jtry (compose w args sql) (\<lambda>e.
           if is_caught_run e then Some (jfail (label @ '' did not complete (timeout or Docker error); check `ps` before you retry'')) else None)) (\<lambda>(rc, out, err).
          if rc \<noteq> 0 then jfail (label @ fmt '' failed (exit %d); check `ps` before you retry'' [show_int rc]) else jret ()))"

definition REBUILD_STEPS :: "(string \<times> string list \<times> string option) list" where
  "REBUILD_STEPS =
     [(''stop keycloak'', [''stop'', ''keycloak''], None),
      (''drop and recreate the keycloak database'', PSQL_BASE @ [''-d'', ''postgres''], Some REBUILD_SQL),
      (''start keycloak'', [''up'', ''-d'', ''keycloak''], None)]"

definition cmd_realm_rebuild :: "stack_host \<Rightarrow> bool \<Rightarrow> unit job" where
  "cmd_realm_rebuild w confirm =
     jbind (jguard (\<not> confirm) ''realm rebuild drops the identity database: pass --confirm (allowed only while every user is synthetic)'') (\<lambda>u.
     jbind (jlook (\<lambda>h. k_is_dir w h (path_text (k_stack w)))) (\<lambda>here.
     jbind (jguard (\<not> here) ''the stack folder does not exist'') (\<lambda>u.
     jbind (deploy_gate_problems w) (\<lambda>refused.
     jbind (refuse ''refusing to rebuild: '' refused) (\<lambda>u.
     jbind (run_identity_check w) (\<lambda>r.
     case r of
       Inl reason \<Rightarrow> jfail (''refusing to rebuild: '' @ reason)
     | Inr facts \<Rightarrow>
         let unsynthetic = fact_int (fact_of facts ''users_without_synthetic'') in
         jbind (jguard (0 < unsynthetic) (fmt (''refusing to rebuild: %d user(s) without synthetic=true exist and a rebuild would destroy them ''
             @ ''(go-live gate item C-03b replaces this command)'') [show_int unsynthetic])) (\<lambda>u.
         jbind (jlook (bootstrap_retired w)) (\<lambda>retired.
         jbind (jguard retired (''refusing to rebuild: the bootstrap administrator secret is retired (empty), so the rebuilt Keycloak would have ''
             @ ''no administrator; run `secrets rotate keycloak_bootstrap` first'')) (\<lambda>u.
         jbind (jmap (rebuild_step w) REBUILD_STEPS) (\<lambda>us. jret ()))))))))))"


section \<open>main\<close>

text \<open>A scan carries what the scanner answers.\<close>

datatype stack_cmd =
    Assemble string
  | SecretsInit
  | SecretsAdd
  | SecretsRotate rotate_args
  | SecretsRetire string
  | KeyringPrepare
  | KeyringReset bool bool
  | Scan world
  | Check bool
  | ExportRoot
  | Up
  | Verify
  | RealmRebuild bool

definition quietly :: "'a job \<Rightarrow> (string list \<times> int) job" where
  "quietly m = jbind m (\<lambda>a. jret ([], 0))"

definition stack_job :: "stack_host \<Rightarrow> stack_cmd \<Rightarrow> (string list \<times> int) job" where
  "stack_job w cmd =
     (case cmd of
        Assemble fresh_file \<Rightarrow> quietly (cmd_assemble w fresh_file)
      | SecretsInit \<Rightarrow> quietly (cmd_secrets_init w)
      | SecretsAdd \<Rightarrow> quietly (cmd_secrets_add w)
      | SecretsRotate a \<Rightarrow> quietly (cmd_secrets_rotate w a)
      | SecretsRetire name \<Rightarrow> quietly (cmd_secrets_retire w name)
      | KeyringPrepare \<Rightarrow> quietly (cmd_keyring_prepare w)
      | KeyringReset confirm all_keys \<Rightarrow> quietly (cmd_keyring_reset w confirm all_keys)
      | Scan sw \<Rightarrow> jbind (cmd_scan w sw) (\<lambda>(rec, code). jret ([], code))
      | Check static_only \<Rightarrow> cmd_check w static_only
      | ExportRoot \<Rightarrow> quietly (cmd_export_root w)
      | Up \<Rightarrow> cmd_up w
      | Verify \<Rightarrow> stack_verify w
      | RealmRebuild confirm \<Rightarrow> quietly (cmd_realm_rebuild w confirm))"

text \<open>The history and the exit status: 2 for a StackError, 1 for an exception nothing catches.\<close>

definition stack_main :: "stack_host \<Rightarrow> stack_cmd \<Rightarrow> history \<times> int" where
  "stack_main w cmd =
     (case stack_job w cmd [] of
        (h, Inr (problems, code)) \<Rightarrow> (h, code)
      | (h, Inl (Failed e)) \<Rightarrow> (h, 2)
      | (h, Inl (Exited n)) \<Rightarrow> (h, n)
      | (h, Inl (Raised x)) \<Rightarrow> (h, 1))"

end
