(* ===== verification/Stack_Operations.thy ===== *)
theory Stack_Operations
  imports Stack_Commands
begin

text \<open>
  Guarantees on the commands of the wrapper: what the freshness gate lets through, what must hold before anything of the
  stack is started, which commands write or reset, and that waiting for a service ends.
\<close>

section \<open>Jobs that only look\<close>

lemma silent_jguards: "emits A (jguards w r)"
  by (simp add: jguards_def emits_silent split: option.split)

lemma silent_read_env: "emits A (read_env w)"
  unfolding read_env_def by (intro emits_jbind emits_silent) (auto intro!: emits_jbind emits_silent)

lemma silent_file_hash: "emits A (file_hash w p)"
  unfolding file_hash_def by (intro emits_jbind emits_silent)

lemma silent_load_module: "emits A (load_scan_module w)"
  unfolding load_scan_module_def by (rule emits_jread)

lemma silent_load_refs: "emits A (load_scan_refs w)"
  unfolding load_scan_refs_def by (intro emits_jbind silent_load_module emits_silent)

lemma silent_release_refs: "emits A (release_refs_of w)"
  unfolding release_refs_of_def by (intro emits_jbind emits_silent) (auto intro!: emits_jbind emits_silent)

lemma silent_deploy_refs: "emits A (deploy_refs w)"
  unfolding deploy_refs_def
  by (intro emits_jbind emits_jtry silent_load_refs silent_read_env silent_release_refs emits_silent)
     (auto intro!: emits_jbind emits_jtry silent_release_refs emits_silent split: prod.split if_splits)

lemma silent_bindings: "emits A (scan_bindings w)"
  unfolding scan_bindings_def
  by (intro emits_jbind emits_jtry silent_deploy_refs silent_load_module silent_file_hash emits_silent) (auto intro: emits_silent)

lemma silent_read_result: "emits A (read_scan_result w)"
  unfolding read_scan_result_def Let_def
  by (intro emits_jbind emits_silent) (auto intro!: emits_jbind emits_silent split: option.split entry_kind.split)

lemma silent_read_record: "emits A (read_record w)"
  unfolding read_record_def
  by (intro emits_jtry emits_jbind silent_read_result) (auto intro!: emits_jbind emits_silent split: option.split if_splits)

lemma silent_gate_found: "emits A (gate_found w record)"
  unfolding gate_found_def by (intro emits_jbind silent_bindings) (auto intro!: emits_jbind emits_silent split: prod.split option.split)

lemma silent_freshness: "emits A (freshness_problems w)"
  unfolding freshness_problems_def
  by (intro emits_jtry emits_jbind silent_read_record) (auto intro!: silent_gate_found emits_silent split: sum.split)

lemma silent_assembled: "emits A (assembled_problem w recorded sd)"
  unfolding assembled_problem_def Let_def
  by (cases sd) (auto intro!: emits_jbind silent_file_hash emits_silent)

lemma silent_manifest: "emits A (manifest_problems w)"
  unfolding manifest_problems_def Let_def
  by (intro emits_jbind emits_silent) (auto intro!: emits_jbind emits_jmap silent_assembled emits_silent)

lemma silent_gate: "emits A (deploy_gate_problems w)"
  unfolding deploy_gate_problems_def
  by (intro emits_jbind emits_jtry silent_freshness silent_manifest emits_silent) (auto intro: emits_silent)

lemma silent_images: "emits A (images_problems w values)"
  unfolding images_problems_def by (intro emits_jbind emits_silent) (auto intro!: emits_jbind emits_silent)

lemma silent_yaml: "emits A (yaml_problems w name)"
  unfolding yaml_problems_def by (intro emits_jbind emits_silent) (auto intro!: emits_jbind emits_silent)

lemma silent_static: "emits A (static_problems w)"
  unfolding static_problems_def
  by (intro emits_jbind emits_silent)
     (auto intro!: emits_jbind emits_jmap silent_read_env silent_images silent_manifest silent_yaml emits_silent split: prod.split)

lemma silent_pinned: "emits A (pinned_caddy_image w)"
  unfolding pinned_caddy_image_def
  by (intro emits_jbind emits_jtry silent_load_refs emits_silent) (auto intro: emits_silent split: if_splits)

text \<open>The freshness gate never raises: it reports.\<close>

lemma jtry_total: "(\<And>e. \<exists>r. k e = Some r \<and> (\<forall>h. \<exists>a. r h = (h, Inr a))) \<Longrightarrow> \<exists>h' a. jtry m k h = (h', Inr a)"
  by (auto simp: jtry_def split: prod.splits sum.splits option.splits) (metis option.inject option.distinct(1))+

lemma freshness_reports_lemma: "\<exists>ps. freshness_problems w h = (h, Inr ps)"
proof -
  have "\<exists>h' a. freshness_problems w h = (h', Inr a)"
    unfolding freshness_problems_def by (rule jtry_total) (simp add: jret_def)
  then show ?thesis using silent_same [OF silent_freshness] by blast
qed


section \<open>What the freshness gate proves\<close>

text \<open>The scan result on disk: a regular file of this account that others cannot write, and the JSON object it holds.\<close>

definition stored_result :: "stack_host \<Rightarrow> history \<Rightarrow> dict \<Rightarrow> bool" where
  "stored_result w h record \<longleftrightarrow>
     (\<exists>f t. k_lstat w h (scan_result_path w) = Inr (Some Regular) \<and> k_open w h (scan_result_path w) = Inr f \<and>
        o_regular f \<and> (k_posix w \<longrightarrow> o_uid f = k_uid w \<and> \<not> group_writable (o_mode f)) \<and>
        o_size f \<le> SCAN_RESULT_MAX_BYTES \<and> length (o_data f) \<le> SCAN_RESULT_MAX_BYTES \<and>
        k_decode w (o_data f) = Some t \<and> k_json w t = Inr (JObj record))"

definition scan_allows :: "stack_host \<Rightarrow> history \<Rightarrow> bool" where
  "scan_allows w h \<longleftrightarrow>
     (\<exists>record refs scanner exceptions_sha scan_sha.
        stored_result w h record \<and> scan_bindings w h = (h, Inr (refs, scanner, exceptions_sha, scan_sha)) \<and>
        bound_to record refs scanner exceptions_sha scan_sha \<and> clean_result record (k_now w h) \<and> in_window record (k_now w h))"

lemma jtry_Inr:
  "jtry m k h = (h', Inr a) \<longleftrightarrow> m h = (h', Inr a) \<or> (\<exists>h1 e r. m h = (h1, Inl e) \<and> k e = Some r \<and> r h1 = (h', Inr a))"
  by (auto simp: jtry_def split: prod.splits sum.splits option.splits)

lemma opened_result_Inr:
  assumes "opened_result w name f = Inr d"
  shows "o_regular f \<and> (k_posix w \<longrightarrow> o_uid f = k_uid w \<and> \<not> group_writable (o_mode f)) \<and> d = o_data f \<and>
     o_size f \<le> SCAN_RESULT_MAX_BYTES \<and> length (o_data f) \<le> SCAN_RESULT_MAX_BYTES"
proof -
  from assms have "o_regular f" "k_posix w \<longrightarrow> o_uid f = k_uid w \<and> \<not> group_writable (o_mode f)" "d = take (SCAN_RESULT_MAX_BYTES + 1) (o_data f)"
    "length d \<le> SCAN_RESULT_MAX_BYTES" "o_size f \<le> SCAN_RESULT_MAX_BYTES"
    by (auto simp: opened_result_def Let_def not_less split: if_splits)
  then show ?thesis by auto
qed

lemma read_record_Inr:
  assumes "read_record w h = (h', Inr (Inr v))"
  shows "h' = h \<and> (\<exists>f t. k_lstat w h (scan_result_path w) = Inr (Some Regular) \<and> k_open w h (scan_result_path w) = Inr f \<and>
     o_regular f \<and> (k_posix w \<longrightarrow> o_uid f = k_uid w \<and> \<not> group_writable (o_mode f)) \<and>
     o_size f \<le> SCAN_RESULT_MAX_BYTES \<and> length (o_data f) \<le> SCAN_RESULT_MAX_BYTES \<and>
     k_decode w (o_data f) = Some t \<and> k_json w t = Inr v)"
proof -
  from assms have "\<exists>h1 d. read_scan_result w h = (h1, Inr d) \<and>
     (case k_decode w d of None \<Rightarrow> jraise decode_fault | Some t \<Rightarrow> jbind (jread (\<lambda>h. k_json w t)) (\<lambda>v. jret (Inr v :: string + json))) h1 = (h', Inr (Inr v))"
    unfolding read_record_def jtry_Inr jbind_Inr by (auto split: if_splits)
  then obtain h1 d where d: "read_scan_result w h = (h1, Inr d)"
     "(case k_decode w d of None \<Rightarrow> jraise decode_fault | Some t \<Rightarrow> jbind (jread (\<lambda>h. k_json w t)) (\<lambda>v. jret (Inr v :: string + json))) h1 = (h', Inr (Inr v))"
    by (elim exE conjE)
  from d(1) obtain f where f: "k_lstat w h (scan_result_path w) = Inr (Some Regular)" "k_open w h (scan_result_path w) = Inr f" "h1 = h"
     "opened_result w (scan_result_name w) f = Inr d"
  proof -
    from d(1) obtain kind where k: "k_lstat w h (scan_result_path w) = Inr kind" "(case kind of
          None \<Rightarrow> jfail (fmt ''there is no scan result (%s); run `stackctl scan`'' [scan_result_name w])
        | Some Regular \<Rightarrow> jbind (jread (\<lambda>h. k_open w h (scan_result_path w))) (\<lambda>f. jlift (opened_result w (scan_result_name w) f))
        | Some _ \<Rightarrow> jfail (scan_result_name w @ '' is a link or not a regular file'')) h = (h1, Inr d)"
      unfolding read_scan_result_def Let_def jbind_Inr jread_Inr by blast
    then have kind: "kind = Some Regular" by (cases kind) (auto split: entry_kind.splits)
    with k that show thesis by auto
  qed
  from d(2) f(3) obtain t where "k_decode w d = Some t" "k_json w t = Inr v" "h' = h" by (auto split: option.splits)
  with f opened_result_Inr [OF f(4)] show ?thesis by auto
qed

lemma freshness_allows_lemma:
  assumes "freshness_problems w h = (h', Inr [])"
  shows "scan_allows w h"
proof -
  from assms obtain h1 r where r: "read_record w h = (h1, Inr r)" "(case r of Inl m \<Rightarrow> jret [m] | Inr record \<Rightarrow> gate_found w record) h1 = (h', Inr [])"
    unfolding freshness_problems_def by (auto simp: jtry_Inr)
  then obtain v where v: "r = Inr v" "gate_found w v h1 = (h', Inr [])" by (auto split: sum.splits)
  with r(1) read_record_Inr have h1: "h1 = h" by blast
  from v(2) obtain h2 refs scanner ex sc where b: "scan_bindings w h = (h2, Inr (refs, scanner, ex, sc))"
      "scan_result_problems v refs scanner ex sc (k_now w h2) = Some []"
    unfolding gate_found_def h1 by (auto split: option.splits)
  from silent_same [OF silent_bindings b(1)] have h2: "h2 = h" .
  from b(2) obtain rec where "v = JObj rec" "bound_to rec refs scanner ex sc" "in_window rec (k_now w h2)" "clean_result rec (k_now w h2)"
    unfolding gate_exact_lemma by blast
  with b(1) h2 read_record_Inr [OF r(1) [unfolded v(1)]] show ?thesis unfolding scan_allows_def stored_result_def by blast
qed


section \<open>Starting the stack\<close>

text \<open>A call that creates or starts containers of the stack.\<close>

definition starts :: "stack_host \<Rightarrow> event \<Rightarrow> bool" where
  "starts w e \<longleftrightarrow> (\<exists>args. e = Run (compose_base w @ args) \<and> args \<noteq> [] \<and> hd args \<in> {''up'', ''create'', ''start'', ''run'', ''restart''})"

lemma emits_docker: "(\<And>t. A (Run argv) \<and> A (Feed argv t)) \<Longrightarrow> emits A (docker_run w argv stdin)"
  by (auto simp: emits_def docker_run_def split: option.split)

lemma compose_starts: "args \<noteq> [] \<Longrightarrow> hd args \<notin> {''up'', ''create'', ''start'', ''run'', ''restart''} \<Longrightarrow> emits (\<lambda>e. \<not> starts w e) (compose w args stdin)"
  unfolding compose_def by (rule emits_docker) (simp add: starts_def)

lemma compose_base_docker: "\<exists>rest. compose_base w = ''docker'' # ''compose'' # rest"
  by (simp add: compose_base_def)

lemma docker_not_starts: "argv = ''docker'' # c # rest \<Longrightarrow> c \<noteq> ''compose'' \<Longrightarrow> emits (\<lambda>e. \<not> starts w e) (docker_run w argv stdin)"
  by (rule emits_docker) (auto simp: starts_def compose_base_def)

lemma emits_attempt: "emits A m \<Longrightarrow> (\<And>a. emits A (k a)) \<Longrightarrow> emits A (attempt ps m k)"
proof -
  assume m: "emits A m" and k: "\<And>a. emits A (k a)"
  show ?thesis unfolding emits_def
  proof
    fix h
    obtain h1 r where m1: "m h = (h1, r)" by force
    show "\<exists>evs. fst (attempt ps m k h) = h @ evs \<and> (\<forall>e\<in>set evs. A e)"
    proof (cases r)
      case (Inl e)
      with m1 emitsD [OF m, of h] show ?thesis by (simp add: attempt_def)
    next
      case (Inr a)
      with m1 have "fst (attempt ps m k h) = fst (k a h1)" by (simp add: attempt_def)
      with emits_join [OF emitsD [OF m, of h] emitsD [OF k, of a "fst (m h)"]] m1 show ?thesis by simp
    qed
  qed
qed

lemma config_not_starts: "emits (\<lambda>e. \<not> starts w e) (config_json w)"
  unfolding config_json_def by (intro emits_jbind compose_starts) (auto intro: emits_silent)

lemma adapt_not_starts: "emits (\<lambda>e. \<not> starts w e) (caddy_adapt w folder im caddyfile values)"
proof -
  have e: "\<not> starts w (Mkdir p)" "\<not> starts w (Write p t)" "\<not> starts w (Chmod p n)" "\<not> starts w (Rmtree p)" for p t n
    by (simp_all add: starts_def)
  show ?thesis unfolding caddy_adapt_def Let_def
    by (auto intro!: emits_jbind emits_jfinally emits_jdo emits_silent docker_not_starts simp: e)
qed

lemma docker_checks_not_starts: "emits (\<lambda>e. \<not> starts w e) (docker_problems w)"
  unfolding docker_problems_def Let_def
  by (intro emits_jbind silent_read_env)
     (auto intro!: emits_jbind emits_attempt silent_load_refs silent_release_refs config_not_starts adapt_not_starts silent_jguards emits_silent
        split: prod.split)

text \<open>A condition on events that only the final \<^verbatim>\<open>up -d\<close> may break.\<close>

definition calm :: "stack_host \<Rightarrow> (event \<Rightarrow> bool) \<Rightarrow> bool" where
  "calm w A \<longleftrightarrow>
     (\<forall>args. args \<noteq> UP_ALL \<longrightarrow> A (Run (compose_base w @ args))) \<and> (\<forall>argv t. A (Feed argv t)) \<and>
     (\<forall>c rest. c \<noteq> ''compose'' \<longrightarrow> A (Run (''docker'' # c # rest))) \<and>
     (\<forall>p t n. A (Write p t) \<and> A (Chmod p n) \<and> A (Mkdir p) \<and> A (Rmtree p) \<and> A (Unlink p) \<and> A (Sleep n))"

lemma calm_compose: "calm w A \<Longrightarrow> args \<noteq> UP_ALL \<Longrightarrow> emits A (compose w args stdin)"
  unfolding compose_def by (rule emits_docker) (simp add: calm_def)

lemma calm_docker: "calm w A \<Longrightarrow> argv = ''docker'' # c # rest \<Longrightarrow> c \<noteq> ''compose'' \<Longrightarrow> emits A (docker_run w argv stdin)"
  by (rule emits_docker) (simp add: calm_def)

lemma calm_do: "calm w A \<Longrightarrow> emits A (jdo (Write p t))" "calm w A \<Longrightarrow> emits A (jdo (Chmod p n))" "calm w A \<Longrightarrow> emits A (jdo (Mkdir p))"
  "calm w A \<Longrightarrow> emits A (jdo (Rmtree p))" "calm w A \<Longrightarrow> emits A (jdo (Unlink p))" "calm w A \<Longrightarrow> emits A (jdo (Sleep n))"
  by (rule emits_jdo, simp add: calm_def)+

lemma calm_all: "calm w (\<lambda>e. True)"
  by (simp add: calm_def)

lemma emits_require_ok: "emits A m \<Longrightarrow> emits A (require_ok label m)"
  unfolding require_ok_def by (rule emits_jbind) (auto intro: emits_silent)

lemma emits_outcome: "emits A (keyring_outcome label p)"
  unfolding keyring_outcome_def by (auto intro: emits_silent split: prod.split list.split)

lemmas calm_intros = emits_silent silent_jguards calm_do emits_require_ok emits_outcome silent_pinned silent_read_env

lemma calm_healthy_now: "calm w A \<Longrightarrow> emits A (healthy_now w service)"
  unfolding healthy_now_def Let_def
  by (auto intro!: emits_jbind calm_intros calm_compose calm_docker simp: UP_ALL_def)

lemma calm_wait_rounds: "calm w A \<Longrightarrow> emits A (wait_rounds w service deadline n)"
  by (induction n) (auto intro!: emits_jbind calm_intros calm_healthy_now)

lemma calm_wait: "calm w A \<Longrightarrow> emits A (wait_healthy w service seconds)"
  unfolding wait_healthy_def by (intro emits_jbind calm_wait_rounds calm_intros)

lemma calm_write: "calm w A \<Longrightarrow> emits A (write_atomic p c mode)" and calm_ensure: "calm w A \<Longrightarrow> emits A (ensure_dir w p mode)"
  unfolding write_atomic_def ensure_dir_def by (auto intro!: emits_jbind calm_intros)

lemma calm_take_root: "calm w A \<Longrightarrow> emits A (take_root w)"
  unfolding take_root_def by (auto intro!: emits_jbind calm_intros calm_write split: list.split)

lemma calm_export_loop: "calm w A \<Longrightarrow> emits A (export_loop w n rc)"
  by (induction n arbitrary: rc) (auto intro!: emits_jbind calm_intros calm_take_root calm_compose simp: UP_ALL_def)

lemma calm_export: "calm w A \<Longrightarrow> emits A (export_root w)"
  unfolding export_root_def by (intro emits_jbind calm_ensure calm_export_loop)

lemma calm_volume: "calm w A \<Longrightarrow> emits A (keyring_volume_exists w)"
  unfolding keyring_volume_exists_def by (auto intro!: emits_jbind calm_intros calm_docker)

lemma oneshot_docker: "keyring_oneshot_argv im script = Inr argv \<Longrightarrow> \<exists>rest. argv = ''docker'' # ''run'' # rest"
  by (auto simp: keyring_oneshot_argv_def require_pinned_image_def sbind_def split: if_splits)

lemma jlift_bind: "jbind (jlift x) f h = (case x of Inl e \<Rightarrow> (h, Inl (Failed e)) | Inr a \<Rightarrow> f a h)"
  by (simp add: jbind_def jlift_def split: sum.split)

lemma emits_jlift_bind: "(\<And>a. x = Inr a \<Longrightarrow> emits A (f a)) \<Longrightarrow> emits A (jbind (jlift x) f)"
  by (cases x) (simp_all add: emits_def jlift_bind)

lemma calm_prepare: "calm w A \<Longrightarrow> emits A (keyring_prepare w create)"
  unfolding keyring_prepare_def create_volume_step_def keyring_prepare_argv_def
  by (auto intro!: emits_jbind emits_jlift_bind calm_intros calm_volume calm_compose simp: UP_ALL_def)
     (auto dest!: oneshot_docker intro: calm_docker)

lemma verify_docker: "keyring_verify_argv im = Inr argv \<Longrightarrow> \<exists>rest. argv = ''docker'' # ''run'' # rest"
  by (auto simp: keyring_verify_argv_def require_pinned_image_def sbind_def split: if_splits)

lemma calm_run_option: "emits A m \<Longrightarrow> emits A (jtry (jbind m (\<lambda>p. jret (Some p))) (\<lambda>e. if is_caught_run e then Some (jret None) else None))"
  by (auto intro!: emits_jbind emits_jtry emits_silent split: if_splits)

lemma calm_keyring_check: "calm w A \<Longrightarrow> emits A (keyring_check w)"
  unfolding keyring_check_def
  by (auto intro!: emits_jbind emits_jlift_bind calm_run_option calm_intros emits_jtry split: sum.split option.split if_splits)
     (auto dest!: verify_docker intro: calm_docker)

lemma calm_identity: "calm w A \<Longrightarrow> emits A (run_identity_check w)"
  unfolding run_identity_check_def
  by (auto intro!: emits_jbind emits_jtry calm_intros calm_compose simp: PSQL_BASE_def UP_ALL_def split: sum.split option.split list.split if_splits)

lemma calm_identity_problems: "calm w A \<Longrightarrow> emits A (identity_check_problems w)"
  unfolding identity_check_problems_def by (auto intro!: emits_jbind calm_identity calm_intros split: sum.split)

lemma calm_inspect: "calm w A \<Longrightarrow> emits A (inspect_project w)"
  unfolding inspect_project_def Let_def by (auto intro!: emits_jbind calm_intros calm_compose calm_docker simp: UP_ALL_def)

lemma calm_at_root: "calm (at_root w) A \<longleftrightarrow> calm w A"
  by (simp add: calm_def at_root_def compose_base_def in_stack_def)

lemma calm_verify: "calm w A \<Longrightarrow> emits A (stack_verify w)"
  unfolding stack_verify_def verify_problems_def calm_at_root [of w A, symmetric]
  by (auto intro!: emits_jbind calm_inspect calm_keyring_check calm_identity_problems calm_intros split: prod.split)

lemma grows_start: "emits (\<lambda>e. True) (start_stack w)"
  unfolding start_stack_def
  by (intro emits_jbind calm_intros calm_wait [OF calm_all] calm_export [OF calm_all] calm_prepare [OF calm_all])
     (simp_all add: compose_def emits_docker)

text \<open>The stack is started only after the freshness gate, every static rule and every Docker check passed.\<close>

lemma up_gated_lemma:
  assumes "cmd_up w [] = (h, r)"
  shows "(h \<noteq> [] \<longrightarrow> scan_allows w []) \<and>
     (\<forall>e\<in>set h. starts w e \<longrightarrow> (\<exists>h1. static_problems w [] = ([], Inr []) \<and> docker_problems w [] = (h1, Inr []) \<and> prefix h1 h \<and> e \<in> set (drop (length h1) h)))"
proof -
  obtain stale where st: "freshness_problems w [] = ([], Inr stale)" using freshness_reports_lemma by blast
  show ?thesis
  proof (cases "stale = []")
    case False
    with st assms have "h = []" unfolding cmd_up_def by (auto simp: jbind_def jret_def)
    then show ?thesis by simp
  next
    case True
    note allows = freshness_allows_lemma [OF st [unfolded True]]
    obtain r1 where s1: "static_problems w [] = ([], r1)"
      using silent_same [OF silent_static, of w "[]"] by (metis prod.collapse)
    obtain h1 r2 where d1: "docker_problems w [] = (h1, r2)" by force
    have no: "\<forall>e\<in>set h1. \<not> starts w e" using emitsD [OF docker_checks_not_starts, of w "[]"] d1 by auto
    show ?thesis
    proof (cases "r1 = Inr [] \<and> r2 = Inr []")
      case True
      let ?rest = "jbind (start_stack w) (\<lambda>u. jbind (wait_healthy w ''keycloak'' KEYCLOAK_WAIT_SECONDS) (\<lambda>healthy. stack_verify w))"
      from True assms st s1 d1 \<open>stale = []\<close> have rest: "?rest h1 = (h, r)" unfolding cmd_up_def by (simp add: jbind_def)
      have "\<exists>evs. h = h1 @ evs"
      proof -
        have "emits (\<lambda>e. True) ?rest" by (intro emits_jbind grows_start calm_wait [OF calm_all] calm_verify [OF calm_all])
        from emitsD [OF this, of h1] rest show ?thesis by auto
      qed
      then obtain evs where "h = h1 @ evs" by blast
      with True s1 d1 no allows show ?thesis by auto
    next
      case False
      with assms st s1 d1 \<open>stale = []\<close> have "h = h1 \<or> h = []" unfolding cmd_up_def
        by (auto simp: jbind_def jret_def split: sum.splits if_splits)
      with no allows show ?thesis by auto
    qed
  qed
qed

text \<open>The rest of the stack is started only right after the key-ring volume was prepared successfully.\<close>

definition not_all :: "stack_host \<Rightarrow> event \<Rightarrow> bool" where
  "not_all w e \<longleftrightarrow> e \<noteq> Run (compose_base w @ UP_ALL)"

lemma calm_not_all: "calm w (not_all w)"
  by (auto simp: calm_def not_all_def compose_base_def)

lemma starts_not_all: "\<not> starts w e \<Longrightarrow> not_all w e"
  by (auto simp: not_all_def starts_def UP_ALL_def)

definition prepared_last :: "stack_host \<Rightarrow> history \<Rightarrow> bool" where
  "prepared_last w h \<longleftrightarrow> (\<exists>im argv h0 out err. keyring_prepare_argv im = Inr argv \<and> h = h0 @ [Run argv] \<and>
     k_exec w h0 (runner_environment (k_environ w)) argv None = Inr (0, out, err))"

lemma docker_run_Inr [simp]:
  "docker_run w argv stdin h = (h', Inr p) \<longleftrightarrow>
     h' = h @ [case stdin of None \<Rightarrow> Run argv | Some t \<Rightarrow> Feed argv t] \<and> k_exec w h (runner_environment (k_environ w)) argv stdin = Inr p"
  by (auto simp: docker_run_def split: sum.splits)

lemma outcome_Inr: "keyring_outcome label (rc, out, err) h = (h', Inr s) \<Longrightarrow> h' = h \<and> rc = 0"
  by (auto simp: keyring_outcome_def split: if_splits list.splits)

lemma prepare_Inr:
  assumes "keyring_prepare w create h = (h', Inr s)"
  shows "prepared_last w h'"
proof -
  from assms obtain im h1 argv h2 rc out err where r: "keyring_prepare_argv im = Inr argv" "docker_run w argv None h1 = (h2, Inr (rc, out, err))"
      "keyring_outcome ''prepare'' (rc, out, err) h2 = (h', Inr s)"
    unfolding keyring_prepare_def by (auto simp del: docker_run_Inr)
  from outcome_Inr [OF r(3)] r(1,2) show ?thesis unfolding prepared_last_def by auto
qed

lemma unique_event: "h = p @ x # q \<Longrightarrow> x \<notin> set p \<Longrightarrow> x \<notin> set q \<Longrightarrow> h = a @ x # b \<Longrightarrow> a = p"
  by (metis append_Cons_eq_iff)

lemma emits_not_all: "emits (not_all w) m \<Longrightarrow> fst (m h) = h @ evs \<Longrightarrow> Run (compose_base w @ UP_ALL) \<notin> set evs"
  using emitsD [of "not_all w" m h] by (auto simp: not_all_def)

lemma before_all:
  "emits (not_all w) (jbind (require_ok ''start caddy failed (exit %d)'' (compose w UP_CADDY None)) (\<lambda>u.
     jbind (wait_healthy w ''caddy'' 120) (\<lambda>healthy.
     jbind (jguard (\<not> healthy) ''caddy did not become healthy within 120 seconds'') (\<lambda>u.
     jbind (export_root w) (\<lambda>u. keyring_prepare w True)))))"
  by (intro emits_jbind emits_require_ok emits_silent calm_compose [OF calm_not_all] calm_wait [OF calm_not_all] calm_export [OF calm_not_all] calm_prepare [OF calm_not_all])
     (simp add: UP_ALL_def UP_CADDY_def)

lemma jbind_assoc: "jbind (jbind m f) g = jbind m (\<lambda>a. jbind (f a) g)"
  by (auto simp: jbind_def fun_eq_iff split: prod.split sum.split)

lemma up_prepared_lemma:
  assumes "cmd_up w [] = (h, r)" "h = a @ Run (compose_base w @ UP_ALL) # b"
  shows "prepared_last w a"
proof -
  let ?x = "Run (compose_base w @ UP_ALL)"
  let ?pre = "jbind (require_ok ''start caddy failed (exit %d)'' (compose w UP_CADDY None)) (\<lambda>u.
     jbind (wait_healthy w ''caddy'' 120) (\<lambda>healthy.
     jbind (jguard (\<not> healthy) ''caddy did not become healthy within 120 seconds'') (\<lambda>u.
     jbind (export_root w) (\<lambda>u. keyring_prepare w True))))"
  let ?last = "require_ok ''start failed (exit %d)'' (compose w UP_ALL None)"
  let ?tail = "jbind (wait_healthy w ''keycloak'' KEYCLOAK_WAIT_SECONDS) (\<lambda>healthy. stack_verify w)"
  have st: "start_stack w = jbind ?pre (\<lambda>p. ?last)" unfolding start_stack_def jbind_assoc ..
  have x: "?x \<in> set h" using assms(2) by simp
  obtain stale where fr: "freshness_problems w [] = ([], Inr stale)" using freshness_reports_lemma by blast
  obtain r1 where s1: "static_problems w [] = ([], r1)" using silent_same [OF silent_static, of w "[]"] by (metis prod.collapse)
  obtain h1 r2 where d1: "docker_problems w [] = (h1, r2)" by force
  have "emits (not_all w) (docker_problems w)" by (rule emits_mono [OF docker_checks_not_starts starts_not_all])
  then have d1no: "?x \<notin> set h1" by (rule emits_not_all [of w _ "[]"]) (simp add: d1)
  have go: "stale = [] \<and> r1 = Inr [] \<and> r2 = Inr []"
  proof (rule ccontr)
    assume "\<not> ?thesis"
    with assms(1) fr s1 d1 have "h = h1 \<or> h = []" unfolding cmd_up_def by (auto simp: jbind_def jret_def split: sum.splits if_splits)
    with x d1no show False by auto
  qed
  with assms(1) fr s1 d1 have rest: "jbind (jbind ?pre (\<lambda>p. ?last)) (\<lambda>u. ?tail) h1 = (h, r)" unfolding cmd_up_def st by (simp add: jbind_def)
  obtain h2 r3 where p: "?pre h1 = (h2, r3)" by force
  obtain e2 where e2: "h2 = h1 @ e2" "?x \<notin> set e2" using emitsD [OF before_all [of w], of h1] p by (auto simp: not_all_def)
  have pre_no: "?x \<notin> set h2" using e2 d1no by simp
  have "\<exists>s. r3 = Inr s"
  proof (rule ccontr)
    assume "\<not> ?thesis"
    with p rest have "h = h2" by (cases r3) (auto simp: jbind_def)
    with x pre_no show False by simp
  qed
  then obtain s where s: "r3 = Inr s" ..
  from p [unfolded s] obtain h0 where "keyring_prepare w True h0 = (h2, Inr s)" by auto
  note prepared = prepare_Inr [OF this]
  have l: "fst (?last h2) = h2 @ [?x]"
    by (auto simp: require_ok_def jbind_def compose_def docker_run_def jret_def jfail_def jlift_def split: sum.split prod.split)
  have "\<exists>q. h = h2 @ ?x # q \<and> ?x \<notin> set q"
  proof (cases "snd (?last h2)")
    case (Inl e)
    with rest p s l have "h = h2 @ [?x]" by (auto simp: jbind_def split: prod.splits)
    then show ?thesis by simp
  next
    case (Inr u)
    then have lh: "?last h2 = (h2 @ [?x], Inr u)" using l by (metis prod.collapse)
    with rest p s have t: "?tail (h2 @ [?x]) = (h, r)" by (simp add: jbind_def)
    have "emits (not_all w) ?tail" by (intro emits_jbind calm_wait [OF calm_not_all] calm_verify [OF calm_not_all])
    from emitsD [OF this, of "h2 @ [?x]"] t show ?thesis by (auto simp: not_all_def)
  qed
  then obtain q where "h = h2 @ ?x # q" "?x \<notin> set q" by blast
  with unique_event [OF this(1) pre_no this(2) assms(2)] prepared show ?thesis by simp
qed


section \<open>Rebuilding the realm\<close>

definition drops :: "event \<Rightarrow> bool" where
  "drops e \<longleftrightarrow> (\<exists>argv. e = Feed argv REBUILD_SQL)"

lemma identity_sql_no_rebuild: "identity_sql_problems REBUILD_SQL \<noteq> []"
  by code_simp

lemma emits_feed: "A (Feed argv t) \<Longrightarrow> emits A (docker_run w argv (Some t))"
  by (simp add: emits_def docker_run_def)

lemma identity_not_drops: "emits (\<lambda>e. \<not> drops e) (run_identity_check w)"
proof -
  have "\<not> drops (Feed argv t)" if "identity_sql_problems t = []" for argv t
    using that identity_sql_no_rebuild by (auto simp: drops_def)
  then show ?thesis unfolding run_identity_check_def compose_def
    by (auto intro!: emits_jbind emits_jtry emits_silent emits_feed split: sum.split option.split list.split if_splits)
qed

text \<open>Keycloak's database is dropped only on request, behind the deploy gate, when the identity report says that every user is synthetic
  and the bootstrap administrator is not retired.\<close>

lemma rebuild_guarded_lemma:
  assumes "cmd_realm_rebuild w confirm [] = (h, r)" "e \<in> set h" "drops e"
  shows "confirm \<and> deploy_gate_problems w [] = ([], Inr []) \<and>
     (\<exists>h1 facts. run_identity_check w [] = (h1, Inr (Inr facts)) \<and> fact_int (fact_of facts ''users_without_synthetic'') \<le> 0 \<and> \<not> bootstrap_retired w h1)"
proof -
  obtain h1 r1 where id: "run_identity_check w [] = (h1, r1)" by force
  have no: "\<forall>e\<in>set h1. \<not> drops e" using emitsD [OF identity_not_drops, of w "[]"] id by auto
  obtain rg where g: "deploy_gate_problems w [] = ([], rg)" using silent_same [OF silent_gate, of w "[]"] by (metis prod.collapse)
  show ?thesis
  proof (rule ccontr)
    assume neg: "\<not> ?thesis"
    have "h = h1 \<or> h = []"
      using assms(1) id g neg unfolding cmd_realm_rebuild_def refuse_def Let_def
      by (auto simp: jbind_def jret_def jguard_def jfail_def jlift_def jlook_def not_less split: sum.splits if_splits)
    with assms(2,3) no show False by auto
  qed
qed


section \<open>The key ring's containers\<close>

text \<open>The privileged container: no network, a read-only root, all capabilities dropped but three, one mount, the key-ring volume.\<close>

definition confined_run :: "string list \<Rightarrow> bool" where
  "confined_run argv \<longleftrightarrow>
     (\<exists>im script. fullmatches PINNED_IMAGE_RE im \<and> script \<in> {KEYRING_PREPARE_SCRIPT, KEYRING_RESET_SCRIPT, KEYRING_RESET_ALL_SCRIPT} \<and>
        argv = [''docker'', ''run'', ''--rm'', ''--network'', ''none'', ''--read-only'', ''--security-opt'', ''no-new-privileges'', ''--cap-drop'', ''ALL'',
          ''--cap-add'', ''CHOWN'', ''--cap-add'', ''DAC_OVERRIDE'', ''--cap-add'', ''FOWNER'', ''--user'', ''0:0'', ''--pids-limit'', ''64'', ''--memory'', ''64m'',
          ''--mount'', keyring_mount, ''--entrypoint'', ''sh'', im, ''-c'', script])"

definition privileged :: "event \<Rightarrow> bool" where
  "privileged e \<longleftrightarrow> (\<exists>argv. e = Run argv \<and> ''--cap-add'' \<in> set argv)"

text \<open>What a reset may do: no container of the stack is created or started, and every container it runs is confined.\<close>

definition reset_allowed :: "stack_host \<Rightarrow> event \<Rightarrow> bool" where
  "reset_allowed w e \<longleftrightarrow> \<not> starts w e \<and> (\<forall>rest. e = Run (''docker'' # ''run'' # rest) \<longrightarrow> confined_run (''docker'' # ''run'' # rest))"

lemma oneshot_confined:
  assumes "keyring_oneshot_argv im script = Inr argv" "script \<in> {KEYRING_PREPARE_SCRIPT, KEYRING_RESET_SCRIPT, KEYRING_RESET_ALL_SCRIPT}"
  shows "confined_run argv"
  using assms unfolding keyring_oneshot_argv_def require_pinned_image_def sbind_def confined_run_def KEYRING_ONESHOT_CAPS_def
  by (auto split: if_splits)

lemma reset_allowed_confined: "confined_run argv \<Longrightarrow> reset_allowed w (Run argv) \<and> reset_allowed w (Feed argv t)"
  by (auto simp: reset_allowed_def starts_def confined_run_def compose_base_def)

lemma reset_allowed_compose: "args \<noteq> [] \<Longrightarrow> hd args \<notin> {''up'', ''create'', ''start'', ''run'', ''restart''} \<Longrightarrow> emits (reset_allowed w) (compose w args stdin)"
  unfolding compose_def by (rule emits_docker) (auto simp: reset_allowed_def starts_def compose_base_def)

lemma reset_allowed_volume: "emits (reset_allowed w) (keyring_volume_exists w)"
  unfolding keyring_volume_exists_def
  by (intro emits_jbind emits_docker) (auto simp: reset_allowed_def starts_def compose_base_def intro: emits_silent)

lemma reset_allowed_oneshot:
  "keyring_oneshot_argv im script = Inr argv \<Longrightarrow> script \<in> {KEYRING_PREPARE_SCRIPT, KEYRING_RESET_SCRIPT, KEYRING_RESET_ALL_SCRIPT} \<Longrightarrow>
   emits (reset_allowed w) (docker_run w argv None)"
  by (rule emits_docker) (rule reset_allowed_confined, rule oneshot_confined)

lemma reset_allowed_prepare: "emits (reset_allowed w) (keyring_prepare w False)"
  unfolding keyring_prepare_def create_volume_step_def keyring_prepare_argv_def
  by (auto intro!: emits_jbind emits_jlift_bind silent_pinned reset_allowed_volume reset_allowed_oneshot emits_outcome emits_silent)

lemma reset_allowed_reset: "emits (reset_allowed w) (keyring_reset w all_keys)"
  unfolding keyring_reset_def keyring_reset_argv_def
  by (auto intro!: emits_jbind emits_jlift_bind silent_pinned reset_allowed_volume reset_allowed_oneshot reset_allowed_prepare reset_allowed_compose
        emits_require_ok emits_outcome emits_silent split: if_splits)

lemma reset_safe_lemma:
  assumes "cmd_keyring_reset w confirm all_keys [] = (h, r)" "e \<in> set h"
  shows "confirm \<and> reset_allowed w e"
proof -
  have "emits (reset_allowed w) (cmd_keyring_reset w confirm all_keys)"
    unfolding cmd_keyring_reset_def by (intro emits_jbind emits_silent reset_allowed_reset)
  from emitsD [OF this, of "[]"] assms have "reset_allowed w e" by auto
  moreover have confirm
    using assms by (cases confirm) (auto simp: cmd_keyring_reset_def jbind_def jguard_def jfail_def jlift_def)
  ultimately show ?thesis by simp
qed


section \<open>Waiting ends\<close>

definition clock_runs :: "stack_host \<Rightarrow> bool" where
  "clock_runs w \<longleftrightarrow> (\<forall>h evs. k_clock w h \<le> k_clock w (h @ evs)) \<and> (\<forall>h n. k_clock w h + int n \<le> k_clock w (h @ [Sleep n]))"

lemma wait_rounds_end:
  assumes "clock_runs w"
  shows "deadline \<le> k_clock w h + 2 * int n \<Longrightarrow> wait_rounds w service deadline (Suc n) h = (h', Inr r) \<Longrightarrow>
    \<exists>b. r = Some b \<and> (\<not> b \<longrightarrow> deadline \<le> k_clock w h')"
proof (induction n arbitrary: h)
  case 0
  then show ?case by (auto simp: jbind_def jlook_def jret_def split: if_splits)
next
  case (Suc n)
  show ?case
  proof (cases "deadline \<le> k_clock w h")
    case True
    with Suc.prems show ?thesis by (auto simp: jbind_def jlook_def jret_def)
  next
    case False
    with Suc.prems(2) obtain healthy h1 where h1: "healthy_now w service h = (h1, Inr healthy)"
        "(if healthy then jret (Some True) else jbind (jdo (Sleep 2)) (\<lambda>u. wait_rounds w service deadline (Suc n))) h1 = (h', Inr r)"
      by (subst (asm) wait_rounds.simps) (auto simp del: wait_rounds.simps)
    show ?thesis
    proof (cases healthy)
      case True
      with h1(2) show ?thesis by (intro exI [of _ True]) simp
    next
      case False
      with h1(2) have next_round: "wait_rounds w service deadline (Suc n) (h1 @ [Sleep 2]) = (h', Inr r)" by (simp del: wait_rounds.simps)
      obtain evs where "h1 = h @ evs" using emits_Inr [OF calm_healthy_now [OF calm_all] h1(1)] by blast
      then have "k_clock w h \<le> k_clock w h1" using assms by (simp add: clock_runs_def)
      moreover have "k_clock w h1 + int 2 \<le> k_clock w (h1 @ [Sleep 2])" using assms unfolding clock_runs_def by blast
      ultimately have "deadline \<le> k_clock w (h1 @ [Sleep 2]) + 2 * int n" using Suc.prems(1) by simp
      from Suc.IH [OF this next_round] show ?thesis .
    qed
  qed
qed

lemma wait_healthy_ends_lemma:
  assumes "clock_runs w" "0 \<le> seconds" "wait_healthy w service seconds h = (h', Inr b)"
  shows "wait_rounds w service (k_clock w h + seconds) (nat seconds div 2 + 2) h = (h', Inr (Some b)) \<and> (\<not> b \<longrightarrow> k_clock w h + seconds \<le> k_clock w h')"
proof -
  let ?n = "nat seconds div 2 + 1"
  from assms(3) obtain r where r: "wait_rounds w service (k_clock w h + seconds) (Suc ?n) h = (h', Inr r)" "b = (r = Some True)"
    unfolding wait_healthy_def by (auto simp del: wait_rounds.simps)
  have "k_clock w h + seconds \<le> k_clock w h + 2 * int ?n" proof -
    have "m \<le> 2 * (m div 2) + 1" for m :: nat by presburger
    from this [of "nat seconds"] have "int (nat seconds) \<le> int (2 * (nat seconds div 2) + 1)" by (simp only: of_nat_le_iff)
    with assms(2) show ?thesis by simp
  qed
  from wait_rounds_end [OF assms(1) this r(1)] r show ?thesis by (auto simp del: wait_rounds.simps)
qed

section \<open>Properties\<close>

lemma stored_reads:
  assumes "stored_result w h rec"
  shows "read_record w h = (h, Inr (Inr (JObj rec)))"
proof -
  from assms obtain f t where f: "k_lstat w h (scan_result_path w) = Inr (Some Regular)" "k_open w h (scan_result_path w) = Inr f"
    "o_regular f" "k_posix w \<longrightarrow> o_uid f = k_uid w \<and> \<not> group_writable (o_mode f)" "o_size f \<le> SCAN_RESULT_MAX_BYTES" "length (o_data f) \<le> SCAN_RESULT_MAX_BYTES"
    "k_decode w (o_data f) = Some t" "k_json w t = Inr (JObj rec)" unfolding stored_result_def by blast
  then have "opened_result w (scan_result_name w) f = Inr (o_data f)" by (auto simp: opened_result_def Let_def)
  with f have "read_scan_result w h = (h, Inr (o_data f))"
    by (simp add: read_scan_result_def Let_def jbind_def jread_def jlift_def)
  with f(7,8) show ?thesis by (simp add: read_record_def jtry_def jbind_def jread_def jret_def)
qed

lemma freshness_exact_lemma: "freshness_problems w h = (h, Inr []) \<longleftrightarrow> scan_allows w h"
proof
  assume "freshness_problems w h = (h, Inr [])"
  then show "scan_allows w h" by (rule freshness_allows_lemma)
next
  assume "scan_allows w h"
  then obtain rec refs scanner ex sc where s: "stored_result w h rec" "scan_bindings w h = (h, Inr (refs, scanner, ex, sc))"
    "bound_to rec refs scanner ex sc" "clean_result rec (k_now w h)" "in_window rec (k_now w h)" unfolding scan_allows_def by blast
  then have g: "scan_result_problems (JObj rec) refs scanner ex sc (k_now w h) = Some []" unfolding gate_exact_lemma by blast
  with s(2) have "gate_found w (JObj rec) h = (h, Inr [])" by (simp add: gate_found_def jbind_def jlook_def jret_def)
  with stored_reads [OF s(1)] show "freshness_problems w h = (h, Inr [])" by (simp add: freshness_problems_def jtry_def jbind_def)
qed

text \<open>
  C34: The freshness gate always answers, whatever it cannot read, and passes exactly when the scan result on disk allows a start.\<close>

theorem freshness_exact:
  "freshness_problems w h \<in> range (\<lambda>ps. (h, Inr ps)) \<and> (freshness_problems w h = (h, Inr []) \<longleftrightarrow> scan_allows w h)"
  using freshness_reports_lemma [of w h] freshness_exact_lemma [of w h] by auto

text \<open>
  C1: Nothing at all is run unless the scan allows it, and no container of the stack is created or started unless every static rule
  and every Docker check passed, and then only after them.\<close>

theorem up_gated:
  "(scan_allows w [] \<or> fst (cmd_up w []) = []) \<and>
   {e \<in> set (fst (cmd_up w [])). starts w e} \<subseteq>
     (if static_problems w [] = ([], Inr []) \<and> snd (docker_problems w []) = Inr []
      then set (drop (length (fst (docker_problems w []))) (fst (cmd_up w []))) else {})"
proof -
  obtain h r where c: "cmd_up w [] = (h, r)" by force
  show ?thesis using up_gated_lemma [OF c] by (auto simp: c)
qed

text \<open>
  C35: The services are started only right after the one-shot container prepared the key-ring volume successfully.\<close>

theorem up_prepared:
  "{a. \<exists>b. fst (cmd_up w []) = a @ Run (compose_base w @ UP_ALL) # b} \<subseteq> {a. prepared_last w a}"
proof -
  obtain h r where c: "cmd_up w [] = (h, r)" by force
  show ?thesis using up_prepared_lemma [OF c] by (auto simp: c)
qed

text \<open>
  C3: The identity database is dropped only on request, with a scan that allows it, files equal to the clone, an identity report
  in which every user is synthetic, and a bootstrap administrator for the rebuilt realm.\<close>

theorem rebuild_guarded:
  "{e \<in> set (fst (cmd_realm_rebuild w confirm [])). drops e} \<subseteq>
     (if confirm \<and> scan_allows w [] \<and> manifest_problems w [] = ([], Inr []) \<and>
         (\<exists>h1 facts. run_identity_check w [] = (h1, Inr (Inr facts)) \<and> fact_int (fact_of facts ''users_without_synthetic'') \<le> 0 \<and>
            \<not> bootstrap_retired w h1)
      then UNIV else {})"
proof -
  obtain h r where c: "cmd_realm_rebuild w confirm [] = (h, r)" by force
  have gate: "scan_allows w [] \<and> manifest_problems w [] = ([], Inr [])" if g: "deploy_gate_problems w [] = ([], Inr [])"
  proof -
    obtain ps where f: "freshness_problems w [] = ([], Inr ps)" using freshness_reports_lemma by blast
    obtain rm where m: "manifest_problems w [] = ([], rm)" using silent_same [OF silent_manifest, of w "[]"] by (metis prod.collapse)
    from g f m have "ps = [] \<and> rm = Inr []" unfolding deploy_gate_problems_def
      by (cases rm) (auto simp: jbind_def jtry_def jret_def)
    with f m freshness_allows_lemma show ?thesis by blast
  qed
  show ?thesis using rebuild_guarded_lemma [OF c] gate by (auto simp: c split: if_splits)
qed

text \<open>
  C36: A key-ring reset needs its confirmation, starts nothing of the stack, and runs confined containers only.\<close>

theorem reset_safe:
  "set (fst (cmd_keyring_reset w confirm all_keys [])) \<subseteq> (if confirm then {e. reset_allowed w e} else {})"
proof -
  obtain h r where c: "cmd_keyring_reset w confirm all_keys [] = (h, r)" by force
  have "e \<in> (if confirm then {e. reset_allowed w e} else {})" if "e \<in> set h" for e
    using reset_safe_lemma [OF c that] by auto
  then show ?thesis unfolding c fst_conv by (rule subsetI)
qed

text \<open>
  C40: Waiting for a service ends by itself: the bound on the rounds is never reached, and a negative answer means that the time was over.\<close>

theorem wait_healthy_ends:
  assumes "clock_runs w" "0 \<le> seconds" "wait_healthy w service seconds h = (h', Inr b)"
  shows "wait_rounds w service (k_clock w h + seconds) (nat seconds div 2 + 2) h = (h', Inr (Some b)) \<and> (b \<or> k_clock w h + seconds \<le> k_clock w h')"
  using wait_healthy_ends_lemma [OF assms] by blast

definition idle_host :: stack_host where
  "idle_host = \<lparr> k_stack = path_of ''/srv/stack'', k_repo = path_of ''/srv/clone'', k_root = path_of ''/srv/clone'', k_posix = True, k_uid = 0, k_environ = [],
     k_exec = (\<lambda>h env argv stdin. Inr (0, [], [])), k_is_file = (\<lambda>h p. True), k_is_dir = (\<lambda>h p. True), k_exists = (\<lambda>h p. False), k_mode = (\<lambda>h p. 384),
     k_size = (\<lambda>h p. Inr (Some 1)), k_entries = (\<lambda>h p. []), k_files_under = (\<lambda>h p. []), k_bytes = (\<lambda>h p. Inr []),
     k_text = (\<lambda>h p. Inr []), k_secrets = (\<lambda>h. None), k_decode = Some, k_json = (\<lambda>t. Inr JNull), k_sha = (\<lambda>t. t),
     k_choice = (\<lambda>l n. CHR ''A''), k_token = (\<lambda>l. []), k_salt = ''salt'', k_pbkdf2 = (\<lambda>p s n. p),
     k_hmac = (\<lambda>k t. t), k_hash = (\<lambda>t. t), k_now = (\<lambda>h. 0),
     k_clock = (\<lambda>h. int (sum_list (map (\<lambda>e. case e of Sleep n \<Rightarrow> n | _ \<Rightarrow> 0) h))), k_temp = (\<lambda>h. ''/tmp/x''), k_lstat = (\<lambda>h p. Inr None),
     k_open = (\<lambda>h p. Inr \<lparr> o_regular = True, o_uid = 0, o_mode = 384, o_size = 0, o_data = [] \<rparr>), k_module = (\<lambda>h. None),
     k_crash = \<lparr> f_kind = Other_error, f_class = ''TypeError'', f_text = [] \<rparr> \<rparr>"

lemma idle_clock: "clock_runs idle_host"
  by (simp add: clock_runs_def idle_host_def)

lemma idle_waits: "snd (wait_healthy idle_host ''caddy'' 3 []) = Inr False"
  by code_simp

theorem wait_healthy_ends_witness: "3 \<le> k_clock idle_host (fst (wait_healthy idle_host ''caddy'' 3 []))"
proof -
  have w: "wait_healthy idle_host ''caddy'' 3 [] = (fst (wait_healthy idle_host ''caddy'' 3 []), Inr False)" using idle_waits by (metis prod.collapse)
  have "k_clock idle_host [] = 0" by (simp add: idle_host_def)
  with wait_healthy_ends [OF idle_clock _ w] show ?thesis by simp
qed

end
