(* ===== verification/Stack_Scan_Gate.thy ===== *)
theory Stack_Scan_Gate
  imports Stack_Operations Stack_Vault
begin

text \<open>
  What \<^verbatim>\<open>stackctl scan\<close> guarantees: a green scan covered every image of the stack, and the record it writes passes the
  freshness gate exactly while it should.
\<close>

section \<open>What a scan that succeeded did\<close>

lemma silent_entries: "emits A (scan_entries w)"
  unfolding scan_entries_def
  by (intro emits_jtry emits_jbind silent_load_module emits_silent) (auto intro: emits_silent)

lemma scan_workdir_Inr:
  assumes "scan_workdir w h = (h', Inr (root, db))"
  shows "db = root @ ''/db'' \<and> h' = h @ [Mkdir root, Mkdir db, Chmod db 511] \<and> \<not> inside (path_of root) (k_stack w) \<and> \<not> inside (path_of root) (k_repo w)"
  using assms unfolding scan_workdir_def by (auto simp: Let_def split: list.splits if_splits)

lemma scan_entries_Inr:
  assumes "scan_entries w h = (h', Inr (errors, es))"
  shows "h' = h \<and> (\<exists>t raw. k_text w h (in_repo w STACK_EXCEPTIONS_PATH) = Inr t \<and> k_json w t = Inr raw \<and>
     exception_errors raw (k_now w h div DAY) = (errors, es))"
proof -
  from silent_same [OF silent_entries assms] have h: "h' = h" .
  with assms show ?thesis unfolding scan_entries_def load_scan_module_def
    by (auto simp: jtry_def jread_def jlook_def split: prod.splits sum.splits option.splits)
qed

lemma cmd_scan_Inr:
  assumes "cmd_scan w sw h = (h', Inr (record, code))"
  obtains refs sc ex sh es root h1 p where
    "scan_bindings w h = (h, Inr (refs, sc, ex, sh))" "scan_entries w h = (h, Inr ([], es))"
    "scan_images sw \<lparr> strict = SCAN_STRICT, scanner = sc, db_dir = root @ ''/db'', entries = es, today = k_now w h1 div DAY \<rparr> refs = Some p"
    "record = scan_record (k_now w h1) (refs, sc, ex, sh) p" "code = (if scan_green p then 0 else 1)"
    "\<not> inside (path_of root) (k_stack w)" "\<not> inside (path_of root) (k_repo w)"
    "h1 = h @ [Mkdir root, Mkdir (root @ ''/db''), Chmod (root @ ''/db'') 511, Run (db_update_argv sc (root @ ''/db''))]"
    "h' = h1 @ [Rmtree root, Write (scan_result_path w) (guards_dumps (JObj record) @ [NL]), Chmod (scan_result_path w) 384]"
proof -
  from assms obtain b h2 errors es h3 root db h4 h5 at p h6 where
    s: "scan_bindings w h = (h2, Inr b)" "scan_entries w h2 = (h3, Inr (errors, es))" "errors = []"
      "scan_workdir w h3 = (h4, Inr (root, db))" "jfinally (scan_job w sw (fst b) (fst (snd b)) db es) (Rmtree root) h4 = (h5, Inr (at, p))"
      "h' = h5 @ [Write (scan_result_path w) (guards_dumps (JObj (scan_record at b p)) @ [NL]), Chmod (scan_result_path w) 384]"
      "record = scan_record at b p" "code = (if scan_green p then 0 else 1)"
    unfolding cmd_scan_def write_atomic_def by (auto simp del: split_paired_Ex split_paired_All split: prod.splits)
  have same: "h2 = h" "h3 = h" using silent_same [OF silent_bindings s(1)] silent_same [OF silent_entries s(2)] by simp_all
  obtain refs sc ex sh where b: "b = (refs, sc, ex, sh)" by (cases b) auto
  note wd = scan_workdir_Inr [OF s(4)]
  define h1 where "h1 = h4 @ [Run (db_update_argv sc db)]"
  from s(5) have j: "at = k_now w h1" "h5 = h1 @ [Rmtree root]"
    "scan_images sw \<lparr> strict = SCAN_STRICT, scanner = sc, db_dir = db, entries = es, today = at div DAY \<rparr> refs = Some p"
    unfolding scan_job_def b h1_def
    by (auto simp: jfinally_def jguards_def split: prod.splits option.splits)
  show thesis
    by (rule that [of refs sc ex sh es root h1 p]) (use s same b wd j in \<open>simp_all add: h1_def\<close>)
qed

lemma unscanned_Nil: "foldl (unscanned_step scanned) us ns = [] \<Longrightarrow> us = [] \<and> set ns \<subseteq> set scanned"
proof (induction ns arbitrary: us)
  case (Cons n ns)
  from Cons.IH [of "unscanned_step scanned us n"] Cons.prems have "unscanned_step scanned us n = []" "set ns \<subseteq> set scanned" by simp_all
  then show ?case by (cases us) (auto simp: unscanned_step_def split: if_splits)
qed simp

definition through_row :: "exc_entry list \<Rightarrow> ident list \<Rightarrow> row \<Rightarrow> json" where
  "through_row es ids r = JObj (row_base (fst r) @ [(''valid_through'', JStr (the (valid_through es ids (fst r))))])"

lemma row_steps_green:
  assumes "scan_green (foldl (row_step es ids) p rs)"
  shows "scan_green p \<and> (\<forall>r\<in>set rs. snd r \<noteq> ''FAIL'' \<and> valid_through es ids (fst r) \<noteq> None) \<and>
     p_excepted (foldl (row_step es ids) p rs) = p_excepted p @ map (through_row es ids) rs"
  using assms
proof (induction rs arbitrary: p)
  case (Cons r rs)
  from Cons.IH [of "row_step es ids p r"] Cons.prems have "scan_green (row_step es ids p r)" by simp
  then have "scan_green p \<and> snd r \<noteq> ''FAIL'' \<and> valid_through es ids (fst r) \<noteq> None \<and>
      p_excepted (row_step es ids p r) = p_excepted p @ [through_row es ids r]"
    by (auto simp: row_step_def scan_green_def through_row_def split: prod.splits option.splits if_splits)
  with Cons show ?case by simp
qed simp

lemma summary_green:
  assumes "scan_green (scan_summary refs es s stamps)"
  shows "failed s = [] \<and> blocking_rows (rows s) = [] \<and> length stamps \<le> 1 \<and> set (dkeys refs) \<subseteq> set (dkeys (docs s))"
proof -
  from row_steps_green [OF assms [unfolded scan_summary_def Let_def]]
  have g: "foldl (unscanned_step (if 1 < length stamps then [] else dkeys (docs s)))
      (failed s @ msg_if (1 < length stamps) ''the scans report different database build times'') (dkeys refs) = []"
    "\<forall>r\<in>set (rows s). snd r \<noteq> ''FAIL''" by (simp_all add: scan_green_def)
  from unscanned_Nil [OF g(1)] g(2) show ?thesis
    by (auto simp: blocking_rows_def filter_empty_conv split: if_splits)
qed

lemma scan_images_green:
  assumes "scan_images sw c refs = Some p" "scan_green p" "target \<in> set refs"
  shows "target_clean (scan_world sw) c ''out-'' target"
proof -
  from assms obtain s stamps where s: "scan_targets (scan_world sw) c ''out-'' refs scan_start = Some (s, stamps)" "p = scan_summary refs (entries c) s stamps"
    by (auto simp: scan_images_def bind_eq_Some_conv scan_green_def split: if_splits)
  with summary_green assms(2) have "failed s = []" "blocking_rows (rows s) = []" by auto
  moreover from s(1) have "fold_opt (scan_target (scan_world sw) c ''out-'') scan_start refs = Some s"
    by (auto simp: scan_targets_def bind_eq_Some_conv)
  ultimately show ?thesis using full_scan.loop_clean assms(3) by (auto simp: scan_clean_def)
qed

lemma scan_world_ran: "docker (scan_world sw) argv = Some p \<Longrightarrow> returncode p = 0 \<Longrightarrow> docker sw argv = Some p"
  by (auto simp: scan_world_def failed_proc_def split: option.splits)

lemma scan_world_same [simp]: "mkdtemp (scan_world sw) = mkdtemp sw" "read_sbom (scan_world sw) = read_sbom sw"
  by (auto simp: scan_world_def read_sbom_def)

definition covered_image :: "world \<Rightarrow> exc_entry list \<Rightarrow> int \<Rightarrow> string \<Rightarrow> string \<Rightarrow> string \<times> string \<Rightarrow> bool" where
  "covered_image sw es day sc db target \<longleftrightarrow>
     (case target of (al, ref) \<Rightarrow>
        \<exists>p doc ts. docker sw (scan_argv sc ref db (Some (mkdtemp sw (''out-'' @ al @ ''-'')))) = Some p
          \<and> returncode p = 0 \<and> stdout p = Inr (JObj doc)
          \<and> proven (JObj doc) ref (Some al) (read_sbom sw (mkdtemp sw (''out-'' @ al @ ''-'')))
          \<and> (al \<in> set SCAN_STRICT \<or> is_own_build (Some al) ref \<longrightarrow> ts = None)
          \<and> (\<forall>ms. map_of doc ''matches'' = Some (JList ms) \<longrightarrow> (\<forall>m\<in>set ms. blocking m \<longrightarrow> (\<exists>e\<in>set es. covers al day ts e m))))"

lemma clean_covered:
  assumes "target_clean (scan_world sw) \<lparr> strict = SCAN_STRICT, scanner = sc, db_dir = db, entries = es, today = day \<rparr> ''out-'' target"
  shows "covered_image sw es day sc db target"
proof -
  obtain al ref where t: "target = (al, ref)" by (cases target)
  from assms obtain p doc r ts lbl where
    c: "docker (scan_world sw) (scan_argv sc ref db (Some (mkdtemp sw (''out-'' @ al @ ''-'')))) = Some p" "returncode p = 0" "stdout p = Inr (JObj doc)"
      "check_provenance (JObj doc) ref (Some al) (read_sbom sw (mkdtemp sw (''out-'' @ al @ ''-''))) = Some []"
      "evaluate doc al es day ts lbl = Some r" "findings r = []" "al \<in> set SCAN_STRICT \<or> is_own_build (Some al) ref \<longrightarrow> ts = None"
    unfolding target_clean_def t prod.case by auto
  from c(4) have "proven (JObj doc) ref (Some al) (read_sbom sw (mkdtemp sw (''out-'' @ al @ ''-'')))" by (simp add: check_provenance_proven)
  with c scan_world_ran evaluate_covered [OF c(5) _ c(6)] show ?thesis unfolding covered_image_def t prod.case by blast
qed

lemma stack_scan_green_lemma:
  assumes "cmd_scan w sw h = (h', Inr (record, 0))"
  shows "\<exists>refs sc ex sh es raw root h1. scan_bindings w h = (h, Inr (refs, sc, ex, sh)) \<and> prefix h1 h' \<and>
     exceptions_ok raw (k_now w h div DAY) es \<and> \<not> inside (path_of root) (k_stack w) \<and> \<not> inside (path_of root) (k_repo w) \<and>
     (\<forall>target\<in>set refs. covered_image sw es (k_now w h1 div DAY) sc (root @ ''/db'') target)"
proof -
  from assms obtain refs sc ex sh es root h1 p where
    c: "scan_bindings w h = (h, Inr (refs, sc, ex, sh))" "scan_entries w h = (h, Inr ([], es))"
      "scan_images sw \<lparr> strict = SCAN_STRICT, scanner = sc, db_dir = root @ ''/db'', entries = es, today = k_now w h1 div DAY \<rparr> refs = Some p"
      "(0 :: int) = (if scan_green p then 0 else 1)" "\<not> inside (path_of root) (k_stack w)" "\<not> inside (path_of root) (k_repo w)"
      "h' = h1 @ [Rmtree root, Write (scan_result_path w) (guards_dumps (JObj record) @ [NL]), Chmod (scan_result_path w) 384]"
    by (rule cmd_scan_Inr)
  from c(4) have g: "scan_green p" by (simp split: if_splits)
  from scan_entries_Inr [OF c(2)] obtain raw where "exception_errors raw (k_now w h div DAY) = ([], es)" by blast
  with exception_errors_cases have "exceptions_ok raw (k_now w h div DAY) es" by blast
  moreover have "covered_image sw es (k_now w h1 div DAY) sc (root @ ''/db'') target" if "target \<in> set refs" for target
    using clean_covered [OF scan_images_green [OF c(3) g that]] .
  moreover have "prefix h1 h'" using c(7) by simp
  ultimately show ?thesis using c(1,5,6) by blast
qed


section \<open>The result of a scan before the gate\<close>

lemma map_of_filter_key: "map_of (filter (\<lambda>x. fst x = k) ys) k = map_of ys k"
  by (induction ys) auto

lemma map_of_sort_key: "map_of (sort_key fst xs) k = map_of xs k"
  using map_of_filter_key [of k "sort_key fst xs"] map_of_filter_key [of k xs] by (simp add: sort_key_stable)

lemma dget_sorted: "dget (sort_key fst (map (\<lambda>(k, v). (k, f v)) d)) k = (case map_of d k of None \<Rightarrow> JNull | Some v \<Rightarrow> f v)"
  by (simp add: dget_def map_of_sort_key map_of_map split: option.split)

definition second_of :: "int \<Rightarrow> int" where
  "second_of t = t div 1000000 * 1000000"

definition in_calendar :: "int \<Rightarrow> bool" where
  "in_calendar t \<longleftrightarrow> DAY \<le> t \<and> t < (MAX_ORD + 1) * DAY"

lemma pad_2: "\<exists>a b. pad 2 n = [a, b] \<and> is_digit a \<and> is_digit b"
  using pad_digits [of 2 n] length_pad [of 2 n] by (auto simp: length_Suc_conv numeral_eq_Suc)

lemma pad_4: "\<exists>a b c d. pad 4 n = [a, b, c, d] \<and> is_digit a \<and> is_digit b \<and> is_digit c \<and> is_digit d"
  using pad_digits [of 4 n] length_pad [of 4 n] by (auto simp: length_Suc_conv numeral_eq_Suc)

lemma stamp_groups:
  assumes "list_all is_digit [y1, y2, y3, y4, m1, m2, d1, d2, h1, h2, i1, i2, s1, s2]"
  defines "t \<equiv> [y1, y2, y3, y4] @ ''-'' @ [m1, m2] @ ''-'' @ [d1, d2] @ ''T'' @ [h1, h2] @ '':'' @ [i1, i2] @ '':'' @ [s1, s2] @ ''Z''"
  shows "fullmatches SCANNED_AT_RE t" "\<exists>c. re_fullmatch ISO_RE t = Some c \<and> group_text c 1 = [y1, y2, y3, y4] \<and> group_text c 2 = [m1, m2] \<and>
     group_text c 3 = [d1, d2] \<and> group_text c 4 = [h1, h2] \<and> group_text c 5 = [i1, i2] \<and> group_text c 6 = [s1, s2] \<and> group c 7 = None \<and> group c 8 = None"
  using assms(1) unfolding t_def
  by (simp_all add: re_fullmatch_def SCANNED_AT_RE_def ISO_RE_def rx_ymd_def rx_hms_def rx_zone_def rdigit_def rchr_def ropt_def rplus_def
      numeral_eq_Suc group_text_def group_def)

lemma stamp_read:
  assumes "in_calendar t"
  shows "scanned_at_of (JStr (time_stamp t)) = Some (Some (second_of t))"
proof -
  define s where "s = t mod DAY div 1000000"
  have s: "0 \<le> s" "s < 86400" by (auto simp: s_def DAY_def intro: div_int_pos_iff [THEN iffD2])
  have "1 \<le> t div DAY" "t div DAY \<le> MAX_ORD" using assms by (auto simp: in_calendar_def DAY_def)
  from ord_is_ymd [OF this] obtain y m d where v: "valid_ymd y m d" "ymd_ord y m d = t div DAY" .
  have i: "isoformat (t div DAY) = pad 4 y @ ''-'' @ pad 2 m @ ''-'' @ pad 2 d" using ord_ymd_of_ymd [OF v(1)] v(2) by (simp add: isoformat_def)
  have r: "0 \<le> y" "y < 10 ^ 4" "0 \<le> m" "m < 10 ^ 2" "0 \<le> d" "d < 10 ^ 2" using v(1) by (auto simp: valid_ymd_def days_in_month_def split: if_splits)
  let ?h = "s div 3600" and ?i = "s div 60 mod 60" and ?c = "s mod 60"
  have q: "0 \<le> ?h" "?h \<le> 23" "0 \<le> ?i" "?i \<le> 59" "0 \<le> ?c" "?c \<le> 59" using s by auto
  have vals: "digits_val (pad 4 y) = y" "digits_val (pad 2 m) = m" "digits_val (pad 2 d) = d" "digits_val (pad 2 ?h) = ?h" "digits_val (pad 2 ?i) = ?i" "digits_val (pad 2 ?c) = ?c"
    using r q by (auto intro!: digits_val_pad)
  obtain y1 y2 y3 y4 where py: "pad 4 y = [y1, y2, y3, y4]" "is_digit y1" "is_digit y2" "is_digit y3" "is_digit y4" using pad_4 [of y] by blast
  obtain m1 m2 where pm: "pad 2 m = [m1, m2]" "is_digit m1" "is_digit m2" using pad_2 [of m] by blast
  obtain d1 d2 where pd: "pad 2 d = [d1, d2]" "is_digit d1" "is_digit d2" using pad_2 [of d] by blast
  obtain h1 h2 where ph: "pad 2 ?h = [h1, h2]" "is_digit h1" "is_digit h2" using pad_2 [of ?h] by blast
  obtain i1 i2 where pi: "pad 2 ?i = [i1, i2]" "is_digit i1" "is_digit i2" using pad_2 [of ?i] by blast
  obtain c1 c2 where pc: "pad 2 ?c = [c1, c2]" "is_digit c1" "is_digit c2" using pad_2 [of ?c] by blast
  have stamp: "time_stamp t = [y1, y2, y3, y4] @ ''-'' @ [m1, m2] @ ''-'' @ [d1, d2] @ ''T'' @ [h1, h2] @ '':'' @ [i1, i2] @ '':'' @ [c1, c2] @ ''Z''"
    unfolding time_stamp_def Let_def s_def [symmetric] i py pm pd ph pi pc by simp
  have dig: "list_all is_digit [y1, y2, y3, y4, m1, m2, d1, d2, h1, h2, i1, i2, c1, c2]" using py pm pd ph pi pc by simp
  from stamp_groups [OF dig] obtain c where g: "fullmatches SCANNED_AT_RE (time_stamp t)" "re_fullmatch ISO_RE (time_stamp t) = Some c"
    "group_text c 1 = [y1, y2, y3, y4]" "group_text c 2 = [m1, m2]" "group_text c 3 = [d1, d2]" "group_text c 4 = [h1, h2]" "group_text c 5 = [i1, i2]"
    "group_text c 6 = [c1, c2]" "group c 7 = None" "group c 8 = None" unfolding stamp by blast
  have h: "?h = s div 60 div 60" by (simp add: zdiv_zmult2_eq [of 60 s 60, simplified])
  have "?h * 60 + ?i = s div 60" unfolding h by simp
  then have clock: "(?h * 60 + ?i) * 60 + ?c = s" by (metis div_mult_mod_eq)
  have "t mod DAY div 1000000 * 1000000 + t div DAY * DAY = second_of t" 
  proof -
    have "t div 1000000 = (t mod DAY + t div DAY * 86400 * 1000000) div 1000000" using div_mult_mod_eq [of t DAY] by (simp add: DAY_def algebra_simps)
    also have "\<dots> = t div DAY * 86400 + t mod DAY div 1000000" by (rule div_mult_self1) simp
    finally have "second_of t = (t div DAY * 86400 + t mod DAY div 1000000) * 1000000" by (simp only: second_of_def)
    then show ?thesis by (simp add: DAY_def algebra_simps)
  qed
  then have st: "t div DAY * DAY + s * 1000000 = second_of t" by (simp add: s_def)
  have range: "DAY \<le> second_of t" "second_of t < (MAX_ORD + 1) * DAY"
    using assms by (auto simp: in_calendar_def second_of_def DAY_def MAX_ORD_def)
  have "ymd_date y m d = Some (t div DAY)" using v by (simp add: ymd_date_def)
  moreover have "hms ?h ?i ?c = Some (s * 1000000)" unfolding hms_def using q clock by simp
  moreover have "micro_of None = 0" by (simp add: micro_of_def digits_val_def digit_val_def ccode_def)
  ultimately have "parse_utc (JStr (time_stamp t)) = Some (Some (second_of t))"
    using g vals st range unfolding parse_utc_def py pm pd ph pi pc by (simp add: zone_minutes_def Let_def)
  with g(1) show ?thesis by (simp add: scanned_at_of_def)
qed

lemma sorted_record:
  assumes "JObj d = sort_json (JObj r)"
  shows "dget d k = sort_json (dget r k)" "set (dkeys d) = set (dkeys r)"
proof -
  from assms have d: "d = sort_key fst (map (\<lambda>(k, v). (k, sort_json v)) r)" by simp
  show "dget d k = sort_json (dget r k)" unfolding d dget_sorted by (simp add: dget_def split: option.split)
  show "set (dkeys d) = set (dkeys r)" unfolding d dkeys_def by force
qed

lemma record_fields:
  defines "r at b p \<equiv> scan_record at b p"
  shows "dkeys (r at b p) = SCAN_RESULT_KEYS"
    "dget (r at (refs, sc, ex, sh) p) ''schema'' = JInt 1" "dget (r at (refs, sc, ex, sh) p) ''scanner'' = JStr sc"
    "dget (r at (refs, sc, ex, sh) p) ''exceptions_sha256'' = JStr ex" "dget (r at (refs, sc, ex, sh) p) ''image_scan_sha256'' = JStr sh"
    "dget (r at (refs, sc, ex, sh) p) ''refs'' = JObj (map (\<lambda>(name, ref). (name, JStr ref)) refs)"
    "dget (r at b p) ''scanned_at'' = JStr (time_stamp at)" "dget (r at b p) ''db_built'' = JStr (p_built p)"
    "dget (r at b p) ''untrusted'' = JList (map JStr (p_untrusted p))" "dget (r at b p) ''findings'' = JList (p_findings p)"
    "dget (r at b p) ''excepted'' = JList (p_excepted p)" "dget (r at b p) ''verdict'' = JStr (if scan_green p then ''green'' else ''red'')"
  by (cases b; simp add: r_def scan_record_def dget_def dkeys_def SCAN_RESULT_KEYS_def SCAN_RESULT_SCHEMA_def)+

lemma sorted_refs: "sort_json (JObj (map (\<lambda>(name, ref). (name, JStr ref)) refs)) = JObj (sort_key fst (map (\<lambda>(name, ref). (name, JStr ref)) refs))"
  by (simp add: o_def case_prod_unfold)

lemma bound_record:
  assumes "JObj d = sort_json (JObj (scan_record at (refs, sc, ex, sh) p))" "hex64 ex" "hex64 sh"
  shows "bound_to d refs sc ex sh"
proof -
  note f = sorted_record [OF assms(1)]
  have "\<exists>recorded. dget d ''refs'' = JObj recorded \<and> map_of recorded = map_option JStr \<circ> map_of refs"
    unfolding f(1) record_fields sorted_refs by (auto simp: map_of_sort_key map_of_map fun_eq_iff)
  with assms(2,3) show ?thesis unfolding bound_to_def f record_fields by (auto simp: hex64_def)
qed

lemma clean_record:
  assumes "JObj d = sort_json (JObj (scan_record at b p))"
  shows "clean_result d now \<longleftrightarrow> scan_green p \<and> (\<forall>item\<in>set (p_excepted p). \<exists>through. through_of (sort_json item) = Some through \<and> now div DAY \<le> through)"
  unfolding clean_result_def sorted_record(1) [OF assms] record_fields by (auto simp: scan_green_def)

lemma window_record:
  assumes "JObj d = sort_json (JObj (scan_record at b p))" "in_calendar at"
  shows "in_window d now \<longleftrightarrow> (\<exists>built. parse_utc (JStr (p_built p)) = Some (Some built) \<and> built \<le> second_of at) \<and> second_of at \<le> now \<and> now \<le> second_of at + 24 * 3600 * 1000000"
  unfolding in_window_def sorted_record(1) [OF assms(1)] record_fields by (auto simp: stamp_read [OF assms(2)])

lemma jtry_jfail_Inr: "jtry m (\<lambda>e. Some (jfail t)) h = (h', Inr a) \<Longrightarrow> m h = (h', Inr a)"
  by (auto simp: jtry_def split: prod.splits sum.splits)

lemma binding_hashes:
  assumes "scan_bindings w h = (h', Inr (refs, sc, ex, sh))" "\<And>v. hex64 (k_sha w v)"
  shows "hex64 ex \<and> hex64 sh"
proof -
  from assms(1) obtain b h1 h2 h3 h4 where "file_hash w (in_repo w STACK_EXCEPTIONS_PATH) h1 = (h2, Inr ex)" "file_hash w (in_repo w SCAN_MODULE_PATH) h3 = (h4, Inr sh)"
    unfolding scan_bindings_def by (auto dest!: jtry_jfail_Inr)
  with assms(2) show ?thesis by (auto simp: file_hash_def)
qed

lemma scan_then_gate_lemma:
  assumes "cmd_scan w sw h0 = (h', Inr (record, code))" "\<And>v. hex64 (k_sha w v)"
    and "stored_result v g d" "JObj d = sort_json (JObj record)" "scan_bindings w h0 = (h0, b)" "scan_bindings v g = (g, b)"
    and "\<And>h. in_calendar (k_now w h)" 
  shows "\<exists>at. scanned_at_of (dget record ''scanned_at'') = Some (Some at) \<and> at \<in> second_of ` range (k_now w) \<and>
     (freshness_problems v g = (g, Inr []) \<longleftrightarrow>
        code = 0 \<and> (\<exists>built. parse_utc (dget record ''db_built'') = Some (Some built) \<and> built \<le> at) \<and>
        at \<le> k_now v g \<and> k_now v g \<le> at + 24 * 3600 * 1000000 \<and>
        (\<exists>items. dget record ''excepted'' = JList items \<and>
           set items \<subseteq> {item. \<exists>through. through_of (sort_json item) = Some through \<and> k_now v g div DAY \<le> through}))"
proof -
  from assms(1) obtain refs sc ex sh h1 p where
    c: "scan_bindings w h0 = (h0, Inr (refs, sc, ex, sh))" "record = scan_record (k_now w h1) (refs, sc, ex, sh) p" "code = (if scan_green p then 0 else 1)"
    by (rule cmd_scan_Inr)
  let ?at = "k_now w h1"
  have b: "b = Inr (refs, sc, ex, sh)" using c(1) assms(5) by simp
  note d = assms(4) [unfolded c(2)]
  have hex: "hex64 ex" "hex64 sh" using binding_hashes [OF c(1) assms(2)] by auto
  have unique: "stored_result v g d' \<Longrightarrow> d' = d" for d' using assms(3) by (auto simp: stored_result_def)
  have bound: "bound_to d refs sc ex sh" by (rule bound_record [OF d hex])
  have "scan_allows v g \<longleftrightarrow> clean_result d (k_now v g) \<and> in_window d (k_now v g)" (is "?l = ?r")
  proof
    assume ?l
    then obtain d' where "stored_result v g d'" "clean_result d' (k_now v g)" "in_window d' (k_now v g)" unfolding scan_allows_def by blast
    with unique show ?r by blast
  next
    assume ?r
    with assms(3,6) bound show ?l unfolding scan_allows_def b by blast
  qed
  then have "freshness_problems v g = (g, Inr []) \<longleftrightarrow> clean_result d (k_now v g) \<and> in_window d (k_now v g)" by (simp only: freshness_exact_lemma)
  then show ?thesis unfolding clean_record [OF d] window_record [OF d assms(7)] c(2,3) record_fields stamp_read [OF assms(7)]
    by (intro exI [of _ "second_of ?at"] conjI) (auto simp: subset_iff)
qed

section \<open>Guarantees\<close>



end
