(* ===== verification/Spec2Isabelle.thy ===== *)
theory Spec2Isabelle
  imports Stack_Guarantees Verify_Reports Freshness Caddy_Guard Scan_Compare Inspect_Guard Zap_Policy Ci_Guards Release_Runs
    Stack_Vault Stack_Operations Stack_Scan_Gate
begin

text \<open>
  Verification of the guards between a change of the Decisya repository and a running stack. The repository holds an
  application and, in Python, the tools that decide what may be released, scanned, deployed and started. This development
  models those tools and proves what their acceptance means.

  \<^bold>\<open>The program.\<close> A release job (\<^verbatim>\<open>.github/scripts/release_images.py\<close>) builds the application's images, inspects, pushes,
  signs and verifies them, one process per subcommand, with hashes handed from job to job. A scan job
  (\<^verbatim>\<open>.github/scripts/image_scan.py\<close>) judges the scanner's findings against a file of exceptions. On the deployment
  host \<^verbatim>\<open>deploy/compose/stackctl.py\<close> assembles a stack folder from the clone, generates and rotates its secrets, scans
  its images, checks everything and starts it; every rule it applies is a function of \<^verbatim>\<open>deploy/compose/stackguards.py\<close>.
  Smaller gates judge a ZAP report (\<^verbatim>\<open>.github/scripts/zap_policy.py\<close>, \<^verbatim>\<open>.github/zap/hook.py\<close>), the SPA's package files
  (\<^verbatim>\<open>.github/scripts/spa_package_guard.py\<close>) and the dependency audit itself (\<^verbatim>\<open>.github/scripts/dependency_canary.py\<close>).

  \<^bold>\<open>Theories.\<close>
  \<^item> The language: Py_Prelude (strings, results, problems as lists of messages), Py_Regex (a backtracking matcher
    for the patterns used, and the language a plain pattern describes), Py_Json (values of \<^verbatim>\<open>json.loads\<close>, truth value, text, numbers),
    Py_Net (\<^verbatim>\<open>ipaddress\<close>), Py_Path (\<^verbatim>\<open>pathlib\<close>), Py_Url (\<^verbatim>\<open>urlsplit\<close>), Py_Time (dates and times), Py_Clock (times printed).
  \<^item> The guards, \<^verbatim>\<open>stackguards.py\<close>: Stack_Tables (its tables), Stack_Env (the environment file), Stack_Service, Stack_Access
    and Stack_Runtime (the rules on one service), Stack_Config (\<^verbatim>\<open>config_problems\<close>), Stack_Guarantees (what an accepted
    configuration guarantees), Caddy_Guard (the edge), Inspect_Guard (the running containers), Verify_Reports (the identity
    and key-ring reports), Freshness (the gate on the scan result).
  \<^item> The operator's wrapper, \<^verbatim>\<open>stackctl.py\<close>: Jobs (programs over a history of events), Stack_Runner (the host, docker,
    Compose, the key-ring containers), Stack_Secrets and Stack_Vault (the secret files and the store they stand for),
    Stack_Check (checks, freshness gate, identity check, verify), Stack_Scan (\<^verbatim>\<open>stackctl scan\<close>) and Stack_Scan_Gate (what it guarantees), Stack_Commands (the commands and \<^verbatim>\<open>main\<close>),
    Stack_Operations (their guarantees).
  \<^item> The scan, \<^verbatim>\<open>image_scan.py\<close>: Exception_File (the schema both exceptions files share), Scan_Inputs, Scan_Policy, Scan_Runs,
    Scan_Compare.
  \<^item> The release, \<^verbatim>\<open>release_images.py\<close>: Release_Images (contexts, pins, archives, checks of an image), Release_Jobs (the
    subcommands), Release_Guarantees, Release_Runs (complete runs on a small host).
  \<^item> The small gates: Zap_Policy, Ci_Guards.

  \<^bold>\<open>Correspondence.\<close> A function of the source is a definition of the same name, without a leading underscore; a local
  step that needs a name has one of its own beside it. Constants keep their names; where two modules use one name, the
  definition has a prefix (\<^verbatim>\<open>RELEASE_REF_RE\<close>, \<^verbatim>\<open>STACK_EXCEPTIONS_PATH\<close>). A dict is an association list in insertion order, so duplicates
  and orders are those of Python; a list of problems is a \<^typ>\<open>string list\<close> in the order of the source. A function that may raise returns an
  option (any exception) or a sum (the message of the module's own error). A command with effects is a job: it maps a history of events
  (a process run, a file written, a mode set, a pause) to a longer one and a result or an error; what the files and docker answer is a
  function of the history, given by a record of the host, so other processes may act in between.

  \<^bold>\<open>What is proved.\<close> For the guards: an accepted configuration is isolated, mounts, publishes and reveals exactly what the tables
  say; an accepted edge passes to Keycloak and to the API exactly the listed paths and sources; an accepted freshness record is bound to
  the clone and the images, clean and at most a day old. For the wrapper: \<^verbatim>\<open>up\<close> runs nothing before the gate and starts nothing before every check,
  the volume is prepared right before the services start, the identity database is dropped under its conditions only, a reset starts nothing, the
  secret commands refine operations on an abstract store and keep its invariant, an interruption is reported or not, waiting ends, a scan that exits with zero covered
    every image of the stack, and its record passes the gate exactly while it should. For the scan
  and the ZAP gate: green means that every finding that blocks has an exception in force, on trusted results only. For the release: what is
  pushed is what was inspected, and a successful verification made every positive and negative proof.

  \<^bold>\<open>Interfaces.\<close> Rules that several guards share are locales, each interpreted on the code's definitions in the theory that provides
  them: the loops that stay clean only if every step was (Scan_Compare), the two exceptions files (Exception_File), and those named in
  their theories.

  \<^bold>\<open>Bounds.\<close> No loop of the model needs fuel except two of the wrapper. The wait for a healthy service has \<^verbatim>\<open>seconds div 2 + 2\<close> rounds; a round that
  does not answer pauses two seconds, so the deadline is reached first (\<^verbatim>\<open>wait_healthy_ends\<close>). The export of the root certificate has the 30
  attempts of the source. The regular expressions are matched by structural recursion on a measure.

  \<^bold>\<open>Assumptions.\<close> Text is a list of characters below 256. JSON holds no NaN or infinity, and equality of JSON values is structural
  (Python's \<^verbatim>\<open>1 == True == 1.0\<close> is not followed). Hashes, HMAC, random values, the decoding of bytes and JSON, docker, git and the
  registries are arguments; a property that needs a fact about one of them (a SHA-256 is 64 hex digits, random letters are letters) has it as a hypothesis
  and a witness on concrete functions. The class of an exception that nothing in the code names is an argument. \<^verbatim>\<open>urlsplit\<close> checks
  brackets and \<^verbatim>\<open>b64decode\<close> refuses excess padding as the newer Python versions do.

  \<^bold>\<open>Not modelled.\<close> The text of progress messages and the protected log (no decision reads them); argument parsing; the timeouts of processes (a
  timeout is an answer of the host); the interior of the atomic file write; a removal that fails; a secrets path that is not a folder. Outside the
  development are \<^verbatim>\<open>caddy_image.py\<close> (the build of the self-built edge image), \<^verbatim>\<open>fullstack.py\<close> (the CI run of the whole stack), the sandbox scripts of the
  development container, the C# and TypeScript application, the workflows and the test suites, which are configuration, glue or another language.
\<close>

end
